(* ===== verification/Prelude.thy ===== *)
theory Prelude
  imports Main "HOL-Library.List_Lexorder" "HOL-Library.Char_ord"
begin

text \<open>
  What every component of the development shares: results of fallible Go functions and their
  sequencing, a database transaction, \<open>int64\<close> arithmetic, JSON columns, and tables of rows
  with a primary key together with the lookup and update laws the component proofs use.
\<close>

named_theorems store_simps \<open>unfolding rules of the persistence operations\<close>
named_theorems frame_simps \<open>what an operation leaves unchanged\<close>

section \<open>Fallible results\<close>

text \<open>
  A Go function that returns a value and an \<open>error\<close> is a value of a sum type, the error on the
  left. \<open>bindE\<close> is the sequence \<open>x, err := f(); if err != nil \{ return err \}; ...\<close>.
\<close>

fun bindE :: "'e + 'a \<Rightarrow> ('a \<Rightarrow> 'e + 'b) \<Rightarrow> 'e + 'b" where
  "bindE (Inl e) f = Inl e"
| "bindE (Inr x) f = f x"

lemma bindE_Inr_iff: "bindE m f = Inr y \<longleftrightarrow> (\<exists>x. m = Inr x \<and> f x = Inr y)"
  by (cases m) auto

lemma bindE_Inl_iff: "bindE m f = Inl e \<longleftrightarrow> m = Inl e \<or> (\<exists>x. m = Inr x \<and> f x = Inl e)"
  by (cases m) auto

lemma if_Inl_eq_Inr: "(if b then Inl e else m) = Inr y \<longleftrightarrow> \<not> b \<and> m = Inr y"
  by simp

lemma if_Inr_eq_Inl: "(if b then m else Inl e) = Inr y \<longleftrightarrow> b \<and> m = Inr y"
  by simp

lemmas result_simps = bindE_Inr_iff if_Inl_eq_Inr if_Inr_eq_Inl

text \<open>
  A transaction whose error the code drops (\<open>_ = s.st.Tx(...)\<close>): the body's writes are kept when
  it commits and rolled back when it returns an error.
\<close>

definition tx_or_keep :: "'s \<Rightarrow> 'e + 's \<Rightarrow> 's" where
  "tx_or_keep s r = (case r of Inl _ \<Rightarrow> s | Inr s' \<Rightarrow> s')"

lemma tx_or_keep_simps [simp]: "tx_or_keep s (Inl e) = s" "tx_or_keep s (Inr s') = s'"
  by (simp_all add: tx_or_keep_def)

lemma tx_or_keep_cases:
  "(r = Inr (tx_or_keep s r) \<Longrightarrow> P) \<Longrightarrow> (tx_or_keep s r = s \<Longrightarrow> P) \<Longrightarrow> P"
  by (cases r) auto

definition is_ok :: "'e + 'a \<Rightarrow> bool" where
  "is_ok r = (case r of Inl _ \<Rightarrow> False | Inr _ \<Rightarrow> True)"

lemma is_ok_simps [simp]: "\<not> is_ok (Inl e)" "is_ok (Inr x)"
  by (simp_all add: is_ok_def)

lemma is_ok_iff: "is_ok r \<longleftrightarrow> (\<exists>x. r = Inr x)"
  by (cases r) auto

section \<open>int64 arithmetic\<close>

text \<open>Go's \<open>int64\<close> wraps around in two's complement; \<open>i64\<close> is the value after the wrap.\<close>

definition i64 :: "int \<Rightarrow> int" where
  "i64 x = (x + 9223372036854775808) mod 18446744073709551616 - 9223372036854775808"

definition in_i64 :: "int \<Rightarrow> bool" where
  "in_i64 x \<longleftrightarrow> - 9223372036854775808 \<le> x \<and> x \<le> 9223372036854775807"

lemma i64_id [simp]: "in_i64 x \<Longrightarrow> i64 x = x"
  by (simp add: i64_def in_i64_def)

lemma in_i64_i64 [simp]: "in_i64 (i64 x)"
proof -
  have "0 \<le> (x + 9223372036854775808) mod 18446744073709551616"
    and "(x + 9223372036854775808) mod 18446744073709551616 < 18446744073709551616"
    by simp_all
  then show ?thesis unfolding in_i64_def i64_def by linarith
qed

lemma i64_add_i64: "i64 (i64 x + y) = i64 (x + y)"
proof -
  define b where "b = x + 9223372036854775808"
  have "i64 x + y + 9223372036854775808 = b mod 18446744073709551616 + y"
    by (simp add: i64_def b_def)
  then have "(i64 x + y + 9223372036854775808) mod 18446744073709551616 =
      (b + y) mod 18446744073709551616"
    by (simp only: mod_add_left_eq)
  moreover have "b + y = x + y + 9223372036854775808" by (simp add: b_def)
  ultimately show ?thesis
    unfolding i64_def [of "i64 x + y"] i64_def [of "x + y"] by simp
qed

text \<open>Go's integer division truncates towards zero.\<close>

definition go_div :: "int \<Rightarrow> int \<Rightarrow> int" where
  "go_div a b = sgn a * sgn b * (\<bar>a\<bar> div \<bar>b\<bar>)"

lemma go_div_nonneg [simp]: "0 \<le> a \<Longrightarrow> 0 < b \<Longrightarrow> go_div a b = a div b"
  by (cases "a = 0") (simp_all add: go_div_def)

text \<open>\<open>time.Duration\<close> counts nanoseconds; \<open>Milliseconds()\<close> truncates.\<close>

definition ms :: int where "ms = 1000000"
definition sec :: int where "sec = 1000000000"

definition milliseconds :: "int \<Rightarrow> int" where
  "milliseconds d = go_div d ms"

section \<open>JSON columns\<close>

text \<open>
  A \<open>json.RawMessage\<close> column is modelled by what \<open>json.Unmarshal\<close> at its use sites yields: no
  bytes at all (\<open>BNil\<close>, a SQL NULL), bytes the decoder rejects (\<open>BBad\<close>), or a decoded value.
  \<open>json.Marshal\<close> of a value is \<open>BVal\<close> of it.
\<close>

datatype 'a blob = BNil | BBad | BVal 'a

text \<open>A JSON document the kernel stores verbatim, or reads key by key.\<close>

datatype json =
  JNull | JBool bool | JNum int | JReal string | JStr string
| JArr "json list" | JObj "(string \<times> json) list"

definition blob_or :: "'a blob \<Rightarrow> 'a blob \<Rightarrow> 'a blob" where
  "blob_or new old = (case new of BNil \<Rightarrow> old | _ \<Rightarrow> new)"

section \<open>Tables with a primary key\<close>

definition tget :: "('r \<Rightarrow> 'k) \<Rightarrow> 'k \<Rightarrow> 'r list \<Rightarrow> 'r option" where
  "tget key k t = find (\<lambda>r. key r = k) t"

definition tupd :: "('r \<Rightarrow> 'k) \<Rightarrow> 'k \<Rightarrow> ('r \<Rightarrow> 'r) \<Rightarrow> 'r list \<Rightarrow> 'r list" where
  "tupd key k f t = map (\<lambda>r. if key r = k then f r else r) t"

definition tdel :: "('r \<Rightarrow> 'k) \<Rightarrow> 'k \<Rightarrow> 'r list \<Rightarrow> 'r list" where
  "tdel key k t = filter (\<lambda>r. key r \<noteq> k) t"

definition keeps_key :: "('r \<Rightarrow> 'k) \<Rightarrow> ('r \<Rightarrow> 'r) \<Rightarrow> bool" where
  "keeps_key key f \<longleftrightarrow> (\<forall>r. key (f r) = key r)"

lemma keeps_keyD: "keeps_key key f \<Longrightarrow> key (f r) = key r"
  by (simp add: keeps_key_def)

lemma tget_Nil [simp]: "tget key k [] = None"
  by (simp add: tget_def)

lemma tget_Cons [simp]: "tget key k (r # t) = (if key r = k then Some r else tget key k t)"
  by (simp add: tget_def)

lemma tget_append: "tget key k (t @ u) = (case tget key k t of None \<Rightarrow> tget key k u | Some r \<Rightarrow> Some r)"
  by (induction t) auto

lemma tget_SomeD: "tget key k t = Some r \<Longrightarrow> r \<in> set t \<and> key r = k"
  by (induction t) (auto split: if_splits)

lemma tget_None_iff: "tget key k t = None \<longleftrightarrow> k \<notin> key ` set t"
  by (induction t) auto

lemma tget_of_mem: "distinct (map key t) \<Longrightarrow> r \<in> set t \<Longrightarrow> tget key (key r) t = Some r"
  by (induction t) auto

lemma tupd_Nil [simp]: "tupd key k f [] = []"
  by (simp add: tupd_def)

lemma tupd_Cons [simp]: "tupd key k f (r # t) = (if key r = k then f r else r) # tupd key k f t"
  by (simp add: tupd_def)

lemma tget_tupd:
  "keeps_key key f \<Longrightarrow>
    tget key j (tupd key k f t) = (if j = k then map_option f (tget key k t) else tget key j t)"
  by (induction t) (auto simp: keeps_keyD)

lemma map_key_tupd [simp]: "keeps_key key f \<Longrightarrow> map key (tupd key k f t) = map key t"
  by (induction t) (auto simp: keeps_keyD)

lemma keys_tupd: "keeps_key key f \<Longrightarrow> key ` set (tupd key k f t) = key ` set t"
  by (metis map_key_tupd list.set_map)

lemma tupd_mem: "r \<in> set (tupd key k f t) \<longleftrightarrow>
    (\<exists>r0 \<in> set t. r = (if key r0 = k then f r0 else r0))"
  by (simp only: tupd_def set_map image_iff)

lemma tget_tdel: "tget key j (tdel key k t) = (if j = k then None else tget key j t)"
  by (induction t) (auto simp: tdel_def)

lemma distinct_key_eqD:
  "distinct (map key t) \<Longrightarrow> r1 \<in> set t \<Longrightarrow> r2 \<in> set t \<Longrightarrow> key r1 = key r2 \<Longrightarrow> r1 = r2"
  by (metis option.inject tget_of_mem)

lemma distinct_singleton:
  assumes "distinct xs" and "x \<in> set xs" and "\<And>y. y \<in> set xs \<Longrightarrow> y = x"
  shows "xs = [x]"
proof (cases xs)
  case (Cons a ys)
  then have "a = x" using assms(3) by simp
  moreover have "ys = []" using Cons assms(1,3) by (cases ys) auto
  ultimately show ?thesis using Cons by simp
qed (use assms(2) in simp)

section \<open>Ordered results\<close>

text \<open>
  \<open>sort.Slice\<close> with a total order and SQL's \<open>ORDER BY\<close> are the stable insertion sort of the
  library; where the source leaves ties open, the order of the input is one of the orders allowed.
\<close>

lemma sort_key_Cons_in: "x \<in> set (sort_key f xs) \<longleftrightarrow> x \<in> set xs"
  by simp

lemma sort_key_Nil_iff [simp]: "sort_key f xs = [] \<longleftrightarrow> xs = []"
  by (metis length_0_conv length_sort)

lemma sort_key_hd_min:
  assumes "sort_key f xs = y # ys" and "x \<in> set xs"
  shows "f y \<le> f x"
proof -
  have "sorted (map f (y # ys))" using assms(1) by (metis sorted_sort_key)
  moreover have "x \<in> set (y # ys)" using assms by (metis set_sort)
  ultimately show ?thesis by auto
qed

end
