(* ===== verification/Phase.thy ===== *)
theory Phase
  imports Prelude
begin

text \<open>
  The resource phases and their legal-transition table (internal/phase/phase.go). Deletion is no
  phase: it is the tombstone of the storage layer.
\<close>

datatype phase =
  Unknown | Provisioning | Ready | Allocated | Draining | Deleting | Failed | Orphaned
| Parking | Parked | Starting

fun phase_name :: "phase \<Rightarrow> string" where
  "phase_name Unknown = ''unknown''"
| "phase_name Provisioning = ''provisioning''"
| "phase_name Ready = ''ready''"
| "phase_name Allocated = ''allocated''"
| "phase_name Draining = ''draining''"
| "phase_name Deleting = ''deleting''"
| "phase_name Failed = ''failed''"
| "phase_name Orphaned = ''orphaned''"
| "phase_name Parking = ''parking''"
| "phase_name Parked = ''parked''"
| "phase_name Starting = ''starting''"

definition all_phases :: "phase list" where
  "all_phases = [Unknown, Provisioning, Ready, Allocated, Draining, Deleting, Failed, Orphaned,
     Parking, Parked, Starting]"

definition valid_phase :: "string \<Rightarrow> bool" where
  "valid_phase p = list_ex (\<lambda>q. p = phase_name q) all_phases"

fun transitions :: "phase \<Rightarrow> phase list" where
  "transitions Unknown = [Ready, Orphaned, Deleting]"
| "transitions Provisioning = [Ready, Failed, Orphaned]"
| "transitions Ready = [Allocated, Draining, Orphaned, Deleting, Parking]"
| "transitions Allocated = [Ready, Draining, Orphaned]"
| "transitions Draining = [Ready, Deleting]"
| "transitions Deleting = [Failed]"
| "transitions Failed = [Deleting]"
| "transitions Orphaned = [Ready, Parked]"
| "transitions Parking = [Parked, Ready]"
| "transitions Parked = [Starting, Deleting, Orphaned]"
| "transitions Starting = [Ready, Parked, Failed]"

definition can_transition :: "phase \<Rightarrow> phase \<Rightarrow> bool" where
  "can_transition from to = list_ex (\<lambda>q. q = to) (transitions from)"

lemma can_transition_iff: "can_transition from to \<longleftrightarrow> to \<in> set (transitions from)"
  by (auto simp: can_transition_def list_ex_iff)

lemma set_all_phases: "set all_phases = UNIV"
proof -
  have "p \<in> set all_phases" for p by (cases p) (simp_all add: all_phases_def)
  then show ?thesis by blast
qed

lemma phase_name_inj: "phase_name p = phase_name q \<longleftrightarrow> p = q"
  by (cases p; cases q) simp_all

lemma valid_phase_iff: "valid_phase p \<longleftrightarrow> p \<in> range phase_name"
  by (auto simp: valid_phase_def list_ex_iff set_all_phases)

lemma can_transition_to_Provisioning [simp]: "\<not> can_transition p Provisioning"
  by (cases p) (simp_all add: can_transition_iff)

lemma can_transition_irrefl [simp]: "\<not> can_transition p p"
  by (cases p) (simp_all add: can_transition_iff)

text \<open>
  Deleting machines never come back: every chain of legal transitions that leaves
  \<open>deleting\<close> stays in \<open>deleting\<close> and \<open>failed\<close>.
\<close>

lemma rtranclp_closed:
  assumes "r\<^sup>*\<^sup>* x y" and "x \<in> S" and "\<And>a b. a \<in> S \<Longrightarrow> r a b \<Longrightarrow> b \<in> S"
  shows "y \<in> S"
  using assms(1,2) by (induction rule: rtranclp_induct) (auto dest: assms(3))

text \<open>
  Once a resource is deleting, no sequence of legal phase transitions ever makes it
  schedulable, parked or startable again: it can only be deleting or failed.
\<close>

theorem deleting_is_final:
  assumes "can_transition\<^sup>*\<^sup>* Deleting p"
  shows "p \<in> {Deleting, Failed}"
  using assms by (rule rtranclp_closed) (auto simp: can_transition_iff)

theorem deleting_is_final_witness:
  "can_transition\<^sup>*\<^sup>* Deleting Failed \<and> Failed \<in> {Deleting, Failed}"
proof -
  have h: "can_transition\<^sup>*\<^sup>* Deleting Failed"
    by (rule r_into_rtranclp) (simp add: can_transition_iff)
  show ?thesis using h deleting_is_final [OF h] by simp
qed

end
