(* ===== verification/Provider_SDK.thy ===== *)
theory Provider_SDK
  imports Prelude
begin

text \<open>
  The types the kernel shares with the provider drivers (pkg/sdk/provider): typed errors and how
  the engine classifies them, references, actions, observations, operation states, the billing and
  parking policies and the identity labels.
\<close>

section \<open>Errors (errors.go)\<close>

datatype error_class =
  ErrRetryable | ErrRateLimited | ErrConflict | ErrNotFound | ErrInvalid | ErrQuota | ErrTerminal

datatype side_effect = EffectNone | EffectMaybe

record perror =
  pe_class :: error_class
  pe_side_effect :: side_effect
  pe_retry_after :: int
  pe_message :: string

text \<open>
  Every Go \<open>error\<close> of the modelled code, up to what \<open>errors.Is\<close> and \<open>errors.As\<close> see of it:
  a provider error, one of the sentinel errors of the packages storage, scheduler, provision and
  app, or any other error with its message.
\<close>

datatype err =
  EProv perror
| ENotFound | EConflict | EStale
| EInsufficient | ENoCapacity | EParkUnsupported
| EAlreadyThere | EClassExists | EClassConfigOwned | EIdemMismatch | EInFlight string | EInvalid string
| EOther string

definition classify :: "err \<Rightarrow> error_class" where
  "classify e = (case e of EProv pe \<Rightarrow> pe_class pe | _ \<Rightarrow> ErrRetryable)"

definition is_class :: "err \<Rightarrow> error_class \<Rightarrow> bool" where
  "is_class e c = (classify e = c)"

definition effect :: "err \<Rightarrow> side_effect" where
  "effect e = (case e of
     EProv pe \<Rightarrow> (if pe_side_effect pe = EffectNone then EffectNone else EffectMaybe)
   | _ \<Rightarrow> EffectMaybe)"

definition retry_after_of :: "err \<Rightarrow> int option" where
  "retry_after_of e = (case e of
     EProv pe \<Rightarrow> (if pe_retry_after pe > 0 then Some (pe_retry_after pe) else None)
   | _ \<Rightarrow> None)"

section \<open>References, actions and observations (provider.go)\<close>

record ext_ref =
  ref_id :: string
  ref_extra :: "(string \<times> string) list"

type_synonym labels = "(string \<times> string) list"

type_synonym capacity = "(string \<times> int) list"

record action =
  ac_action_id :: string
  ac_kind :: string
  ac_resource_id :: string
  ac_ref :: "ext_ref option"
  ac_params :: "json blob"
  ac_destructive :: bool

record operation_ref =
  or_action_id :: string
  or_ref :: "ext_ref option"
  or_data :: "json blob"

datatype observed_phase =
  PhasePending | PhaseRunning | PhaseStopped | PhaseDeleting | PhaseGone | PhaseUnknown

record observed_resource =
  ob_ref :: ext_ref
  ob_kind :: string
  ob_fleetplane_id :: string
  ob_create_op_id :: string
  ob_owned :: bool
  ob_phase :: observed_phase
  ob_provider_state :: string
  ob_capacity :: capacity
  ob_addresses :: "(string \<times> string) list"
  ob_labels :: labels
  ob_extensions :: "json blob"

datatype operation_state = PsPending | PsRunning | PsSucceeded | PsFailed | PsUnknown

record operation_status =
  st_state :: operation_state
  st_ref :: "ext_ref option"
  st_resource :: "observed_resource option"
  st_failure :: "perror option"
  st_retry_after :: int

section \<open>Billing and parking policies (billing.go, parking.go)\<close>

text \<open>Durations are nanoseconds, as \<open>time.Duration\<close>.\<close>

record billing_policy =
  bp_minimum :: int
  bp_increment :: int
  bp_buffer :: int

definition fine_grained :: "billing_policy \<Rightarrow> bool" where
  "fine_grained p = (bp_minimum p \<le> 0 \<and> bp_increment p \<le> 0)"

record park_policy =
  pk_supported :: bool
  pk_start_estimate :: int

definition zero_billing :: billing_policy where
  "zero_billing = \<lparr>bp_minimum = 0, bp_increment = 0, bp_buffer = 0\<rparr>"

definition zero_park :: park_policy where
  "zero_park = \<lparr>pk_supported = False, pk_start_estimate = 0\<rparr>"

section \<open>Identity labels (labels.go)\<close>

definition label_managed :: string where "label_managed = ''fleetplane.io/managed''"
definition label_owner :: string where "label_owner = ''fleetplane.io/owner''"
definition label_id :: string where "label_id = ''fleetplane.io/id''"
definition label_op :: string where "label_op = ''fleetplane.io/op''"
definition label_class :: string where "label_class = ''fleetplane.io/class''"

definition identity_labels :: "string \<Rightarrow> string \<Rightarrow> string \<Rightarrow> labels" where
  "identity_labels owner res op =
     [(label_managed, ''true''), (label_owner, owner), (label_id, res), (label_op, op)]"

lemma identity_labels_lookup:
  "map_of (identity_labels owner res op) label_op = Some op"
  "map_of (identity_labels owner res op) label_id = Some res"
  "map_of (identity_labels owner res op) label_owner = Some owner"
  "map_of (identity_labels owner res op) label_managed = Some ''true''"
  by (simp_all add: identity_labels_def label_managed_def label_owner_def label_id_def label_op_def)

end
