(* ===== verification/Capacity.thy ===== *)
theory Capacity
  imports Provider_SDK "HOL-Library.AList" "HOL-Library.Multiset"
begin

text \<open>
  The allocation arithmetic of internal/capacity/capacity.go: capacity vectors of \<open>int64\<close> per
  dimension, the fit test and the best-fit score, and the request payload of an acquisition.
  A Go map is an association list with distinct keys; its iteration order, which Go leaves open,
  is the order of the list.
\<close>

type_synonym vector = "(string \<times> int) list"

definition vget :: "vector \<Rightarrow> string \<Rightarrow> int" where
  "vget v d = (case map_of v d of None \<Rightarrow> 0 | Some x \<Rightarrow> x)"

definition wf_vec :: "vector \<Rightarrow> bool" where
  "wf_vec v \<longleftrightarrow> distinct (map fst v) \<and> list_all (\<lambda>(_, x). in_i64 x) v"

definition nonneg_vec :: "vector \<Rightarrow> bool" where
  "nonneg_vec v \<longleftrightarrow> list_all (\<lambda>(_, x). 0 \<le> x) v"

definition parse_vec :: "vector blob \<Rightarrow> err + vector" where
  "parse_vec raw = (case raw of
     BNil \<Rightarrow> Inr []
   | BBad \<Rightarrow> Inl (EOther ''capacity'')
   | BVal v \<Rightarrow> Inr v)"

text \<open>The request shape \<open>\{"cpu": \{"min": 2\}\}\<close>: dimension and minimum.\<close>

type_synonym constraints = "(string \<times> int) list"

definition want_from_constraints :: "constraints blob \<Rightarrow> err + vector" where
  "want_from_constraints raw = (case raw of
     BNil \<Rightarrow> Inr []
   | BBad \<Rightarrow> Inl (EOther ''constraints'')
   | BVal c \<Rightarrow>
       (if list_ex (\<lambda>(_, m). m < 0) c then Inl (EOther ''constraints: min must be >= 0'')
        else Inr (filter (\<lambda>(_, m). m > 0) c)))"

definition fits :: "vector \<Rightarrow> vector \<Rightarrow> vector \<Rightarrow> bool" where
  "fits tot used want =
     list_all (\<lambda>(d, w). case map_of tot d of
         None \<Rightarrow> False
       | Some t \<Rightarrow> \<not> i64 (t - vget used d) < w) want"

definition free_after :: "vector \<Rightarrow> vector \<Rightarrow> vector \<Rightarrow> int" where
  "free_after tot used want =
     foldl (\<lambda>acc (d, t). i64 (acc + i64 (i64 (t - vget used d) - vget want d))) 0 tot"

text \<open>The loop \<open>for k, v := range lc \{ used[k] += v \}\<close>.\<close>

definition vadd :: "vector \<Rightarrow> vector \<Rightarrow> vector" where
  "vadd used lc = foldl (\<lambda>u (k, v). AList.update k (i64 (vget u k + v)) u) used lc"

record request =
  rq_exclusive :: bool
  rq_constraints :: "constraints blob"
  rq_max_wait_ms :: int

definition zero_request :: request where
  "zero_request = \<lparr>rq_exclusive = False, rq_constraints = BNil, rq_max_wait_ms = 0\<rparr>"

definition parse_request :: "request blob \<Rightarrow> err + request \<times> vector \<times> bool" where
  "parse_request raw =
     bindE (case raw of
         BNil \<Rightarrow> Inr zero_request
       | BBad \<Rightarrow> Inl (EOther ''acquisition constraints'')
       | BVal r \<Rightarrow> Inr r) (\<lambda>req.
     bindE (want_from_constraints (rq_constraints req)) (\<lambda>want.
     Inr (req, want, rq_exclusive req \<or> want = [])))"

section \<open>Lookup laws\<close>

lemma vget_Nil [simp]: "vget [] d = 0"
  by (simp add: vget_def)

lemma vget_update: "vget (AList.update k x v) d = (if d = k then x else vget v d)"
  by (simp add: vget_def update_conv')

lemma wf_vec_Nil [simp]: "wf_vec []" "nonneg_vec []"
  by (simp_all add: wf_vec_def nonneg_vec_def)

lemma wf_vec_in_i64: "wf_vec v \<Longrightarrow> in_i64 (vget v d)"
  by (auto simp: vget_def wf_vec_def list_all_iff in_i64_def split: option.splits dest!: map_of_SomeD)

lemma nonneg_vget: "nonneg_vec v \<Longrightarrow> 0 \<le> vget v d"
  by (auto simp: vget_def nonneg_vec_def list_all_iff split: option.splits dest!: map_of_SomeD)

lemma vget_of_mem: "wf_vec v \<Longrightarrow> (d, x) \<in> set v \<Longrightarrow> vget v d = x"
  by (auto simp: vget_def wf_vec_def)

lemma vadd_Nil [simp]: "vadd u [] = u"
  by (simp add: vadd_def)

lemma vadd_Cons: "vadd u ((k, v) # lc) = vadd (AList.update k (i64 (vget u k + v)) u) lc"
  by (simp add: vadd_def)

text \<open>Adding a vector adds its entry in each dimension, in \<open>int64\<close> arithmetic.\<close>

lemma vget_vadd:
  assumes "wf_vec lc" and "in_i64 (vget u d)"
  shows "vget (vadd u lc) d = i64 (vget u d + vget lc d)"
  using assms
proof (induction lc arbitrary: u)
  case Nil
  then show ?case by simp
next
  case (Cons kv lc)
  obtain k v where kv: "kv = (k, v)" by (cases kv)
  from Cons.prems(1) kv have wf: "wf_vec lc" and k: "k \<notin> fst ` set lc"
    by (auto simp: wf_vec_def)
  let ?u = "AList.update k (i64 (vget u k + v)) u"
  have in64: "in_i64 (vget ?u d)" using Cons.prems(2) by (simp add: vget_update)
  have "vget (vadd u (kv # lc)) d = i64 (vget ?u d + vget lc d)"
    using Cons.IH [OF wf in64] by (simp add: kv vadd_Cons)
  also have "\<dots> = i64 (vget u d + vget (kv # lc) d)"
  proof (cases "d = k")
    case True
    then have "map_of lc d = None" using k by (simp add: map_of_eq_None_iff)
    then have "vget lc d = 0" by (simp add: vget_def)
    with True show ?thesis by (simp add: vget_update kv vget_def [of "(k, v) # lc"])
  next
    case False
    then show ?thesis by (simp add: vget_update kv vget_def [of "(k, v) # lc"] vget_def [of lc])
  qed
  finally show ?case .
qed

lemma wf_vec_update: "wf_vec v \<Longrightarrow> in_i64 x \<Longrightarrow> wf_vec (AList.update k x v)"
  by (induction v) (auto simp: wf_vec_def list_all_iff dom_update)

lemma wf_vec_vadd: "wf_vec u \<Longrightarrow> wf_vec (vadd u lc)"
proof (induction lc arbitrary: u)
  case Nil
  then show ?case by simp
next
  case (Cons kv lc)
  then show ?case by (cases kv) (simp add: vadd_Cons wf_vec_update)
qed

section \<open>The request payload\<close>

lemma want_from_constraints_wf:
  assumes "want_from_constraints raw = Inr want" and "\<And>c. raw = BVal c \<Longrightarrow> wf_vec c"
  shows "wf_vec want \<and> nonneg_vec want"
  using assms
  by (auto simp: want_from_constraints_def wf_vec_def nonneg_vec_def list_all_iff distinct_map_filter
      split: blob.splits if_splits)

lemma want_from_constraints_pos:
  "want_from_constraints raw = Inr want \<Longrightarrow> (d, w) \<in> set want \<Longrightarrow> 0 < w"
  by (auto simp: want_from_constraints_def split: blob.splits if_splits)

lemma parse_request_want:
  "parse_request raw = Inr (req, want, ex) \<Longrightarrow> want_from_constraints (rq_constraints req) = Inr want"
  by (auto simp: parse_request_def result_simps split: blob.splits)

text \<open>
  A request that names no positive capacity is a whole-machine request: it parses as
  exclusive, and a shared request always wants a positive amount of some dimension.
\<close>

theorem parse_request_exclusive:
  assumes "parse_request raw = Inr (req, want, exclusive)"
  shows "(exclusive \<longleftrightarrow> rq_exclusive req \<or> want = []) \<and> (\<forall>x. x \<in> set want \<longrightarrow> 0 < snd x)"
  using assms parse_request_want [OF assms]
  by (auto simp: parse_request_def result_simps want_from_constraints_def split: blob.splits if_splits)

theorem parse_request_exclusive_witness:
  "parse_request (BVal \<lparr>rq_exclusive = False, rq_constraints = BVal [(''cpu'', 0)], rq_max_wait_ms = 5\<rparr>) =
      Inr (\<lparr>rq_exclusive = False, rq_constraints = BVal [(''cpu'', 0)], rq_max_wait_ms = 5\<rparr>, [], True)
   \<and> (True \<longleftrightarrow> False \<or> ([] :: vector) = [])"
proof -
  have h: "parse_request (BVal \<lparr>rq_exclusive = False, rq_constraints = BVal [(''cpu'', 0)], rq_max_wait_ms = 5\<rparr>) =
      Inr (\<lparr>rq_exclusive = False, rq_constraints = BVal [(''cpu'', 0)], rq_max_wait_ms = 5\<rparr>, [], True)"
    by (simp add: parse_request_def want_from_constraints_def)
  show ?thesis using h parse_request_exclusive [OF h] by simp
qed

section \<open>The fit test\<close>

text \<open>
  On non-negative \<open>int64\<close> vectors the subtraction of the fit test cannot wrap, and the test is
  exactly: every requested dimension is tracked by the resource and what is used plus what is
  wanted stays within the total.
\<close>

theorem fits_iff:
  assumes "wf_vec tot" and "wf_vec used" and "nonneg_vec tot" and "nonneg_vec used"
  shows "fits tot used want \<longleftrightarrow>
    (\<forall>(d, w) \<in> set want. \<exists>t. map_of tot d = Some t \<and> vget used d + w \<le> t)"
proof -
  have key: "i64 (t - vget used d) = t - vget used d" if "map_of tot d = Some t" for d t
  proof -
    have "(d, t) \<in> set tot" using that by (rule map_of_SomeD)
    then have "0 \<le> t" and "in_i64 t" using assms(1,3) by (auto simp: wf_vec_def nonneg_vec_def list_all_iff)
    moreover have "0 \<le> vget used d" and "in_i64 (vget used d)"
      using assms(2,4) by (simp_all add: nonneg_vget wf_vec_in_i64)
    ultimately have "in_i64 (t - vget used d)" by (simp add: in_i64_def)
    then show ?thesis by simp
  qed
  show ?thesis
    by (auto simp: fits_def list_all_iff key split: option.splits; force)
qed

theorem fits_iff_witness:
  "wf_vec [(''cpu'', 4)] \<and>
   (fits [(''cpu'', 4)] [(''cpu'', 1)] [(''cpu'', 3)] \<longleftrightarrow>
    (\<forall>(d, w) \<in> set [(''cpu'', 3)]. \<exists>t. map_of [(''cpu'', 4)] d = Some t \<and> vget [(''cpu'', 1)] d + w \<le> t))"
proof -
  have a: "wf_vec [(''cpu'', 4)]" "wf_vec [(''cpu'', 1)]"
    "nonneg_vec [(''cpu'', 4)]" "nonneg_vec [(''cpu'', 1)]"
    by (simp_all add: wf_vec_def nonneg_vec_def in_i64_def)
  show ?thesis using a(1) fits_iff [OF a] by simp
qed

section \<open>The best-fit score\<close>

lemma foldl_i64_sum:
  "foldl (\<lambda>acc (d, t). i64 (acc + i64 (i64 (t - u d) - w d))) (i64 a) tot =
     i64 (a + (\<Sum>(d, t) \<leftarrow> tot. t - u d - w d))"
proof (induction tot arbitrary: a)
  case Nil
  then show ?case by simp
next
  case (Cons dt tot)
  obtain d t where dt: "dt = (d, t)" by (cases dt)
  have "i64 (i64 a + i64 (i64 (t - u d) - w d)) = i64 (a + (t - u d - w d))"
    using i64_add_i64 [of a "i64 (i64 (t - u d) - w d)"]
      i64_add_i64 [of "i64 (t - u d) - w d" a] i64_add_i64 [of "t - u d" "a - w d"]
    by (simp add: algebra_simps)
  then show ?case using Cons.IH [of "a + (t - u d - w d)"] by (simp add: dt algebra_simps)
qed

lemma free_after_sum: "free_after tot used want = i64 (\<Sum>(d, t) \<leftarrow> tot. t - vget used d - vget want d)"
  using foldl_i64_sum [of "vget used" "vget want" 0 tot]
  by (simp add: free_after_def in_i64_def)

text \<open>
  The best-fit score does not depend on the order in which Go iterates over the capacity map:
  any two orders of the same dimensions give the same score, even where the sum wraps around, so
  the scheduler's ranking is deterministic.
\<close>

theorem free_after_order_independent:
  assumes "mset tot = mset tot'"
  shows "free_after tot used want = free_after tot' used want"
proof -
  have "sum_list (map f tot) = sum_list (map f tot')" for f :: "string \<times> int \<Rightarrow> int"
    using assms by (metis mset_map sum_mset_sum_list)
  then show ?thesis by (simp add: free_after_sum)
qed

theorem free_after_order_independent_witness:
  "mset [(''cpu'', 4), (''memoryMiB'', 9)] = mset [(''memoryMiB'', 9), (''cpu'', 4 :: int)] \<and>
   free_after [(''cpu'', 4), (''memoryMiB'', 9)] [(''cpu'', 1)] [] =
   free_after [(''memoryMiB'', 9), (''cpu'', 4)] [(''cpu'', 1)] []"
proof -
  have h: "mset [(''cpu'', 4), (''memoryMiB'', 9)] = mset [(''memoryMiB'', 9), (''cpu'', 4 :: int)]"
    by simp
  show ?thesis using h free_after_order_independent [OF h] by simp
qed

end
