(* ===== verification/Store_Types.thy ===== *)
theory Store_Types
  imports Phase Provider_SDK Capacity
begin

text \<open>
  The persisted records of internal/storage/types.go and the database state: one list of rows per
  table. Times are unix milliseconds.
\<close>

datatype ownership = Managed | Adopted | Observed

datatype op_state =
  OpJournaled | OpInFlight | OpExternalAccepted | OpVerifying | OpUncertain
| OpSucceeded | OpFailed | OpAborted

definition op_terminal :: "op_state \<Rightarrow> bool" where
  "op_terminal s = (s = OpSucceeded \<or> s = OpFailed \<or> s = OpAborted)"

definition non_terminal_op_states :: "op_state list" where
  "non_terminal_op_states = [OpJournaled, OpInFlight, OpExternalAccepted, OpVerifying, OpUncertain]"

datatype op_kind = OpKindCreate | OpKindDelete | OpKindStop | OpKindStart

datatype lease_state = LeaseActive | LeaseReleased | LeaseExpired

datatype acq_state =
  AcqPending | AcqProvisioning | AcqBound | AcqFailed | AcqReleased | AcqExpired

fun acq_state_name :: "acq_state \<Rightarrow> string" where
  "acq_state_name AcqPending = ''pending''"
| "acq_state_name AcqProvisioning = ''provisioning''"
| "acq_state_name AcqBound = ''bound''"
| "acq_state_name AcqFailed = ''failed''"
| "acq_state_name AcqReleased = ''released''"
| "acq_state_name AcqExpired = ''expired''"

definition valid_acq_state :: "string \<Rightarrow> bool" where
  "valid_acq_state s = list_ex (\<lambda>q. s = acq_state_name q)
     [AcqPending, AcqProvisioning, AcqBound, AcqFailed, AcqReleased, AcqExpired]"

record resource =
  r_id :: string
  r_name :: string
  r_kind :: string
  r_provider :: string
  r_class :: string
  r_pool :: "string option"
  r_ownership :: ownership
  r_phase :: phase
  r_external_id :: "string option"
  r_external_ref :: "ext_ref blob"
  r_generation :: int
  r_observed_generation :: int
  r_spec :: "json blob"
  r_extension :: "json blob"
  r_capacity :: "vector blob"
  r_exclusive_alloc :: bool
  r_delete_protected :: bool
  r_labels :: labels
  r_ready_at :: "int option"
  r_last_lease_ended_at :: "int option"
  r_drain_started_at :: "int option"
  r_parked_at :: "int option"
  r_created_at :: int
  r_updated_at :: int
  r_deleted_at :: "int option"

text \<open>An empty string or list field of a filter, and a \<open>None\<close>, select everything.\<close>

record resource_filter =
  f_kind :: string
  f_provider :: string
  f_pool :: "string option"
  f_poolless :: bool
  f_class :: string
  f_phases :: "phase list"
  f_ownership :: "ownership list"
  f_labels :: labels
  f_include_deleted :: bool

definition no_filter :: resource_filter where
  "no_filter = \<lparr>f_kind = [], f_provider = [], f_pool = None, f_poolless = False, f_class = [],
     f_phases = [], f_ownership = [], f_labels = [], f_include_deleted = False\<rparr>"

record snapshot =
  sn_resource :: string
  sn_observed_at :: int
  sn_phase :: observed_phase
  sn_raw :: observed_resource

record operation =
  op_id :: string
  op_idem_scope :: "string option"
  op_idem_key :: "string option"
  op_kind :: op_kind
  op_resource :: "string option"
  op_pool :: "string option"
  op_provider :: string
  op_action :: "action blob"
  op_state :: op_state
  op_attempt :: int
  op_external_op :: "operation_ref blob"
  op_external_ref :: "ext_ref blob"
  op_error_class :: "error_class option"
  op_error :: "err option"
  op_next_attempt_at :: "int option"
  op_verify_deadline_at :: "int option"
  op_created_at :: int
  op_updated_at :: int
  op_terminal_at :: "int option"

record lease =
  l_id :: string
  l_acquisition :: string
  l_resource :: string
  l_holder :: string
  l_capacity :: "vector blob"
  l_exclusive :: bool
  l_state :: lease_state
  l_expires_at :: "int option"
  l_created_at :: int
  l_ended_at :: "int option"

record acquisition =
  a_id :: string
  a_actor :: string
  a_kind :: string
  a_class :: string
  a_constraints :: "request blob"
  a_quantity :: int
  a_ttl_seconds :: int
  a_state :: acq_state
  a_lease :: "string option"
  a_pending_resource :: "string option"
  a_created_at :: int
  a_updated_at :: int

record class_record =
  c_name :: string
  c_kind :: string
  c_provider :: string
  c_spec :: "json blob"
  c_reclaim_idle_after_ms :: "int option"
  c_reclaim_park :: string
  c_reclaim_delete_after_ms :: "int option"
  c_queue_max_wait_ms :: "int option"
  c_source :: string
  c_created_at :: int
  c_updated_at :: int

text \<open>
  The pool spec column is decoded by internal/reconcile into these two records; durations are
  nanoseconds and zero where unset.
\<close>

record reclaim_policy =
  rp_idle_after :: int
  rp_park :: string
  rp_delete_after :: int

record pool_spec =
  ps_class :: string
  ps_replicas :: int
  ps_min_ready :: int
  ps_min_running :: int
  ps_max_resources :: int
  ps_reclaim :: "reclaim_policy option"
  ps_machine :: "json blob option"
  ps_provider :: string
  ps_kind :: string

record pool =
  p_id :: string
  p_name :: string
  p_kind :: string
  p_spec :: "pool_spec blob"
  p_generation :: int
  p_observed_generation :: int
  p_paused :: bool
  p_created_at :: int
  p_updated_at :: int

text \<open>An audit event, without its free-text intent, plan and details documents.\<close>

record event =
  ev_ts :: int
  ev_actor :: string
  ev_idem_key :: string
  ev_type :: string
  ev_resource :: "string option"
  ev_pool :: "string option"
  ev_operation :: "string option"
  ev_provider :: string
  ev_outcome :: string

datatype idem_state = IdemInProgress | IdemCompleted | IdemFailed

record idem_record =
  i_scope :: string
  i_key :: string
  i_request_hash :: string
  i_state :: idem_state
  i_operation :: "string option"
  i_http_status :: int
  i_result :: string
  i_created_at :: int
  i_completed_at :: "int option"
  i_expires_at :: "int option"

datatype begin_outcome = BeginNew | BeginInProgress | BeginCompleted | BeginMismatch

text \<open>The failure-backoff checkpoint a pool has under the controller key \<open>pool:<id>\<close>.\<close>

record checkpoint =
  cp_failure_attempt :: int
  cp_backoff_until :: int

text \<open>
  What the kernel process keeps in memory: the scheduler's queued acquisitions and start-failure
  backoff (until, attempts), the reconciler's missed boundaries and adaptive buffers (buffer,
  computed at). It is a field beside the tables; no transaction touches it.
\<close>

record memory =
  m_queued :: "string list"
  m_start_fail :: "(string \<times> int \<times> int) list"
  m_missed :: "(string \<times> int) list"
  m_adaptive :: "(string \<times> int \<times> int) list"

record db =
  resources :: "resource list"
  snapshots :: "snapshot list"
  pools :: "pool list"
  classes :: "class_record list"
  acquisitions :: "acquisition list"
  leases :: "lease list"
  operations :: "operation list"
  idem :: "idem_record list"
  events :: "event list"
  checkpoints :: "(string \<times> checkpoint) list"
  mem :: memory

definition empty_db :: db where
  "empty_db = \<lparr>resources = [], snapshots = [], pools = [], classes = [], acquisitions = [],
     leases = [], operations = [], idem = [], events = [], checkpoints = [],
     mem = \<lparr>m_queued = [], m_start_fail = [], m_missed = [], m_adaptive = []\<rparr>\<rparr>"

lemma op_terminal_simps [simp]:
  "op_terminal OpSucceeded" "op_terminal OpFailed" "op_terminal OpAborted"
  "\<not> op_terminal OpJournaled" "\<not> op_terminal OpInFlight" "\<not> op_terminal OpExternalAccepted"
  "\<not> op_terminal OpVerifying" "\<not> op_terminal OpUncertain"
  by (simp_all add: op_terminal_def)

lemma non_terminal_iff: "s \<in> set non_terminal_op_states \<longleftrightarrow> \<not> op_terminal s"
  by (cases s) (simp_all add: non_terminal_op_states_def)

end
