(* ===== verification/Store.thy ===== *)
theory Store
  imports Store_Types
begin

text \<open>
  The persistence operations of internal/storage/sqlite, one definition per method, on the database
  state of \<open>Store_Types\<close>. A statement that violates a UNIQUE index, a CHECK or a foreign key is
  \<open>EConflict\<close> (\<open>mapErr\<close>), a read without a row is \<open>ENotFound\<close>, a compare-and-set whose row is not
  in the expected state is \<open>EConflict\<close>. \<open>BEGIN IMMEDIATE\<close> on the single writer connection makes a
  transaction atomic: it is a function from states to an error or a new state, and an error leaves
  the state as it was.
\<close>

section \<open>Resources (resources.go)\<close>

definition resource_get :: "string \<Rightarrow> db \<Rightarrow> err + resource" where
  "resource_get rid s = (case tget r_id rid (resources s) of
     None \<Rightarrow> Inl ENotFound | Some r \<Rightarrow> Inr r)"

definition live :: "resource \<Rightarrow> bool" where
  "live r \<longleftrightarrow> r_deleted_at r = None"

text \<open>The partial unique index \<open>ux_res_ext\<close>: would a live row of this identity clash?\<close>

definition ext_id_taken :: "string \<Rightarrow> string \<Rightarrow> string \<Rightarrow> db \<Rightarrow> bool" where
  "ext_id_taken prov ext self s =
     list_ex (\<lambda>r. live r \<and> r_provider r = prov \<and> r_external_id r = Some ext \<and> r_id r \<noteq> self) (resources s)"

definition pool_exists :: "string option \<Rightarrow> db \<Rightarrow> bool" where
  "pool_exists p s = (case p of None \<Rightarrow> True | Some q \<Rightarrow> tget p_id q (pools s) \<noteq> None)"

definition resource_create :: "resource \<Rightarrow> db \<Rightarrow> err + db" where
  "resource_create r s =
     (if tget r_id (r_id r) (resources s) \<noteq> None then Inl EConflict
      else if \<not> pool_exists (r_pool r) s then Inl EConflict
      else if live r \<and> (case r_external_id r of None \<Rightarrow> False
             | Some e \<Rightarrow> ext_id_taken (r_provider r) e (r_id r) s) then Inl EConflict
      else Inr (s\<lparr>resources := resources s @ [r]\<rparr>))"

definition resource_get_by_external_id :: "string \<Rightarrow> string \<Rightarrow> db \<Rightarrow> err + resource" where
  "resource_get_by_external_id prov ext s =
     (case find (\<lambda>r. r_provider r = prov \<and> r_external_id r = Some ext \<and> live r) (resources s) of
        None \<Rightarrow> Inl ENotFound | Some r \<Rightarrow> Inr r)"

definition resource_matches :: "resource_filter \<Rightarrow> resource \<Rightarrow> bool" where
  "resource_matches f r \<longleftrightarrow>
     (f_include_deleted f \<or> live r)
   \<and> (f_kind f = [] \<or> r_kind r = f_kind f)
   \<and> (f_provider f = [] \<or> r_provider r = f_provider f)
   \<and> (f_pool f = None \<or> r_pool r = f_pool f)
   \<and> (\<not> f_poolless f \<or> r_pool r = None)
   \<and> (f_class f = [] \<or> r_class r = f_class f)
   \<and> (f_phases f = [] \<or> r_phase r \<in> set (f_phases f))
   \<and> (f_ownership f = [] \<or> r_ownership r \<in> set (f_ownership f))
   \<and> list_all (\<lambda>(k, v). map_of (r_labels r) k = Some v) (f_labels f)"

definition resource_list :: "resource_filter \<Rightarrow> db \<Rightarrow> resource list" where
  "resource_list f s = sort_key r_id (filter (resource_matches f) (resources s))"

definition update_resource :: "string \<Rightarrow> (resource \<Rightarrow> resource) \<Rightarrow> db \<Rightarrow> db" where
  "update_resource rid f s = s\<lparr>resources := tupd r_id rid f (resources s)\<rparr>"

text \<open>The labels are \<open>None\<close> where the Go map is nil: then the stored labels stay.\<close>

definition resource_update_spec :: "resource \<Rightarrow> labels option \<Rightarrow> int \<Rightarrow> db \<Rightarrow> err + db" where
  "resource_update_spec r lbls expect_gen s =
     (case tget r_id (r_id r) (resources s) of
        None \<Rightarrow> Inl EStale
      | Some row \<Rightarrow>
          (if r_generation row \<noteq> expect_gen \<or> \<not> live row then Inl EStale
           else Inr (update_resource (r_id r) (\<lambda>x. x\<lparr>r_spec := r_spec r, r_extension := r_extension r,
                  r_capacity := r_capacity r, r_name := r_name r,
                  r_delete_protected := r_delete_protected r,
                  r_generation := r_generation x + 1, r_updated_at := r_updated_at r,
                  r_labels := (case lbls of None \<Rightarrow> r_labels x | Some ls \<Rightarrow> ls)\<rparr>) s)))"

text \<open>The columns a phase change sets: the reclaim clocks follow the phase entered.\<close>

definition phase_columns :: "phase \<Rightarrow> phase \<Rightarrow> int \<Rightarrow> resource \<Rightarrow> resource" where
  "phase_columns from to at r =
     r\<lparr>r_phase := to, r_updated_at := at,
       r_ready_at := (if to = Ready \<and> from \<noteq> Allocated then Some at else r_ready_at r),
       r_drain_started_at := (if to = Draining then Some at else r_drain_started_at r),
       r_parked_at := (if to = Parked then Some at else if to = Ready then None else r_parked_at r)\<rparr>"

definition cas_phase :: "string \<Rightarrow> phase \<Rightarrow> phase \<Rightarrow> int \<Rightarrow> db \<Rightarrow> err + db" where
  "cas_phase rid from to at s =
     (case tget r_id rid (resources s) of
        None \<Rightarrow> Inl EConflict
      | Some r \<Rightarrow>
          (if r_phase r \<noteq> from \<or> \<not> live r then Inl EConflict
           else Inr (update_resource rid (phase_columns from to at) s)))"

text \<open>\<open>execOne\<close>: an UPDATE by key that must hit a row satisfying its condition.\<close>

definition exec_one :: "string \<Rightarrow> (resource \<Rightarrow> bool) \<Rightarrow> (resource \<Rightarrow> resource) \<Rightarrow> db \<Rightarrow> err + db" where
  "exec_one rid ok f s =
     (case tget r_id rid (resources s) of
        None \<Rightarrow> Inl ENotFound
      | Some r \<Rightarrow> (if ok r then Inr (update_resource rid f s) else Inl ENotFound))"

definition set_observed_generation :: "string \<Rightarrow> int \<Rightarrow> db \<Rightarrow> err + db" where
  "set_observed_generation rid g s =
     exec_one rid (\<lambda>_. True) (\<lambda>r. r\<lparr>r_observed_generation := g\<rparr>) s"

definition set_external_ref :: "string \<Rightarrow> string \<Rightarrow> ext_ref blob \<Rightarrow> db \<Rightarrow> err + db" where
  "set_external_ref rid ext ref s =
     (case tget r_id rid (resources s) of
        None \<Rightarrow> Inl ENotFound
      | Some r \<Rightarrow>
          (if live r \<and> ext_id_taken (r_provider r) ext rid s then Inl EConflict
           else exec_one rid (\<lambda>_. True) (\<lambda>r. r\<lparr>r_external_id := Some ext, r_external_ref := ref\<rparr>) s))"

definition set_provider_facts :: "string \<Rightarrow> json blob \<Rightarrow> vector blob \<Rightarrow> int \<Rightarrow> db \<Rightarrow> err + db" where
  "set_provider_facts rid ext cap at s =
     exec_one rid (\<lambda>_. True) (\<lambda>r. r\<lparr>r_extension := blob_or ext (r_extension r),
       r_capacity := blob_or cap (r_capacity r), r_updated_at := at\<rparr>) s"

definition set_last_lease_ended :: "string \<Rightarrow> int \<Rightarrow> db \<Rightarrow> err + db" where
  "set_last_lease_ended rid at s =
     exec_one rid (\<lambda>_. True) (\<lambda>r. r\<lparr>r_last_lease_ended_at := Some at, r_updated_at := at\<rparr>) s"

definition set_delete_protected :: "string \<Rightarrow> bool \<Rightarrow> int \<Rightarrow> db \<Rightarrow> err + db" where
  "set_delete_protected rid protected at s =
     exec_one rid live (\<lambda>r. r\<lparr>r_delete_protected := protected, r_updated_at := at\<rparr>) s"

definition mark_deleted :: "string \<Rightarrow> int \<Rightarrow> db \<Rightarrow> err + db" where
  "mark_deleted rid at s =
     exec_one rid live (\<lambda>r. r\<lparr>r_deleted_at := Some at, r_updated_at := at\<rparr>) s"

definition put_observed :: "snapshot \<Rightarrow> db \<Rightarrow> err + db" where
  "put_observed snap s =
     (if tget r_id (sn_resource snap) (resources s) = None then Inl EConflict
      else Inr (s\<lparr>snapshots := (if tget sn_resource (sn_resource snap) (snapshots s) = None
            then snapshots s @ [snap]
            else tupd sn_resource (sn_resource snap) (\<lambda>_. snap) (snapshots s))\<rparr>))"

definition get_observed :: "string \<Rightarrow> db \<Rightarrow> err + snapshot" where
  "get_observed rid s = (case tget sn_resource rid (snapshots s) of
     None \<Rightarrow> Inl ENotFound | Some x \<Rightarrow> Inr x)"

section \<open>Leases (leases.go)\<close>

definition lease_get :: "string \<Rightarrow> db \<Rightarrow> err + lease" where
  "lease_get lid s = (case tget l_id lid (leases s) of None \<Rightarrow> Inl ENotFound | Some l \<Rightarrow> Inr l)"

definition is_active :: "string \<Rightarrow> lease \<Rightarrow> bool" where
  "is_active rid l \<longleftrightarrow> l_resource l = rid \<and> l_state l = LeaseActive"

definition active_by_resource :: "string \<Rightarrow> db \<Rightarrow> lease list" where
  "active_by_resource rid s = sort_key l_id (filter (is_active rid) (leases s))"

definition leases_by_resource :: "string \<Rightarrow> db \<Rightarrow> lease list" where
  "leases_by_resource rid s = sort_key l_created_at (filter (\<lambda>l. l_resource l = rid) (leases s))"

definition count_active :: "string \<Rightarrow> db \<Rightarrow> nat" where
  "count_active rid s = length (filter (is_active rid) (leases s))"

text \<open>
  The insert checks the primary key, the two foreign keys and the partial unique index
  \<open>lease_exclusive\<close>.
\<close>

definition lease_insert :: "lease \<Rightarrow> db \<Rightarrow> err + db" where
  "lease_insert l s =
     (if tget l_id (l_id l) (leases s) \<noteq> None then Inl EConflict
      else if tget a_id (l_acquisition l) (acquisitions s) = None then Inl EConflict
      else if tget r_id (l_resource l) (resources s) = None then Inl EConflict
      else if l_state l = LeaseActive \<and> l_exclusive l
        \<and> list_ex (\<lambda>x. is_active (l_resource l) x \<and> l_exclusive x) (leases s) then Inl EConflict
      else Inr (s\<lparr>leases := leases s @ [l]\<rparr>))"

fun sum_leases :: "vector \<Rightarrow> lease list \<Rightarrow> err + vector" where
  "sum_leases acc [] = Inr acc"
| "sum_leases acc (l # ls) =
     (case l_capacity l of
        BVal c \<Rightarrow> sum_leases (vadd acc c) ls
      | _ \<Rightarrow> Inl (EOther ''lease capacity''))"

definition sum_active :: "string \<Rightarrow> db \<Rightarrow> err + vector" where
  "sum_active rid s = sum_leases [] (active_by_resource rid s)"

definition update_lease :: "string \<Rightarrow> (lease \<Rightarrow> lease) \<Rightarrow> db \<Rightarrow> db" where
  "update_lease lid f s = s\<lparr>leases := tupd l_id lid f (leases s)\<rparr>"

definition lease_columns :: "lease_state \<Rightarrow> int \<Rightarrow> lease \<Rightarrow> lease" where
  "lease_columns to at l =
     l\<lparr>l_state := to,
       l_ended_at := (if to = LeaseReleased \<or> to = LeaseExpired then Some at else l_ended_at l)\<rparr>"

definition lease_transition :: "string \<Rightarrow> lease_state \<Rightarrow> lease_state \<Rightarrow> int \<Rightarrow> db \<Rightarrow> err + db" where
  "lease_transition lid from to at s =
     (case tget l_id lid (leases s) of
        None \<Rightarrow> Inl EConflict
      | Some l \<Rightarrow> (if l_state l \<noteq> from then Inl EConflict
                    else Inr (update_lease lid (lease_columns to at) s)))"

definition leases_expiring :: "int \<Rightarrow> nat \<Rightarrow> db \<Rightarrow> lease list" where
  "leases_expiring now limit s =
     take limit (sort_key (\<lambda>l. case l_expires_at l of None \<Rightarrow> 0 | Some e \<Rightarrow> e)
       (filter (\<lambda>l. l_state l = LeaseActive
          \<and> (case l_expires_at l of None \<Rightarrow> False | Some e \<Rightarrow> e \<le> now)) (leases s)))"

section \<open>Acquisitions (leases.go)\<close>

definition acq_get :: "string \<Rightarrow> db \<Rightarrow> err + acquisition" where
  "acq_get aid s = (case tget a_id aid (acquisitions s) of None \<Rightarrow> Inl ENotFound | Some a \<Rightarrow> Inr a)"

definition acq_insert :: "acquisition \<Rightarrow> db \<Rightarrow> err + db" where
  "acq_insert a s =
     (if tget a_id (a_id a) (acquisitions s) \<noteq> None then Inl EConflict
      else Inr (s\<lparr>acquisitions := acquisitions s @ [a]\<rparr>))"

definition update_acq :: "string \<Rightarrow> (acquisition \<Rightarrow> acquisition) \<Rightarrow> db \<Rightarrow> db" where
  "update_acq aid f s = s\<lparr>acquisitions := tupd a_id aid f (acquisitions s)\<rparr>"

definition acq_transition :: "string \<Rightarrow> acq_state \<Rightarrow> acq_state \<Rightarrow> int \<Rightarrow> db \<Rightarrow> err + db" where
  "acq_transition aid from to at s =
     (case tget a_id aid (acquisitions s) of
        None \<Rightarrow> Inl EConflict
      | Some a \<Rightarrow> (if a_state a \<noteq> from then Inl EConflict
                    else Inr (update_acq aid (\<lambda>a. a\<lparr>a_state := to, a_updated_at := at\<rparr>) s)))"

definition acq_bind :: "string \<Rightarrow> string \<Rightarrow> int \<Rightarrow> db \<Rightarrow> err + db" where
  "acq_bind aid lid at s =
     (case tget a_id aid (acquisitions s) of
        None \<Rightarrow> Inl EConflict
      | Some a \<Rightarrow>
          (if a_state a \<noteq> AcqPending \<and> a_state a \<noteq> AcqProvisioning then Inl EConflict
           else Inr (update_acq aid (\<lambda>a. a\<lparr>a_state := AcqBound, a_lease := Some lid,
                  a_pending_resource := None, a_updated_at := at\<rparr>) s)))"

definition acq_set_pending_resource :: "string \<Rightarrow> string \<Rightarrow> db \<Rightarrow> err + db" where
  "acq_set_pending_resource aid rid s =
     (case tget a_id aid (acquisitions s) of
        None \<Rightarrow> Inl ENotFound
      | Some _ \<Rightarrow> Inr (update_acq aid (\<lambda>a. a\<lparr>a_pending_resource := Some rid\<rparr>) s))"

definition acq_clear_pending_resource :: "string \<Rightarrow> db \<Rightarrow> err + db" where
  "acq_clear_pending_resource aid s =
     Inr (update_acq aid (\<lambda>a. a\<lparr>a_pending_resource := None\<rparr>) s)"

definition acq_list_by_state :: "acq_state list \<Rightarrow> db \<Rightarrow> acquisition list" where
  "acq_list_by_state states s =
     sort_key a_id (filter (\<lambda>a. a_state a \<in> set states) (acquisitions s))"

section \<open>Operations (operations.go)\<close>

definition op_get :: "string \<Rightarrow> db \<Rightarrow> err + operation" where
  "op_get oid s = (case tget op_id oid (operations s) of None \<Rightarrow> Inl ENotFound | Some x \<Rightarrow> Inr x)"

definition is_open :: "operation \<Rightarrow> bool" where
  "is_open x \<longleftrightarrow> op_terminal_at x = None"

definition open_on :: "string \<Rightarrow> operation \<Rightarrow> bool" where
  "open_on rid x \<longleftrightarrow> is_open x \<and> op_resource x = Some rid"

text \<open>
  \<open>Append\<close>: the state check, the primary key, the foreign keys on resource and pool, and the
  partial unique index \<open>op_active_per_resource\<close>, which admits one open operation per resource.
\<close>

definition op_append :: "operation \<Rightarrow> db \<Rightarrow> err + db" where
  "op_append x s =
     (if op_state x \<noteq> OpJournaled then Inl EConflict
      else if tget op_id (op_id x) (operations s) \<noteq> None then Inl EConflict
      else if (case op_resource x of None \<Rightarrow> False
             | Some rid \<Rightarrow> tget r_id rid (resources s) = None) then Inl EConflict
      else if \<not> pool_exists (op_pool x) s then Inl EConflict
      else if is_open x \<and> (case op_resource x of None \<Rightarrow> False
             | Some rid \<Rightarrow> list_ex (open_on rid) (operations s)) then Inl EConflict
      else Inr (s\<lparr>operations := operations s @ [x]\<rparr>))"

definition update_op :: "string \<Rightarrow> (operation \<Rightarrow> operation) \<Rightarrow> db \<Rightarrow> db" where
  "update_op oid f s = s\<lparr>operations := tupd op_id oid f (operations s)\<rparr>"

text \<open>
  \<open>Transition\<close>: the row is loaded, compared with the from-state, edited by \<open>mut\<close> and written
  back by an UPDATE of the journal columns (\<open>op_written\<close>); the stamps use the wall clock
  (\<open>time.Now\<close>), not the injected clock.
\<close>

definition op_columns :: "op_state \<Rightarrow> int \<Rightarrow> operation \<Rightarrow> operation" where
  "op_columns to wall x =
     x\<lparr>op_state := to, op_updated_at := wall,
       op_terminal_at := (if op_terminal to \<and> op_terminal_at x = None then Some wall
                          else op_terminal_at x)\<rparr>"

definition op_written :: "operation \<Rightarrow> operation \<Rightarrow> operation" where
  "op_written row x =
     row\<lparr>op_state := op_state x, op_attempt := op_attempt x, op_external_op := op_external_op x,
       op_external_ref := op_external_ref x, op_error_class := op_error_class x,
       op_error := op_error x, op_next_attempt_at := op_next_attempt_at x,
       op_verify_deadline_at := op_verify_deadline_at x, op_updated_at := op_updated_at x,
       op_terminal_at := op_terminal_at x\<rparr>"

definition op_transition ::
    "string \<Rightarrow> op_state \<Rightarrow> op_state \<Rightarrow> (operation \<Rightarrow> operation) \<Rightarrow> int \<Rightarrow> db \<Rightarrow> err + db" where
  "op_transition oid from to mut wall s =
     bindE (op_get oid s) (\<lambda>x.
       if op_state x \<noteq> from then Inl EConflict
       else Inr (update_op oid (\<lambda>x. op_written x (mut (op_columns to wall x))) s))"

definition op_due :: "int \<Rightarrow> operation \<Rightarrow> bool" where
  "op_due now x \<longleftrightarrow> is_open x
     \<and> (op_state x = OpJournaled \<or> op_state x = OpExternalAccepted \<or> op_state x = OpVerifying)
     \<and> (case op_next_attempt_at x of None \<Rightarrow> True | Some t \<Rightarrow> t \<le> now)"

definition ops_due :: "int \<Rightarrow> nat \<Rightarrow> db \<Rightarrow> operation list" where
  "ops_due now limit s = take limit (sort_key op_created_at (filter (op_due now) (operations s)))"

definition ops_non_terminal :: "db \<Rightarrow> operation list" where
  "ops_non_terminal s = sort_key op_created_at (filter is_open (operations s))"

definition count_pending :: "string \<Rightarrow> op_kind \<Rightarrow> db \<Rightarrow> nat" where
  "count_pending pid k s =
     length (filter (\<lambda>x. op_pool x = Some pid \<and> op_kind x = k \<and> is_open x) (operations s))"

text \<open>
  The columns of the table \<open>operations\<close> (migration 2; no later migration changes them), and a
  query's check that the columns it names exist: SQLite rejects a statement with an unknown column.
\<close>

definition operations_columns :: "string list" where
  "operations_columns = [''id'', ''parent_id'', ''idem_scope'', ''idem_key'', ''kind'', ''resource_id'',
     ''pool_id'', ''provider_instance'', ''action_json'', ''state'', ''attempt'', ''external_op_json'',
     ''external_ref_json'', ''error_class'', ''error_json'', ''next_attempt_at'',
     ''verify_deadline_at'', ''created_at'', ''updated_at'', ''terminal_at'']"

definition query_ok :: "string list \<Rightarrow> string list \<Rightarrow> bool" where
  "query_ok cols used = list_all (\<lambda>c. c \<in> set cols) used"

definition recent_terminal :: "string \<Rightarrow> op_kind \<Rightarrow> nat \<Rightarrow> db \<Rightarrow> err + operation list" where
  "recent_terminal prov k limit s =
     (if \<not> query_ok operations_columns [''provider'', ''kind'', ''state'', ''updated_at'']
      then Inl (EOther ''no such column'')
      else Inr (take limit (sort_key (\<lambda>x. - op_updated_at x)
        (filter (\<lambda>x. op_provider x = prov \<and> op_kind x = k \<and> op_state x = OpSucceeded) (operations s)))))"

section \<open>Idempotency records (idempotency.go)\<close>

definition idem_key :: "idem_record \<Rightarrow> string \<times> string" where
  "idem_key i = (i_scope i, i_key i)"

definition idem_get :: "string \<Rightarrow> string \<Rightarrow> db \<Rightarrow> err + idem_record" where
  "idem_get scope key s = (case tget idem_key (scope, key) (idem s) of
     None \<Rightarrow> Inl ENotFound | Some i \<Rightarrow> Inr i)"

definition idem_begin ::
    "string \<Rightarrow> string \<Rightarrow> string \<Rightarrow> string \<Rightarrow> int \<Rightarrow> db \<Rightarrow> err + (begin_outcome \<times> idem_record) \<times> db" where
  "idem_begin scope key hash op wall s =
     (case tget idem_key (scope, key) (idem s) of
        None \<Rightarrow>
          (let rec = \<lparr>i_scope = scope, i_key = key, i_request_hash = hash, i_state = IdemInProgress,
                 i_operation = (if op = [] then None else Some op), i_http_status = 0, i_result = [],
                 i_created_at = wall, i_completed_at = None, i_expires_at = None\<rparr>
           in Inr ((BeginNew, rec), s\<lparr>idem := idem s @ [rec]\<rparr>))
      | Some rec \<Rightarrow>
          Inr ((if i_request_hash rec \<noteq> hash then BeginMismatch
                else if i_state rec = IdemInProgress then BeginInProgress
                else BeginCompleted, rec), s))"

definition idem_finish ::
    "string \<Rightarrow> string \<Rightarrow> idem_state \<Rightarrow> int \<Rightarrow> string \<Rightarrow> int \<Rightarrow> int \<Rightarrow> db \<Rightarrow> err + db" where
  "idem_finish scope key state status result expires wall s =
     (case tget idem_key (scope, key) (idem s) of
        None \<Rightarrow> Inl EConflict
      | Some rec \<Rightarrow>
          (if i_state rec \<noteq> IdemInProgress then Inl EConflict
           else Inr (s\<lparr>idem := tupd idem_key (scope, key) (\<lambda>i. i\<lparr>i_state := state,
                i_http_status := status, i_result := result, i_completed_at := Some wall,
                i_expires_at := Some expires\<rparr>) (idem s)\<rparr>)))"

definition idem_complete :: "string \<Rightarrow> string \<Rightarrow> int \<Rightarrow> string \<Rightarrow> int \<Rightarrow> int \<Rightarrow> db \<Rightarrow> err + db" where
  "idem_complete scope key status result expires wall s =
     idem_finish scope key IdemCompleted status result expires wall s"

definition idem_fail :: "string \<Rightarrow> string \<Rightarrow> int \<Rightarrow> string \<Rightarrow> int \<Rightarrow> int \<Rightarrow> db \<Rightarrow> err + db" where
  "idem_fail scope key status result expires wall s =
     idem_finish scope key IdemFailed status result expires wall s"

text \<open>
  \<open>GC\<close> deletes at most \<open>limit\<close> expired records whose operation is terminal or that name none;
  a record naming an operation that does not exist joins to NULL and stays.
\<close>

definition idem_collectable :: "int \<Rightarrow> db \<Rightarrow> idem_record \<Rightarrow> bool" where
  "idem_collectable now s i \<longleftrightarrow>
     (case i_expires_at i of None \<Rightarrow> False | Some e \<Rightarrow> e < now)
   \<and> (case i_operation i of None \<Rightarrow> True
      | Some oid \<Rightarrow> (case tget op_id oid (operations s) of None \<Rightarrow> False | Some x \<Rightarrow> \<not> is_open x))"

definition idem_gc :: "int \<Rightarrow> nat \<Rightarrow> db \<Rightarrow> nat \<times> db" where
  "idem_gc now limit s =
     (let victims = take limit (filter (idem_collectable now s) (idem s))
      in (length victims,
          s\<lparr>idem := filter (\<lambda>i. idem_key i \<notin> set (map idem_key victims)) (idem s)\<rparr>))"

section \<open>Pools, classes, events and checkpoints (misc.go, classes.go)\<close>

definition pool_get :: "string \<Rightarrow> db \<Rightarrow> err + pool" where
  "pool_get pid s = (case tget p_id pid (pools s) of None \<Rightarrow> Inl ENotFound | Some p \<Rightarrow> Inr p)"

definition pool_get_by_name :: "string \<Rightarrow> db \<Rightarrow> err + pool" where
  "pool_get_by_name n s = (case find (\<lambda>p. p_name p = n) (pools s) of
     None \<Rightarrow> Inl ENotFound | Some p \<Rightarrow> Inr p)"

definition pool_list :: "db \<Rightarrow> pool list" where
  "pool_list s = sort_key p_id (pools s)"

text \<open>The upsert by id keeps the name unique and bumps the generation of an existing row.\<close>

definition pool_upsert :: "pool \<Rightarrow> db \<Rightarrow> err + db" where
  "pool_upsert p s =
     (if list_ex (\<lambda>q. p_name q = p_name p \<and> p_id q \<noteq> p_id p) (pools s) then Inl EConflict
      else case tget p_id (p_id p) (pools s) of
        None \<Rightarrow> Inr (s\<lparr>pools := pools s @ [p]\<rparr>)
      | Some _ \<Rightarrow> Inr (s\<lparr>pools := tupd p_id (p_id p) (\<lambda>q. q\<lparr>p_name := p_name p, p_kind := p_kind p,
            p_spec := p_spec p, p_generation := p_generation q + 1, p_paused := p_paused p,
            p_updated_at := p_updated_at p\<rparr>) (pools s)\<rparr>))"

definition pool_set_paused :: "string \<Rightarrow> bool \<Rightarrow> int \<Rightarrow> db \<Rightarrow> err + db" where
  "pool_set_paused pid paused at s =
     (case tget p_id pid (pools s) of
        None \<Rightarrow> Inl ENotFound
      | Some _ \<Rightarrow> Inr (s\<lparr>pools := tupd p_id pid (\<lambda>q. q\<lparr>p_paused := paused, p_updated_at := at\<rparr>) (pools s)\<rparr>))"

text \<open>
  \<open>Delete\<close> first clears the pool pointers of tombstoned resources and terminal operations; the
  foreign keys then refuse the DELETE while anything still points at the pool.
\<close>

definition pool_delete :: "string \<Rightarrow> db \<Rightarrow> err + db" where
  "pool_delete pid s =
     (let s1 = s\<lparr>resources := map (\<lambda>r. if r_pool r = Some pid \<and> \<not> live r then r\<lparr>r_pool := None\<rparr> else r) (resources s),
            operations := map (\<lambda>x. if op_pool x = Some pid \<and> \<not> is_open x then x\<lparr>op_pool := None\<rparr> else x) (operations s)\<rparr>
      in if tget p_id pid (pools s) = None then Inl ENotFound
         else if list_ex (\<lambda>r. r_pool r = Some pid) (resources s1)
           \<or> list_ex (\<lambda>x. op_pool x = Some pid) (operations s1) then Inl EConflict
         else Inr (s1\<lparr>pools := tdel p_id pid (pools s1)\<rparr>))"

definition class_get :: "string \<Rightarrow> db \<Rightarrow> err + class_record" where
  "class_get n s = (case tget c_name n (classes s) of None \<Rightarrow> Inl ENotFound | Some c \<Rightarrow> Inr c)"

definition class_list :: "db \<Rightarrow> class_record list" where
  "class_list s = sort_key c_name (classes s)"

definition class_list_by_source :: "string \<Rightarrow> db \<Rightarrow> class_record list" where
  "class_list_by_source src s = sort_key c_name (filter (\<lambda>c. c_source c = src) (classes s))"

text \<open>The CHECK on the source column, and the upsert that keeps the creation time.\<close>

definition class_upsert :: "class_record \<Rightarrow> db \<Rightarrow> err + db" where
  "class_upsert c s =
     (if c_source c \<noteq> ''config'' \<and> c_source c \<noteq> ''api'' then Inl EConflict
      else case tget c_name (c_name c) (classes s) of
        None \<Rightarrow> Inr (s\<lparr>classes := classes s @ [c]\<rparr>)
      | Some _ \<Rightarrow> Inr (s\<lparr>classes := tupd c_name (c_name c)
            (\<lambda>d. c\<lparr>c_created_at := c_created_at d\<rparr>) (classes s)\<rparr>))"

definition class_delete :: "string \<Rightarrow> db \<Rightarrow> err + db" where
  "class_delete n s =
     (case tget c_name n (classes s) of
        None \<Rightarrow> Inl ENotFound
      | Some _ \<Rightarrow> Inr (s\<lparr>classes := tdel c_name n (classes s)\<rparr>))"

text \<open>Events are append-only; their ids are freshly minted ULIDs and never clash.\<close>

definition event_append :: "event \<Rightarrow> db \<Rightarrow> err + db" where
  "event_append e s = Inr (s\<lparr>events := events s @ [e]\<rparr>)"

definition checkpoint_get :: "string \<Rightarrow> db \<Rightarrow> err + checkpoint" where
  "checkpoint_get c s = (case map_of (checkpoints s) c of None \<Rightarrow> Inl ENotFound | Some x \<Rightarrow> Inr x)"

definition checkpoint_put :: "string \<Rightarrow> checkpoint \<Rightarrow> db \<Rightarrow> err + db" where
  "checkpoint_put c x s = Inr (s\<lparr>checkpoints := AList.update c x (checkpoints s)\<rparr>)"

end
