(* ===== verification/Store_Laws.thy ===== *)
theory Store_Laws
  imports Store
begin

text \<open>
  Laws of the persistence operations: what a successful call presupposes and does
  (\<open>store_simps\<close>), what it leaves alone (\<open>frame_simps\<close>), the compare-and-set contract the four
  state columns share, and the idempotency and read contracts.
\<close>

section \<open>Successful calls\<close>

lemma resource_get_Inr [store_simps]:
  "resource_get rid s = Inr r \<longleftrightarrow> tget r_id rid (resources s) = Some r"
  by (simp add: resource_get_def split: option.splits)

lemma lease_get_Inr [store_simps]: "lease_get lid s = Inr l \<longleftrightarrow> tget l_id lid (leases s) = Some l"
  by (simp add: lease_get_def split: option.splits)

lemma acq_get_Inr [store_simps]: "acq_get aid s = Inr a \<longleftrightarrow> tget a_id aid (acquisitions s) = Some a"
  by (simp add: acq_get_def split: option.splits)

lemma op_get_Inr [store_simps]: "op_get oid s = Inr x \<longleftrightarrow> tget op_id oid (operations s) = Some x"
  by (simp add: op_get_def split: option.splits)

lemma pool_get_Inr [store_simps]: "pool_get pid s = Inr p \<longleftrightarrow> tget p_id pid (pools s) = Some p"
  by (simp add: pool_get_def split: option.splits)

lemma class_get_Inr [store_simps]: "class_get n s = Inr c \<longleftrightarrow> tget c_name n (classes s) = Some c"
  by (simp add: class_get_def split: option.splits)

lemma resource_create_Inr [store_simps]:
  "resource_create r s = Inr s' \<longleftrightarrow>
     tget r_id (r_id r) (resources s) = None \<and> pool_exists (r_pool r) s
   \<and> (live r \<longrightarrow> (\<forall>e. r_external_id r = Some e \<longrightarrow> \<not> ext_id_taken (r_provider r) e (r_id r) s))
   \<and> s' = s\<lparr>resources := resources s @ [r]\<rparr>"
  by (auto simp: resource_create_def split: if_splits option.splits)

lemma cas_phase_Inr [store_simps]:
  "cas_phase rid from to at s = Inr s' \<longleftrightarrow>
     (\<exists>r. tget r_id rid (resources s) = Some r \<and> r_phase r = from \<and> live r
        \<and> s' = update_resource rid (phase_columns from to at) s)"
  by (auto simp: cas_phase_def split: if_splits option.splits)

lemma exec_one_Inr [store_simps]:
  "exec_one rid ok f s = Inr s' \<longleftrightarrow>
     (\<exists>r. tget r_id rid (resources s) = Some r \<and> ok r \<and> s' = update_resource rid f s)"
  by (auto simp: exec_one_def split: if_splits option.splits)

lemma mark_deleted_Inr [store_simps]:
  "mark_deleted rid at s = Inr s' \<longleftrightarrow>
     (\<exists>r. tget r_id rid (resources s) = Some r \<and> live r
        \<and> s' = update_resource rid (\<lambda>r. r\<lparr>r_deleted_at := Some at, r_updated_at := at\<rparr>) s)"
  by (simp add: mark_deleted_def exec_one_Inr)

lemma lease_insert_Inr [store_simps]:
  "lease_insert l s = Inr s' \<longleftrightarrow>
     tget l_id (l_id l) (leases s) = None \<and> tget a_id (l_acquisition l) (acquisitions s) \<noteq> None
   \<and> tget r_id (l_resource l) (resources s) \<noteq> None
   \<and> \<not> (l_state l = LeaseActive \<and> l_exclusive l
          \<and> list_ex (\<lambda>x. is_active (l_resource l) x \<and> l_exclusive x) (leases s))
   \<and> s' = s\<lparr>leases := leases s @ [l]\<rparr>"
  by (auto simp: lease_insert_def split: if_splits)

lemma lease_transition_Inr [store_simps]:
  "lease_transition lid from to at s = Inr s' \<longleftrightarrow>
     (\<exists>l. tget l_id lid (leases s) = Some l \<and> l_state l = from
        \<and> s' = update_lease lid (lease_columns to at) s)"
  by (auto simp: lease_transition_def split: if_splits option.splits)

lemma acq_insert_Inr [store_simps]:
  "acq_insert a s = Inr s' \<longleftrightarrow>
     tget a_id (a_id a) (acquisitions s) = None \<and> s' = s\<lparr>acquisitions := acquisitions s @ [a]\<rparr>"
  by (auto simp: acq_insert_def split: if_splits)

lemma acq_transition_Inr [store_simps]:
  "acq_transition aid from to at s = Inr s' \<longleftrightarrow>
     (\<exists>a. tget a_id aid (acquisitions s) = Some a \<and> a_state a = from
        \<and> s' = update_acq aid (\<lambda>a. a\<lparr>a_state := to, a_updated_at := at\<rparr>) s)"
  by (auto simp: acq_transition_def split: if_splits option.splits)

lemma acq_bind_Inr [store_simps]:
  "acq_bind aid lid at s = Inr s' \<longleftrightarrow>
     (\<exists>a. tget a_id aid (acquisitions s) = Some a \<and> (a_state a = AcqPending \<or> a_state a = AcqProvisioning)
        \<and> s' = update_acq aid (\<lambda>a. a\<lparr>a_state := AcqBound, a_lease := Some lid,
                  a_pending_resource := None, a_updated_at := at\<rparr>) s)"
  by (auto simp: acq_bind_def split: if_splits option.splits)

lemma acq_set_pending_resource_Inr [store_simps]:
  "acq_set_pending_resource aid rid s = Inr s' \<longleftrightarrow>
     tget a_id aid (acquisitions s) \<noteq> None
   \<and> s' = update_acq aid (\<lambda>a. a\<lparr>a_pending_resource := Some rid\<rparr>) s"
  by (auto simp: acq_set_pending_resource_def split: option.splits)

lemma acq_clear_pending_resource_Inr [store_simps]:
  "acq_clear_pending_resource aid s = Inr s' \<longleftrightarrow>
     s' = update_acq aid (\<lambda>a. a\<lparr>a_pending_resource := None\<rparr>) s"
  by (auto simp: acq_clear_pending_resource_def)

lemma op_append_Inr [store_simps]:
  "op_append x s = Inr s' \<longleftrightarrow>
     op_state x = OpJournaled \<and> tget op_id (op_id x) (operations s) = None
   \<and> (\<forall>rid. op_resource x = Some rid \<longrightarrow> tget r_id rid (resources s) \<noteq> None)
   \<and> pool_exists (op_pool x) s
   \<and> (is_open x \<longrightarrow> (\<forall>rid. op_resource x = Some rid \<longrightarrow> \<not> list_ex (open_on rid) (operations s)))
   \<and> s' = s\<lparr>operations := operations s @ [x]\<rparr>"
  by (auto simp: op_append_def split: if_splits option.splits)

lemma op_transition_Inr [store_simps]:
  "op_transition oid from to mut wall s = Inr s' \<longleftrightarrow>
     (\<exists>x. tget op_id oid (operations s) = Some x \<and> op_state x = from
        \<and> s' = update_op oid (\<lambda>x. op_written x (mut (op_columns to wall x))) s)"
  by (auto simp: op_transition_def result_simps op_get_Inr)

lemma event_append_Inr [store_simps]: "event_append e s = Inr s' \<longleftrightarrow> s' = s\<lparr>events := events s @ [e]\<rparr>"
  by (auto simp: event_append_def)

lemma put_observed_Inr [store_simps]:
  "put_observed snap s = Inr s' \<Longrightarrow> \<exists>t. s' = s\<lparr>snapshots := t\<rparr>"
  by (auto simp: put_observed_def split: if_splits)

section \<open>Frames\<close>

lemma update_resource_frame [simp]:
  "resources (update_resource rid f s) = tupd r_id rid f (resources s)"
  "leases (update_resource rid f s) = leases s"
  "acquisitions (update_resource rid f s) = acquisitions s"
  "operations (update_resource rid f s) = operations s"
  "pools (update_resource rid f s) = pools s"
  "idem (update_resource rid f s) = idem s"
  by (simp_all add: update_resource_def)

lemma update_lease_frame [simp]:
  "resources (update_lease lid f s) = resources s"
  "leases (update_lease lid f s) = tupd l_id lid f (leases s)"
  "acquisitions (update_lease lid f s) = acquisitions s"
  "operations (update_lease lid f s) = operations s"
  by (simp_all add: update_lease_def)

lemma update_acq_frame [simp]:
  "resources (update_acq aid f s) = resources s"
  "leases (update_acq aid f s) = leases s"
  "acquisitions (update_acq aid f s) = tupd a_id aid f (acquisitions s)"
  "operations (update_acq aid f s) = operations s"
  by (simp_all add: update_acq_def)

lemma update_op_frame [simp]:
  "resources (update_op oid f s) = resources s"
  "leases (update_op oid f s) = leases s"
  "acquisitions (update_op oid f s) = acquisitions s"
  "operations (update_op oid f s) = tupd op_id oid f (operations s)"
  by (simp_all add: update_op_def)

lemma phase_columns_simps [simp]:
  "r_id (phase_columns from to at r) = r_id r"
  "r_phase (phase_columns from to at r) = to"
  "r_deleted_at (phase_columns from to at r) = r_deleted_at r"
  "r_external_id (phase_columns from to at r) = r_external_id r"
  "r_ownership (phase_columns from to at r) = r_ownership r"
  "r_capacity (phase_columns from to at r) = r_capacity r"
  "live (phase_columns from to at r) = live r"
  by (simp_all add: phase_columns_def live_def)

lemma op_written_simps [simp]:
  "op_id (op_written x y) = op_id x" "op_kind (op_written x y) = op_kind x"
  "op_resource (op_written x y) = op_resource x" "op_pool (op_written x y) = op_pool x"
  "op_provider (op_written x y) = op_provider x" "op_action (op_written x y) = op_action x"
  "op_created_at (op_written x y) = op_created_at x"
  "op_state (op_written x y) = op_state y" "op_terminal_at (op_written x y) = op_terminal_at y"
  "op_attempt (op_written x y) = op_attempt y"
  by (simp_all add: op_written_def)

lemma op_columns_simps [simp]:
  "op_state (op_columns to wall x) = to" "op_attempt (op_columns to wall x) = op_attempt x"
  "op_terminal_at (op_columns to wall x) =
     (if op_terminal to \<and> op_terminal_at x = None then Some wall else op_terminal_at x)"
  by (simp_all add: op_columns_def)

lemma lease_columns_simps [simp]:
  "l_id (lease_columns to at l) = l_id l" "l_state (lease_columns to at l) = to"
  "l_resource (lease_columns to at l) = l_resource l"
  "l_acquisition (lease_columns to at l) = l_acquisition l"
  "l_exclusive (lease_columns to at l) = l_exclusive l"
  "l_capacity (lease_columns to at l) = l_capacity l"
  by (simp_all add: lease_columns_def)

lemma keeps_keys [simp]:
  "keeps_key r_id (phase_columns from to at)"
  "keeps_key l_id (lease_columns lto at)"
  "keeps_key op_id (\<lambda>x. op_written x (g x))"
  by (simp_all add: keeps_key_def)

lemma count_active_iff: "count_active rid s = 0 \<longleftrightarrow> (\<forall>l \<in> set (leases s). \<not> is_active rid l)"
  by (simp add: count_active_def filter_empty_conv)

lemma active_by_resource_Nil_iff: "active_by_resource rid s = [] \<longleftrightarrow> count_active rid s = 0"
  by (simp add: active_by_resource_def count_active_def)

lemma set_active_by_resource: "set (active_by_resource rid s) = {l \<in> set (leases s). is_active rid l}"
  by (simp add: active_by_resource_def)

section \<open>The compare-and-set contract\<close>

text \<open>
  A state column behind a compare-and-set: the state a key holds, and the transition that moves it
  from one state to another. The laws are what its clients rely on.
\<close>

locale cas_column =
  fixes holds :: "'s \<Rightarrow> 'k \<Rightarrow> 'v \<Rightarrow> bool"
    and cas :: "'k \<Rightarrow> 'v \<Rightarrow> 'v \<Rightarrow> 's \<Rightarrow> err + 's"
  assumes holds_fun: "holds s k v \<Longrightarrow> holds s k w \<Longrightarrow> v = w"
    and cas_ok_iff: "(\<exists>s'. cas k from to s = Inr s') \<longleftrightarrow> holds s k from"
    and cas_moves: "cas k from to s = Inr s' \<Longrightarrow> holds s' k to"
    and cas_others: "cas k from to s = Inr s' \<Longrightarrow> j \<noteq> k \<Longrightarrow> holds s' j v \<longleftrightarrow> holds s j v"
begin

lemma cas_fails_elsewhere: "holds s k v \<Longrightarrow> v \<noteq> from \<Longrightarrow> \<exists>e. cas k from to s = Inl e"
  by (metis cas_ok_iff holds_fun old.sum.exhaust)

lemma race_one_winner:
  assumes "cas k from to1 s = Inr s1" and "to1 \<noteq> from"
  shows "\<exists>e. cas k from to2 s1 = Inl e"
  using cas_fails_elsewhere [OF cas_moves [OF assms(1)] assms(2)] .

lemma commute_ok:
  assumes "cas k from to s = Inr s1" and "j \<noteq> k" and "holds s j v"
  shows "\<exists>s2. cas j v w s1 = Inr s2"
  using assms cas_ok_iff cas_others by metis

end

text \<open>The phase column of the live resources.\<close>

definition phase_is :: "db \<Rightarrow> string \<Rightarrow> phase \<Rightarrow> bool" where
  "phase_is s rid p \<longleftrightarrow> (\<exists>r. tget r_id rid (resources s) = Some r \<and> live r \<and> r_phase r = p)"

interpretation phase_cas: cas_column phase_is "\<lambda>rid from to s. cas_phase rid from to at s" for at
proof
  fix rid fr t s s' j p
  show "(\<exists>s'. cas_phase rid fr t at s = Inr s') \<longleftrightarrow> phase_is s rid fr"
    by (auto simp: cas_phase_Inr phase_is_def)
  show "cas_phase rid fr t at s = Inr s' \<Longrightarrow> phase_is s' rid t"
    by (auto simp: cas_phase_Inr phase_is_def tget_tupd)
  show "cas_phase rid fr t at s = Inr s' \<Longrightarrow> j \<noteq> rid \<Longrightarrow> phase_is s' j p \<longleftrightarrow> phase_is s j p"
    by (auto simp: cas_phase_Inr phase_is_def tget_tupd)
qed (auto simp: phase_is_def)

definition lease_is :: "db \<Rightarrow> string \<Rightarrow> lease_state \<Rightarrow> bool" where
  "lease_is s lid v \<longleftrightarrow> (\<exists>l. tget l_id lid (leases s) = Some l \<and> l_state l = v)"

interpretation lease_cas: cas_column lease_is "\<lambda>lid from to s. lease_transition lid from to at s" for at
proof
  fix lid fr t s s' j v
  show "(\<exists>s'. lease_transition lid fr t at s = Inr s') \<longleftrightarrow> lease_is s lid fr"
    by (auto simp: lease_transition_Inr lease_is_def)
  show "lease_transition lid fr t at s = Inr s' \<Longrightarrow> lease_is s' lid t"
    by (auto simp: lease_transition_Inr lease_is_def tget_tupd)
  show "lease_transition lid fr t at s = Inr s' \<Longrightarrow> j \<noteq> lid \<Longrightarrow> lease_is s' j v \<longleftrightarrow> lease_is s j v"
    by (auto simp: lease_transition_Inr lease_is_def tget_tupd)
qed (auto simp: lease_is_def)

definition acq_is :: "db \<Rightarrow> string \<Rightarrow> acq_state \<Rightarrow> bool" where
  "acq_is s aid v \<longleftrightarrow> (\<exists>a. tget a_id aid (acquisitions s) = Some a \<and> a_state a = v)"

lemma keeps_acq_state [simp]: "keeps_key a_id (\<lambda>a. a\<lparr>a_state := v, a_updated_at := t\<rparr>)"
  by (simp add: keeps_key_def)

interpretation acq_cas: cas_column acq_is "\<lambda>aid from to s. acq_transition aid from to at s" for at
proof
  fix aid fr t s s' j v
  show "(\<exists>s'. acq_transition aid fr t at s = Inr s') \<longleftrightarrow> acq_is s aid fr"
    by (auto simp: acq_transition_Inr acq_is_def)
  show "acq_transition aid fr t at s = Inr s' \<Longrightarrow> acq_is s' aid t"
    by (auto simp: acq_transition_Inr acq_is_def tget_tupd)
  show "acq_transition aid fr t at s = Inr s' \<Longrightarrow> j \<noteq> aid \<Longrightarrow> acq_is s' j v \<longleftrightarrow> acq_is s j v"
    by (auto simp: acq_transition_Inr acq_is_def tget_tupd)
qed (auto simp: acq_is_def)

definition op_is :: "db \<Rightarrow> string \<Rightarrow> op_state \<Rightarrow> bool" where
  "op_is s oid v \<longleftrightarrow> (\<exists>x. tget op_id oid (operations s) = Some x \<and> op_state x = v)"

interpretation op_cas: cas_column op_is "\<lambda>oid from to s. op_transition oid from to (\<lambda>x. x) wall s" for wall
proof
  fix oid fr t s s' j v
  show "(\<exists>s'. op_transition oid fr t (\<lambda>x. x) wall s = Inr s') \<longleftrightarrow> op_is s oid fr"
    by (auto simp: op_transition_Inr op_is_def)
  show "op_transition oid fr t (\<lambda>x. x) wall s = Inr s' \<Longrightarrow> op_is s' oid t"
    by (auto simp: op_transition_Inr op_is_def tget_tupd)
  show "op_transition oid fr t (\<lambda>x. x) wall s = Inr s' \<Longrightarrow> j \<noteq> oid \<Longrightarrow> op_is s' j v \<longleftrightarrow> op_is s j v"
    by (auto simp: op_transition_Inr op_is_def tget_tupd)
qed (auto simp: op_is_def)

text \<open>
  Two claimers that race for the same resource: once one compare-and-set has moved the phase,
  every other compare-and-set from the old phase fails, whatever its target and its time.
\<close>

theorem phase_race_one_winner:
  assumes "cas_phase rid from to1 at1 s = Inr s1" and "to1 \<noteq> from"
  shows "\<exists>e. cas_phase rid from to2 at2 s1 = Inl e"
  using phase_cas.cas_fails_elsewhere [OF phase_cas.cas_moves [OF assms(1)] assms(2)] .

end
