(* ===== verification/Invariants.thy ===== *)
theory Invariants
  imports Store_Laws
begin

text \<open>
  The invariants of the kernel's database and how it evolves, with one preservation lemma per
  persistence operation. The transaction proofs chain these lemmas.
\<close>

section \<open>The core invariant\<close>

text \<open>The phase a resource is in while an operation of a kind is open on it.\<close>

fun busy_phase :: "op_kind \<Rightarrow> phase" where
  "busy_phase OpKindCreate = Provisioning"
| "busy_phase OpKindDelete = Deleting"
| "busy_phase OpKindStop = Parking"
| "busy_phase OpKindStart = Starting"

definition distinct_keys :: "db \<Rightarrow> bool" where
  "distinct_keys s \<longleftrightarrow> distinct (map r_id (resources s)) \<and> distinct (map op_id (operations s))
     \<and> distinct (map l_id (leases s))"

definition stamped :: "operation \<Rightarrow> bool" where
  "stamped x \<longleftrightarrow> (op_terminal_at x \<noteq> None \<longleftrightarrow> op_terminal (op_state x))"

definition one_open :: "db \<Rightarrow> bool" where
  "one_open s \<longleftrightarrow> (\<forall>x \<in> set (operations s). \<forall>y \<in> set (operations s). \<forall>rid.
     open_on rid x \<longrightarrow> open_on rid y \<longrightarrow> x = y)"

definition shielded :: "db \<Rightarrow> bool" where
  "shielded s \<longleftrightarrow> (\<forall>x \<in> set (operations s). \<forall>rid. open_on rid x \<longrightarrow>
     (\<exists>r. tget r_id rid (resources s) = Some r \<and> (live r \<longrightarrow> r_phase r = busy_phase (op_kind x))))"

definition lease_phase :: "phase \<Rightarrow> bool" where
  "lease_phase p \<longleftrightarrow> p \<noteq> Provisioning \<and> p \<noteq> Deleting \<and> p \<noteq> Parking"

definition leased_safe :: "db \<Rightarrow> bool" where
  "leased_safe s \<longleftrightarrow> (\<forall>l \<in> set (leases s). l_state l = LeaseActive \<longrightarrow>
     (\<exists>r. tget r_id (l_resource l) (resources s) = Some r \<and> live r \<and> lease_phase (r_phase r)))"

definition exclusive_alone :: "db \<Rightarrow> bool" where
  "exclusive_alone s \<longleftrightarrow> (\<forall>l \<in> set (leases s). \<forall>l' \<in> set (leases s). \<forall>rid.
     is_active rid l \<longrightarrow> is_active rid l' \<longrightarrow> l_exclusive l \<longrightarrow> l = l')"

definition core :: "db \<Rightarrow> bool" where
  "core s \<longleftrightarrow> distinct_keys s \<and> (\<forall>x \<in> set (operations s). stamped x) \<and> one_open s
     \<and> shielded s \<and> leased_safe s \<and> exclusive_alone s"

lemma coreD:
  assumes "core s"
  shows "distinct (map r_id (resources s))" and "distinct (map op_id (operations s))"
    and "distinct (map l_id (leases s))" and "\<And>x. x \<in> set (operations s) \<Longrightarrow> stamped x"
    and "one_open s" and "shielded s" and "leased_safe s" and "exclusive_alone s"
  using assms by (auto simp: core_def distinct_keys_def)

lemma coreI:
  assumes "distinct (map r_id (resources s))" and "distinct (map op_id (operations s))"
    and "distinct (map l_id (leases s))" and "\<And>x. x \<in> set (operations s) \<Longrightarrow> stamped x"
    and "one_open s" and "shielded s" and "leased_safe s" and "exclusive_alone s"
  shows "core s"
  using assms by (auto simp: core_def distinct_keys_def)

lemma shieldedD:
  assumes "core s" and "x \<in> set (operations s)" and "open_on rid x"
    and "tget r_id rid (resources s) = Some r" and "live r"
  shows "r_phase r = busy_phase (op_kind x)"
  using coreD(6) [OF assms(1)] assms(2-5) unfolding shielded_def by fastforce

lemma leased_safeD:
  assumes "core s" and "l \<in> set (leases s)" and "is_active rid l"
    and "tget r_id rid (resources s) = Some r"
  shows "live r \<and> lease_phase (r_phase r)"
  using coreD(7) [OF assms(1)] assms(2-4) unfolding leased_safe_def is_active_def by fastforce

lemma leased_resource:
  assumes "core s" and "l \<in> set (leases s)" and "l_state l = LeaseActive"
  obtains r where "tget r_id (l_resource l) (resources s) = Some r" "live r" "lease_phase (r_phase r)"
  using coreD(7) [OF assms(1)] assms(2,3) unfolding leased_safe_def by blast

lemma core_empty: "core empty_db"
  by (simp add: core_def distinct_keys_def one_open_def shielded_def leased_safe_def
      exclusive_alone_def empty_db_def)

section \<open>Evolution\<close>

definition resource_evolves :: "resource \<Rightarrow> resource \<Rightarrow> bool" where
  "resource_evolves r r' \<longleftrightarrow> can_transition\<^sup>*\<^sup>* (r_phase r) (r_phase r')
     \<and> (\<not> live r \<longrightarrow> \<not> live r' \<and> r_phase r' = r_phase r)"

definition op_evolves :: "operation \<Rightarrow> operation \<Rightarrow> bool" where
  "op_evolves x x' \<longleftrightarrow> op_kind x' = op_kind x \<and> op_resource x' = op_resource x
     \<and> (op_terminal (op_state x) \<longrightarrow> op_state x' = op_state x \<and> op_terminal_at x' = op_terminal_at x)"

definition lease_evolves :: "lease \<Rightarrow> lease \<Rightarrow> bool" where
  "lease_evolves l l' \<longleftrightarrow> l_resource l' = l_resource l \<and> l_acquisition l' = l_acquisition l
     \<and> l_exclusive l' = l_exclusive l \<and> (l_state l \<noteq> LeaseActive \<longrightarrow> l_state l' = l_state l)"

definition rows_evolve :: "('r \<Rightarrow> 'k) \<Rightarrow> ('r \<Rightarrow> 'r \<Rightarrow> bool) \<Rightarrow> 'r list \<Rightarrow> 'r list \<Rightarrow> bool" where
  "rows_evolve key R t t' \<longleftrightarrow> (\<forall>k r. tget key k t = Some r \<longrightarrow> (\<exists>r'. tget key k t' = Some r' \<and> R r r'))"

definition evolves :: "db \<Rightarrow> db \<Rightarrow> bool" where
  "evolves s s' \<longleftrightarrow> rows_evolve r_id resource_evolves (resources s) (resources s')
     \<and> rows_evolve op_id op_evolves (operations s) (operations s')
     \<and> rows_evolve l_id lease_evolves (leases s) (leases s')"

lemma evolve_refl [simp]: "resource_evolves r r" "op_evolves x x" "lease_evolves l l"
  by (simp_all add: resource_evolves_def op_evolves_def lease_evolves_def)

lemma rows_evolve_refl: "(\<And>r. R r r) \<Longrightarrow> rows_evolve key R t t"
  by (auto simp: rows_evolve_def)

lemma rows_evolve_append: "(\<And>r. R r r) \<Longrightarrow> rows_evolve key R t (t @ u)"
  by (auto simp: rows_evolve_def tget_append)

lemma rows_evolve_tupd:
  assumes "\<And>r. R r r" and "keeps_key key f" and "\<And>r. tget key k t = Some r \<Longrightarrow> R r (f r)"
  shows "rows_evolve key R t (tupd key k f t)"
  using assms by (auto simp: rows_evolve_def tget_tupd)

lemma rows_evolve_trans:
  assumes "rows_evolve key R t u" and "rows_evolve key R u v"
    and "\<And>a b c. R a b \<Longrightarrow> R b c \<Longrightarrow> R a c"
  shows "rows_evolve key R t v"
  unfolding rows_evolve_def
proof (intro allI impI)
  fix k r
  assume "tget key k t = Some r"
  then obtain r' where "tget key k u = Some r'" and r': "R r r'"
    using assms(1) by (auto simp: rows_evolve_def)
  then obtain r'' where "tget key k v = Some r''" and "R r' r''"
    using assms(2) by (auto simp: rows_evolve_def)
  then show "\<exists>r''. tget key k v = Some r'' \<and> R r r''" using assms(3) [OF r'] by blast
qed

lemma evolves_refl [simp]: "evolves s s"
  by (simp add: evolves_def rows_evolve_refl)

lemma resource_evolves_trans: "resource_evolves a b \<Longrightarrow> resource_evolves b c \<Longrightarrow> resource_evolves a c"
  unfolding resource_evolves_def by (metis rtranclp_trans)

lemma op_evolves_trans: "op_evolves a b \<Longrightarrow> op_evolves b c \<Longrightarrow> op_evolves a c"
  by (auto simp: op_evolves_def)

lemma lease_evolves_trans: "lease_evolves a b \<Longrightarrow> lease_evolves b c \<Longrightarrow> lease_evolves a c"
  by (auto simp: lease_evolves_def)

lemma evolves_trans: "evolves s t \<Longrightarrow> evolves t u \<Longrightarrow> evolves s u"
  unfolding evolves_def
  by (auto intro: rows_evolve_trans resource_evolves_trans op_evolves_trans lease_evolves_trans)

section \<open>Advancing\<close>

definition adv :: "db \<Rightarrow> db \<Rightarrow> bool" where
  "adv s s' \<longleftrightarrow> core s' \<and> evolves s s'"

lemma adv_refl: "core s \<Longrightarrow> adv s s"
  by (simp add: adv_def)

lemma adv_trans: "adv s t \<Longrightarrow> adv t u \<Longrightarrow> adv s u"
  by (auto simp: adv_def intro: evolves_trans)

lemma adv_core: "adv s s' \<Longrightarrow> core s'"
  by (simp add: adv_def)

text \<open>What touches none of the three tables.\<close>

lemma adv_frame:
  assumes "core s" and "resources s' = resources s" and "operations s' = operations s"
    and "leases s' = leases s"
  shows "adv s s'"
  using assms
  by (simp add: adv_def core_def distinct_keys_def one_open_def shielded_def leased_safe_def
      exclusive_alone_def evolves_def rows_evolve_refl)

section \<open>Resources\<close>

lemma adv_resource_create:
  assumes "core s" and "resource_create r s = Inr s'"
  shows "adv s s'"
proof -
  from assms(2) have new: "tget r_id (r_id r) (resources s) = None"
    and s': "s' = s\<lparr>resources := resources s @ [r]\<rparr>" by (auto simp: store_simps)
  have old: "tget r_id rid (resources s @ [r]) = Some q" if "tget r_id rid (resources s) = Some q" for rid q
    using that by (simp add: tget_append)
  have "core s'"
  proof (rule coreI)
    show "distinct (map r_id (resources s'))"
      using coreD(1) [OF assms(1)] new by (auto simp: s' tget_None_iff)
    show "shielded s'" using coreD(6) [OF assms(1)] by (auto simp: s' shielded_def dest!: bspec old)
    show "leased_safe s'" using coreD(7) [OF assms(1)] by (auto simp: s' leased_safe_def dest!: bspec old)
    show "one_open s'" using coreD(5) [OF assms(1)] by (simp add: s' one_open_def)
    show "exclusive_alone s'" using coreD(8) [OF assms(1)] by (simp add: s' exclusive_alone_def)
  qed (use coreD [OF assms(1)] in \<open>simp_all add: s'\<close>)
  then show ?thesis
    by (simp add: adv_def evolves_def s' rows_evolve_refl rows_evolve_append)
qed

text \<open>An update of one resource row: what the open operations and the leases on it require.\<close>

lemma adv_update_resource:
  assumes "core s" and "keeps_key r_id f" and row: "tget r_id rid (resources s) = Some r"
    and "resource_evolves r (f r)"
    and ops: "\<And>x. x \<in> set (operations s) \<Longrightarrow> open_on rid x \<Longrightarrow> live (f r) \<Longrightarrow> r_phase (f r) = busy_phase (op_kind x)"
    and ls: "count_active rid s > 0 \<Longrightarrow> live (f r) \<and> lease_phase (r_phase (f r))"
  shows "adv s (update_resource rid f s)"
proof -
  let ?s = "update_resource rid f s"
  note c = coreD [OF assms(1)]
  have "core ?s"
  proof (rule coreI)
    show "distinct (map r_id (resources ?s))" using c(1) assms(2) by simp
    show "shielded ?s"
      unfolding shielded_def
    proof (intro ballI allI impI)
      fix x rid'
      assume x: "x \<in> set (operations ?s)" "open_on rid' x"
      with c(6) obtain q where "tget r_id rid' (resources s) = Some q"
        and "live q \<longrightarrow> r_phase q = busy_phase (op_kind x)"
        by (auto simp: shielded_def)
      with x row ops [of x] show "\<exists>q. tget r_id rid' (resources ?s) = Some q
          \<and> (live q \<longrightarrow> r_phase q = busy_phase (op_kind x))"
        by (cases "rid' = rid") (auto simp: tget_tupd [OF assms(2)])
    qed
    show "leased_safe ?s"
      unfolding leased_safe_def
    proof (intro ballI impI)
      fix l
      assume l: "l \<in> set (leases ?s)" "l_state l = LeaseActive"
      show "\<exists>q. tget r_id (l_resource l) (resources ?s) = Some q \<and> live q \<and> lease_phase (r_phase q)"
      proof (cases "l_resource l = rid")
        case True
        then have "\<not> count_active rid s = 0" using l by (auto simp: count_active_iff is_active_def)
        with ls row True show ?thesis by (auto simp: tget_tupd [OF assms(2)])
      next
        case False
        with c(7) l show ?thesis by (auto simp: leased_safe_def tget_tupd [OF assms(2)])
      qed
    qed
    show "one_open ?s" using c(5) by (simp add: one_open_def)
    show "exclusive_alone ?s" using c(8) by (simp add: exclusive_alone_def)
  qed (use c in simp_all)
  moreover have "evolves s ?s"
    using assms(2,4) row by (auto simp: evolves_def rows_evolve_refl intro: rows_evolve_tupd)
  ultimately show ?thesis by (simp add: adv_def)
qed

text \<open>Updates that leave phase and tombstone alone.\<close>

lemma adv_touch:
  assumes "core s" and "keeps_key r_id f" and row: "tget r_id rid (resources s) = Some r"
    and "\<And>q. r_phase (f q) = r_phase q" and "\<And>q. live (f q) = live q"
  shows "adv s (update_resource rid f s)"
proof (rule adv_update_resource [OF assms(1,2) row])
  show "resource_evolves r (f r)" using assms(4,5) by (simp add: resource_evolves_def)
next
  fix x
  assume "x \<in> set (operations s)" "open_on rid x" "live (f r)"
  then show "r_phase (f r) = busy_phase (op_kind x)"
    using shieldedD [OF assms(1) _ _ row] assms(4,5) by simp
next
  assume "0 < count_active rid s"
  then obtain l where "l \<in> set (leases s)" "is_active rid l"
    by (metis count_active_iff less_numeral_extra(3))
  then show "live (f r) \<and> lease_phase (r_phase (f r))"
    using leased_safeD [OF assms(1) _ _ row] assms(4,5) by simp
qed

definition no_open :: "string \<Rightarrow> db \<Rightarrow> bool" where
  "no_open rid s \<longleftrightarrow> (\<forall>x \<in> set (operations s). \<not> open_on rid x)"

text \<open>The phases no open operation holds a live resource in.\<close>

definition idle_phase :: "phase \<Rightarrow> bool" where
  "idle_phase p \<longleftrightarrow> p \<notin> {Provisioning, Deleting, Parking, Starting}"

lemma busy_not_idle: "\<not> idle_phase (busy_phase k)"
  by (cases k) (simp_all add: idle_phase_def)

lemma idle_no_open:
  assumes "core s" and "tget r_id rid (resources s) = Some r" and "live r" and "idle_phase (r_phase r)"
  shows "no_open rid s"
  unfolding no_open_def
proof (intro ballI notI)
  fix x
  assume "x \<in> set (operations s)" "open_on rid x"
  then have "r_phase r = busy_phase (op_kind x)" using shieldedD [OF assms(1) _ _ assms(2,3)] by simp
  with assms(4) show False by (simp add: busy_not_idle)
qed

lemma adv_cas_phase:
  assumes "core s" and cas: "cas_phase rid from to at s = Inr s'" and "can_transition from to"
    and "idle_phase from \<or> no_open rid s" and "lease_phase to \<or> count_active rid s = 0"
  shows "adv s s'"
proof -
  from cas obtain r where row: "tget r_id rid (resources s) = Some r" and r: "r_phase r = from" "live r"
    and s': "s' = update_resource rid (phase_columns from to at) s" by (auto simp: store_simps)
  have no: "no_open rid s" using assms(4) idle_no_open [OF assms(1) row r(2)] r(1) by auto
  show ?thesis
    unfolding s'
  proof (rule adv_update_resource [OF assms(1) _ row])
    show "resource_evolves r (phase_columns from to at r)"
      using r assms(3) by (auto simp: resource_evolves_def)
  qed (use no r assms(5) in \<open>auto simp: no_open_def\<close>)
qed

lemma adv_mark_deleted:
  assumes "core s" and "mark_deleted rid at s = Inr s'" and "count_active rid s = 0"
  shows "adv s s'"
proof -
  from assms(2) obtain r where row: "tget r_id rid (resources s) = Some r" and r: "live r"
    and s': "s' = update_resource rid (\<lambda>r. r\<lparr>r_deleted_at := Some at, r_updated_at := at\<rparr>) s"
    by (auto simp: store_simps)
  show ?thesis
    unfolding s'
    by (rule adv_update_resource [OF assms(1) _ row])
      (use r assms(3) in \<open>auto simp: resource_evolves_def live_def keeps_key_def\<close>)
qed

section \<open>Operations\<close>

lemma adv_op_append:
  assumes "core s" and app: "op_append x s = Inr s'" and "op_terminal_at x = None"
    and "\<And>rid. op_resource x = Some rid \<Longrightarrow>
      \<exists>r. tget r_id rid (resources s) = Some r \<and> (live r \<longrightarrow> r_phase r = busy_phase (op_kind x))"
  shows "adv s s'"
proof -
  note c = coreD [OF assms(1)]
  from app have st: "op_state x = OpJournaled" and new: "tget op_id (op_id x) (operations s) = None"
    and only: "\<And>rid y. op_resource x = Some rid \<Longrightarrow> y \<in> set (operations s) \<Longrightarrow> \<not> open_on rid y"
    and s': "s' = s\<lparr>operations := operations s @ [x]\<rparr>"
    using assms(3) by (auto simp: store_simps is_open_def list_ex_iff)
  have "core s'"
  proof (rule coreI)
    show "distinct (map op_id (operations s'))" using c(2) new by (auto simp: s' tget_None_iff)
    show "stamped y" if "y \<in> set (operations s')" for y
      using that c(4) [of y] st assms(3) by (auto simp: s' stamped_def)
    show "one_open s'" using c(5) only by (auto simp: s' one_open_def open_on_def)
    show "shielded s'" using c(6) assms(4) by (auto simp: s' shielded_def open_on_def)
    show "leased_safe s'" using c(7) by (simp add: s' leased_safe_def)
    show "exclusive_alone s'" using c(8) by (simp add: s' exclusive_alone_def)
  qed (use c in \<open>simp_all add: s'\<close>)
  then show ?thesis by (simp add: adv_def evolves_def s' rows_evolve_refl rows_evolve_append)
qed

definition keeps_state :: "(operation \<Rightarrow> operation) \<Rightarrow> bool" where
  "keeps_state mut \<longleftrightarrow> (\<forall>x. op_state (mut x) = op_state x \<and> op_terminal_at (mut x) = op_terminal_at x)"

lemma keeps_stateD: "keeps_state mut \<Longrightarrow> op_state (mut x) = op_state x"
  "keeps_state mut \<Longrightarrow> op_terminal_at (mut x) = op_terminal_at x"
  by (simp_all add: keeps_state_def)

lemma adv_op_transition:
  assumes "core s" and tr: "op_transition oid from to mut wall s = Inr s'"
    and "\<not> op_terminal from" and mut: "keeps_state mut"
  shows "adv s s'"
proof -
  note c = coreD [OF assms(1)]
  let ?f = "\<lambda>x. op_written x (mut (op_columns to wall x))"
  from tr obtain x where row: "tget op_id oid (operations s) = Some x" and x: "op_state x = from"
    and s': "s' = update_op oid ?f s" by (auto simp: store_simps)
  have mem: "x \<in> set (operations s)" "op_id x = oid" using tget_SomeD [OF row] by auto
  have "op_terminal_at x = None" using c(4) [OF mem(1)] x assms(3) by (simp add: stamped_def)
  then have xo: "is_open x" by (simp add: is_open_def)
  have only: "y = x" if "y \<in> set (operations s)" "op_id y = oid" for y
    using distinct_key_eqD [OF c(2) that(1) mem(1)] that(2) mem(2) by simp
  have pre: "\<exists>x0 \<in> set (operations s). y = (if op_id x0 = oid then ?f x0 else x0)
      \<and> (open_on rid y \<longrightarrow> open_on rid x0) \<and> op_kind y = op_kind x0"
    if "y \<in> set (operations s')" for y rid
  proof -
    from that obtain x0 where x0: "x0 \<in> set (operations s)" "y = (if op_id x0 = oid then ?f x0 else x0)"
      unfolding s' update_op_frame tupd_mem by blast
    with only xo show ?thesis by (intro bexI [of _ x0]) (auto simp: open_on_def)
  qed
  have "core s'"
  proof (rule coreI)
    show "distinct (map op_id (operations s'))" using c(2) by (simp add: s')
    show "stamped y" if "y \<in> set (operations s')" for y
    proof -
      from pre [OF that] obtain x0 where "x0 \<in> set (operations s)" "y = (if op_id x0 = oid then ?f x0 else x0)"
        by blast
      then show ?thesis using c(4) [of x0] only [of x0] x assms(3)
        by (auto simp: stamped_def keeps_stateD [OF mut])
    qed
    show "one_open s'"
      unfolding one_open_def
    proof (intro ballI allI impI)
      fix y z rid
      assume y: "y \<in> set (operations s')" "open_on rid y" and z: "z \<in> set (operations s')" "open_on rid z"
      from pre [OF y(1), of rid] pre [OF z(1), of rid] y(2) z(2) c(5) show "y = z"
        unfolding one_open_def by metis
    qed
    show "shielded s'"
      unfolding shielded_def
    proof (intro ballI allI impI)
      fix y rid
      assume y: "y \<in> set (operations s')" "open_on rid y"
      from pre [OF y(1), of rid] y(2) c(6)
      show "\<exists>r. tget r_id rid (resources s') = Some r \<and> (live r \<longrightarrow> r_phase r = busy_phase (op_kind y))"
        unfolding shielded_def s' by fastforce
    qed
    show "leased_safe s'" using c(7) by (simp add: s' leased_safe_def)
    show "exclusive_alone s'" using c(8) by (simp add: s' exclusive_alone_def)
  qed (use c in \<open>simp_all add: s'\<close>)
  moreover have "evolves s s'"
    unfolding evolves_def s' update_op_frame
  proof (intro conjI rows_evolve_refl evolve_refl rows_evolve_tupd keeps_keys)
    fix y
    assume "tget op_id oid (operations s) = Some y"
    with row x assms(3) show "op_evolves y (?f y)" by (simp add: op_evolves_def)
  qed
  ultimately show ?thesis by (simp add: adv_def)
qed

text \<open>Once the open operation of a resource is terminal, none is open.\<close>

lemma no_open_after_terminal:
  assumes "core s" and tr: "op_transition oid from to mut wall s = Inr s'"
    and "\<not> op_terminal from" and "op_terminal to" and mut: "keeps_state mut"
    and row: "tget op_id oid (operations s) = Some x" and "op_resource x = Some rid"
  shows "no_open rid s'"
  unfolding no_open_def
proof (intro ballI notI)
  note c = coreD [OF assms(1)]
  let ?f = "\<lambda>x. op_written x (mut (op_columns to wall x))"
  fix y
  assume y: "y \<in> set (operations s')" "open_on rid y"
  from tr row have s': "s' = update_op oid ?f s" and x: "op_state x = from" by (auto simp: store_simps)
  have mem: "x \<in> set (operations s)" "op_id x = oid" using tget_SomeD [OF row] by auto
  have "op_terminal_at x = None" using c(4) [OF mem(1)] x assms(3) by (simp add: stamped_def)
  then have xo: "open_on rid x" using assms(7) by (simp add: open_on_def is_open_def)
  from y(1) obtain x0 where x0: "x0 \<in> set (operations s)" "y = (if op_id x0 = oid then ?f x0 else x0)"
    unfolding s' update_op_frame tupd_mem by blast
  show False
  proof (cases "op_id x0 = oid")
    case True
    with y(2) x0 show ?thesis
      by (auto simp: open_on_def is_open_def keeps_stateD [OF mut] assms(4) split: if_splits)
  next
    case False
    with x0 y(2) have "open_on rid x0" by simp
    then have "x0 = x" using c(5) x0(1) mem(1) xo unfolding one_open_def by blast
    with False mem(2) show ?thesis by simp
  qed
qed

section \<open>Leases\<close>

lemma adv_lease_insert:
  assumes "core s" and ins: "lease_insert l s = Inr s'"
    and row: "tget r_id (l_resource l) (resources s) = Some r" and "live r" and "lease_phase (r_phase r)"
    and "l_exclusive l \<Longrightarrow> count_active (l_resource l) s = 0"
    and "\<And>x. x \<in> set (leases s) \<Longrightarrow> is_active (l_resource l) x \<Longrightarrow> \<not> l_exclusive x"
  shows "adv s s'"
proof -
  note c = coreD [OF assms(1)]
  from ins have new: "tget l_id (l_id l) (leases s) = None" and s': "s' = s\<lparr>leases := leases s @ [l]\<rparr>"
    by (auto simp: store_simps)
  have "core s'"
  proof (rule coreI)
    show "distinct (map l_id (leases s'))" using c(3) new by (auto simp: s' tget_None_iff)
    show "leased_safe s'" using c(7) row assms(4,5) by (auto simp: s' leased_safe_def)
    show "exclusive_alone s'"
      unfolding exclusive_alone_def
    proof (intro ballI allI impI)
      fix x y rid
      assume x: "x \<in> set (leases s')" "is_active rid x" "l_exclusive x"
        and y: "y \<in> set (leases s')" "is_active rid y"
      have rid: "rid = l_resource l" if "x = l \<or> y = l" using that x(2) y(2) by (auto simp: is_active_def)
      show "x = y"
      proof (cases "x = l \<or> y = l")
        case True
        with rid x y assms(6) assms(7) [of x] show ?thesis by (auto simp: s' count_active_iff)
      next
        case False
        with x y have "x \<in> set (leases s)" "y \<in> set (leases s)" by (auto simp: s')
        with c(8) x y show ?thesis unfolding exclusive_alone_def by blast
      qed
    qed
    show "one_open s'" using c(5) by (simp add: s' one_open_def)
    show "shielded s'" using c(6) by (simp add: s' shielded_def)
  qed (use c in \<open>simp_all add: s'\<close>)
  then show ?thesis by (simp add: adv_def evolves_def s' rows_evolve_refl rows_evolve_append)
qed

lemma adv_lease_transition:
  assumes "core s" and tr: "lease_transition lid LeaseActive to at s = Inr s'" and "to \<noteq> LeaseActive"
  shows "adv s s'"
proof -
  note c = coreD [OF assms(1)]
  from tr obtain l where row: "tget l_id lid (leases s) = Some l" "l_state l = LeaseActive"
    and s': "s' = update_lease lid (lease_columns to at) s" by (auto simp: store_simps)
  have pre: "x \<in> set (leases s)" if "x \<in> set (leases s')" "l_state x = LeaseActive" for x
    using that assms(3) unfolding s' update_lease_frame tupd_mem by (auto split: if_splits)
  have "core s'"
  proof (rule coreI)
    show "distinct (map l_id (leases s'))" using c(3) by (simp add: s')
    show "leased_safe s'" using c(7) pre by (simp add: leased_safe_def) (simp add: s')
    show "exclusive_alone s'" using c(8) pre by (auto simp: exclusive_alone_def is_active_def)
    show "one_open s'" using c(5) by (simp add: s' one_open_def)
    show "shielded s'" using c(6) by (simp add: s' shielded_def)
  qed (use c in \<open>simp_all add: s'\<close>)
  moreover have "evolves s s'"
    using row by (auto simp: evolves_def s' rows_evolve_refl lease_evolves_def intro!: rows_evolve_tupd)
  ultimately show ?thesis by (simp add: adv_def)
qed

section \<open>Events, observations and kept transactions\<close>

lemma adv_event: "core s \<Longrightarrow> event_append e s = Inr s' \<Longrightarrow> adv s s'"
  by (rule adv_frame) (auto simp: store_simps)

lemma adv_put_observed: "core s \<Longrightarrow> put_observed snap s = Inr s' \<Longrightarrow> adv s s'"
  by (rule adv_frame) (auto dest!: put_observed_Inr)

lemma adv_tx_or_keep:
  assumes "core s" and "\<And>s'. r = Inr s' \<Longrightarrow> adv s s'"
  shows "adv s (tx_or_keep s r)"
  using assms by (cases r) (auto intro: adv_refl)

lemma adv_set_facts: "core s \<Longrightarrow> set_provider_facts rid e c at s = Inr s' \<Longrightarrow> adv s s'"
  by (auto simp: set_provider_facts_def exec_one_Inr keeps_key_def live_def intro!: adv_touch)

lemma adv_set_external_ref: "core s \<Longrightarrow> set_external_ref rid e ref s = Inr s' \<Longrightarrow> adv s s'"
  by (auto simp: set_external_ref_def exec_one_Inr keeps_key_def live_def
      split: option.splits if_splits intro!: adv_touch)

lemma adv_set_last_lease_ended: "core s \<Longrightarrow> set_last_lease_ended rid at s = Inr s' \<Longrightarrow> adv s s'"
  by (auto simp: set_last_lease_ended_def exec_one_Inr keeps_key_def live_def intro!: adv_touch)

lemma adv_set_delete_protected: "core s \<Longrightarrow> set_delete_protected rid b at s = Inr s' \<Longrightarrow> adv s s'"
  by (auto simp: set_delete_protected_def exec_one_Inr keeps_key_def live_def intro!: adv_touch)

lemma adv_acq_transition: "core s \<Longrightarrow> acq_transition aid fr t at s = Inr s' \<Longrightarrow> adv s s'"
  by (rule adv_frame) (auto simp: store_simps)

lemma adv_acq_bind: "core s \<Longrightarrow> acq_bind aid lid at s = Inr s' \<Longrightarrow> adv s s'"
  by (rule adv_frame) (auto simp: store_simps)

lemma adv_acq_insert: "core s \<Longrightarrow> acq_insert a s = Inr s' \<Longrightarrow> adv s s'"
  by (rule adv_frame) (auto simp: store_simps)

lemma adv_acq_pending:
  "core s \<Longrightarrow> acq_set_pending_resource aid rid s = Inr s' \<Longrightarrow> adv s s'"
  "core s \<Longrightarrow> acq_clear_pending_resource aid s = Inr s' \<Longrightarrow> adv s s'"
  by (rule adv_frame; auto simp: store_simps)+

section \<open>Acquisitions and their leases\<close>

text \<open>
  Bound acquisitions and active leases correspond one to one: an active lease belongs to a bound
  acquisition that names it, and a bound acquisition names an active lease of its own.
\<close>

definition acq_ok :: "db \<Rightarrow> bool" where
  "acq_ok s \<longleftrightarrow> distinct (map a_id (acquisitions s)) \<and> distinct (map l_id (leases s))
     \<and> (\<forall>l \<in> set (leases s). l_state l = LeaseActive \<longrightarrow>
          (\<exists>a. tget a_id (l_acquisition l) (acquisitions s) = Some a \<and> a_state a = AcqBound
             \<and> a_lease a = Some (l_id l)))
     \<and> (\<forall>a \<in> set (acquisitions s). a_state a = AcqBound \<longrightarrow>
          (\<exists>l \<in> set (leases s). a_lease a = Some (l_id l) \<and> l_state l = LeaseActive
             \<and> l_acquisition l = a_id a))"

lemma acq_okD:
  assumes "acq_ok s"
  shows "distinct (map a_id (acquisitions s))" and "distinct (map l_id (leases s))"
    and "\<And>l. l \<in> set (leases s) \<Longrightarrow> l_state l = LeaseActive \<Longrightarrow>
          \<exists>a. tget a_id (l_acquisition l) (acquisitions s) = Some a \<and> a_state a = AcqBound
             \<and> a_lease a = Some (l_id l)"
    and "\<And>a. a \<in> set (acquisitions s) \<Longrightarrow> a_state a = AcqBound \<Longrightarrow>
          \<exists>l \<in> set (leases s). a_lease a = Some (l_id l) \<and> l_state l = LeaseActive
             \<and> l_acquisition l = a_id a"
  using assms unfolding acq_ok_def by blast+

lemma acq_ok_empty: "acq_ok empty_db"
  by (simp add: acq_ok_def empty_db_def)

lemma acq_ok_frame:
  "acq_ok s \<Longrightarrow> acquisitions s' = acquisitions s \<Longrightarrow> leases s' = leases s \<Longrightarrow> acq_ok s'"
  by (simp add: acq_ok_def)

lemma acq_ok_insert:
  assumes "acq_ok s" and "acq_insert a s = Inr s'" and "a_state a \<noteq> AcqBound"
  shows "acq_ok s'"
proof -
  note c = acq_okD [OF assms(1)]
  from assms(2) have new: "tget a_id (a_id a) (acquisitions s) = None"
    and s': "s' = s\<lparr>acquisitions := acquisitions s @ [a]\<rparr>" by (auto simp: store_simps)
  show ?thesis
    unfolding acq_ok_def s'
    using c(1,2) new c(4) assms(3)
    by (auto simp: tget_None_iff tget_append dest!: c(3))
qed

text \<open>Updates of an acquisition that neither enter nor leave \<open>bound\<close>.\<close>

lemma acq_ok_update:
  assumes "acq_ok s" and "keeps_key a_id f" and row: "tget a_id aid (acquisitions s) = Some a"
    and "a_state (f a) = AcqBound \<longleftrightarrow> a_state a = AcqBound" and "a_lease (f a) = a_lease a"
  shows "acq_ok (update_acq aid f s)"
proof -
  note c = acq_okD [OF assms(1)]
  have mem: "a \<in> set (acquisitions s)" "a_id a = aid" using tget_SomeD [OF row] by auto
  have only: "y = a" if "y \<in> set (acquisitions s)" "a_id y = aid" for y
    using distinct_key_eqD [OF c(1) that(1) mem(1)] that(2) mem(2) by simp
  show ?thesis
    unfolding acq_ok_def update_acq_frame
  proof (intro conjI ballI impI)
    show "distinct (map a_id (tupd a_id aid f (acquisitions s)))" using c(1) assms(2) by simp
    show "distinct (map l_id (leases s))" by (rule c(2))
  next
    fix l
    assume "l \<in> set (leases s)" "l_state l = LeaseActive"
    from c(3) [OF this] row assms(4,5)
    show "\<exists>a. tget a_id (l_acquisition l) (tupd a_id aid f (acquisitions s)) = Some a
        \<and> a_state a = AcqBound \<and> a_lease a = Some (l_id l)"
      by (auto simp: tget_tupd [OF assms(2)])
  next
    fix y
    assume "y \<in> set (tupd a_id aid f (acquisitions s))" "a_state y = AcqBound"
    then obtain y0 where y0: "y0 \<in> set (acquisitions s)" "y = (if a_id y0 = aid then f y0 else y0)"
      "a_state y = AcqBound"
      by (auto simp: tupd_mem)
    then have "a_state y0 = AcqBound" "a_lease y = a_lease y0" "a_id y = a_id y0"
      using only assms(4,5) keeps_keyD [OF assms(2)] by (auto split: if_splits)
    with c(4) [OF y0(1)] show "\<exists>l \<in> set (leases s). a_lease y = Some (l_id l)
        \<and> l_state l = LeaseActive \<and> l_acquisition l = a_id y" by auto
  qed
qed

lemma acq_ok_transition:
  assumes "acq_ok s" and "acq_transition aid fr t at s = Inr s'" and "fr \<noteq> AcqBound" and "t \<noteq> AcqBound"
  shows "acq_ok s'"
  using assms by (auto simp: store_simps keeps_key_def intro!: acq_ok_update)

lemma acq_ok_pending:
  assumes "acq_ok s"
  shows "acq_set_pending_resource aid rid s = Inr s' \<Longrightarrow> acq_ok s'"
    and "acq_clear_pending_resource aid s = Inr s' \<Longrightarrow> acq_ok s'"
proof -
  have upd: "acq_ok (update_acq aid (\<lambda>a. a\<lparr>a_pending_resource := v\<rparr>) s)" for v
  proof (cases "tget a_id aid (acquisitions s)")
    case None
    then have "tupd a_id aid (\<lambda>a. a\<lparr>a_pending_resource := v\<rparr>) (acquisitions s) = acquisitions s"
      by (simp add: tupd_def tget_None_iff) (rule map_idI, auto)
    then show ?thesis using acq_ok_frame [OF assms] by simp
  next
    case (Some a)
    then show ?thesis using assms by (auto simp: keeps_key_def intro!: acq_ok_update)
  qed
  show "acq_set_pending_resource aid rid s = Inr s' \<Longrightarrow> acq_ok s'"
    and "acq_clear_pending_resource aid s = Inr s' \<Longrightarrow> acq_ok s'"
    using upd by (auto simp: store_simps)
qed

text \<open>A new active lease together with the binding of its acquisition.\<close>

lemma acq_ok_bind:
  assumes "acq_ok s" and ins: "lease_insert l s = Inr s1" and "l_state l = LeaseActive"
    and bind: "acq_bind (l_acquisition l) (l_id l) at s2 = Inr s'"
    and fr: "acquisitions s2 = acquisitions s1" "leases s2 = leases s1"
  shows "acq_ok s'"
proof -
  note c = acq_okD [OF assms(1)]
  let ?f = "\<lambda>a :: acquisition. a\<lparr>a_state := AcqBound, a_lease := Some (l_id l), a_pending_resource := None, a_updated_at := at\<rparr>"
  from ins have new: "tget l_id (l_id l) (leases s) = None" and ls: "leases s' = leases s @ [l]"
    and acqs: "acquisitions s1 = acquisitions s"
    using bind fr by (auto simp: store_simps)
  from bind fr acqs obtain a where row: "tget a_id (l_acquisition l) (acquisitions s) = Some a"
    and st: "a_state a = AcqPending \<or> a_state a = AcqProvisioning"
    and aq: "acquisitions s' = tupd a_id (l_acquisition l) ?f (acquisitions s)"
    by (auto simp: store_simps)
  have key: "keeps_key a_id ?f" by (simp add: keeps_key_def)
  have mem: "a \<in> set (acquisitions s)" "a_id a = l_acquisition l" using tget_SomeD [OF row] by auto
  have other: "l_acquisition x \<noteq> l_acquisition l" if "x \<in> set (leases s)" "l_state x = LeaseActive" for x
    using c(3) [OF that] row st by auto
  show ?thesis
    unfolding acq_ok_def ls aq
  proof (intro conjI ballI impI)
    show "distinct (map a_id (tupd a_id (l_acquisition l) ?f (acquisitions s)))" using c(1) key by simp
    show "distinct (map l_id (leases s @ [l]))" using c(2) new by (auto simp: tget_None_iff)
  next
    fix x
    assume "x \<in> set (leases s @ [l])" "l_state x = LeaseActive"
    then show "\<exists>a. tget a_id (l_acquisition x) (tupd a_id (l_acquisition l) ?f (acquisitions s)) = Some a
        \<and> a_state a = AcqBound \<and> a_lease a = Some (l_id x)"
      using c(3) [of x] row other [of x] by (auto simp: tget_tupd [OF key])
  next
    fix y
    assume y: "y \<in> set (tupd a_id (l_acquisition l) ?f (acquisitions s))" "a_state y = AcqBound"
    then obtain y0 where y0: "y0 \<in> set (acquisitions s)" "y = (if a_id y0 = l_acquisition l then ?f y0 else y0)"
      by (auto simp: tupd_mem)
    show "\<exists>x \<in> set (leases s @ [l]). a_lease y = Some (l_id x) \<and> l_state x = LeaseActive
        \<and> l_acquisition x = a_id y"
    proof (cases "a_id y0 = l_acquisition l")
      case True
      with y0 assms(3) show ?thesis by simp
    next
      case False
      with y0 y(2) c(4) [of y0] show ?thesis by auto
    qed
  qed
qed

text \<open>The end of an active lease together with that of its acquisition.\<close>

lemma acq_ok_end:
  assumes "acq_ok s" and tr: "lease_transition lid LeaseActive to at s = Inr s1" and "to \<noteq> LeaseActive"
    and row: "tget l_id lid (leases s) = Some l"
    and acq: "acq_transition (l_acquisition l) AcqBound q at s1 = Inr s'" and "q \<noteq> AcqBound"
  shows "acq_ok s'"
proof -
  note c = acq_okD [OF assms(1)]
  let ?g = "\<lambda>a :: acquisition. a\<lparr>a_state := q, a_updated_at := at\<rparr>"
  from tr row have act: "l_state l = LeaseActive" and ls: "leases s' = tupd l_id lid (lease_columns to at) (leases s)"
    and a1: "acquisitions s1 = acquisitions s"
    using acq by (auto simp: store_simps)
  have aq: "acquisitions s' = tupd a_id (l_acquisition l) ?g (acquisitions s)"
    using acq a1 by (auto simp: store_simps)
  have lmem: "l \<in> set (leases s)" "l_id l = lid" using tget_SomeD [OF row] by auto
  have lonly: "x = l" if "x \<in> set (leases s)" "l_id x = lid" for x
    using distinct_key_eqD [OF c(2) that(1) lmem(1)] that(2) lmem(2) by simp
  have key: "keeps_key a_id ?g" by (simp add: keeps_key_def)
  show ?thesis
    unfolding acq_ok_def ls aq
  proof (intro conjI ballI impI)
    show "distinct (map a_id (tupd a_id (l_acquisition l) ?g (acquisitions s)))" using c(1) key by simp
    show "distinct (map l_id (tupd l_id lid (lease_columns to at) (leases s)))" using c(2) by simp
  next
    fix x
    assume x: "x \<in> set (tupd l_id lid (lease_columns to at) (leases s))" "l_state x = LeaseActive"
    then obtain z where z: "z \<in> set (leases s)" "x = (if l_id z = lid then lease_columns to at z else z)"
      unfolding tupd_mem by blast
    with x(2) assms(3) have x0: "x \<in> set (leases s)" "l_id x \<noteq> lid" by (simp_all split: if_splits)
    from c(3) [OF x0(1) x(2)] obtain a where a: "tget a_id (l_acquisition x) (acquisitions s) = Some a"
      "a_state a = AcqBound" "a_lease a = Some (l_id x)" by blast
    from c(3) [OF lmem(1) act] obtain b where b: "tget a_id (l_acquisition l) (acquisitions s) = Some b"
      "a_lease b = Some (l_id l)" by blast
    have "l_acquisition x \<noteq> l_acquisition l" using a b x0(2) lmem(2) by auto
    with a show "\<exists>a. tget a_id (l_acquisition x) (tupd a_id (l_acquisition l) ?g (acquisitions s)) = Some a
        \<and> a_state a = AcqBound \<and> a_lease a = Some (l_id x)"
      by (simp add: tget_tupd [OF key])
  next
    fix y
    assume "y \<in> set (tupd a_id (l_acquisition l) ?g (acquisitions s))" "a_state y = AcqBound"
    then obtain z where z: "z \<in> set (acquisitions s)" "y = (if a_id z = l_acquisition l then ?g z else z)"
      and yb: "a_state y = AcqBound"
      unfolding tupd_mem by blast
    then have y: "y \<in> set (acquisitions s)" "a_id y \<noteq> l_acquisition l" "a_state y = AcqBound"
      using assms(6) by (simp_all split: if_splits)
    from c(4) [OF y(1,3)] obtain x where x: "x \<in> set (leases s)" "a_lease y = Some (l_id x)"
      "l_state x = LeaseActive" "l_acquisition x = a_id y" by blast
    then have "l_id x \<noteq> lid" using lonly y(2) by auto
    then have "x \<in> set (tupd l_id lid (lease_columns to at) (leases s))"
      unfolding tupd_mem using x(1) by (intro bexI [of _ x]) simp_all
    with x show "\<exists>x \<in> set (tupd l_id lid (lease_columns to at) (leases s)). a_lease y = Some (l_id x)
        \<and> l_state x = LeaseActive \<and> l_acquisition x = a_id y" by blast
  qed
qed

end
