(* ===== verification/Drivers.thy ===== *)
theory Drivers
  imports Invariants
begin

text \<open>
  What the kernel sees of the providers (pkg/sdk/provider/provider.go and the interface
  \<open>Providers\<close> of internal/provision/provision.go): a driver is a record of the answers its
  methods give. The drivers talk to a cloud, so each definition that calls one takes the record
  as an argument, and every theorem holds for any answers.
\<close>

record desired_state =
  ds_name :: string
  ds_spec :: "json blob"
  ds_labels :: labels

datatype discover_scope = ScopeOwned | ScopeAll

record driver =
  dr_plan :: "string \<Rightarrow> desired_state \<Rightarrow> err + action list"
  dr_apply :: "action \<Rightarrow> err + operation_ref"
  dr_observe :: "operation_ref \<Rightarrow> err + operation_status"
  dr_get :: "ext_ref \<Rightarrow> err + observed_resource"
  dr_discover :: "discover_scope \<Rightarrow> labels \<Rightarrow> err + observed_resource list"

record provider_inst =
  pi_kinds :: "string list"
  pi_label_discovery :: bool
  pi_driver :: "string \<Rightarrow> driver option"

text \<open>\<open>Instance\<close>, \<open>Billing\<close> (with the adaptive-buffer flag) and \<open>Parking\<close>.\<close>

record providers =
  pv_instance :: "string \<Rightarrow> provider_inst option"
  pv_billing :: "string \<Rightarrow> string \<Rightarrow> billing_policy \<times> bool"
  pv_parking :: "string \<Rightarrow> string \<Rightarrow> park_policy"

text \<open>A resolved class template (\<open>Class\<close> of internal/reconcile/reconcile.go) and its resolver.\<close>

record class_tmpl =
  ct_kind :: string
  ct_provider :: string
  ct_spec :: "json blob"
  ct_reclaim :: "reclaim_policy option"
  ct_queue_max_wait :: int

type_synonym class_resolver = "string \<Rightarrow> class_tmpl option"

text \<open>
  A single-transaction function of the kernel returns the error of its transaction: no write of a
  failed transaction stays.
\<close>

definition run_tx :: "'s \<Rightarrow> err + 's \<Rightarrow> err option \<times> 's" where
  "run_tx s r = (case r of Inl e \<Rightarrow> (Some e, s) | Inr s' \<Rightarrow> (None, s'))"

lemma run_tx_simps [simp]: "run_tx s (Inl e) = (Some e, s)" "run_tx s (Inr s') = (None, s')"
  by (simp_all add: run_tx_def)

lemma snd_run_tx: "snd (run_tx s r) = tx_or_keep s r"
  by (cases r) simp_all

lemma fst_run_tx_None: "fst (run_tx s r) = None \<longleftrightarrow> (\<exists>s'. r = Inr s')"
  by (cases r) simp_all

text \<open>
  The external reference an action carries: the stored reference, or one built from the external
  id when the column is empty, undecodable or without an id.
\<close>

definition stored_ref :: "resource \<Rightarrow> string \<Rightarrow> ext_ref" where
  "stored_ref r ext =
     (let ref = (case r_external_ref r of BVal x \<Rightarrow> x | _ \<Rightarrow> \<lparr>ref_id = [], ref_extra = []\<rparr>)
      in if ref_id ref = [] then ref\<lparr>ref_id := ext\<rparr> else ref)"

lemma stored_ref_id: "ext \<noteq> [] \<Longrightarrow> ref_id (stored_ref r ext) \<noteq> []"
  by (simp add: stored_ref_def Let_def)

end
