(* ===== verification/Lease_Manager.thy ===== *)
theory Lease_Manager
  imports Drivers
begin

text \<open>
  Lease lifecycle (internal/lease/manager.go): release by lease and by acquisition, the expiry
  sweep, and the step that returns a resource to \<open>ready\<close> when its last active lease ends. The
  pool kicks that follow a commit only wake the reconciler and are left out.
\<close>

definition lease_event :: "int \<Rightarrow> string \<Rightarrow> string \<Rightarrow> event" where
  "lease_event now ty rid =
     \<lparr>ev_ts = now, ev_actor = [], ev_idem_key = [], ev_type = ty, ev_resource = Some rid,
      ev_pool = None, ev_operation = None, ev_provider = [], ev_outcome = []\<rparr>"

definition end_lease_locked :: "lease \<Rightarrow> int \<Rightarrow> db \<Rightarrow> err + db" where
  "end_lease_locked l now s =
     bindE (set_last_lease_ended (l_resource l) now s) (\<lambda>s.
     bindE (resource_get (l_resource l) s) (\<lambda>res.
     if count_active (l_resource l) s = 0 \<and> r_phase res = Allocated
     then cas_phase (l_resource l) Allocated Ready now s
     else Inr s))"

text \<open>
  The common body of the two transactions: the lease leaves \<open>active\<close>, and its acquisition, when
  still bound, follows it.
\<close>

definition end_lease_tx :: "lease \<Rightarrow> lease_state \<Rightarrow> acq_state \<Rightarrow> string \<Rightarrow> int \<Rightarrow> db \<Rightarrow> err + db" where
  "end_lease_tx l to acq_to ty now s =
     bindE (lease_transition (l_id l) LeaseActive to now s) (\<lambda>s.
     bindE (end_lease_locked l now
        (case acq_get (l_acquisition l) s of
           Inl _ \<Rightarrow> s
         | Inr a \<Rightarrow> (if a_state a = AcqBound
                     then tx_or_keep s (acq_transition (a_id a) AcqBound acq_to now s) else s))) (\<lambda>s.
     event_append (lease_event now ty (l_resource l)) s))"

definition release :: "string \<Rightarrow> int \<Rightarrow> db \<Rightarrow> err + db" where
  "release lid now s =
     bindE (lease_get lid s) (\<lambda>l.
     if l_state l \<noteq> LeaseActive then Inl EConflict
     else end_lease_tx l LeaseReleased AcqReleased ''lease.released'' now s)"

definition release_acquisition :: "string \<Rightarrow> int \<Rightarrow> db \<Rightarrow> err + db" where
  "release_acquisition aid now s =
     bindE (acq_get aid s) (\<lambda>a.
     case a_state a of
       AcqBound \<Rightarrow> (case a_lease a of None \<Rightarrow> Inl EConflict | Some lid \<Rightarrow> release lid now s)
     | AcqPending \<Rightarrow> acq_transition aid AcqPending AcqReleased now s
     | AcqProvisioning \<Rightarrow> acq_transition aid AcqProvisioning AcqReleased now s
     | _ \<Rightarrow> Inl EConflict)"

definition expire_one :: "int \<Rightarrow> lease \<Rightarrow> nat \<times> db \<Rightarrow> nat \<times> db" where
  "expire_one now l ns =
     (case end_lease_tx l LeaseExpired AcqExpired ''lease.expired'' now (snd ns) of
        Inl _ \<Rightarrow> ns
      | Inr s' \<Rightarrow> (fst ns + 1, s'))"

definition sweep_expired :: "int \<Rightarrow> db \<Rightarrow> nat \<times> db" where
  "sweep_expired now s = fold (expire_one now) (leases_expiring now 100 s) (0, s)"

section \<open>Ending a lease keeps the invariants\<close>

lemma adv_end_lease_locked:
  assumes "core s" and e: "end_lease_locked l now s = Inr s'"
  shows "adv s s'"
proof -
  from e obtain s1 where 1: "set_last_lease_ended (l_resource l) now s = Inr s1"
    and 2: "s' = s1 \<or> count_active (l_resource l) s1 = 0
              \<and> cas_phase (l_resource l) Allocated Ready now s1 = Inr s'"
    by (auto simp: end_lease_locked_def result_simps split: if_splits)
  have a1: "adv s s1" by (rule adv_set_last_lease_ended [OF assms(1) 1])
  have "adv s1 s'"
    using 2 adv_core [OF a1]
    by (auto simp: can_transition_iff idle_phase_def lease_phase_def intro: adv_refl adv_cas_phase)
  then show ?thesis by (rule adv_trans [OF a1])
qed

lemma end_lease_locked_frame:
  "end_lease_locked l now s = Inr s' \<Longrightarrow> acquisitions s' = acquisitions s \<and> leases s' = leases s"
  by (auto simp: end_lease_locked_def set_last_lease_ended_def result_simps store_simps split: if_splits)

text \<open>The acquisition's side of the end of a lease.\<close>

definition end_acq :: "lease \<Rightarrow> acq_state \<Rightarrow> int \<Rightarrow> db \<Rightarrow> db" where
  "end_acq l acq_to now s =
     (case acq_get (l_acquisition l) s of
        Inl _ \<Rightarrow> s
      | Inr a \<Rightarrow> (if a_state a = AcqBound
                  then tx_or_keep s (acq_transition (a_id a) AcqBound acq_to now s) else s))"

lemma adv_end_acq: "core s \<Longrightarrow> adv s (end_acq l acq_to now s)"
  by (auto simp: end_acq_def intro: adv_refl adv_tx_or_keep adv_acq_transition split: sum.splits)

lemma end_lease_tx_Inr:
  "end_lease_tx l to acq_to ty now s = Inr s' \<longleftrightarrow>
     (\<exists>s1 s2. lease_transition (l_id l) LeaseActive to now s = Inr s1
        \<and> end_lease_locked l now (end_acq l acq_to now s1) = Inr s2
        \<and> event_append (lease_event now ty (l_resource l)) s2 = Inr s')"
  by (auto simp: end_lease_tx_def end_acq_def result_simps)

lemma adv_end_lease_tx:
  assumes "core s" and e: "end_lease_tx l to acq_to ty now s = Inr s'" and "to \<noteq> LeaseActive"
  shows "adv s s'"
proof -
  from e obtain s1 s2 where 1: "lease_transition (l_id l) LeaseActive to now s = Inr s1"
    and 2: "end_lease_locked l now (end_acq l acq_to now s1) = Inr s2"
    and 3: "event_append (lease_event now ty (l_resource l)) s2 = Inr s'"
    by (auto simp: end_lease_tx_Inr)
  have a1: "adv s s1" by (rule adv_lease_transition [OF assms(1) 1 assms(3)])
  have a2: "adv s1 (end_acq l acq_to now s1)" by (rule adv_end_acq [OF adv_core [OF a1]])
  have a3: "adv (end_acq l acq_to now s1) s2" by (rule adv_end_lease_locked [OF adv_core [OF a2] 2])
  have a4: "adv s2 s'" by (rule adv_event [OF adv_core [OF a3] 3])
  show ?thesis by (rule adv_trans [OF adv_trans [OF adv_trans [OF a1 a2] a3] a4])
qed

text \<open>
  The lease is read before its transaction; its identity columns never change, so the stored row
  has the same resource and acquisition.
\<close>

definition same_lease :: "lease \<Rightarrow> db \<Rightarrow> bool" where
  "same_lease l s \<longleftrightarrow> (\<forall>row. tget l_id (l_id l) (leases s) = Some row \<longrightarrow>
     l_resource row = l_resource l \<and> l_acquisition row = l_acquisition l)"

lemma acq_ok_end_lease_tx:
  assumes "acq_ok s" and same: "same_lease l s" and e: "end_lease_tx l to acq_to ty now s = Inr s'"
    and "to \<noteq> LeaseActive" and "acq_to \<noteq> AcqBound"
  shows "acq_ok s'"
proof -
  from e obtain s1 s2 where 1: "lease_transition (l_id l) LeaseActive to now s = Inr s1"
    and 2: "end_lease_locked l now (end_acq l acq_to now s1) = Inr s2"
    and 3: "event_append (lease_event now ty (l_resource l)) s2 = Inr s'"
    by (auto simp: end_lease_tx_Inr)
  from 1 obtain row where row: "tget l_id (l_id l) (leases s) = Some row" "l_state row = LeaseActive"
    and aq: "acquisitions s1 = acquisitions s" by (auto simp: store_simps)
  have mem: "row \<in> set (leases s)" using tget_SomeD [OF row(1)] by blast
  from same row have acq: "l_acquisition row = l_acquisition l" by (auto simp: same_lease_def)
  from acq_okD(3) [OF assms(1) mem row(2)] acq obtain a
    where a: "tget a_id (l_acquisition l) (acquisitions s1) = Some a" "a_state a = AcqBound"
    by (auto simp: aq)
  have aid: "a_id a = l_acquisition l" using tget_SomeD [OF a(1)] by blast
  have "acq_transition (l_acquisition row) AcqBound acq_to now s1 = Inr (end_acq l acq_to now s1)"
    using a aid acq by (auto simp: end_acq_def acq_get_def acq_transition_def)
  from acq_ok_end [OF assms(1) 1 assms(4) row(1) this assms(5)]
  have "acq_ok (end_acq l acq_to now s1)" .
  then show ?thesis using end_lease_locked_frame [OF 2] 3 by (auto simp: store_simps intro: acq_ok_frame)
qed

lemma release_Inr:
  "release lid now s = Inr s' \<longleftrightarrow>
     (\<exists>l. tget l_id lid (leases s) = Some l \<and> l_state l = LeaseActive
        \<and> end_lease_tx l LeaseReleased AcqReleased ''lease.released'' now s = Inr s')"
  by (auto simp: release_def result_simps lease_get_Inr)

lemma adv_release: "core s \<Longrightarrow> release lid now s = Inr s' \<Longrightarrow> adv s s'"
  by (auto simp: release_Inr intro: adv_end_lease_tx)

lemma acq_ok_release:
  assumes "acq_ok s" and "release lid now s = Inr s'"
  shows "acq_ok s'"
proof -
  from assms(2) obtain l where row: "tget l_id lid (leases s) = Some l"
    and e: "end_lease_tx l LeaseReleased AcqReleased ''lease.released'' now s = Inr s'"
    by (auto simp: release_Inr)
  have "same_lease l s" using row tget_SomeD [OF row] by (auto simp: same_lease_def)
  then show ?thesis using acq_ok_end_lease_tx [OF assms(1) _ e] by simp
qed

lemma release_acquisition_cases:
  assumes "release_acquisition aid now s = Inr s'"
  obtains lid where "release lid now s = Inr s'"
  | "acq_transition aid AcqPending AcqReleased now s = Inr s'"
  | "acq_transition aid AcqProvisioning AcqReleased now s = Inr s'"
proof -
  from assms obtain a where a: "acq_get aid s = Inr a"
    by (cases "acq_get aid s") (simp_all add: release_acquisition_def)
  with assms that show ?thesis
    by (cases "a_state a"; cases "a_lease a") (simp_all add: release_acquisition_def)
qed

lemma adv_release_acquisition: "core s \<Longrightarrow> release_acquisition aid now s = Inr s' \<Longrightarrow> adv s s'"
  by (erule release_acquisition_cases) (auto intro: adv_release adv_acq_transition)

lemma acq_ok_release_acquisition:
  "acq_ok s \<Longrightarrow> release_acquisition aid now s = Inr s' \<Longrightarrow> acq_ok s'"
  by (erule release_acquisition_cases) (auto intro: acq_ok_release acq_ok_transition)

section \<open>What the end of a lease does\<close>

lemma end_lease_locked_resource:
  assumes "end_lease_locked l now s = Inr s'"
  shows "\<exists>r r'. tget r_id (l_resource l) (resources s) = Some r \<and> tget r_id (l_resource l) (resources s') = Some r'
    \<and> r_last_lease_ended_at r' = Some now
    \<and> r_phase r' = (if count_active (l_resource l) s = 0 \<and> r_phase r = Allocated then Ready else r_phase r)"
proof -
  let ?f = "\<lambda>r :: resource. r\<lparr>r_last_lease_ended_at := Some now, r_updated_at := now\<rparr>"
  have key: "keeps_key r_id ?f" by (simp add: keeps_key_def)
  from assms obtain s1 r where 1: "set_last_lease_ended (l_resource l) now s = Inr s1"
    and r: "tget r_id (l_resource l) (resources s) = Some r"
    and s1: "s1 = update_resource (l_resource l) ?f s"
    and 2: "(if count_active (l_resource l) s1 = 0 \<and> r_phase (?f r) = Allocated
       then cas_phase (l_resource l) Allocated Ready now s1 else Inr s1) = Inr s'"
    by (auto simp: end_lease_locked_def set_last_lease_ended_def exec_one_Inr result_simps resource_get_Inr
        tget_tupd key)
  have row: "tget r_id (l_resource l) (resources s1) = Some (?f r)" using r by (simp add: s1 tget_tupd key)
  have cnt: "count_active (l_resource l) s1 = count_active (l_resource l) s" by (simp add: s1 count_active_def)
  show ?thesis
  proof (cases "count_active (l_resource l) s = 0 \<and> r_phase r = Allocated")
    case True
    then have "tget r_id (l_resource l) (resources s') = Some (phase_columns Allocated Ready now (?f r))"
      using 2 row cnt by (auto simp: cas_phase_Inr tget_tupd)
    then show ?thesis using r True by (simp add: phase_columns_def)
  next
    case False
    then have "s' = s1" using 2 cnt by auto
    then show ?thesis using r row False by auto
  qed
qed

text \<open>
  Releasing a lease ends exactly that lease: it was active and becomes released, a bound
  acquisition follows it, and its machine records the time and goes from allocated to ready if and
  only if no other active lease is left on it.
\<close>

theorem release_effect:
  assumes "release lid now s = Inr s'"
  shows "\<exists>l r r'. tget l_id lid (leases s) = Some l \<and> l_state l = LeaseActive
    \<and> leases s' = tupd l_id lid (lease_columns LeaseReleased now) (leases s)
    \<and> (\<forall>a. tget a_id (l_acquisition l) (acquisitions s) = Some a \<and> a_state a = AcqBound \<longrightarrow>
         (\<exists>a'. tget a_id (l_acquisition l) (acquisitions s') = Some a' \<and> a_state a' = AcqReleased))
    \<and> tget r_id (l_resource l) (resources s) = Some r \<and> tget r_id (l_resource l) (resources s') = Some r'
    \<and> r_last_lease_ended_at r' = Some now
    \<and> r_phase r' = (if count_active (l_resource l) s' = 0 \<and> r_phase r = Allocated then Ready else r_phase r)"
proof -
  from assms obtain l where l: "tget l_id lid (leases s) = Some l" "l_state l = LeaseActive"
    and e: "end_lease_tx l LeaseReleased AcqReleased ''lease.released'' now s = Inr s'"
    by (auto simp: release_Inr)
  have lid: "l_id l = lid" using tget_SomeD [OF l(1)] by simp
  from e obtain s1 s2 where 1: "lease_transition lid LeaseActive LeaseReleased now s = Inr s1"
    and 2: "end_lease_locked l now (end_acq l AcqReleased now s1) = Inr s2"
    and 3: "event_append (lease_event now ''lease.released'' (l_resource l)) s2 = Inr s'"
    by (auto simp: end_lease_tx_Inr lid)
  have f1: "leases s1 = tupd l_id lid (lease_columns LeaseReleased now) (leases s)"
    "acquisitions s1 = acquisitions s" "resources s1 = resources s"
    using 1 by (auto simp: lease_transition_Inr)
  have fa: "leases (end_acq l AcqReleased now s1) = leases s1" "resources (end_acq l AcqReleased now s1) = resources s1"
    by (auto simp: end_acq_def tx_or_keep_def acq_transition_Inr split: sum.splits)
  have f2: "leases s2 = leases s1" "acquisitions s2 = acquisitions (end_acq l AcqReleased now s1)"
    using end_lease_locked_frame [OF 2] fa by auto
  have f3: "leases s' = leases s2" "acquisitions s' = acquisitions s2" "resources s' = resources s2"
    using 3 by (auto simp: event_append_Inr)
  have acq: "\<exists>a'. tget a_id (l_acquisition l) (acquisitions s') = Some a' \<and> a_state a' = AcqReleased"
    if a: "tget a_id (l_acquisition l) (acquisitions s) = Some a" "a_state a = AcqBound" for a
  proof -
    have aid: "a_id a = l_acquisition l" using tget_SomeD [OF a(1)] by simp
    have "end_acq l AcqReleased now s1 =
        update_acq (l_acquisition l) (\<lambda>a. a\<lparr>a_state := AcqReleased, a_updated_at := now\<rparr>) s1"
      using a aid f1(2) by (simp add: end_acq_def acq_get_def acq_transition_def)
    then show ?thesis using f2(2) f3(2) f1(2) a(1) by (simp add: tget_tupd)
  qed
  have cnt: "count_active (l_resource l) s' = count_active (l_resource l) (end_acq l AcqReleased now s1)"
    using f2(1) f3(1) fa by (simp add: count_active_def)
  from end_lease_locked_resource [OF 2] obtain r r' where
    "tget r_id (l_resource l) (resources s) = Some r" "tget r_id (l_resource l) (resources s') = Some r'"
    "r_last_lease_ended_at r' = Some now"
    "r_phase r' = (if count_active (l_resource l) s' = 0 \<and> r_phase r = Allocated then Ready else r_phase r)"
    using fa f1(3) f3(3) cnt by auto
  then show ?thesis using l f1(1) f2(1) f3(1) acq by auto
qed

end
