(* ===== verification/Provision.thy ===== *)
theory Provision
  imports Drivers
begin

text \<open>
  The create-journaling path (internal/provision/provision.go) and the stop and start journaling
  (internal/provision/park.go), shared by the API, the pool reconciler and the scheduler. The
  identifiers a call mints (\<open>ids.New\<close>) are arguments.
\<close>

record create_spec =
  cs_kind :: string
  cs_provider :: string
  cs_name :: string
  cs_spec :: "json blob"
  cs_labels :: labels
  cs_class :: string
  cs_pool :: "string option"

record prepared =
  pr_resource :: resource
  pr_op :: operation

definition new_resource :: "string \<Rightarrow> string \<Rightarrow> create_spec \<Rightarrow> int \<Rightarrow> resource" where
  "new_resource rid name cs now =
     \<lparr>r_id = rid, r_name = name, r_kind = cs_kind cs, r_provider = cs_provider cs,
      r_class = cs_class cs, r_pool = cs_pool cs, r_ownership = Managed, r_phase = Provisioning,
      r_external_id = None, r_external_ref = BNil, r_generation = 0, r_observed_generation = 0,
      r_spec = cs_spec cs, r_extension = BNil, r_capacity = BNil, r_exclusive_alloc = False,
      r_delete_protected = False, r_labels = cs_labels cs, r_ready_at = None,
      r_last_lease_ended_at = None, r_drain_started_at = None, r_parked_at = None,
      r_created_at = now, r_updated_at = now, r_deleted_at = None\<rparr>"

definition new_op ::
    "string \<Rightarrow> op_kind \<Rightarrow> string \<Rightarrow> string option \<Rightarrow> string \<Rightarrow> action \<Rightarrow> int \<Rightarrow> operation" where
  "new_op oid k rid pid prov act now =
     \<lparr>op_id = oid, op_idem_scope = None, op_idem_key = None, op_kind = k, op_resource = Some rid,
      op_pool = pid, op_provider = prov, op_action = BVal act, op_state = OpJournaled,
      op_attempt = 0, op_external_op = BNil, op_external_ref = BNil, op_error_class = None,
      op_error = None, op_next_attempt_at = None, op_verify_deadline_at = None,
      op_created_at = now, op_updated_at = now, op_terminal_at = None\<rparr>"

text \<open>
  \<open>Prepare\<close>: the labels of the desired state are the identity labels, with the class label when
  there is a class; the driver must plan exactly one action, and its id becomes the operation id.
\<close>

definition create_labels :: "string \<Rightarrow> string \<Rightarrow> string \<Rightarrow> string \<Rightarrow> labels" where
  "create_labels owner rid oid cls =
     (if cls = [] then identity_labels owner rid oid
      else AList.update label_class cls (identity_labels owner rid oid))"

definition prepare ::
    "providers \<Rightarrow> string \<Rightarrow> create_spec \<Rightarrow> int \<Rightarrow> string \<Rightarrow> string \<Rightarrow> err + prepared" where
  "prepare pv owner cs now rid oid =
     (case pv_instance pv (cs_provider cs) of
        None \<Rightarrow> Inl (EOther ''unknown provider instance'')
      | Some inst \<Rightarrow>
          (case pi_driver inst (cs_kind cs) of
             None \<Rightarrow> Inl (EOther ''provider does not drive kind'')
           | Some d \<Rightarrow>
               (let name = (if cs_name cs = [] then rid else cs_name cs) in
                bindE (dr_plan d rid \<lparr>ds_name = name, ds_spec = cs_spec cs,
                         ds_labels = create_labels owner rid oid (cs_class cs)\<rparr>) (\<lambda>actions.
                (case actions of
                   [act] \<Rightarrow>
                     Inr \<lparr>pr_resource = new_resource rid name cs now,
                          pr_op = new_op oid OpKindCreate rid (cs_pool cs) (cs_provider cs)
                            (act\<lparr>ac_action_id := oid\<rparr>) now\<rparr>
                 | _ \<Rightarrow> Inl (EOther ''driver planned the wrong number of actions''))))))"

definition journal :: "prepared \<Rightarrow> string \<Rightarrow> string \<Rightarrow> db \<Rightarrow> err + db" where
  "journal p actor key s =
     bindE (resource_create (pr_resource p) s) (\<lambda>s.
     bindE (op_append (pr_op p) s) (\<lambda>s.
     event_append \<lparr>ev_ts = r_created_at (pr_resource p), ev_actor = actor, ev_idem_key = key,
       ev_type = ''resource.create'', ev_resource = Some (r_id (pr_resource p)),
       ev_pool = r_pool (pr_resource p), ev_operation = Some (op_id (pr_op p)),
       ev_provider = r_provider (pr_resource p), ev_outcome = ''journaled''\<rparr> s))"

section \<open>Stop and start (park.go)\<close>

text \<open>
  \<open>journalPhaseOp\<close>: the compare-and-set of the phase, the operation and the event, in the
  caller's transaction. \<open>oid\<close> is the identifier it mints.
\<close>

definition journal_phase_op ::
    "resource \<Rightarrow> int \<Rightarrow> string \<Rightarrow> phase \<Rightarrow> phase \<Rightarrow> op_kind \<Rightarrow> string \<Rightarrow> string \<Rightarrow> db \<Rightarrow> err + db" where
  "journal_phase_op cur now actor from to k action_kind oid s =
     (case r_external_id cur of
        None \<Rightarrow> Inl EConflict
      | Some ext \<Rightarrow>
          bindE (cas_phase (r_id cur) from to now s) (\<lambda>s.
          bindE (op_append (new_op oid k (r_id cur) (r_pool cur) (r_provider cur)
              \<lparr>ac_action_id = oid, ac_kind = action_kind, ac_resource_id = r_id cur,
               ac_ref = Some (stored_ref cur ext), ac_params = BNil, ac_destructive = False\<rparr> now) s) (\<lambda>s.
          event_append \<lparr>ev_ts = now, ev_actor = actor, ev_idem_key = [],
            ev_type = ''resource.'' @ action_kind, ev_resource = Some (r_id cur), ev_pool = r_pool cur,
            ev_operation = Some oid, ev_provider = r_provider cur, ev_outcome = ''journaled''\<rparr> s)))"

definition journal_stop ::
    "providers \<Rightarrow> string \<Rightarrow> int \<Rightarrow> string \<Rightarrow> bool \<Rightarrow> string \<Rightarrow> db \<Rightarrow> err + db" where
  "journal_stop pv rid now actor require_unprotected oid s =
     bindE (resource_get rid s) (\<lambda>cur.
     if r_deleted_at cur \<noteq> None \<or> r_phase cur \<noteq> Ready \<or> r_ownership cur \<noteq> Managed then Inl EConflict
     else if require_unprotected \<and> r_delete_protected cur then Inl EConflict
     else if \<not> pk_supported (pv_parking pv (r_provider cur) (r_kind cur)) then Inl EParkUnsupported
     else if count_active rid s > 0 then Inl EConflict
     else journal_phase_op cur now actor Ready Parking OpKindStop ''stop'' oid s)"

definition journal_start ::
    "providers \<Rightarrow> string \<Rightarrow> int \<Rightarrow> string \<Rightarrow> string \<Rightarrow> db \<Rightarrow> err + db" where
  "journal_start pv rid now actor oid s =
     bindE (resource_get rid s) (\<lambda>cur.
     if r_deleted_at cur \<noteq> None \<or> r_phase cur \<noteq> Parked \<or> r_ownership cur \<noteq> Managed then Inl EConflict
     else if \<not> pk_supported (pv_parking pv (r_provider cur) (r_kind cur)) then Inl EParkUnsupported
     else journal_phase_op cur now actor Parked Starting OpKindStart ''start'' oid s)"

section \<open>What a preparation produces\<close>

lemma new_resource_simps [simp]:
  "r_id (new_resource rid name cs now) = rid" "r_phase (new_resource rid name cs now) = Provisioning"
  "r_deleted_at (new_resource rid name cs now) = None" "live (new_resource rid name cs now)"
  "r_external_id (new_resource rid name cs now) = None" "r_pool (new_resource rid name cs now) = cs_pool cs"
  "r_ownership (new_resource rid name cs now) = Managed"
  by (simp_all add: new_resource_def live_def)

lemma new_op_simps [simp]:
  "op_id (new_op oid k rid pid prov act now) = oid" "op_kind (new_op oid k rid pid prov act now) = k"
  "op_resource (new_op oid k rid pid prov act now) = Some rid"
  "op_state (new_op oid k rid pid prov act now) = OpJournaled"
  "op_terminal_at (new_op oid k rid pid prov act now) = None"
  "op_pool (new_op oid k rid pid prov act now) = pid"
  "op_provider (new_op oid k rid pid prov act now) = prov"
  "op_action (new_op oid k rid pid prov act now) = BVal act"
  "op_attempt (new_op oid k rid pid prov act now) = 0"
  "is_open (new_op oid k rid pid prov act now)"
  by (simp_all add: new_op_def is_open_def)

lemma prepare_Inr:
  assumes "prepare pv owner cs now rid oid = Inr p"
  obtains name act where "pr_resource p = new_resource rid name cs now"
    and "pr_op p = new_op oid OpKindCreate rid (cs_pool cs) (cs_provider cs) (act\<lparr>ac_action_id := oid\<rparr>) now"
proof -
  from assms obtain inst d where "pv_instance pv (cs_provider cs) = Some inst"
    and "pi_driver inst (cs_kind cs) = Some d"
    by (auto simp: prepare_def split: option.splits)
  with assms obtain actions where "(case actions of
        [act] \<Rightarrow> Inr \<lparr>pr_resource = new_resource rid (if cs_name cs = [] then rid else cs_name cs) cs now,
             pr_op = new_op oid OpKindCreate rid (cs_pool cs) (cs_provider cs) (act\<lparr>ac_action_id := oid\<rparr>) now\<rparr>
      | _ \<Rightarrow> Inl (EOther ''driver planned the wrong number of actions'')) = Inr p"
    by (auto simp: prepare_def Let_def bindE_Inr_iff)
  then show ?thesis using that by (cases actions rule: remdups_adj.cases) auto
qed

text \<open>A prepared create: a provisioning resource and the create operation on it.\<close>

definition create_ready :: "prepared \<Rightarrow> bool" where
  "create_ready p \<longleftrightarrow> r_phase (pr_resource p) = Provisioning \<and> live (pr_resource p)
     \<and> op_kind (pr_op p) = OpKindCreate \<and> op_resource (pr_op p) = Some (r_id (pr_resource p))
     \<and> op_terminal_at (pr_op p) = None"

lemma prepare_create_ready: "prepare pv owner cs now rid oid = Inr p \<Longrightarrow> create_ready p"
  by (erule prepare_Inr) (simp add: create_ready_def)

section \<open>The journaling transactions keep the invariants\<close>

lemma adv_journal:
  assumes "core s" and "create_ready p" and j: "journal p actor key s = Inr s'"
  shows "adv s s'"
proof -
  from j obtain s1 s2 e where 1: "resource_create (pr_resource p) s = Inr s1"
    and 2: "op_append (pr_op p) s1 = Inr s2" and 3: "event_append e s2 = Inr s'"
    by (auto simp: journal_def result_simps)
  have row: "tget r_id (r_id (pr_resource p)) (resources s1) = Some (pr_resource p)"
    using 1 by (auto simp: store_simps tget_append)
  have a1: "adv s s1" by (rule adv_resource_create [OF assms(1) 1])
  have a2: "adv s1 s2"
    by (rule adv_op_append [OF adv_core [OF a1] 2])
      (use assms(2) row in \<open>auto simp: create_ready_def\<close>)
  have a3: "adv s2 s'" by (rule adv_event [OF adv_core [OF a2] 3])
  show ?thesis by (rule adv_trans [OF adv_trans [OF a1 a2] a3])
qed

lemma journal_frame:
  "journal p actor key s = Inr s' \<Longrightarrow> acquisitions s' = acquisitions s \<and> leases s' = leases s"
  by (auto simp: journal_def result_simps store_simps)

lemma adv_journal_phase_op:
  assumes "core s" and cur: "tget r_id (r_id cur) (resources s) = Some cur"
    and j: "journal_phase_op cur now actor p q k kind oid s = Inr s'"
    and "can_transition p q" and "idle_phase p" and "q = busy_phase k"
    and "lease_phase q \<or> count_active (r_id cur) s = 0"
  shows "adv s s'"
proof -
  from j obtain s1 s2 x e where 1: "cas_phase (r_id cur) p q now s = Inr s1"
    and 2: "op_append x s1 = Inr s2" and 3: "event_append e s2 = Inr s'"
    and x: "op_resource x = Some (r_id cur)" "op_kind x = k" "op_terminal_at x = None"
    by (auto simp: journal_phase_op_def result_simps split: option.splits)
  have a1: "adv s s1" by (rule adv_cas_phase [OF assms(1) 1]) (use assms in simp_all)
  have row: "tget r_id (r_id cur) (resources s1) = Some (phase_columns p q now cur)"
    using 1 cur by (auto simp: store_simps tget_tupd)
  have a2: "adv s1 s2" by (rule adv_op_append [OF adv_core [OF a1] 2]) (use x row assms(6) in auto)
  have a3: "adv s2 s'" by (rule adv_event [OF adv_core [OF a2] 3])
  show ?thesis by (rule adv_trans [OF adv_trans [OF a1 a2] a3])
qed

lemma journal_phase_op_frame:
  "journal_phase_op cur now actor p q k kind oid s = Inr s' \<Longrightarrow>
     acquisitions s' = acquisitions s \<and> leases s' = leases s"
  by (auto simp: journal_phase_op_def result_simps store_simps split: option.splits)

lemma journal_stop_Inr:
  "journal_stop pv rid now actor u oid s = Inr s' \<longleftrightarrow>
     (\<exists>cur. tget r_id rid (resources s) = Some cur \<and> live cur \<and> r_phase cur = Ready
        \<and> r_ownership cur = Managed \<and> (u \<longrightarrow> \<not> r_delete_protected cur)
        \<and> pk_supported (pv_parking pv (r_provider cur) (r_kind cur)) \<and> count_active rid s = 0
        \<and> journal_phase_op cur now actor Ready Parking OpKindStop ''stop'' oid s = Inr s')"
  by (auto simp: journal_stop_def result_simps resource_get_Inr live_def)

lemma journal_start_Inr:
  "journal_start pv rid now actor oid s = Inr s' \<longleftrightarrow>
     (\<exists>cur. tget r_id rid (resources s) = Some cur \<and> live cur \<and> r_phase cur = Parked
        \<and> r_ownership cur = Managed \<and> pk_supported (pv_parking pv (r_provider cur) (r_kind cur))
        \<and> journal_phase_op cur now actor Parked Starting OpKindStart ''start'' oid s = Inr s')"
  by (auto simp: journal_start_def result_simps resource_get_Inr live_def)

lemma adv_journal_stop:
  assumes "core s" and "journal_stop pv rid now actor u oid s = Inr s'"
  shows "adv s s'"
proof -
  from assms(2) obtain cur where cur: "tget r_id rid (resources s) = Some cur" "count_active rid s = 0"
    and j: "journal_phase_op cur now actor Ready Parking OpKindStop ''stop'' oid s = Inr s'"
    by (auto simp: journal_stop_Inr)
  then have "r_id cur = rid" using tget_SomeD by metis
  with cur show ?thesis
    by (intro adv_journal_phase_op [OF assms(1) _ j]) (simp_all add: can_transition_iff idle_phase_def)
qed

lemma adv_journal_start:
  assumes "core s" and "journal_start pv rid now actor oid s = Inr s'"
  shows "adv s s'"
proof -
  from assms(2) obtain cur where cur: "tget r_id rid (resources s) = Some cur"
    and j: "journal_phase_op cur now actor Parked Starting OpKindStart ''start'' oid s = Inr s'"
    by (auto simp: journal_start_Inr)
  then have "r_id cur = rid" using tget_SomeD by metis
  with cur show ?thesis
    by (intro adv_journal_phase_op [OF assms(1) _ j])
      (simp_all add: can_transition_iff idle_phase_def lease_phase_def)
qed

lemma journal_power_frame:
  "journal_stop pv rid now actor u oid s = Inr s' \<Longrightarrow> acquisitions s' = acquisitions s \<and> leases s' = leases s"
  "journal_start pv rid now actor oid s = Inr s' \<Longrightarrow> acquisitions s' = acquisitions s \<and> leases s' = leases s"
  by (auto simp: journal_stop_Inr journal_start_Inr dest: journal_phase_op_frame)

end
