(* ===== verification/Kernel_Laws.thy ===== *)
theory Kernel_Laws
  imports Lease_Manager Provision
begin

text \<open>
  The kernel invariant - the core invariant together with the correspondence of acquisitions and
  leases - and how one transaction moves the database (\<open>kadv\<close>). There is one lemma per
  persistence operation and one rule for sequencing, so that the proof about a transaction follows
  its text.
\<close>

definition kinv :: "db \<Rightarrow> bool" where
  "kinv s \<longleftrightarrow> core s \<and> acq_ok s"

lemma kinvD: "kinv s \<Longrightarrow> core s" "kinv s \<Longrightarrow> acq_ok s"
  by (simp_all add: kinv_def)

lemma kinv_empty: "kinv empty_db"
  by (simp add: kinv_def core_empty acq_ok_empty)

text \<open>
  A create operation is opened on the resource its transaction creates and on no other: a resource
  that has no open create operation never gets one.
\<close>

definition no_create :: "string \<Rightarrow> db \<Rightarrow> bool" where
  "no_create rid s \<longleftrightarrow> (\<forall>y \<in> set (operations s). open_on rid y \<longrightarrow> op_kind y \<noteq> OpKindCreate)"

definition calm :: "db \<Rightarrow> db \<Rightarrow> bool" where
  "calm s s' \<longleftrightarrow> (\<forall>rid. tget r_id rid (resources s) \<noteq> None \<longrightarrow> no_create rid s \<longrightarrow> no_create rid s')"

definition kadv :: "db \<Rightarrow> db \<Rightarrow> bool" where
  "kadv s s' \<longleftrightarrow> kinv s' \<and> evolves s s' \<and> calm s s'"

lemma calm_frame: "operations s' = operations s \<Longrightarrow> calm s s'"
  by (simp add: calm_def no_create_def)

lemma calm_append:
  assumes "operations s' = operations s @ [x]"
    and "op_kind x \<noteq> OpKindCreate \<or> (\<forall>rid. op_resource x = Some rid \<longrightarrow> tget r_id rid (resources s) = None)"
  shows "calm s s'"
  using assms by (auto simp: calm_def no_create_def open_on_def)

lemma calm_trans:
  assumes "calm s t" and "evolves s t" and "calm t u"
  shows "calm s u"
  unfolding calm_def
proof (intro allI impI)
  fix rid
  assume "tget r_id rid (resources s) \<noteq> None" and n: "no_create rid s"
  then obtain r where row: "tget r_id rid (resources s) = Some r" by blast
  then have "tget r_id rid (resources t) \<noteq> None"
    using assms(2) unfolding evolves_def rows_evolve_def by blast
  moreover have "no_create rid t" using assms(1) row n by (simp add: calm_def)
  ultimately show "no_create rid u" using assms(3) by (simp add: calm_def)
qed

lemma kadv_refl: "kinv s \<Longrightarrow> kadv s s"
  by (simp add: kadv_def calm_frame)

lemma kadv_trans: "kadv s t \<Longrightarrow> kadv t u \<Longrightarrow> kadv s u"
  unfolding kadv_def using evolves_trans calm_trans by blast

lemma kadv_kinv: "kadv s s' \<Longrightarrow> kinv s'"
  by (simp add: kadv_def)

lemma kadvI: "adv s s' \<Longrightarrow> acq_ok s' \<Longrightarrow> calm s s' \<Longrightarrow> kadv s s'"
  by (simp add: kadv_def kinv_def adv_def)

lemma kadv_same_acq:
  assumes "kinv s" and "adv s s'" and "acquisitions s' = acquisitions s" and "leases s' = leases s"
    and "calm s s'"
  shows "kadv s s'"
  using assms by (intro kadvI) (auto intro: acq_ok_frame dest: kinvD)

section \<open>Sequencing\<close>

lemma kadv_bindE:
  assumes "kinv s" and "bindE m f = Inr s'"
    and "\<And>t. m = Inr t \<Longrightarrow> kadv s t"
    and "\<And>t. m = Inr t \<Longrightarrow> kinv t \<Longrightarrow> f t = Inr s' \<Longrightarrow> kadv t s'"
  shows "kadv s s'"
proof -
  from assms(2) obtain t where "m = Inr t" "f t = Inr s'" by (auto simp: bindE_Inr_iff)
  then show ?thesis using assms(3,4) kadv_kinv kadv_trans by blast
qed

lemma kadv_keep:
  assumes "kinv s" and "\<And>t. r = Inr t \<Longrightarrow> kadv s t"
  shows "kadv s (tx_or_keep s r)"
  using assms by (cases r) (auto intro: kadv_refl)

section \<open>The persistence operations\<close>

lemma kadv_frame:
  assumes "kinv s" and "resources s' = resources s" and "operations s' = operations s"
    and "leases s' = leases s" and "acquisitions s' = acquisitions s"
  shows "kadv s s'"
  using assms by (intro kadv_same_acq adv_frame calm_frame) (auto dest: kinvD)

lemma kadv_event: "kinv s \<Longrightarrow> event_append e s = Inr s' \<Longrightarrow> kadv s s'"
  by (rule kadv_frame) (auto simp: store_simps)

lemma kadv_put_observed: "kinv s \<Longrightarrow> put_observed snap s = Inr s' \<Longrightarrow> kadv s s'"
  by (rule kadv_frame) (auto dest!: put_observed_Inr)

lemma kadv_resource_create: "kinv s \<Longrightarrow> resource_create r s = Inr s' \<Longrightarrow> kadv s s'"
  by (rule kadv_same_acq)
    (auto simp: resource_create_Inr intro: adv_resource_create calm_frame dest: kinvD)

lemma kadv_cas_phase:
  assumes "kinv s" and "cas_phase rid p q at s = Inr s'" and "can_transition p q"
    and "idle_phase p \<or> no_open rid s" and "lease_phase q \<or> count_active rid s = 0"
  shows "kadv s s'"
  using assms(1) adv_cas_phase [OF kinvD(1) [OF assms(1)] assms(2-5)]
  by (rule kadv_same_acq) (use assms(2) in \<open>auto simp: cas_phase_Inr intro: calm_frame\<close>)

lemma kadv_mark_deleted:
  assumes "kinv s" and "mark_deleted rid at s = Inr s'" and "count_active rid s = 0"
  shows "kadv s s'"
  using assms(1) adv_mark_deleted [OF kinvD(1) [OF assms(1)] assms(2,3)]
  by (rule kadv_same_acq) (use assms(2) in \<open>auto simp: mark_deleted_Inr intro: calm_frame\<close>)

lemma exec_one_frame:
  "exec_one rid ok f s = Inr s' \<Longrightarrow> operations s' = operations s"
  "exec_one rid ok f s = Inr s' \<Longrightarrow> acquisitions s' = acquisitions s"
  "exec_one rid ok f s = Inr s' \<Longrightarrow> leases s' = leases s"
  by (auto simp: exec_one_Inr)

lemma kadv_set_facts: "kinv s \<Longrightarrow> set_provider_facts rid e c at s = Inr s' \<Longrightarrow> kadv s s'"
  by (rule kadv_same_acq)
    (auto simp: set_provider_facts_def dest: exec_one_frame kinvD intro: calm_frame
      adv_set_facts [unfolded set_provider_facts_def])

lemma kadv_set_delete_protected: "kinv s \<Longrightarrow> set_delete_protected rid b at s = Inr s' \<Longrightarrow> kadv s s'"
  by (rule kadv_same_acq)
    (auto simp: set_delete_protected_def dest: exec_one_frame kinvD intro: calm_frame
      adv_set_delete_protected [unfolded set_delete_protected_def])

lemma set_external_ref_frame:
  assumes "set_external_ref rid e ref s = Inr s'"
  shows "operations s' = operations s" "acquisitions s' = acquisitions s" "leases s' = leases s"
  using assms by (auto simp: set_external_ref_def exec_one_Inr split: option.splits if_splits)

lemma kadv_set_external_ref: "kinv s \<Longrightarrow> set_external_ref rid e ref s = Inr s' \<Longrightarrow> kadv s s'"
  by (rule kadv_same_acq)
    (auto simp: set_external_ref_frame intro: adv_set_external_ref calm_frame dest: kinvD)

lemma kadv_op_append:
  assumes "kinv s" and "op_append x s = Inr s'" and "op_terminal_at x = None"
    and "op_kind x \<noteq> OpKindCreate"
    and "\<And>rid. op_resource x = Some rid \<Longrightarrow>
      \<exists>r. tget r_id rid (resources s) = Some r \<and> (live r \<longrightarrow> r_phase r = busy_phase (op_kind x))"
  shows "kadv s s'"
  using assms(1) adv_op_append [OF kinvD(1) [OF assms(1)] assms(2,3,5)]
  by (rule kadv_same_acq) (use assms(2,4) in \<open>auto simp: op_append_Inr intro: calm_append\<close>)

lemma calm_op_transition:
  assumes "core s" and tr: "op_transition oid p q mut wall s = Inr s'" and "\<not> op_terminal p"
    and mut: "keeps_state mut"
  shows "calm s s'"
  unfolding calm_def no_create_def
proof (intro allI impI ballI)
  let ?f = "\<lambda>x. op_written x (mut (op_columns q wall x))"
  fix rid y
  assume no: "\<forall>y\<in>set (operations s). open_on rid y \<longrightarrow> op_kind y \<noteq> OpKindCreate"
    and y: "y \<in> set (operations s')" "open_on rid y"
  from tr obtain x where row: "tget op_id oid (operations s) = Some x" and x: "op_state x = p"
    and s': "s' = update_op oid ?f s" by (auto simp: store_simps)
  from y(1) obtain z where z: "z \<in> set (operations s)" "y = (if op_id z = oid then ?f z else z)"
    unfolding s' update_op_frame tupd_mem by blast
  show "op_kind y \<noteq> OpKindCreate"
  proof (cases "op_id z = oid")
    case True
    then have "z = x" using distinct_key_eqD [OF coreD(2) [OF assms(1)] z(1)] tget_SomeD [OF row] by metis
    then have "stamped z" "op_state z = p" using coreD(4) [OF assms(1) z(1)] x by auto
    then have "open_on rid z" using True z y(2) assms(3) by (simp add: open_on_def is_open_def stamped_def)
    then show ?thesis using True z no by simp
  next
    case False
    then show ?thesis using z no y(2) by simp
  qed
qed

lemma kadv_op_transition:
  assumes "kinv s" and "op_transition oid p q mut wall s = Inr s'" and "\<not> op_terminal p"
    and "keeps_state mut"
  shows "kadv s s'"
  using assms(1) adv_op_transition [OF kinvD(1) [OF assms(1)] assms(2-4)]
  by (rule kadv_same_acq)
    (use assms calm_op_transition [OF kinvD(1)] in \<open>auto simp: op_transition_Inr\<close>)

lemma kadv_acq_insert:
  assumes "kinv s" and "acq_insert a s = Inr s'" and "a_state a \<noteq> AcqBound"
  shows "kadv s s'"
  using assms by (intro kadvI)
    (auto dest: kinvD intro: adv_acq_insert acq_ok_insert calm_frame simp: acq_insert_Inr)

lemma kadv_acq_transition:
  assumes "kinv s" and "acq_transition aid p q at s = Inr s'" and "p \<noteq> AcqBound" and "q \<noteq> AcqBound"
  shows "kadv s s'"
  using assms adv_acq_transition [OF kinvD(1)] acq_ok_transition [OF kinvD(2)]
  by (intro kadvI) (auto intro: calm_frame simp: acq_transition_Inr)

lemma kadv_acq_pending:
  "kinv s \<Longrightarrow> acq_set_pending_resource aid rid s = Inr s' \<Longrightarrow> kadv s s'"
  "kinv s \<Longrightarrow> acq_clear_pending_resource aid s = Inr s' \<Longrightarrow> kadv s s'"
  using adv_acq_pending [OF kinvD(1)] acq_ok_pending [OF kinvD(2)]
  by (auto intro!: kadvI calm_frame)
    (auto simp: acq_set_pending_resource_Inr acq_clear_pending_resource_Inr)

section \<open>The shared transactions\<close>

lemma kadv_journal:
  assumes "kinv s" and "create_ready p" and j: "journal p actor key s = Inr s'"
  shows "kadv s s'"
proof (rule kadv_same_acq [OF assms(1)])
  show "adv s s'" by (rule adv_journal [OF kinvD(1) [OF assms(1)] assms(2,3)])
  show "acquisitions s' = acquisitions s" and "leases s' = leases s" using journal_frame [OF j] by auto
  from j have "operations s' = operations s @ [pr_op p]"
    and "tget r_id (r_id (pr_resource p)) (resources s) = None"
    by (auto simp: journal_def result_simps store_simps)
  then show "calm s s'" using assms(2) by (auto intro: calm_append simp: create_ready_def)
qed

lemma journal_phase_op_appends:
  assumes "journal_phase_op cur now actor p q k kind oid s = Inr s'"
  shows "\<exists>x. operations s' = operations s @ [x] \<and> op_kind x = k \<and> op_resource x = Some (r_id cur)
     \<and> op_id x = oid \<and> op_state x = OpJournaled"
  using assms by (auto simp: journal_phase_op_def result_simps store_simps split: option.splits)

lemma calm_journal_phase_op:
  "journal_phase_op cur now actor p q k kind oid s = Inr s' \<Longrightarrow> k \<noteq> OpKindCreate \<Longrightarrow> calm s s'"
  by (auto dest!: journal_phase_op_appends intro: calm_append)

lemma kadv_journal_stop:
  assumes "kinv s" and j: "journal_stop pv rid now actor u oid s = Inr s'"
  shows "kadv s s'"
  using assms(1) adv_journal_stop [OF kinvD(1) [OF assms(1)] j]
  by (rule kadv_same_acq)
    (use j journal_power_frame(1) [OF j] calm_journal_phase_op in \<open>auto simp: journal_stop_Inr\<close>)

lemma kadv_journal_start:
  assumes "kinv s" and j: "journal_start pv rid now actor oid s = Inr s'"
  shows "kadv s s'"
  using assms(1) adv_journal_start [OF kinvD(1) [OF assms(1)] j]
  by (rule kadv_same_acq)
    (use j journal_power_frame(2) [OF j] calm_journal_phase_op in \<open>auto simp: journal_start_Inr\<close>)

lemma end_lease_locked_ops: "end_lease_locked l now s = Inr s' \<Longrightarrow> operations s' = operations s"
  by (auto simp: end_lease_locked_def set_last_lease_ended_def result_simps store_simps split: if_splits)

lemma end_acq_ops: "operations (end_acq l acq_to now s) = operations s"
  by (auto simp: end_acq_def tx_or_keep_def acq_transition_Inr split: sum.splits)

lemma end_lease_tx_ops:
  assumes "end_lease_tx l to acq_to ty now s = Inr s'"
  shows "operations s' = operations s"
  using assms unfolding end_lease_tx_Inr
  by (auto dest!: end_lease_locked_ops simp: end_acq_ops lease_transition_Inr event_append_Inr)

lemma kadv_end_lease_tx:
  assumes "kinv s" and "same_lease l s" and e: "end_lease_tx l to acq_to ty now s = Inr s'"
    and "to \<noteq> LeaseActive" and "acq_to \<noteq> AcqBound"
  shows "kadv s s'"
  using adv_end_lease_tx [OF kinvD(1) [OF assms(1)] e assms(4)]
    acq_ok_end_lease_tx [OF kinvD(2) [OF assms(1)] assms(2,3,4,5)] calm_frame [OF end_lease_tx_ops [OF e]]
  by (rule kadvI)

lemma stored_same_lease: "tget l_id lid (leases s) = Some l \<Longrightarrow> same_lease l s"
  using tget_SomeD by (fastforce simp: same_lease_def)

lemma kadv_release:
  assumes "kinv s" and "release lid now s = Inr s'"
  shows "kadv s s'"
  using assms by (auto simp: release_Inr intro: kadv_end_lease_tx stored_same_lease)

lemma kadv_release_acquisition:
  "kinv s \<Longrightarrow> release_acquisition aid now s = Inr s' \<Longrightarrow> kadv s s'"
  by (erule release_acquisition_cases) (auto intro: kadv_release kadv_acq_transition)

section \<open>The expiry sweep ends every lease it lists\<close>

lemma end_lease_tx_succeeds:
  assumes "kinv s" and l: "tget l_id (l_id l) (leases s) = Some l" "l_state l = LeaseActive"
  shows "\<exists>s'. end_lease_tx l to acq_to ty now s = Inr s'
    \<and> leases s' = tupd l_id (l_id l) (lease_columns to now) (leases s)"
proof -
  obtain s1 where 1: "lease_transition (l_id l) LeaseActive to now s = Inr s1"
    and f1: "leases s1 = tupd l_id (l_id l) (lease_columns to now) (leases s)" "resources s1 = resources s"
    using l by (auto simp: lease_transition_Inr)
  let ?s = "end_acq l acq_to now s1"
  have fa: "leases ?s = leases s1" "resources ?s = resources s1"
    by (auto simp: end_acq_def tx_or_keep_def acq_transition_Inr split: sum.splits)
  have "l \<in> set (leases s)" using tget_SomeD [OF l(1)] by simp
  then obtain r where r: "tget r_id (l_resource l) (resources s) = Some r" "live r"
    using leased_resource [OF kinvD(1) [OF assms(1)] _ l(2)] by blast
  let ?f = "\<lambda>r :: resource. r\<lparr>r_last_lease_ended_at := Some now, r_updated_at := now\<rparr>"
  have key: "keeps_key r_id ?f" by (simp add: keeps_key_def)
  obtain u where u: "set_last_lease_ended (l_resource l) now ?s = Inr u"
    and row: "tget r_id (l_resource l) (resources u) = Some (?f r)" and lu: "leases u = leases s1"
    using r fa f1(2) by (auto simp: set_last_lease_ended_def exec_one_Inr tget_tupd key)
  have "\<exists>v. end_lease_locked l now ?s = Inr v"
    using u row r(2) by (auto simp: end_lease_locked_def resource_get_def cas_phase_def live_def)
  then obtain v where v: "end_lease_locked l now ?s = Inr v" by blast
  then have "leases v = leases s1" using end_lease_locked_frame fa by auto
  then show ?thesis using 1 v f1 by (auto simp: end_lease_tx_Inr event_append_Inr)
qed

lemma expire_fold:
  assumes "kinv s" and "distinct (map l_id ls)"
    and "\<And>l. l \<in> set ls \<Longrightarrow> tget l_id (l_id l) (leases s) = Some l \<and> l_state l = LeaseActive"
  shows "fst (fold (expire_one now) ls (n, s)) = n + length ls
    \<and> leases (snd (fold (expire_one now) ls (n, s))) =
        map (\<lambda>l. if l_id l \<in> l_id ` set ls then lease_columns LeaseExpired now l else l) (leases s)"
  using assms
proof (induction ls arbitrary: n s)
  case (Cons l ls)
  from end_lease_tx_succeeds [OF Cons.prems(1)] Cons.prems(3) [of l] obtain t where
    t: "end_lease_tx l LeaseExpired AcqExpired ''lease.expired'' now s = Inr t"
    and lt: "leases t = tupd l_id (l_id l) (lease_columns LeaseExpired now) (leases s)"
    by (metis list.set_intros(1))
  have "same_lease l s" using Cons.prems(3) [of l] stored_same_lease by auto
  then have "kadv s t" by (rule kadv_end_lease_tx [OF Cons.prems(1) _ t]) simp_all
  then have k: "kinv t" by (rule kadv_kinv)
  have rows: "tget l_id (l_id x) (leases t) = Some x \<and> l_state x = LeaseActive" if "x \<in> set ls" for x
  proof -
    have "l_id x \<noteq> l_id l" using that Cons.prems(2) by (metis distinct.simps(2) image_eqI list.set_map list.simps(9))
    then show ?thesis using Cons.prems(3) [of x] that by (simp add: lt tget_tupd)
  qed
  have step: "expire_one now l (n, s) = (n + 1, t)" by (simp add: expire_one_def t)
  have "distinct (map l_id ls)" using Cons.prems(2) by simp
  from Cons.IH [OF k this rows, of "n + 1"] have
    ih: "fst (fold (expire_one now) ls (n + 1, t)) = n + 1 + length ls"
      "leases (snd (fold (expire_one now) ls (n + 1, t))) =
        map (\<lambda>l. if l_id l \<in> l_id ` set ls then lease_columns LeaseExpired now l else l) (leases t)" by auto
  have "map (\<lambda>l. if l_id l \<in> l_id ` set ls then lease_columns LeaseExpired now l else l) (leases t) =
      map (\<lambda>x. if l_id x \<in> l_id ` set (l # ls) then lease_columns LeaseExpired now x else x) (leases s)"
    unfolding lt tupd_def using Cons.prems(2) by auto
  then show ?case using ih step by simp
qed simp

end
