(* ===== verification/Billing.thy ===== *)
theory Billing
  imports Provider_SDK
begin

text \<open>
  The billing mathematics of internal/billing/billing.go: the canonical paid time, its
  discontinuities, the termination window and the useful-time accounting. Durations are
  nanoseconds and instants unix milliseconds, as mathematical integers: the code's values are
  instants and lifetimes, far below the \<open>int64\<close> range in either unit.
\<close>

definition paid :: "int \<Rightarrow> billing_policy \<Rightarrow> int" where
  "paid lifetime p =
     (let lifetime = (if lifetime < 0 then 0 else lifetime);
          billed = (if bp_increment p > 0
            then (let n = go_div lifetime (bp_increment p);
                      n = (if lifetime = 0 \<or> lifetime mod bp_increment p \<noteq> 0 then n + 1 else n);
                      n = (if n = 0 then 1 else n)
                  in n * bp_increment p)
            else lifetime)
      in if billed < bp_minimum p then bp_minimum p else billed)"

text \<open>
  The unbounded \<open>for\<close> loop of \<open>NextBoundary\<close>, from the multiple \<open>k\<close> of the increment on. The
  code reaches it only with a positive increment; the other case leaves the loop at once.
\<close>

function next_boundary_loop :: "billing_policy \<Rightarrow> int \<Rightarrow> int" where
  "next_boundary_loop p k =
     (let t = k * bp_increment p in
      if paid (t + ms) p > paid (t - ms) p then t
      else if t > bp_minimum p + bp_increment p \<or> bp_increment p \<le> 0 then t
      else next_boundary_loop p (k + 1))"
  by pat_completeness auto
termination
proof (relation "measure (\<lambda>(p, k). nat (bp_minimum p + bp_increment p + 1 - k * bp_increment p))", goal_cases)
  case 1
  show ?case by simp
next
  case (2 p k t)
  then have "0 < bp_increment p" and "k * bp_increment p \<le> bp_minimum p + bp_increment p"
    by auto
  then show ?case by (simp add: algebra_simps)
qed

declare next_boundary_loop.simps [simp del]

definition next_boundary :: "int \<Rightarrow> billing_policy \<Rightarrow> int \<Rightarrow> int option" where
  "next_boundary created p now =
     (let elapsed = (now - created) * ms;
          elapsed = (if elapsed < 0 then 0 else elapsed)
      in if bp_increment p > 0
         then Some (created +
           milliseconds (next_boundary_loop p (go_div elapsed (bp_increment p) + 1)))
         else if bp_minimum p > 0 \<and> elapsed < bp_minimum p
         then Some (created + milliseconds (bp_minimum p))
         else None)"

definition effective_buffer :: "billing_policy \<Rightarrow> int \<Rightarrow> int" where
  "effective_buffer p sweep_interval =
     (let floor = 2 * sweep_interval + 5 * sec
      in if bp_buffer p > floor then bp_buffer p else floor)"

record window =
  w_boundary :: int
  w_start :: int
  w_cutoff :: int

definition termination_window ::
    "int \<Rightarrow> billing_policy \<Rightarrow> int \<Rightarrow> int \<Rightarrow> int \<Rightarrow> window option" where
  "termination_window created p now buffer cutoff =
     (case next_boundary created p now of
        None \<Rightarrow> None
      | Some b \<Rightarrow>
          (let cutoff = (if cutoff \<le> 0 \<or> cutoff > buffer then go_div buffer 2 else cutoff)
           in Some \<lparr>w_boundary = b, w_start = b - milliseconds buffer,
                    w_cutoff = b - milliseconds cutoff\<rparr>))"

datatype decision = Keep | Terminate | Crossed

definition decide :: "window \<Rightarrow> int \<Rightarrow> decision" where
  "decide w now =
     (if now < w_start w then Keep
      else if now \<le> w_cutoff w then Terminate
      else Crossed)"

definition adaptive_buffer :: "int list \<Rightarrow> int \<Rightarrow> int \<Rightarrow> int \<Rightarrow> int" where
  "adaptive_buffer observed floor margin cap =
     (let buf = (if observed \<noteq> []
            then (let s = sort observed;
                      p95 = s ! ((length s * 95) div 100)
                  in if p95 + margin > floor then p95 + margin else floor)
            else floor)
      in if cap > 0 \<and> buf > cap then cap else buf)"

text \<open>A \<open>[start, end]\<close> span in milliseconds; end 0 is still open.\<close>

type_synonym interval = "int \<times> int"

definition clip_end :: "int \<Rightarrow> interval \<Rightarrow> interval" where
  "clip_end now iv = (if snd iv = 0 \<or> snd iv > now then (fst iv, now) else iv)"

fun merge_spans :: "int \<Rightarrow> int \<Rightarrow> int \<Rightarrow> interval list \<Rightarrow> int" where
  "merge_spans tot cs ce [] = tot + (ce - cs)"
| "merge_spans tot cs ce ((s, e) # ivs) =
     (if s > ce then merge_spans (tot + (ce - cs)) s e ivs
      else if e > ce then merge_spans tot cs e ivs
      else merge_spans tot cs ce ivs)"

definition useful_millis :: "interval list \<Rightarrow> int \<Rightarrow> int" where
  "useful_millis spans now =
     (case sort_key fst (map (clip_end now) spans) of
        [] \<Rightarrow> 0
      | (s, e) # ivs \<Rightarrow> (let tot = merge_spans 0 s e ivs in if tot < 0 then 0 else tot))"

section \<open>Paid time\<close>

text \<open>The number of increments started by a lifetime: the ceiling, and one for an empty one.\<close>

definition started :: "int \<Rightarrow> int \<Rightarrow> int" where
  "started inc t = (if t \<le> 0 then 1 else (t + inc - 1) div inc)"

lemma ceil_div_eq:
  fixes t inc :: int
  assumes "0 < inc" and "(k - 1) * inc < t" and "t \<le> k * inc"
  shows "(t + inc - 1) div inc = k"
proof (rule int_div_pos_eq [where r = "t + inc - 1 - k * inc"])
  show "t + inc - 1 = inc * k + (t + inc - 1 - k * inc)" by (simp add: algebra_simps)
  show "0 \<le> t + inc - 1 - k * inc" "t + inc - 1 - k * inc < inc"
    using assms by (simp_all add: algebra_simps)
qed

lemma started_eq:
  assumes "0 < inc" and "(k - 1) * inc < t" and "t \<le> k * inc" and "1 \<le> k"
  shows "started inc t = k"
proof -
  have "0 \<le> (k - 1) * inc" using assms(1,4) by simp
  then have "0 < t" using assms(2) by linarith
  then show ?thesis using ceil_div_eq [OF assms(1-3)] by (simp add: started_def)
qed

lemma started_bounds:
  assumes "0 < inc" and "0 < t"
  shows "(started inc t - 1) * inc < t \<and> t \<le> started inc t * inc \<and> 1 \<le> started inc t"
proof -
  let ?k = "(t + inc - 1) div inc"
  have dm: "?k * inc = t + inc - 1 - (t + inc - 1) mod inc"
    by (simp only: minus_mod_eq_div_mult)
  have r: "0 \<le> (t + inc - 1) mod inc" "(t + inc - 1) mod inc < inc" using assms(1) by simp_all
  have "1 \<le> ?k" using assms zdiv_mono1 [of inc "t + inc - 1" inc] by simp
  moreover have "(?k - 1) * inc < t" "t \<le> ?k * inc"
    using dm r unfolding left_diff_distrib by linarith+
  ultimately show ?thesis using assms(2) by (simp add: started_def)
qed

lemma paid_eq:
  assumes "0 < bp_increment p"
  shows "paid t p = max (bp_minimum p) (started (bp_increment p) t * bp_increment p)"
proof -
  let ?i = "bp_increment p"
  have "(if t mod ?i \<noteq> 0 then t div ?i + 1 else t div ?i) = (t + ?i - 1) div ?i" if "0 < t"
  proof (cases "t mod ?i = 0")
    case True
    then have t: "t = t div ?i * ?i" by (metis add_0_right div_mult_mod_eq)
    have "(t div ?i - 1) * ?i < t" using t assms by (simp add: algebra_simps)
    then show ?thesis using True ceil_div_eq [OF assms, of "t div ?i" t] t by simp
  next
    case False
    have dm: "t div ?i * ?i = t - t mod ?i" by (simp only: minus_mod_eq_div_mult)
    have "0 \<le> t mod ?i" "t mod ?i < ?i" using assms by simp_all
    then have "0 < t mod ?i" "t mod ?i < ?i" using False by linarith+
    then have "(t div ?i + 1 - 1) * ?i < t" "t \<le> (t div ?i + 1) * ?i"
      using dm unfolding distrib_right by simp_all
    then show ?thesis using False ceil_div_eq [OF assms, of "t div ?i + 1" t] by simp
  qed
  moreover have "1 \<le> (t + ?i - 1) div ?i" if "0 < t"
    using started_bounds [OF assms that] that by (simp add: started_def)
  ultimately show ?thesis
    using assms by (auto simp: paid_def Let_def started_def max_def)
qed

lemma started_mono: "0 < inc \<Longrightarrow> a \<le> b \<Longrightarrow> started inc a \<le> started inc b"
proof -
  assume h: "0 < inc" "a \<le> b"
  then show ?thesis
    using started_bounds [of inc b] by (auto simp: started_def intro: zdiv_mono1)
qed

lemma paid_mono: "a \<le> b \<Longrightarrow> paid a p \<le> paid b p"
proof (cases "0 < bp_increment p")
  case True
  assume "a \<le> b"
  then have "started (bp_increment p) a * bp_increment p \<le> started (bp_increment p) b * bp_increment p"
    using True started_mono by simp
  then show ?thesis using True unfolding paid_eq [OF True] by (intro max.mono) simp_all
next
  case False
  assume "a \<le> b"
  with False show ?thesis by (auto simp: paid_def Let_def)
qed

text \<open>
  What a machine is billed for: at least its lifetime and at least the policy's minimum, never
  more than one increment beyond the longer of the two, and never less for a longer life.
\<close>

theorem paid_bounds:
  assumes "0 < bp_increment p" and "0 \<le> t"
  shows "t \<le> paid t p \<and> bp_minimum p \<le> paid t p
    \<and> paid t p \<le> max (bp_minimum p) (t + bp_increment p)
    \<and> (\<forall>u. \<not> u < t \<or> paid u p \<le> paid t p)"
proof -
  have "t \<le> started (bp_increment p) t * bp_increment p"
    and "started (bp_increment p) t * bp_increment p \<le> t + bp_increment p"
    using started_bounds [OF assms(1), of t] assms by (cases "t = 0"; simp add: started_def algebra_simps)+
  moreover have "\<forall>u. \<not> u < t \<or> paid u p \<le> paid t p" using paid_mono by auto
  ultimately show ?thesis using assms(1) by (auto simp: paid_eq)
qed

definition hourly :: billing_policy where
  "hourly = \<lparr>bp_minimum = 0, bp_increment = 3600 * sec, bp_buffer = 300 * sec\<rparr>"

theorem paid_bounds_witness:
  "0 < bp_increment hourly \<and> 5400 * sec \<le> paid (5400 * sec) hourly
   \<and> paid (5400 * sec) hourly = 7200 * sec"
proof -
  have h: "0 < bp_increment hourly" "0 \<le> 5400 * sec" by (simp_all add: hourly_def sec_def)
  show ?thesis
    using h paid_bounds [OF h] by (simp add: paid_def hourly_def sec_def Let_def go_div_def)
qed

section \<open>Boundaries\<close>

lemma paid_around:
  assumes "ms \<le> bp_increment p" and "1 \<le> k"
  shows "paid (k * bp_increment p + ms) p > paid (k * bp_increment p - ms) p
    \<longleftrightarrow> (k + 1) * bp_increment p > bp_minimum p"
proof -
  let ?i = "bp_increment p"
  have i: "0 < ?i" using assms(1) by (simp add: ms_def)
  have after: "started ?i (k * ?i + ms) = k + 1"
    by (rule started_eq) (use assms in \<open>simp_all add: ms_def algebra_simps\<close>)
  have "started ?i (k * ?i - ms) \<le> started ?i (k * ?i)"
    by (rule started_mono) (use i in \<open>simp_all add: ms_def\<close>)
  moreover have "started ?i (k * ?i) = k"
    by (rule started_eq) (use assms i in \<open>simp_all add: algebra_simps\<close>)
  ultimately have "started ?i (k * ?i - ms) * ?i < (k + 1) * ?i"
    using i by (simp add: mult_less_cancel_right)
  then show ?thesis using i after by (auto simp: paid_eq)
qed

lemma next_boundary_loop_spec:
  assumes "ms \<le> bp_increment p" and "1 \<le> k"
  shows "\<exists>j \<ge> k. next_boundary_loop p k = j * bp_increment p
    \<and> (j + 1) * bp_increment p > bp_minimum p
    \<and> (\<forall>i. k \<le> i \<and> i < j \<longrightarrow> (i + 1) * bp_increment p \<le> bp_minimum p)"
  using assms
proof (induction p k rule: next_boundary_loop.induct)
  case (1 p k)
  let ?t = "k * bp_increment p"
  have i: "0 < bp_increment p" using "1.prems"(1) by (simp add: ms_def)
  show ?case
  proof (cases "paid (?t + ms) p > paid (?t - ms) p")
    case True
    then have "next_boundary_loop p k = ?t" by (subst next_boundary_loop.simps) (simp add: Let_def)
    moreover have "(k + 1) * bp_increment p > bp_minimum p"
      using True paid_around [OF "1.prems"] by simp
    ultimately show ?thesis by auto
  next
    case False
    then have low: "(k + 1) * bp_increment p \<le> bp_minimum p"
      using paid_around [OF "1.prems"] by simp
    then have nt: "\<not> (?t > bp_minimum p + bp_increment p \<or> bp_increment p \<le> 0)"
      using i by (simp add: algebra_simps)
    have "1 \<le> k + 1" using "1.prems"(2) by simp
    from "1.IH" [OF refl False nt "1.prems"(1) this] obtain j where
      j: "k + 1 \<le> j" "next_boundary_loop p (k + 1) = j * bp_increment p"
        "(j + 1) * bp_increment p > bp_minimum p"
        "\<forall>i. k + 1 \<le> i \<and> i < j \<longrightarrow> (i + 1) * bp_increment p \<le> bp_minimum p"
      by blast
    have "next_boundary_loop p k = next_boundary_loop p (k + 1)"
      using False nt by (subst next_boundary_loop.simps) (simp add: Let_def)
    moreover have "\<forall>i. k \<le> i \<and> i < j \<longrightarrow> (i + 1) * bp_increment p \<le> bp_minimum p"
      using j(4) low by (metis order_le_less zless_imp_add1_zle)
    ultimately show ?thesis using j by (intro exI [of _ j]) auto
  qed
qed

lemma paid_flat_to_boundary:
  assumes "ms \<le> bp_increment p" and "0 \<le> e" and "k = e div bp_increment p + 1"
    and "e < t" and "t \<le> next_boundary_loop p k"
  shows "paid t p = paid (next_boundary_loop p k) p"
proof -
  let ?i = "bp_increment p"
  have i: "0 < ?i" using assms(1) by (simp add: ms_def)
  then have k: "1 \<le> k" using assms(2,3) by (simp add: pos_imp_zdiv_nonneg_iff)
  obtain j where j: "k \<le> j" "next_boundary_loop p k = j * ?i"
      "\<forall>m. k \<le> m \<and> m < j \<longrightarrow> (m + 1) * ?i \<le> bp_minimum p"
    using next_boundary_loop_spec [OF assms(1) k] by blast
  have sj: "started ?i (j * ?i) = j"
    by (rule started_eq) (use i j k in \<open>simp_all add: algebra_simps\<close>)
  let ?s = "started ?i t"
  have s: "(?s - 1) * ?i < t" "t \<le> ?s * ?i" using started_bounds [OF i] assms(2,4) by auto
  have "?s \<le> j" using started_mono [OF i, of t "j * ?i"] assms(5) j(2) sj by simp
  have "(k - 1) * ?i \<le> e" using i assms(3) by (simp add: minus_mod_eq_div_mult [symmetric])
  then have "(k - 1) * ?i < ?s * ?i" using assms(4) s(2) by linarith
  then have "k \<le> ?s" using i by simp
  show ?thesis
  proof (cases "?s = j")
    case True
    then show ?thesis using i j(2) sj by (simp add: paid_eq)
  next
    case False
    then have "?s < j" using \<open>?s \<le> j\<close> by simp
    then have "k \<le> j - 1" using \<open>k \<le> ?s\<close> by simp
    then have "j * ?i \<le> bp_minimum p" using j(3) [rule_format, of "j - 1"] by simp
    moreover have "?s * ?i \<le> j * ?i" using \<open>?s < j\<close> i by simp
    ultimately have "?s * ?i \<le> bp_minimum p" by linarith
    then show ?thesis using i j(2) sj \<open>j * ?i \<le> bp_minimum p\<close> by (simp add: paid_eq)
  qed
qed

lemma paid_jumps_at_boundary:
  assumes "ms \<le> bp_increment p" and "1 \<le> k" and "0 < d"
  shows "paid (next_boundary_loop p k) p < paid (next_boundary_loop p k + d) p"
proof -
  let ?i = "bp_increment p"
  have i: "0 < ?i" using assms(1) by (simp add: ms_def)
  obtain j where j: "k \<le> j" "next_boundary_loop p k = j * ?i" "(j + 1) * ?i > bp_minimum p"
    using next_boundary_loop_spec [OF assms(1,2)] by blast
  have sj: "started ?i (j * ?i) = j"
    by (rule started_eq) (use i j assms(2) in \<open>simp_all add: algebra_simps\<close>)
  have "0 < j * ?i + d" using i j(1) assms(2,3) by (simp add: add_pos_pos)
  then have "j * ?i < started ?i (j * ?i + d) * ?i" using started_bounds [OF i] assms(3) by force
  then have "j < started ?i (j * ?i + d)" using i by simp
  then have "(j + 1) * ?i \<le> started ?i (j * ?i + d) * ?i" using i by simp
  moreover have "j * ?i < (j + 1) * ?i" using i by simp
  ultimately have "max (bp_minimum p) (j * ?i) < started ?i (j * ?i + d) * ?i" using j(3) by linarith
  then show ?thesis using i j(2) sj by (simp add: paid_eq)
qed

lemma milliseconds_mult_ms [simp]: "0 \<le> x \<Longrightarrow> milliseconds (x * ms) = x"
  by (simp add: milliseconds_def ms_def)



section \<open>The termination window\<close>

lemma effective_buffer_floor: "2 * i + 5 * sec \<le> effective_buffer p i"
  by (simp add: effective_buffer_def Let_def)

lemma window_shape:
  assumes "termination_window created p now buffer 0 = Some w" and "0 \<le> buffer"
  shows "w_start w = w_boundary w - buffer div ms \<and> w_cutoff w = w_boundary w - buffer div 2 div ms
    \<and> next_boundary created p now = Some (w_boundary w)"
  using assms by (auto simp: termination_window_def Let_def milliseconds_def ms_def split: option.splits)

text \<open>Among instants spaced by at most the width of a window, one falls into the window.\<close>

lemma periodic_hits:
  fixes t0 :: int
  assumes "t0 \<le> lo" and "0 < period" and "period \<le> hi - lo"
  shows "\<exists>n::nat. lo \<le> t0 + int n * period \<and> t0 + int n * period \<le> hi"
proof -
  define n where "n = nat ((lo - t0 + period - 1) div period)"
  have nn: "0 \<le> (lo - t0 + period - 1) div period"
    using assms(1,2) by (simp add: pos_imp_zdiv_nonneg_iff)
  have dm: "(lo - t0 + period - 1) div period * period =
      lo - t0 + period - 1 - (lo - t0 + period - 1) mod period"
    by (simp only: minus_mod_eq_div_mult)
  have "0 \<le> (lo - t0 + period - 1) mod period" "(lo - t0 + period - 1) mod period < period"
    using assms(2) by simp_all
  moreover have "int n * period = (lo - t0 + period - 1) div period * period"
    using nn by (simp add: n_def)
  ultimately have "lo \<le> t0 + int n * period" "t0 + int n * period \<le> hi"
    using dm assms(3) by linarith+
  then show ?thesis by blast
qed

text \<open>
  The kernel's buffer floor makes the termination window unmissable: a sweep that runs
  every \<open>interval\<close> milliseconds, starting at any time before the window opens, has a run at
  which the window says to terminate.
\<close>

theorem periodic_sweep_hits_window:
  assumes "0 < interval" and "t0 \<le> w_start w"
    and "termination_window created p now (effective_buffer p (interval * ms)) 0 = Some w"
  shows "\<exists>n::nat. decide w (t0 + int n * interval) = Terminate"
proof -
  let ?b = "effective_buffer p (interval * ms)"
  have floor: "2 * (interval * ms) + 5 * sec \<le> ?b" by (rule effective_buffer_floor)
  then have b0: "0 \<le> ?b" using assms(1) by (simp add: ms_def sec_def)
  have "interval \<le> ?b div ms - ?b div 2 div ms"
    using floor assms(1) unfolding ms_def sec_def by linarith
  then have "interval \<le> w_cutoff w - w_start w" using window_shape [OF assms(3) b0] by simp
  then obtain n :: nat where "w_start w \<le> t0 + int n * interval" "t0 + int n * interval \<le> w_cutoff w"
    using periodic_hits [OF assms(2,1)] by blast
  then have "decide w (t0 + int n * interval) = Terminate" by (simp add: decide_def)
  then show ?thesis ..
qed

definition floor_only :: billing_policy where
  "floor_only = \<lparr>bp_minimum = 600 * sec, bp_increment = 0, bp_buffer = 0\<rparr>"

theorem periodic_sweep_hits_window_witness:
  "0 < (15000 :: int) \<and>
   (\<exists>n::nat. decide \<lparr>w_boundary = 600000, w_start = 565000, w_cutoff = 582500\<rparr> (0 + int n * 15000) = Terminate)"
proof -
  let ?w = "\<lparr>w_boundary = 600000, w_start = 565000, w_cutoff = 582500\<rparr>"
  have a: "(0 :: int) < 15000" "0 \<le> w_start ?w" by simp_all
  have c: "termination_window 0 floor_only 0 (effective_buffer floor_only (15000 * ms)) 0 = Some ?w"
    by (simp add: termination_window_def next_boundary_def floor_only_def effective_buffer_def
        milliseconds_def ms_def sec_def Let_def go_div_def)
  show ?thesis using a(1) periodic_sweep_hits_window [OF a c] by simp
qed

text \<open>
  The adaptive buffer reads its 95th percentile inside the sample list, is never below the
  floor unless the cap says so, and never above a positive cap.
\<close>

theorem adaptive_buffer_bounds:
  "(observed = [] \<or> (length observed * 95) div 100 < length observed)
   \<and> (cap \<le> 0 \<or> adaptive_buffer observed floor margin cap \<le> cap)
   \<and> min floor (if cap > 0 then cap else floor) \<le> adaptive_buffer observed floor margin cap"
proof -
  have "length observed * 95 div 100 < length observed" if "observed \<noteq> []"
    using that by (simp add: div_less_iff_less_mult)
  then show ?thesis by (auto simp: adaptive_buffer_def Let_def)
qed

section \<open>Useful time\<close>

definition covered :: "interval list \<Rightarrow> int set" where
  "covered ivs = (\<Union>iv \<in> set ivs. {fst iv ..< snd iv})"

lemma covered_simps [simp]:
  "covered [] = {}" "covered (iv # ivs) = {fst iv ..< snd iv} \<union> covered ivs"
  by (auto simp: covered_def)

lemma finite_covered [simp]: "finite (covered ivs)"
  by (simp add: covered_def)

lemma merge_spans_card:
  assumes "cs \<le> ce" and "sorted (cs # map fst ivs)" and "\<forall>iv \<in> set ivs. fst iv \<le> snd iv"
  shows "merge_spans tot cs ce ivs = tot + int (card ({cs ..< ce} \<union> covered ivs))"
  using assms
proof (induction ivs arbitrary: tot cs ce)
  case Nil
  then show ?case by simp
next
  case (Cons iv ivs)
  obtain s e where iv: "iv = (s, e)" by (cases iv)
  from Cons.prems iv have pre: "cs \<le> s" "s \<le> e" "sorted (s # map fst ivs)" "sorted (cs # map fst ivs)"
      "\<forall>iv \<in> set ivs. fst iv \<le> snd iv" by auto
  consider "s > ce" | "s \<le> ce" "e > ce" | "s \<le> ce" "e \<le> ce" by linarith
  then show ?case
  proof cases
    case 1
    have "x \<notin> covered ivs" if "x < ce" for x
      using that 1 pre(3) by (auto simp: covered_def)
    then have "{cs ..< ce} \<inter> ({s ..< e} \<union> covered ivs) = {}"
      using 1 by auto
    then have "card ({cs ..< ce} \<union> ({s ..< e} \<union> covered ivs)) =
        card {cs ..< ce} + card ({s ..< e} \<union> covered ivs)"
      by (intro card_Un_disjoint) simp_all
    then show ?thesis using 1 Cons.IH [OF pre(2,3,5)] Cons.prems(1) iv by simp
  next
    case 2
    have "{cs ..< ce} \<union> ({s ..< e} \<union> covered ivs) = {cs ..< e} \<union> covered ivs"
      using 2 pre(1) Cons.prems(1) by auto
    then show ?thesis using 2 Cons.IH [OF _ pre(4,5), of e] Cons.prems(1) iv by simp
  next
    case 3
    have "{cs ..< ce} \<union> ({s ..< e} \<union> covered ivs) = {cs ..< ce} \<union> covered ivs"
      using 3 pre(1) by auto
    then show ?thesis using 3 Cons.IH [OF Cons.prems(1) pre(4,5)] iv by simp
  qed
qed

lemma clip_end_ordered: "fst iv \<le> now \<Longrightarrow> snd iv = 0 \<or> fst iv \<le> snd iv \<Longrightarrow> fst (clip_end now iv) \<le> snd (clip_end now iv)"
  by (auto simp: clip_end_def)

text \<open>
  \<open>UsefulMillis\<close> counts every busy millisecond once: it is the number of milliseconds
  covered by at least one of the lease spans, clipped at now, however the spans overlap and in
  whatever order they come.
\<close>

theorem useful_millis_counts_union:
  assumes "\<forall>iv \<in> set spans. fst iv \<le> now \<and> (snd iv = 0 \<or> fst iv \<le> snd iv)"
  shows "useful_millis spans now = int (card (covered (map (clip_end now) spans)))"
proof (cases "sort_key fst (map (clip_end now) spans)")
  case Nil
  then show ?thesis by (simp add: useful_millis_def)
next
  case (Cons iv ivs)
  obtain s e where iv: "iv = (s, e)" by (cases iv)
  let ?l = "map (clip_end now) spans"
  have ord: "\<forall>x \<in> set (iv # ivs). fst x \<le> snd x"
    unfolding Cons [symmetric] using assms clip_end_ordered by auto
  have "sorted (map fst (iv # ivs))" unfolding Cons [symmetric] by simp
  then have "merge_spans 0 s e ivs = int (card ({s ..< e} \<union> covered ivs))"
    using ord iv by (subst merge_spans_card) auto
  also have "{s ..< e} \<union> covered ivs = covered (sort_key fst ?l)" using iv Cons by simp
  also have "\<dots> = covered ?l" by (simp add: covered_def)
  finally show ?thesis using Cons iv by (simp add: useful_millis_def)
qed

theorem useful_millis_counts_union_witness:
  "useful_millis [(10, 30), (0, 20), (50, 0)] 60 = 40 \<and>
   useful_millis [(10, 30), (0, 20), (50, 0)] 60 =
     int (card (covered (map (clip_end 60) [(10, 30), (0, 20), (50, 0)])))"
proof -
  have h: "\<forall>iv \<in> set [(10, 30), (0, 20), (50, 0)]. fst iv \<le> (60 :: int) \<and> (snd iv = 0 \<or> fst iv \<le> snd iv)"
    by simp
  show ?thesis using useful_millis_counts_union [OF h] by (simp add: useful_millis_def clip_end_def)
qed

end
