(* ===== verification/Scheduler.thy ===== *)
theory Scheduler
  imports Kernel_Laws Billing "HOL-Library.Product_Lexorder"
begin

text \<open>
  The scheduler (internal/scheduler/scheduler.go): ranking of the candidates, the reservation
  transaction, the ladder reuse - start a parked machine - queue - scale on demand, the terminal
  callback and the periodic resume. Identifiers a call mints come from a supply indexed by the
  acquisition; durations are unbounded integers of nanoseconds.
\<close>

record sched_env =
  se_providers :: providers
  se_classes :: class_resolver
  se_now :: int
  se_owner :: string
  se_fresh :: "string \<Rightarrow> nat \<Rightarrow> string"

section \<open>In-memory state\<close>

definition set_mem :: "(memory \<Rightarrow> memory) \<Rightarrow> db \<Rightarrow> db" where
  "set_mem f s = s\<lparr>mem := f (mem s)\<rparr>"

definition start_fail_of :: "string \<Rightarrow> memory \<Rightarrow> int \<times> int" where
  "start_fail_of rid m = (case map_of (m_start_fail m) rid of None \<Rightarrow> (0, 0) | Some x \<Rightarrow> x)"

definition under_start_backoff :: "string \<Rightarrow> int \<Rightarrow> db \<Rightarrow> bool" where
  "under_start_backoff rid now s = (now < fst (start_fail_of rid (mem s)))"

definition start_delay :: "int \<Rightarrow> int" where
  "start_delay attempts =
     (let delay = (30 * sec) * 2 ^ nat (min (attempts - 1) 5)
      in if delay > 10 * 60 * sec then 10 * 60 * sec else delay)"

definition bump_start_backoff :: "string \<Rightarrow> int \<Rightarrow> db \<Rightarrow> db" where
  "bump_start_backoff rid now s =
     (let attempts = snd (start_fail_of rid (mem s)) + 1 in
      set_mem (\<lambda>m. m\<lparr>m_start_fail := AList.update rid (now + milliseconds (start_delay attempts), attempts)
        (m_start_fail m)\<rparr>) s)"

definition clear_start_backoff :: "string \<Rightarrow> db \<Rightarrow> db" where
  "clear_start_backoff rid s =
     set_mem (\<lambda>m. m\<lparr>m_start_fail := AList.delete rid (m_start_fail m)\<rparr>) s"

definition acq_event :: "sched_env \<Rightarrow> acquisition \<Rightarrow> string \<Rightarrow> string option \<Rightarrow> string \<Rightarrow> event" where
  "acq_event env a ty rid outcome =
     \<lparr>ev_ts = se_now env, ev_actor = a_actor a, ev_idem_key = [], ev_type = ty, ev_resource = rid,
      ev_pool = None, ev_operation = None, ev_provider = [], ev_outcome = outcome\<rparr>"

definition mark_queued :: "sched_env \<Rightarrow> acquisition \<Rightarrow> db \<Rightarrow> db" where
  "mark_queued env a s =
     (if a_id a \<in> set (m_queued (mem s)) then s
      else (let s = set_mem (\<lambda>m. m\<lparr>m_queued := a_id a # m_queued m\<rparr>) s in
            tx_or_keep s (event_append (acq_event env a ''acquisition.queued'' None ''queued'') s)))"

definition observe_bound :: "acquisition \<Rightarrow> string \<Rightarrow> db \<Rightarrow> db" where
  "observe_bound a rid s =
     (if a_pending_resource a = Some rid then s
      else set_mem (\<lambda>m. m\<lparr>m_queued := removeAll (a_id a) (m_queued m)\<rparr>) s)"

section \<open>Candidate ranking\<close>

record candidate =
  cd_id :: string
  cd_score :: int
  cd_tier :: int
  cd_slack :: int

definition lease_vec :: "lease \<Rightarrow> vector" where
  "lease_vec l = (case parse_vec (l_capacity l) of Inl _ \<Rightarrow> [] | Inr c \<Rightarrow> c)"

definition used_of :: "lease list \<Rightarrow> vector" where
  "used_of ls = foldl (\<lambda>u l. vadd u (lease_vec l)) [] ls"

text \<open>The billing tier and slack of a lease of the acquisition's TTL on a resource.\<close>

definition billing_tier :: "sched_env \<Rightarrow> acquisition \<Rightarrow> resource \<Rightarrow> int \<times> int" where
  "billing_tier env a res =
     (let pol = fst (pv_billing (se_providers env) (r_provider res) (r_kind res)) in
      if a_ttl_seconds a > 0 \<and> \<not> fine_grained pol then
        (case next_boundary (r_created_at res) pol (se_now env) of
           None \<Rightarrow> (2, 0)
         | Some b \<Rightarrow>
             (let buffer = effective_buffer pol (15 * sec);
                  lease_end = se_now env + a_ttl_seconds a * 1000;
                  safe = b - milliseconds buffer
              in if lease_end \<le> safe then (0, safe - lease_end)
                 else if lease_end \<le> b then (1, 0) else (2, 0)))
      else (2, 0))"

definition candidate_of ::
    "sched_env \<Rightarrow> acquisition \<Rightarrow> vector \<Rightarrow> bool \<Rightarrow> db \<Rightarrow> resource \<Rightarrow> candidate option" where
  "candidate_of env a want exclusive s res =
     (case parse_vec (r_capacity res) of
        Inl _ \<Rightarrow> None
      | Inr tot \<Rightarrow>
          (let active = active_by_resource (r_id res) s in
           if exclusive \<and> active \<noteq> [] then None
           else if list_ex l_exclusive active then None
           else if \<not> fits tot (used_of active) want then None
           else Some \<lparr>cd_id = r_id res, cd_score = free_after tot (used_of active) want,
                      cd_tier = fst (billing_tier env a res), cd_slack = snd (billing_tier env a res)\<rparr>))"

text \<open>Tier, then slack within tier 0, then the best-fit score, then the identifier.\<close>

definition candidate_key :: "candidate \<Rightarrow> int \<times> int \<times> int \<times> string" where
  "candidate_key c = (cd_tier c, if cd_tier c = 0 then cd_slack c else 0, cd_score c, cd_id c)"

definition reuse_filter :: "acquisition \<Rightarrow> phase list \<Rightarrow> resource_filter" where
  "reuse_filter a phases =
     no_filter\<lparr>f_kind := a_kind a, f_class := a_class a, f_phases := phases, f_ownership := [Managed]\<rparr>"

definition ranked_candidates ::
    "sched_env \<Rightarrow> acquisition \<Rightarrow> vector \<Rightarrow> bool \<Rightarrow> db \<Rightarrow> candidate list" where
  "ranked_candidates env a want exclusive s =
     sort_key candidate_key
       (List.map_filter (candidate_of env a want exclusive s)
          (resource_list (reuse_filter a [Ready, Allocated]) s))"

section \<open>The reservation transaction\<close>

definition new_lease :: "sched_env \<Rightarrow> acquisition \<Rightarrow> string \<Rightarrow> vector \<Rightarrow> bool \<Rightarrow> string \<Rightarrow> lease" where
  "new_lease env a rid want exclusive lid =
     \<lparr>l_id = lid, l_acquisition = a_id a, l_resource = rid, l_holder = a_actor a,
      l_capacity = BVal want, l_exclusive = exclusive, l_state = LeaseActive,
      l_expires_at = (if a_ttl_seconds a > 0 then Some (se_now env + a_ttl_seconds a * 1000) else None),
      l_created_at = se_now env, l_ended_at = None\<rparr>"

definition reserve ::
    "sched_env \<Rightarrow> acquisition \<Rightarrow> string \<Rightarrow> vector \<Rightarrow> bool \<Rightarrow> string \<Rightarrow> db \<Rightarrow> err + db" where
  "reserve env a rid want exclusive lid s =
     bindE (resource_get rid s) (\<lambda>res.
     if r_deleted_at res \<noteq> None \<or> (r_phase res \<noteq> Ready \<and> r_phase res \<noteq> Allocated)
       \<or> r_ownership res \<noteq> Managed then Inl EConflict
     else bindE (parse_vec (r_capacity res)) (\<lambda>tot.
     let active = active_by_resource rid s in
     if exclusive \<and> active \<noteq> [] then Inl EInsufficient
     else if list_ex l_exclusive active then Inl EInsufficient
     else if \<not> fits tot (used_of active) want then Inl EInsufficient
     else
       bindE (lease_insert (new_lease env a rid want exclusive lid) s) (\<lambda>s.
       bindE (sum_active rid s) (\<lambda>used.
       if list_ex (\<lambda>(dim, t). vget used dim > t) tot then Inl EConflict
       else
         bindE (if r_phase res = Ready then cas_phase rid Ready Allocated (se_now env) s else Inr s) (\<lambda>s.
         bindE (acq_bind (a_id a) lid (se_now env) s) (\<lambda>s.
         event_append (acq_event env a ''acquisition.bound'' (Some rid) ''bound'') s))))))"

text \<open>
  The bounded attempts of \<open>Satisfy\<close> over the ranked candidates: a lost race or a candidate
  without room moves on to the next, any other error ends the search.
\<close>

fun try_reserve ::
    "sched_env \<Rightarrow> acquisition \<Rightarrow> vector \<Rightarrow> bool \<Rightarrow> nat \<Rightarrow> candidate list \<Rightarrow> db \<Rightarrow> (err + bool) \<times> db" where
  "try_reserve env a want exclusive i [] s = (Inr False, s)"
| "try_reserve env a want exclusive i (c # cs) s =
     (case reserve env a (cd_id c) want exclusive (se_fresh env (a_id a) i) s of
        Inr s' \<Rightarrow> (Inr True, observe_bound a (cd_id c) s')
      | Inl e \<Rightarrow> (if e \<noteq> EConflict \<and> e \<noteq> EInsufficient then (Inl e, s)
                  else try_reserve env a want exclusive (i + 1) cs s))"

section \<open>Starting a parked machine\<close>

definition start_candidate :: "sched_env \<Rightarrow> vector \<Rightarrow> db \<Rightarrow> resource \<Rightarrow> (int \<times> string) option" where
  "start_candidate env want s res =
     (if under_start_backoff (r_id res) (se_now env) s then None
      else if \<not> pk_supported (pv_parking (se_providers env) (r_provider res) (r_kind res)) then None
      else (case parse_vec (r_capacity res) of
          Inl _ \<Rightarrow> None
        | Inr tot \<Rightarrow> (if fits tot [] want then Some (free_after tot [] want, r_id res) else None)))"

definition start_candidates :: "sched_env \<Rightarrow> acquisition \<Rightarrow> vector \<Rightarrow> db \<Rightarrow> (int \<times> string) list" where
  "start_candidates env a want s =
     sort (List.map_filter (start_candidate env want s) (resource_list (reuse_filter a [Parked]) s))"

definition start_tx :: "sched_env \<Rightarrow> acquisition \<Rightarrow> string \<Rightarrow> string \<Rightarrow> db \<Rightarrow> err + db" where
  "start_tx env a rid oid s =
     bindE (acq_transition (a_id a) AcqPending AcqProvisioning (se_now env) s) (\<lambda>s.
     bindE (journal_start (se_providers env) rid (se_now env) (a_actor a) oid s) (\<lambda>s.
     acq_set_pending_resource (a_id a) rid s))"

fun try_start :: "sched_env \<Rightarrow> acquisition \<Rightarrow> nat \<Rightarrow> (int \<times> string) list \<Rightarrow> db \<Rightarrow> (err + bool) \<times> db" where
  "try_start env a i [] s = (Inr False, s)"
| "try_start env a i ((_, rid) # cs) s =
     (case start_tx env a rid (se_fresh env (a_id a) i) s of
        Inr s' \<Rightarrow> (Inr True, s')
      | Inl e \<Rightarrow> (if e \<noteq> EConflict then (Inl e, s) else try_start env a (i + 1) cs s))"

definition start_parked :: "sched_env \<Rightarrow> acquisition \<Rightarrow> vector \<Rightarrow> db \<Rightarrow> (err + bool) \<times> db" where
  "start_parked env a want s = try_start env a 3 (take 3 (start_candidates env a want s)) s"

section \<open>Wait estimates\<close>

definition op_duration :: "operation \<Rightarrow> int" where
  "op_duration x = (op_updated_at x - op_created_at x) * ms"

definition median :: "int list \<Rightarrow> int" where
  "median ds = sort ds ! (length ds div 2)"

definition start_estimate :: "sched_env \<Rightarrow> string \<Rightarrow> string \<Rightarrow> db \<Rightarrow> int" where
  "start_estimate env prov kind s =
     (case recent_terminal prov OpKindStart 20 s of
        Inr (x # xs) \<Rightarrow> median (map op_duration (x # xs))
      | _ \<Rightarrow> (let hint = pk_start_estimate (pv_parking (se_providers env) prov kind)
              in if hint > 0 then hint else 60 * sec))"

definition provisioning_estimate :: "string \<Rightarrow> db \<Rightarrow> int" where
  "provisioning_estimate prov s =
     (case recent_terminal prov OpKindCreate 20 s of
        Inr (x # xs) \<Rightarrow> median (map op_duration (x # xs))
      | _ \<Rightarrow> 90 * sec)"

text \<open>The hold of the acquisition pre-bound to a resource: \<open>None\<close> for an unbounded one.\<close>

definition holder_millis :: "string \<Rightarrow> db \<Rightarrow> int option" where
  "holder_millis rid s =
     (case find (\<lambda>p. a_pending_resource p = Some rid) (acq_list_by_state [AcqProvisioning] s) of
        None \<Rightarrow> Some 0
      | Some p \<Rightarrow> (if a_ttl_seconds p \<le> 0 then None else Some (a_ttl_seconds p * 1000)))"

fun latest_expiry :: "int \<Rightarrow> lease list \<Rightarrow> int option" where
  "latest_expiry acc [] = Some acc"
| "latest_expiry acc (l # ls) =
     (case l_expires_at l of
        None \<Rightarrow> None
      | Some e \<Rightarrow> latest_expiry (if e > acc then e else acc) ls)"

definition wait_for :: "sched_env \<Rightarrow> acquisition \<Rightarrow> vector \<Rightarrow> db \<Rightarrow> resource \<Rightarrow> int option" where
  "wait_for env a want s res =
     (if r_phase res = Starting \<or> r_phase res = Provisioning then
        (if a_class a = [] \<or> r_class res \<noteq> a_class a then None
         else (case holder_millis (r_id res) s of
            None \<Rightarrow> None
          | Some hold \<Rightarrow>
              Some ((if r_phase res = Starting then start_estimate env (r_provider res) (r_kind res) s
                     else provisioning_estimate (r_provider res) s) + hold * ms)))
      else (case parse_vec (r_capacity res) of
          Inl _ \<Rightarrow> None
        | Inr tot \<Rightarrow>
            (if \<not> fits tot [] want then None
             else (case active_by_resource (r_id res) s of
                [] \<Rightarrow> None
              | active \<Rightarrow> (case latest_expiry 0 active of
                  None \<Rightarrow> None | Some free_at \<Rightarrow> Some ((free_at - se_now env) * ms))))))"

definition better :: "int option \<Rightarrow> int option \<Rightarrow> int option" where
  "better best d =
     (case d of
        None \<Rightarrow> best
      | Some d \<Rightarrow>
          (let d = (if d < 0 then 0 else d) in
           case best of None \<Rightarrow> Some d | Some b \<Rightarrow> (if d < b then Some d else Some b)))"

definition estimate_wait :: "sched_env \<Rightarrow> acquisition \<Rightarrow> vector \<Rightarrow> db \<Rightarrow> int option" where
  "estimate_wait env a want s =
     foldl (\<lambda>best res. better best (wait_for env a want s res)) None
       (resource_list (reuse_filter a [Ready, Allocated, Provisioning, Starting]) s)"

section \<open>Scale on demand\<close>

definition scale_tx :: "sched_env \<Rightarrow> acquisition \<Rightarrow> prepared \<Rightarrow> db \<Rightarrow> err + db" where
  "scale_tx env a p s =
     bindE (acq_transition (a_id a) AcqPending AcqProvisioning (se_now env) s) (\<lambda>s.
     bindE (journal p (a_actor a) [] s) (\<lambda>s.
     acq_set_pending_resource (a_id a) (r_id (pr_resource p)) s))"

definition scale_on_demand :: "sched_env \<Rightarrow> acquisition \<Rightarrow> db \<Rightarrow> (err + acquisition) \<times> db" where
  "scale_on_demand env a s =
     (if a_class a = [] then (Inl ENoCapacity, s)
      else (case se_classes env (a_class a) of
         None \<Rightarrow> (Inl (EOther ''unknown class''), s)
       | Some cls \<Rightarrow>
           (case bindE (prepare (se_providers env) (se_owner env)
                \<lparr>cs_kind = ct_kind cls, cs_provider = ct_provider cls, cs_name = [],
                 cs_spec = ct_spec cls, cs_labels = [(''fleetplane.io/acquisition'', a_id a)],
                 cs_class = a_class a, cs_pool = None\<rparr>
                (se_now env) (se_fresh env (a_id a) 6) (se_fresh env (a_id a) 7))
                (\<lambda>p. scale_tx env a p s) of
              Inl e \<Rightarrow> (Inl e, s)
            | Inr s' \<Rightarrow> (acq_get (a_id a) s', s'))))"

section \<open>The ladder\<close>

definition satisfy :: "sched_env \<Rightarrow> string \<Rightarrow> db \<Rightarrow> (err + acquisition) \<times> db" where
  "satisfy env aid s =
     (case acq_get aid s of
        Inl e \<Rightarrow> (Inl e, s)
      | Inr a \<Rightarrow>
          (if a_state a \<noteq> AcqPending then (Inr a, s)
           else (case parse_request (a_constraints a) of
              Inl e \<Rightarrow> (Inl e, s)
            | Inr (req, want, exclusive) \<Rightarrow>
                (case try_reserve env a want exclusive 0
                        (take 3 (ranked_candidates env a want exclusive s)) s of
                   (Inl e, s) \<Rightarrow> (Inl e, s)
                 | (Inr True, s) \<Rightarrow> (acq_get aid s, s)
                 | (Inr False, s) \<Rightarrow>
                     (case start_parked env a want s of
                        (Inl e, s) \<Rightarrow> (Inl e, s)
                      | (Inr True, s) \<Rightarrow> (acq_get aid s, s)
                      | (Inr False, s) \<Rightarrow>
                          (let deadline = a_created_at a + rq_max_wait_ms req;
                               queue = rq_max_wait_ms req > 0 \<and> se_now env < deadline
                                 \<and> (case estimate_wait env a want s of
                                      None \<Rightarrow> False
                                    | Some est \<Rightarrow> se_now env + milliseconds est \<le> deadline)
                           in if queue then (Inr a, mark_queued env a s)
                              else scale_on_demand env a s))))))"

section \<open>Completion\<close>

definition re_pend_tx :: "sched_env \<Rightarrow> acquisition \<Rightarrow> db \<Rightarrow> err + db" where
  "re_pend_tx env a s =
     bindE (acq_transition (a_id a) AcqProvisioning AcqPending (se_now env) s)
       (acq_clear_pending_resource (a_id a))"

definition re_pend :: "sched_env \<Rightarrow> acquisition \<Rightarrow> db \<Rightarrow> db" where
  "re_pend env a s = tx_or_keep s (re_pend_tx env a s)"

definition want_of :: "acquisition \<Rightarrow> err + vector \<times> bool" where
  "want_of a = bindE (parse_request (a_constraints a)) (\<lambda>(_, want, ex). Inr (want, ex))"

definition resolve_pending :: "sched_env \<Rightarrow> acquisition \<Rightarrow> op_kind \<Rightarrow> op_state \<Rightarrow> db \<Rightarrow> db" where
  "resolve_pending env a k st s =
     (if st = OpSucceeded then
        (case (want_of a, a_pending_resource a) of
           (Inr (want, ex), Some rid) \<Rightarrow>
             tx_or_keep s (reserve env a rid want ex (se_fresh env (a_id a) 0) s)
         | _ \<Rightarrow> s)
      else if st = OpFailed \<or> st = OpAborted then
        (if k = OpKindStart then re_pend env a s
         else tx_or_keep s (acq_transition (a_id a) AcqProvisioning AcqFailed (se_now env) s))
      else s)"

definition sched_op_terminal :: "sched_env \<Rightarrow> operation \<Rightarrow> db \<Rightarrow> db" where
  "sched_op_terminal env x s =
     (case op_resource x of
        None \<Rightarrow> s
      | Some rid \<Rightarrow>
          (if op_kind x \<noteq> OpKindCreate \<and> op_kind x \<noteq> OpKindStart then s
           else (let s1 = (if op_kind x = OpKindStart then
                     (if op_state x = OpSucceeded then clear_start_backoff rid s
                      else if op_state x = OpFailed \<or> op_state x = OpAborted
                        then bump_start_backoff rid (se_now env) s
                      else s) else s)
             in fold (\<lambda>a. resolve_pending env a (op_kind x) (op_state x))
                  (filter (\<lambda>a. a_pending_resource a = Some rid) (acq_list_by_state [AcqProvisioning] s1))
                  s1)))"

section \<open>Resume and the periodic sweep\<close>

definition fail_no_capacity_tx :: "sched_env \<Rightarrow> acquisition \<Rightarrow> db \<Rightarrow> err + db" where
  "fail_no_capacity_tx env a s =
     bindE (acq_transition (a_id a) AcqPending AcqFailed (se_now env) s)
       (event_append (acq_event env a ''acquisition.failed'' None ''no_capacity''))"

definition expire_provisioning_tx :: "sched_env \<Rightarrow> acquisition \<Rightarrow> db \<Rightarrow> err + db" where
  "expire_provisioning_tx env a s =
     bindE (acq_transition (a_id a) AcqProvisioning AcqExpired (se_now env) s)
       (event_append (acq_event env a ''acquisition.expired'' (a_pending_resource a) ''provisioning_timeout''))"

definition resume_pending :: "sched_env \<Rightarrow> int \<Rightarrow> acquisition \<Rightarrow> db \<Rightarrow> db" where
  "resume_pending env timeout a s =
     (case satisfy env (a_id a) s of
        (Inl ENoCapacity, s) \<Rightarrow> tx_or_keep s (fail_no_capacity_tx env a s)
      | (_, s) \<Rightarrow>
          (case acq_get (a_id a) s of
             Inl _ \<Rightarrow> s
           | Inr cur \<Rightarrow>
               (if a_state cur = AcqPending \<and> timeout > 0 \<and> se_now env - a_created_at cur > timeout
                then tx_or_keep s (acq_transition (a_id a) AcqPending AcqExpired (se_now env) s)
                else s)))"

definition resume_provisioning :: "sched_env \<Rightarrow> int \<Rightarrow> acquisition \<Rightarrow> db \<Rightarrow> db" where
  "resume_provisioning env timeout a s =
     (if timeout > 0 \<and> se_now env - a_updated_at a > timeout
      then tx_or_keep s (expire_provisioning_tx env a s)
      else (case a_pending_resource a of
         None \<Rightarrow> s
       | Some rid \<Rightarrow>
           (case resource_get rid s of
              Inl _ \<Rightarrow> s
            | Inr res \<Rightarrow>
                (if r_phase res = Ready then resolve_pending env a OpKindCreate OpSucceeded s
                 else if r_phase res = Failed then resolve_pending env a OpKindCreate OpFailed s
                 else if r_phase res = Parked then re_pend env a s
                 else s))))"

definition resume_acq :: "sched_env \<Rightarrow> int \<Rightarrow> acquisition \<Rightarrow> db \<Rightarrow> db" where
  "resume_acq env timeout a s =
     (case a_state a of
        AcqPending \<Rightarrow> resume_pending env timeout a s
      | AcqProvisioning \<Rightarrow> resume_provisioning env timeout a s
      | _ \<Rightarrow> s)"

definition sched_resume :: "sched_env \<Rightarrow> int \<Rightarrow> db \<Rightarrow> db" where
  "sched_resume env timeout s =
     fold (resume_acq env timeout) (acq_list_by_state [AcqPending, AcqProvisioning] s) s"

section \<open>The reservation\<close>

lemma new_lease_simps [simp]:
  "l_id (new_lease env a rid want ex lid) = lid" "l_acquisition (new_lease env a rid want ex lid) = a_id a"
  "l_resource (new_lease env a rid want ex lid) = rid" "l_state (new_lease env a rid want ex lid) = LeaseActive"
  "l_exclusive (new_lease env a rid want ex lid) = ex" "l_capacity (new_lease env a rid want ex lid) = BVal want"
  by (simp_all add: new_lease_def)

lemma not_list_ex: "\<not> list_ex P xs \<longleftrightarrow> list_all (\<lambda>x. \<not> P x) xs"
  by (simp add: list_ex_iff list_all_iff)

lemma not_over:
  "\<not> list_ex (\<lambda>(dim, t). vget used dim > t) tot \<longleftrightarrow> list_all (\<lambda>(dim, t). vget used dim \<le> t) tot"
  by (auto simp: list_ex_iff list_all_iff)

text \<open>What a successful reservation has checked, and the four writes it is.\<close>

lemma reserve_InrE:
  assumes "reserve env a rid want ex lid s = Inr s'"
  obtains res tot used s1 s2 s3 where
    "tget r_id rid (resources s) = Some res" "live res" "r_phase res = Ready \<or> r_phase res = Allocated"
    "r_ownership res = Managed" "parse_vec (r_capacity res) = Inr tot"
    "ex \<longrightarrow> active_by_resource rid s = []" "list_all (\<lambda>l. \<not> l_exclusive l) (active_by_resource rid s)"
    "fits tot (used_of (active_by_resource rid s)) want"
    "lease_insert (new_lease env a rid want ex lid) s = Inr s1"
    "sum_active rid s1 = Inr used" "list_all (\<lambda>(dim, t). vget used dim \<le> t) tot"
    "(if r_phase res = Ready then cas_phase rid Ready Allocated (se_now env) s1 else Inr s1) = Inr s2"
    "acq_bind (a_id a) lid (se_now env) s2 = Inr s3"
    "event_append (acq_event env a ''acquisition.bound'' (Some rid) ''bound'') s3 = Inr s'"
proof -
  from assms obtain res where res: "tget r_id rid (resources s) = Some res" "live res"
      "r_phase res = Ready \<or> r_phase res = Allocated" "r_ownership res = Managed"
    and r1: "bindE (parse_vec (r_capacity res)) (\<lambda>tot.
     let active = active_by_resource rid s in
     if ex \<and> active \<noteq> [] then Inl EInsufficient
     else if list_ex l_exclusive active then Inl EInsufficient
     else if \<not> fits tot (used_of active) want then Inl EInsufficient
     else
       bindE (lease_insert (new_lease env a rid want ex lid) s) (\<lambda>s.
       bindE (sum_active rid s) (\<lambda>used.
       if list_ex (\<lambda>(dim, t). vget used dim > t) tot then Inl EConflict
       else
         bindE (if r_phase res = Ready then cas_phase rid Ready Allocated (se_now env) s else Inr s) (\<lambda>s.
         bindE (acq_bind (a_id a) lid (se_now env) s) (\<lambda>s.
         event_append (acq_event env a ''acquisition.bound'' (Some rid) ''bound'') s))))) = Inr s'"
    unfolding reserve_def by (auto simp: bindE_Inr_iff resource_get_Inr live_def simp del: split_paired_Ex split: if_splits)
  from r1 obtain tot where "parse_vec (r_capacity res) = Inr tot" by (auto simp: bindE_Inr_iff)
  with r1 show ?thesis
    unfolding Let_def if_Inl_eq_Inr bindE_Inr_iff not_over not_not
    unfolding not_list_ex using that [OF res] by blast
qed

lemma kadv_reserve:
  assumes "kinv s" and r: "reserve env a rid want ex lid s = Inr s'"
  shows "kadv s s'"
  using r
proof (cases rule: reserve_InrE)
  case (1 res tot used s1 s2 s3)
  let ?l = "new_lease env a rid want ex lid"
  note c = kinvD [OF assms(1)]
  have shared: "\<not> l_exclusive x" if "x \<in> set (leases s)" "is_active rid x" for x
    using 1(7) that by (auto simp: list_all_iff set_active_by_resource)
  have a1: "adv s s1"
  proof (rule adv_lease_insert [OF c(1) 1(9)])
    show "tget r_id (l_resource ?l) (resources s) = Some res" using 1(1) by simp
    show "lease_phase (r_phase res)" using 1(3) by (auto simp: lease_phase_def)
    show "l_exclusive ?l \<Longrightarrow> count_active (l_resource ?l) s = 0"
      using 1(6) by (simp add: active_by_resource_Nil_iff)
  qed (use 1(2) shared in simp_all)
  have f1: "resources s1 = resources s" "acquisitions s1 = acquisitions s" "operations s1 = operations s"
    using 1(9) by (auto simp: lease_insert_Inr)
  have a2: "adv s1 s2"
    using 1(12) adv_core [OF a1]
    by (auto simp: can_transition_iff idle_phase_def lease_phase_def intro: adv_refl adv_cas_phase split: if_splits)
  have f2: "acquisitions s2 = acquisitions s1" "leases s2 = leases s1" "operations s2 = operations s1"
    using 1(12) by (auto simp: cas_phase_Inr split: if_splits)
  have a3: "adv s2 s3" by (rule adv_acq_bind [OF adv_core [OF a2] 1(13)])
  have f3: "operations s3 = operations s2" using 1(13) by (auto simp: acq_bind_Inr)
  have a4: "adv s3 s'" by (rule adv_event [OF adv_core [OF a3] 1(14)])
  have f4: "operations s' = operations s3" "acquisitions s' = acquisitions s3" "leases s' = leases s3"
    using 1(14) by (auto simp: event_append_Inr)
  have "acq_bind (l_acquisition ?l) (l_id ?l) (se_now env) s2 = Inr s3" using 1(13) by simp
  then have "acq_ok s3" using acq_ok_bind [OF c(2) 1(9) _ _ f2(1,2)] by simp
  then have "acq_ok s'" using f4 by (auto intro: acq_ok_frame)
  moreover have "adv s s'" by (rule adv_trans [OF adv_trans [OF adv_trans [OF a1 a2] a3] a4])
  moreover have "calm s s'" using f1 f2 f3 f4 by (simp add: calm_frame)
  ultimately show ?thesis by (intro kadvI)
qed

section \<open>The other transactions\<close>

lemma kadv_start_tx:
  assumes "kinv s" and "start_tx env a rid oid s = Inr s'"
  shows "kadv s s'"
  using assms(1) assms(2) [unfolded start_tx_def]
proof (rule kadv_bindE)
  fix t
  assume "kinv t" and "bindE (journal_start (se_providers env) rid (se_now env) (a_actor a) oid t)
     (acq_set_pending_resource (a_id a) rid) = Inr s'"
  then show "kadv t s'" by (rule kadv_bindE) (auto intro: kadv_journal_start kadv_acq_pending \<open>kinv t\<close>)
qed (auto intro: kadv_acq_transition assms)

lemma kadv_scale_tx:
  assumes "kinv s" and "create_ready p" and "scale_tx env a p s = Inr s'"
  shows "kadv s s'"
  using assms(1) assms(3) [unfolded scale_tx_def]
proof (rule kadv_bindE)
  fix t
  assume "kinv t" and "bindE (journal p (a_actor a) [] t)
     (acq_set_pending_resource (a_id a) (r_id (pr_resource p))) = Inr s'"
  then show "kadv t s'" by (rule kadv_bindE) (auto intro: kadv_journal kadv_acq_pending \<open>kinv t\<close> assms(2))
qed (auto intro: kadv_acq_transition assms)

lemma kadv_re_pend_tx:
  assumes "kinv s" and "re_pend_tx env a s = Inr s'"
  shows "kadv s s'"
  using assms(1) assms(2) [unfolded re_pend_tx_def]
  by (rule kadv_bindE) (auto intro: kadv_acq_transition kadv_acq_pending assms(1))

lemma kadv_fail_no_capacity_tx:
  assumes "kinv s" and "fail_no_capacity_tx env a s = Inr s'"
  shows "kadv s s'"
  using assms(1) assms(2) [unfolded fail_no_capacity_tx_def]
  by (rule kadv_bindE) (auto intro: kadv_acq_transition [OF assms(1)] kadv_event)

lemma kadv_expire_provisioning_tx:
  assumes "kinv s" and "expire_provisioning_tx env a s = Inr s'"
  shows "kadv s s'"
  using assms(1) assms(2) [unfolded expire_provisioning_tx_def]
  by (rule kadv_bindE) (auto intro: kadv_acq_transition [OF assms(1)] kadv_event)

section \<open>What a reservation guarantees\<close>

lemma active_by_resource_cong: "leases s' = leases s \<Longrightarrow> active_by_resource rid s' = active_by_resource rid s"
  by (simp add: active_by_resource_def)

lemma sum_active_cong: "leases s' = leases s \<Longrightarrow> sum_active rid s' = sum_active rid s"
  by (simp add: sum_active_def active_by_resource_def)

text \<open>The tables after a reservation.\<close>

lemma reserve_tables:
  assumes "reserve env a rid want ex lid s = Inr s'"
  obtains res b where
    "tget r_id rid (resources s) = Some res" "live res" "r_phase res = Ready \<or> r_phase res = Allocated"
    "tget r_id rid (resources s') =
       Some (if r_phase res = Ready then phase_columns Ready Allocated (se_now env) res else res)"
    "tget l_id lid (leases s) = None" "leases s' = leases s @ [new_lease env a rid want ex lid]"
    "tget a_id (a_id a) (acquisitions s) = Some b" "a_state b = AcqPending \<or> a_state b = AcqProvisioning"
    "tget a_id (a_id a) (acquisitions s') = Some (b\<lparr>a_state := AcqBound, a_lease := Some lid,
       a_pending_resource := None, a_updated_at := se_now env\<rparr>)"
    "operations s' = operations s"
  using assms
proof (cases rule: reserve_InrE)
  case (1 res tot used s1 s2 s3)
  have f1: "leases s1 = leases s @ [new_lease env a rid want ex lid]" "resources s1 = resources s"
    "acquisitions s1 = acquisitions s" "operations s1 = operations s" "tget l_id lid (leases s) = None"
    using 1(9) by (auto simp: lease_insert_Inr)
  have f2: "leases s2 = leases s1" "acquisitions s2 = acquisitions s1" "operations s2 = operations s1"
    "tget r_id rid (resources s2) =
       Some (if r_phase res = Ready then phase_columns Ready Allocated (se_now env) res else res)"
    using 1(1,12) f1 by (auto simp: cas_phase_Inr tget_tupd split: if_splits)
  have key: "keeps_key a_id (\<lambda>a. a\<lparr>a_state := AcqBound, a_lease := Some lid, a_pending_resource := None,
      a_updated_at := se_now env\<rparr>)" by (simp add: keeps_key_def)
  from 1(13) f1 f2 obtain b where f3: "tget a_id (a_id a) (acquisitions s) = Some b"
      "a_state b = AcqPending \<or> a_state b = AcqProvisioning"
      "tget a_id (a_id a) (acquisitions s3) = Some (b\<lparr>a_state := AcqBound, a_lease := Some lid,
       a_pending_resource := None, a_updated_at := se_now env\<rparr>)"
      "leases s3 = leases s2" "resources s3 = resources s2" "operations s3 = operations s2"
    by (auto simp: acq_bind_Inr tget_tupd [OF key])
  have f4: "leases s' = leases s3" "resources s' = resources s3" "acquisitions s' = acquisitions s3"
    "operations s' = operations s3" using 1(14) by (auto simp: event_append_Inr)
  have g: "tget r_id rid (resources s') =
       Some (if r_phase res = Ready then phase_columns Ready Allocated (se_now env) res else res)"
    "leases s' = leases s @ [new_lease env a rid want ex lid]" "operations s' = operations s"
    "tget a_id (a_id a) (acquisitions s') = Some (b\<lparr>a_state := AcqBound, a_lease := Some lid,
       a_pending_resource := None, a_updated_at := se_now env\<rparr>)"
    using f1(1,4) f2(1,3,4) f3(3-6) f4 by (simp_all only:)
  show ?thesis by (rule that [OF 1(1-3) g(1) f1(5) g(2) f3(1,2) g(4,3)])
qed

text \<open>
  C20. A successful reservation never over-allocates: the machine was live, managed and ready or
  allocated, held no exclusive lease (and no lease at all for an exclusive request), and afterwards
  the capacities of all its active leases add up to at most its capacity in every dimension.
\<close>

theorem reserve_within_capacity:
  assumes "reserve env a rid want ex lid s = Inr s'"
  shows "\<exists>res tot used. tget r_id rid (resources s) = Some res \<and> live res \<and> r_ownership res = Managed
    \<and> (r_phase res = Ready \<or> r_phase res = Allocated) \<and> parse_vec (r_capacity res) = Inr tot
    \<and> (\<forall>l \<in> set (leases s). is_active rid l \<longrightarrow> \<not> l_exclusive l \<and> \<not> ex)
    \<and> sum_active rid s' = Inr used \<and> (\<forall>(dim, t) \<in> set tot. vget used dim \<le> t)"
  using assms
proof (cases rule: reserve_InrE)
  case (1 res tot used s1 s2 s3)
  have ls: "leases s' = leases s1"
    using 1(12-14) by (auto simp: cas_phase_Inr acq_bind_Inr event_append_Inr split: if_splits)
  have "sum_active rid s' = Inr used" using 1(10) sum_active_cong [OF ls] by simp
  moreover have "\<not> l_exclusive l \<and> \<not> ex" if "l \<in> set (leases s)" "is_active rid l" for l
  proof -
    have mem: "l \<in> set (active_by_resource rid s)" using that by (simp add: set_active_by_resource)
    then have "\<not> ex" using 1(6) by auto
    moreover have "\<not> l_exclusive l" using 1(7) mem by (simp add: list_all_iff)
    ultimately show ?thesis by simp
  qed
  moreover have "\<forall>(dim, t) \<in> set tot. vget used dim \<le> t" using 1(11) by (simp add: list_all_iff)
  ultimately show ?thesis using 1(1-5) by blast
qed

text \<open>
  A successful reservation does exactly its four writes: a new active lease of the requested
  capacity with the requester's deadline, the machine allocated, the pending or provisioning
  acquisition bound to the lease, and no operation.
\<close>

theorem reserve_effect:
  assumes "reserve env a rid want ex lid s = Inr s'"
  shows "leases s' = leases s @ [new_lease env a rid want ex lid]
    \<and> (\<exists>r. tget r_id rid (resources s') = Some r \<and> live r \<and> r_phase r = Allocated)
    \<and> (\<exists>b b'. tget a_id (a_id a) (acquisitions s) = Some b \<and> a_state b \<in> {AcqPending, AcqProvisioning}
         \<and> tget a_id (a_id a) (acquisitions s') = Some b' \<and> a_state b' = AcqBound \<and> a_lease b' = Some lid
         \<and> a_pending_resource b' = None)
    \<and> operations s' = operations s"
  using assms by (rule reserve_tables) auto

section \<open>The ladder's outcome\<close>

lemma try_reserve_cases:
  assumes "try_reserve env a want ex i cs s = (r, s')"
  shows "(r = Inr True \<and> (\<exists>c \<in> set cs. \<exists>lid t. reserve env a (cd_id c) want ex lid s = Inr t
            \<and> s' = observe_bound a (cd_id c) t)) \<or> (r \<noteq> Inr True \<and> s' = s)"
  using assms
proof (induction cs arbitrary: i)
  case (Cons c cs)
  show ?case
  proof (cases "reserve env a (cd_id c) want ex (se_fresh env (a_id a) i) s")
    case (Inl e)
    show ?thesis
    proof (cases "e \<noteq> EConflict \<and> e \<noteq> EInsufficient")
      case True
      then have "r = Inl e" "s' = s" using Cons.prems Inl by simp_all
      then show ?thesis by simp
    next
      case False
      then have "try_reserve env a want ex (i + 1) cs s = (r, s')" using Cons.prems Inl by (simp only: try_reserve.simps sum.case if_False)
      from Cons.IH [OF this] show ?thesis unfolding list.set(2) by blast
    qed
  next
    case (Inr t)
    then have "r = Inr True" "s' = observe_bound a (cd_id c) t" using Cons.prems by simp_all
    with Inr show ?thesis unfolding list.set(2) by blast
  qed
qed auto

lemma try_start_cases:
  assumes "try_start env a i cs s = (r, s')"
  shows "(r = Inr True \<and> (\<exists>sc rid oid. (sc, rid) \<in> set cs \<and> start_tx env a rid oid s = Inr s'))
     \<or> (r \<noteq> Inr True \<and> s' = s)"
  using assms
proof (induction cs arbitrary: i)
  case (Cons c cs)
  obtain sc rid where c: "c = (sc, rid)" by (cases c)
  show ?case
  proof (cases "start_tx env a rid (se_fresh env (a_id a) i) s")
    case (Inl e)
    show ?thesis
    proof (cases "e \<noteq> EConflict")
      case True
      then have "r = Inl e" "s' = s" using Cons.prems Inl c by simp_all
      then show ?thesis by simp
    next
      case False
      then have "try_start env a (i + 1) cs s = (r, s')" using Cons.prems Inl c by (simp only: try_start.simps sum.case if_False)
      from Cons.IH [OF this] show ?thesis unfolding list.set(2) by blast
    qed
  next
    case (Inr t)
    then have "r = Inr True" "s' = t" using Cons.prems c by simp_all
    with Inr c show ?thesis unfolding list.set(2) by blast
  qed
qed auto

lemma observe_bound_acqs [simp]: "acquisitions (observe_bound a rid s) = acquisitions s"
  by (simp add: observe_bound_def set_mem_def)

lemma keeps_acq_keys [simp]:
  "keeps_key a_id (\<lambda>a. a\<lparr>a_pending_resource := p\<rparr>)"
  by (simp add: keeps_key_def)

text \<open>The two provisioning moves leave the acquisition provisioning with its resource pre-bound.\<close>

lemma start_tx_acq:
  assumes "start_tx env a rid oid s = Inr s'"
  shows "\<exists>b. tget a_id (a_id a) (acquisitions s') = Some b \<and> a_state b = AcqProvisioning
    \<and> a_pending_resource b = Some rid"
proof -
  from assms obtain t u where 1: "acq_transition (a_id a) AcqPending AcqProvisioning (se_now env) s = Inr t"
    and 2: "journal_start (se_providers env) rid (se_now env) (a_actor a) oid t = Inr u"
    and 3: "acq_set_pending_resource (a_id a) rid u = Inr s'"
    by (auto simp: start_tx_def result_simps)
  have "acquisitions u = acquisitions t" using journal_power_frame(2) [OF 2] by simp
  with 1 3 show ?thesis by (auto simp: acq_transition_Inr acq_set_pending_resource_Inr tget_tupd)
qed

lemma scale_tx_acq:
  assumes "scale_tx env a p s = Inr s'"
  shows "\<exists>b. tget a_id (a_id a) (acquisitions s') = Some b \<and> a_state b = AcqProvisioning
    \<and> a_pending_resource b = Some (r_id (pr_resource p))"
proof -
  from assms obtain t u where 1: "acq_transition (a_id a) AcqPending AcqProvisioning (se_now env) s = Inr t"
    and 2: "journal p (a_actor a) [] t = Inr u"
    and 3: "acq_set_pending_resource (a_id a) (r_id (pr_resource p)) u = Inr s'"
    by (auto simp: scale_tx_def result_simps)
  have "acquisitions u = acquisitions t" using journal_frame [OF 2] by simp
  with 1 3 show ?thesis by (auto simp: acq_transition_Inr acq_set_pending_resource_Inr tget_tupd)
qed

lemma observe_bound_leases [simp]: "leases (observe_bound a rid s) = leases s"
  by (simp add: observe_bound_def set_mem_def)

lemma mark_queued_acqs [simp]: "acquisitions (mark_queued env a s) = acquisitions s"
  by (simp add: mark_queued_def set_mem_def Let_def event_append_def)

lemma mark_queued_mem [simp]: "a_id a \<in> set (m_queued (mem (mark_queued env a s)))"
  by (simp add: mark_queued_def set_mem_def Let_def event_append_def)

definition bound_in :: "acquisition \<Rightarrow> db \<Rightarrow> bool" where
  "bound_in a s \<longleftrightarrow> a_state a = AcqBound
     \<and> (\<exists>l \<in> set (leases s). l_state l = LeaseActive \<and> l_acquisition l = a_id a \<and> a_lease a = Some (l_id l))"

lemma reserve_bound_in:
  assumes "reserve env a rid want ex lid s = Inr s'"
  shows "\<exists>b. tget a_id (a_id a) (acquisitions s') = Some b \<and> bound_in b s'"
proof -
  from assms obtain b where b: "tget a_id (a_id a) (acquisitions s') = Some (b\<lparr>a_state := AcqBound,
      a_lease := Some lid, a_pending_resource := None, a_updated_at := se_now env\<rparr>)"
    and ls: "leases s' = leases s @ [new_lease env a rid want ex lid]"
    by (rule reserve_tables) blast
  have "a_id b = a_id a" using tget_SomeD [OF b] by simp
  then show ?thesis using b ls by (auto simp: bound_in_def)
qed

lemma scale_on_demand_acq:
  assumes "scale_on_demand env a s = (Inr b, s')"
  shows "tget a_id (a_id a) (acquisitions s') = Some b \<and> a_state b = AcqProvisioning \<and> a_pending_resource b \<noteq> None"
proof -
  from assms obtain cls p where "scale_tx env a p s = Inr s'" "acq_get (a_id a) s' = Inr b"
    by (auto simp: scale_on_demand_def bindE_Inr_iff split: if_splits option.splits sum.splits)
  then show ?thesis using scale_tx_acq [of env a p s s'] by (auto simp: acq_get_Inr)
qed

text \<open>
  C21. An answer of the ladder is one of four: for an acquisition that is no longer pending, the row
  itself; otherwise the acquisition is bound to an active lease of its own, or it is provisioning
  with its machine pre-bound, or it is still pending, recorded as queued and inside its wait budget.
\<close>

theorem satisfy_outcome:
  assumes "satisfy env aid s = (Inr b, s')" and row: "tget a_id aid (acquisitions s) = Some a"
  shows "tget a_id aid (acquisitions s') = Some b \<and>
    (if a_state a \<noteq> AcqPending then b = a \<and> s' = s
     else bound_in b s' \<or> a_state b = AcqProvisioning \<and> a_pending_resource b \<noteq> None
       \<or> b = a \<and> aid \<in> set (m_queued (mem s'))
         \<and> (\<exists>req want ex. parse_request (a_constraints a) = Inr (req, want, ex)
              \<and> se_now env < a_created_at a + rq_max_wait_ms req))"
proof (cases "a_state a = AcqPending")
  case False
  with assms show ?thesis by (simp add: satisfy_def acq_get_def)
next
  case True
  have aid: "a_id a = aid" using tget_SomeD [OF row] by simp
  from assms True obtain req want ex where req: "parse_request (a_constraints a) = Inr (req, want, ex)"
    by (auto simp: satisfy_def acq_get_def split: sum.splits)
  obtain r1 s1 where t1: "try_reserve env a want ex 0 (take 3 (ranked_candidates env a want ex s)) s = (r1, s1)"
    by fastforce
  obtain r2 s2 where t2: "start_parked env a want s1 = (r2, s2)" by fastforce
  note unf = satisfy_def acq_get_def row True req t1 t2 Let_def
  show ?thesis
  proof (cases "r1 = Inr True")
    case bound: True
    from try_reserve_cases [OF t1] bound obtain c :: candidate and lid t where
      "reserve env a (cd_id c) want ex lid s = Inr t" "s1 = observe_bound a (cd_id c) t" by blast
    then obtain b' where "tget a_id aid (acquisitions s1) = Some b'" "bound_in b' s1"
      using reserve_bound_in [of env a "cd_id c" want ex lid s t] aid by (auto simp: bound_in_def)
    with assms(1) bound True show ?thesis by (simp add: unf)
  next
    case nb: False
    then have s1: "s1 = s" and r1: "r1 = Inr False"
      using try_reserve_cases [OF t1] assms(1) by (auto simp: unf split: sum.splits bool.splits)
    show ?thesis
    proof (cases "r2 = Inr True")
      case started: True
      from t2 started have "\<exists>rid oid. start_tx env a rid oid s = Inr s2"
        unfolding start_parked_def s1 using try_start_cases by blast
      then obtain b' where "tget a_id aid (acquisitions s2) = Some b'" "a_state b' = AcqProvisioning"
        "a_pending_resource b' \<noteq> None"
        using start_tx_acq aid by fastforce
      with assms(1) r1 started True show ?thesis by (simp add: unf)
    next
      case ns: False
      then have s2: "s2 = s" and r2: "r2 = Inr False"
        using try_start_cases [of env a 3 "take 3 (start_candidates env a want s1)" s1 r2 s2] t2 s1 r1 assms(1)
        by (auto simp: unf start_parked_def split: sum.splits bool.splits)
      define Q where "Q \<longleftrightarrow> rq_max_wait_ms req > 0 \<and> se_now env < a_created_at a + rq_max_wait_ms req
        \<and> (case estimate_wait env a want s of None \<Rightarrow> False
             | Some est \<Rightarrow> se_now env + milliseconds est \<le> a_created_at a + rq_max_wait_ms req)"
      have m: "(if Q then (Inr a, mark_queued env a s) else scale_on_demand env a s) = (Inr b, s')"
        using assms(1)
        by (simp add: satisfy_def acq_get_def row True req t1 [unfolded s1 r1] t2 [unfolded s1 s2 r2] Let_def Q_def)
      show ?thesis
      proof (cases Q)
        case q: True
        then have "b = a" "s' = mark_queued env a s" using m by auto
        then show ?thesis using True row req aid mark_queued_mem [of a env s] q by (auto simp: Q_def)
      next
        case False
        then have "scale_on_demand env a s = (Inr b, s')" using m by simp
        from scale_on_demand_acq [OF this] show ?thesis using True aid by auto
      qed
    qed
  qed
qed

section \<open>Ranking and start backoff\<close>

lemma map_filter_mem: "y \<in> set (List.map_filter f xs) \<longleftrightarrow> (\<exists>x \<in> set xs. f x = Some y)"
  by (induction xs) (auto simp: List.map_filter_simps split: option.splits)

text \<open>
  The first candidate the scheduler tries is the best of all live managed machines of the kind
  and class that can hold the request: no other has a better billing tier, then less slack inside
  the paid window, then less room left over, then a smaller identifier. It does hold the request.
\<close>

theorem first_candidate_is_best:
  assumes "ranked_candidates env a want ex s = c # cs"
    and "r \<in> set (resources s)" and "live r" and "r_phase r = Ready \<or> r_phase r = Allocated"
    and "r_ownership r = Managed" and "r_kind r = a_kind a" and "a_class a = [] \<or> r_class r = a_class a"
    and "candidate_of env a want ex s r = Some d"
  shows "candidate_key c \<le> candidate_key d
    \<and> (\<exists>best tot. best \<in> set (resources s) \<and> r_id best = cd_id c \<and> parse_vec (r_capacity best) = Inr tot
         \<and> fits tot (used_of (active_by_resource (cd_id c) s)) want)"
proof
  let ?cands = "List.map_filter (candidate_of env a want ex s) (resource_list (reuse_filter a [Ready, Allocated]) s)"
  have "r \<in> set (resource_list (reuse_filter a [Ready, Allocated]) s)"
    using assms(2-7) by (auto simp: resource_list_def resource_matches_def reuse_filter_def no_filter_def)
  then have "d \<in> set ?cands" using assms(8) by (auto simp: map_filter_mem)
  have s: "sort_key candidate_key ?cands = c # cs" using assms(1) by (simp add: ranked_candidates_def)
  from s \<open>d \<in> set ?cands\<close> show "candidate_key c \<le> candidate_key d" by (rule sort_key_hd_min)
  have "c \<in> set ?cands" using s by (metis list.set_intros(1) set_sort)
  then obtain best where b: "best \<in> set (resources s)" "candidate_of env a want ex s best = Some c"
    by (auto simp: map_filter_mem resource_list_def)
  then show "\<exists>best tot. best \<in> set (resources s) \<and> r_id best = cd_id c \<and> parse_vec (r_capacity best) = Inr tot
         \<and> fits tot (used_of (active_by_resource (cd_id c) s)) want"
    by (auto simp: candidate_of_def Let_def split: sum.splits if_splits)
qed

text \<open>
  The backoff of a machine whose start failed lies between 30 seconds and 10 minutes and never
  shrinks with more failures.
\<close>

theorem start_delay_bounds:
  assumes "1 \<le> m" and "m \<le> n"
  shows "30 * sec \<le> start_delay m \<and> start_delay m \<le> start_delay n \<and> start_delay n \<le> 10 * 60 * sec"
proof -
  define f :: "int \<Rightarrow> int" where "f k = 2 ^ nat (min (k - 1) 5)" for k
  have one: "1 \<le> f k" for k by (simp add: f_def)
  have mono: "f m \<le> f n" using assms unfolding f_def by (intro power_increasing) auto
  have d: "start_delay k = (if 30 * f k > 600 then 600 * sec else 30 * f k * sec)" for k
    by (simp add: start_delay_def f_def sec_def Let_def)
  have "30 * f m * sec \<le> 30 * f n * sec" using mono by (simp add: sec_def)
  then show ?thesis using one [of m] one [of n] mono by (auto simp: d sec_def)
qed

theorem start_delay_bounds_witness: "30 * sec \<le> start_delay 1 \<and> start_delay 1 \<le> start_delay 9"
  using start_delay_bounds [of 1 9] by simp

end
