(* ===== verification/Reconciler.thy ===== *)
theory Reconciler
  imports Kernel_Laws Billing "HOL-Library.Product_Lexorder"
begin

text \<open>
  The pool reconciler and the idle reclaim of poolless machines
  (internal/reconcile/reconcile.go). A cycle reads one snapshot of the pool's resources, then makes
  bounded mutations, each in a transaction of its own that re-checks its gates. Identifiers come
  from a supply indexed by the resource or pool a mutation is for.
\<close>

record rec_config =
  rc_interval :: int
  rc_max_mutations :: int
  rc_backoff_base :: int
  rc_backoff_cap :: int

definition rec_defaults :: "rec_config \<Rightarrow> rec_config" where
  "rec_defaults c =
     \<lparr>rc_interval = (if rc_interval c \<le> 0 then 15 * sec else rc_interval c),
      rc_max_mutations = (if rc_max_mutations c \<le> 0 then 5 else rc_max_mutations c),
      rc_backoff_base = (if rc_backoff_base c \<le> 0 then 5 * sec else rc_backoff_base c),
      rc_backoff_cap = (if rc_backoff_cap c \<le> 0 then 10 * 60 * sec else rc_backoff_cap c)\<rparr>"

record rec_env =
  re_providers :: providers
  re_classes :: class_resolver
  re_now :: int
  re_owner :: string
  re_cfg :: rec_config
  re_fresh :: "string \<Rightarrow> nat \<Rightarrow> string"

definition park_enabled :: "reclaim_policy option \<Rightarrow> bool" where
  "park_enabled p = (case p of None \<Rightarrow> False | Some r \<Rightarrow> rp_park r \<noteq> ''never'')"

section \<open>Failure backoff\<close>

definition pool_key :: "string \<Rightarrow> string" where
  "pool_key pid = ''pool:'' @ pid"

definition failure_backoff_until :: "string \<Rightarrow> db \<Rightarrow> int" where
  "failure_backoff_until pid s =
     (case checkpoint_get (pool_key pid) s of Inl _ \<Rightarrow> 0 | Inr cp \<Rightarrow> cp_backoff_until cp)"

definition failure_delay :: "rec_config \<Rightarrow> int \<Rightarrow> int" where
  "failure_delay c attempt =
     (let delay = i64 (rc_backoff_base c * 2 ^ nat (min attempt 12))
      in if delay > rc_backoff_cap c \<or> delay \<le> 0 then rc_backoff_cap c else delay)"

definition bump_failure_backoff :: "rec_env \<Rightarrow> string \<Rightarrow> db \<Rightarrow> db" where
  "bump_failure_backoff env pid s =
     (let attempt = (case checkpoint_get (pool_key pid) s of
          Inl _ \<Rightarrow> 0 | Inr cp \<Rightarrow> cp_failure_attempt cp) + 1
      in tx_or_keep s (checkpoint_put (pool_key pid)
           \<lparr>cp_failure_attempt = attempt,
            cp_backoff_until = re_now env + milliseconds (failure_delay (re_cfg env) attempt)\<rparr> s))"

definition reset_failure_backoff :: "string \<Rightarrow> db \<Rightarrow> db" where
  "reset_failure_backoff pid s =
     tx_or_keep s (checkpoint_put (pool_key pid) \<lparr>cp_failure_attempt = 0, cp_backoff_until = 0\<rparr> s)"

definition rec_op_terminal :: "rec_env \<Rightarrow> operation \<Rightarrow> db \<Rightarrow> db" where
  "rec_op_terminal env x s =
     (case op_pool x of
        None \<Rightarrow> s
      | Some pid \<Rightarrow>
          (if op_kind x = OpKindCreate \<and> op_state x = OpFailed then bump_failure_backoff env pid s
           else if op_kind x = OpKindCreate \<and> op_state x = OpSucceeded then reset_failure_backoff pid s
           else s))"

section \<open>Journaling a delete\<close>

text \<open>
  \<open>journalDeleteInTx\<close>: the ownership, protection and lease gates, then the tombstone of a machine
  that never materialised or the compare-and-set to \<open>deleting\<close> with its journaled operation.
\<close>

definition journal_delete_in_tx :: "resource \<Rightarrow> int \<Rightarrow> string \<Rightarrow> string \<Rightarrow> db \<Rightarrow> err + db" where
  "journal_delete_in_tx cur now actor oid s =
     (if r_ownership cur \<noteq> Managed \<or> r_delete_protected cur then Inl EConflict
      else if count_active (r_id cur) s > 0 then Inl EConflict
      else (case r_external_id cur of
         None \<Rightarrow> mark_deleted (r_id cur) now s
       | Some ext \<Rightarrow>
           bindE (cas_phase (r_id cur) (r_phase cur) Deleting now s) (\<lambda>s.
           bindE (op_append (new_op oid OpKindDelete (r_id cur) (r_pool cur) (r_provider cur)
               \<lparr>ac_action_id = oid, ac_kind = ''delete'', ac_resource_id = r_id cur,
                ac_ref = Some (stored_ref cur ext), ac_params = BNil, ac_destructive = True\<rparr> now) s) (\<lambda>s.
           event_append \<lparr>ev_ts = now, ev_actor = actor, ev_idem_key = [], ev_type = ''resource.delete'',
             ev_resource = Some (r_id cur), ev_pool = r_pool cur, ev_operation = Some oid,
             ev_provider = r_provider cur, ev_outcome = ''journaled''\<rparr> s))))"

definition journal_delete :: "string \<Rightarrow> int \<Rightarrow> string \<Rightarrow> db \<Rightarrow> err + db" where
  "journal_delete rid now oid s =
     bindE (resource_get rid s) (\<lambda>cur.
     if r_deleted_at cur \<noteq> None \<or> (r_phase cur \<noteq> Draining \<and> r_phase cur \<noteq> Failed) then Inl EConflict
     else journal_delete_in_tx cur now ''reconciler'' oid s)"

section \<open>Queued acquisitions\<close>

definition satisfiable :: "acquisition \<Rightarrow> vector \<Rightarrow> resource \<Rightarrow> vector \<Rightarrow> bool" where
  "satisfiable a want res tot \<longleftrightarrow>
     a_kind a = r_kind res \<and> (a_class a = [] \<or> a_class a = r_class res) \<and> fits tot [] want"

text \<open>The capacity an acquisition waits for, unless its payload is bad or its deadline passed.\<close>

definition queued_want :: "int \<Rightarrow> acquisition \<Rightarrow> vector option" where
  "queued_want now a =
     (case parse_request (a_constraints a) of
        Inl _ \<Rightarrow> None
      | Inr (req, want, _) \<Rightarrow>
          (if rq_max_wait_ms req > 0 \<and> now > a_created_at a + rq_max_wait_ms req then None
           else Some want))"

type_synonym queued_acq = "acquisition \<times> vector \<times> bool"

definition queued_acquisitions :: "int \<Rightarrow> db \<Rightarrow> queued_acq list" where
  "queued_acquisitions now s =
     List.map_filter (\<lambda>a. case queued_want now a of None \<Rightarrow> None | Some w \<Rightarrow> Some (a, w, False))
       (acq_list_by_state [AcqPending] s)"

fun claim_first :: "resource \<Rightarrow> vector \<Rightarrow> queued_acq list \<Rightarrow> bool \<times> queued_acq list" where
  "claim_first res tot [] = (False, [])"
| "claim_first res tot ((a, w, m) # qs) =
     (if m \<or> \<not> satisfiable a w res tot
      then (let (b, qs') = claim_first res tot qs in (b, (a, w, m) # qs'))
      else (True, (a, w, True) # qs))"

definition claim_queued :: "queued_acq list \<Rightarrow> resource \<Rightarrow> bool \<times> queued_acq list" where
  "claim_queued qs res =
     (case parse_vec (r_capacity res) of
        Inl _ \<Rightarrow> (False, qs) | Inr tot \<Rightarrow> claim_first res tot qs)"

section \<open>The single-transaction reclaim\<close>

definition waiting_for :: "int \<Rightarrow> resource \<Rightarrow> vector \<Rightarrow> db \<Rightarrow> nat" where
  "waiting_for now cur tot s =
     length (filter (\<lambda>a. case queued_want now a of None \<Rightarrow> False | Some w \<Rightarrow> satisfiable a w cur tot)
       (acq_list_by_state [AcqPending] s))"

definition others_ready :: "resource \<Rightarrow> db \<Rightarrow> nat" where
  "others_ready cur s =
     length (filter (\<lambda>obs. r_id obs \<noteq> r_id cur \<and> r_deleted_at obs = None)
       (resource_list (no_filter\<lparr>f_kind := r_kind cur, f_class := r_class cur, f_phases := [Ready],
          f_ownership := [Managed]\<rparr>) s))"

definition cost_reclaim :: "string \<Rightarrow> int \<Rightarrow> phase \<Rightarrow> string \<Rightarrow> db \<Rightarrow> err + db" where
  "cost_reclaim rid now from oid s =
     bindE (resource_get rid s) (\<lambda>cur.
     if r_deleted_at cur \<noteq> None \<or> r_phase cur \<noteq> from then Inl EConflict
     else (let tot = (case parse_vec (r_capacity cur) of Inl _ \<Rightarrow> [] | Inr t \<Rightarrow> t);
               satis = waiting_for now cur tot s
           in if satis > 0 \<and> satis > others_ready cur s then Inl EConflict
              else journal_delete_in_tx cur now ''cost-reclaim'' oid s))"

section \<open>Idle time\<close>

definition idle_since :: "resource \<Rightarrow> int" where
  "idle_since r =
     (let t = (case r_ready_at r of None \<Rightarrow> r_created_at r | Some x \<Rightarrow> x)
      in case r_last_lease_ended_at r of None \<Rightarrow> t | Some l \<Rightarrow> (if l > t then l else t))"

definition reclaimable :: "resource list \<Rightarrow> reclaim_policy option \<Rightarrow> int \<Rightarrow> resource list" where
  "reclaimable ready policy now =
     (let idle_after = (case policy of None \<Rightarrow> 0 | Some p \<Rightarrow> milliseconds (rp_idle_after p))
      in sort_key idle_since
           (filter (\<lambda>r. \<not> r_delete_protected r \<and> now - idle_since r \<ge> idle_after) ready))"

section \<open>Reclaim of poolless machines\<close>

definition max_dur :: "int \<Rightarrow> int \<Rightarrow> int" where
  "max_dur a b = (if a > b then a else b)"

text \<open>
  \<open>effectiveBuffer\<close> with its one-minute cache in the process memory.
\<close>

definition cached_buffer :: "rec_env \<Rightarrow> string \<Rightarrow> db \<Rightarrow> int option" where
  "cached_buffer env prov s =
     (case map_of (m_adaptive (mem s)) prov of
        None \<Rightarrow> None
      | Some (buf, at) \<Rightarrow> (if re_now env - at < 60000 then Some buf else None))"

definition observed_deletes :: "string \<Rightarrow> db \<Rightarrow> int list" where
  "observed_deletes prov s =
     (case recent_terminal prov OpKindDelete 50 s of
        Inl _ \<Rightarrow> []
      | Inr xs \<Rightarrow> map (\<lambda>x. (op_updated_at x - op_created_at x) * ms) (filter (\<lambda>x. op_attempt x \<le> 1) xs))"

definition rec_buffer ::
    "rec_env \<Rightarrow> string \<Rightarrow> string \<Rightarrow> billing_policy \<Rightarrow> db \<Rightarrow> int \<times> db" where
  "rec_buffer env prov kind pol s =
     (let base = effective_buffer pol (rc_interval (re_cfg env)) in
      if \<not> snd (pv_billing (re_providers env) prov kind) then (base, s)
      else (case cached_buffer env prov s of
          Some buf \<Rightarrow> (max_dur base buf, s)
        | None \<Rightarrow>
            (let buf = adaptive_buffer (observed_deletes prov s) base (60 * sec)
                   (go_div (bp_increment pol) 2)
             in (max_dur base buf,
                 s\<lparr>mem := (mem s)\<lparr>m_adaptive :=
                      AList.update prov (buf, re_now env) (m_adaptive (mem s))\<rparr>\<rparr>))))"

text \<open>The state of one pass over the poolless machines.\<close>

record reclaim_state =
  rs_db :: db
  rs_queued :: "queued_acq list"
  rs_budget :: int
  rs_cost :: int
  rs_n :: nat

definition reclaim_done :: "string \<Rightarrow> db \<Rightarrow> reclaim_state \<Rightarrow> reclaim_state" where
  "reclaim_done rid s c =
     c\<lparr>rs_db := s\<lparr>mem := (mem s)\<lparr>m_missed := AList.delete rid (m_missed (mem s))\<rparr>\<rparr>,
       rs_n := rs_n c + 1, rs_cost := rs_cost c - 1\<rparr>"

text \<open>
  The billing window: \<open>True\<close> when the machine is to be kept for now. A crossed window is noted once
  per boundary in \<open>missedBoundary\<close>.
\<close>

definition window_keeps :: "rec_env \<Rightarrow> resource \<Rightarrow> db \<Rightarrow> bool \<times> db" where
  "window_keeps env res s =
     (let pol = fst (pv_billing (re_providers env) (r_provider res) (r_kind res)) in
      if fine_grained pol then (False, s)
      else (case rec_buffer env (r_provider res) (r_kind res) pol s of
        (buffer, s) \<Rightarrow>
          (case termination_window (r_created_at res) pol (re_now env) buffer 0 of
             None \<Rightarrow> (False, s)
           | Some w \<Rightarrow>
               (case decide w (re_now env) of
                  Keep \<Rightarrow> (True, s)
                | Crossed \<Rightarrow>
                    (True, s\<lparr>mem := (mem s)\<lparr>m_missed :=
                       AList.update (r_id res) (w_boundary w) (m_missed (mem s))\<rparr>\<rparr>)
                | Terminate \<Rightarrow> (False, s)))))"

definition reclaim_parked :: "rec_env \<Rightarrow> reclaim_policy \<Rightarrow> resource \<Rightarrow> reclaim_state \<Rightarrow> reclaim_state" where
  "reclaim_parked env pol res c =
     (case r_parked_at res of
        None \<Rightarrow> c
      | Some at \<Rightarrow>
          (if rp_delete_after pol \<le> 0 \<or> re_now env - at < milliseconds (rp_delete_after pol) then c
           else (case claim_queued (rs_queued c) res of
              (True, qs) \<Rightarrow> c\<lparr>rs_queued := qs\<rparr>
            | (False, qs) \<Rightarrow>
                (case cost_reclaim (r_id res) (re_now env) Parked (re_fresh env (r_id res) 0) (rs_db c) of
                   Inl _ \<Rightarrow> c
                 | Inr s \<Rightarrow> c\<lparr>rs_db := s, rs_n := rs_n c + 1, rs_cost := rs_cost c - 1\<rparr>))))"

definition reclaim_idle :: "rec_env \<Rightarrow> reclaim_policy \<Rightarrow> resource \<Rightarrow> reclaim_state \<Rightarrow> reclaim_state" where
  "reclaim_idle env pol res c =
     (if rp_idle_after pol \<le> 0 then c
      else if re_now env - idle_since res < milliseconds (rp_idle_after pol) then c
      else (case claim_queued (rs_queued c) res of
         (True, qs) \<Rightarrow> c\<lparr>rs_queued := qs\<rparr>
       | (False, qs) \<Rightarrow>
           (case window_keeps env res (rs_db c) of
              (True, s) \<Rightarrow> c\<lparr>rs_db := s\<rparr>
            | (False, s) \<Rightarrow>
                (let c = c\<lparr>rs_db := s\<rparr>;
                     r = (if park_enabled (Some pol)
                            \<and> pk_supported (pv_parking (re_providers env) (r_provider res) (r_kind res))
                          then journal_stop (re_providers env) (r_id res) (re_now env) ''reconciler'' True
                                 (re_fresh env (r_id res) 0) s
                          else cost_reclaim (r_id res) (re_now env) Ready (re_fresh env (r_id res) 0) s)
                 in (case r of Inl _ \<Rightarrow> c | Inr s' \<Rightarrow> reclaim_done (r_id res) s' c)))))"

definition reclaim_one :: "rec_env \<Rightarrow> resource \<Rightarrow> reclaim_state \<Rightarrow> reclaim_state" where
  "reclaim_one env res c =
     (if r_phase res = Draining then
        (if rs_budget c \<le> 0 then c
         else (case journal_delete (r_id res) (re_now env) (re_fresh env (r_id res) 0) (rs_db c) of
            Inl _ \<Rightarrow> c
          | Inr s \<Rightarrow> c\<lparr>rs_db := s, rs_n := rs_n c + 1, rs_budget := rs_budget c - 1\<rparr>))
      else (case re_classes env (r_class res) of
         None \<Rightarrow> c
       | Some cls \<Rightarrow>
           (case ct_reclaim cls of
              None \<Rightarrow> c
            | Some pol \<Rightarrow>
                (if r_delete_protected res \<or> rs_cost c \<le> 0 then c
                 else if r_phase res = Parked then reclaim_parked env pol res c
                 else reclaim_idle env pol res c))))"

definition reclaim_poolless :: "rec_env \<Rightarrow> db \<Rightarrow> nat \<times> db" where
  "reclaim_poolless env s =
     (let c = fold (reclaim_one env)
            (resource_list (no_filter\<lparr>f_poolless := True, f_phases := [Ready, Draining, Parked],
               f_ownership := [Managed]\<rparr>) s)
            \<lparr>rs_db = s, rs_queued = queued_acquisitions (re_now env) s,
             rs_budget = rc_max_mutations (re_cfg env), rs_cost = 50, rs_n = 0\<rparr>
      in (rs_n c, rs_db c))"

section \<open>One pool cycle\<close>

record delta =
  d_counted :: int
  d_ready :: int
  d_provisioning :: int
  d_allocated :: int
  d_draining :: int
  d_failed :: int
  d_parking :: int
  d_parked :: int
  d_starting :: int
  d_created :: int
  d_drained :: int
  d_undrained :: int
  d_deleted :: int
  d_parked_now :: int
  d_started :: int

definition zero_delta :: delta where
  "zero_delta = \<lparr>d_counted = 0, d_ready = 0, d_provisioning = 0, d_allocated = 0, d_draining = 0,
     d_failed = 0, d_parking = 0, d_parked = 0, d_starting = 0, d_created = 0, d_drained = 0,
     d_undrained = 0, d_deleted = 0, d_parked_now = 0, d_started = 0\<rparr>"

definition in_phase :: "phase \<Rightarrow> resource list \<Rightarrow> resource list" where
  "in_phase p rs = filter (\<lambda>r. r_phase r = p) rs"

definition count_phases :: "resource list \<Rightarrow> delta" where
  "count_phases rs =
     (let n = (\<lambda>p. int (length (in_phase p rs))) in
      zero_delta\<lparr>d_ready := n Ready, d_provisioning := n Provisioning, d_allocated := n Allocated,
        d_draining := n Draining, d_failed := n Failed, d_parking := n Parking, d_parked := n Parked,
        d_starting := n Starting,
        d_counted := n Provisioning + n Ready + n Allocated + n Parking + n Parked + n Starting\<rparr>)"

text \<open>What a cycle carries from pass to pass.\<close>

record cycle =
  cy_db :: db
  cy_delta :: delta
  cy_budget :: int
  cy_deficit :: int
  cy_surplus :: int
  cy_hot :: int
  cy_ready_left :: int

fun undrain_pass :: "rec_env \<Rightarrow> resource list \<Rightarrow> cycle \<Rightarrow> cycle" where
  "undrain_pass env [] c = c"
| "undrain_pass env (res # rs) c =
     (if cy_deficit c \<le> 0 \<or> cy_budget c \<le> 0 then c
      else (case cas_phase (r_id res) Draining Ready (re_now env) (cy_db c) of
         Inl _ \<Rightarrow> undrain_pass env rs c
       | Inr s \<Rightarrow> undrain_pass env rs (c\<lparr>cy_db := s, cy_deficit := cy_deficit c - 1,
            cy_budget := cy_budget c - 1,
            cy_delta := (cy_delta c)\<lparr>d_undrained := d_undrained (cy_delta c) + 1,
              d_counted := d_counted (cy_delta c) + 1\<rparr>\<rparr>)))"

fun warm_pass :: "rec_env \<Rightarrow> int \<Rightarrow> resource list \<Rightarrow> cycle \<Rightarrow> cycle" where
  "warm_pass env min_running [] c = c"
| "warm_pass env min_running (res # rs) c =
     (if cy_hot c \<ge> min_running \<or> cy_budget c \<le> 0 then c
      else (case journal_start (re_providers env) (r_id res) (re_now env) ''reconciler''
                 (re_fresh env (r_id res) 0) (cy_db c) of
         Inl _ \<Rightarrow> warm_pass env min_running rs c
       | Inr s \<Rightarrow> warm_pass env min_running rs (c\<lparr>cy_db := s, cy_hot := cy_hot c + 1,
            cy_budget := cy_budget c - 1,
            cy_delta := (cy_delta c)\<lparr>d_started := d_started (cy_delta c) + 1\<rparr>\<rparr>)))"

definition template ::
    "rec_env \<Rightarrow> pool_spec \<Rightarrow> err + string \<times> string \<times> json blob \<times> reclaim_policy option" where
  "template env spec =
     (if ps_class spec \<noteq> [] then
        (case re_classes env (ps_class spec) of
           None \<Rightarrow> Inl (EOther ''unknown class'')
         | Some cls \<Rightarrow> Inr (ct_kind cls, ct_provider cls, ct_spec cls,
             (case ps_reclaim spec of None \<Rightarrow> ct_reclaim cls | Some p \<Rightarrow> Some p)))
      else (case ps_machine spec of
          None \<Rightarrow> Inl (EOther ''pool spec needs either class or kind+provider+machine'')
        | Some m \<Rightarrow>
            (if ps_provider spec = [] \<or> ps_kind spec = []
             then Inl (EOther ''pool spec needs either class or kind+provider+machine'')
             else Inr (ps_kind spec, ps_provider spec, m, ps_reclaim spec))))"

definition class_name_of :: "pool \<Rightarrow> string" where
  "class_name_of p = (case p_spec p of BVal spec \<Rightarrow> ps_class spec | _ \<Rightarrow> [])"

definition create_one ::
    "rec_env \<Rightarrow> pool \<Rightarrow> string \<Rightarrow> string \<Rightarrow> json blob \<Rightarrow> string \<Rightarrow> string \<Rightarrow> db \<Rightarrow> err + db" where
  "create_one env p kind prov machine rid oid s =
     bindE (prepare (re_providers env) (re_owner env)
        \<lparr>cs_kind = kind, cs_provider = prov, cs_name = [], cs_spec = machine,
         cs_labels = [(''fleetplane.io/pool'', p_name p)], cs_class = class_name_of p,
         cs_pool = Some (p_id p)\<rparr> (re_now env) rid oid)
       (\<lambda>pr. journal pr ''reconciler'' [] s)"

fun create_pass ::
    "rec_env \<Rightarrow> pool \<Rightarrow> string \<Rightarrow> string \<Rightarrow> json blob \<Rightarrow> nat \<Rightarrow> cycle \<Rightarrow> cycle" where
  "create_pass env p kind prov machine 0 c = c"
| "create_pass env p kind prov machine (Suc n) c =
     (case create_one env p kind prov machine (re_fresh env (p_id p) (2 * n))
             (re_fresh env (p_id p) (2 * n + 1)) (cy_db c) of
        Inl _ \<Rightarrow> c
      | Inr s \<Rightarrow> create_pass env p kind prov machine n (c\<lparr>cy_db := s, cy_budget := cy_budget c - 1,
           cy_delta := (cy_delta c)\<lparr>d_created := d_created (cy_delta c) + 1\<rparr>\<rparr>))"

definition scale_up ::
    "rec_env \<Rightarrow> pool \<Rightarrow> pool_spec \<Rightarrow> nat \<Rightarrow> string \<Rightarrow> string \<Rightarrow> json blob \<Rightarrow> cycle \<Rightarrow> cycle" where
  "scale_up env p spec live_total kind prov machine c =
     (if cy_deficit c > 0 \<and> cy_budget c > 0 \<and> \<not> re_now env < failure_backoff_until (p_id p) (cy_db c) then
        (let n = (if ps_max_resources spec > 0 \<and> int live_total + cy_deficit c > ps_max_resources spec
                  then ps_max_resources spec - int live_total else cy_deficit c)
         in create_pass env p kind prov machine (nat (min n (cy_budget c))) c)
      else c)"

fun parked_pass :: "rec_env \<Rightarrow> resource list \<Rightarrow> cycle \<Rightarrow> cycle" where
  "parked_pass env [] c = c"
| "parked_pass env (res # rs) c =
     (if cy_surplus c \<le> 0 \<or> cy_budget c \<le> 0 then c
      else (case cost_reclaim (r_id res) (re_now env) Parked (re_fresh env (r_id res) 1) (cy_db c) of
         Inl _ \<Rightarrow> parked_pass env rs c
       | Inr s \<Rightarrow> parked_pass env rs (c\<lparr>cy_db := s, cy_surplus := cy_surplus c - 1,
            cy_budget := cy_budget c - 1,
            cy_delta := (cy_delta c)\<lparr>d_deleted := d_deleted (cy_delta c) + 1\<rparr>\<rparr>)))"

fun drain_pass :: "rec_env \<Rightarrow> int \<Rightarrow> resource list \<Rightarrow> cycle \<Rightarrow> cycle" where
  "drain_pass env min_ready [] c = c"
| "drain_pass env min_ready (res # rs) c =
     (if cy_surplus c \<le> 0 \<or> cy_budget c \<le> 0 then c
      else if d_ready (cy_delta c) - d_drained (cy_delta c) - 1 < min_ready then c
      else if count_active (r_id res) (cy_db c) > 0 then drain_pass env min_ready rs c
      else (case cas_phase (r_id res) Ready Draining (re_now env) (cy_db c) of
         Inl _ \<Rightarrow> drain_pass env min_ready rs c
       | Inr s \<Rightarrow> drain_pass env min_ready rs (c\<lparr>cy_db := s, cy_surplus := cy_surplus c - 1,
            cy_budget := cy_budget c - 1,
            cy_delta := (cy_delta c)\<lparr>d_drained := d_drained (cy_delta c) + 1\<rparr>\<rparr>)))"

fun delete_pass :: "rec_env \<Rightarrow> resource list \<Rightarrow> cycle \<Rightarrow> cycle" where
  "delete_pass env [] c = c"
| "delete_pass env (res # rs) c =
     (if cy_budget c \<le> 0 then c
      else (case journal_delete (r_id res) (re_now env) (re_fresh env (r_id res) 2) (cy_db c) of
         Inl _ \<Rightarrow> delete_pass env rs c
       | Inr s \<Rightarrow> delete_pass env rs (c\<lparr>cy_db := s, cy_budget := cy_budget c - 1,
            cy_delta := (cy_delta c)\<lparr>d_deleted := d_deleted (cy_delta c) + 1\<rparr>\<rparr>)))"

fun park_pass :: "rec_env \<Rightarrow> pool_spec \<Rightarrow> resource list \<Rightarrow> cycle \<Rightarrow> cycle" where
  "park_pass env spec [] c = c"
| "park_pass env spec (res # rs) c =
     (if cy_budget c \<le> 0 \<or> cy_ready_left c - 1 < ps_min_ready spec \<or> cy_hot c - 1 < ps_min_running spec
      then c
      else if \<not> pk_supported (pv_parking (re_providers env) (r_provider res) (r_kind res)) then c
      else (case journal_stop (re_providers env) (r_id res) (re_now env) ''reconciler'' True
                 (re_fresh env (r_id res) 3) (cy_db c) of
         Inl _ \<Rightarrow> park_pass env spec rs c
       | Inr s \<Rightarrow> park_pass env spec rs (c\<lparr>cy_db := s, cy_ready_left := cy_ready_left c - 1,
            cy_hot := cy_hot c - 1, cy_budget := cy_budget c - 1,
            cy_delta := (cy_delta c)\<lparr>d_parked_now := d_parked_now (cy_delta c) + 1\<rparr>\<rparr>)))"

definition oldest_parked :: "resource list \<Rightarrow> resource list" where
  "oldest_parked rs =
     sort_key (\<lambda>r. (case r_parked_at r of None \<Rightarrow> 0 | Some t \<Rightarrow> t, r_id r)) (in_phase Parked rs)"

definition run_passes ::
    "rec_env \<Rightarrow> pool \<Rightarrow> pool_spec \<Rightarrow> string \<Rightarrow> string \<Rightarrow> json blob \<Rightarrow> reclaim_policy option
      \<Rightarrow> resource list \<Rightarrow> cycle \<Rightarrow> cycle" where
  "run_passes env p spec kind prov machine reclaim rs c =
     (let c = undrain_pass env (in_phase Draining rs) c;
          c = (if ps_min_running spec > 0 \<and> cy_hot c < ps_min_running spec \<and> cy_budget c > 0
               then warm_pass env (ps_min_running spec) (in_phase Parked rs) c else c);
          c = scale_up env p spec (length rs) kind prov machine c;
          c = c\<lparr>cy_surplus := d_counted (cy_delta c) - ps_replicas spec\<rparr>;
          c = parked_pass env (oldest_parked rs) c;
          c = drain_pass env (ps_min_ready spec) (reclaimable (in_phase Ready rs) reclaim (re_now env)) c;
          c = delete_pass env (in_phase Draining rs) c;
          c = delete_pass env (in_phase Failed rs) c
      in if ps_min_running spec > 0 \<and> park_enabled reclaim
           \<and> (case reclaim of None \<Rightarrow> False | Some pol \<Rightarrow> rp_idle_after pol > 0) \<and> cy_budget c > 0
         then park_pass env spec (reclaimable (in_phase Ready rs) reclaim (re_now env))
                (c\<lparr>cy_ready_left := d_ready (cy_delta c) - d_drained (cy_delta c)\<rparr>)
         else c)"

definition start_cycle :: "rec_env \<Rightarrow> pool_spec \<Rightarrow> resource list \<Rightarrow> db \<Rightarrow> cycle" where
  "start_cycle env spec rs s =
     (let d = count_phases rs in
      \<lparr>cy_db = s, cy_delta = d, cy_budget = rc_max_mutations (re_cfg env),
       cy_deficit = ps_replicas spec - d_counted d, cy_surplus = 0,
       cy_hot = d_provisioning d + d_starting d + d_ready d + d_allocated d, cy_ready_left = 0\<rparr>)"

definition run_once :: "rec_env \<Rightarrow> string \<Rightarrow> db \<Rightarrow> (err + delta) \<times> db" where
  "run_once env pid s =
     (case pool_get pid s of
        Inl e \<Rightarrow> (Inl e, s)
      | Inr p \<Rightarrow>
          (if p_paused p then (Inr zero_delta, s)
           else (case p_spec p of
              BVal spec \<Rightarrow>
                (case template env spec of
                   Inl e \<Rightarrow> (Inl e, s)
                 | Inr (kind, prov, machine, reclaim) \<Rightarrow>
                     (let rs = resource_list (no_filter\<lparr>f_pool := Some pid\<rparr>) s;
                          c = run_passes env p spec kind prov machine reclaim rs
                                (start_cycle env spec rs s)
                      in (Inr (cy_delta c), cy_db c)))
            | _ \<Rightarrow> (Inl (EOther ''pool spec''), s))))"

text \<open>One pass of the loop of \<open>Run\<close>: the pools marked dirty (\<open>None\<close>: all), then the poolless.\<close>

definition reconcile_pass :: "rec_env \<Rightarrow> string list option \<Rightarrow> db \<Rightarrow> db" where
  "reconcile_pass env todo s =
     (let s = fold (\<lambda>p s. snd (run_once env (p_id p) s))
            (filter (\<lambda>p. case todo of None \<Rightarrow> True | Some ds \<Rightarrow> p_id p \<in> set ds) (pool_list s)) s
      in snd (reclaim_poolless env s))"

section \<open>The reconciler's transactions keep the kernel invariant\<close>

lemma kadv_event_append [intro]: "kinv s \<Longrightarrow> kadv s (s\<lparr>events := es\<rparr>)"
  by (rule kadv_frame) simp_all

lemma busy_delete: "can_transition p Deleting \<Longrightarrow> p \<noteq> Deleting"
  by (auto simp: can_transition_iff)

text \<open>The compare-and-set to \<open>deleting\<close> together with the journaled delete operation.\<close>

lemma kadv_delete_journaled:
  assumes "kinv s" and cur: "tget r_id rid (resources s) = Some cur"
    and cas: "cas_phase rid (r_phase cur) Deleting now s = Inr s1"
    and app: "op_append x s1 = Inr s2" and ev: "event_append e s2 = Inr s'"
    and x: "op_resource x = Some rid" "op_kind x = OpKindDelete" "op_terminal_at x = None"
    and "can_transition (r_phase cur) Deleting" and no: "count_active rid s = 0"
  shows "kadv s s'"
proof -
  have "no_open rid s"
    using app cas x by (auto simp: no_open_def op_append_Inr cas_phase_Inr is_open_def list_ex_iff)
  then have 1: "kadv s s1" using kadv_cas_phase [OF assms(1) cas assms(9)] no by simp
  have row: "tget r_id rid (resources s1) = Some (phase_columns (r_phase cur) Deleting now cur)"
    using cas cur by (auto simp: cas_phase_Inr tget_tupd)
  have 2: "kadv s1 s2"
    by (rule kadv_op_append [OF kadv_kinv [OF 1] app]) (use x row in auto)
  have 3: "kadv s2 s'" by (rule kadv_event [OF kadv_kinv [OF 2] ev])
  show ?thesis by (rule kadv_trans [OF kadv_trans [OF 1 2] 3])
qed

lemma journal_delete_in_tx_cases:
  assumes "journal_delete_in_tx cur now actor oid s = Inr s'"
  obtains "r_external_id cur = None" "mark_deleted (r_id cur) now s = Inr s'"
  | s1 s2 x e where "r_external_id cur \<noteq> None" "cas_phase (r_id cur) (r_phase cur) Deleting now s = Inr s1"
      "op_append x s1 = Inr s2" "event_append e s2 = Inr s'" "op_resource x = Some (r_id cur)"
      "op_kind x = OpKindDelete" "op_terminal_at x = None"
proof (cases "r_external_id cur")
  case None
  with assms that(1) show ?thesis by (simp add: journal_delete_in_tx_def split: if_splits)
next
  case (Some ext)
  with assms show ?thesis
    by (auto simp: journal_delete_in_tx_def result_simps intro!: that(2))
qed

lemma journal_delete_in_tx_gates:
  assumes "journal_delete_in_tx cur now actor oid s = Inr s'"
  shows "r_ownership cur = Managed" and "\<not> r_delete_protected cur" and "count_active (r_id cur) s = 0"
  using assms by (auto simp: journal_delete_in_tx_def split: if_splits)

lemma kadv_journal_delete_in_tx:
  assumes "kinv s" and cur: "tget r_id (r_id cur) (resources s) = Some cur"
    and j: "journal_delete_in_tx cur now actor oid s = Inr s'"
    and "can_transition (r_phase cur) Deleting"
  shows "kadv s s'"
  using j
proof (cases rule: journal_delete_in_tx_cases)
  case 1
  then show ?thesis using kadv_mark_deleted [OF assms(1)] journal_delete_in_tx_gates(3) [OF j] by blast
next
  case 2
  then show ?thesis
    using kadv_delete_journaled [OF assms(1) cur] assms(4) journal_delete_in_tx_gates(3) [OF j] by blast
qed

lemma journal_delete_Inr:
  "journal_delete rid now oid s = Inr s' \<longleftrightarrow>
     (\<exists>cur. tget r_id rid (resources s) = Some cur \<and> live cur
        \<and> (r_phase cur = Draining \<or> r_phase cur = Failed)
        \<and> journal_delete_in_tx cur now ''reconciler'' oid s = Inr s')"
  by (auto simp: journal_delete_def result_simps resource_get_Inr live_def)

lemma kadv_journal_delete:
  assumes "kinv s" and "journal_delete rid now oid s = Inr s'"
  shows "kadv s s'"
proof -
  from assms(2) obtain cur where row: "tget r_id rid (resources s) = Some cur"
    and p: "r_phase cur = Draining \<or> r_phase cur = Failed"
    and j: "journal_delete_in_tx cur now ''reconciler'' oid s = Inr s'"
    by (auto simp: journal_delete_Inr)
  have "r_id cur = rid" using tget_SomeD [OF row] by simp
  then show ?thesis
    using kadv_journal_delete_in_tx [OF assms(1) _ j] row p by (auto simp: can_transition_iff)
qed

lemma cost_reclaim_Inr:
  "cost_reclaim rid now p oid s = Inr s' \<longleftrightarrow>
     (\<exists>cur tot. tget r_id rid (resources s) = Some cur \<and> live cur \<and> r_phase cur = p
        \<and> tot = (case parse_vec (r_capacity cur) of Inl _ \<Rightarrow> [] | Inr t \<Rightarrow> t)
        \<and> \<not> (waiting_for now cur tot s > 0 \<and> waiting_for now cur tot s > others_ready cur s)
        \<and> journal_delete_in_tx cur now ''cost-reclaim'' oid s = Inr s')"
  by (auto simp: cost_reclaim_def result_simps resource_get_Inr live_def Let_def)

lemma kadv_cost_reclaim:
  assumes "kinv s" and "cost_reclaim rid now p oid s = Inr s'" and "can_transition p Deleting"
  shows "kadv s s'"
proof -
  from assms(2) obtain cur where row: "tget r_id rid (resources s) = Some cur" and p: "r_phase cur = p"
    and j: "journal_delete_in_tx cur now ''cost-reclaim'' oid s = Inr s'"
    by (auto simp: cost_reclaim_Inr)
  have "r_id cur = rid" using tget_SomeD [OF row] by simp
  then show ?thesis using kadv_journal_delete_in_tx [OF assms(1) _ j] row p assms(3) by auto
qed

lemma kadv_create_one:
  assumes "kinv s" and "create_one env p kind prov machine rid oid s = Inr s'"
  shows "kadv s s'"
  using assms by (auto simp: create_one_def result_simps intro: kadv_journal prepare_create_ready)

section \<open>The bounds of a cycle\<close>

text \<open>The mutations a cycle has counted.\<close>

definition spent :: "delta \<Rightarrow> int" where
  "spent d = d_created d + d_drained d + d_undrained d + d_deleted d + d_parked_now d + d_started d"

text \<open>
  What every pass keeps: the budget pays for each counted mutation and never goes below zero, and
  the machines counted ready stay counted.
\<close>

definition pays :: "cycle \<Rightarrow> cycle \<Rightarrow> bool" where
  "pays c c' \<longleftrightarrow> spent (cy_delta c') + cy_budget c' = spent (cy_delta c) + cy_budget c
     \<and> (0 \<le> cy_budget c \<longrightarrow> 0 \<le> cy_budget c') \<and> d_ready (cy_delta c') = d_ready (cy_delta c)"

lemma pays_refl [simp]: "pays c c"
  by (simp add: pays_def)

lemma pays_trans: "pays c d \<Longrightarrow> pays d e \<Longrightarrow> pays c e"
  by (simp add: pays_def)

text \<open>The counters the floors of a pool are about: drained, parked and created machines.\<close>

definition same_floor :: "cycle \<Rightarrow> cycle \<Rightarrow> bool" where
  "same_floor c c' \<longleftrightarrow> d_drained (cy_delta c') = d_drained (cy_delta c)
     \<and> d_parked_now (cy_delta c') = d_parked_now (cy_delta c)"

definition counts :: "cycle \<Rightarrow> cycle \<Rightarrow> bool" where
  "counts c c' \<longleftrightarrow> pays c c' \<and> same_floor c c' \<and> d_created (cy_delta c') = d_created (cy_delta c)"

lemma counts_refl [simp]: "counts c c"
  by (simp add: counts_def same_floor_def)

text \<open>One counted mutation of another kind.\<close>

lemma counts_step:
  assumes "counts c0 c" and "0 < cy_budget c" and "cy_budget c' = cy_budget c - 1"
    and "spent (cy_delta c') = spent (cy_delta c) + 1" and "d_ready (cy_delta c') = d_ready (cy_delta c)"
    and "d_drained (cy_delta c') = d_drained (cy_delta c)"
    and "d_parked_now (cy_delta c') = d_parked_now (cy_delta c)"
    and "d_created (cy_delta c') = d_created (cy_delta c)"
  shows "counts c0 c'"
  using assms by (auto simp: counts_def pays_def same_floor_def)

lemma counts_undrain: "counts c0 c \<Longrightarrow> counts c0 (undrain_pass env rs c)"
proof (induction rs arbitrary: c)
  case (Cons r rs)
  then show ?case
    by (auto intro!: Cons.IH elim!: counts_step simp: spent_def split: sum.splits)
qed simp

lemma counts_warm: "counts c0 c \<Longrightarrow> counts c0 (warm_pass env m rs c)"
proof (induction rs arbitrary: c)
  case (Cons r rs)
  then show ?case
    by (auto intro!: Cons.IH elim!: counts_step simp: spent_def split: sum.splits)
qed simp

lemma counts_parked: "counts c0 c \<Longrightarrow> counts c0 (parked_pass env rs c)"
proof (induction rs arbitrary: c)
  case (Cons r rs)
  then show ?case
    by (auto intro!: Cons.IH elim!: counts_step simp: spent_def split: sum.splits)
qed simp

lemma counts_delete: "counts c0 c \<Longrightarrow> counts c0 (delete_pass env rs c)"
proof (induction rs arbitrary: c)
  case (Cons r rs)
  then show ?case
    by (auto intro!: Cons.IH elim!: counts_step simp: spent_def split: sum.splits)
qed simp

lemma pays_create:
  "int n \<le> cy_budget c \<Longrightarrow> pays c (create_pass env p kind prov m n c) \<and> same_floor c (create_pass env p kind prov m n c)
     \<and> d_created (cy_delta (create_pass env p kind prov m n c)) \<le> d_created (cy_delta c) + int n
     \<and> d_created (cy_delta c) \<le> d_created (cy_delta (create_pass env p kind prov m n c))"
proof (induction n arbitrary: c)
  case (Suc n)
  show ?case
  proof (cases "create_one env p kind prov m (re_fresh env (p_id p) (2 * n)) (re_fresh env (p_id p) (2 * n + 1)) (cy_db c)")
    case (Inl e)
    then show ?thesis by (simp add: same_floor_def)
  next
    case (Inr s)
    let ?c = "c\<lparr>cy_db := s, cy_budget := cy_budget c - 1,
      cy_delta := (cy_delta c)\<lparr>d_created := d_created (cy_delta c) + 1\<rparr>\<rparr>"
    have "int n \<le> cy_budget ?c" using Suc.prems by simp
    from Suc.IH [OF this] Inr show ?thesis using Suc.prems
      by (auto simp: pays_def same_floor_def spent_def)
  qed
qed (simp add: same_floor_def)

text \<open>Draining stops at the floor of ready machines, parking at what draining left of it.\<close>

lemma pays_drain:
  "pays c (drain_pass env mr rs c) \<and> d_parked_now (cy_delta (drain_pass env mr rs c)) = d_parked_now (cy_delta c)
     \<and> d_created (cy_delta (drain_pass env mr rs c)) = d_created (cy_delta c)
     \<and> (d_drained (cy_delta (drain_pass env mr rs c)) = d_drained (cy_delta c)
        \<or> mr \<le> d_ready (cy_delta c) - d_drained (cy_delta (drain_pass env mr rs c)))"
proof (induction rs arbitrary: c)
  case (Cons r rs)
  show ?case
  proof (cases "cy_surplus c \<le> 0 \<or> cy_budget c \<le> 0 \<or> d_ready (cy_delta c) - d_drained (cy_delta c) - 1 < mr")
    case True
    then show ?thesis by auto
  next
    case go: False
    show ?thesis
    proof (cases "count_active (r_id r) (cy_db c) > 0 \<or> (\<exists>e. cas_phase (r_id r) Ready Draining (re_now env) (cy_db c) = Inl e)")
      case True
      then have "drain_pass env mr (r # rs) c = drain_pass env mr rs c" using go by auto
      then show ?thesis using Cons.IH [of c] by simp
    next
      case False
      then obtain s where s: "cas_phase (r_id r) Ready Draining (re_now env) (cy_db c) = Inr s"
        by (cases "cas_phase (r_id r) Ready Draining (re_now env) (cy_db c)") auto
      let ?c = "c\<lparr>cy_db := s, cy_surplus := cy_surplus c - 1, cy_budget := cy_budget c - 1,
        cy_delta := (cy_delta c)\<lparr>d_drained := d_drained (cy_delta c) + 1\<rparr>\<rparr>"
      have "drain_pass env mr (r # rs) c = drain_pass env mr rs ?c" using go False s by auto
      then show ?thesis using Cons.IH [of ?c] go by (auto simp: pays_def spent_def)
    qed
  qed
qed simp

lemma pays_park:
  "pays c (park_pass env spec rs c) \<and> d_drained (cy_delta (park_pass env spec rs c)) = d_drained (cy_delta c)
     \<and> d_created (cy_delta (park_pass env spec rs c)) = d_created (cy_delta c)
     \<and> (d_parked_now (cy_delta (park_pass env spec rs c)) = d_parked_now (cy_delta c)
        \<or> ps_min_ready spec \<le> cy_ready_left c + d_parked_now (cy_delta c)
             - d_parked_now (cy_delta (park_pass env spec rs c)))"
proof (induction rs arbitrary: c)
  case (Cons r rs)
  show ?case
  proof (cases "(cy_budget c \<le> 0 \<or> cy_ready_left c - 1 < ps_min_ready spec \<or> cy_hot c - 1 < ps_min_running spec)
      \<or> \<not> pk_supported (pv_parking (re_providers env) (r_provider r) (r_kind r))")
    case True
    then show ?thesis by auto
  next
    case go: False
    let ?tx = "journal_stop (re_providers env) (r_id r) (re_now env) ''reconciler'' True (re_fresh env (r_id r) 3) (cy_db c)"
    show ?thesis
    proof (cases ?tx)
      case (Inl e)
      then have "park_pass env spec (r # rs) c = park_pass env spec rs c" using go by simp
      then show ?thesis using Cons.IH [of c] by simp
    next
      case (Inr s)
      let ?c = "c\<lparr>cy_db := s, cy_ready_left := cy_ready_left c - 1, cy_hot := cy_hot c - 1,
        cy_budget := cy_budget c - 1,
        cy_delta := (cy_delta c)\<lparr>d_parked_now := d_parked_now (cy_delta c) + 1\<rparr>\<rparr>"
      have "park_pass env spec (r # rs) c = park_pass env spec rs ?c" using go Inr by simp
      then show ?thesis using Cons.IH [of ?c] go by (auto simp: pays_def spent_def)
    qed
  qed
qed simp

lemma pays_scale_up:
  assumes "0 \<le> cy_budget c"
  shows "pays c (scale_up env p spec n kind prov m c) \<and> same_floor c (scale_up env p spec n kind prov m c)
    \<and> d_created (cy_delta c) \<le> d_created (cy_delta (scale_up env p spec n kind prov m c))
    \<and> (ps_max_resources spec > 0 \<longrightarrow> d_created (cy_delta (scale_up env p spec n kind prov m c))
         \<le> d_created (cy_delta c) + max 0 (ps_max_resources spec - int n))"
proof -
  define w where "w = (if ps_max_resources spec > 0 \<and> int n + cy_deficit c > ps_max_resources spec
    then ps_max_resources spec - int n else cy_deficit c)"
  define k where "k = nat (min w (cy_budget c))"
  have "int k \<le> cy_budget c" using assms by (simp add: k_def)
  note cp = pays_create [OF this, of env p kind prov m]
  have "int k \<le> max 0 (ps_max_resources spec - int n)" if "ps_max_resources spec > 0"
    using that by (auto simp: k_def w_def)
  then have "pays c (create_pass env p kind prov m k c) \<and> same_floor c (create_pass env p kind prov m k c)
    \<and> d_created (cy_delta c) \<le> d_created (cy_delta (create_pass env p kind prov m k c))
    \<and> (ps_max_resources spec > 0 \<longrightarrow> d_created (cy_delta (create_pass env p kind prov m k c))
         \<le> d_created (cy_delta c) + max 0 (ps_max_resources spec - int n))"
    using cp by fastforce
  moreover have "scale_up env p spec n kind prov m c =
      (if cy_deficit c > 0 \<and> cy_budget c > 0 \<and> \<not> re_now env < failure_backoff_until (p_id p) (cy_db c)
       then create_pass env p kind prov m k c else c)"
    by (simp add: scale_up_def Let_def k_def w_def)
  ultimately show ?thesis by (simp add: same_floor_def)
qed

text \<open>
  The passes of a cycle chained: what is paid for, and the floor of ready machines that draining
  and parking together leave.
\<close>

lemma counts_trans: "counts a b \<Longrightarrow> counts b c \<Longrightarrow> counts a c"
  by (auto simp: counts_def pays_def same_floor_def)

definition cycle_ok :: "pool_spec \<Rightarrow> nat \<Rightarrow> cycle \<Rightarrow> cycle \<Rightarrow> bool" where
  "cycle_ok spec n c c' \<longleftrightarrow> pays c c'
     \<and> (ps_max_resources spec > 0 \<longrightarrow>
          d_created (cy_delta c') \<le> d_created (cy_delta c) + max 0 (ps_max_resources spec - int n))
     \<and> (d_drained (cy_delta c') + d_parked_now (cy_delta c') > 0 \<longrightarrow>
          ps_min_ready spec \<le> d_ready (cy_delta c') - d_drained (cy_delta c') - d_parked_now (cy_delta c'))"

lemma run_passes_ok:
  assumes "0 \<le> cy_budget c" and "d_drained (cy_delta c) = 0" and "d_parked_now (cy_delta c) = 0"
  shows "cycle_ok spec (length rs) c (run_passes env p spec kind prov machine reclaim rs c)"
proof -
  define c1 where "c1 = undrain_pass env (in_phase Draining rs) c"
  define c2 where "c2 = (if ps_min_running spec > 0 \<and> cy_hot c1 < ps_min_running spec \<and> cy_budget c1 > 0
     then warm_pass env (ps_min_running spec) (in_phase Parked rs) c1 else c1)"
  define c3 where "c3 = scale_up env p spec (length rs) kind prov machine c2"
  define c4 where "c4 = c3\<lparr>cy_surplus := d_counted (cy_delta c3) - ps_replicas spec\<rparr>"
  define c5 where "c5 = parked_pass env (oldest_parked rs) c4"
  define c6 where "c6 = drain_pass env (ps_min_ready spec) (reclaimable (in_phase Ready rs) reclaim (re_now env)) c5"
  define c7 where "c7 = delete_pass env (in_phase Draining rs) c6"
  define c8 where "c8 = delete_pass env (in_phase Failed rs) c7"
  define c9 where "c9 = c8\<lparr>cy_ready_left := d_ready (cy_delta c8) - d_drained (cy_delta c8)\<rparr>"
  define c10 where "c10 = park_pass env spec (reclaimable (in_phase Ready rs) reclaim (re_now env)) c9"
  have 2: "counts c c2"
    by (simp add: c2_def c1_def counts_undrain counts_warm)
  then have b2: "0 \<le> cy_budget c2" using assms(1) by (simp add: counts_def pays_def)
  note 3 = pays_scale_up [OF b2, of env p spec "length rs" kind prov machine, folded c3_def]
  have 4: "counts c3 c4" by (simp add: c4_def counts_def pays_def same_floor_def)
  have 5: "counts c3 c5" unfolding c5_def by (rule counts_parked [OF 4])
  note 6 = pays_drain [of c5 env "ps_min_ready spec" "reclaimable (in_phase Ready rs) reclaim (re_now env)", folded c6_def]
  have 8: "counts c6 c8"
    unfolding c8_def c7_def by (intro counts_delete counts_refl)
  note 9 = pays_park [of c9 env spec "reclaimable (in_phase Ready rs) reclaim (re_now env)", folded c10_def]
  have created: "d_created (cy_delta c8) = d_created (cy_delta c3)"
    and parked: "d_parked_now (cy_delta c8) = 0"
    using 2 3 5 6 8 assms(3) by (simp_all add: counts_def same_floor_def)
  have ready: "d_ready (cy_delta c8) = d_ready (cy_delta c6)" "d_ready (cy_delta c6) = d_ready (cy_delta c5)"
    and drained: "d_drained (cy_delta c8) = d_drained (cy_delta c6)" "d_drained (cy_delta c5) = 0"
    using 2 3 5 6 8 assms(2) by (simp_all add: counts_def same_floor_def pays_def)
  have "pays c c8"
    using 2 3 5 6 8 unfolding counts_def by (blast intro: pays_trans)
  moreover have "d_created (cy_delta c2) = d_created (cy_delta c)" using 2 by (simp add: counts_def)
  ultimately have ok8: "cycle_ok spec (length rs) c c8"
    using 3 6 created parked ready drained unfolding cycle_ok_def by auto
  have 9: "pays c8 c10 \<and> d_drained (cy_delta c10) = d_drained (cy_delta c8)
     \<and> d_created (cy_delta c10) = d_created (cy_delta c8)
     \<and> (d_parked_now (cy_delta c10) = 0 \<or> ps_min_ready spec
          \<le> d_ready (cy_delta c8) - d_drained (cy_delta c8) - d_parked_now (cy_delta c10))"
    using pays_park [of c9 env spec "reclaimable (in_phase Ready rs) reclaim (re_now env)", folded c10_def] parked
    by (simp add: c9_def pays_def)
  have ok10: "cycle_ok spec (length rs) c c10"
    using ok8 9 parked unfolding cycle_ok_def pays_def by auto
  have "run_passes env p spec kind prov machine reclaim rs c =
      (if ps_min_running spec > 0 \<and> park_enabled reclaim
         \<and> (case reclaim of None \<Rightarrow> False | Some pol \<Rightarrow> rp_idle_after pol > 0) \<and> cy_budget c8 > 0
       then c10 else c8)"
    unfolding run_passes_def Let_def c10_def c9_def c8_def c7_def c6_def c5_def c4_def c3_def c2_def c1_def
    by (rule refl)
  with ok8 ok10 show ?thesis by simp
qed

lemma start_cycle_simps [simp]:
  "cy_budget (start_cycle env spec rs s) = rc_max_mutations (re_cfg env)"
  "d_ready (cy_delta (start_cycle env spec rs s)) = int (length (in_phase Ready rs))"
  "d_drained (cy_delta (start_cycle env spec rs s)) = 0"
  "d_parked_now (cy_delta (start_cycle env spec rs s)) = 0"
  "d_created (cy_delta (start_cycle env spec rs s)) = 0"
  "spent (cy_delta (start_cycle env spec rs s)) = 0"
  by (simp_all add: start_cycle_def count_phases_def zero_delta_def spent_def Let_def)

lemma run_once_cases:
  assumes "run_once env pid s = (Inr d, s')"
  obtains p where "tget p_id pid (pools s) = Some p" "p_paused p" "d = zero_delta" "s' = s"
  | p spec kind prov machine reclaim rs c where "tget p_id pid (pools s) = Some p" "\<not> p_paused p"
      "p_spec p = BVal spec" "rs = resource_list (no_filter\<lparr>f_pool := Some pid\<rparr>) s"
      "c = run_passes env p spec kind prov machine reclaim rs (start_cycle env spec rs s)"
      "d = cy_delta c" "s' = cy_db c"
proof (cases "pool_get pid s")
  case (Inl e)
  with assms show ?thesis by (simp add: run_once_def)
next
  case (Inr p)
  then have p: "tget p_id pid (pools s) = Some p" by (simp add: pool_get_Inr)
  note run = assms [unfolded run_once_def Inr Let_def sum.case]
  show ?thesis
  proof (cases "p_paused p")
    case True
    with run have "d = zero_delta" "s' = s" by simp_all
    then show ?thesis by (rule that(1) [OF p True])
  next
    case False
    with run obtain spec where spec: "p_spec p = BVal spec" by (simp split: blob.splits)
    with run False obtain t where t: "template env spec = Inr t" by (simp split: sum.splits)
    obtain kind prov machine reclaim where t': "t = (kind, prov, machine, reclaim)" by (cases t)
    show ?thesis
      by (rule that(2) [OF p False spec refl refl, of kind prov machine reclaim])
        (use run spec t t' False in simp_all)
  qed
qed

text \<open>
  C22. A cycle makes at most as many mutations as its budget allows, a paused pool gets none, a pool
  with a size limit is never grown past it, and as long as anything is drained or parked, at least
  the configured number of ready machines is left.
\<close>

theorem run_once_bounds:
  assumes "run_once env pid s = (Inr d, s')" and "0 \<le> rc_max_mutations (re_cfg env)"
    and pool: "tget p_id pid (pools s) = Some p"
  shows "0 \<le> rc_max_mutations (re_cfg env) - spent d
    \<and> (p_paused p \<longrightarrow> d = zero_delta \<and> s' = s)
    \<and> (\<forall>spec. p_spec p = BVal spec \<and> ps_max_resources spec > 0 \<longrightarrow>
         d_created d \<le> max 0 (ps_max_resources spec - int (length (resource_list (no_filter\<lparr>f_pool := Some pid\<rparr>) s))))
    \<and> (\<forall>spec. p_spec p = BVal spec \<and> d_drained d + d_parked_now d > 0 \<longrightarrow>
         ps_min_ready spec \<le> d_ready d - d_drained d - d_parked_now d)"
  using assms(1)
proof (cases rule: run_once_cases)
  case (1 q)
  then show ?thesis using assms(2) pool by (auto simp: zero_delta_def spent_def)
next
  case (2 q spec kind prov machine reclaim rs c)
  have "cycle_ok spec (length rs) (start_cycle env spec rs s) c"
    unfolding 2(5) by (rule run_passes_ok) (simp_all add: assms(2))
  then show ?thesis using 2 pool assms(2) by (auto simp: cycle_ok_def pays_def)
qed

text \<open>
  C23. No reclaim path ever starts to delete a machine that is not managed, that is protected, or that
  has an active lease: the delete transaction refuses, at the state it commits on.
\<close>

theorem reclaim_spares:
  assumes "journal_delete rid now oid s = Inr s' \<or> cost_reclaim rid now p oid s = Inr s'"
  shows "\<exists>r. tget r_id rid (resources s) = Some r \<and> live r \<and> r_ownership r = Managed
    \<and> \<not> r_delete_protected r \<and> (\<forall>l \<in> set (leases s). l_state l = LeaseActive \<longrightarrow> l_resource l \<noteq> rid)"
proof -
  from assms obtain cur actor where row: "tget r_id rid (resources s) = Some cur" "live cur"
    and j: "journal_delete_in_tx cur now actor oid s = Inr s'"
    unfolding journal_delete_Inr cost_reclaim_Inr by blast
  have "r_id cur = rid" using tget_SomeD [OF row(1)] by simp
  then have "count_active rid s = 0" using journal_delete_in_tx_gates(3) [OF j] by simp
  then show ?thesis
    using row journal_delete_in_tx_gates(1,2) [OF j] by (auto simp: count_active_iff is_active_def)
qed


text \<open>
  Idle machines are reclaimed longest idle first, only unprotected ones of the given list, and
  only when they have been idle for the policy's time.
\<close>

theorem reclaimable_longest_idle_first:
  "sorted (map idle_since (reclaimable ready policy now))
   \<and> set (reclaimable ready policy now) = {r \<in> set ready. \<not> r_delete_protected r
        \<and> now - idle_since r \<ge> (case policy of None \<Rightarrow> 0 | Some p \<Rightarrow> milliseconds (rp_idle_after p))}"
  by (auto simp: reclaimable_def Let_def)

end
