(* ===== verification/Compute.thy ===== *)
theory Compute
  imports Provider_SDK
begin

text \<open>
  The kind modules: the machine spec and its readiness probe (pkg/kinds/compute), the volume spec
  (pkg/kinds/volume) and the registry's validation (pkg/kinds/kinds.go). \<open>json.Unmarshal\<close> into
  these structs is written out over \<open>json\<close>: a missing key or \<open>null\<close> leaves the zero value, another
  type is an error, unknown keys are ignored and the last of several equal keys counts. Duration strings are decoded by an argument
  (\<open>time.ParseDuration\<close>), the network is an argument as well.
\<close>

section \<open>Decoding fields\<close>

definition jfield :: "string \<Rightarrow> (string \<times> json) list \<Rightarrow> json" where
  "jfield k flds = (case map_of (rev flds) k of None \<Rightarrow> JNull | Some v \<Rightarrow> v)"

definition bad_type :: err where
  "bad_type = EOther ''json: cannot unmarshal''"

fun get_str :: "json \<Rightarrow> err + string" where
  "get_str JNull = Inr []"
| "get_str (JStr s) = Inr s"
| "get_str _ = Inl bad_type"

fun get_int :: "json \<Rightarrow> err + int" where
  "get_int JNull = Inr 0"
| "get_int (JNum n) = Inr n"
| "get_int _ = Inl bad_type"

fun get_str_map :: "(string \<times> json) list \<Rightarrow> err + labels" where
  "get_str_map [] = Inr []"
| "get_str_map ((k, v) # r) = bindE (get_str v) (\<lambda>s. bindE (get_str_map r) (\<lambda>m. Inr ((k, s) # m)))"

fun get_labels :: "json \<Rightarrow> err + labels" where
  "get_labels JNull = Inr []"
| "get_labels (JObj flds) = get_str_map flds"
| "get_labels _ = Inl bad_type"

text \<open>\<open>Duration.UnmarshalJSON\<close>: a present duration must be a string \<open>time.ParseDuration\<close> accepts.\<close>

definition get_duration :: "(string \<Rightarrow> int option) \<Rightarrow> (string \<times> json) list \<Rightarrow> string \<Rightarrow> err + int" where
  "get_duration pd flds k =
     (case map_of (rev flds) k of
        None \<Rightarrow> Inr 0
      | Some v \<Rightarrow>
          bindE (get_str v) (\<lambda>s.
          (case pd s of None \<Rightarrow> Inl (EOther ''time: invalid duration'') | Some d \<Rightarrow> Inr d)))"

section \<open>Machine specs (compute.go)\<close>

record tcp_probe =
  tp_port :: int
  tp_timeout :: int

record http_probe =
  hp_port :: int
  hp_path :: string
  hp_expect_status :: int
  hp_timeout :: int

record readiness_spec =
  rd_tcp :: "tcp_probe option"
  rd_http :: "http_probe option"
  rd_initial_delay :: int
  rd_period :: int
  rd_budget :: int
  rd_success_threshold :: int

record machine_spec =
  ma_server_type :: string
  ma_image :: string
  ma_location :: string
  ma_user_data :: string
  ma_labels :: labels
  ma_readiness :: "readiness_spec option"

definition port_ok :: "int \<Rightarrow> bool" where
  "port_ok p \<longleftrightarrow> \<not> (p \<le> 0 \<or> p > 65535)"

definition readiness_validate :: "readiness_spec \<Rightarrow> err + unit" where
  "readiness_validate r =
     (if rd_tcp r = None \<and> rd_http r = None then Inl (EOther ''a probe (tcp or http) is required'')
      else if rd_tcp r \<noteq> None \<and> rd_http r \<noteq> None then Inl (EOther ''declare either tcp or http'')
      else if (case rd_tcp r of None \<Rightarrow> False | Some t \<Rightarrow> \<not> port_ok (tp_port t))
        then Inl (EOther ''tcp.port out of range'')
      else (case rd_http r of
          None \<Rightarrow> Inr ()
        | Some h \<Rightarrow>
            (if \<not> port_ok (hp_port h) then Inl (EOther ''http.port out of range'')
             else if hp_path h = [] \<or> hd (hp_path h) \<noteq> CHR ''/''
               then Inl (EOther ''http.path must start with /'')
             else Inr ())))"

definition machine_validate :: "machine_spec \<Rightarrow> err + unit" where
  "machine_validate m =
     (if ma_server_type m = [] then Inl (EOther ''serverType is required'')
      else if ma_image m = [] then Inl (EOther ''image is required'')
      else (case ma_readiness m of None \<Rightarrow> Inr () | Some r \<Rightarrow> readiness_validate r))"

fun decode_tcp :: "(string \<Rightarrow> int option) \<Rightarrow> json \<Rightarrow> err + tcp_probe option" where
  "decode_tcp pd JNull = Inr None"
| "decode_tcp pd (JObj flds) =
     bindE (get_int (jfield ''port'' flds)) (\<lambda>p.
     bindE (get_duration pd flds ''timeout'') (\<lambda>t.
     Inr (Some \<lparr>tp_port = p, tp_timeout = t\<rparr>)))"
| "decode_tcp pd _ = Inl bad_type"

fun decode_http :: "(string \<Rightarrow> int option) \<Rightarrow> json \<Rightarrow> err + http_probe option" where
  "decode_http pd JNull = Inr None"
| "decode_http pd (JObj flds) =
     bindE (get_int (jfield ''port'' flds)) (\<lambda>p.
     bindE (get_str (jfield ''path'' flds)) (\<lambda>path.
     bindE (get_int (jfield ''expectStatus'' flds)) (\<lambda>e.
     bindE (get_duration pd flds ''timeout'') (\<lambda>t.
     Inr (Some \<lparr>hp_port = p, hp_path = path, hp_expect_status = e, hp_timeout = t\<rparr>)))))"
| "decode_http pd _ = Inl bad_type"

fun decode_readiness :: "(string \<Rightarrow> int option) \<Rightarrow> json \<Rightarrow> err + readiness_spec option" where
  "decode_readiness pd JNull = Inr None"
| "decode_readiness pd (JObj flds) =
     bindE (decode_tcp pd (jfield ''tcp'' flds)) (\<lambda>t.
     bindE (decode_http pd (jfield ''http'' flds)) (\<lambda>h.
     bindE (get_duration pd flds ''initialDelay'') (\<lambda>i.
     bindE (get_duration pd flds ''period'') (\<lambda>p.
     bindE (get_duration pd flds ''budget'') (\<lambda>b.
     bindE (get_int (jfield ''successThreshold'' flds)) (\<lambda>n.
     Inr (Some \<lparr>rd_tcp = t, rd_http = h, rd_initial_delay = i, rd_period = p, rd_budget = b,
       rd_success_threshold = n\<rparr>)))))))"
| "decode_readiness pd _ = Inl bad_type"

definition decode_machine :: "(string \<Rightarrow> int option) \<Rightarrow> (string \<times> json) list \<Rightarrow> err + machine_spec" where
  "decode_machine pd flds =
     bindE (get_str (jfield ''serverType'' flds)) (\<lambda>st.
     bindE (get_str (jfield ''image'' flds)) (\<lambda>im.
     bindE (get_str (jfield ''location'' flds)) (\<lambda>loc.
     bindE (get_str (jfield ''userData'' flds)) (\<lambda>ud.
     bindE (get_labels (jfield ''labels'' flds)) (\<lambda>ls.
     bindE (decode_readiness pd (jfield ''readiness'' flds)) (\<lambda>rd.
     Inr \<lparr>ma_server_type = st, ma_image = im, ma_location = loc, ma_user_data = ud,
       ma_labels = ls, ma_readiness = rd\<rparr>))))))"

definition parse_spec :: "(string \<Rightarrow> int option) \<Rightarrow> json blob \<Rightarrow> err + machine_spec" where
  "parse_spec pd raw =
     bindE (case raw of
         BVal (JObj flds) \<Rightarrow> decode_machine pd flds
       | BVal JNull \<Rightarrow> decode_machine pd []
       | _ \<Rightarrow> Inl bad_type) (\<lambda>m.
     bindE (machine_validate m) (\<lambda>_. Inr m))"

definition default_probe_timeout :: int where "default_probe_timeout = 3 * sec"
definition default_probe_budget :: int where "default_probe_budget = 5 * 60 * sec"

section \<open>The probe (probe.go)\<close>

text \<open>
  The network: whether a TCP connection to address, port within a timeout succeeds, and the
  status code a GET of address, port, path yields.
\<close>

record network =
  nw_dial :: "string \<Rightarrow> int \<Rightarrow> int \<Rightarrow> bool"
  nw_get :: "string \<Rightarrow> int \<Rightarrow> string \<Rightarrow> int \<Rightarrow> err + int"

type_synonym addresses = "(string \<times> string) list"

definition pick_address :: "addresses \<Rightarrow> string" where
  "pick_address addrs =
     (case concat (map (\<lambda>want. filter (\<lambda>(n, a). n = want \<and> a \<noteq> []) addrs)
            [''public-v4'', ''public-v6'', ''private'']) of
        (_, a) # _ \<Rightarrow> a
      | [] \<Rightarrow> (case filter (\<lambda>(_, a). a \<noteq> []) addrs of (_, a) # _ \<Rightarrow> a | [] \<Rightarrow> []))"

definition probe_once :: "network \<Rightarrow> addresses \<Rightarrow> readiness_spec option \<Rightarrow> err + unit" where
  "probe_once nw addrs spec =
     (case spec of
        None \<Rightarrow> Inr ()
      | Some r \<Rightarrow>
          (if rd_tcp r = None \<and> rd_http r = None then Inr ()
           else (let addr = pick_address addrs in
             if addr = [] then Inl (EOther ''readiness probe: resource has no usable address'')
             else (case rd_tcp r of
                Some t \<Rightarrow>
                  (let timeout = (if tp_timeout t \<le> 0 then default_probe_timeout else tp_timeout t)
                   in if nw_dial nw addr (tp_port t) timeout then Inr ()
                      else Inl (EOther ''readiness probe: tcp''))
              | None \<Rightarrow>
                  (case rd_http r of
                     None \<Rightarrow> Inr ()
                   | Some h \<Rightarrow>
                       (let timeout = (if hp_timeout h \<le> 0 then default_probe_timeout else hp_timeout h)
                        in bindE (nw_get nw addr (hp_port h) (hp_path h) timeout) (\<lambda>code.
                           if hp_expect_status h > 0 \<and> code \<noteq> hp_expect_status h
                             then Inl (EOther ''readiness probe: unexpected status'')
                           else if hp_expect_status h = 0 \<and> (code < 200 \<or> code > 299)
                             then Inl (EOther ''readiness probe: want 2xx'')
                           else Inr ())))))))"

section \<open>Volume specs and the registry (volume.go, kinds.go)\<close>

record volume_spec =
  vo_size_gib :: int
  vo_zone :: string
  vo_filesystem :: string

definition volume_parse_spec :: "json blob \<Rightarrow> err + volume_spec" where
  "volume_parse_spec raw =
     bindE (case raw of
         BVal (JObj flds) \<Rightarrow>
           bindE (get_int (jfield ''sizeGiB'' flds)) (\<lambda>n.
           bindE (get_str (jfield ''zone'' flds)) (\<lambda>z.
           bindE (get_str (jfield ''filesystem'' flds)) (\<lambda>f.
           Inr \<lparr>vo_size_gib = n, vo_zone = z, vo_filesystem = f\<rparr>)))
       | BVal JNull \<Rightarrow> Inr \<lparr>vo_size_gib = 0, vo_zone = [], vo_filesystem = []\<rparr>
       | _ \<Rightarrow> Inl bad_type) (\<lambda>v.
     if vo_size_gib v \<le> 0 then Inl (EOther ''sizeGiB must be > 0'') else Inr v)"

text \<open>\<open>Validate\<close> with the two kind modules the binary registers.\<close>

definition kinds_validate :: "(string \<Rightarrow> int option) \<Rightarrow> string \<Rightarrow> json blob \<Rightarrow> err + unit" where
  "kinds_validate pd kind spec =
     (if kind = ''compute.machine'' then bindE (parse_spec pd spec) (\<lambda>_. Inr ())
      else if kind = ''storage.volume'' then bindE (volume_parse_spec spec) (\<lambda>_. Inr ())
      else Inl (EOther ''unknown resource kind''))"

end
