(* ===== verification/App.thy ===== *)
theory App
  imports Scheduler Lease_Manager Reconciler Compute
begin

text \<open>
  The application service (internal/app): the commands of the API, their idempotency wrapper and
  their gates, class and pool management, drain, protection and manual resolution. The response
  bytes come from an argument (\<open>BuildResponse\<close>).
\<close>

record app_env =
  ap_sched :: sched_env
  ap_wall :: int
  ap_parse_duration :: "string \<Rightarrow> int option"
  ap_pending_timeout_ms :: int

abbreviation ap_now :: "app_env \<Rightarrow> int" where
  "ap_now env \<equiv> se_now (ap_sched env)"

abbreviation ap_providers :: "app_env \<Rightarrow> providers" where
  "ap_providers env \<equiv> se_providers (ap_sched env)"

section \<open>Keyed commands\<close>

record outcome =
  oc_status :: int
  oc_body :: string
  oc_replayed :: bool

definition idem_retention :: int where
  "idem_retention = 48 * 3600 * sec"

record idem_args =
  ia_scope :: string
  ia_key :: string
  ia_hash :: string

text \<open>
  The idempotency prologue and epilogue every keyed command wraps around its transaction body.
  \<open>report\<close> selects the operation an in-flight answer names.
\<close>

definition keyed_tx ::
    "idem_args \<Rightarrow> string \<Rightarrow> (idem_record \<Rightarrow> string) \<Rightarrow> int \<Rightarrow> int
      \<Rightarrow> (db \<Rightarrow> err + (int \<times> string) \<times> db) \<Rightarrow> db \<Rightarrow> err + outcome \<times> db" where
  "keyed_tx ia oid report now wall body s =
     (if ia_key ia = [] then
        bindE (body s) (\<lambda>((st, b), s). Inr (\<lparr>oc_status = st, oc_body = b, oc_replayed = False\<rparr>, s))
      else
        bindE (idem_begin (ia_scope ia) (ia_key ia) (ia_hash ia) oid wall s) (\<lambda>((oc, rec), s).
        (case oc of
           BeginCompleted \<Rightarrow> Inr (\<lparr>oc_status = i_http_status rec, oc_body = i_result rec, oc_replayed = True\<rparr>, s)
         | BeginInProgress \<Rightarrow> Inl (EInFlight (report rec))
         | BeginMismatch \<Rightarrow> Inl EIdemMismatch
         | BeginNew \<Rightarrow>
             bindE (body s) (\<lambda>((st, b), s).
             bindE (idem_complete (ia_scope ia) (ia_key ia) st b (now + milliseconds idem_retention) wall s) (\<lambda>s.
             Inr (\<lparr>oc_status = st, oc_body = b, oc_replayed = False\<rparr>, s))))))"

definition report_op :: "idem_record \<Rightarrow> string" where
  "report_op rec = (case i_operation rec of None \<Rightarrow> [] | Some oid \<Rightarrow> oid)"

definition with_idem :: "idem_args \<Rightarrow> operation \<Rightarrow> operation" where
  "with_idem ia x =
     (if ia_key ia = [] then x
      else x\<lparr>op_idem_scope := Some (ia_scope ia), op_idem_key := Some (ia_key ia)\<rparr>)"

section \<open>CreateResource\<close>

text \<open>The key-value map a JSON object decodes to: the last of several equal keys wins.\<close>

definition as_map :: "string \<Rightarrow> json blob \<Rightarrow> err + (string \<times> json) list" where
  "as_map msg raw = (case raw of
     BVal (JObj fs) \<Rightarrow> Inr (AList.updates (map fst fs) (map snd fs) [])
   | BVal JNull \<Rightarrow> Inr []
   | _ \<Rightarrow> Inl (EOther msg))"

definition overlay_json :: "json blob \<Rightarrow> json blob \<Rightarrow> err + json blob" where
  "overlay_json base over =
     (if over = BNil \<or> over = BVal JNull then Inr base
      else bindE (as_map ''class spec'' base) (\<lambda>b.
           bindE (as_map ''override must be a JSON object'' over) (\<lambda>ov.
           Inr (BVal (JObj (sort_key fst (AList.updates (map fst ov) (map snd ov) b)))))))"

record create_cmd =
  cc_kind :: string
  cc_provider :: string
  cc_name :: string
  cc_class :: string
  cc_spec :: "json blob"
  cc_labels :: labels
  cc_actor :: string
  cc_idem :: idem_args

definition invalid :: "string \<Rightarrow> err" where
  "invalid m = EInvalid m"

text \<open>The class defaults and the spec overlay: kind, provider and spec of the create.\<close>

definition resolve_create :: "create_cmd \<Rightarrow> db \<Rightarrow> err + create_cmd" where
  "resolve_create cmd s =
     (if cc_class cmd = [] then Inr cmd
      else (case class_get (cc_class cmd) s of
         Inl e \<Rightarrow> (if e = ENotFound then Inl (invalid ''unknown class'') else Inl e)
       | Inr rec \<Rightarrow>
           (if cc_kind cmd \<noteq> [] \<and> cc_kind cmd \<noteq> c_kind rec then Inl (invalid ''kind conflicts with class'')
            else if cc_provider cmd \<noteq> [] \<and> cc_provider cmd \<noteq> c_provider rec
              then Inl (invalid ''provider conflicts with class'')
            else (case overlay_json (c_spec rec) (cc_spec cmd) of
               Inl _ \<Rightarrow> Inl (invalid ''spec overlay'')
             | Inr merged \<Rightarrow> Inr (cmd\<lparr>cc_kind := c_kind rec, cc_provider := c_provider rec,
                   cc_spec := merged\<rparr>)))))"

definition create_resource ::
    "app_env \<Rightarrow> create_cmd \<Rightarrow> string \<Rightarrow> string \<Rightarrow> (resource \<Rightarrow> int \<times> string) \<Rightarrow> db \<Rightarrow> err + outcome \<times> db" where
  "create_resource env cmd0 rid oid build s =
     bindE (resolve_create cmd0 s) (\<lambda>cmd.
     case kinds_validate (ap_parse_duration env) (cc_kind cmd) (cc_spec cmd) of
       Inl _ \<Rightarrow> Inl (invalid ''spec'')
     | Inr _ \<Rightarrow>
         (case pv_instance (ap_providers env) (cc_provider cmd) of
            None \<Rightarrow> Inl (invalid ''unknown provider instance'')
          | Some inst \<Rightarrow>
              (if pi_driver inst (cc_kind cmd) = None then Inl (invalid ''provider does not drive kind'')
               else
                 bindE (prepare (ap_providers env) (se_owner (ap_sched env))
                    \<lparr>cs_kind = cc_kind cmd, cs_provider = cc_provider cmd, cs_name = cc_name cmd,
                     cs_spec = cc_spec cmd, cs_labels = cc_labels cmd, cs_class = cc_class cmd,
                     cs_pool = None\<rparr> (ap_now env) rid oid) (\<lambda>p0.
                 let p = p0\<lparr>pr_op := with_idem (cc_idem cmd) (pr_op p0)\<rparr> in
                 keyed_tx (cc_idem cmd) oid report_op (ap_now env) (ap_wall env)
                   (\<lambda>s. bindE (journal p (cc_actor cmd) (ia_key (cc_idem cmd)) s)
                          (\<lambda>s. Inr (build (pr_resource p), s))) s))))"

section \<open>DeleteResource\<close>

definition delete_gates :: "resource \<Rightarrow> db \<Rightarrow> err + unit" where
  "delete_gates res s =
     (if r_deleted_at res \<noteq> None then Inl ENotFound
      else if r_ownership res \<noteq> Managed then Inl (invalid ''only managed resources are deletable'')
      else if r_delete_protected res then Inl EConflict
      else if count_active (r_id res) s > 0 then Inl EConflict
      else Inr ())"

record delete_cmd =
  dm_id :: string
  dm_actor :: string
  dm_dry_run :: bool
  dm_idem :: idem_args

definition delete_body ::
    "app_env \<Rightarrow> delete_cmd \<Rightarrow> string \<Rightarrow> (resource \<Rightarrow> int \<times> string) \<Rightarrow> db \<Rightarrow> err + (int \<times> string) \<times> db" where
  "delete_body env cmd oid build s =
     bindE (resource_get (dm_id cmd) s) (\<lambda>res.
     bindE (delete_gates res s) (\<lambda>_.
     case r_external_id res of
       None \<Rightarrow> bindE (mark_deleted (dm_id cmd) (ap_now env) s) (\<lambda>s. Inr (build res, s))
     | Some ext \<Rightarrow>
         (if \<not> can_transition (r_phase res) Deleting then Inl EConflict
          else
            bindE (cas_phase (dm_id cmd) (r_phase res) Deleting (ap_now env) s) (\<lambda>s.
            bindE (op_append (with_idem (dm_idem cmd)
               (new_op oid OpKindDelete (dm_id cmd) None (r_provider res)
                 \<lparr>ac_action_id = oid, ac_kind = ''delete'', ac_resource_id = dm_id cmd,
                  ac_ref = Some (stored_ref res ext), ac_params = BNil, ac_destructive = True\<rparr>
                 (ap_now env))) s) (\<lambda>s.
            bindE (event_append \<lparr>ev_ts = ap_now env, ev_actor = dm_actor cmd,
               ev_idem_key = ia_key (dm_idem cmd), ev_type = ''resource.delete'',
               ev_resource = Some (dm_id cmd), ev_pool = None, ev_operation = Some oid,
               ev_provider = r_provider res, ev_outcome = ''journaled''\<rparr> s) (\<lambda>s.
            Inr (build res, s)))))))"

definition delete_resource ::
    "app_env \<Rightarrow> delete_cmd \<Rightarrow> string \<Rightarrow> (resource \<Rightarrow> int \<times> string) \<Rightarrow> db \<Rightarrow> err + outcome \<times> db" where
  "delete_resource env cmd oid build s =
     (if dm_dry_run cmd then
        bindE (resource_get (dm_id cmd) s) (\<lambda>res.
        bindE (delete_gates res s) (\<lambda>_.
        Inr (\<lparr>oc_status = fst (build res), oc_body = snd (build res), oc_replayed = False\<rparr>, s)))
      else keyed_tx (dm_idem cmd) oid report_op (ap_now env) (ap_wall env)
             (delete_body env cmd oid build) s)"

section \<open>Acquire and release\<close>

record acquire_cmd =
  aq_kind :: string
  aq_class :: string
  aq_constraints :: "constraints blob"
  aq_exclusive :: bool
  aq_quantity :: int
  aq_ttl :: int
  aq_max_wait :: int
  aq_actor :: string
  aq_idem :: idem_args

definition effective_max_wait :: "app_env \<Rightarrow> acquire_cmd \<Rightarrow> int" where
  "effective_max_wait env cmd =
     (let w = (if aq_max_wait cmd \<le> 0 \<and> aq_class cmd \<noteq> [] then
                 (case se_classes (ap_sched env) (aq_class cmd) of
                    None \<Rightarrow> aq_max_wait cmd | Some cls \<Rightarrow> ct_queue_max_wait cls)
               else aq_max_wait cmd);
          pt = ap_pending_timeout_ms env
      in if pt > 0 \<and> milliseconds w > pt - 10000
         then (if (pt - 10000) * ms < 0 then 0 else (pt - 10000) * ms) else w)"

definition new_acquisition :: "app_env \<Rightarrow> acquire_cmd \<Rightarrow> string \<Rightarrow> acquisition" where
  "new_acquisition env cmd aid =
     \<lparr>a_id = aid, a_actor = aq_actor cmd,
      a_kind = (if aq_kind cmd = [] then ''compute.machine'' else aq_kind cmd),
      a_class = aq_class cmd,
      a_constraints = BVal \<lparr>rq_exclusive = aq_exclusive cmd, rq_constraints = aq_constraints cmd,
         rq_max_wait_ms = milliseconds (effective_max_wait env cmd)\<rparr>,
      a_quantity = 1, a_ttl_seconds = go_div (aq_ttl cmd) sec, a_state = AcqPending,
      a_lease = None, a_pending_resource = None, a_created_at = ap_now env, a_updated_at = ap_now env\<rparr>"

definition acquire_tx ::
    "app_env \<Rightarrow> acquire_cmd \<Rightarrow> string \<Rightarrow> (acquisition \<Rightarrow> int \<times> string) \<Rightarrow> db \<Rightarrow> err + outcome \<times> db" where
  "acquire_tx env cmd aid build s =
     (let a = new_acquisition env cmd aid in
      keyed_tx (aq_idem cmd) [] (\<lambda>_. []) (ap_now env) (ap_wall env)
        (\<lambda>s. bindE (acq_insert a s) (\<lambda>s.
             bindE (event_append \<lparr>ev_ts = ap_now env, ev_actor = aq_actor cmd,
                ev_idem_key = ia_key (aq_idem cmd), ev_type = ''acquisition.requested'',
                ev_resource = None, ev_pool = None, ev_operation = None, ev_provider = [],
                ev_outcome = ''pending''\<rparr> s) (\<lambda>s.
             Inr (build a, s)))) s)"

text \<open>
  The constraints of a request are JSON already; \<open>BBad\<close> is JSON of another shape than a constraints
  map, which the accept does not look into.
\<close>

definition acquire ::
    "app_env \<Rightarrow> acquire_cmd \<Rightarrow> string \<Rightarrow> (acquisition \<Rightarrow> int \<times> string) \<Rightarrow> db \<Rightarrow> (err + outcome) \<times> db" where
  "acquire env cmd aid build s =
     (if aq_quantity cmd \<noteq> 0 \<and> aq_quantity cmd \<noteq> 1 then (Inl (invalid ''quantity must be 1 in v1''), s)
      else if aq_class cmd = [] \<and> aq_constraints cmd = BNil
        then (Inl (invalid ''acquire needs a class and/or constraints''), s)
      else (case acquire_tx env cmd aid build s of
         Inl e \<Rightarrow> (Inl e, s)
       | Inr (out, s) \<Rightarrow>
           (if oc_replayed out then (Inr out, s)
            else (case satisfy (ap_sched env) aid s of
               (Inl ENoCapacity, s) \<Rightarrow>
                 (Inr out, tx_or_keep s (acq_transition aid AcqPending AcqFailed (ap_now env) s))
             | (_, s) \<Rightarrow> (Inr out, s)))))"

definition fill_resource_id :: "db \<Rightarrow> acquisition \<Rightarrow> acquisition" where
  "fill_resource_id s a =
     (if a_state a = AcqBound \<and> a_pending_resource a = None then
        (case a_lease a of
           None \<Rightarrow> a
         | Some lid \<Rightarrow> (case lease_get lid s of
             Inl _ \<Rightarrow> a | Inr l \<Rightarrow> a\<lparr>a_pending_resource := Some (l_resource l)\<rparr>))
      else a)"

definition get_acquisition :: "string \<Rightarrow> db \<Rightarrow> err + acquisition" where
  "get_acquisition aid s = bindE (acq_get aid s) (\<lambda>a. Inr (fill_resource_id s a))"

definition live_acq_states :: "acq_state list" where
  "live_acq_states = [AcqPending, AcqProvisioning, AcqBound]"

definition list_acquisitions :: "acq_state list \<Rightarrow> string \<Rightarrow> db \<Rightarrow> acquisition list" where
  "list_acquisitions states rid s =
     filter (\<lambda>a. rid = [] \<or> a_pending_resource a = Some rid)
       (map (fill_resource_id s)
         (acq_list_by_state (if states = [] then live_acq_states else states) s))"

definition app_release :: "app_env \<Rightarrow> string \<Rightarrow> db \<Rightarrow> err + db" where
  "app_release env aid s =
     bindE (acq_get aid s) (\<lambda>a.
     if a_state a = AcqReleased \<or> a_state a = AcqExpired then Inr s
     else release_acquisition (a_id a) (ap_now env) s)"

section \<open>Park, start, drain, protect\<close>

definition park_resource :: "app_env \<Rightarrow> string \<Rightarrow> string \<Rightarrow> string \<Rightarrow> db \<Rightarrow> err + db" where
  "park_resource env rid actor oid s =
     bindE (resource_get rid s) (\<lambda>res.
     if r_phase res = Parking \<or> r_phase res = Parked then Inl EAlreadyThere
     else journal_stop (ap_providers env) rid (ap_now env) actor False oid s)"

definition start_resource :: "app_env \<Rightarrow> string \<Rightarrow> string \<Rightarrow> string \<Rightarrow> db \<Rightarrow> err + db" where
  "start_resource env rid actor oid s =
     bindE (resource_get rid s) (\<lambda>res.
     if r_phase res = Starting \<or> r_phase res = Ready \<or> r_phase res = Allocated then Inl EAlreadyThere
     else journal_start (ap_providers env) rid (ap_now env) actor oid s)"

definition app_event :: "app_env \<Rightarrow> string \<Rightarrow> string \<Rightarrow> string option \<Rightarrow> string option \<Rightarrow> string option \<Rightarrow> string \<Rightarrow> string \<Rightarrow> event" where
  "app_event env actor ty rid pid oid prov outcome =
     \<lparr>ev_ts = ap_now env, ev_actor = actor, ev_idem_key = [], ev_type = ty, ev_resource = rid,
      ev_pool = pid, ev_operation = oid, ev_provider = prov, ev_outcome = outcome\<rparr>"

definition drain_resource :: "app_env \<Rightarrow> string \<Rightarrow> string \<Rightarrow> db \<Rightarrow> err + db" where
  "drain_resource env rid actor s =
     bindE (resource_get rid s) (\<lambda>res.
     if r_deleted_at res \<noteq> None then Inl ENotFound
     else if \<not> can_transition (r_phase res) Draining then Inl EConflict
     else bindE (cas_phase (r_id res) (r_phase res) Draining (ap_now env) s)
       (event_append (app_event env actor ''resource.drain'' (Some (r_id res)) None None
          (r_provider res) ''draining'')))"

definition undrain_resource :: "app_env \<Rightarrow> string \<Rightarrow> string \<Rightarrow> db \<Rightarrow> err + db" where
  "undrain_resource env rid actor s =
     bindE (resource_get rid s) (\<lambda>res.
     if r_deleted_at res \<noteq> None then Inl ENotFound
     else if r_phase res = Ready then Inl EAlreadyThere
     else if r_phase res \<noteq> Draining then Inl EConflict
     else bindE (cas_phase (r_id res) Draining Ready (ap_now env) s)
       (event_append (app_event env actor ''resource.undrain'' (Some (r_id res)) None None
          (r_provider res) ''ready'')))"

definition set_resource_protected :: "app_env \<Rightarrow> string \<Rightarrow> bool \<Rightarrow> string \<Rightarrow> db \<Rightarrow> err + db" where
  "set_resource_protected env rid protected actor s =
     bindE (resource_get rid s) (\<lambda>res.
     if r_deleted_at res \<noteq> None then Inl ENotFound
     else if r_delete_protected res = protected then Inl EAlreadyThere
     else bindE (set_delete_protected (r_id res) protected (ap_now env) s)
       (event_append (app_event env actor
          (if protected then ''resource.protected'' else ''resource.unprotected'')
          (Some (r_id res)) None None (r_provider res) ''applied'')))"

section \<open>Manual resolution\<close>

datatype resolve_action = RetryVerification | MarkFailed | OtherAction

definition resolve_operation :: "app_env \<Rightarrow> string \<Rightarrow> resolve_action \<Rightarrow> string \<Rightarrow> db \<Rightarrow> err + db" where
  "resolve_operation env oid act actor s =
     (case act of
        RetryVerification \<Rightarrow>
          bindE (op_transition oid OpUncertain OpVerifying
             (\<lambda>x. x\<lparr>op_next_attempt_at := None,
                op_verify_deadline_at := Some (ap_now env + milliseconds idem_retention)\<rparr>)
             (ap_wall env) s)
            (event_append (app_event env actor ''operation.resolve'' None None (Some oid) [] ''retry-verification''))
      | MarkFailed \<Rightarrow>
          bindE (op_get oid s) (\<lambda>x.
          bindE (op_transition oid OpUncertain OpFailed (\<lambda>y. y) (ap_wall env) s) (\<lambda>s.
          event_append (app_event env actor ''operation.resolve'' None None (Some oid) [] ''mark-failed'')
            (case op_resource x of
               None \<Rightarrow> s
             | Some rid \<Rightarrow> tx_or_keep s (cas_phase rid
                 (if op_kind x = OpKindDelete then Deleting else Provisioning) Failed (ap_now env) s))))
      | OtherAction \<Rightarrow> Inl (invalid ''unknown resolve action''))"

section \<open>The service's transactions keep the kernel invariant\<close>

lemma keyed_tx_cases:
  assumes "keyed_tx ia oid report now wall body s = Inr (out, s')"
  obtains st b where "ia_key ia = []" "body s = Inr ((st, b), s')"
      "out = \<lparr>oc_status = st, oc_body = b, oc_replayed = False\<rparr>"
  | rec where "ia_key ia \<noteq> []" "tget idem_key (ia_scope ia, ia_key ia) (idem s) = Some rec"
      "i_request_hash rec = ia_hash ia" "i_state rec \<noteq> IdemInProgress" "s' = s"
      "out = \<lparr>oc_status = i_http_status rec, oc_body = i_result rec, oc_replayed = True\<rparr>"
  | rec st b s1 s2 where "ia_key ia \<noteq> []" "tget idem_key (ia_scope ia, ia_key ia) (idem s) = None"
      "s1 = s\<lparr>idem := idem s @ [rec]\<rparr>" "body s1 = Inr ((st, b), s2)"
      "idem_complete (ia_scope ia) (ia_key ia) st b (now + milliseconds idem_retention) wall s2 = Inr s'"
      "out = \<lparr>oc_status = st, oc_body = b, oc_replayed = False\<rparr>"
proof (cases "ia_key ia = []")
  case True
  with assms that(1) show ?thesis by (auto simp: keyed_tx_def bindE_Inr_iff)
next
  case False
  show ?thesis
  proof (cases "tget idem_key (ia_scope ia, ia_key ia) (idem s)")
    case None
    with assms False that(3) show ?thesis
      by (auto simp: keyed_tx_def bindE_Inr_iff idem_begin_def Let_def)
  next
    case (Some rec)
    with assms False that(2) show ?thesis
      by (auto simp: keyed_tx_def idem_begin_def split: if_splits)
  qed
qed

lemma idem_complete_frame:
  assumes "idem_complete sc k st b e wall s = Inr s'"
  shows "resources s' = resources s" "operations s' = operations s" "leases s' = leases s"
    "acquisitions s' = acquisitions s"
  using assms by (auto simp: idem_complete_def idem_finish_def split: option.splits if_splits)

lemma kadv_keyed_tx:
  assumes "kinv s" and k: "keyed_tx ia oid report now wall body s = Inr (out, s')"
    and body: "\<And>t r t'. kinv t \<Longrightarrow> body t = Inr (r, t') \<Longrightarrow> kadv t t'"
  shows "kadv s s'"
  using k
proof (cases rule: keyed_tx_cases)
  case 1
  then show ?thesis using body assms(1) by blast
next
  case 2
  then show ?thesis using kadv_refl assms(1) by simp
next
  case (3 rec st b s1 s2)
  have 1: "kadv s s1" by (rule kadv_frame [OF assms(1)]) (simp_all add: 3(3))
  have 2: "kadv s1 s2" by (rule body [OF kadv_kinv [OF 1] 3(4)])
  have "kadv s2 s'" by (rule kadv_frame [OF kadv_kinv [OF 2]]) (use idem_complete_frame [OF 3(5)] in simp_all)
  then show ?thesis by (rule kadv_trans [OF kadv_trans [OF 1 2]])
qed

text \<open>The body of a keyed create, for any prepared create.\<close>

definition create_body ::
    "prepared \<Rightarrow> string \<Rightarrow> string \<Rightarrow> (resource \<Rightarrow> int \<times> string) \<Rightarrow> db \<Rightarrow> err + (int \<times> string) \<times> db" where
  "create_body p actor key build s = bindE (journal p actor key s) (\<lambda>s. Inr (build (pr_resource p), s))"

lemma with_idem_simps [simp]:
  "op_id (with_idem ia x) = op_id x" "op_kind (with_idem ia x) = op_kind x"
  "op_resource (with_idem ia x) = op_resource x" "op_terminal_at (with_idem ia x) = op_terminal_at x"
  "op_state (with_idem ia x) = op_state x"
  by (simp_all add: with_idem_def)

lemma create_ready_with_idem: "create_ready p \<Longrightarrow> create_ready (p\<lparr>pr_op := with_idem ia (pr_op p)\<rparr>)"
  by (simp add: create_ready_def)

lemma kadv_create_body: "kinv s \<Longrightarrow> create_ready p \<Longrightarrow> create_body p actor key build s = Inr (r, s') \<Longrightarrow> kadv s s'"
  by (auto simp: create_body_def bindE_Inr_iff intro: kadv_journal)

lemma create_resource_InrE:
  assumes "create_resource env cmd0 rid oid build s = Inr (out, s')"
  obtains cmd :: create_cmd and p where "create_ready p"
    "keyed_tx (cc_idem cmd) oid report_op (ap_now env) (ap_wall env)
       (create_body p (cc_actor cmd) (ia_key (cc_idem cmd)) build) s = Inr (out, s')"
proof -
  from assms obtain cmd where a: "resolve_create cmd0 s = Inr cmd"
    by (auto simp: create_resource_def bindE_Inr_iff)
  with assms have k: "is_ok (kinds_validate (ap_parse_duration env) (cc_kind cmd) (cc_spec cmd))"
    by (cases "kinds_validate (ap_parse_duration env) (cc_kind cmd) (cc_spec cmd)")
      (simp_all add: create_resource_def)
  with a assms obtain inst where "pv_instance (ap_providers env) (cc_provider cmd) = Some inst"
    by (cases "pv_instance (ap_providers env) (cc_provider cmd)") (auto simp: create_resource_def is_ok_iff)
  with a k assms obtain p0 where "prepare (ap_providers env) (se_owner (ap_sched env))
        \<lparr>cs_kind = cc_kind cmd, cs_provider = cc_provider cmd, cs_name = cc_name cmd,
         cs_spec = cc_spec cmd, cs_labels = cc_labels cmd, cs_class = cc_class cmd,
         cs_pool = None\<rparr> (ap_now env) rid oid = Inr p0"
    and "keyed_tx (cc_idem cmd) oid report_op (ap_now env) (ap_wall env)
       (create_body (p0\<lparr>pr_op := with_idem (cc_idem cmd) (pr_op p0)\<rparr>) (cc_actor cmd) (ia_key (cc_idem cmd)) build) s
       = Inr (out, s')"
    by (auto simp: create_resource_def is_ok_iff bindE_Inr_iff Let_def create_body_def [abs_def] split: if_splits)
  then show ?thesis using that prepare_create_ready create_ready_with_idem by blast
qed

lemma delete_gates_Inr:
  "delete_gates res s = Inr u \<longleftrightarrow> live res \<and> r_ownership res = Managed \<and> \<not> r_delete_protected res
     \<and> count_active (r_id res) s = 0"
  by (auto simp: delete_gates_def live_def)

lemma kadv_delete_body:
  assumes "kinv s" and d: "delete_body env cmd oid build s = Inr (r, s')"
  shows "kadv s s'"
proof -
  from d obtain res where row: "tget r_id (dm_id cmd) (resources s) = Some res"
    and g: "count_active (r_id res) s = 0"
    and m: "(case r_external_id res of
       None \<Rightarrow> bindE (mark_deleted (dm_id cmd) (ap_now env) s) (\<lambda>s. Inr (build res, s))
     | Some ext \<Rightarrow>
         (if \<not> can_transition (r_phase res) Deleting then Inl EConflict
          else
            bindE (cas_phase (dm_id cmd) (r_phase res) Deleting (ap_now env) s) (\<lambda>s.
            bindE (op_append (with_idem (dm_idem cmd)
               (new_op oid OpKindDelete (dm_id cmd) None (r_provider res)
                 \<lparr>ac_action_id = oid, ac_kind = ''delete'', ac_resource_id = dm_id cmd,
                  ac_ref = Some (stored_ref res ext), ac_params = BNil, ac_destructive = True\<rparr>
                 (ap_now env))) s) (\<lambda>s.
            bindE (event_append \<lparr>ev_ts = ap_now env, ev_actor = dm_actor cmd,
               ev_idem_key = ia_key (dm_idem cmd), ev_type = ''resource.delete'',
               ev_resource = Some (dm_id cmd), ev_pool = None, ev_operation = Some oid,
               ev_provider = r_provider res, ev_outcome = ''journaled''\<rparr> s) (\<lambda>s.
            Inr (build res, s)))))) = Inr (r, s')"
    unfolding delete_body_def bindE_Inr_iff resource_get_Inr delete_gates_Inr by blast
  have rid: "r_id res = dm_id cmd" using tget_SomeD [OF row] by simp
  show ?thesis
  proof (cases "r_external_id res")
    case None
    with m g rid show ?thesis using kadv_mark_deleted [OF assms(1)] by (auto simp: bindE_Inr_iff)
  next
    case (Some ext)
    with m obtain s1 s2 x e where "can_transition (r_phase res) Deleting"
      "cas_phase (dm_id cmd) (r_phase res) Deleting (ap_now env) s = Inr s1" "op_append x s1 = Inr s2"
      "event_append e s2 = Inr s'" "op_resource x = Some (dm_id cmd)" "op_kind x = OpKindDelete"
      "op_terminal_at x = None"
      by (auto simp: bindE_Inr_iff split: if_splits)
    then show ?thesis using kadv_delete_journaled [OF assms(1) row] g rid by simp
  qed
qed

definition acquire_body ::
    "acquisition \<Rightarrow> event \<Rightarrow> (acquisition \<Rightarrow> int \<times> string) \<Rightarrow> db \<Rightarrow> err + (int \<times> string) \<times> db" where
  "acquire_body a e build s =
     bindE (acq_insert a s) (\<lambda>s. bindE (event_append e s) (\<lambda>s. Inr (build a, s)))"

lemma kadv_acquire_body:
  assumes "kinv s" and "acquire_body a e build s = Inr (r, s')" and "a_state a \<noteq> AcqBound"
  shows "kadv s s'"
proof -
  from assms(2) obtain t where "acq_insert a s = Inr t" "event_append e t = Inr s'"
    by (auto simp: acquire_body_def bindE_Inr_iff)
  then show ?thesis using kadv_acq_insert [OF assms(1) _ assms(3)] kadv_event kadv_kinv kadv_trans by blast
qed

lemma kadv_acquire_tx:
  assumes "kinv s" and "acquire_tx env cmd aid build s = Inr (out, s')"
  shows "kadv s s'"
  using assms(1) assms(2) [unfolded acquire_tx_def Let_def, folded acquire_body_def]
  by (rule kadv_keyed_tx) (erule kadv_acquire_body, assumption, simp add: new_acquisition_def)

lemma kadv_app_release: "kinv s \<Longrightarrow> app_release env aid s = Inr s' \<Longrightarrow> kadv s s'"
  by (auto simp: app_release_def result_simps intro: kadv_refl kadv_release_acquisition split: if_splits)

lemma kadv_park_resource: "kinv s \<Longrightarrow> park_resource env rid actor oid s = Inr s' \<Longrightarrow> kadv s s'"
  by (auto simp: park_resource_def result_simps intro: kadv_journal_stop)

lemma kadv_start_resource: "kinv s \<Longrightarrow> start_resource env rid actor oid s = Inr s' \<Longrightarrow> kadv s s'"
  by (auto simp: start_resource_def result_simps intro: kadv_journal_start)

lemma kadv_cas_event:
  assumes "kinv s" and "bindE (cas_phase rid p q at s) (event_append e) = Inr s'"
    and "can_transition p q" and "idle_phase p" and "lease_phase q"
  shows "kadv s s'"
  using assms(1,2) by (rule kadv_bindE) (use assms in \<open>blast intro: kadv_cas_phase kadv_event\<close>)+

lemma drainable_idle: "can_transition p Draining \<Longrightarrow> idle_phase p"
  by (cases p) (simp_all add: can_transition_iff idle_phase_def)

lemma kadv_drain_resource:
  assumes "kinv s" and d: "drain_resource env rid actor s = Inr s'"
  shows "kadv s s'"
proof -
  from d obtain res :: resource and e where "can_transition (r_phase res) Draining"
    "bindE (cas_phase (r_id res) (r_phase res) Draining (ap_now env) s) (event_append e) = Inr s'"
    unfolding drain_resource_def bindE_Inr_iff [of "resource_get rid s"] by (auto split: if_splits)
  then show ?thesis
    using kadv_cas_event [OF assms(1)] drainable_idle by (auto simp: lease_phase_def)
qed

lemma kadv_undrain_resource:
  assumes "kinv s" and d: "undrain_resource env rid actor s = Inr s'"
  shows "kadv s s'"
proof -
  from d obtain res :: resource and e where "bindE (cas_phase (r_id res) Draining Ready (ap_now env) s) (event_append e) = Inr s'"
    unfolding undrain_resource_def bindE_Inr_iff [of "resource_get rid s"] by (auto split: if_splits)
  then show ?thesis
    by (rule kadv_cas_event [OF assms(1)]) (simp_all add: can_transition_iff idle_phase_def lease_phase_def)
qed

lemma kadv_set_resource_protected:
  assumes "kinv s" and d: "set_resource_protected env rid b actor s = Inr s'"
  shows "kadv s s'"
proof -
  from d obtain res :: resource and e where "bindE (set_delete_protected (r_id res) b (ap_now env) s) (event_append e) = Inr s'"
    unfolding set_resource_protected_def bindE_Inr_iff [of "resource_get rid s"] by (auto split: if_splits)
  from assms(1) this show ?thesis
    by (rule kadv_bindE) (use assms(1) in \<open>blast intro: kadv_set_delete_protected kadv_event\<close>)+
qed

lemma kadv_resolve_operation:
  assumes "kinv s" and r: "resolve_operation env oid act actor s = Inr s'"
  shows "kadv s s'"
proof (cases act)
  case RetryVerification
  with r have b: "bindE (op_transition oid OpUncertain OpVerifying
             (\<lambda>x. x\<lparr>op_next_attempt_at := None,
                op_verify_deadline_at := Some (ap_now env + milliseconds idem_retention)\<rparr>)
             (ap_wall env) s)
            (event_append (app_event env actor ''operation.resolve'' None None (Some oid) [] ''retry-verification'')) = Inr s'"
    by (simp add: resolve_operation_def)
  from assms(1) b show ?thesis
  proof (rule kadv_bindE)
    show "kadv s t" if "op_transition oid OpUncertain OpVerifying
             (\<lambda>x. x\<lparr>op_next_attempt_at := None,
                op_verify_deadline_at := Some (ap_now env + milliseconds idem_retention)\<rparr>)
             (ap_wall env) s = Inr t" for t
      by (rule kadv_op_transition [OF assms(1) that]) (simp_all add: keeps_state_def)
  qed (rule kadv_event)
next
  case MarkFailed
  with r obtain x t where row: "tget op_id oid (operations s) = Some x"
    and tr: "op_transition oid OpUncertain OpFailed (\<lambda>y. y) (ap_wall env) s = Inr t"
    and ev: "event_append (app_event env actor ''operation.resolve'' None None (Some oid) [] ''mark-failed'')
            (case op_resource x of
               None \<Rightarrow> t
             | Some rid \<Rightarrow> tx_or_keep t (cas_phase rid
                 (if op_kind x = OpKindDelete then Deleting else Provisioning) Failed (ap_now env) t)) = Inr s'"
    unfolding resolve_operation_def by (auto simp: bindE_Inr_iff op_get_Inr simp del: append.simps)
  have 1: "kadv s t" by (rule kadv_op_transition [OF assms(1) tr]) (simp_all add: keeps_state_def)
  have 2: "kadv t (case op_resource x of None \<Rightarrow> t | Some rid \<Rightarrow> tx_or_keep t (cas_phase rid
                 (if op_kind x = OpKindDelete then Deleting else Provisioning) Failed (ap_now env) t))"
  proof (cases "op_resource x")
    case None
    then show ?thesis using kadv_refl [OF kadv_kinv [OF 1]] by simp
  next
    case (Some rid)
    have no: "no_open rid t"
      by (rule no_open_after_terminal [OF kinvD(1) [OF assms(1)] tr _ _ _ row Some]) (simp_all add: keeps_state_def)
    have ok: "can_transition (if op_kind x = OpKindDelete then Deleting else Provisioning) Failed"
      "lease_phase Failed" by (simp_all add: can_transition_iff lease_phase_def)
    have "kadv t (tx_or_keep t (cas_phase rid (if op_kind x = OpKindDelete then Deleting else Provisioning)
        Failed (ap_now env) t))"
      using kadv_kinv [OF 1] no ok by (blast intro: kadv_keep kadv_cas_phase)
    then show ?thesis using Some by simp
  qed
  show ?thesis by (rule kadv_trans [OF kadv_trans [OF 1 2] kadv_event [OF kadv_kinv [OF 2] ev]])
next
  case OtherAction
  with r show ?thesis by (simp add: resolve_operation_def)
qed

end
