(* ===== verification/App_Admin.thy ===== *)
theory App_Admin
  imports App
begin

text \<open>
  Administration in internal/app: pools (pools.go), classes and the storage-backed class resolver
  (classes.go), the effective billing policy (providers.go), the provider health state machine
  (health.go) and the cost accounting of a finished delete (cost.go).
\<close>

section \<open>Pools\<close>

record upsert_pool_cmd =
  up_id :: string
  up_name :: string
  up_spec :: "pool_spec blob"
  up_actor :: string

definition validate_pool_spec :: "class_resolver \<Rightarrow> pool_spec \<Rightarrow> err + unit" where
  "validate_pool_spec resolver spec =
     (if ps_replicas spec < 0 then Inl (invalid ''replicas must be >= 0'')
      else if ps_min_running spec < 0 \<or> ps_min_running spec > ps_replicas spec
        then Inl (invalid ''minRunning must be between 0 and replicas'')
      else if (case ps_reclaim spec of None \<Rightarrow> False | Some p \<Rightarrow> rp_delete_after p > 0)
        then Inl (invalid ''reclaim.deleteAfter applies to poolless classes only'')
      else if ps_class spec \<noteq> [] then
        (if resolver (ps_class spec) = None then Inl (invalid ''unknown class'') else Inr ())
      else if ps_machine spec = None \<or> ps_provider spec = [] \<or> ps_kind spec = []
        then Inl (invalid ''pool spec needs either class or kind+provider+machine'')
      else Inr ())"

text \<open>The row the upsert writes: an existing one by id or by name, or a new one with id \<open>pid\<close>.\<close>

definition pool_row :: "upsert_pool_cmd \<Rightarrow> pool_spec \<Rightarrow> int \<Rightarrow> string \<Rightarrow> db \<Rightarrow> err + pool" where
  "pool_row cmd spec now pid s =
     (if up_id cmd \<noteq> [] then
        bindE (pool_get (up_id cmd) s) (\<lambda>p. Inr (if up_name cmd \<noteq> [] then p\<lparr>p_name := up_name cmd\<rparr> else p))
      else (case pool_get_by_name (up_name cmd) s of
          Inr p \<Rightarrow> Inr p
        | Inl _ \<Rightarrow> Inr \<lparr>p_id = pid, p_name = up_name cmd, p_kind = ps_kind spec, p_spec = BNil,
            p_generation = 1, p_observed_generation = 0, p_paused = False, p_created_at = now,
            p_updated_at = 0\<rparr>))"

definition upsert_pool :: "app_env \<Rightarrow> upsert_pool_cmd \<Rightarrow> string \<Rightarrow> db \<Rightarrow> err + pool \<times> db" where
  "upsert_pool env cmd pid s =
     (if up_name cmd = [] \<and> up_id cmd = [] then Inl (invalid ''pool needs metadata.name'')
      else (case up_spec cmd of
         BVal spec \<Rightarrow>
           bindE (validate_pool_spec (se_classes (ap_sched env)) spec) (\<lambda>_.
           bindE (pool_row cmd spec (ap_now env) pid s) (\<lambda>p0.
           let p = p0\<lparr>p_spec := up_spec cmd, p_updated_at := ap_now env\<rparr> in
           bindE (pool_upsert p s) (\<lambda>s.
           bindE (event_append (app_event env (up_actor cmd) ''pool.upserted'' None (Some (p_id p)) None []
              ''applied'') s) (\<lambda>s. Inr (p, s)))))
       | _ \<Rightarrow> Inl (invalid ''pool spec'')))"

definition get_pool :: "string \<Rightarrow> db \<Rightarrow> err + pool" where
  "get_pool i s = (case pool_get i s of Inr p \<Rightarrow> Inr p | Inl _ \<Rightarrow> pool_get_by_name i s)"

definition app_set_pool_paused :: "app_env \<Rightarrow> string \<Rightarrow> bool \<Rightarrow> string \<Rightarrow> db \<Rightarrow> err + db" where
  "app_set_pool_paused env i paused actor s =
     bindE (get_pool i s) (\<lambda>p.
     if p_paused p = paused then Inl EAlreadyThere
     else bindE (pool_set_paused (p_id p) paused (ap_now env) s)
       (event_append (app_event env actor (if paused then ''pool.paused'' else ''pool.resumed'')
          None (Some (p_id p)) None [] ''applied'')))"

definition app_delete_pool :: "app_env \<Rightarrow> string \<Rightarrow> string \<Rightarrow> db \<Rightarrow> err + db" where
  "app_delete_pool env i actor s =
     bindE (get_pool i s) (\<lambda>p0.
     bindE (pool_get (p_id p0) s) (\<lambda>p.
     case p_spec p of
       BVal spec \<Rightarrow>
         (if ps_replicas spec > 0 then Inl EConflict
          else if resource_list (no_filter\<lparr>f_pool := Some (p_id p)\<rparr>) s \<noteq> [] then Inl EConflict
          else bindE (pool_delete (p_id p) s)
            (event_append (app_event env actor ''pool.deleted'' None (Some (p_id p)) None [] ''deleted'')))
     | _ \<Rightarrow> Inl (invalid ''pool spec'')))"

text \<open>A kick of the reconciler, refused for a paused pool; the kick itself is only a wake-up.\<close>

definition reconcile_pool :: "string \<Rightarrow> db \<Rightarrow> err + unit" where
  "reconcile_pool i s =
     bindE (get_pool i s) (\<lambda>p. if p_paused p then Inl EConflict else Inr ())"

section \<open>Classes\<close>

definition pos_ms :: "int option \<Rightarrow> bool" where
  "pos_ms x = (case x of None \<Rightarrow> False | Some n \<Rightarrow> n > 0)"

definition ms_dur :: "int option \<Rightarrow> int" where
  "ms_dur x = (case x of None \<Rightarrow> 0 | Some n \<Rightarrow> n * ms)"

definition to_reconcile_class :: "class_record \<Rightarrow> class_tmpl" where
  "to_reconcile_class rec =
     \<lparr>ct_kind = c_kind rec, ct_provider = c_provider rec, ct_spec = c_spec rec,
      ct_reclaim = (if pos_ms (c_reclaim_idle_after_ms rec) \<or> c_reclaim_park rec \<noteq> []
                       \<or> pos_ms (c_reclaim_delete_after_ms rec)
                    then Some \<lparr>rp_idle_after = ms_dur (c_reclaim_idle_after_ms rec),
                               rp_park = c_reclaim_park rec,
                               rp_delete_after = ms_dur (c_reclaim_delete_after_ms rec)\<rparr>
                    else None),
      ct_queue_max_wait = (if pos_ms (c_queue_max_wait_ms rec) then ms_dur (c_queue_max_wait_ms rec)
                           else 0)\<rparr>"

text \<open>\<open>ClassRegistry.Class\<close>: the resolver that reads the database at every call.\<close>

definition class_registry :: "db \<Rightarrow> class_resolver" where
  "class_registry s name =
     (case class_get name s of Inl _ \<Rightarrow> None | Inr rec \<Rightarrow> Some (to_reconcile_class rec))"

definition millis_opt :: "int \<Rightarrow> int option" where
  "millis_opt d = (if d > 0 then Some (milliseconds d) else None)"

definition config_record :: "string \<Rightarrow> class_tmpl \<Rightarrow> int \<Rightarrow> class_record" where
  "config_record name cls now =
     \<lparr>c_name = name, c_kind = ct_kind cls, c_provider = ct_provider cls, c_spec = ct_spec cls,
      c_reclaim_idle_after_ms = (case ct_reclaim cls of None \<Rightarrow> None | Some r \<Rightarrow> millis_opt (rp_idle_after r)),
      c_reclaim_park = (case ct_reclaim cls of None \<Rightarrow> [] | Some r \<Rightarrow> rp_park r),
      c_reclaim_delete_after_ms = (case ct_reclaim cls of None \<Rightarrow> None | Some r \<Rightarrow> millis_opt (rp_delete_after r)),
      c_queue_max_wait_ms = millis_opt (ct_queue_max_wait cls), c_source = ''config'',
      c_created_at = now, c_updated_at = now\<rparr>"

fun seed_prune :: "(string \<times> class_tmpl) list \<Rightarrow> class_record list \<Rightarrow> db \<Rightarrow> err + db" where
  "seed_prune cfg [] s = Inr s"
| "seed_prune cfg (rec # rs) s =
     (if map_of cfg (c_name rec) = None
      then bindE (class_delete (c_name rec) s) (seed_prune cfg rs)
      else seed_prune cfg rs s)"

fun seed_upsert :: "int \<Rightarrow> (string \<times> class_tmpl) list \<Rightarrow> db \<Rightarrow> err + db" where
  "seed_upsert now [] s = Inr s"
| "seed_upsert now ((name, cls) # cfg) s =
     bindE (class_upsert (config_record name cls now) s) (seed_upsert now cfg)"

definition seed_config_classes :: "(string \<times> class_tmpl) list \<Rightarrow> int \<Rightarrow> db \<Rightarrow> err + db" where
  "seed_config_classes cfg now s =
     bindE (seed_prune cfg (class_list_by_source ''config'' s) s) (seed_upsert now cfg)"

record upsert_class_cmd =
  uc_name :: string
  uc_kind :: string
  uc_provider :: string
  uc_template :: "json blob"
  uc_reclaim_idle :: int
  uc_reclaim_park :: string
  uc_reclaim_del :: int
  uc_queue_max_wait :: int
  uc_actor :: string
  uc_must_create :: bool

definition is_space :: "char \<Rightarrow> bool" where
  "is_space c = (c \<in> {CHR '' '', CHR 0x09, CHR 0x0A, CHR 0x0B, CHR 0x0C, CHR 0x0D})"

definition trim_space :: "string \<Rightarrow> string" where
  "trim_space s = rev (dropWhile is_space (rev (dropWhile is_space s)))"

definition valid_class_name :: "string \<Rightarrow> bool" where
  "valid_class_name n \<longleftrightarrow>
     n \<noteq> [] \<and> length n \<le> 63 \<and> \<not> list_ex (\<lambda>c. c \<in> {CHR '' '', CHR 0x09, CHR 0x0A, CHR ''/''}) n"

definition validate_class :: "app_env \<Rightarrow> upsert_class_cmd \<Rightarrow> err + string" where
  "validate_class env cmd =
     (let name = trim_space (uc_name cmd) in
      if \<not> valid_class_name name then Inl (invalid ''class name'')
      else if \<not> is_ok (kinds_validate (ap_parse_duration env) (uc_kind cmd) (uc_template cmd))
        then Inl (invalid ''template'')
      else if pv_instance (ap_providers env) (uc_provider cmd) = None
        then Inl (invalid ''unknown provider instance'')
      else if uc_reclaim_idle cmd < 0 \<or> uc_reclaim_del cmd < 0 \<or> uc_queue_max_wait cmd < 0
        then Inl (invalid ''reclaim and queue durations must be >= 0'')
      else if uc_reclaim_park cmd \<noteq> [] \<and> uc_reclaim_park cmd \<noteq> ''auto'' \<and> uc_reclaim_park cmd \<noteq> ''never''
        then Inl (invalid ''reclaim.park must be auto or never'')
      else if ap_pending_timeout_ms env > 0 \<and> milliseconds (uc_queue_max_wait cmd) > ap_pending_timeout_ms env
        then Inl (invalid ''maxWait exceeds acquire.pendingTimeout'')
      else Inr name)"

definition api_record :: "upsert_class_cmd \<Rightarrow> string \<Rightarrow> int \<Rightarrow> class_record" where
  "api_record cmd name now =
     \<lparr>c_name = name, c_kind = uc_kind cmd, c_provider = uc_provider cmd, c_spec = uc_template cmd,
      c_reclaim_idle_after_ms = millis_opt (uc_reclaim_idle cmd), c_reclaim_park = uc_reclaim_park cmd,
      c_reclaim_delete_after_ms = millis_opt (uc_reclaim_del cmd),
      c_queue_max_wait_ms = millis_opt (uc_queue_max_wait cmd), c_source = ''api'',
      c_created_at = now, c_updated_at = now\<rparr>"

definition upsert_class :: "app_env \<Rightarrow> upsert_class_cmd \<Rightarrow> db \<Rightarrow> err + class_record \<times> db" where
  "upsert_class env cmd s =
     bindE (validate_class env cmd) (\<lambda>name.
     let rec0 = api_record cmd name (ap_now env) in
     bindE (case class_get name s of
         Inr cur \<Rightarrow>
           (if c_source cur = ''config'' then Inl EClassConfigOwned
            else if uc_must_create cmd then Inl EClassExists
            else Inr (rec0\<lparr>c_created_at := c_created_at cur\<rparr>))
       | Inl e \<Rightarrow> (if e \<noteq> ENotFound then Inl e else Inr rec0)) (\<lambda>rec.
     bindE (class_upsert rec s) (\<lambda>s.
     bindE (event_append (app_event env (uc_actor cmd) ''class.upserted'' None None None [] ''ok'') s) (\<lambda>s.
     Inr (rec, s)))))"

definition references_class :: "string \<Rightarrow> pool \<Rightarrow> bool" where
  "references_class name p = (case p_spec p of BVal spec \<Rightarrow> ps_class spec = name | _ \<Rightarrow> False)"

definition delete_class :: "app_env \<Rightarrow> string \<Rightarrow> string \<Rightarrow> db \<Rightarrow> err + db" where
  "delete_class env name actor s =
     bindE (class_get name s) (\<lambda>rec.
     if c_source rec = ''config'' then Inl EClassConfigOwned
     else if list_ex (references_class name) (pool_list s) then Inl EConflict
     else bindE (class_delete name s)
       (event_append (app_event env actor ''class.deleted'' None None None [] ''ok'')))"

section \<open>The effective billing policy\<close>

record billing_override =
  bo_disabled :: bool
  bo_minimum :: "int option"
  bo_increment :: "int option"
  bo_buffer :: "int option"
  bo_adaptive :: bool

definition override :: "'a option \<Rightarrow> 'a \<Rightarrow> 'a" where
  "override x d = (case x of None \<Rightarrow> d | Some v \<Rightarrow> v)"

definition merge_billing :: "billing_policy \<Rightarrow> billing_override \<Rightarrow> billing_policy \<times> bool" where
  "merge_billing pol ov =
     (if bo_disabled ov then (zero_billing, False)
      else (\<lparr>bp_minimum = override (bo_minimum ov) (bp_minimum pol),
             bp_increment = override (bo_increment ov) (bp_increment pol),
             bp_buffer = override (bo_buffer ov) (bp_buffer pol)\<rparr>, bo_adaptive ov))"

text \<open>
  \<open>resolveBilling\<close> of one instance: the overrides of its kinds, merged over the driver's policy
  (\<open>drv\<close>); an override of a kind the driver does not declare is an error.
\<close>

fun resolve_billing ::
    "string list \<Rightarrow> (string \<Rightarrow> billing_policy) \<Rightarrow> (string \<times> billing_override) list
      \<Rightarrow> err + (string \<times> billing_policy \<times> bool) list" where
  "resolve_billing declared drv [] = Inr []"
| "resolve_billing declared drv ((k, ov) # ovs) =
     (if k \<notin> set declared then Inl (EOther ''billing: kind not served by driver'')
      else bindE (resolve_billing declared drv ovs) (\<lambda>m. Inr ((k, merge_billing (drv k) ov) # m)))"

definition instance_billing ::
    "(string \<times> billing_policy \<times> bool) list \<Rightarrow> (string \<Rightarrow> billing_policy) \<Rightarrow> string \<Rightarrow> billing_policy \<times> bool" where
  "instance_billing overrides drv k =
     (case map_of overrides k of None \<Rightarrow> (drv k, False) | Some x \<Rightarrow> x)"

section \<open>Provider health\<close>

datatype health_state = HUnknown | HHealthy | HDegraded | HUnavailable

record provider_health =
  ph_state :: health_state
  ph_since :: int
  ph_last_check :: int
  ph_failures :: int

record health_config =
  hc_interval :: int
  hc_degraded_after :: int
  hc_unavailable_after :: int

definition health_defaults :: "health_config \<Rightarrow> health_config" where
  "health_defaults c =
     \<lparr>hc_interval = (if hc_interval c \<le> 0 then 30 * sec else hc_interval c),
      hc_degraded_after = (if hc_degraded_after c \<le> 0 then 3 else hc_degraded_after c),
      hc_unavailable_after = (if hc_unavailable_after c \<le> 0 then 10 else hc_unavailable_after c)\<rparr>"

definition health_new :: "int \<Rightarrow> provider_health" where
  "health_new now = \<lparr>ph_state = HUnknown, ph_since = now, ph_last_check = 0, ph_failures = 0\<rparr>"

definition set_state :: "health_state \<Rightarrow> int \<Rightarrow> provider_health \<Rightarrow> provider_health" where
  "set_state st now h = (if ph_state h \<noteq> st then h\<lparr>ph_state := st, ph_since := now\<rparr> else h)"

definition health_record :: "health_config \<Rightarrow> int \<Rightarrow> bool \<Rightarrow> provider_health \<Rightarrow> provider_health" where
  "health_record c now failed h =
     (let h = h\<lparr>ph_last_check := now\<rparr> in
      if \<not> failed then (set_state HHealthy now h)\<lparr>ph_failures := 0\<rparr>
      else (let h = h\<lparr>ph_failures := ph_failures h + 1\<rparr> in
        set_state (if ph_failures h \<ge> hc_unavailable_after c then HUnavailable
                   else if ph_failures h \<ge> hc_degraded_after c then HDegraded
                   else ph_state h) now h))"

section \<open>Cost accounting\<close>

record cost_report =
  cr_overrun :: bool
  cr_paid :: int
  cr_useful :: int
  cr_idle :: int

definition lease_span :: "lease \<Rightarrow> interval" where
  "lease_span l = (l_created_at l, case l_ended_at l of None \<Rightarrow> 0 | Some e \<Rightarrow> e)"

definition cost_of_delete :: "billing_policy \<Rightarrow> operation \<Rightarrow> resource \<Rightarrow> lease list \<Rightarrow> cost_report" where
  "cost_of_delete pol x res ls =
     (let total_paid = paid ((op_updated_at x - r_created_at res) * ms) pol;
          useful = useful_millis (map lease_span ls) (op_updated_at x) * ms
      in \<lparr>cr_overrun = (case next_boundary (r_created_at res) pol (op_created_at x) of
              None \<Rightarrow> False | Some b \<Rightarrow> op_updated_at x \<ge> b),
          cr_paid = total_paid, cr_useful = useful,
          cr_idle = (if total_paid - useful < 0 then 0 else total_paid - useful)\<rparr>)"

definition cost_op_terminal :: "providers \<Rightarrow> operation \<Rightarrow> db \<Rightarrow> cost_report option" where
  "cost_op_terminal pv x s =
     (if op_kind x \<noteq> OpKindDelete \<or> op_state x \<noteq> OpSucceeded then None
      else (case op_resource x of
         None \<Rightarrow> None
       | Some rid \<Rightarrow> (case resource_get rid s of
           Inl _ \<Rightarrow> None
         | Inr res \<Rightarrow>
             (let pol = fst (pv_billing pv (op_provider x) (r_kind res)) in
              if fine_grained pol then None
              else Some (cost_of_delete pol x res (leases_by_resource rid s))))))"

section \<open>Administration keeps the kernel invariant\<close>

lemma tget_map: "keeps_key key f \<Longrightarrow> tget key k (map f t) = map_option f (tget key k t)"
  by (induction t) (auto simp: keeps_keyD)

text \<open>Rows rewritten in columns the invariant does not read.\<close>

lemma kadv_relabel:
  assumes "kinv s" and rs: "resources s' = map f (resources s)" and xs: "operations s' = map g (operations s)"
    and ls: "leases s' = leases s" and as: "acquisitions s' = acquisitions s"
    and f: "\<And>r. r_id (f r) = r_id r" "\<And>r. r_phase (f r) = r_phase r" "\<And>r. live (f r) = live r"
    and g: "\<And>x. op_id (g x) = op_id x" "\<And>x. op_kind (g x) = op_kind x"
      "\<And>x. op_resource (g x) = op_resource x" "\<And>x. op_state (g x) = op_state x"
      "\<And>x. op_terminal_at (g x) = op_terminal_at x"
  shows "kadv s s'"
proof -
  note c = coreD [OF kinvD(1) [OF assms(1)]]
  have kf: "keeps_key r_id f" and kg: "keeps_key op_id g" using f g by (simp_all add: keeps_key_def)
  have og: "open_on rid (g x) = open_on rid x" for rid x using g by (simp add: open_on_def is_open_def)
  have "core s'"
  proof (rule coreI)
    show "distinct (map r_id (resources s'))" using c(1) f by (simp add: rs comp_def)
    show "distinct (map op_id (operations s'))" using c(2) g by (simp add: xs comp_def)
    show "distinct (map l_id (leases s'))" using c(3) by (simp add: ls)
    show "stamped x" if "x \<in> set (operations s')" for x
    proof -
      from that obtain y where "y \<in> set (operations s)" "x = g y" by (auto simp: xs)
      then show ?thesis using c(4) [of y] g by (simp add: stamped_def)
    qed
    show "one_open s'" using c(5) unfolding one_open_def xs set_map by (auto simp: og)
    show "shielded s'"
      unfolding shielded_def
    proof (intro ballI allI impI)
      fix y rid
      assume "y \<in> set (operations s')" "open_on rid y"
      then obtain x where "x \<in> set (operations s)" "open_on rid x" "op_kind y = op_kind x"
        using og g by (auto simp: xs)
      with c(6) obtain r where "tget r_id rid (resources s) = Some r"
        "live r \<longrightarrow> r_phase r = busy_phase (op_kind y)" by (auto simp: shielded_def)
      then show "\<exists>r. tget r_id rid (resources s') = Some r \<and> (live r \<longrightarrow> r_phase r = busy_phase (op_kind y))"
        by (simp add: rs tget_map [OF kf] f)
    qed
    show "leased_safe s'" using c(7) by (fastforce simp: leased_safe_def rs ls tget_map [OF kf] f)
    show "exclusive_alone s'" using c(8) by (simp add: exclusive_alone_def ls)
  qed
  moreover have "evolves s s'"
    using f g by (auto simp: evolves_def rows_evolve_def rs xs ls tget_map [OF kf] tget_map [OF kg]
        resource_evolves_def op_evolves_def)
  moreover have "calm s s'"
    using g og by (auto simp: calm_def no_create_def xs)
  ultimately show ?thesis
    using assms(1) ls as by (auto simp: kadv_def kinv_def intro: acq_ok_frame)
qed

lemma kadv_pool_delete:
  assumes "kinv s" and "pool_delete pid s = Inr s'"
  shows "kadv s s'"
  using assms(1)
proof (rule kadv_relabel)
  show "resources s' = map (\<lambda>r. if r_pool r = Some pid \<and> \<not> live r then r\<lparr>r_pool := None\<rparr> else r) (resources s)"
    and "operations s' = map (\<lambda>x. if op_pool x = Some pid \<and> \<not> is_open x then x\<lparr>op_pool := None\<rparr> else x) (operations s)"
    and "leases s' = leases s" and "acquisitions s' = acquisitions s"
    using assms(2) by (auto simp: pool_delete_def Let_def split: if_splits)
qed (simp_all add: live_def)

lemma kadv_app_delete_pool:
  assumes "kinv s" and "app_delete_pool env i actor s = Inr s'"
  shows "kadv s s'"
proof -
  from assms(2) obtain p0 p where "get_pool i s = Inr p0" "pool_get (p_id p0) s = Inr p"
    unfolding app_delete_pool_def bindE_Inr_iff by blast
  with assms(2) obtain e where "bindE (pool_delete (p_id p) s) (event_append e) = Inr s'"
    by (cases "p_spec p") (simp_all add: app_delete_pool_def split: if_splits)
  from assms(1) this show ?thesis
    by (rule kadv_bindE) (use assms(1) in \<open>blast intro: kadv_pool_delete kadv_event\<close>)+
qed

text \<open>What touches pools, classes and events only.\<close>

definition same_core_tables :: "db \<Rightarrow> db \<Rightarrow> bool" where
  "same_core_tables s s' \<longleftrightarrow> resources s' = resources s \<and> operations s' = operations s
     \<and> leases s' = leases s \<and> acquisitions s' = acquisitions s"

lemma kadv_same_core: "kinv s \<Longrightarrow> same_core_tables s s' \<Longrightarrow> kadv s s'"
  by (rule kadv_frame) (simp_all add: same_core_tables_def)

lemma same_core_trans: "same_core_tables s t \<Longrightarrow> same_core_tables t u \<Longrightarrow> same_core_tables s u"
  by (simp add: same_core_tables_def)

lemma same_core_primitives:
  "pool_upsert p s = Inr s' \<Longrightarrow> same_core_tables s s'"
  "pool_set_paused pid b at s = Inr s' \<Longrightarrow> same_core_tables s s'"
  "class_upsert c s = Inr s' \<Longrightarrow> same_core_tables s s'"
  "class_delete n s = Inr s' \<Longrightarrow> same_core_tables s s'"
  "event_append e s = Inr s' \<Longrightarrow> same_core_tables s s'"
  by (auto simp: same_core_tables_def pool_upsert_def pool_set_paused_def class_upsert_def
      class_delete_def event_append_def split: if_splits option.splits)

lemma same_core_upsert_pool: "upsert_pool env cmd pid s = Inr (p, s') \<Longrightarrow> same_core_tables s s'"
  by (auto simp: upsert_pool_def bindE_Inr_iff Let_def split: if_splits blob.splits
      intro: same_core_trans same_core_primitives)

lemma same_core_set_pool_paused: "app_set_pool_paused env i b actor s = Inr s' \<Longrightarrow> same_core_tables s s'"
  by (auto simp: app_set_pool_paused_def bindE_Inr_iff split: if_splits
      intro: same_core_trans same_core_primitives)

lemma same_core_upsert_class: "upsert_class env cmd s = Inr (c, s') \<Longrightarrow> same_core_tables s s'"
  by (auto simp: upsert_class_def bindE_Inr_iff Let_def intro: same_core_trans same_core_primitives)

lemma same_core_delete_class: "delete_class env n actor s = Inr s' \<Longrightarrow> same_core_tables s s'"
  by (auto simp: delete_class_def bindE_Inr_iff split: if_splits
      intro: same_core_trans same_core_primitives)

lemma same_core_seed:
  "seed_prune cfg recs s = Inr s' \<Longrightarrow> same_core_tables s s'"
  "seed_upsert now cfg s = Inr s' \<Longrightarrow> same_core_tables s s'"
proof -
  show "seed_prune cfg recs s = Inr s' \<Longrightarrow> same_core_tables s s'"
    by (induction recs arbitrary: s)
      (auto simp: same_core_tables_def bindE_Inr_iff dest!: same_core_primitives(4) split: if_splits)
  show "seed_upsert now cfg s = Inr s' \<Longrightarrow> same_core_tables s s'"
    by (induction cfg arbitrary: s)
      (auto simp: same_core_tables_def bindE_Inr_iff dest!: same_core_primitives(3))
qed

lemma same_core_seed_config: "seed_config_classes cfg now s = Inr s' \<Longrightarrow> same_core_tables s s'"
  by (auto simp: seed_config_classes_def bindE_Inr_iff intro: same_core_trans same_core_seed)

end
