(* ===== verification/Engine.thy ===== *)
theory Engine
  imports Kernel_Laws Compute
begin

text \<open>
  The operation engine (internal/operations/engine.go): the only component that calls provider
  mutations. A drive takes one journaled operation as the batch read it, calls the driver, and
  commits what it learned in one or two transactions. The environment record holds what the code
  reads from outside the database: the providers, the configuration, the clocks, the jitter, the
  network of the readiness probe and the \<open>OnTerminal\<close> callback.
\<close>

record engine_config =
  ec_poll_interval :: int
  ec_verify_window :: int
  ec_backoff_base :: int
  ec_backoff_cap :: int
  ec_max_batch :: int

definition engine_defaults :: "engine_config \<Rightarrow> engine_config" where
  "engine_defaults c =
     \<lparr>ec_poll_interval = (if ec_poll_interval c \<le> 0 then 2 * sec else ec_poll_interval c),
      ec_verify_window = (if ec_verify_window c \<le> 0 then 120 * sec else ec_verify_window c),
      ec_backoff_base = (if ec_backoff_base c \<le> 0 then 2 * sec else ec_backoff_base c),
      ec_backoff_cap = (if ec_backoff_cap c \<le> 0 then 5 * 60 * sec else ec_backoff_cap c),
      ec_max_batch = (if ec_max_batch c \<le> 0 then 16 else ec_max_batch c)\<rparr>"

text \<open>
  \<open>ee_jitter\<close> is \<open>time.Duration(float64(d) * (0.5 + rand.Float64()))\<close>, \<open>ee_wall\<close> the clock of the
  store's own stamps.
\<close>

record engine_env =
  ee_providers :: providers
  ee_cfg :: engine_config
  ee_now :: int
  ee_wall :: int
  ee_jitter :: "int \<Rightarrow> int"
  ee_network :: network
  ee_parse_duration :: "string \<Rightarrow> int option"
  ee_on_terminal :: "operation \<Rightarrow> db \<Rightarrow> db"

definition is_park_op :: "op_kind \<Rightarrow> bool" where
  "is_park_op k = (k = OpKindStop \<or> k = OpKindStart)"

definition max_park_op_attempts :: int where
  "max_park_op_attempts = 8"

section \<open>Helpers\<close>

definition driver_and_action :: "engine_env \<Rightarrow> operation \<Rightarrow> db \<Rightarrow> err + driver \<times> action" where
  "driver_and_action env x s =
     (case op_action x of
        BVal act \<Rightarrow>
          (case pv_instance (ee_providers env) (op_provider x) of
             None \<Rightarrow> Inl (EOther ''provider instance not configured'')
           | Some inst \<Rightarrow>
               (let kind = (case op_resource x of
                       None \<Rightarrow> ''compute.machine''
                     | Some rid \<Rightarrow> (case resource_get rid s of
                                    Inl _ \<Rightarrow> ''compute.machine'' | Inr r \<Rightarrow> r_kind r))
                in (case pi_driver inst kind of
                      None \<Rightarrow> Inl (EOther ''provider has no driver for kind'')
                    | Some d \<Rightarrow> Inr (d, act))))
      | _ \<Rightarrow> Inl (EOther ''corrupt journaled action''))"

definition label_discovery :: "engine_env \<Rightarrow> operation \<Rightarrow> bool" where
  "label_discovery env x =
     (case pv_instance (ee_providers env) (op_provider x) of
        None \<Rightarrow> False | Some inst \<Rightarrow> pi_label_discovery inst)"

definition set_err :: "error_class \<Rightarrow> err \<Rightarrow> operation \<Rightarrow> operation" where
  "set_err c cause x = x\<lparr>op_error_class := Some c, op_error := Some cause\<rparr>"

definition notify_terminal :: "engine_env \<Rightarrow> string \<Rightarrow> db \<Rightarrow> db" where
  "notify_terminal env oid s =
     (case op_get oid s of Inl _ \<Rightarrow> s | Inr x \<Rightarrow> ee_on_terminal env x s)"

text \<open>A transaction after whose commit the terminal callback runs.\<close>

definition commit_terminal :: "engine_env \<Rightarrow> string \<Rightarrow> db \<Rightarrow> err + db \<Rightarrow> err option \<times> db" where
  "commit_terminal env oid s r =
     (case r of Inl e \<Rightarrow> (Some e, s) | Inr s' \<Rightarrow> (None, notify_terminal env oid s'))"

definition backoff :: "engine_env \<Rightarrow> int \<Rightarrow> err option \<Rightarrow> int" where
  "backoff env attempt cause =
     (let d = i64 (ec_backoff_base (ee_cfg env) * 2 ^ nat (min attempt 16));
          d = (if d > ec_backoff_cap (ee_cfg env) \<or> d \<le> 0 then ec_backoff_cap (ee_cfg env) else d);
          d = ee_jitter env d;
          d = (case cause of None \<Rightarrow> d
               | Some e \<Rightarrow> (case retry_after_of e of None \<Rightarrow> d | Some ra \<Rightarrow> if ra > d then ra else d))
      in if d < 10 * ms then 10 * ms else d)"

definition op_event :: "int \<Rightarrow> string \<Rightarrow> operation \<Rightarrow> string \<Rightarrow> event" where
  "op_event now ty x outcome =
     \<lparr>ev_ts = now, ev_actor = [], ev_idem_key = [], ev_type = ty, ev_resource = op_resource x,
      ev_pool = None, ev_operation = Some (op_id x), ev_provider = op_provider x,
      ev_outcome = outcome\<rparr>"

definition reschedule :: "engine_env \<Rightarrow> operation \<Rightarrow> err option \<Rightarrow> db \<Rightarrow> err option \<times> db" where
  "reschedule env x cause s =
     (let next = ee_now env + milliseconds (backoff env (op_attempt x) cause) in
      run_tx s (op_transition (op_id x) (op_state x) (op_state x)
        (\<lambda>y. (case cause of None \<Rightarrow> (\<lambda>z. z) | Some e \<Rightarrow> set_err (classify e) e)
              (y\<lparr>op_next_attempt_at := Some next\<rparr>)) (ee_wall env) s))"

text \<open>The phases a failure moves the resource between, by operation kind.\<close>

fun fail_phases :: "op_kind \<Rightarrow> phase \<times> phase" where
  "fail_phases OpKindCreate = (Provisioning, Failed)"
| "fail_phases OpKindDelete = (Deleting, Failed)"
| "fail_phases OpKindStop = (Parking, Ready)"
| "fail_phases OpKindStart = (Starting, Parked)"

definition fail_op_tx ::
    "engine_env \<Rightarrow> operation \<Rightarrow> op_state \<Rightarrow> err \<Rightarrow> phase \<Rightarrow> phase \<Rightarrow> db \<Rightarrow> err + db" where
  "fail_op_tx env x from cause res_from res_to s =
     bindE (op_transition (op_id x) from OpFailed (set_err (classify cause) cause) (ee_wall env) s) (\<lambda>s.
     event_append (op_event (ee_now env) ''operation.failed'' x ''failed'')
       (case op_resource x of
          None \<Rightarrow> s
        | Some rid \<Rightarrow> tx_or_keep s (cas_phase rid res_from res_to (ee_now env) s)))"

definition fail_op_phases ::
    "engine_env \<Rightarrow> string \<Rightarrow> op_state \<Rightarrow> err \<Rightarrow> phase \<Rightarrow> phase \<Rightarrow> db \<Rightarrow> err option \<times> db" where
  "fail_op_phases env oid from cause res_from res_to s =
     (case op_get oid s of
        Inl e \<Rightarrow> (Some e, s)
      | Inr x \<Rightarrow> commit_terminal env oid s (fail_op_tx env x from cause res_from res_to s))"

definition fail_op :: "engine_env \<Rightarrow> string \<Rightarrow> op_state \<Rightarrow> err \<Rightarrow> db \<Rightarrow> err option \<times> db" where
  "fail_op env oid from cause s =
     (case op_get oid s of
        Inl e \<Rightarrow> (Some e, s)
      | Inr x \<Rightarrow> fail_op_phases env oid from cause
                  (fst (fail_phases (op_kind x))) (snd (fail_phases (op_kind x))) s)"

section \<open>Success (TxD)\<close>

definition snapshot_of :: "string \<Rightarrow> int \<Rightarrow> observed_resource \<Rightarrow> snapshot" where
  "snapshot_of rid now obs =
     \<lparr>sn_resource = rid, sn_observed_at = now, sn_phase = ob_phase obs, sn_raw = obs\<rparr>"

text \<open>The resource part of a success: best-effort snapshot, provider facts, phase.\<close>

definition observe_tx :: "string \<Rightarrow> int \<Rightarrow> bool \<Rightarrow> observed_resource option \<Rightarrow> db \<Rightarrow> err + db" where
  "observe_tx rid now facts obs s =
     (case obs of
        None \<Rightarrow> Inr s
      | Some x \<Rightarrow>
          (let s = tx_or_keep s (put_observed (snapshot_of rid now x) s) in
           if facts then set_provider_facts rid (ob_extensions x) (BVal (ob_capacity x)) now s
           else Inr s))"

definition succeed_tx ::
    "engine_env \<Rightarrow> operation \<Rightarrow> op_state \<Rightarrow> (string \<Rightarrow> db \<Rightarrow> err + db) \<Rightarrow> db \<Rightarrow> err + db" where
  "succeed_tx env x from on_res s =
     bindE (op_transition (op_id x) from OpSucceeded (\<lambda>y. y) (ee_wall env) s) (\<lambda>s.
     bindE (case op_resource x of None \<Rightarrow> Inr s | Some rid \<Rightarrow> on_res rid s) (\<lambda>s.
     event_append (op_event (ee_now env) ''operation.succeeded'' x ''succeeded'') s))"

definition create_done :: "engine_env \<Rightarrow> operation_status \<Rightarrow> string \<Rightarrow> db \<Rightarrow> err + db" where
  "create_done env st rid s = bindE (observe_tx rid (ee_now env) True (st_resource st) s)
     (cas_phase rid Provisioning Ready (ee_now env))"

definition stop_done :: "engine_env \<Rightarrow> operation_status \<Rightarrow> string \<Rightarrow> db \<Rightarrow> err + db" where
  "stop_done env st rid s = bindE (observe_tx rid (ee_now env) False (st_resource st) s)
     (cas_phase rid Parking Parked (ee_now env))"

definition start_done :: "engine_env \<Rightarrow> operation_status \<Rightarrow> string \<Rightarrow> db \<Rightarrow> err + db" where
  "start_done env st rid s = bindE (observe_tx rid (ee_now env) True (st_resource st) s)
     (cas_phase rid Starting Ready (ee_now env))"

definition succeed_create :: "engine_env \<Rightarrow> operation \<Rightarrow> operation_status \<Rightarrow> db \<Rightarrow> err option \<times> db" where
  "succeed_create env x st s =
     commit_terminal env (op_id x) s (succeed_tx env x (op_state x) (create_done env st) s)"

definition succeed_delete :: "engine_env \<Rightarrow> operation \<Rightarrow> op_state \<Rightarrow> db \<Rightarrow> err option \<times> db" where
  "succeed_delete env x from s =
     commit_terminal env (op_id x) s (succeed_tx env x from
       (\<lambda>rid. mark_deleted rid (ee_now env)) s)"

definition succeed_stop :: "engine_env \<Rightarrow> operation \<Rightarrow> operation_status \<Rightarrow> db \<Rightarrow> err option \<times> db" where
  "succeed_stop env x st s =
     commit_terminal env (op_id x) s (succeed_tx env x (op_state x) (stop_done env st) s)"

definition succeed_start :: "engine_env \<Rightarrow> operation \<Rightarrow> operation_status \<Rightarrow> db \<Rightarrow> err option \<times> db" where
  "succeed_start env x st s =
     commit_terminal env (op_id x) s (succeed_tx env x (op_state x) (start_done env st) s)"

text \<open>
  \<open>readinessGate\<close>: the machine's declared probe, once per poll, within its budget since the
  operation was created.
\<close>

definition readiness_gate :: "engine_env \<Rightarrow> operation \<Rightarrow> operation_status \<Rightarrow> db \<Rightarrow> err + bool" where
  "readiness_gate env x st s =
     (case op_resource x of
        None \<Rightarrow> Inr True
      | Some rid \<Rightarrow>
          (case resource_get rid s of
             Inl _ \<Rightarrow> Inr True
           | Inr res \<Rightarrow>
               (case parse_spec (ee_parse_duration env) (r_spec res) of
                  Inl _ \<Rightarrow> Inr True
                | Inr spec \<Rightarrow>
                    (case ma_readiness spec of
                       None \<Rightarrow> Inr True
                     | Some rd \<Rightarrow>
                         (if rd_tcp rd = None \<and> rd_http rd = None then Inr True
                          else (let budget = (if rd_budget rd \<le> 0 then default_probe_budget
                                              else rd_budget rd) in
                            if ee_now env - op_created_at x > milliseconds budget
                              then Inl (EOther ''readiness probe budget exhausted'')
                            else (let addrs = (case st_resource st of
                                     None \<Rightarrow> [] | Some obs \<Rightarrow> ob_addresses obs) in
                              Inr (is_ok (probe_once (ee_network env) addrs (Some rd))))))))))"

section \<open>Dispatch: TxB, Apply, TxC\<close>

definition handle_apply_error :: "engine_env \<Rightarrow> operation \<Rightarrow> err \<Rightarrow> db \<Rightarrow> err option \<times> db" where
  "handle_apply_error env x ae s =
     (let class = classify ae;
          retry = (let next = ee_now env + milliseconds (backoff env (op_attempt x) (Some ae)) in
             run_tx s (op_transition (op_id x) OpInFlight OpJournaled
               (\<lambda>y. set_err class ae (y\<lparr>op_next_attempt_at := Some next\<rparr>)) (ee_wall env) s))
      in if op_kind x = OpKindDelete \<and> class = ErrNotFound then succeed_delete env x OpInFlight s
         else if is_park_op (op_kind x) \<and> class = ErrNotFound
           then fail_op env (op_id x) OpInFlight ae s
         else if is_park_op (op_kind x) \<and> class \<noteq> ErrInvalid \<and> class \<noteq> ErrTerminal then retry
         else if class = ErrInvalid \<or> class = ErrTerminal then fail_op env (op_id x) OpInFlight ae s
         else if effect ae = EffectNone then retry
         else run_tx s (op_transition (op_id x) OpInFlight OpVerifying
               (\<lambda>y. set_err class ae (y\<lparr>op_next_attempt_at := Some (ee_now env + 2000)\<rparr>))
               (ee_wall env) s))"

definition to_in_flight :: "int \<Rightarrow> operation \<Rightarrow> operation" where
  "to_in_flight deadline y =
     y\<lparr>op_attempt := op_attempt y + 1, op_verify_deadline_at := Some deadline,
       op_next_attempt_at := None\<rparr>"

definition accepted :: "operation_ref \<Rightarrow> ext_ref blob \<Rightarrow> operation \<Rightarrow> operation" where
  "accepted oref ext y =
     y\<lparr>op_external_op := BVal oref, op_external_ref := ext, op_next_attempt_at := None\<rparr>"

definition accept_tx :: "engine_env \<Rightarrow> operation \<Rightarrow> operation_ref \<Rightarrow> db \<Rightarrow> err + db" where
  "accept_tx env x oref s =
     (let ext = (case or_ref oref of None \<Rightarrow> BNil | Some r \<Rightarrow> BVal r) in
      bindE (op_transition (op_id x) OpInFlight OpExternalAccepted (accepted oref ext) (ee_wall env) s) (\<lambda>s.
      case (op_resource x, or_ref oref) of
        (Some rid, Some r) \<Rightarrow>
          (if op_kind x = OpKindCreate then set_external_ref rid (ref_id r) ext s else Inr s)
      | _ \<Rightarrow> Inr s))"

definition dispatch :: "engine_env \<Rightarrow> operation \<Rightarrow> db \<Rightarrow> err option \<times> db" where
  "dispatch env x s =
     (case driver_and_action env x s of
        Inl e \<Rightarrow> fail_op env (op_id x) (op_state x) e s
      | Inr (d, act) \<Rightarrow>
          (if is_park_op (op_kind x) \<and> op_attempt x \<ge> max_park_op_attempts
           then fail_op env (op_id x) (op_state x) (EOther ''giving up'') s
           else (let deadline = ee_now env + milliseconds (ec_verify_window (ee_cfg env)) in
             case op_transition (op_id x) OpJournaled OpInFlight (to_in_flight deadline) (ee_wall env) s of
               Inl e \<Rightarrow> (Some e, s)
             | Inr s1 \<Rightarrow>
                 (case dr_apply d act of
                    Inl ae \<Rightarrow> handle_apply_error env x ae s1
                  | Inr oref \<Rightarrow> run_tx s1 (accept_tx env x oref s1)))))"

section \<open>Poll\<close>

definition poll :: "engine_env \<Rightarrow> operation \<Rightarrow> db \<Rightarrow> err option \<times> db" where
  "poll env x s =
     (case driver_and_action env x s of
        Inl e \<Rightarrow> fail_op env (op_id x) (op_state x) e s
      | Inr (d, _) \<Rightarrow>
          (case op_external_op x of
             BVal oref \<Rightarrow>
               (case dr_observe d oref of
                  Inl oe \<Rightarrow>
                    (if classify oe = ErrNotFound then
                       (if op_kind x = OpKindDelete then succeed_delete env x OpExternalAccepted s
                        else if is_park_op (op_kind x) then fail_op env (op_id x) OpExternalAccepted oe s
                        else run_tx s (op_transition (op_id x) OpExternalAccepted OpVerifying
                               (\<lambda>y. y\<lparr>op_next_attempt_at := None\<rparr>) (ee_wall env) s))
                     else reschedule env x (Some oe) s)
                | Inr st \<Rightarrow>
                    (case st_state st of
                       PsSucceeded \<Rightarrow>
                         (if op_kind x = OpKindDelete then succeed_delete env x OpExternalAccepted s
                          else if op_kind x = OpKindStop then succeed_stop env x st s
                          else (case readiness_gate env x st s of
                             Inl ge \<Rightarrow>
                               (if op_kind x = OpKindStart
                                then fail_op_phases env (op_id x) OpExternalAccepted ge Starting Failed s
                                else fail_op env (op_id x) OpExternalAccepted ge s)
                           | Inr False \<Rightarrow> reschedule env x None s
                           | Inr True \<Rightarrow>
                               (if op_kind x = OpKindStart then succeed_start env x st s
                                else succeed_create env x st s)))
                     | PsFailed \<Rightarrow>
                         fail_op env (op_id x) OpExternalAccepted
                           (case st_failure st of
                              Some pe \<Rightarrow> EProv pe
                            | None \<Rightarrow> EOther ''provider reported failure without detail'') s
                     | _ \<Rightarrow> reschedule env x None s))
           | _ \<Rightarrow> fail_op env (op_id x) (op_state x) (EOther ''corrupt external op ref'') s))"

section \<open>Verify\<close>

definition adopt_tx :: "engine_env \<Rightarrow> operation \<Rightarrow> observed_resource \<Rightarrow> db \<Rightarrow> err + db" where
  "adopt_tx env x obs s =
     bindE (op_transition (op_id x) OpVerifying OpExternalAccepted
        (accepted \<lparr>or_action_id = op_id x, or_ref = Some (ob_ref obs), or_data = BNil\<rparr> (BVal (ob_ref obs)))
        (ee_wall env) s) (\<lambda>s.
     case op_resource x of
       None \<Rightarrow> Inr s
     | Some rid \<Rightarrow> set_external_ref rid (ref_id (ob_ref obs)) (BVal (ob_ref obs)) s)"

definition verify :: "engine_env \<Rightarrow> operation \<Rightarrow> db \<Rightarrow> err option \<times> db" where
  "verify env x s =
     (case driver_and_action env x s of
        Inl e \<Rightarrow> fail_op env (op_id x) (op_state x) e s
      | Inr (d, act) \<Rightarrow>
          (let again = run_tx s (op_transition (op_id x) OpVerifying OpJournaled
                 (\<lambda>y. y\<lparr>op_next_attempt_at := None\<rparr>) (ee_wall env) s) in
           if is_park_op (op_kind x) then again
           else if op_kind x = OpKindDelete then
             (case ac_ref act of
                None \<Rightarrow> fail_op env (op_id x) OpVerifying (EOther ''delete op without ref'') s
              | Some ref \<Rightarrow>
                  (case dr_get d ref of
                     Inl ge \<Rightarrow> (if is_class ge ErrNotFound then succeed_delete env x OpVerifying s
                                else reschedule env x (Some ge) s)
                   | Inr _ \<Rightarrow> run_tx s (op_transition (op_id x) OpVerifying OpJournaled (\<lambda>y. y)
                                (ee_wall env) s)))
           else if \<not> label_discovery env x then
             run_tx s (op_transition (op_id x) OpVerifying OpUncertain (\<lambda>y. y) (ee_wall env) s)
           else
             (case dr_discover d ScopeOwned [(label_op, op_id x)] of
                Inl de \<Rightarrow> reschedule env x (Some de) s
              | Inr (obs # _) \<Rightarrow> run_tx s (adopt_tx env x obs s)
              | Inr [] \<Rightarrow>
                  (case op_verify_deadline_at x of
                     Some dl \<Rightarrow> (if ee_now env < dl then reschedule env x None s else again)
                   | None \<Rightarrow> again))))"

section \<open>The loop body and the restart\<close>

definition drive :: "engine_env \<Rightarrow> operation \<Rightarrow> db \<Rightarrow> db" where
  "drive env x s =
     (case op_state x of
        OpJournaled \<Rightarrow> snd (dispatch env x s)
      | OpExternalAccepted \<Rightarrow> snd (poll env x s)
      | OpVerifying \<Rightarrow> snd (verify env x s)
      | _ \<Rightarrow> s)"

definition engine_step :: "engine_env \<Rightarrow> db \<Rightarrow> nat \<times> db" where
  "engine_step env s =
     (let due = ops_due (ee_now env) (nat (ec_max_batch (ee_cfg env))) s
      in (length due, fold (drive env) due s))"

fun resume_ops :: "int \<Rightarrow> operation list \<Rightarrow> db \<Rightarrow> err option \<times> db" where
  "resume_ops wall [] s = (None, s)"
| "resume_ops wall (x # xs) s =
     (if op_state x = OpInFlight then
        (case op_transition (op_id x) OpInFlight OpVerifying (\<lambda>y. y\<lparr>op_next_attempt_at := None\<rparr>) wall s of
           Inl e \<Rightarrow> (Some e, s)
         | Inr s' \<Rightarrow> resume_ops wall xs s')
      else resume_ops wall xs s)"

definition resume :: "int \<Rightarrow> db \<Rightarrow> err option \<times> db" where
  "resume wall s = resume_ops wall (ops_non_terminal s) s"

section \<open>The engine's transactions keep the kernel invariant\<close>

text \<open>
  A drive works on an operation it read before its transactions. The columns kind and resource of
  a journal row never change, so the stored row agrees with it on them.
\<close>

definition same_op :: "operation \<Rightarrow> db \<Rightarrow> bool" where
  "same_op x s \<longleftrightarrow> (\<exists>y. tget op_id (op_id x) (operations s) = Some y
     \<and> op_kind y = op_kind x \<and> op_resource y = op_resource x)"

lemma same_op_evolves: "same_op x s \<Longrightarrow> evolves s s' \<Longrightarrow> same_op x s'"
  unfolding same_op_def evolves_def rows_evolve_def op_evolves_def by metis

lemma same_op_stored: "tget op_id oid (operations s) = Some x \<Longrightarrow> same_op x s"
  using tget_SomeD by (fastforce simp: same_op_def)

text \<open>The transition of an operation into a terminal state frees its resource.\<close>

lemma terminal_step:
  assumes "kinv s" and same: "same_op x s" and tr: "op_transition (op_id x) p q mut wall s = Inr t"
    and "\<not> op_terminal p" and "op_terminal q" and "keeps_state mut" and res: "op_resource x = Some rid"
  shows "kadv s t" and "no_open rid t"
    and "\<And>r. tget r_id rid (resources t) = Some r \<Longrightarrow> live r \<Longrightarrow> r_phase r = busy_phase (op_kind x)"
proof -
  note c = kinvD(1) [OF assms(1)]
  from same res obtain y where y: "tget op_id (op_id x) (operations s) = Some y"
    "op_kind y = op_kind x" "op_resource y = Some rid" by (auto simp: same_op_def)
  show "kadv s t" by (rule kadv_op_transition [OF assms(1) tr assms(4,6)])
  show "no_open rid t" by (rule no_open_after_terminal [OF c tr assms(4-6) y(1,3)])
  fix r
  assume r: "tget r_id rid (resources t) = Some r" "live r"
  from tr y(1) have "op_state y = p" and rs: "resources t = resources s" by (auto simp: op_transition_Inr)
  moreover have mem: "y \<in> set (operations s)" using tget_SomeD [OF y(1)] by simp
  ultimately have "open_on rid y" using coreD(4) [OF c mem] assms(4) y(3)
    by (simp add: open_on_def is_open_def stamped_def)
  then show "r_phase r = busy_phase (op_kind x)" using shieldedD [OF c mem] r y(2) rs by simp
qed

lemma keeps_state_simps [simp]:
  "keeps_state (\<lambda>x. x)" "keeps_state (set_err c e)" "keeps_state (to_in_flight d)"
  "keeps_state (accepted r b)" "keeps_state (\<lambda>y. y\<lparr>op_next_attempt_at := n\<rparr>)"
  "keeps_state (\<lambda>y. set_err c e (y\<lparr>op_next_attempt_at := n\<rparr>))"
  by (simp_all add: keeps_state_def set_err_def to_in_flight_def accepted_def)

lemma kadv_succeed_tx:
  assumes "kinv s" and "same_op x s" and su: "succeed_tx env x p on_res s = Inr s'" and "\<not> op_terminal p"
    and on_res: "\<And>rid t t'. op_resource x = Some rid \<Longrightarrow> kinv t \<Longrightarrow> no_open rid t \<Longrightarrow>
      (\<And>r. tget r_id rid (resources t) = Some r \<Longrightarrow> live r \<Longrightarrow> r_phase r = busy_phase (op_kind x)) \<Longrightarrow>
      on_res rid t = Inr t' \<Longrightarrow> kadv t t'"
  shows "kadv s s'"
proof -
  from su obtain t u where tr: "op_transition (op_id x) p OpSucceeded (\<lambda>y. y) (ee_wall env) s = Inr t"
    and m: "(case op_resource x of None \<Rightarrow> Inr t | Some rid \<Rightarrow> on_res rid t) = Inr u"
    and ev: "event_append (op_event (ee_now env) ''operation.succeeded'' x ''succeeded'') u = Inr s'"
    by (auto simp: succeed_tx_def bindE_Inr_iff)
  have 1: "kadv s t" by (rule kadv_op_transition [OF assms(1) tr assms(4)]) simp
  have 2: "kadv t u"
  proof (cases "op_resource x")
    case None
    then show ?thesis using m kadv_refl [OF kadv_kinv [OF 1]] by simp
  next
    case (Some rid)
    note st = terminal_step [OF assms(1,2) tr assms(4) _ _ Some]
    show ?thesis by (rule on_res [OF Some kadv_kinv [OF 1]]) (use st m Some in simp_all)
  qed
  have 3: "kadv u s'" by (rule kadv_event [OF kadv_kinv [OF 2] ev])
  show ?thesis by (rule kadv_trans [OF kadv_trans [OF 1 2] 3])
qed

lemma kadv_observe_tx:
  assumes "kinv s" and "observe_tx rid now facts obs s = Inr s'"
  shows "kadv s s'"
proof (cases obs)
  case None
  then show ?thesis using assms kadv_refl by (simp add: observe_tx_def)
next
  case (Some x)
  let ?t = "tx_or_keep s (put_observed (snapshot_of rid now x) s)"
  have 1: "kadv s ?t" using assms(1) kadv_put_observed by (blast intro: kadv_keep)
  have "kadv ?t s'"
    using assms(2) Some kadv_set_facts [OF kadv_kinv [OF 1]] kadv_refl [OF kadv_kinv [OF 1]]
    by (auto simp: observe_tx_def Let_def split: if_splits)
  then show ?thesis by (rule kadv_trans [OF 1])
qed

lemma observe_tx_frame:
  assumes "observe_tx rid now facts obs s = Inr s'"
  shows "operations s' = operations s" and "leases s' = leases s"
proof -
  have po: "operations (tx_or_keep s (put_observed z s)) = operations s"
    "leases (tx_or_keep s (put_observed z s)) = leases s" for z
    by (cases "put_observed z s"; auto dest: put_observed_Inr)+
  have "operations s' = operations s \<and> leases s' = leases s"
  proof (cases obs)
    case None
    then show ?thesis using assms by (simp add: observe_tx_def)
  next
    case (Some x)
    then show ?thesis
      using assms po exec_one_frame by (auto simp: observe_tx_def Let_def set_provider_facts_def split: if_splits)
  qed
  then show "operations s' = operations s" and "leases s' = leases s" by simp_all
qed

text \<open>The resource part of the successes that end with a compare-and-set.\<close>

lemma kadv_observe_cas:
  assumes "kinv t" and "no_open rid t"
    and m: "bindE (observe_tx rid now facts obs t) (cas_phase rid p q at) = Inr t'"
    and "can_transition p q" and "lease_phase q"
  shows "kadv t t'"
  using assms(1) m
proof (rule kadv_bindE)
  fix u
  assume o: "observe_tx rid now facts obs t = Inr u"
  then show "kadv t u" by (rule kadv_observe_tx [OF assms(1)])
  assume "kinv u" and "cas_phase rid p q at u = Inr t'"
  moreover have "no_open rid u" using assms(2) observe_tx_frame [OF o] by (simp add: no_open_def)
  ultimately show "kadv u t'" using assms(4,5) by (blast intro: kadv_cas_phase)
qed

lemma kadv_success:
  assumes "kinv s" and "same_op x s" and "\<not> op_terminal p"
  shows "succeed_tx env x p (create_done env st) s = Inr s' \<Longrightarrow> kadv s s'"
    and "succeed_tx env x p (stop_done env st) s = Inr s' \<Longrightarrow> kadv s s'"
    and "succeed_tx env x p (start_done env st) s = Inr s' \<Longrightarrow> kadv s s'"
proof -
  note ok = can_transition_iff lease_phase_def create_done_def stop_done_def start_done_def
  show "succeed_tx env x p (create_done env st) s = Inr s' \<Longrightarrow> kadv s s'"
    by (rule kadv_succeed_tx [OF assms(1,2) _ assms(3)], assumption)
      (rule kadv_observe_cas [where p = Provisioning and q = Ready]; simp add: ok)
  show "succeed_tx env x p (stop_done env st) s = Inr s' \<Longrightarrow> kadv s s'"
    by (rule kadv_succeed_tx [OF assms(1,2) _ assms(3)], assumption)
      (rule kadv_observe_cas [where p = Parking and q = Parked]; simp add: ok)
  show "succeed_tx env x p (start_done env st) s = Inr s' \<Longrightarrow> kadv s s'"
    by (rule kadv_succeed_tx [OF assms(1,2) _ assms(3)], assumption)
      (rule kadv_observe_cas [where p = Starting and q = Ready]; simp add: ok)
qed

text \<open>A machine whose delete operation is open has no active lease.\<close>

lemma kadv_success_delete:
  assumes "kinv s" and "same_op x s" and "op_kind x = OpKindDelete"
    and "succeed_tx env x p (\<lambda>rid. mark_deleted rid (ee_now env)) s = Inr s'" and "\<not> op_terminal p"
  shows "kadv s s'"
proof (rule kadv_succeed_tx [OF assms(1,2,4,5)])
  fix rid t t'
  assume "kinv t" and md: "mark_deleted rid (ee_now env) t = Inr t'"
    and ph: "\<And>r. tget r_id rid (resources t) = Some r \<Longrightarrow> live r \<Longrightarrow> r_phase r = busy_phase (op_kind x)"
  have "count_active rid t = 0"
    unfolding count_active_iff
  proof (intro ballI notI)
    fix l
    assume l: "l \<in> set (leases t)" "is_active rid l"
    from md obtain r where r: "tget r_id rid (resources t) = Some r" "live r" by (auto simp: mark_deleted_Inr)
    with leased_safeD [OF kinvD(1) [OF \<open>kinv t\<close>] l] ph show False
      by (simp add: assms(3) lease_phase_def)
  qed
  then show "kadv t t'" by (rule kadv_mark_deleted [OF \<open>kinv t\<close> md])
qed

lemma kadv_fail_op_tx:
  assumes "kinv s" and "same_op x s" and f: "fail_op_tx env x p cause rf rt s = Inr s'"
    and "\<not> op_terminal p" and "can_transition rf rt" and "lease_phase rt"
  shows "kadv s s'"
proof -
  from f obtain t where tr: "op_transition (op_id x) p OpFailed (set_err (classify cause) cause) (ee_wall env) s = Inr t"
    and ev: "event_append (op_event (ee_now env) ''operation.failed'' x ''failed'')
       (case op_resource x of None \<Rightarrow> t | Some rid \<Rightarrow> tx_or_keep t (cas_phase rid rf rt (ee_now env) t)) = Inr s'"
    by (auto simp: fail_op_tx_def bindE_Inr_iff)
  have 1: "kadv s t" by (rule kadv_op_transition [OF assms(1) tr assms(4)]) simp
  have 2: "kadv t (case op_resource x of None \<Rightarrow> t | Some rid \<Rightarrow> tx_or_keep t (cas_phase rid rf rt (ee_now env) t))"
  proof (cases "op_resource x")
    case None
    then show ?thesis using kadv_refl [OF kadv_kinv [OF 1]] by simp
  next
    case (Some rid)
    have "no_open rid t" using terminal_step(2) [OF assms(1,2) tr assms(4) _ _ Some] by simp
    then have "kadv t (tx_or_keep t (cas_phase rid rf rt (ee_now env) t))"
      using kadv_kinv [OF 1] assms(5,6) by (blast intro: kadv_keep kadv_cas_phase)
    then show ?thesis using Some by simp
  qed
  have 3: "kadv (case op_resource x of None \<Rightarrow> t | Some rid \<Rightarrow> tx_or_keep t (cas_phase rid rf rt (ee_now env) t)) s'"
    by (rule kadv_event [OF kadv_kinv [OF 2] ev])
  show ?thesis by (rule kadv_trans [OF kadv_trans [OF 1 2] 3])
qed

lemma fail_phases_ok:
  "can_transition (fst (fail_phases k)) (snd (fail_phases k))" "lease_phase (snd (fail_phases k))"
  by (cases k; simp add: can_transition_iff lease_phase_def)+

lemma accept_tx_Inr:
  assumes "accept_tx env x oref s = Inr s'"
  shows "\<exists>t b. op_transition (op_id x) OpInFlight OpExternalAccepted (accepted oref b) (ee_wall env) s = Inr t
     \<and> (t = s' \<or> (\<exists>rid e. set_external_ref rid e b t = Inr s'))"
  using assms
  by (cases "or_ref oref"; cases "op_resource x")
    (auto simp: accept_tx_def bindE_Inr_iff Let_def split: if_splits)

lemma kadv_accept_tx:
  assumes "kinv s" and "accept_tx env x oref s = Inr s'"
  shows "kadv s s'"
proof -
  from assms(2) obtain t b where tr: "op_transition (op_id x) OpInFlight OpExternalAccepted
      (accepted oref b) (ee_wall env) s = Inr t"
    and m: "t = s' \<or> (\<exists>rid e. set_external_ref rid e b t = Inr s')"
    using accept_tx_Inr [OF assms(2)] by blast
  have 1: "kadv s t" by (rule kadv_op_transition [OF assms(1) tr]) simp_all
  have "kadv t s'" using m kadv_kinv [OF 1] by (auto intro: kadv_refl kadv_set_external_ref)
  then show ?thesis by (rule kadv_trans [OF 1])
qed

lemma kadv_adopt_tx:
  assumes "kinv s" and "adopt_tx env x obs s = Inr s'"
  shows "kadv s s'"
proof -
  from assms(2) obtain t where tr: "op_transition (op_id x) OpVerifying OpExternalAccepted
      (accepted \<lparr>or_action_id = op_id x, or_ref = Some (ob_ref obs), or_data = BNil\<rparr> (BVal (ob_ref obs))) (ee_wall env) s = Inr t"
    and m: "t = s' \<or> (\<exists>rid. set_external_ref rid (ref_id (ob_ref obs)) (BVal (ob_ref obs)) t = Inr s')"
    by (auto simp: adopt_tx_def bindE_Inr_iff split: option.splits)
  have 1: "kadv s t" by (rule kadv_op_transition [OF assms(1) tr]) simp_all
  have "kadv t s'" using m kadv_kinv [OF 1] by (auto intro: kadv_refl kadv_set_external_ref)
  then show ?thesis by (rule kadv_trans [OF 1])
qed

section \<open>What the engine does with an operation\<close>

definition after_move :: "operation \<Rightarrow> op_state \<Rightarrow> (operation \<Rightarrow> operation) \<Rightarrow> int \<Rightarrow> operation" where
  "after_move y q mut wall = op_written y (mut (op_columns q wall y))"

lemma op_transition_ok:
  assumes "tget op_id oid (operations s) = Some y" and "op_state y = p"
  shows "op_transition oid p q mut wall s = Inr (update_op oid (\<lambda>x. after_move x q mut wall) s)"
    and "tget op_id oid (operations (update_op oid (\<lambda>x. after_move x q mut wall) s)) = Some (after_move y q mut wall)"
  using assms by (auto simp: op_transition_Inr tget_tupd after_move_def)

lemma op_transition_stale:
  assumes "tget op_id oid (operations s) = Some y" and "op_state y \<noteq> p"
  shows "op_transition oid p q mut wall s = Inl EConflict"
  using assms by (simp add: op_transition_def op_get_def)

lemma after_move_simps [simp]:
  "op_id (after_move y q mut wall) = op_id y" "op_kind (after_move y q mut wall) = op_kind y"
  "op_resource (after_move y q mut wall) = op_resource y"
  "op_state (after_move y q mut wall) = op_state (mut (op_columns q wall y))"
  "op_attempt (after_move y q mut wall) = op_attempt (mut (op_columns q wall y))"
  "op_next_attempt_at (after_move y q mut wall) = op_next_attempt_at (mut (op_columns q wall y))"
  "op_error_class (after_move y q mut wall) = op_error_class (mut (op_columns q wall y))"
  "op_verify_deadline_at (after_move y q mut wall) = op_verify_deadline_at (mut (op_columns q wall y))"
  "op_external_ref (after_move y q mut wall) = op_external_ref (mut (op_columns q wall y))"
  "op_external_op (after_move y q mut wall) = op_external_op (mut (op_columns q wall y))"
  by (simp_all add: after_move_def op_written_def)

lemma moved_ops_frame [simp]:
  "resources (update_op oid f s) = resources s" "leases (update_op oid f s) = leases s"
  by simp_all

lemma notify_row: "tget op_id oid (operations t) = Some y \<Longrightarrow> notify_terminal env oid t = ee_on_terminal env y t"
  by (simp add: notify_terminal_def op_get_def)

text \<open>
  C12. Write-ahead: a drive calls the provider only after the journal row has moved from journaled to
  in flight, with one more attempt and a verify deadline. If the row is in any other state, the
  drive ends with a conflict, whatever the provider would answer, and leaves the database alone.
\<close>

theorem dispatch_is_write_ahead:
  assumes "driver_and_action env x s = Inr (d, act)" and "tget op_id (op_id x) (operations s) = Some y"
    and "\<not> (is_park_op (op_kind x) \<and> op_attempt x \<ge> max_park_op_attempts)"
  shows "(op_state y \<noteq> OpJournaled \<longrightarrow> dispatch env x s = (Some EConflict, s))
    \<and> (op_state y = OpJournaled \<longrightarrow> (\<exists>t z. tget op_id (op_id x) (operations t) = Some z
         \<and> op_state z = OpInFlight \<and> op_attempt z = op_attempt y + 1
         \<and> op_verify_deadline_at z = Some (ee_now env + milliseconds (ec_verify_window (ee_cfg env)))
         \<and> resources t = resources s
         \<and> dispatch env x s = (case dr_apply d act of
               Inl ae \<Rightarrow> handle_apply_error env x ae t
             | Inr oref \<Rightarrow> run_tx t (accept_tx env x oref t))))"
proof (intro conjI impI)
  assume "op_state y \<noteq> OpJournaled"
  with op_transition_stale [OF assms(2)] show "dispatch env x s = (Some EConflict, s)"
    using assms(1,3) by (auto simp: dispatch_def Let_def)
next
  assume j: "op_state y = OpJournaled"
  let ?mut = "to_in_flight (ee_now env + milliseconds (ec_verify_window (ee_cfg env)))"
  let ?t = "update_op (op_id x) (\<lambda>x. after_move x OpInFlight ?mut (ee_wall env)) s"
  let ?z = "after_move y OpInFlight ?mut (ee_wall env)"
  have "tget op_id (op_id x) (operations ?t) = Some ?z" by (rule op_transition_ok(2) [OF assms(2) j])
  moreover have "op_state ?z = OpInFlight" "op_attempt ?z = op_attempt y + 1"
    "op_verify_deadline_at ?z = Some (ee_now env + milliseconds (ec_verify_window (ee_cfg env)))"
    by (simp_all add: to_in_flight_def)
  moreover have "dispatch env x s = (case dr_apply d act of
       Inl ae \<Rightarrow> handle_apply_error env x ae ?t | Inr oref \<Rightarrow> run_tx ?t (accept_tx env x oref ?t))"
    using assms(1,3) op_transition_ok(1) [OF assms(2) j] by (auto simp: dispatch_def Let_def)
  ultimately show "\<exists>t z. tget op_id (op_id x) (operations t) = Some z
         \<and> op_state z = OpInFlight \<and> op_attempt z = op_attempt y + 1
         \<and> op_verify_deadline_at z = Some (ee_now env + milliseconds (ec_verify_window (ee_cfg env)))
         \<and> resources t = resources s
         \<and> dispatch env x s = (case dr_apply d act of
               Inl ae \<Rightarrow> handle_apply_error env x ae t
             | Inr oref \<Rightarrow> run_tx t (accept_tx env x oref t))"
    by (intro exI [of _ ?t] exI [of _ ?z]) simp
qed

text \<open>
  C19. An apply error never causes a blind retry of a create or delete: when the provider may have
  acted, the operation goes to verification, due two seconds later; only an error that guarantees no
  side effect sends it back to the journal, to be dispatched again after the backoff.
\<close>

theorem ambiguous_apply_is_verified:
  assumes "tget op_id (op_id x) (operations s) = Some y" and "op_state y = OpInFlight"
    and "op_kind x = OpKindCreate \<or> op_kind x = OpKindDelete"
    and "classify ae \<noteq> ErrInvalid" and "classify ae \<noteq> ErrTerminal"
    and "op_kind x = OpKindDelete \<longrightarrow> classify ae \<noteq> ErrNotFound"
  shows "\<exists>s' z. handle_apply_error env x ae s = (None, s') \<and> tget op_id (op_id x) (operations s') = Some z
    \<and> resources s' = resources s \<and> op_error_class z = Some (classify ae)
    \<and> (effect ae = EffectNone \<longrightarrow> op_state z = OpJournaled
         \<and> op_next_attempt_at z = Some (ee_now env + milliseconds (backoff env (op_attempt x) (Some ae))))
    \<and> (effect ae \<noteq> EffectNone \<longrightarrow> op_state z = OpVerifying \<and> op_next_attempt_at z = Some (ee_now env + 2000))"
proof -
  have np: "\<not> is_park_op (op_kind x)" using assms(3) by (auto simp: is_park_op_def)
  let ?q = "if effect ae = EffectNone then OpJournaled else OpVerifying"
  let ?at = "if effect ae = EffectNone then ee_now env + milliseconds (backoff env (op_attempt x) (Some ae))
    else ee_now env + 2000"
  let ?mut = "\<lambda>y. set_err (classify ae) ae (y\<lparr>op_next_attempt_at := Some ?at\<rparr>)"
  let ?t = "update_op (op_id x) (\<lambda>x. after_move x ?q ?mut (ee_wall env)) s"
  have "handle_apply_error env x ae s = (None, ?t)"
    using assms(4-6) np op_transition_ok(1) [OF assms(1,2)]
    by (auto simp: handle_apply_error_def Let_def)
  moreover have "tget op_id (op_id x) (operations ?t) = Some (after_move y ?q ?mut (ee_wall env))"
    by (rule op_transition_ok(2) [OF assms(1,2)])
  ultimately show ?thesis
    by (intro exI [of _ ?t] exI [of _ "after_move y ?q ?mut (ee_wall env)"]) (simp add: set_err_def)
qed

text \<open>
  C13. A create under verification is dispatched again only when the provider's listing, filtered by
  the operation's own label, came back empty and the verify window is over; a machine found there
  is adopted instead, and a provider that cannot list by label leaves the decision to an operator.
\<close>

theorem create_redispatch_needs_proof:
  assumes "op_kind x = OpKindCreate" and "driver_and_action env x s = Inr (d, act)"
    and "tget op_id (op_id x) (operations s) = Some y" and "op_state y = OpVerifying" and "op_state x = OpVerifying"
    and "verify env x s = (r, s')" and "tget op_id (op_id x) (operations s') = Some z"
  shows "(op_state z = OpJournaled \<longrightarrow> label_discovery env x
            \<and> dr_discover d ScopeOwned [(label_op, op_id x)] = Inr []
            \<and> (\<forall>dl. op_verify_deadline_at x = Some dl \<longrightarrow> dl \<le> ee_now env))
    \<and> (op_state z = OpExternalAccepted \<longrightarrow> (\<exists>obs rest. dr_discover d ScopeOwned [(label_op, op_id x)] = Inr (obs # rest)
            \<and> op_external_ref z = BVal (ob_ref obs)))
    \<and> (op_state z = OpUncertain \<longleftrightarrow> \<not> label_discovery env x)
    \<and> op_state z \<in> {OpVerifying, OpJournaled, OpExternalAccepted, OpUncertain}"
proof -
  have np: "\<not> is_park_op (op_kind x)" "op_kind x \<noteq> OpKindDelete" using assms(1) by (simp_all add: is_park_op_def)
  note tr = op_transition_ok [OF assms(3,4)]
  have moved: "op_state z = q \<and> r = None"
    if "(r, s') = run_tx s (op_transition (op_id x) OpVerifying q mut (ee_wall env) s)" "keeps_state mut" for q mut
    using that assms(7) tr(1,2) [of q mut "ee_wall env"] by (auto simp: keeps_stateD)
  have resch: "op_state z = OpVerifying" if "(r, s') = reschedule env x c s" for c
    using that moved [of OpVerifying] assms(5)
    by (auto simp: reschedule_def Let_def keeps_state_def set_err_def split: option.splits)
  show ?thesis
  proof (cases "label_discovery env x")
    case False
    then have "(r, s') = run_tx s (op_transition (op_id x) OpVerifying OpUncertain (\<lambda>y. y) (ee_wall env) s)"
      using assms(2,6) np by (simp add: verify_def)
    from moved [OF this] show ?thesis using False by (simp add: keeps_state_def)
  next
    case ld: True
    show ?thesis
    proof (cases "dr_discover d ScopeOwned [(label_op, op_id x)]")
      case (Inl de)
      then have "(r, s') = reschedule env x (Some de) s" using assms(2,6) np ld by (simp add: verify_def Let_def)
      from resch [OF this] show ?thesis using ld by simp
    next
      case (Inr found)
      show ?thesis
      proof (cases found)
        case Nil
        let ?again = "run_tx s (op_transition (op_id x) OpVerifying OpJournaled
           (\<lambda>y. y\<lparr>op_next_attempt_at := None\<rparr>) (ee_wall env) s)"
        have v: "(r, s') = (case op_verify_deadline_at x of
            Some dl \<Rightarrow> (if ee_now env < dl then reschedule env x None s else ?again) | None \<Rightarrow> ?again)"
          using assms(2,6) np ld Inr Nil by (simp add: verify_def Let_def)
        show ?thesis
        proof (cases "\<exists>dl. op_verify_deadline_at x = Some dl \<and> ee_now env < dl")
          case True
          then have "(r, s') = reschedule env x None s" using v by auto
          from resch [OF this] show ?thesis using ld by simp
        next
          case False
          then have "(r, s') = ?again" using v by (auto split: option.splits)
          from moved [OF this] show ?thesis using False ld Inr Nil by (auto simp: not_less)
        qed
      next
        case (Cons obs rest)
        then have v: "(r, s') = run_tx s (adopt_tx env x obs s)"
          using assms(2,6) np ld Inr by (simp add: verify_def Let_def)
        show ?thesis
        proof (cases "adopt_tx env x obs s")
          case (Inl e)
          then have "z = y" using v assms(3,7) by simp
          then show ?thesis using assms(4) ld by simp
        next
          case ok: (Inr t)
          let ?mut = "accepted \<lparr>or_action_id = op_id x, or_ref = Some (ob_ref obs), or_data = BNil\<rparr> (BVal (ob_ref obs))"
          let ?u = "update_op (op_id x) (\<lambda>x. after_move x OpExternalAccepted ?mut (ee_wall env)) s"
          have "operations t = operations ?u"
            using ok tr(1) by (auto simp: adopt_tx_def set_external_ref_frame split: option.splits dest: set_external_ref_frame)
          then have "z = after_move y OpExternalAccepted ?mut (ee_wall env)"
            using v ok assms(7) tr(2) [of OpExternalAccepted ?mut "ee_wall env"] by simp
          then show ?thesis using Inr Cons ld by (simp add: accepted_def)
        qed
      qed
    qed
  qed
qed

lemma fail_op_effect:
  assumes row: "tget op_id oid (operations s) = Some y" and "op_state y = p" and "op_resource y = Some rid"
    and "phase_is s rid (fst (fail_phases (op_kind y)))"
  shows "\<exists>t z. fail_op env oid p cause s = (None, ee_on_terminal env z t)
    \<and> tget op_id oid (operations t) = Some z \<and> op_state z = OpFailed
    \<and> op_error_class z = Some (classify cause) \<and> phase_is t rid (snd (fail_phases (op_kind y)))"
proof -
  let ?mut = "set_err (classify cause) cause"
  let ?u = "update_op oid (\<lambda>x. after_move x OpFailed ?mut (ee_wall env)) s"
  let ?z = "after_move y OpFailed ?mut (ee_wall env)"
  let ?rf = "fst (fail_phases (op_kind y))" and ?rt = "snd (fail_phases (op_kind y))"
  note tr = op_transition_ok [OF row assms(2), of OpFailed ?mut "ee_wall env"]
  have oid: "op_id y = oid" using tget_SomeD [OF row] by simp
  have "phase_is ?u rid ?rf" using assms(4) by (simp add: phase_is_def)
  then obtain v where v: "cas_phase rid ?rf ?rt (ee_now env) ?u = Inr v"
    using phase_cas.cas_ok_iff by blast
  have ph: "phase_is v rid ?rt" by (rule phase_cas.cas_moves [OF v])
  have ops: "operations v = operations ?u" using v by (auto simp: cas_phase_Inr)
  obtain t where t: "event_append (op_event (ee_now env) ''operation.failed'' y ''failed'') v = Inr t"
    and ft: "operations t = operations v" "resources t = resources v" by (auto simp: event_append_Inr)
  have "fail_op_tx env y p cause ?rf ?rt s = Inr t"
    using tr(1) assms(3) v t oid by (simp add: fail_op_tx_def)
  moreover have z: "tget op_id oid (operations t) = Some ?z" using tr(2) ft ops by simp
  ultimately have "fail_op env oid p cause s = (None, ee_on_terminal env ?z t)"
    using row by (simp add: fail_op_def fail_op_phases_def op_get_def commit_terminal_def notify_row)
  moreover have "phase_is t rid ?rt" using ph ft by (simp add: phase_is_def)
  ultimately show ?thesis using z by (intro exI [of _ t] exI [of _ ?z]) (simp add: set_err_def)
qed

text \<open>
  C35. A stop or start is not tried for ever: after eight attempts the next drive fails the operation
  without a provider call and puts the machine back where it was - ready after a stop, parked after
  a start.
\<close>

theorem park_op_gives_up:
  assumes "driver_and_action env x s = Inr (d, act)" and "is_park_op (op_kind x)" and "op_attempt x \<ge> 8"
    and "tget op_id (op_id x) (operations s) = Some x" and "op_resource x = Some rid"
    and "phase_is s rid (busy_phase (op_kind x))"
  shows "\<exists>t z. dispatch env x s = (None, ee_on_terminal env z t)
    \<and> tget op_id (op_id x) (operations t) = Some z \<and> op_state z = OpFailed
    \<and> phase_is t rid (if op_kind x = OpKindStop then Ready else Parked)"
proof -
  have "dispatch env x s = fail_op env (op_id x) (op_state x) (EOther ''giving up'') s"
    using assms(1-3) by (simp add: dispatch_def max_park_op_attempts_def)
  moreover have "fst (fail_phases (op_kind x)) = busy_phase (op_kind x)"
    "snd (fail_phases (op_kind x)) = (if op_kind x = OpKindStop then Ready else Parked)"
    using assms(2) by (auto simp: is_park_op_def)
  ultimately show ?thesis
    using fail_op_effect [OF assms(4) refl assms(5), of env "EOther ''giving up''"] assms(6)
    by (simp only:) blast
qed

text \<open>
  A delete whose machine the provider no longer knows has succeeded: the operation becomes
  succeeded and the live resource gets its tombstone, and only then the terminal callback runs.
\<close>

theorem not_found_completes_delete:
  assumes "classify ae = ErrNotFound" and "op_kind x = OpKindDelete"
    and row: "tget op_id (op_id x) (operations s) = Some y" and "op_state y = OpInFlight"
    and "op_resource x = Some rid" and "phase_is s rid ph"
  shows "\<exists>t z r. handle_apply_error env x ae s = (None, ee_on_terminal env z t)
    \<and> tget op_id (op_id x) (operations t) = Some z \<and> op_state z = OpSucceeded
    \<and> tget r_id rid (resources t) = Some r \<and> r_deleted_at r = Some (ee_now env)"
proof -
  let ?u = "update_op (op_id x) (\<lambda>x. after_move x OpSucceeded (\<lambda>y. y) (ee_wall env)) s"
  let ?z = "after_move y OpSucceeded (\<lambda>y. y) (ee_wall env)"
  let ?g = "\<lambda>r :: resource. r\<lparr>r_deleted_at := Some (ee_now env), r_updated_at := ee_now env\<rparr>"
  have key: "keeps_key r_id ?g" by (simp add: keeps_key_def)
  note tr = op_transition_ok [OF row assms(4), of OpSucceeded "\<lambda>y. y" "ee_wall env"]
  from assms(6) obtain r where r: "tget r_id rid (resources s) = Some r" "live r" by (auto simp: phase_is_def)
  then have v: "mark_deleted rid (ee_now env) ?u = Inr (update_resource rid ?g ?u)"
    by (auto simp: mark_deleted_Inr)
  obtain t where t: "event_append (op_event (ee_now env) ''operation.succeeded'' x ''succeeded'')
      (update_resource rid ?g ?u) = Inr t"
    and ft: "operations t = operations ?u" "resources t = tupd r_id rid ?g (resources s)"
    by (auto simp: event_append_Inr)
  have "succeed_tx env x OpInFlight (\<lambda>rid. mark_deleted rid (ee_now env)) s = Inr t"
    using tr(1) assms(5) v t by (simp add: succeed_tx_def)
  moreover have z: "tget op_id (op_id x) (operations t) = Some ?z" using tr(2) ft by simp
  ultimately have "handle_apply_error env x ae s = (None, ee_on_terminal env ?z t)"
    using assms(1,2) by (simp add: handle_apply_error_def succeed_delete_def commit_terminal_def notify_row)
  moreover have "tget r_id rid (resources t) = Some (?g r)" using r ft by (simp add: tget_tupd key)
  ultimately show ?thesis using z by (intro exI [of _ t] exI [of _ ?z] exI [of _ "?g r"]) simp
qed

text \<open>
  The delay before the next attempt is at least 10 milliseconds and at least what the provider
  asked for, and at most the larger of that and one and a half times the configured cap (or the
  10 milliseconds); the jitter is a factor between one half and one and a half.
\<close>

theorem backoff_bounds:
  assumes jitter: "\<And>d. 0 \<le> d \<Longrightarrow> d \<le> 2 * ee_jitter env d \<and> 2 * ee_jitter env d \<le> 3 * d"
    and "0 < ec_backoff_cap (ee_cfg env)"
  shows "10 * ms \<le> backoff env n cause
    \<and> (\<forall>e ra. cause = Some e \<and> retry_after_of e = Some ra \<longrightarrow> ra \<le> backoff env n cause)
    \<and> 2 * backoff env n cause \<le> max (2 * (10 * ms)) (max (3 * ec_backoff_cap (ee_cfg env))
        (case cause of None \<Rightarrow> 0 | Some e \<Rightarrow> (case retry_after_of e of None \<Rightarrow> 0 | Some ra \<Rightarrow> 2 * ra)))"
proof -
  let ?cap = "ec_backoff_cap (ee_cfg env)"
  define d0 where "d0 = i64 (ec_backoff_base (ee_cfg env) * 2 ^ nat (min n 16))"
  define d1 where "d1 = (if d0 > ?cap \<or> d0 \<le> 0 then ?cap else d0)"
  have "0 < d1" "d1 \<le> ?cap" using assms(2) by (auto simp: d1_def)
  then have j: "2 * ee_jitter env d1 \<le> 3 * ?cap" using jitter [of d1] by auto
  define d3 where "d3 = (case cause of None \<Rightarrow> ee_jitter env d1
      | Some e \<Rightarrow> (case retry_after_of e of None \<Rightarrow> ee_jitter env d1
          | Some ra \<Rightarrow> if ra > ee_jitter env d1 then ra else ee_jitter env d1))"
  have b: "backoff env n cause = (if d3 < 10 * ms then 10 * ms else d3)"
    by (simp only: backoff_def Let_def d0_def d1_def d3_def)
  show ?thesis
    using j unfolding b d3_def by (auto split: option.splits)
qed

text \<open>The routing of a restart, on any duplicate-free list of journal rows.\<close>

lemma resume_ops_ok:
  assumes "distinct (map op_id (operations s))" and "distinct (map op_id xs)" and "set xs \<subseteq> set (operations s)"
  shows "\<exists>s'. resume_ops wall xs s = (None, s') \<and> operations s' =
    map (\<lambda>y. if y \<in> set xs \<and> op_state y = OpInFlight
       then after_move y OpVerifying (\<lambda>y. y\<lparr>op_next_attempt_at := None\<rparr>) wall else y) (operations s)"
  using assms
proof (induction xs arbitrary: s)
  case (Cons x xs)
  let ?mut = "\<lambda>y :: operation. y\<lparr>op_next_attempt_at := None\<rparr>"
  have mem: "x \<in> set (operations s)" using Cons.prems(3) by simp
  have row: "tget op_id (op_id x) (operations s) = Some x" by (rule tget_of_mem [OF Cons.prems(1) mem])
  have nx: "x \<notin> set xs" "op_id x \<notin> op_id ` set xs" using Cons.prems(2) by auto
  show ?case
  proof (cases "op_state x = OpInFlight")
    case True
    let ?t = "update_op (op_id x) (\<lambda>x. after_move x OpVerifying ?mut wall) s"
    have key: "keeps_key op_id (\<lambda>x. after_move x OpVerifying ?mut wall)" by (simp add: keeps_key_def)
    have ops: "operations ?t = map (\<lambda>y. if y = x then after_move y OpVerifying ?mut wall else y) (operations s)"
      using distinct_key_eqD [OF Cons.prems(1) _ mem] by (auto simp: tupd_def)
    have d: "distinct (map op_id (operations ?t))" using Cons.prems(1) key by simp
    have sub: "set xs \<subseteq> set (operations ?t)"
    proof
      fix y
      assume y: "y \<in> set xs"
      with nx(1) Cons.prems(3) have "y \<in> set (operations s)" "y \<noteq> x" by auto
      then show "y \<in> set (operations ?t)" unfolding ops set_map by (intro image_eqI [of _ _ y]) simp_all
    qed
    from Cons.IH [OF d _ sub] Cons.prems(2) obtain s' where
      s': "resume_ops wall xs ?t = (None, s')" "operations s' = map (\<lambda>y. if y \<in> set xs \<and> op_state y = OpInFlight
         then after_move y OpVerifying ?mut wall else y) (operations ?t)" by auto
    have nin: "after_move x OpVerifying ?mut wall \<notin> set xs" using nx(2) by (metis after_move_simps(1) image_eqI)
    have "resume_ops wall (x # xs) s = (None, s')"
      using True s'(1) op_transition_ok(1) [OF row True] by simp
    moreover have "operations s' = map (\<lambda>y. if y \<in> set (x # xs) \<and> op_state y = OpInFlight
         then after_move y OpVerifying ?mut wall else y) (operations s)"
      unfolding s'(2) ops map_map comp_def using nx(1) nin True by (auto intro!: map_cong)
    ultimately show ?thesis by blast
  next
    case False
    have "distinct (map op_id xs)" "set xs \<subseteq> set (operations s)" using Cons.prems(2,3) by simp_all
    from Cons.IH [OF Cons.prems(1) this] obtain s' where "resume_ops wall xs s = (None, s')" "operations s' =
      map (\<lambda>y. if y \<in> set xs \<and> op_state y = OpInFlight
         then after_move y OpVerifying ?mut wall else y) (operations s)" by blast
    moreover have "map (\<lambda>y. if y \<in> set xs \<and> op_state y = OpInFlight
         then after_move y OpVerifying ?mut wall else y) (operations s) =
       map (\<lambda>y. if y \<in> set (x # xs) \<and> op_state y = OpInFlight
         then after_move y OpVerifying ?mut wall else y) (operations s)"
      using False by (intro map_cong) auto
    ultimately show ?thesis using False by simp
  qed
qed simp

end
