(* ===== verification/Discovery.thy ===== *)
theory Discovery
  imports Reconciler
begin

text \<open>
  The discovery sweep (internal/reconcile/discovery.go): observations are refreshed, provider
  resources without a local record are classified as ghosts or re-adopted, and local records whose
  provider resource vanished are orphaned and, after a grace time, tombstoned.
\<close>

record disc_config =
  dc_interval :: int
  dc_orphan_grace :: int
  dc_ghost_policy :: string
  dc_adopt_unlabeled :: string

definition disc_defaults :: "disc_config \<Rightarrow> disc_config" where
  "disc_defaults c =
     \<lparr>dc_interval = (if dc_interval c \<le> 0 then 30 * sec else dc_interval c),
      dc_orphan_grace = (if dc_orphan_grace c \<le> 0 then 60 * sec else dc_orphan_grace c),
      dc_ghost_policy = (if dc_ghost_policy c = [] then ''delete'' else dc_ghost_policy c),
      dc_adopt_unlabeled = (if dc_adopt_unlabeled c = [] then ''off'' else dc_adopt_unlabeled c)\<rparr>"

text \<open>
  A sweep's environment; \<open>de_fresh\<close> supplies, per external id, the identifiers of a minted record
  and of a ghost's delete operation.
\<close>

record disc_env =
  de_providers :: providers
  de_now :: int
  de_cfg :: disc_config
  de_instance :: string
  de_healthy :: "string \<Rightarrow> bool"
  de_fresh :: "string \<Rightarrow> nat \<Rightarrow> string"

definition disc_event :: "disc_env \<Rightarrow> string \<Rightarrow> string \<Rightarrow> string \<Rightarrow> string \<Rightarrow> event" where
  "disc_event env ty rid prov outcome =
     \<lparr>ev_ts = de_now env, ev_actor = ''discovery'', ev_idem_key = [], ev_type = ty,
      ev_resource = Some rid, ev_pool = None, ev_operation = None, ev_provider = prov,
      ev_outcome = outcome\<rparr>"

section \<open>Known resources\<close>

definition refresh_tx :: "disc_env \<Rightarrow> resource \<Rightarrow> observed_resource \<Rightarrow> db \<Rightarrow> err + db" where
  "refresh_tx env res obs s =
     bindE (put_observed \<lparr>sn_resource = r_id res, sn_observed_at = de_now env,
              sn_phase = ob_phase obs, sn_raw = obs\<rparr> s) (\<lambda>s.
     bindE (set_provider_facts (r_id res) (ob_extensions obs) (BVal (ob_capacity obs)) (de_now env) s) (\<lambda>s.
     if r_phase res = Orphaned \<and> ob_phase obs = PhaseRunning
       then cas_phase (r_id res) Orphaned Ready (de_now env) s
     else if r_phase res = Orphaned \<and> ob_phase obs = PhaseStopped
       \<and> pk_supported (pv_parking (de_providers env) (r_provider res) (r_kind res))
       then cas_phase (r_id res) Orphaned Parked (de_now env) s
     else Inr s))"

definition refresh_observed :: "disc_env \<Rightarrow> resource \<Rightarrow> observed_resource \<Rightarrow> db \<Rightarrow> db" where
  "refresh_observed env res obs s = tx_or_keep s (refresh_tx env res obs s)"

section \<open>Unknown resources\<close>

text \<open>The missing key of a label map reads as the empty string.\<close>

definition label_of :: "labels \<Rightarrow> string \<Rightarrow> string" where
  "label_of ls k = (case map_of ls k of None \<Rightarrow> [] | Some v \<Rightarrow> v)"

definition minted :: "disc_env \<Rightarrow> observed_resource \<Rightarrow> ownership \<Rightarrow> string \<Rightarrow> resource" where
  "minted env obs own rid =
     (let stopped = ob_phase obs = PhaseStopped
            \<and> pk_supported (pv_parking (de_providers env) (de_instance env) (ob_kind obs)) in
      \<lparr>r_id = rid, r_name = label_of (ob_labels obs) ''name'', r_kind = ob_kind obs,
       r_provider = de_instance env, r_class = label_of (ob_labels obs) label_class, r_pool = None,
       r_ownership = own, r_phase = (if stopped then Parked else Ready),
       r_external_id = Some (ref_id (ob_ref obs)), r_external_ref = BVal (ob_ref obs),
       r_generation = 0, r_observed_generation = 0, r_spec = BVal (JObj []),
       r_extension = ob_extensions obs, r_capacity = BVal (ob_capacity obs),
       r_exclusive_alloc = False, r_delete_protected = False, r_labels = ob_labels obs,
       r_ready_at = None, r_last_lease_ended_at = None, r_drain_started_at = None,
       r_parked_at = (if stopped then Some (de_now env) else None),
       r_created_at = de_now env, r_updated_at = de_now env, r_deleted_at = None\<rparr>)"

definition mint_record ::
    "disc_env \<Rightarrow> observed_resource \<Rightarrow> ownership \<Rightarrow> string \<Rightarrow> string \<Rightarrow> db \<Rightarrow> err + db" where
  "mint_record env obs own outcome rid s =
     bindE (resource_create (minted env obs own rid) s)
       (event_append (disc_event env (''resource.'' @ outcome) rid (de_instance env) outcome))"

definition handle_ghost :: "disc_env \<Rightarrow> observed_resource \<Rightarrow> db \<Rightarrow> db" where
  "handle_ghost env obs s =
     (let rid = de_fresh env (ref_id (ob_ref obs)) 0 in
      case mint_record env obs Managed ''ghost'' rid s of
        Inl _ \<Rightarrow> s
      | Inr s \<Rightarrow>
          (if dc_ghost_policy (de_cfg env) \<noteq> ''delete'' then s
           else (case cas_phase rid Ready Draining (de_now env) s of
              Inl _ \<Rightarrow> s
            | Inr s \<Rightarrow> tx_or_keep s (journal_delete rid (de_now env)
                         (de_fresh env (ref_id (ob_ref obs)) 1) s))))"

definition readopt :: "disc_env \<Rightarrow> observed_resource \<Rightarrow> db \<Rightarrow> db" where
  "readopt env obs s =
     tx_or_keep s (mint_record env obs Managed ''readopted'' (de_fresh env (ref_id (ob_ref obs)) 0) s)"

definition adopt_observed :: "disc_env \<Rightarrow> observed_resource \<Rightarrow> db \<Rightarrow> db" where
  "adopt_observed env obs s =
     tx_or_keep s (mint_record env obs Observed ''observed'' (de_fresh env (ref_id (ob_ref obs)) 0) s)"

text \<open>
  The decision of \<open>resolveOwnedUnmatched\<close>, from the snapshot of live records and open operations
  the sweep took and the journal row the create-operation label names.
\<close>

datatype unmatched = HandsOff | Ghost | Readopt

definition bound_elsewhere :: "resource list \<Rightarrow> observed_resource \<Rightarrow> operation \<Rightarrow> bool" where
  "bound_elsewhere alive obs x =
     (op_state x = OpSucceeded \<and> (case op_resource x of
        None \<Rightarrow> False
      | Some rid \<Rightarrow> (case tget r_id rid alive of
          None \<Rightarrow> False
        | Some res \<Rightarrow> (case r_external_id res of None \<Rightarrow> False | Some e \<Rightarrow> e \<noteq> ref_id (ob_ref obs)))))"

definition classify_unmatched ::
    "resource list \<Rightarrow> string list \<Rightarrow> observed_resource \<Rightarrow> db \<Rightarrow> unmatched" where
  "classify_unmatched alive open_res obs s =
     (if ob_fleetplane_id obs \<noteq> [] \<and> (case tget r_id (ob_fleetplane_id obs) alive of
            None \<Rightarrow> False
          | Some res \<Rightarrow> r_external_id res = None \<and> r_id res \<in> set open_res) then HandsOff
      else if ob_create_op_id obs = [] then Readopt
      else (case op_get (ob_create_op_id obs) s of
         Inl _ \<Rightarrow> Readopt
       | Inr x \<Rightarrow>
           (if \<not> op_terminal (op_state x) then HandsOff
            else if bound_elsewhere alive obs x \<or> op_state x = OpFailed \<or> op_state x = OpAborted
              then Ghost
            else Readopt)))"

definition resolve_owned_unmatched ::
    "disc_env \<Rightarrow> resource list \<Rightarrow> string list \<Rightarrow> observed_resource \<Rightarrow> db \<Rightarrow> db" where
  "resolve_owned_unmatched env alive open_res obs s =
     (case classify_unmatched alive open_res obs s of
        HandsOff \<Rightarrow> s
      | Ghost \<Rightarrow> handle_ghost env obs s
      | Readopt \<Rightarrow> readopt env obs s)"

section \<open>Orphans\<close>

definition tombstone_tx :: "disc_env \<Rightarrow> resource \<Rightarrow> db \<Rightarrow> err + db" where
  "tombstone_tx env res s =
     (if count_active (r_id res) s > 0 then Inl EConflict
      else bindE (mark_deleted (r_id res) (de_now env) s)
        (event_append (disc_event env ''resource.orphan_tombstoned'' (r_id res) (r_provider res) ''tombstoned'')))"

definition confirm_orphan :: "disc_env \<Rightarrow> driver \<Rightarrow> resource \<Rightarrow> db \<Rightarrow> db" where
  "confirm_orphan env d res s =
     (case r_external_id res of
        None \<Rightarrow> s
      | Some ext \<Rightarrow>
          (case dr_get d (stored_ref res ext) of
             Inr _ \<Rightarrow> s
           | Inl e \<Rightarrow>
               (if \<not> is_class e ErrNotFound then s
                else if r_phase res = Orphaned then
                  (if de_now env - r_updated_at res < milliseconds (dc_orphan_grace (de_cfg env)) then s
                   else tx_or_keep s (tombstone_tx env res s))
                else if \<not> can_transition (r_phase res) Orphaned then s
                else (case cas_phase (r_id res) (r_phase res) Orphaned (de_now env) s of
                   Inl _ \<Rightarrow> s
                 | Inr s \<Rightarrow> tx_or_keep s (event_append
                     (disc_event env ''resource.orphaned'' (r_id res) (r_provider res) ''orphaned'') s)))))"

section \<open>The sweep\<close>

definition sweep_observed ::
    "disc_env \<Rightarrow> resource list \<Rightarrow> string list \<Rightarrow> observed_resource \<Rightarrow> db \<Rightarrow> db" where
  "sweep_observed env alive open_res obs s =
     (case find (\<lambda>r. r_external_id r = Some (ref_id (ob_ref obs))) (rev alive) of
        Some res \<Rightarrow> refresh_observed env res obs s
      | None \<Rightarrow>
          (if ob_owned obs then resolve_owned_unmatched env alive open_res obs s
           else if dc_adopt_unlabeled (de_cfg env) = ''observed'' then adopt_observed env obs s
           else s))"

definition open_resources :: "db \<Rightarrow> string list" where
  "open_resources s = List.map_filter op_resource (ops_non_terminal s)"

definition orphan_suspect :: "observed_resource list \<Rightarrow> string list \<Rightarrow> resource \<Rightarrow> bool" where
  "orphan_suspect observed open_res res \<longleftrightarrow>
     live res \<and> (case r_external_id res of
       None \<Rightarrow> False
     | Some e \<Rightarrow> e \<notin> set (map (\<lambda>x. ref_id (ob_ref x)) observed)) \<and> r_id res \<notin> set open_res"

definition sweep_kind :: "disc_env \<Rightarrow> string \<Rightarrow> driver \<Rightarrow> db \<Rightarrow> err option \<times> db" where
  "sweep_kind env kind d s =
     (case dr_discover d (if dc_adopt_unlabeled (de_cfg env) = ''observed'' then ScopeAll else ScopeOwned) [] of
        Inl e \<Rightarrow> (Some e, s)
      | Inr observed \<Rightarrow>
          (let all = resource_list (no_filter\<lparr>f_provider := de_instance env, f_kind := kind,
                 f_include_deleted := True\<rparr>) s;
               alive = filter live all;
               open_res = open_resources s;
               s = fold (sweep_observed env alive open_res) observed s
           in if \<not> de_healthy env (de_instance env) then (None, s)
              else (None, fold (confirm_orphan env d) (filter (orphan_suspect observed open_res) all) s)))"

fun sweep_kinds :: "disc_env \<Rightarrow> provider_inst \<Rightarrow> string list \<Rightarrow> db \<Rightarrow> err option \<times> db" where
  "sweep_kinds env inst [] s = (None, s)"
| "sweep_kinds env inst (k # ks) s =
     (case pi_driver inst k of
        None \<Rightarrow> sweep_kinds env inst ks s
      | Some d \<Rightarrow> (case sweep_kind env k d s of
          (Some e, s) \<Rightarrow> (Some e, s)
        | (None, s) \<Rightarrow> sweep_kinds env inst ks s))"

definition sweep_provider :: "disc_env \<Rightarrow> db \<Rightarrow> err option \<times> db" where
  "sweep_provider env s =
     (case pv_instance (de_providers env) (de_instance env) of
        None \<Rightarrow> (Some (EOther ''unknown provider instance''), s)
      | Some inst \<Rightarrow> sweep_kinds env inst (pi_kinds inst) s)"

section \<open>The sweep's transactions keep the kernel invariant\<close>

definition refresh_phase :: "disc_env \<Rightarrow> resource \<Rightarrow> observed_resource \<Rightarrow> db \<Rightarrow> err + db" where
  "refresh_phase env res obs s =
     (if r_phase res = Orphaned \<and> ob_phase obs = PhaseRunning
        then cas_phase (r_id res) Orphaned Ready (de_now env) s
      else if r_phase res = Orphaned \<and> ob_phase obs = PhaseStopped
        \<and> pk_supported (pv_parking (de_providers env) (r_provider res) (r_kind res))
        then cas_phase (r_id res) Orphaned Parked (de_now env) s
      else Inr s)"

lemma kadv_refresh_phase:
  assumes "kinv s" and "refresh_phase env res obs s = Inr s'"
  shows "kadv s s'"
proof -
  have "kadv s s'" if "cas_phase (r_id res) Orphaned q (de_now env) s = Inr s'" "q = Ready \<or> q = Parked" for q
    using kadv_cas_phase [OF assms(1) that(1)] that(2)
    by (auto simp: can_transition_iff idle_phase_def lease_phase_def)
  then show ?thesis
    using assms by (auto simp: refresh_phase_def intro: kadv_refl split: if_splits)
qed

lemma kadv_refresh_tx:
  assumes "kinv s" and r: "refresh_tx env res obs s = Inr s'"
  shows "kadv s s'"
proof -
  from r obtain s1 s2 where 1: "put_observed \<lparr>sn_resource = r_id res, sn_observed_at = de_now env,
      sn_phase = ob_phase obs, sn_raw = obs\<rparr> s = Inr s1"
    and 2: "set_provider_facts (r_id res) (ob_extensions obs) (BVal (ob_capacity obs)) (de_now env) s1 = Inr s2"
    and 3: "refresh_phase env res obs s2 = Inr s'"
    by (auto simp: refresh_tx_def bindE_Inr_iff refresh_phase_def)
  have a1: "kadv s s1" by (rule kadv_put_observed [OF assms(1) 1])
  have a2: "kadv s1 s2" by (rule kadv_set_facts [OF kadv_kinv [OF a1] 2])
  have a3: "kadv s2 s'" by (rule kadv_refresh_phase [OF kadv_kinv [OF a2] 3])
  show ?thesis by (rule kadv_trans [OF kadv_trans [OF a1 a2] a3])
qed

lemma kadv_mint_record:
  assumes "kinv s" and "mint_record env obs own outcome rid s = Inr s'"
  shows "kadv s s'"
  using assms(1) assms(2)[unfolded mint_record_def]
  by (rule kadv_bindE) (rule kadv_resource_create [OF assms(1)] kadv_event; assumption)+

lemma kadv_tombstone_tx:
  assumes "kinv s" and t: "tombstone_tx env res s = Inr s'"
  shows "kadv s s'"
proof -
  from t have no: "count_active (r_id res) s = 0"
    and b: "bindE (mark_deleted (r_id res) (de_now env) s)
        (event_append (disc_event env ''resource.orphan_tombstoned'' (r_id res) (r_provider res) ''tombstoned'')) = Inr s'"
    by (auto simp: tombstone_tx_def simp del: append.simps split: if_splits)
  from assms(1) b show ?thesis
    by (rule kadv_bindE) (use assms(1) no in \<open>blast intro: kadv_mark_deleted kadv_event\<close>)+
qed

text \<open>
  The compare-and-set of the orphan path. A machine in a busy phase has an open operation, except
  that a provisioning one may have lost its; the sweep has seen that it has none.
\<close>

definition orphan_cas :: "string \<Rightarrow> phase \<Rightarrow> int \<Rightarrow> db \<Rightarrow> err + db" where
  "orphan_cas rid p now s = (if can_transition p Orphaned then cas_phase rid p Orphaned now s else Inl EConflict)"

lemma kadv_orphan_cas:
  assumes "kinv s" and "orphan_cas rid p now s = Inr s'" and "idle_phase p \<or> no_open rid s"
  shows "kadv s s'"
  using assms by (auto simp: orphan_cas_def lease_phase_def intro: kadv_cas_phase split: if_splits)

end
