(* ===== verification/System.thy ===== *)
theory System
  imports App_Admin Engine Discovery
begin

text \<open>
  The kernel as a state machine. A step of \<open>tx_step\<close> is one transaction that some goroutine of the
  process commits (a request handler, the engine, the scheduler, the reconciler, the discovery
  sweep, the lease sweeper), with arbitrary arguments: a rule assumes nothing of what the caller
  read beforehand, except the identity columns of a row read earlier (\<open>same_op\<close>, \<open>same_lease\<close>),
  which never change. Any interleaving of the goroutines is a run of this relation.
\<close>

inductive tx_step :: "db \<Rightarrow> db \<Rightarrow> bool" where
  s_create: "create_ready p \<Longrightarrow> keyed_tx ia oid rep now wall (create_body p actor key build) s = Inr (out, s')
    \<Longrightarrow> tx_step s s'"
| s_delete: "keyed_tx ia oid rep now wall (delete_body aenv cmd oid build) s = Inr (out, s') \<Longrightarrow> tx_step s s'"
| s_acquire: "acquire_tx aenv acmd aid abuild s = Inr (out, s') \<Longrightarrow> tx_step s s'"
| s_release: "release lid now s = Inr s' \<Longrightarrow> tx_step s s'"
| s_release_acq: "release_acquisition aid now s = Inr s' \<Longrightarrow> tx_step s s'"
| s_expire: "same_lease l s \<Longrightarrow> end_lease_tx l LeaseExpired AcqExpired ''lease.expired'' now s = Inr s'
    \<Longrightarrow> tx_step s s'"
| s_drain: "drain_resource aenv rid actor s = Inr s' \<Longrightarrow> tx_step s s'"
| s_undrain: "undrain_resource aenv rid actor s = Inr s' \<Longrightarrow> tx_step s s'"
| s_protect: "set_resource_protected aenv rid b actor s = Inr s' \<Longrightarrow> tx_step s s'"
| s_resolve: "resolve_operation aenv oid act actor s = Inr s' \<Longrightarrow> tx_step s s'"
| s_upsert_pool: "upsert_pool aenv pcmd pid s = Inr (p, s') \<Longrightarrow> tx_step s s'"
| s_pause_pool: "app_set_pool_paused aenv i b actor s = Inr s' \<Longrightarrow> tx_step s s'"
| s_delete_pool: "app_delete_pool aenv i actor s = Inr s' \<Longrightarrow> tx_step s s'"
| s_upsert_class: "upsert_class aenv ccmd s = Inr (c, s') \<Longrightarrow> tx_step s s'"
| s_delete_class: "delete_class aenv n actor s = Inr s' \<Longrightarrow> tx_step s s'"
| s_seed: "seed_config_classes cfg now s = Inr s' \<Longrightarrow> tx_step s s'"
| s_stop: "journal_stop pv rid now actor u oid s = Inr s' \<Longrightarrow> tx_step s s'"
| s_start: "journal_start pv rid now actor oid s = Inr s' \<Longrightarrow> tx_step s s'"
| s_pool_create: "create_ready p \<Longrightarrow> journal p actor key s = Inr s' \<Longrightarrow> tx_step s s'"
| s_pool_undrain: "cas_phase rid Draining Ready now s = Inr s' \<Longrightarrow> tx_step s s'"
| s_pool_drain: "cas_phase rid Ready Draining now s = Inr s' \<Longrightarrow> tx_step s s'"
| s_journal_delete: "journal_delete rid now oid s = Inr s' \<Longrightarrow> tx_step s s'"
| s_reclaim: "can_transition src Deleting \<Longrightarrow> cost_reclaim rid now src oid s = Inr s' \<Longrightarrow> tx_step s s'"
| s_checkpoint: "checkpoint_put k cp s = Inr s' \<Longrightarrow> tx_step s s'"
| s_memory: "tx_step s (s\<lparr>mem := m\<rparr>)"
| s_reserve: "reserve senv a rid want ex lid s = Inr s' \<Longrightarrow> tx_step s s'"
| s_start_parked: "start_tx senv a rid oid s = Inr s' \<Longrightarrow> tx_step s s'"
| s_scale: "create_ready p \<Longrightarrow> scale_tx senv a p s = Inr s' \<Longrightarrow> tx_step s s'"
| s_re_pend: "re_pend_tx senv a s = Inr s' \<Longrightarrow> tx_step s s'"
| s_acq_end: "acq_transition aid src dst now s = Inr s' \<Longrightarrow> src = AcqPending \<or> src = AcqProvisioning \<Longrightarrow>
    dst = AcqFailed \<or> dst = AcqExpired \<Longrightarrow> tx_step s s'"
| s_no_capacity: "fail_no_capacity_tx senv a s = Inr s' \<Longrightarrow> tx_step s s'"
| s_provisioning_timeout: "expire_provisioning_tx senv a s = Inr s' \<Longrightarrow> tx_step s s'"
| s_event: "event_append e s = Inr s' \<Longrightarrow> tx_step s s'"
| s_op_move: "op_transition oid src dst mut wall s = Inr s' \<Longrightarrow> \<not> op_terminal src \<Longrightarrow> \<not> op_terminal dst \<Longrightarrow>
    keeps_state mut \<Longrightarrow> tx_step s s'"
| s_accept: "accept_tx eenv x oref s = Inr s' \<Longrightarrow> tx_step s s'"
| s_adopt: "adopt_tx eenv x obs s = Inr s' \<Longrightarrow> tx_step s s'"
| s_created: "same_op x s \<Longrightarrow> \<not> op_terminal src \<Longrightarrow>
    succeed_tx eenv x src (create_done eenv st) s = Inr s' \<Longrightarrow> tx_step s s'"
| s_stopped: "same_op x s \<Longrightarrow> \<not> op_terminal src \<Longrightarrow>
    succeed_tx eenv x src (stop_done eenv st) s = Inr s' \<Longrightarrow> tx_step s s'"
| s_started: "same_op x s \<Longrightarrow> \<not> op_terminal src \<Longrightarrow>
    succeed_tx eenv x src (start_done eenv st) s = Inr s' \<Longrightarrow> tx_step s s'"
| s_deleted: "same_op x s \<Longrightarrow> \<not> op_terminal src \<Longrightarrow> op_kind x = OpKindDelete \<Longrightarrow>
    succeed_tx eenv x src (\<lambda>rid. mark_deleted rid (ee_now eenv)) s = Inr s' \<Longrightarrow> tx_step s s'"
| s_failed: "same_op x s \<Longrightarrow> \<not> op_terminal src \<Longrightarrow>
    (rf, rt) = fail_phases (op_kind x) \<or> (rf, rt) = (Starting, Failed) \<Longrightarrow>
    fail_op_tx eenv x src cause rf rt s = Inr s' \<Longrightarrow> tx_step s s'"
| s_refresh: "refresh_tx denv res obs s = Inr s' \<Longrightarrow> tx_step s s'"
| s_mint: "mint_record denv obs own outcome rid s = Inr s' \<Longrightarrow> tx_step s s'"
| s_tombstone: "tombstone_tx denv res s = Inr s' \<Longrightarrow> tx_step s s'"
| s_orphan: "orphan_cas rid src now s = Inr s' \<Longrightarrow> src = Provisioning \<longrightarrow> no_create rid s \<Longrightarrow> tx_step s s'"

lemma orphanable: "can_transition p Orphaned \<Longrightarrow> p \<noteq> Provisioning \<Longrightarrow> idle_phase p"
  by (cases p) (simp_all add: can_transition_iff idle_phase_def)

text \<open>A live provisioning machine without an open create operation has no open operation at all.\<close>

lemma provisioning_no_open:
  assumes "kinv s" and "no_create rid s" and "tget r_id rid (resources s) = Some r" and "live r"
    and "r_phase r = Provisioning"
  shows "no_open rid s"
  unfolding no_open_def
proof (intro ballI notI)
  fix x
  assume x: "x \<in> set (operations s)" "open_on rid x"
  then have "busy_phase (op_kind x) = Provisioning"
    using shieldedD [OF kinvD(1) [OF assms(1)] _ _ assms(3,4)] assms(5) by simp
  then have "op_kind x = OpKindCreate" by (cases "op_kind x") simp_all
  with x assms(2) show False by (auto simp: no_create_def)
qed

lemma kadv_orphan:
  assumes "kinv s" and o: "orphan_cas rid p now s = Inr s'" and "p = Provisioning \<longrightarrow> no_create rid s"
  shows "kadv s s'"
proof -
  from o obtain r where r: "tget r_id rid (resources s) = Some r" "live r" "r_phase r = p" "can_transition p Orphaned"
    by (auto simp: orphan_cas_def cas_phase_Inr split: if_splits)
  have "idle_phase p \<or> no_open rid s"
    using orphanable [OF r(4)] provisioning_no_open [OF assms(1) _ r(1,2)] r(3) assms(3) by blast
  then show ?thesis by (rule kadv_orphan_cas [OF assms(1) o])
qed

lemma fail_phases_legal:
  "(rf, rt) = fail_phases k \<or> (rf, rt) = (Starting, Failed) \<Longrightarrow> can_transition rf rt \<and> lease_phase rt"
  by (cases k) (auto simp: can_transition_iff lease_phase_def)

lemma kadv_seed: "kinv s \<Longrightarrow> seed_config_classes cfg now s = Inr s' \<Longrightarrow> kadv s s'"
  by (rule kadv_same_core [OF _ same_core_seed_config])

text \<open>Every transaction keeps the kernel invariant and moves the rows only as \<open>evolves\<close> allows.\<close>

lemma tx_step_kadv: "tx_step s s' \<Longrightarrow> kinv s \<Longrightarrow> kadv s s'"
proof (induction rule: tx_step.induct)
  case (s_create p ia oid rep now wall actor key build s out s')
  show ?case by (rule kadv_keyed_tx [OF s_create(3,2)]) (erule kadv_create_body [OF _ s_create(1)])
next
  case (s_delete ia oid rep now wall aenv cmd build s out s')
  show ?case by (rule kadv_keyed_tx [OF s_delete(2,1)]) (erule kadv_delete_body)
next
  case (s_memory s m)
  then show ?case by (rule kadv_frame) simp_all
next
  case (s_checkpoint k cp s s')
  show ?case by (rule kadv_frame [OF s_checkpoint(2)]) (use s_checkpoint(1) in \<open>auto simp: checkpoint_put_def\<close>)
next
  case (s_acq_end aid src dst now s s')
  then show ?case by (auto intro: kadv_acq_transition)
next
  case (s_failed x s src rf rt eenv cause s')
  then show ?case using kadv_fail_op_tx fail_phases_legal by blast
next
  case (s_orphan rid src now s s')
  then show ?case by (blast intro: kadv_orphan)
next
  case (s_pool_undrain rid now s s')
  then show ?case
    by (auto intro!: kadv_cas_phase simp: can_transition_iff idle_phase_def lease_phase_def)
next
  case (s_pool_drain rid now s s')
  then show ?case
    by (auto intro!: kadv_cas_phase simp: can_transition_iff idle_phase_def lease_phase_def)
qed (blast intro: kadv_acquire_tx kadv_release kadv_release_acquisition kadv_drain_resource
    kadv_undrain_resource kadv_set_resource_protected kadv_resolve_operation
    kadv_app_delete_pool kadv_journal_stop kadv_journal_start kadv_journal kadv_journal_delete
    kadv_cost_reclaim kadv_reserve kadv_start_tx kadv_scale_tx kadv_re_pend_tx kadv_fail_no_capacity_tx
    kadv_expire_provisioning_tx kadv_event kadv_op_transition kadv_accept_tx kadv_adopt_tx
    kadv_success kadv_success_delete kadv_refresh_tx kadv_mint_record kadv_tombstone_tx
    kadv_same_core same_core_upsert_pool same_core_set_pool_paused same_core_upsert_class
    same_core_delete_class kadv_seed kadv_end_lease_tx lease_state.distinct acq_state.distinct)+

section \<open>Runs\<close>

abbreviation tx_steps :: "db \<Rightarrow> db \<Rightarrow> bool" where
  "tx_steps \<equiv> tx_step\<^sup>*\<^sup>*"

inductive reachable :: "db \<Rightarrow> bool" where
  reach_init: "reachable empty_db"
| reach_step: "reachable s \<Longrightarrow> tx_step s s' \<Longrightarrow> reachable s'"

lemma tx_steps_kadv: "tx_steps s s' \<Longrightarrow> kinv s \<Longrightarrow> kadv s s'"
  by (induction rule: rtranclp_induct) (auto intro: kadv_refl kadv_trans tx_step_kadv dest: kadv_kinv)

lemma reachable_kinv: "reachable s \<Longrightarrow> kinv s"
  by (induction rule: reachable.induct) (auto intro: kinv_empty tx_step_kadv kadv_kinv)

lemma reachable_steps: "tx_steps s s' \<Longrightarrow> reachable s \<Longrightarrow> reachable s'"
  by (induction rule: rtranclp_induct) (auto intro: reach_step)

lemma tx_steps_kinv: "tx_steps s s' \<Longrightarrow> kinv s \<Longrightarrow> kinv s'"
  using tx_steps_kadv kadv_kinv by blast

lemma tx_steps_evolves: "tx_steps s s' \<Longrightarrow> kinv s \<Longrightarrow> evolves s s'"
  using tx_steps_kadv by (auto simp: kadv_def)

text \<open>
  What a sweep has seen once - no open create operation on a resource - stays true in every later
  state, whatever ran in between.
\<close>

lemma tx_steps_no_create:
  "tx_steps s s' \<Longrightarrow> kinv s \<Longrightarrow> tget r_id rid (resources s) \<noteq> None \<Longrightarrow> no_create rid s \<Longrightarrow> no_create rid s'"
  using tx_steps_kadv unfolding kadv_def calm_def by blast

section \<open>Composing runs\<close>

lemma steps_one: "tx_step s s' \<Longrightarrow> tx_steps s s'"
  by (rule r_into_rtranclp)

lemma steps_trans: "tx_steps s t \<Longrightarrow> tx_steps t u \<Longrightarrow> tx_steps s u"
  by (rule rtranclp_trans)

lemma steps_keep: "(\<And>t. r = Inr t \<Longrightarrow> tx_step s t) \<Longrightarrow> tx_steps s (tx_or_keep s r)"
  by (cases r) (auto intro: steps_one)

lemma steps_run_tx: "(\<And>t. r = Inr t \<Longrightarrow> tx_step s t) \<Longrightarrow> tx_steps s (snd (run_tx s r))"
  by (cases r) (auto intro: steps_one)

lemma steps_set_mem: "tx_steps s (set_mem f s)"
  unfolding set_mem_def by (rule steps_one, rule s_memory)

lemma steps_mem: "tx_steps s (s\<lparr>mem := m\<rparr>)"
  by (rule steps_one, rule s_memory)

text \<open>A loop over a list whose body is a run as long as the item's precondition holds.\<close>

lemma steps_fold:
  assumes "\<And>x s. x \<in> set xs \<Longrightarrow> kinv s \<Longrightarrow> P x s \<Longrightarrow> tx_steps s (f x s)"
    and "\<And>x s t. kinv s \<Longrightarrow> P x s \<Longrightarrow> tx_steps s t \<Longrightarrow> P x t"
    and "kinv s" and "\<And>x. x \<in> set xs \<Longrightarrow> P x s"
  shows "tx_steps s (fold f xs s)"
  using assms(1,3,4)
proof (induction xs arbitrary: s)
  case (Cons x xs)
  have 1: "tx_steps s (f x s)" using Cons.prems by simp
  have "tx_steps (f x s) (fold f xs (f x s))"
  proof (rule Cons.IH)
    show "kinv (f x s)" by (rule tx_steps_kinv [OF 1 Cons.prems(2)])
    show "P y (f x s)" if "y \<in> set xs" for y
      by (rule assms(2) [OF Cons.prems(2) Cons.prems(3) 1]) (simp add: that)
    show "tx_steps t (f y t)" if "y \<in> set xs" "kinv t" "P y t" for y t
      by (rule Cons.prems(1)) (use that in simp_all)
  qed
  then show ?case using steps_trans [OF 1] by simp
qed simp

lemma steps_fold_any: "(\<And>x s. tx_steps s (f x s)) \<Longrightarrow> tx_steps s (fold f xs s)"
  by (induction xs arbitrary: s) (auto intro: rtranclp_trans)

end
