(* ===== verification/Runs.thy ===== *)
theory Runs
  imports System
begin

text \<open>
  The loops of the kernel are runs of its transactions: the scheduler's ladder and its resume, the
  lease sweep, a reconcile cycle, a discovery sweep, an engine step and the restart routing, and
  the commands of the service. So every invariant of \<open>System\<close> holds for whatever they do, at any
  point and in any interleaving.
\<close>

section \<open>The scheduler\<close>

lemma steps_observe_bound: "tx_steps s (observe_bound a rid s)"
  by (simp add: observe_bound_def steps_set_mem)

lemma steps_mark_queued: "tx_steps s (mark_queued env a s)"
  unfolding mark_queued_def Let_def
  by (auto intro: steps_trans [OF steps_set_mem] steps_keep s_event)

lemma steps_try_reserve: "tx_steps s (snd (try_reserve env a want ex i cs s))"
proof (induction cs arbitrary: i)
  case (Cons c cs)
  show ?case
  proof (cases "reserve env a (cd_id c) want ex (se_fresh env (a_id a) i) s")
    case (Inl e)
    then show ?thesis using Cons.IH by simp
  next
    case (Inr t)
    then show ?thesis
      by (simp add: steps_trans [OF steps_one [OF s_reserve] steps_observe_bound])
  qed
qed simp

lemma steps_try_start: "tx_steps s (snd (try_start env a i cs s))"
proof (induction cs arbitrary: i)
  case (Cons c cs)
  then show ?case
    using steps_one [OF s_start_parked] by (cases c) (auto split: sum.splits)
qed simp

lemma steps_start_parked: "tx_steps s (snd (start_parked env a want s))"
  by (simp add: start_parked_def steps_try_start)

lemma steps_scale_on_demand: "tx_steps s (snd (scale_on_demand env a s))"
  unfolding scale_on_demand_def
  by (auto simp: bindE_Inr_iff intro: steps_one s_scale prepare_create_ready split: option.splits sum.splits)

lemma steps_satisfy: "tx_steps s (snd (satisfy env aid s))"
proof (cases "acq_get aid s")
  case (Inr a)
  show ?thesis
  proof (cases "parse_request (a_constraints a)")
    case (Inl e)
    then show ?thesis using Inr by (simp add: satisfy_def)
  next
    case req: (Inr r)
    obtain rq want ex where r: "r = (rq, want, ex)" by (cases r)
    obtain b1 s1 where 1: "try_reserve env a want ex 0 (take 3 (ranked_candidates env a want ex s)) s = (b1, s1)"
      by fastforce
    obtain b2 s2 where 2: "start_parked env a want s1 = (b2, s2)" by fastforce
    have t1: "tx_steps s s1" using steps_try_reserve 1 by (metis snd_conv)
    have t2: "tx_steps s s2" using steps_trans [OF t1] steps_start_parked 2 by (metis snd_conv)
    have "snd (satisfy env aid s) \<in> {s, s1, s2, mark_queued env a s2, snd (scale_on_demand env a s2)}"
      using Inr req r 1 2 by (simp add: satisfy_def Let_def split: sum.splits bool.splits)
    then show ?thesis
      using t1 t2 steps_trans [OF t2 steps_mark_queued] steps_trans [OF t2 steps_scale_on_demand] by auto
  qed
qed (simp add: satisfy_def)

lemma steps_re_pend: "tx_steps s (re_pend env a s)"
  unfolding re_pend_def by (rule steps_keep) (rule s_re_pend)

lemma steps_resolve_pending: "tx_steps s (resolve_pending env a k st s)"
  unfolding resolve_pending_def
  by (auto intro!: steps_keep steps_re_pend intro: s_reserve s_acq_end split: sum.splits option.splits)

lemma steps_sched_op_terminal: "tx_steps s (sched_op_terminal env x s)"
proof -
  have 1: "tx_steps s (if op_kind x = OpKindStart then
       (if op_state x = OpSucceeded then clear_start_backoff rid s
        else if op_state x = OpFailed \<or> op_state x = OpAborted then bump_start_backoff rid (se_now env) s
        else s) else s)" for rid
    by (simp add: clear_start_backoff_def bump_start_backoff_def Let_def steps_set_mem)
  show ?thesis
    unfolding sched_op_terminal_def Let_def
    by (auto split: option.splits intro!: steps_trans [OF 1] steps_fold_any steps_resolve_pending)
qed

lemma steps_resume_pending: "tx_steps s (resume_pending env timeout a s)"
proof -
  obtain r t where r: "satisfy env (a_id a) s = (r, t)" by fastforce
  have 1: "tx_steps s t" using steps_satisfy r by (metis snd_conv)
  have 2: "tx_steps t (tx_or_keep t (fail_no_capacity_tx env a t))"
    by (rule steps_keep) (rule s_no_capacity)
  have 3: "tx_steps t (tx_or_keep t (acq_transition (a_id a) AcqPending AcqExpired (se_now env) t))"
    by (rule steps_keep) (auto intro: s_acq_end)
  have "resume_pending env timeout a s \<in> {t, tx_or_keep t (fail_no_capacity_tx env a t),
      tx_or_keep t (acq_transition (a_id a) AcqPending AcqExpired (se_now env) t)}"
    by (auto simp: resume_pending_def r split: sum.splits err.splits)
  then show ?thesis using 1 2 3 by (auto intro: steps_trans)
qed

lemma steps_resume_provisioning: "tx_steps s (resume_provisioning env timeout a s)"
  unfolding resume_provisioning_def
  by (auto intro!: steps_keep steps_resolve_pending steps_re_pend intro: s_provisioning_timeout
      split: option.splits sum.splits)

lemma steps_sched_resume: "tx_steps s (sched_resume env timeout s)"
  unfolding sched_resume_def
  by (rule steps_fold_any)
    (auto simp: resume_acq_def intro: steps_resume_pending steps_resume_provisioning split: acq_state.splits)

section \<open>The lease sweep\<close>

lemma same_lease_step:
  assumes "kinv s" and "\<exists>row. tget l_id (l_id l) (leases s) = Some row" and "same_lease l s" and "tx_steps s t"
  shows "same_lease l t" and "\<exists>row. tget l_id (l_id l) (leases t) = Some row"
proof -
  from assms(2) obtain row where "tget l_id (l_id l) (leases s) = Some row" by blast
  with tx_steps_evolves [OF assms(4,1)] obtain row' where
    "tget l_id (l_id l) (leases t) = Some row'" "lease_evolves row row'"
    unfolding evolves_def rows_evolve_def by blast
  moreover have "l_resource row = l_resource l \<and> l_acquisition row = l_acquisition l"
    using assms(3) \<open>tget l_id (l_id l) (leases s) = Some row\<close> by (simp add: same_lease_def)
  ultimately show "same_lease l t" and "\<exists>row. tget l_id (l_id l) (leases t) = Some row"
    by (simp_all add: same_lease_def lease_evolves_def)
qed

lemma steps_sweep_expired:
  assumes "kinv s"
  shows "tx_steps s (snd (sweep_expired now s))"
proof -
  have one: "tx_steps t (snd (expire_one now l (n, t)))" if "same_lease l t" for l n t
    using that by (auto simp: expire_one_def intro: steps_one s_expire split: sum.splits)
  have "tx_steps t (snd (fold (expire_one now) ls (n, t)))"
    if "kinv t" and "\<And>l. l \<in> set ls \<Longrightarrow> same_lease l t \<and> (\<exists>row. tget l_id (l_id l) (leases t) = Some row)"
    for ls n t
    using that
  proof (induction ls arbitrary: n t)
    case (Cons l ls)
    obtain m u where u: "expire_one now l (n, t) = (m, u)" by fastforce
    have 1: "tx_steps t u" using one [of l t n] Cons.prems(2) u by (metis list.set_intros(1) snd_conv)
    have "tx_steps u (snd (fold (expire_one now) ls (m, u)))"
    proof (rule Cons.IH)
      show "kinv u" by (rule tx_steps_kinv [OF 1 Cons.prems(1)])
      show "same_lease k u \<and> (\<exists>row. tget l_id (l_id k) (leases u) = Some row)" if "k \<in> set ls" for k
        using Cons.prems(2) [of k] that same_lease_step [OF Cons.prems(1) _ _ 1] by simp
    qed
    then show ?case using 1 u by (simp add: steps_trans)
  qed simp
  moreover have "same_lease l s \<and> (\<exists>row. tget l_id (l_id l) (leases s) = Some row)"
    if "l \<in> set (leases_expiring now 100 s)" for l
  proof -
    from that have "l \<in> set (leases s)"
      unfolding leases_expiring_def using in_set_takeD by fastforce
    then have "tget l_id (l_id l) (leases s) = Some l"
      by (rule tget_of_mem [OF coreD(3) [OF kinvD(1) [OF assms]]])
    then show ?thesis using stored_same_lease by blast
  qed
  ultimately show ?thesis using assms by (simp add: sweep_expired_def)
qed

section \<open>The reconciler\<close>

lemma steps_Cons: "tx_step s t \<Longrightarrow> tx_steps t u \<Longrightarrow> tx_steps s u"
  by (rule converse_rtranclp_into_rtranclp)

lemma steps_bump_failure: "tx_steps s (bump_failure_backoff env pid s)"
  unfolding bump_failure_backoff_def Let_def by (rule steps_keep) (rule s_checkpoint)

lemma steps_reset_failure: "tx_steps s (reset_failure_backoff pid s)"
  unfolding reset_failure_backoff_def by (rule steps_keep) (rule s_checkpoint)

lemma steps_rec_op_terminal: "tx_steps s (rec_op_terminal env x s)"
  by (auto simp: rec_op_terminal_def intro: steps_bump_failure steps_reset_failure split: option.splits)

text \<open>One item of a cycle's pass: its transaction, then the rest of the pass.\<close>

lemma steps_item:
  assumes "\<And>t. r = Inr t \<Longrightarrow> tx_step s t" and "tx_steps s (cy_db a)"
    and "\<And>t. r = Inr t \<Longrightarrow> tx_steps t (cy_db (b t))"
  shows "tx_steps s (cy_db (case r of Inl e \<Rightarrow> a | Inr t \<Rightarrow> b t))"
  using assms by (cases r) (auto intro: steps_Cons)

lemma steps_undrain_pass: "cy_db c = s \<Longrightarrow> tx_steps s (cy_db (undrain_pass env rs c))"
proof (induction rs arbitrary: c s)
  case (Cons r rs)
  show ?case
    by (auto simp: Cons.prems intro!: steps_item Cons.IH intro: s_pool_undrain simp del: sum.case)
qed simp

lemma steps_warm_pass: "cy_db c = s \<Longrightarrow> tx_steps s (cy_db (warm_pass env m rs c))"
proof (induction rs arbitrary: c s)
  case (Cons r rs)
  show ?case
    by (auto simp: Cons.prems intro!: steps_item Cons.IH intro: s_start simp del: sum.case)
qed simp

lemma steps_create_pass: "cy_db c = s \<Longrightarrow> tx_steps s (cy_db (create_pass env p kind prov machine n c))"
proof (induction n arbitrary: c s)
  case (Suc n)
  have "tx_step s t" if "create_one env p kind prov machine rid oid s = Inr t" for rid oid t
    using that by (auto simp: create_one_def bindE_Inr_iff intro: s_pool_create prepare_create_ready)
  then show ?case
    by (auto simp: Suc.prems intro!: steps_item Suc.IH simp del: sum.case)
qed simp

lemma steps_scale_up: "cy_db c = s \<Longrightarrow> tx_steps s (cy_db (scale_up env p spec n kind prov machine c))"
  by (auto simp: scale_up_def Let_def intro: steps_create_pass)

lemma steps_parked_pass: "cy_db c = s \<Longrightarrow> tx_steps s (cy_db (parked_pass env rs c))"
proof (induction rs arbitrary: c s)
  case (Cons r rs)
  have "can_transition Parked Deleting" by (simp add: can_transition_iff)
  then show ?case
    by (auto simp: Cons.prems intro!: steps_item Cons.IH intro: s_reclaim simp del: sum.case)
qed simp

lemma steps_drain_pass: "cy_db c = s \<Longrightarrow> tx_steps s (cy_db (drain_pass env m rs c))"
proof (induction rs arbitrary: c s)
  case (Cons r rs)
  show ?case
    by (auto simp: Cons.prems intro!: steps_item Cons.IH intro: s_pool_drain simp del: sum.case)
qed simp

lemma steps_delete_pass: "cy_db c = s \<Longrightarrow> tx_steps s (cy_db (delete_pass env rs c))"
proof (induction rs arbitrary: c s)
  case (Cons r rs)
  show ?case
    by (auto simp: Cons.prems intro!: steps_item Cons.IH intro: s_journal_delete simp del: sum.case)
qed simp

lemma steps_park_pass: "cy_db c = s \<Longrightarrow> tx_steps s (cy_db (park_pass env spec rs c))"
proof (induction rs arbitrary: c s)
  case (Cons r rs)
  show ?case
    by (auto simp: Cons.prems intro!: steps_item Cons.IH intro: s_stop simp del: sum.case)
qed simp

lemmas steps_passes = steps_undrain_pass steps_warm_pass steps_scale_up steps_parked_pass
  steps_drain_pass steps_delete_pass steps_park_pass

lemma steps_run_passes: "tx_steps (cy_db c) (cy_db (run_passes env p spec kind prov machine reclaim rs c))"
proof -
  define c1 where "c1 = undrain_pass env (in_phase Draining rs) c"
  define c2 where "c2 = (if ps_min_running spec > 0 \<and> cy_hot c1 < ps_min_running spec \<and> cy_budget c1 > 0
     then warm_pass env (ps_min_running spec) (in_phase Parked rs) c1 else c1)"
  define c3 where "c3 = scale_up env p spec (length rs) kind prov machine c2"
  define c4 where "c4 = c3\<lparr>cy_surplus := d_counted (cy_delta c3) - ps_replicas spec\<rparr>"
  define c5 where "c5 = parked_pass env (oldest_parked rs) c4"
  define c6 where "c6 = drain_pass env (ps_min_ready spec) (reclaimable (in_phase Ready rs) reclaim (re_now env)) c5"
  define c7 where "c7 = delete_pass env (in_phase Draining rs) c6"
  define c8 where "c8 = delete_pass env (in_phase Failed rs) c7"
  note parts = c1_def c2_def c3_def c4_def c5_def c6_def c7_def c8_def
  have "tx_steps (cy_db c) (cy_db c1)" "tx_steps (cy_db c1) (cy_db c2)" "tx_steps (cy_db c2) (cy_db c3)"
    "tx_steps (cy_db c3) (cy_db c4)" "tx_steps (cy_db c4) (cy_db c5)" "tx_steps (cy_db c5) (cy_db c6)"
    "tx_steps (cy_db c6) (cy_db c7)" "tx_steps (cy_db c7) (cy_db c8)"
    unfolding parts by (simp_all add: steps_passes)
  then have 8: "tx_steps (cy_db c) (cy_db c8)" by (blast intro: steps_trans)
  have park: "tx_steps (cy_db c8) (cy_db (park_pass env spec ms (c8\<lparr>cy_ready_left := n\<rparr>)))" for ms n
    by (rule steps_park_pass) simp
  have "cy_db (run_passes env p spec kind prov machine reclaim rs c) \<in>
      {cy_db c8, cy_db (park_pass env spec (reclaimable (in_phase Ready rs) reclaim (re_now env))
        (c8\<lparr>cy_ready_left := d_ready (cy_delta c8) - d_drained (cy_delta c8)\<rparr>))}"
    unfolding run_passes_def Let_def parts by simp
  then show ?thesis using 8 steps_trans [OF 8 park] by auto
qed

lemma steps_run_once: "tx_steps s (snd (run_once env pid s))"
proof -
  have "tx_steps s (cy_db (run_passes env p spec kind prov machine reclaim rs (start_cycle env spec rs' s)))"
    for p spec kind prov machine reclaim rs rs'
    using steps_run_passes [of "start_cycle env spec rs' s"] by (simp add: start_cycle_def Let_def)
  then show ?thesis
    by (auto simp: run_once_def Let_def split: sum.splits blob.splits)
qed

section \<open>The reclaim of poolless machines\<close>

lemma steps_rec_buffer: "tx_steps s (snd (rec_buffer env prov kind pol s))"
  by (auto simp: rec_buffer_def Let_def intro: steps_mem split: option.splits)

lemma steps_window_keeps: "tx_steps s (snd (window_keeps env res s))"
proof -
  obtain b t where b: "rec_buffer env (r_provider res) (r_kind res)
      (fst (pv_billing (re_providers env) (r_provider res) (r_kind res))) s = (b, t)" by fastforce
  have 1: "tx_steps s t" using steps_rec_buffer b by (metis snd_conv)
  have "\<exists>m. snd (window_keeps env res s) \<in> {s, t, t\<lparr>mem := m\<rparr>}"
    by (auto simp: window_keeps_def b Let_def split: option.splits decision.splits)
  then show ?thesis using 1 steps_trans [OF 1 steps_mem] by auto
qed

lemma steps_reclaim_parked: "tx_steps (rs_db c) (rs_db (reclaim_parked env pol res c))"
proof -
  have "tx_step (rs_db c) t" if "cost_reclaim (r_id res) (re_now env) Parked oid (rs_db c) = Inr t" for oid t
    using that by (rule s_reclaim [rotated]) (simp add: can_transition_iff)
  then show ?thesis
    by (auto simp: reclaim_parked_def intro!: steps_one split: option.splits prod.splits bool.splits sum.splits)
qed

lemma steps_reclaim_idle: "tx_steps (rs_db c) (rs_db (reclaim_idle env pol res c))"
proof -
  obtain k t where k: "window_keeps env res (rs_db c) = (k, t)" by fastforce
  have 1: "tx_steps (rs_db c) t" using steps_window_keeps k by (metis snd_conv)
  let ?stop = "journal_stop (re_providers env) (r_id res) (re_now env) ''reconciler'' True (re_fresh env (r_id res) 0) t"
  let ?del = "cost_reclaim (r_id res) (re_now env) Ready (re_fresh env (r_id res) 0) t"
  have tx: "tx_step t u" if "?stop = Inr u \<or> ?del = Inr u" for u
  proof -
    have "can_transition Ready Deleting" by (simp add: can_transition_iff)
    with that show ?thesis by (blast intro: s_stop s_reclaim)
  qed
  have fin: "tx_steps (rs_db c) (rs_db (reclaim_done (r_id res) u (c\<lparr>rs_db := t\<rparr>)))"
    if "?stop = Inr u \<or> ?del = Inr u" for u
    using steps_trans [OF 1 steps_trans [OF steps_one [OF tx [OF that]] steps_mem]]
    by (simp add: reclaim_done_def)
  show ?thesis
    using 1 fin by (auto simp: reclaim_idle_def k Let_def split: prod.splits bool.splits sum.splits)
qed

lemma steps_reclaim_one: "tx_steps (rs_db c) (rs_db (reclaim_one env res c))"
  by (auto simp: reclaim_one_def intro: steps_reclaim_parked steps_reclaim_idle steps_one s_journal_delete
      split: option.splits sum.splits)

lemma steps_reclaim_poolless: "tx_steps s (snd (reclaim_poolless env s))"
proof -
  have "tx_steps (rs_db c) (rs_db (fold (reclaim_one env) rs c))" for rs c
    by (induction rs arbitrary: c) (auto intro: steps_trans [OF steps_reclaim_one])
  from this [where c = "\<lparr>rs_db = s, rs_queued = queued_acquisitions (re_now env) s,
      rs_budget = rc_max_mutations (re_cfg env), rs_cost = 50, rs_n = 0\<rparr>"]
  show ?thesis by (simp add: reclaim_poolless_def Let_def)
qed

lemma steps_reconcile_pass: "tx_steps s (reconcile_pass env todo s)"
  unfolding reconcile_pass_def Let_def
  by (rule steps_trans [OF steps_fold_any steps_reclaim_poolless]) (rule steps_run_once)

section \<open>The discovery sweep\<close>

lemma steps_refresh_observed: "tx_steps s (refresh_observed env res obs s)"
  unfolding refresh_observed_def by (rule steps_keep) (rule s_refresh)

lemma steps_handle_ghost: "tx_steps s (handle_ghost env obs s)"
proof (cases "mint_record env obs Managed ''ghost'' (de_fresh env (ref_id (ob_ref obs)) 0) s")
  case (Inr t)
  let ?cas = "cas_phase (de_fresh env (ref_id (ob_ref obs)) 0) Ready Draining (de_now env) t"
  have 1: "tx_steps s t" by (rule steps_one [OF s_mint [OF Inr]])
  have del: "tx_steps u (tx_or_keep u (journal_delete rid (de_now env) oid u))" for u rid oid
    by (rule steps_keep) (rule s_journal_delete)
  show ?thesis
  proof (cases ?cas)
    case (Inl e)
    then show ?thesis using 1 Inr by (simp add: handle_ghost_def Let_def)
  next
    case u: (Inr u)
    then show ?thesis
      using 1 Inr steps_trans [OF 1 steps_trans [OF steps_one [OF s_pool_drain [OF u]] del]]
      by (simp add: handle_ghost_def Let_def)
  qed
qed (simp add: handle_ghost_def Let_def)

lemma steps_sweep_observed: "tx_steps s (sweep_observed env alive open_res obs s)"
proof -
  have mint: "tx_steps s (tx_or_keep s (mint_record env obs own outcome rid s))" for own outcome rid
    by (rule steps_keep) (rule s_mint)
  show ?thesis
    using steps_refresh_observed steps_handle_ghost mint
    by (auto simp: sweep_observed_def resolve_owned_unmatched_def readopt_def adopt_observed_def
        split: option.splits unmatched.splits)
qed

text \<open>
  The guard of the orphan path, read from the snapshot at the start of the sweep, still holds when
  the compare-and-set runs.
\<close>

definition orphan_guard :: "resource \<Rightarrow> db \<Rightarrow> bool" where
  "orphan_guard res s \<longleftrightarrow> tget r_id (r_id res) (resources s) \<noteq> None
     \<and> (r_phase res = Provisioning \<longrightarrow> no_create (r_id res) s)"

lemma orphan_guard_step:
  assumes "kinv s" and "orphan_guard res s" and "tx_steps s t"
  shows "orphan_guard res t"
proof -
  from assms(2) obtain r where "tget r_id (r_id res) (resources s) = Some r" by (auto simp: orphan_guard_def)
  then have "tget r_id (r_id res) (resources t) \<noteq> None"
    using tx_steps_evolves [OF assms(3,1)] unfolding evolves_def rows_evolve_def by blast
  then show ?thesis
    using assms tx_steps_no_create by (auto simp: orphan_guard_def)
qed

lemma steps_confirm_orphan:
  assumes "orphan_guard res s"
  shows "tx_steps s (confirm_orphan env d res s)"
proof -
  have tomb: "tx_steps s (tx_or_keep s (tombstone_tx env res s))" by (rule steps_keep) (rule s_tombstone)
  have ev: "tx_steps t (tx_or_keep t (event_append e t))" for t e by (rule steps_keep) (rule s_event)
  have cas: "tx_step s t" if "can_transition (r_phase res) Orphaned"
      "cas_phase (r_id res) (r_phase res) Orphaned (de_now env) s = Inr t" for t
    by (rule s_orphan [of "r_id res" "r_phase res" "de_now env"])
      (use that assms in \<open>simp_all add: orphan_cas_def orphan_guard_def\<close>)
  show ?thesis
    using tomb by (auto simp: confirm_orphan_def intro: steps_Cons [OF cas ev]
        split: option.splits sum.splits)
qed

lemma orphan_suspect_guard:
  assumes "kinv s" and "res \<in> set (resources s)" and "orphan_suspect observed (open_resources s) res"
  shows "orphan_guard res s"
proof -
  have "no_create (r_id res) s"
    using assms(3)
    by (force simp: orphan_suspect_def open_resources_def ops_non_terminal_def no_create_def open_on_def
        List.map_filter_def image_iff)
  moreover have "tget r_id (r_id res) (resources s) = Some res"
    by (rule tget_of_mem [OF coreD(1) [OF kinvD(1) [OF assms(1)]] assms(2)])
  ultimately show ?thesis by (simp add: orphan_guard_def)
qed

lemma resource_list_mem: "r \<in> set (resource_list f s) \<Longrightarrow> r \<in> set (resources s)"
  by (simp add: resource_list_def)

lemma steps_sweep_kind:
  assumes "kinv s"
  shows "tx_steps s (snd (sweep_kind env kind d s))"
proof (cases "dr_discover d (if dc_adopt_unlabeled (de_cfg env) = ''observed'' then ScopeAll else ScopeOwned) []")
  case (Inl e)
  then show ?thesis by (simp add: sweep_kind_def)
next
  case (Inr observed)
  define all where "all = resource_list (no_filter\<lparr>f_provider := de_instance env, f_kind := kind,
     f_include_deleted := True\<rparr>) s"
  define t where "t = fold (sweep_observed env (filter live all) (open_resources s)) observed s"
  have 1: "tx_steps s t" unfolding t_def by (rule steps_fold_any) (rule steps_sweep_observed)
  have guard: "orphan_guard res t" if "res \<in> set (filter (orphan_suspect observed (open_resources s)) all)" for res
    using that orphan_suspect_guard [OF assms] resource_list_mem orphan_guard_step [OF assms _ 1]
    by (auto simp: all_def)
  have "tx_steps t (fold (confirm_orphan env d) (filter (orphan_suspect observed (open_resources s)) all) t)"
    by (rule steps_fold [where P = orphan_guard])
      (auto intro: steps_confirm_orphan orphan_guard_step tx_steps_kinv [OF 1 assms] guard)
  then show ?thesis
    using 1 Inr by (auto simp: sweep_kind_def Let_def all_def [symmetric] t_def [symmetric] intro: steps_trans)
qed

lemma steps_sweep_kinds: "kinv s \<Longrightarrow> tx_steps s (snd (sweep_kinds env inst ks s))"
proof (induction ks arbitrary: s)
  case (Cons k ks)
  show ?case
  proof (cases "pi_driver inst k")
    case None
    then show ?thesis using Cons by simp
  next
    case (Some d)
    obtain e t where t: "sweep_kind env k d s = (e, t)" by fastforce
    have 1: "tx_steps s t" using steps_sweep_kind [OF Cons.prems] t by (metis snd_conv)
    show ?thesis
      using Some t 1 steps_trans [OF 1 Cons.IH [OF tx_steps_kinv [OF 1 Cons.prems]]]
      by (cases e) simp_all
  qed
qed simp

lemma steps_sweep_provider: "kinv s \<Longrightarrow> tx_steps s (snd (sweep_provider env s))"
  by (auto simp: sweep_provider_def intro: steps_sweep_kinds split: option.splits)

section \<open>The engine\<close>

text \<open>
  The callback boot wires into the engine (internal/boot/boot.go): the reconciler, the scheduler
  and the cost observer, which only writes metrics.
\<close>

definition on_terminal :: "rec_env \<Rightarrow> sched_env \<Rightarrow> operation \<Rightarrow> db \<Rightarrow> db" where
  "on_terminal renv senv x s = sched_op_terminal senv x (rec_op_terminal renv x s)"

definition runs_callback :: "engine_env \<Rightarrow> bool" where
  "runs_callback env \<longleftrightarrow> (\<forall>x s. tx_steps s (ee_on_terminal env x s))"

lemma runs_on_terminal: "tx_steps s (on_terminal renv senv x s)"
  unfolding on_terminal_def by (rule steps_trans [OF steps_rec_op_terminal steps_sched_op_terminal])

lemma steps_commit_terminal:
  assumes "runs_callback env" and "\<And>t. r = Inr t \<Longrightarrow> tx_step s t"
  shows "tx_steps s (snd (commit_terminal env oid s r))"
proof (cases r)
  case (Inl e)
  then show ?thesis by (simp add: commit_terminal_def)
next
  case (Inr t)
  have "tx_steps t (notify_terminal env oid t)"
    using assms(1) by (auto simp: notify_terminal_def runs_callback_def split: sum.splits)
  then show ?thesis using Inr steps_Cons [OF assms(2) [OF Inr]] by (simp add: commit_terminal_def)
qed

lemma same_op_step: "kinv s \<Longrightarrow> same_op x s \<Longrightarrow> tx_steps s t \<Longrightarrow> same_op x t"
  using same_op_evolves tx_steps_evolves by blast

lemma steps_fail_op_phases:
  assumes "runs_callback env" and "\<not> op_terminal p"
    and "\<And>x. op_get oid s = Inr x \<Longrightarrow> (rf, rt) = fail_phases (op_kind x) \<or> (rf, rt) = (Starting, Failed)"
  shows "tx_steps s (snd (fail_op_phases env oid p cause rf rt s))"
proof (cases "op_get oid s")
  case (Inr x)
  then have "same_op x s" by (simp add: op_get_Inr same_op_stored)
  then have "tx_step s t" if "fail_op_tx env x p cause rf rt s = Inr t" for t
    using s_failed [OF _ assms(2) assms(3) [OF Inr] that] by blast
  then show ?thesis
    using Inr by (simp add: fail_op_phases_def steps_commit_terminal [OF assms(1)])
qed (simp add: fail_op_phases_def)

lemma steps_fail_op:
  assumes "runs_callback env" and "\<not> op_terminal p"
  shows "tx_steps s (snd (fail_op env oid p cause s))"
proof (cases "op_get oid s")
  case (Inr x)
  have "tx_steps s (snd (fail_op_phases env oid p cause (fst (fail_phases (op_kind x)))
      (snd (fail_phases (op_kind x))) s))"
    by (rule steps_fail_op_phases [OF assms]) (simp add: Inr)
  then show ?thesis using Inr by (simp add: fail_op_def)
qed (simp add: fail_op_def)

lemma steps_succeed:
  assumes "runs_callback env" and "same_op x s"
  shows "\<not> op_terminal (op_state x) \<Longrightarrow> tx_steps s (snd (succeed_create env x st s))"
    and "\<not> op_terminal (op_state x) \<Longrightarrow> tx_steps s (snd (succeed_stop env x st s))"
    and "\<not> op_terminal (op_state x) \<Longrightarrow> tx_steps s (snd (succeed_start env x st s))"
    and "op_kind x = OpKindDelete \<Longrightarrow> \<not> op_terminal p \<Longrightarrow> tx_steps s (snd (succeed_delete env x p s))"
  unfolding succeed_create_def succeed_stop_def succeed_start_def succeed_delete_def
  by (rule steps_commit_terminal [OF assms(1)], erule s_created [OF assms(2), rotated], assumption)
    (rule steps_commit_terminal [OF assms(1)], erule s_stopped [OF assms(2), rotated], assumption,
     rule steps_commit_terminal [OF assms(1)], erule s_started [OF assms(2), rotated], assumption,
     rule steps_commit_terminal [OF assms(1)], erule s_deleted [OF assms(2), rotated 2], assumption+)

lemma steps_move:
  "\<not> op_terminal p \<Longrightarrow> \<not> op_terminal q \<Longrightarrow> keeps_state mut \<Longrightarrow>
     tx_steps s (snd (run_tx s (op_transition oid p q mut wall s)))"
  by (rule steps_run_tx) (rule s_op_move)

lemma steps_reschedule: "\<not> op_terminal (op_state x) \<Longrightarrow> tx_steps s (snd (reschedule env x cause s))"
  unfolding reschedule_def Let_def
  by (rule steps_move) (simp_all add: keeps_state_def set_err_def split: option.splits)

lemma steps_handle_apply_error:
  assumes "runs_callback env" and "same_op x s"
  shows "tx_steps s (snd (handle_apply_error env x ae s))"
  unfolding handle_apply_error_def Let_def
  using steps_succeed(4) [OF assms] steps_fail_op [OF assms(1)]
  by (simp add: steps_move)

lemma steps_dispatch:
  assumes "runs_callback env" and "kinv s" and "same_op x s" and "op_state x = OpJournaled"
  shows "tx_steps s (snd (dispatch env x s))"
proof (cases "driver_and_action env x s")
  case (Inl e)
  then show ?thesis using steps_fail_op [OF assms(1)] assms(4) by (simp add: dispatch_def)
next
  case (Inr da)
  obtain d act where da: "da = (d, act)" by (cases da)
  let ?tr = "op_transition (op_id x) OpJournaled OpInFlight
     (to_in_flight (ee_now env + milliseconds (ec_verify_window (ee_cfg env)))) (ee_wall env) s"
  have rest: "tx_steps s (snd (case dr_apply d act of
                    Inl ae \<Rightarrow> handle_apply_error env x ae t
                  | Inr oref \<Rightarrow> run_tx t (accept_tx env x oref t)))" if tr: "?tr = Inr t" for t
  proof -
    have 1: "tx_step s t" by (rule s_op_move [OF tr]) simp_all
    have so: "same_op x t" by (rule same_op_step [OF assms(2,3) steps_one [OF 1]])
    show ?thesis
      using steps_Cons [OF 1] steps_handle_apply_error [OF assms(1) so] steps_run_tx [OF s_accept]
      by (auto split: sum.splits)
  qed
  show ?thesis
    using Inr da rest steps_fail_op [OF assms(1)] assms(4)
    by (auto simp: dispatch_def Let_def split: sum.splits)
qed

lemma steps_poll:
  assumes "runs_callback env" and "same_op x s" and st: "op_state x = OpExternalAccepted"
  shows "tx_steps s (snd (poll env x s))"
proof -
  have nt: "\<not> op_terminal (op_state x)" using st by simp
  note fail = steps_fail_op [OF assms(1)]
  note ok = steps_succeed [OF assms(1,2)]
  have start: "tx_steps s (snd (fail_op_phases env (op_id x) OpExternalAccepted cause Starting Failed s))" for cause
    by (rule steps_fail_op_phases [OF assms(1)]) simp_all
  have move: "tx_steps s (snd (run_tx s (op_transition (op_id x) OpExternalAccepted OpVerifying
      (\<lambda>y. y\<lparr>op_next_attempt_at := None\<rparr>) (ee_wall env) s)))"
    by (rule steps_move) simp_all
  show ?thesis
    unfolding poll_def
    using fail ok(1-3) [OF nt] ok(4) start move steps_reschedule [OF nt] st
    by (simp split: sum.splits blob.splits prod.splits bool.splits option.splits operation_state.splits)
qed

lemma steps_verify:
  assumes "runs_callback env" and "same_op x s" and st: "op_state x = OpVerifying"
  shows "tx_steps s (snd (verify env x s))"
proof -
  have nt: "\<not> op_terminal (op_state x)" using st by simp
  note fail = steps_fail_op [OF assms(1)]
  have again: "tx_steps s (snd (run_tx s (op_transition (op_id x) OpVerifying OpJournaled
      (\<lambda>y. y\<lparr>op_next_attempt_at := None\<rparr>) (ee_wall env) s)))"
    and again': "tx_steps s (snd (run_tx s (op_transition (op_id x) OpVerifying OpJournaled (\<lambda>y. y) (ee_wall env) s)))"
    and unc: "tx_steps s (snd (run_tx s (op_transition (op_id x) OpVerifying OpUncertain (\<lambda>y. y) (ee_wall env) s)))"
    by (rule steps_move; simp)+
  have adopt: "tx_steps s (snd (run_tx s (adopt_tx env x obs s)))" for obs
    by (rule steps_run_tx) (rule s_adopt)
  show ?thesis
    unfolding verify_def Let_def
    using fail again again' unc adopt steps_reschedule [OF nt] steps_succeed(4) [OF assms(1,2)] st
    by (simp split: sum.splits prod.splits option.splits list.splits)
qed

lemma steps_drive:
  assumes "runs_callback env" and "kinv s" and "same_op x s"
  shows "tx_steps s (drive env x s)"
  using steps_dispatch [OF assms] steps_poll [OF assms(1,3)] steps_verify [OF assms(1,3)]
  by (cases "op_state x") (simp_all add: drive_def)

lemma steps_engine_step:
  assumes "runs_callback env" and "kinv s"
  shows "tx_steps s (snd (engine_step env s))"
proof -
  have row: "same_op x s" if "x \<in> set (ops_due now n s)" for x now n
  proof -
    from that have "x \<in> set (operations s)" unfolding ops_due_def using in_set_takeD by fastforce
    then have "tget op_id (op_id x) (operations s) = Some x"
      by (rule tget_of_mem [OF coreD(2) [OF kinvD(1) [OF assms(2)]]])
    then show ?thesis by (rule same_op_stored)
  qed
  have "tx_steps s (fold (drive env) (ops_due (ee_now env) (nat (ec_max_batch (ee_cfg env))) s) s)"
    by (rule steps_fold [where P = same_op]) (auto intro: steps_drive assms same_op_step row)
  then show ?thesis by (simp add: engine_step_def Let_def)
qed

lemma steps_resume: "tx_steps s (snd (resume wall s))"
proof -
  have "tx_steps t (snd (resume_ops wall xs t))" for xs t
  proof (induction xs arbitrary: t)
    case (Cons x xs)
    have mv: "tx_step t u" if "op_transition (op_id x) OpInFlight OpVerifying
        (\<lambda>y. y\<lparr>op_next_attempt_at := None\<rparr>) wall t = Inr u" for u
      by (rule s_op_move [OF that]) simp_all
    show ?case using Cons.IH steps_Cons [OF mv] by (auto split: sum.splits)
  qed simp
  then show ?thesis by (simp add: resume_def)
qed

section \<open>The service\<close>

lemma steps_create_resource:
  assumes "create_resource env cmd rid oid build s = Inr (out, s')"
  shows "tx_steps s s'"
  using assms by (rule create_resource_InrE) (rule steps_one, rule s_create)

lemma steps_delete_resource:
  "delete_resource env cmd oid build s = Inr (out, s') \<Longrightarrow> tx_steps s s'"
  by (auto simp: delete_resource_def bindE_Inr_iff intro: steps_one s_delete split: if_splits)

lemma steps_acquire: "tx_steps s (snd (acquire env cmd aid build s))"
proof (cases "acquire_tx env cmd aid build s")
  case (Inl e)
  then show ?thesis by (simp add: acquire_def)
next
  case (Inr ot)
  obtain out t where ot: "ot = (out, t)" by (cases ot)
  obtain r u where u: "satisfy (ap_sched env) aid t = (r, u)" by fastforce
  have 1: "tx_steps s t" using Inr ot by (auto intro: steps_one s_acquire)
  have 2: "tx_steps s u" using steps_trans [OF 1 steps_satisfy] u by (metis snd_conv)
  have 3: "tx_steps u (tx_or_keep u (acq_transition aid AcqPending AcqFailed (ap_now env) u))"
    by (rule steps_keep) (auto intro: s_acq_end)
  have "snd (acquire env cmd aid build s) \<in>
      {s, t, u, tx_or_keep u (acq_transition aid AcqPending AcqFailed (ap_now env) u)}"
    by (auto simp: acquire_def Inr ot u split: sum.splits err.splits)
  then show ?thesis using 1 2 steps_trans [OF 2 3] by auto
qed

lemma steps_power:
  "park_resource env rid actor oid s = Inr s' \<Longrightarrow> tx_steps s s'"
  "start_resource env rid actor oid s = Inr s' \<Longrightarrow> tx_steps s s'"
  by (auto simp: park_resource_def start_resource_def bindE_Inr_iff intro: steps_one s_stop s_start split: if_splits)

lemma steps_app_release: "app_release env aid s = Inr s' \<Longrightarrow> tx_steps s s'"
  by (auto simp: app_release_def bindE_Inr_iff intro: steps_one s_release_acq split: if_splits)

end
