(* ===== verification/Scenario.thy ===== *)
theory Scenario
  imports Runs
begin

text \<open>
  A small run of the kernel on which the properties of the system are instantiated: the discovery
  sweep re-adopts a running machine, an acquisition is requested, reserved on it and released, a
  second machine is provisioned by the service, and its create operation is dispatched.
\<close>

definition ex_act :: action where
  "ex_act = \<lparr>ac_action_id = [], ac_kind = ''create'', ac_resource_id = [], ac_ref = None,
     ac_params = BNil, ac_destructive = False\<rparr>"

definition ex_ref :: ext_ref where
  "ex_ref = \<lparr>ref_id = ''x2'', ref_extra = []\<rparr>"

definition ex_obs :: "string \<Rightarrow> observed_resource" where
  "ex_obs i = \<lparr>ob_ref = \<lparr>ref_id = i, ref_extra = []\<rparr>, ob_kind = ''k'', ob_fleetplane_id = [],
     ob_create_op_id = [], ob_owned = True, ob_phase = PhaseRunning, ob_provider_state = ''running'', ob_capacity = [(''cpu'', 4)],
     ob_addresses = [], ob_labels = [], ob_extensions = BNil\<rparr>"

definition ex_driver :: driver where
  "ex_driver = \<lparr>dr_plan = (\<lambda>_ _. Inr [ex_act]),
     dr_apply = (\<lambda>a. Inr \<lparr>or_action_id = ac_action_id a, or_ref = Some ex_ref, or_data = BNil\<rparr>),
     dr_observe = (\<lambda>_. Inr \<lparr>st_state = PsSucceeded, st_ref = None, st_resource = Some (ex_obs ''x2''),
       st_failure = None, st_retry_after = 0\<rparr>),
     dr_get = (\<lambda>_. Inr (ex_obs ''x1'')), dr_discover = (\<lambda>_ _. Inr [ex_obs ''x1''])\<rparr>"

definition ex_providers :: providers where
  "ex_providers = \<lparr>pv_instance = (\<lambda>_. Some \<lparr>pi_kinds = [''k''], pi_label_discovery = True,
       pi_driver = (\<lambda>_. Some ex_driver)\<rparr>),
     pv_billing = (\<lambda>_ _. (zero_billing, False)),
     pv_parking = (\<lambda>_ _. \<lparr>pk_supported = True, pk_start_estimate = 0\<rparr>)\<rparr>"

definition ex_sched :: sched_env where
  "ex_sched = \<lparr>se_providers = ex_providers, se_classes = (\<lambda>_. None), se_now = 1000, se_owner = ''o'',
     se_fresh = (\<lambda>a n. a @ replicate n (CHR ''x''))\<rparr>"

definition ex_app :: app_env where
  "ex_app = \<lparr>ap_sched = ex_sched, ap_wall = 1000, ap_parse_duration = (\<lambda>_. None), ap_pending_timeout_ms = 0\<rparr>"

definition ex_disc :: disc_env where
  "ex_disc = \<lparr>de_providers = ex_providers, de_now = 1000,
     de_cfg = \<lparr>dc_interval = 1, dc_orphan_grace = 60 * sec, dc_ghost_policy = ''delete'', dc_adopt_unlabeled = ''off''\<rparr>,
     de_instance = ''p'', de_healthy = (\<lambda>_. True), de_fresh = (\<lambda>x n. x @ replicate n (CHR ''f''))\<rparr>"

definition ex_acquire :: acquire_cmd where
  "ex_acquire = \<lparr>aq_kind = ''k'', aq_class = [], aq_constraints = BVal [(''cpu'', 1)], aq_exclusive = True,
     aq_quantity = 1, aq_ttl = 60 * sec, aq_max_wait = 0, aq_actor = ''me'',
     aq_idem = \<lparr>ia_scope = ''s'', ia_key = ''key'', ia_hash = ''h''\<rparr>\<rparr>"

definition ex_s1 :: db where
  "ex_s1 = tx_or_keep empty_db (mint_record ex_disc (ex_obs ''x1'') Managed ''readopted'' ''r1'' empty_db)"

definition ex_s2 :: db where
  "ex_s2 = snd (acquire ex_app ex_acquire ''a1'' (\<lambda>a. (202, a_id a)) ex_s1)"

lemma ex_reach1: "reachable ex_s1"
  unfolding ex_s1_def by (rule reachable_steps [OF steps_keep reach_init]) (rule s_mint)

lemma ex_reach2: "reachable ex_s2"
  unfolding ex_s2_def by (rule reachable_steps [OF steps_acquire ex_reach1])

lemma ex_leased: "map l_id (filter (is_active ''r1'') (leases ex_s2)) = [''a1'']"
  by code_simp

end
