(* ===== verification/Safety.thy ===== *)
theory Safety
  imports Scenario
begin

text \<open>
  The safety of the whole kernel: what holds in every database state that any interleaving of its
  goroutines can reach, how rows evolve along a run, and that the loops of the code are runs.
\<close>

section \<open>Reachable states\<close>

text \<open>
  C1. A machine with an active lease is live and is never provisioning, deleting or parking, in any
  reachable state.
\<close>

theorem leased_machine_safe:
  assumes "reachable s" and "l \<in> set (leases s)" and "l_state l = LeaseActive"
  shows "\<exists>r. tget r_id (l_resource l) (resources s) = Some r \<and> r_deleted_at r = None
    \<and> r_phase r \<notin> {Provisioning, Deleting, Parking}"
  using leased_resource [OF kinvD(1) [OF reachable_kinv [OF assms(1)]] assms(2,3)]
  by (metis empty_iff insert_iff lease_phase_def live_def)

lemma ex_lease: "\<exists>l. l \<in> set (leases ex_s2) \<and> l_id l = ''a1'' \<and> is_active ''r1'' l"
proof -
  have "''a1'' \<in> l_id ` set (filter (is_active ''r1'') (leases ex_s2))"
    using ex_leased by (metis list.set_intros(1) list.set_map)
  then show ?thesis by auto
qed

theorem leased_machine_safe_witness:
  "\<exists>l r. l \<in> set (leases ex_s2) \<and> l_id l = ''a1'' \<and> tget r_id (l_resource l) (resources ex_s2) = Some r
     \<and> r_deleted_at r = None \<and> r_phase r \<notin> {Provisioning, Deleting, Parking}"
proof -
  obtain l where l: "l \<in> set (leases ex_s2)" "l_id l = ''a1''" "is_active ''r1'' l" using ex_lease by blast
  then have "l_state l = LeaseActive" by (simp add: is_active_def)
  with leased_machine_safe [OF ex_reach2 l(1)] l show ?thesis by blast
qed

text \<open>
  C2. In any reachable state a bound acquisition names exactly one active lease of its own, and
  every active lease belongs to a bound acquisition that names it.
\<close>

theorem bound_iff_leased:
  assumes "reachable s"
  shows "(\<forall>a \<in> set (acquisitions s). a_state a = AcqBound \<longrightarrow>
           (\<exists>!l. l \<in> set (leases s) \<and> l_state l = LeaseActive \<and> l_acquisition l = a_id a \<and> a_lease a = Some (l_id l)))
       \<and> (\<forall>l \<in> set (leases s). l_state l = LeaseActive \<longrightarrow>
           (\<exists>!a. a \<in> set (acquisitions s) \<and> a_state a = AcqBound \<and> a_id a = l_acquisition l \<and> a_lease a = Some (l_id l)))"
proof (intro conjI ballI impI)
  note c = acq_okD [OF kinvD(2) [OF reachable_kinv [OF assms]]]
  fix a
  assume a: "a \<in> set (acquisitions s)" "a_state a = AcqBound"
  show "\<exists>!l. l \<in> set (leases s) \<and> l_state l = LeaseActive \<and> l_acquisition l = a_id a \<and> a_lease a = Some (l_id l)"
  proof -
    from c(4) [OF a] obtain l where l: "l \<in> set (leases s)" "a_lease a = Some (l_id l)"
      "l_state l = LeaseActive" "l_acquisition l = a_id a" by blast
    show ?thesis
    proof (rule ex1I [of _ l])
      fix x
      assume "x \<in> set (leases s) \<and> l_state x = LeaseActive \<and> l_acquisition x = a_id a \<and> a_lease a = Some (l_id x)"
      then show "x = l" using l distinct_key_eqD [OF c(2) _ l(1), of x] by simp
    qed (use l in simp)
  qed
next
  note c = acq_okD [OF kinvD(2) [OF reachable_kinv [OF assms]]]
  fix l
  assume l: "l \<in> set (leases s)" "l_state l = LeaseActive"
  show "\<exists>!a. a \<in> set (acquisitions s) \<and> a_state a = AcqBound \<and> a_id a = l_acquisition l \<and> a_lease a = Some (l_id l)"
  proof -
    from c(3) [OF l] obtain a where a: "tget a_id (l_acquisition l) (acquisitions s) = Some a"
      "a_state a = AcqBound" "a_lease a = Some (l_id l)" by blast
    have mem: "a \<in> set (acquisitions s)" "a_id a = l_acquisition l" using tget_SomeD [OF a(1)] by auto
    show ?thesis
    proof (rule ex1I [of _ a])
      fix x
      assume "x \<in> set (acquisitions s) \<and> a_state x = AcqBound \<and> a_id x = l_acquisition l \<and> a_lease x = Some (l_id l)"
      then show "x = a" using mem distinct_key_eqD [OF c(1) _ mem(1), of x] by simp
    qed (use a mem in simp)
  qed
qed

lemma ex_bound: "map a_lease (filter (\<lambda>a. a_state a = AcqBound) (acquisitions ex_s2)) = [Some ''a1'']"
  by code_simp

theorem bound_iff_leased_witness:
  "\<exists>a \<in> set (acquisitions ex_s2). \<exists>l \<in> set (leases ex_s2). a_state a = AcqBound \<and> l_state l = LeaseActive
     \<and> a_lease a = Some (l_id l)"
proof -
  have "filter (\<lambda>a. a_state a = AcqBound) (acquisitions ex_s2) \<noteq> []"
    using ex_bound by (metis list.map_disc_iff list.simps(3))
  then obtain a where "a \<in> set (acquisitions ex_s2)" "a_state a = AcqBound" by (auto simp: filter_empty_conv)
  then show ?thesis using bound_iff_leased [OF ex_reach2] by blast
qed

text \<open>
  C3. In any reachable state at most one operation is open on a resource, and while it is open
  nothing else moves the machine: a live machine is in the phase that belongs to the operation.
\<close>

theorem one_open_operation:
  assumes "reachable s" and "x \<in> set (operations s)" and "\<not> op_terminal (op_state x)"
    and "op_resource x = Some rid"
  shows "(\<forall>y \<in> set (operations s). op_resource y = Some rid \<and> \<not> op_terminal (op_state y) \<longrightarrow> y = x)
       \<and> (\<exists>r. tget r_id rid (resources s) = Some r
            \<and> (r_deleted_at r = None \<longrightarrow> r_phase r = busy_phase (op_kind x)))"
proof -
  note k = kinvD(1) [OF reachable_kinv [OF assms(1)]]
  have opn: "open_on rid y" if "y \<in> set (operations s)" "op_resource y = Some rid" "\<not> op_terminal (op_state y)" for y
    using coreD(4) [OF k that(1)] that by (simp add: stamped_def open_on_def is_open_def)
  have x: "open_on rid x" by (rule opn [OF assms(2,4,3)])
  have "y = x" if "y \<in> set (operations s)" "op_resource y = Some rid" "\<not> op_terminal (op_state y)" for y
    using coreD(5) [OF k] opn [OF that] x that(1) assms(2) unfolding one_open_def by blast
  moreover have "\<exists>r. tget r_id rid (resources s) = Some r \<and> (live r \<longrightarrow> r_phase r = busy_phase (op_kind x))"
    using coreD(6) [OF k] assms(2) x unfolding shielded_def by blast
  ultimately show ?thesis by (auto simp: live_def)
qed

definition ex_s3 :: db where
  "ex_s3 = tx_or_keep ex_s1 (journal_stop ex_providers ''r1'' 2000 ''me'' True ''o1'' ex_s1)"

lemma ex_reach3: "reachable ex_s3"
  unfolding ex_s3_def by (rule reachable_steps [OF steps_keep ex_reach1]) (rule s_stop)

lemma ex_parking: "map (\<lambda>x. (op_resource x, op_kind x, op_state x)) (operations ex_s3) =
    [(Some ''r1'', OpKindStop, OpJournaled)]"
  by code_simp

theorem one_open_operation_witness:
  "\<exists>r. tget r_id ''r1'' (resources ex_s3) = Some r \<and> (r_deleted_at r = None \<longrightarrow> r_phase r = Parking)"
proof -
  obtain x where x: "operations ex_s3 = [x]" "op_resource x = Some ''r1''" "op_kind x = OpKindStop"
      "op_state x = OpJournaled"
    using ex_parking by (auto simp: map_eq_Cons_conv)
  show ?thesis using one_open_operation [OF ex_reach3, of x "''r1''"] x by simp
qed

text \<open>C4. In any reachable state an active exclusive lease is the only active lease of its resource.\<close>

theorem exclusive_lease_alone:
  assumes "reachable s" and "l \<in> set (leases s)" and "l_state l = LeaseActive" and "l_exclusive l"
  shows "active_by_resource (l_resource l) s = [l]"
proof -
  note k = kinvD(1) [OF reachable_kinv [OF assms(1)]]
  let ?xs = "filter (is_active (l_resource l)) (leases s)"
  have mem: "l \<in> set ?xs" using assms by (simp add: is_active_def)
  have only: "x = l" if "x \<in> set ?xs" for x
    using coreD(8) [OF k] that assms unfolding exclusive_alone_def by (auto simp: is_active_def)
  have "distinct ?xs" using coreD(3) [OF k] by (simp add: distinct_map)
  then have "?xs = [l]" using mem only by (rule distinct_singleton)
  then show ?thesis by (simp add: active_by_resource_def)
qed

theorem exclusive_lease_alone_witness: "\<exists>l. active_by_resource ''r1'' ex_s2 = [l]"
proof -
  have "map l_exclusive (filter (is_active ''r1'') (leases ex_s2)) = [True]" by code_simp
  then obtain l where "filter (is_active ''r1'') (leases ex_s2) = [l]" "l_exclusive l"
    by (auto simp: map_eq_Cons_conv)
  moreover have "l \<in> set (leases ex_s2)" "is_active ''r1'' l"
    using \<open>filter (is_active ''r1'') (leases ex_s2) = [l]\<close> by (auto simp: filter_eq_Cons_iff)
  ultimately show ?thesis
    using exclusive_lease_alone [OF ex_reach2, of l] by (auto simp: is_active_def)
qed

section \<open>Runs\<close>

text \<open>
  C5. Along any run from a reachable state rows only move forward: a resource's phase follows legal
  transitions and a tombstoned resource stays as it is; a terminal operation never changes its
  state; an ended lease never becomes active again, and a lease never changes its resource.
\<close>

theorem history_moves_forward:
  assumes "reachable s" and "tx_steps s s'"
  shows "(\<forall>rid r. tget r_id rid (resources s) = Some r \<longrightarrow>
            (\<exists>r'. tget r_id rid (resources s') = Some r' \<and> can_transition\<^sup>*\<^sup>* (r_phase r) (r_phase r')
               \<and> (r_deleted_at r \<noteq> None \<longrightarrow> r_deleted_at r' \<noteq> None \<and> r_phase r' = r_phase r)))
       \<and> (\<forall>oid x. tget op_id oid (operations s) = Some x \<longrightarrow>
            (\<exists>x'. tget op_id oid (operations s') = Some x' \<and> op_kind x' = op_kind x
               \<and> (op_terminal (op_state x) \<longrightarrow> op_state x' = op_state x)))
       \<and> (\<forall>lid l. tget l_id lid (leases s) = Some l \<longrightarrow>
            (\<exists>l'. tget l_id lid (leases s') = Some l' \<and> l_resource l' = l_resource l
               \<and> (l_state l \<noteq> LeaseActive \<longrightarrow> l_state l' = l_state l)))"
proof -
  have e: "evolves s s'" by (rule tx_steps_evolves [OF assms(2) reachable_kinv [OF assms(1)]])
  show ?thesis
  proof (intro conjI allI impI)
    fix rid r
    assume "tget r_id rid (resources s) = Some r"
    with e obtain r' where "tget r_id rid (resources s') = Some r'" "resource_evolves r r'"
      unfolding evolves_def rows_evolve_def by blast
    then show "\<exists>r'. tget r_id rid (resources s') = Some r' \<and> can_transition\<^sup>*\<^sup>* (r_phase r) (r_phase r')
        \<and> (r_deleted_at r \<noteq> None \<longrightarrow> r_deleted_at r' \<noteq> None \<and> r_phase r' = r_phase r)"
      unfolding resource_evolves_def live_def by blast
  next
    fix oid x
    assume "tget op_id oid (operations s) = Some x"
    with e obtain x' where "tget op_id oid (operations s') = Some x'" "op_evolves x x'"
      unfolding evolves_def rows_evolve_def by blast
    then show "\<exists>x'. tget op_id oid (operations s') = Some x' \<and> op_kind x' = op_kind x
        \<and> (op_terminal (op_state x) \<longrightarrow> op_state x' = op_state x)"
      unfolding op_evolves_def by blast
  next
    fix lid l
    assume "tget l_id lid (leases s) = Some l"
    with e obtain l' where "tget l_id lid (leases s') = Some l'" "lease_evolves l l'"
      unfolding evolves_def rows_evolve_def by blast
    then show "\<exists>l'. tget l_id lid (leases s') = Some l' \<and> l_resource l' = l_resource l
        \<and> (l_state l \<noteq> LeaseActive \<longrightarrow> l_state l' = l_state l)"
      unfolding lease_evolves_def by blast
  qed
qed

lemma ex_steps13: "tx_steps ex_s1 ex_s3"
  unfolding ex_s3_def by (rule steps_keep) (rule s_stop)

lemma ex_phases13: "map r_phase (resources ex_s1) = [Ready]" "map r_id (resources ex_s1) = [''r1'']"
  by code_simp+

theorem history_moves_forward_witness:
  "\<exists>r'. tget r_id ''r1'' (resources ex_s3) = Some r' \<and> can_transition\<^sup>*\<^sup>* Ready (r_phase r')"
proof -
  obtain r where "resources ex_s1 = [r]" "r_id r = ''r1''" "r_phase r = Ready"
    using ex_phases13 by (auto simp: map_eq_Cons_conv)
  then have "tget r_id ''r1'' (resources ex_s1) = Some r" "r_phase r = Ready" by simp_all
  with history_moves_forward [OF ex_reach1 ex_steps13] show ?thesis by metis
qed


definition ex_rec :: rec_env where
  "ex_rec = \<lparr>re_providers = ex_providers, re_classes = (\<lambda>_. None), re_now = 2000, re_owner = ''o'',
     re_cfg = \<lparr>rc_interval = 0, rc_max_mutations = 5, rc_backoff_base = sec, rc_backoff_cap = 60 * sec\<rparr>,
     re_fresh = (\<lambda>x n. x @ replicate n (CHR ''r''))\<rparr>"

definition ex_engine :: engine_env where
  "ex_engine = \<lparr>ee_providers = ex_providers,
     ee_cfg = \<lparr>ec_poll_interval = 1, ec_verify_window = 120 * sec, ec_backoff_base = 2 * sec,
       ec_backoff_cap = 300 * sec, ec_max_batch = 16\<rparr>,
     ee_now = 3000, ee_wall = 3000, ee_jitter = (\<lambda>d. d), ee_network = \<lparr>nw_dial = (\<lambda>_ _ _. True),
       nw_get = (\<lambda>_ _ _ _. Inr 200)\<rparr>, ee_parse_duration = (\<lambda>_. None),
     ee_on_terminal = on_terminal ex_rec ex_sched\<rparr>"


text \<open>
  What a sweep saw stays true: once no operation is open on an existing resource, no later state
  of any run has an open create operation on it, so a live resource found provisioning later has
  no open operation.
\<close>

theorem no_open_create_is_stable:
  assumes "reachable s" and "tx_steps s s'" and "tget r_id rid (resources s) \<noteq> None" and "no_open rid s"
  shows "(\<forall>x \<in> set (operations s'). op_resource x = Some rid \<and> \<not> op_terminal (op_state x) \<longrightarrow> op_kind x \<noteq> OpKindCreate)
    \<and> (\<forall>r. tget r_id rid (resources s') = Some r \<and> r_deleted_at r = None \<and> r_phase r = Provisioning
         \<longrightarrow> no_open rid s')"
proof -
  note k = reachable_kinv [OF assms(1)]
  have k': "kinv s'" by (rule tx_steps_kinv [OF assms(2) k])
  have "no_create rid s" using assms(4) by (auto simp: no_create_def no_open_def)
  then have n: "no_create rid s'" by (rule tx_steps_no_create [OF assms(2) k assms(3)])
  have "op_kind x \<noteq> OpKindCreate"
    if "x \<in> set (operations s')" "op_resource x = Some rid" "\<not> op_terminal (op_state x)" for x
    using n that coreD(4) [OF kinvD(1) [OF k'] that(1)]
    by (auto simp: no_create_def open_on_def is_open_def stamped_def)
  then show ?thesis using provisioning_no_open [OF k' n] by (auto simp: live_def)
qed

theorem no_open_create_is_stable_witness:
  "filter (\<lambda>x. op_resource x = Some ''r1'' \<and> \<not> op_terminal (op_state x) \<and> op_kind x = OpKindCreate)
     (operations ex_s3) = []"
proof -
  have "tget r_id ''r1'' (resources ex_s1) \<noteq> None" using ex_phases13(2) by (auto simp: map_eq_Cons_conv)
  moreover have "no_open ''r1'' ex_s1"
  proof -
    have "operations ex_s1 = []" by code_simp
    then show ?thesis by (simp add: no_open_def)
  qed
  ultimately show ?thesis using no_open_create_is_stable [OF ex_reach1 ex_steps13] by (auto simp: filter_empty_conv)
qed

section \<open>Deviations from the documents\<close>

definition ex_s4 :: db where
  "ex_s4 = tx_or_keep ex_s2 (orphan_cas ''r1'' Allocated 4000 ex_s2)"

definition ex_s5 :: db where
  "ex_s5 = (case resource_get ''r1'' ex_s4 of Inl _ \<Rightarrow> ex_s4
     | Inr r \<Rightarrow> refresh_observed ex_disc r ((ex_obs ''x1'')\<lparr>ob_phase := PhaseStopped\<rparr>) ex_s4)"

text \<open>
  docs/12 states that a leased machine is never parked. The discovery sweep breaks it: an allocated
  machine that vanished from the provider's list is orphaned with its lease, and when it shows up
  again stopped, the refresh moves it to \<open>parked\<close> without looking at leases.
\<close>

theorem leased_machine_can_be_parked:
  "reachable ex_s5 \<and> map r_phase (resources ex_s5) = [Parked]
     \<and> map l_resource (filter (is_active ''r1'') (leases ex_s5)) = [''r1'']"
proof (intro conjI)
  have 4: "tx_steps ex_s2 ex_s4" unfolding ex_s4_def by (rule steps_keep) (erule s_orphan, simp)
  have 5: "tx_steps ex_s4 ex_s5"
    unfolding ex_s5_def by (auto intro: steps_refresh_observed split: sum.splits)
  show "reachable ex_s5" by (rule reachable_steps [OF steps_trans [OF 4 5] ex_reach2])
  show "map r_phase (resources ex_s5) = [Parked]" by code_simp
  show "map l_resource (filter (is_active ''r1'') (leases ex_s5)) = [''r1'']" by code_simp
qed

end
