(* ===== verification/Go_Text.thy ===== *)
theory Go_Text
  imports Prelude "HOL-Library.Sublist"
begin

text \<open>
  The functions of Go's packages strings, strconv and sort that the drivers and the configuration
  use: cutting and testing strings, decimal numbers in \<open>int64\<close>, case conversion of ASCII, and
  maps of strings, which are lists of pairs whose first pair of a key counts.
\<close>

section \<open>Cutting strings\<close>

text \<open>\<open>strings.Cut(s, sep)\<close> for a separator of one byte: \<open>None\<close> when it does not occur.\<close>

fun cut_at :: "char \<Rightarrow> string \<Rightarrow> (string \<times> string) option" where
  "cut_at c [] = None"
| "cut_at c (x # xs) = (if x = c then Some ([], xs)
     else (case cut_at c xs of None \<Rightarrow> None | Some (a, b) \<Rightarrow> Some (x # a, b)))"

lemma cut_at_Some_iff: "cut_at c s = Some (a, b) \<longleftrightarrow> s = a @ c # b \<and> c \<notin> set a"
proof (induction s arbitrary: a)
  case (Cons x xs)
  then show ?case by (cases "x = c"; cases a; cases "cut_at c xs") auto
qed simp

lemma cut_at_None_iff: "cut_at c s = None \<longleftrightarrow> c \<notin> set s"
  by (induction s) (auto split: option.splits)

lemma cut_at_append [simp]: "c \<notin> set a \<Longrightarrow> cut_at c (a @ c # b) = Some (a, b)"
  by (simp add: cut_at_Some_iff)

text \<open>\<open>strings.CutPrefix\<close>.\<close>

definition cut_prefix :: "string \<Rightarrow> string \<Rightarrow> string option" where
  "cut_prefix p s = (if prefix p s then Some (drop (length p) s) else None)"

lemma cut_prefix_append [simp]: "cut_prefix p (p @ s) = Some s"
  by (simp add: cut_prefix_def)

lemma cut_prefix_Some_iff: "cut_prefix p s = Some t \<longleftrightarrow> s = p @ t"
  by (auto simp: cut_prefix_def prefix_def)

definition trim_prefix :: "string \<Rightarrow> string \<Rightarrow> string" where
  "trim_prefix p s = (case cut_prefix p s of None \<Rightarrow> s | Some t \<Rightarrow> t)"

definition has_suffix :: "string \<Rightarrow> string \<Rightarrow> bool" where
  "has_suffix p s \<longleftrightarrow> suffix p s"

text \<open>\<open>strings.Contains\<close>.\<close>

fun contains :: "string \<Rightarrow> string \<Rightarrow> bool" where
  "contains p [] = (p = [])"
| "contains p (x # xs) = (prefix p (x # xs) \<or> contains p xs)"

text \<open>What follows the last slash.\<close>

definition last_segment :: "string \<Rightarrow> string" where
  "last_segment s = rev (takeWhile (\<lambda>c. c \<noteq> CHR ''/'') (rev s))"

definition join :: "string \<Rightarrow> string list \<Rightarrow> string" where
  "join sep xs = (case xs of [] \<Rightarrow> [] | x # r \<Rightarrow> x @ concat (map (\<lambda>y. sep @ y) r))"

section \<open>ASCII letters\<close>

definition is_lower :: "char \<Rightarrow> bool" where
  "is_lower c \<longleftrightarrow> CHR ''a'' \<le> c \<and> c \<le> CHR ''z''"

definition is_upper :: "char \<Rightarrow> bool" where
  "is_upper c \<longleftrightarrow> CHR ''A'' \<le> c \<and> c \<le> CHR ''Z''"

definition is_digit :: "char \<Rightarrow> bool" where
  "is_digit c \<longleftrightarrow> CHR ''0'' \<le> c \<and> c \<le> CHR ''9''"

definition lower_char :: "char \<Rightarrow> char" where
  "lower_char c = (if is_upper c then char_of (of_char c + (32 :: nat)) else c)"

definition upper_char :: "char \<Rightarrow> char" where
  "upper_char c = (if is_lower c then char_of (of_char c - (32 :: nat)) else c)"

definition to_lower :: "string \<Rightarrow> string" where "to_lower = map lower_char"
definition to_upper :: "string \<Rightarrow> string" where "to_upper = map upper_char"

lemma char_less_eq_nat: "c \<le> d \<longleftrightarrow> (of_char c :: nat) \<le> of_char d" for c d :: char
  by (simp add: less_eq_char_def)

lemmas ascii_simps = is_lower_def is_upper_def is_digit_def lower_char_def upper_char_def

lemma upper_lower_char: "\<not> is_lower c \<Longrightarrow> upper_char (lower_char c) = c"
  by (auto simp: ascii_simps char_less_eq_nat of_char_of)

lemma lower_char_range: "is_upper c \<or> is_lower c \<Longrightarrow> is_lower (lower_char c)"
  by (auto simp: ascii_simps char_less_eq_nat of_char_of)

lemma lower_char_id: "\<not> is_upper c \<Longrightarrow> lower_char c = c"
  by (simp add: lower_char_def)

section \<open>Decimal numbers\<close>

definition digit :: "nat \<Rightarrow> char" where
  "digit n = char_of (48 + n)"

text \<open>\<open>strconv.Itoa\<close> of a natural number, and \<open>strconv.FormatInt(n, 10)\<close>.\<close>

fun digits :: "nat \<Rightarrow> string" where
  "digits n = (if n < 10 then [digit n] else digits (n div 10) @ [digit (n mod 10)])"

declare digits.simps [simp del]

definition show_int :: "int \<Rightarrow> string" where
  "show_int n = (if n < 0 then CHR ''-'' # digits (nat (- n)) else digits (nat n))"

text \<open>\<open>strconv.ParseInt(s, 10, 64)\<close>: an optional sign, at least one digit, in range.\<close>

definition parse_nat :: "string \<Rightarrow> nat option" where
  "parse_nat s = (if s = [] \<or> list_ex (\<lambda>c. \<not> is_digit c) s then None
     else Some (foldl (\<lambda>n c. 10 * n + (of_char c - 48)) 0 s))"

definition parse_int :: "string \<Rightarrow> int option" where
  "parse_int s =
     (let (neg, body) = (case s of [] \<Rightarrow> (False, [])
         | c # r \<Rightarrow> (if c = CHR ''-'' then (True, r) else if c = CHR ''+'' then (False, r) else (False, s)))
      in case parse_nat body of
           None \<Rightarrow> None
         | Some n \<Rightarrow> (let v = (if neg then - int n else int n) in if in_i64 v then Some v else None))"

lemma of_char_digit [simp]: "d < 10 \<Longrightarrow> (of_char (digit d) :: nat) = 48 + d"
  by (simp add: digit_def of_char_of)

lemma is_digit_digit [simp]: "d < 10 \<Longrightarrow> is_digit (digit d)"
  by (simp add: is_digit_def char_less_eq_nat)

lemma digits_Cons:
  "\<exists>d r. digits n = digit d # r \<and> d < 10"
proof (induction n rule: digits.induct)
  case (1 n)
  then show ?case by (cases "n < 10") (force simp: digits.simps [of n])+
qed

lemma digits_nonempty [simp]: "digits n \<noteq> []"
  using digits_Cons [of n] by auto

lemma digits_all: "list_all is_digit (digits n)"
proof (induction n rule: digits.induct)
  case (1 n)
  then show ?case by (cases "n < 10") (auto simp: digits.simps [of n])
qed

lemma digits_value: "foldl (\<lambda>n c. 10 * n + (of_char c - 48)) 0 (digits n) = n"
proof (induction n rule: digits.induct)
  case (1 n)
  then show ?case by (cases "n < 10") (auto simp: digits.simps [of n])
qed

lemma parse_nat_digits [simp]: "parse_nat (digits n) = Some n"
  using digits_all [of n] by (simp add: parse_nat_def digits_value list_ex_iff list_all_iff)

lemma digit_not_sign: "d < 10 \<Longrightarrow> digit d \<noteq> CHR ''-'' \<and> digit d \<noteq> CHR ''+''"
proof -
  assume d: "d < 10"
  have "(of_char (digit d) :: nat) \<noteq> of_char CHR ''-''" "(of_char (digit d) :: nat) \<noteq> of_char CHR ''+''"
    using d by simp_all
  then show ?thesis by metis
qed

lemma parse_show_int [simp]: "in_i64 n \<Longrightarrow> parse_int (show_int n) = Some n"
proof -
  assume n: "in_i64 n"
  show ?thesis
  proof (cases "n < 0")
    case True
    then show ?thesis using n by (simp add: parse_int_def show_int_def)
  next
    case False
    obtain d r where d: "digits (nat n) = digit d # r" "d < 10" using digits_Cons by blast
    have "parse_int (digits (nat n)) = Some n"
      using d digit_not_sign [OF d(2)] parse_nat_digits [of "nat n"] n False
      by (simp add: parse_int_def)
    then show ?thesis using False by (simp add: show_int_def)
  qed
qed

section \<open>Maps of strings\<close>

text \<open>\<open>m[k]\<close>, with the empty string for a missing key.\<close>

definition lab :: "(string \<times> string) list \<Rightarrow> string \<Rightarrow> string" where
  "lab m k = (case map_of m k of None \<Rightarrow> [] | Some v \<Rightarrow> v)"

text \<open>Every required pair is there (\<open>matches\<close>, \<open>labelsMatch\<close> of the drivers).\<close>

definition labels_match :: "(string \<times> string) list \<Rightarrow> (string \<times> string) list \<Rightarrow> bool" where
  "labels_match have want = list_all (\<lambda>(k, v). lab have k = v) want"

text \<open>Assigning the pairs of a map one after the other (\<open>mergeLabels\<close>): the second map wins.\<close>

definition put :: "string \<Rightarrow> string \<Rightarrow> (string \<times> string) list \<Rightarrow> (string \<times> string) list" where
  "put k v m = (k, v) # filter (\<lambda>(k', _). k' \<noteq> k) m"

definition merge_labels :: "(string \<times> string) list \<Rightarrow> (string \<times> string) list \<Rightarrow> (string \<times> string) list" where
  "merge_labels a b = b @ filter (\<lambda>(k, _). map_of b k = None) a"

lemma map_of_filter_key: "map_of (filter (\<lambda>(k, _). P k) m) k = (if P k then map_of m k else None)"
  by (induction m) auto

lemma map_of_put [simp]: "map_of (put k v m) = (map_of m)(k \<mapsto> v)"
  by (auto simp: put_def map_of_filter_key fun_eq_iff)

lemma map_of_merge_labels [simp]: "map_of (merge_labels a b) = map_of a ++ map_of b"
  by (rule ext) (simp add: merge_labels_def map_of_filter_key map_add_def split: option.splits)

lemma lab_map_of: "map_of m k = Some v \<Longrightarrow> lab m k = v"
  by (simp add: lab_def)

lemma labels_match_Nil [simp]: "labels_match have []"
  by (simp add: labels_match_def)

section \<open>Base 64\<close>

text \<open>\<open>base64.StdEncoding.EncodeToString\<close>.\<close>

definition b64_char :: "nat \<Rightarrow> char" where
  "b64_char n = (if n < 26 then char_of (65 + n) else if n < 52 then char_of (71 + n)
     else if n < 62 then char_of (n - 4) else if n = 62 then CHR ''+'' else CHR ''/'')"

fun b64_bytes :: "nat list \<Rightarrow> string" where
  "b64_bytes [] = []"
| "b64_bytes [a] = [b64_char (a div 4), b64_char (a mod 4 * 16), CHR ''='', CHR ''='']"
| "b64_bytes [a, b] = [b64_char (a div 4), b64_char (a mod 4 * 16 + b div 16), b64_char (b mod 16 * 4), CHR ''='']"
| "b64_bytes (a # b # c # r) =
     [b64_char (a div 4), b64_char (a mod 4 * 16 + b div 16), b64_char (b mod 16 * 4 + c div 64), b64_char (c mod 64)]
     @ b64_bytes r"

definition base64 :: "string \<Rightarrow> string" where
  "base64 s = b64_bytes (map of_char s)"

lemma base64_example: "base64 ''Man'' = ''TWFu'' \<and> base64 ''Ma'' = ''TWE='' \<and> base64 ''M'' = ''TQ==''"
  by code_simp

end
