(* ===== verification/Pacing.thy ===== *)
theory Pacing
  imports Drivers Complex_Main
begin

text \<open>
  The rate policy the cloud drivers share (providers/pacing/pacer.go): what a response's rate
  headers or a 429 do to the limiter, and when a call is refused because the driver is parked.
  Times and durations are nanoseconds and the zero \<open>time.Time\<close> is \<open>None\<close>; a rate, a \<open>float64\<close> in
  the code, is a rational. Waiting for a token or a concurrency slot is not modelled.
\<close>

record pacer =
  pc_base :: rat
  pc_limit :: rat
  pc_parked :: "int option"

definition low_water :: int where "low_water = 20"
definition high_water :: int where "high_water = 100"
definition park_cap :: int where "park_cap = 60 * sec"

text \<open>The rate part of \<open>New\<close>.\<close>

definition pacer_new :: "rat \<Rightarrow> pacer" where
  "pacer_new rps = (let r = (if rps \<le> 0 then 5 else rps) in
     \<lparr>pc_base = r, pc_limit = r, pc_parked = None\<rparr>)"

definition decide_pace :: "rat \<Rightarrow> int \<Rightarrow> int option \<Rightarrow> int \<Rightarrow> int option \<times> rat" where
  "decide_pace base remaining reset now =
     (if remaining = 0 then
        (let cap = now + park_cap;
             until = (case reset of None \<Rightarrow> cap | Some r \<Rightarrow> if r > cap then cap else r)
         in (Some until, 1))
      else if remaining < low_water then (None, 1)
      else if remaining \<ge> high_water then (None, base)
      else (None, 1))"

definition pacer_observe :: "int \<Rightarrow> int \<Rightarrow> int option \<Rightarrow> pacer \<Rightarrow> pacer" where
  "pacer_observe now remaining reset p =
     (let (park, limit) = decide_pace (pc_base p) remaining reset now
      in p\<lparr>pc_parked := (case park of None \<Rightarrow> pc_parked p | Some t \<Rightarrow> Some t), pc_limit := limit\<rparr>)"

definition on_429 :: "int \<Rightarrow> int \<Rightarrow> pacer \<Rightarrow> int \<times> pacer" where
  "on_429 now remaining p =
     (let d = (low_water - remaining) * sec;
          d = (if d < sec then sec else d);
          d = (if d > park_cap then park_cap else d)
      in (d, p\<lparr>pc_parked := Some (now + d)\<rparr>))"

text \<open>\<open>Acquire\<close>: a parked driver refuses the call before anything is sent.\<close>

definition pacer_acquire :: "int \<Rightarrow> pacer \<Rightarrow> err + unit" where
  "pacer_acquire now p =
     (case pc_parked p of
        None \<Rightarrow> Inr ()
      | Some t \<Rightarrow>
          (if t - now > 0 then
             Inl (EProv \<lparr>pe_class = ErrRateLimited, pe_side_effect = EffectNone, pe_retry_after = t - now,
               pe_message = ''rate limiter parked''\<rparr>)
           else Inr ()))"

section \<open>No response freezes the driver\<close>

text \<open>What one response tells the pacer: rate headers, or a 429.\<close>

datatype rate_event = RateHeaders int "int option" | TooMany int

fun pacer_event :: "int \<Rightarrow> rate_event \<Rightarrow> pacer \<Rightarrow> pacer" where
  "pacer_event now (RateHeaders remaining reset) p = pacer_observe now remaining reset p"
| "pacer_event now (TooMany remaining) p = snd (on_429 now remaining p)"

definition parked_by :: "int \<Rightarrow> pacer \<Rightarrow> bool" where
  "parked_by t p \<longleftrightarrow> (\<forall>u. pc_parked p = Some u \<longrightarrow> u \<le> t)"

lemma parked_by_event:
  assumes "parked_by (now + park_cap) p"
  shows "parked_by (now + park_cap) (pacer_event now e p)"
  using assms
  by (cases e) (auto simp: parked_by_def pacer_observe_def decide_pace_def on_429_def Let_def park_cap_def
      sec_def split: option.splits if_splits)

lemma parked_by_mono: "parked_by t p \<Longrightarrow> t \<le> u \<Longrightarrow> parked_by u p"
  by (force simp: parked_by_def)

definition pacer_run :: "(int \<times> rate_event) list \<Rightarrow> pacer \<Rightarrow> pacer" where
  "pacer_run es p = fold (\<lambda>(u, e). pacer_event u e) es p"

lemma parked_by_events:
  assumes "sorted (map fst es)" and "\<forall>(u, e) \<in> set es. u \<le> t" and "parked_by (t + park_cap) p"
    and "es \<noteq> [] \<Longrightarrow> parked_by (fst (hd es) + park_cap) p"
  shows "parked_by (t + park_cap) (pacer_run es p)"
  using assms
proof (induction es arbitrary: p)
  case (Cons x es)
  obtain u e where x: "x = (u, e)" by fastforce
  have p: "parked_by (u + park_cap) (pacer_event u e p)"
    using Cons.prems(4) x by (intro parked_by_event) simp
  have le: "u \<le> t" using Cons.prems(2) x by simp
  have nxt: "parked_by (fst (hd es) + park_cap) (pacer_event u e p)" if "es \<noteq> []"
    using Cons.prems(1) x that by (cases es) (auto intro: parked_by_mono [OF p])
  have "parked_by (t + park_cap) (pacer_event u e p)" using le by (intro parked_by_mono [OF p]) simp
  then show ?case using Cons.IH [of "pacer_event u e p"] Cons.prems(1,2) nxt x by (auto simp: pacer_run_def)
qed (simp add: pacer_run_def)

text \<open>
  No rate limit freezes a driver for longer than a minute: whatever rate headers and 429s came in
  up to some time, a refused call is told to retry within 60 seconds, nothing was sent for it, and a
  call one minute later is not refused.
\<close>

theorem pacer_frees_within_a_minute:
  assumes "sorted (map fst es)" and "\<forall>(u, e) \<in> set es. u \<le> t" and "t \<le> now"
  shows "(\<forall>e. pacer_acquire now (pacer_run es (pacer_new rps)) = Inl e \<longrightarrow>
            effect e = EffectNone \<and> (\<exists>d. retry_after_of e = Some d \<and> d \<le> park_cap))
    \<and> pacer_acquire (t + park_cap) (pacer_run es (pacer_new rps)) = Inr ()"
proof -
  have "parked_by u (pacer_new rps)" for u by (simp add: parked_by_def pacer_new_def Let_def)
  then have p: "parked_by (t + park_cap) (pacer_run es (pacer_new rps))"
    using assms(1,2) by (intro parked_by_events) auto
  then show ?thesis using assms(3)
    by (auto simp: pacer_acquire_def parked_by_def effect_def retry_after_of_def split: option.splits if_splits)
qed

theorem pacer_frees_within_a_minute_witness:
  "pacer_acquire (2 * sec + park_cap) (pacer_run [(sec, TooMany 0), (2 * sec, RateHeaders 0 None)] (pacer_new 5)) = Inr ()"
  using pacer_frees_within_a_minute
    [of "[(sec, TooMany 0), (2 * sec, RateHeaders 0 None)]" "2 * sec" "2 * sec" 5]
  by (simp add: sec_def)

end
