(* ===== verification/Driver_Kit.thy ===== *)
theory Driver_Kit
  imports Compute Go_Text Pacing
begin

text \<open>
  What the drivers under providers/ have in common: calls that thread a state and may fail, the
  typed provider errors, the journaled create parameters and their JSON, the rate headers of a
  response, and the interface a driver offers with the laws the kernel relies on.
\<close>

section \<open>Calls with a state\<close>

text \<open>
  A method that talks to a cloud is a function from the state (the cloud, the pacer) to its result
  and the next state; the state changes of a failed call stay.
\<close>

type_synonym ('s, 'a) io = "'s \<Rightarrow> (err + 'a) \<times> 's"

definition retS :: "'a \<Rightarrow> ('s, 'a) io" where "retS x s = (Inr x, s)"
definition failS :: "err \<Rightarrow> ('s, 'a) io" where "failS e s = (Inl e, s)"

definition bindS :: "('s, 'a) io \<Rightarrow> ('a \<Rightarrow> ('s, 'b) io) \<Rightarrow> ('s, 'b) io" where
  "bindS m f s = (case m s of (Inl e, t) \<Rightarrow> (Inl e, t) | (Inr x, t) \<Rightarrow> f x t)"

definition liftS :: "err + 'a \<Rightarrow> ('s, 'a) io" where "liftS r s = (r, s)"

text \<open>A call whose error the code looks at.\<close>

definition catchS :: "('s, 'a) io \<Rightarrow> (err + 'a \<Rightarrow> ('s, 'b) io) \<Rightarrow> ('s, 'b) io" where
  "catchS m f s = (case m s of (r, t) \<Rightarrow> f r t)"

text \<open>A step that cannot fail and whose answer decides how to go on.\<close>

definition askS :: "('s \<Rightarrow> 'a \<times> 's) \<Rightarrow> ('a \<Rightarrow> ('s, 'b) io) \<Rightarrow> ('s, 'b) io" where
  "askS m f s = (case m s of (x, t) \<Rightarrow> f x t)"

lemma bindS_simps [simp]:
  "m s = (Inl e, t) \<Longrightarrow> bindS m f s = (Inl e, t)" "m s = (Inr x, t) \<Longrightarrow> bindS m f s = f x t"
  by (simp_all add: bindS_def)

lemma bindS_InrE:
  assumes "bindS m f s = (Inr y, u)"
  obtains x t where "m s = (Inr x, t)" "f x t = (Inr y, u)"
  using assms by (auto simp: bindS_def split: prod.splits sum.splits)

lemmas io_simps = retS_def failS_def liftS_def catchS_def

section \<open>Errors, statuses, labels\<close>

definition perr :: "error_class \<Rightarrow> side_effect \<Rightarrow> string \<Rightarrow> err" where
  "perr c e m = EProv \<lparr>pe_class = c, pe_side_effect = e, pe_retry_after = 0, pe_message = m\<rparr>"

definition invalid_err :: "string \<Rightarrow> err" where
  "invalid_err m = perr ErrInvalid EffectNone m"

lemma perr_simps [simp]:
  "classify (perr c e m) = c" "effect (perr c e m) = (if e = EffectNone then EffectNone else EffectMaybe)"
  by (simp_all add: perr_def classify_def effect_def)

lemma invalid_err_simps [simp]: "classify (invalid_err m) = ErrInvalid" "effect (invalid_err m) = EffectNone"
  by (simp_all add: invalid_err_def)

definition status :: "operation_state \<Rightarrow> ext_ref option \<Rightarrow> observed_resource option \<Rightarrow> int \<Rightarrow> operation_status" where
  "status q ref obs ra = \<lparr>st_state = q, st_ref = ref, st_resource = obs, st_failure = None, st_retry_after = ra\<rparr>"

lemma status_simps [simp]:
  "st_state (status q ref obs ra) = q" "st_ref (status q ref obs ra) = ref"
  "st_resource (status q ref obs ra) = obs"
  by (simp_all add: status_def)

definition compute_kind :: string where "compute_kind = ''compute.machine''"

text \<open>\<open>Labels[LabelManaged] == "true" && Labels[LabelOwner] == ownerID\<close>.\<close>

definition owned_by :: "string \<Rightarrow> labels \<Rightarrow> bool" where
  "owned_by owner ls \<longleftrightarrow> lab ls label_managed = ''true'' \<and> lab ls label_owner = owner"

text \<open>The label equalities a discover request stands for.\<close>

definition wanted :: "string \<Rightarrow> discover_scope \<Rightarrow> labels \<Rightarrow> labels" where
  "wanted owner scope sel =
     merge_labels (if scope = ScopeAll then [] else [(label_managed, ''true''), (label_owner, owner)]) sel"

section \<open>Rate headers\<close>

record rate_meta =
  rm_limit :: int
  rm_remaining :: int
  rm_reset :: "int option"

text \<open>\<open>observeResp\<close>: no response, or one without rate headers, tells nothing.\<close>

definition observe_resp :: "int \<Rightarrow> rate_meta option \<Rightarrow> pacer \<Rightarrow> pacer" where
  "observe_resp now m p =
     (case m of None \<Rightarrow> p
      | Some r \<Rightarrow> (if rm_limit r = 0 then p else pacer_observe now (rm_remaining r) (rm_reset r) p))"

text \<open>
  A driver with a pacer and a cloud. A call to the cloud answers with a result or an error of the
  cloud's own and perhaps rate headers; \<open>me\<close> folds its errors, which may park the pacer.
\<close>

record 'w dstate =
  dt_pacer :: pacer
  dt_cloud :: 'w

type_synonym ('w, 'e, 'a) api = "'w \<Rightarrow> ('e + 'a) \<times> rate_meta option \<times> 'w"

type_synonym 'e folder = "'e \<Rightarrow> side_effect \<Rightarrow> pacer \<Rightarrow> err \<times> pacer"

definition acquire_slot :: "int \<Rightarrow> (('w, 'z) dstate_scheme, unit) io" where
  "acquire_slot now s = (pacer_acquire now (dt_pacer s), s)"

definition api_call :: "int \<Rightarrow> 'e folder \<Rightarrow> side_effect \<Rightarrow> ('w, 'e, 'a) api \<Rightarrow> (('w, 'z) dstate_scheme, 'a) io" where
  "api_call now me eff f s =
     (let (r, m, w) = f (dt_cloud s); p = observe_resp now m (dt_pacer s) in
      case r of
        Inr x \<Rightarrow> (Inr x, s\<lparr>dt_pacer := p, dt_cloud := w\<rparr>)
      | Inl e \<Rightarrow> (let (e', p') = me e eff p in (Inl e', s\<lparr>dt_pacer := p', dt_cloud := w\<rparr>)))"

definition paced :: "int \<Rightarrow> 'e folder \<Rightarrow> side_effect \<Rightarrow> ('w, 'e, 'a) api \<Rightarrow> (('w, 'z) dstate_scheme, 'a) io" where
  "paced now me eff f = bindS (acquire_slot now) (\<lambda>_. api_call now me eff f)"

text \<open>A call whose response carries no rate headers to the driver.\<close>

definition no_meta :: "('w \<Rightarrow> ('e + 'a) \<times> 'w) \<Rightarrow> ('w, 'e, 'a) api" where
  "no_meta f w = (let (r, w') = f w in (r, None, w'))"

text \<open>One call per element, in order.\<close>

fun mapS :: "('a \<Rightarrow> ('s, 'b) io) \<Rightarrow> 'a list \<Rightarrow> ('s, 'b list) io" where
  "mapS f [] = retS []"
| "mapS f (x # xs) = bindS (f x) (\<lambda>y. bindS (mapS f xs) (\<lambda>ys. retS (y # ys)))"

text \<open>
  The pages of a listing by token: the first token is empty, an empty next token ends it. At most
  \<open>fuel\<close> pages are asked for; a listing that has not ended by then has no result.
\<close>

fun token_pages :: "nat \<Rightarrow> (string \<Rightarrow> ('s, 'a list \<times> string) io) \<Rightarrow> string \<Rightarrow> ('s, 'a list) io" where
  "token_pages 0 get tok = failS (EOther ''out of pages'')"
| "token_pages (Suc fuel) get tok =
     bindS (get tok) (\<lambda>(items, next).
     if next = [] then retS items
     else bindS (token_pages fuel get next) (\<lambda>rest. retS (items @ rest)))"

section \<open>What a call does to the machines\<close>

text \<open>
  \<open>keeps view m\<close>: the call leaves what \<open>view\<close> shows of the state alone. \<open>truthful view m\<close>: it does
  so at least whenever it fails with the side effect \<open>none\<close>, the promise on which the engine
  repeats a mutation without asking the provider first.
\<close>

definition keeps :: "('s \<Rightarrow> 'm) \<Rightarrow> ('s \<Rightarrow> 'a \<times> 's) \<Rightarrow> bool" where
  "keeps view m \<longleftrightarrow> (\<forall>s. view (snd (m s)) = view s)"

definition truthful :: "('s \<Rightarrow> 'm) \<Rightarrow> ('s, 'a) io \<Rightarrow> bool" where
  "truthful view m \<longleftrightarrow> (\<forall>s e t. m s = (Inl e, t) \<and> effect e = EffectNone \<longrightarrow> view t = view s)"

named_theorems effect_rules \<open>how the combinators keep the machines and tell the truth\<close>

lemma keepsD: "keeps view m \<Longrightarrow> m s = (r, t) \<Longrightarrow> view t = view s"
  by (metis keeps_def snd_conv)

lemma truthfulD: "truthful view m \<Longrightarrow> m s = (Inl e, t) \<Longrightarrow> effect e = EffectNone \<Longrightarrow> view t = view s"
  by (simp add: truthful_def)

lemma keeps_retS [effect_rules]: "keeps view (retS x)" by (simp add: keeps_def retS_def)
lemma keeps_failS [effect_rules]: "keeps view (failS e)" by (simp add: keeps_def failS_def)
lemma keeps_liftS [effect_rules]: "keeps view (liftS r)" by (simp add: keeps_def liftS_def)

lemma keeps_bindS [effect_rules]:
  assumes "keeps view m" and "\<And>x. keeps view (f x)"
  shows "keeps view (bindS m f)"
  unfolding keeps_def
proof
  fix s
  obtain r t where m: "m s = (r, t)" by fastforce
  show "view (snd (bindS m f s)) = view s"
    using keepsD [OF assms(1) m] assms(2) by (cases r) (auto simp: m keeps_def bindS_def)
qed

lemma keeps_catchS [effect_rules]:
  assumes "keeps view m" and "\<And>x. keeps view (f x)"
  shows "keeps view (catchS m f)"
  using assms by (simp add: keeps_def catchS_def case_prod_beta)

lemma keeps_askS [effect_rules]:
  assumes "keeps view m" and "\<And>x. keeps view (f x)"
  shows "keeps view (askS m f)"
  using assms by (simp add: keeps_def askS_def case_prod_beta)

lemma keeps_if [effect_rules]: "(b \<Longrightarrow> keeps view x) \<Longrightarrow> (\<not> b \<Longrightarrow> keeps view y) \<Longrightarrow> keeps view (if b then x else y)"
  by simp

lemma keeps_option [effect_rules]:
  "(opt = None \<Longrightarrow> keeps view x) \<Longrightarrow> (\<And>a. opt = Some a \<Longrightarrow> keeps view (f a))
    \<Longrightarrow> keeps view (case opt of None \<Rightarrow> x | Some a \<Rightarrow> f a)"
  by (cases opt) simp_all

lemma keeps_sum [effect_rules]:
  "(\<And>e. r = Inl e \<Longrightarrow> keeps view (f e)) \<Longrightarrow> (\<And>a. r = Inr a \<Longrightarrow> keeps view (g a))
    \<Longrightarrow> keeps view (case r of Inl e \<Rightarrow> f e | Inr a \<Rightarrow> g a)"
  by (cases r) simp_all

lemma keeps_prod [effect_rules]: "(\<And>a b. keeps view (f a b)) \<Longrightarrow> keeps view (case p of (a, b) \<Rightarrow> f a b)"
  by (cases p) simp

lemma truthful_keeps: "keeps view m \<Longrightarrow> truthful view m"
  by (auto simp: truthful_def dest: keepsD)

lemma truthful_retS [effect_rules]: "truthful view (retS x)" by (rule truthful_keeps) (rule keeps_retS)
lemma truthful_failS [effect_rules]: "truthful view (failS e)" by (rule truthful_keeps) (rule keeps_failS)

lemma truthful_if [effect_rules]:
  "(b \<Longrightarrow> truthful view x) \<Longrightarrow> (\<not> b \<Longrightarrow> truthful view y) \<Longrightarrow> truthful view (if b then x else y)"
  by simp

lemma truthful_option [effect_rules]:
  "(opt = None \<Longrightarrow> truthful view x) \<Longrightarrow> (\<And>a. opt = Some a \<Longrightarrow> truthful view (f a))
    \<Longrightarrow> truthful view (case opt of None \<Rightarrow> x | Some a \<Rightarrow> f a)"
  by (cases opt) simp_all

lemma truthful_bindS:
  assumes "keeps view m" and "\<And>x. truthful view (f x)"
  shows "truthful view (bindS m f)"
  using assms keepsD [OF assms(1)]
  by (fastforce simp: truthful_def bindS_def split: prod.splits sum.splits)

text \<open>After the mutation nothing may fail.\<close>

lemma truthful_bindS_final:
  assumes "truthful view m" and "\<And>x s e t. f x s = (Inl e, t) \<Longrightarrow> effect e \<noteq> EffectNone"
  shows "truthful view (bindS m f)"
  unfolding truthful_def
proof (intro allI impI)
  fix s e t
  assume a: "bindS m f s = (Inl e, t) \<and> effect e = EffectNone"
  obtain r u where m: "m s = (r, u)" by fastforce
  then show "view t = view s"
    using a assms(1) assms(2) [of _ u e t] by (cases r) (auto simp: bindS_def truthful_def)
qed

lemma truthful_last:
  assumes "truthful view m" and "\<And>x s. is_ok (fst (f x s))"
  shows "truthful view (bindS m f)"
  using assms(1) by (rule truthful_bindS_final) (metis assms(2) fst_conv is_ok_simps(1))

lemma truthful_catchS:
  assumes "keeps view m" and "\<And>x. truthful view (f x)"
  shows "truthful view (catchS m f)"
  using assms(2) keepsD [OF assms(1)] by (fastforce simp: truthful_def catchS_def split: prod.splits)

lemma truthful_askS:
  assumes "keeps view m" and "\<And>x. truthful view (f x)"
  shows "truthful view (askS m f)"
  using assms(2) keepsD [OF assms(1)] by (fastforce simp: truthful_def askS_def split: prod.splits)

lemma is_ok_retS [simp]: "is_ok (fst (retS x s))" by (simp add: retS_def)

text \<open>A mutation whose error the code looks at: it may pass it on or turn it into a success.\<close>

lemma truthful_caught:
  assumes "truthful view m" and "\<And>x s. is_ok (fst (f (Inr x) s))"
    and "\<And>e. keeps view (f (Inl e))" and "\<And>e s. is_ok (fst (f (Inl e) s)) \<or> fst (f (Inl e) s) = Inl e"
  shows "truthful view (catchS m f)"
  unfolding truthful_def
proof (intro allI impI)
  fix s e t
  assume a: "catchS m f s = (Inl e, t) \<and> effect e = EffectNone"
  obtain r u where m: "m s = (r, u)" by fastforce
  with a have f: "f r u = (Inl e, t)" by (simp add: catchS_def)
  show "view t = view s"
  proof (cases r)
    case (Inl x)
    with f assms(4) [of x u] have "x = e" by simp
    then have "view u = view s" using assms(1) m Inl a by (auto simp: truthful_def)
    then show ?thesis using keepsD [OF assms(3)] f Inl by metis
  next
    case (Inr x)
    then show ?thesis using f assms(2) [of x u] by simp
  qed
qed

lemma keeps_like: "keeps view m \<Longrightarrow> (\<And>s. snd (f s) = snd (m s)) \<Longrightarrow> keeps view f"
  by (simp add: keeps_def)

lemma keeps_mapS [effect_rules]: "(\<And>x. keeps view (f x)) \<Longrightarrow> keeps view (mapS f xs)"
  by (induction xs) (auto intro!: effect_rules)

lemma keeps_token_pages: "(\<And>tok. keeps view (get tok)) \<Longrightarrow> keeps view (token_pages fuel get tok)"
  by (induction fuel arbitrary: tok) (auto intro!: effect_rules split: prod.split)

text \<open>Calls of a cloud, seen through \<open>mach\<close>.\<close>

definition cloud_view :: "('w \<Rightarrow> 'm) \<Rightarrow> ('w, 'z) dstate_scheme \<Rightarrow> 'm" where
  "cloud_view mach s = mach (dt_cloud s)"

definition reads_only :: "('w \<Rightarrow> 'm) \<Rightarrow> ('w, 'e, 'a) api \<Rightarrow> bool" where
  "reads_only mach f \<longleftrightarrow> (\<forall>w. mach (snd (snd (f w))) = mach w)"

definition refusal_changes_nothing :: "('w \<Rightarrow> 'm) \<Rightarrow> ('e \<Rightarrow> bool) \<Rightarrow> ('w, 'e, 'a) api \<Rightarrow> bool" where
  "refusal_changes_nothing mach refused f \<longleftrightarrow>
     (\<forall>w e m w'. f w = (Inl e, m, w') \<and> refused e \<longrightarrow> mach w' = mach w)"

lemma keeps_acquire_slot [effect_rules]: "keeps (cloud_view mach) (acquire_slot now)"
  by (simp add: keeps_def acquire_slot_def)

lemma keeps_api_call:
  assumes "reads_only mach f"
  shows "keeps (cloud_view mach) (api_call now me eff f)"
  unfolding keeps_def
proof
  fix s :: "(_, _) dstate_scheme"
  obtain r m w where f: "f (dt_cloud s) = (r, m, w)" by (metis prod_cases3)
  have "mach w = mach (dt_cloud s)" using assms f by (metis reads_only_def snd_conv)
  then show "cloud_view mach (snd (api_call now me eff f s)) = cloud_view mach s"
    by (auto simp: api_call_def f Let_def cloud_view_def split: sum.splits prod.splits)
qed

lemma keeps_paced: "reads_only mach f \<Longrightarrow> keeps (cloud_view mach) (paced now me eff f)"
  unfolding paced_def by (intro effect_rules keeps_api_call)

lemma truthful_api_call:
  assumes "refusal_changes_nothing mach refused f" and "\<And>e p. \<not> refused e \<Longrightarrow> effect (fst (me e eff p)) \<noteq> EffectNone"
  shows "truthful (cloud_view mach) (api_call now me eff f)"
  unfolding truthful_def
proof (intro allI impI)
  fix s t :: "(_, _) dstate_scheme" and e
  assume a: "api_call now me eff f s = (Inl e, t) \<and> effect e = EffectNone"
  obtain r m w where f: "f (dt_cloud s) = (r, m, w)" by (metis prod_cases3)
  from a f obtain x where r: "r = Inl x" and e: "fst (me x eff (observe_resp now m (dt_pacer s))) = e"
    and t: "dt_cloud t = w"
    by (auto simp: api_call_def Let_def split: sum.splits prod.splits)
  have "refused x" using assms(2) [of x] a e by metis
  then show "cloud_view mach t = cloud_view mach s"
    using assms(1) f r t unfolding refusal_changes_nothing_def cloud_view_def by metis
qed

lemma truthful_paced:
  assumes "refusal_changes_nothing mach refused f" and "\<And>e p. \<not> refused e \<Longrightarrow> effect (fst (me e eff p)) \<noteq> EffectNone"
  shows "truthful (cloud_view mach) (paced now me eff f)"
  unfolding paced_def using assms by (intro truthful_bindS effect_rules truthful_api_call [of mach refused]) auto

section \<open>Create parameters\<close>

record create_params =
  cp_name :: string
  cp_spec :: machine_spec
  cp_labels :: labels

text \<open>\<open>json.Marshal\<close> with \<open>omitempty\<close>; \<open>show_d\<close> is \<open>time.Duration.String\<close>.\<close>

definition omit_str :: "string \<Rightarrow> string \<Rightarrow> (string \<times> json) list" where
  "omit_str k v = (if v = [] then [] else [(k, JStr v)])"

definition omit_int :: "string \<Rightarrow> int \<Rightarrow> (string \<times> json) list" where
  "omit_int k v = (if v = 0 then [] else [(k, JNum v)])"

definition omit_dur :: "(int \<Rightarrow> string) \<Rightarrow> string \<Rightarrow> int \<Rightarrow> (string \<times> json) list" where
  "omit_dur show_d k v = (if v = 0 then [] else [(k, JStr (show_d v))])"

definition encode_labels :: "labels \<Rightarrow> json" where
  "encode_labels ls = JObj (map (\<lambda>(k, v). (k, JStr v)) ls)"

definition encode_tcp :: "(int \<Rightarrow> string) \<Rightarrow> tcp_probe \<Rightarrow> json" where
  "encode_tcp show_d t = JObj ([(''port'', JNum (tp_port t))] @ omit_dur show_d ''timeout'' (tp_timeout t))"

definition encode_http :: "(int \<Rightarrow> string) \<Rightarrow> http_probe \<Rightarrow> json" where
  "encode_http show_d h =
     JObj ([(''port'', JNum (hp_port h)), (''path'', JStr (hp_path h))]
       @ omit_int ''expectStatus'' (hp_expect_status h) @ omit_dur show_d ''timeout'' (hp_timeout h))"

definition encode_readiness :: "(int \<Rightarrow> string) \<Rightarrow> readiness_spec \<Rightarrow> json" where
  "encode_readiness show_d r =
     JObj ((case rd_tcp r of None \<Rightarrow> [] | Some t \<Rightarrow> [(''tcp'', encode_tcp show_d t)])
       @ (case rd_http r of None \<Rightarrow> [] | Some h \<Rightarrow> [(''http'', encode_http show_d h)])
       @ omit_dur show_d ''initialDelay'' (rd_initial_delay r) @ omit_dur show_d ''period'' (rd_period r)
       @ omit_dur show_d ''budget'' (rd_budget r)
       @ omit_int ''successThreshold'' (rd_success_threshold r))"

definition encode_machine :: "(int \<Rightarrow> string) \<Rightarrow> machine_spec \<Rightarrow> json" where
  "encode_machine show_d m =
     JObj ([(''serverType'', JStr (ma_server_type m)), (''image'', JStr (ma_image m))]
       @ omit_str ''location'' (ma_location m) @ omit_str ''userData'' (ma_user_data m)
       @ (if ma_labels m = [] then [] else [(''labels'', encode_labels (ma_labels m))])
       @ (case ma_readiness m of None \<Rightarrow> [] | Some r \<Rightarrow> [(''readiness'', encode_readiness show_d r)]))"

definition encode_params :: "(int \<Rightarrow> string) \<Rightarrow> create_params \<Rightarrow> json" where
  "encode_params show_d p =
     JObj [(''name'', JStr (cp_name p)), (''spec'', encode_machine show_d (cp_spec p)),
           (''labels'', encode_labels (cp_labels p))]"

definition zero_machine :: machine_spec where
  "zero_machine = \<lparr>ma_server_type = [], ma_image = [], ma_location = [], ma_user_data = [],
     ma_labels = [], ma_readiness = None\<rparr>"

definition decode_params :: "(string \<Rightarrow> int option) \<Rightarrow> json blob \<Rightarrow> err + create_params" where
  "decode_params pd raw =
     (case raw of
        BVal (JObj fs) \<Rightarrow>
          bindE (get_str (jfield ''name'' fs)) (\<lambda>n.
          bindE (case jfield ''spec'' fs of
              JNull \<Rightarrow> Inr zero_machine
            | JObj sfs \<Rightarrow> decode_machine pd sfs
            | _ \<Rightarrow> Inl bad_type) (\<lambda>m.
          bindE (get_labels (jfield ''labels'' fs)) (\<lambda>ls.
          Inr \<lparr>cp_name = n, cp_spec = m, cp_labels = ls\<rparr>)))
      | BVal JNull \<Rightarrow> Inr \<lparr>cp_name = [], cp_spec = zero_machine, cp_labels = []\<rparr>
      | _ \<Rightarrow> Inl bad_type)"

text \<open>
  \<open>Plan\<close> of a create, the same in the cloud drivers: the spec is parsed, and what \<open>Apply\<close> will
  need is written into the action.
\<close>

definition plan_create ::
    "(string \<Rightarrow> int option) \<Rightarrow> (int \<Rightarrow> string) \<Rightarrow> string \<Rightarrow> desired_state \<Rightarrow> err + action list" where
  "plan_create pd show_d rid ds =
     (case parse_spec pd (ds_spec ds) of
        Inl _ \<Rightarrow> Inl (invalid_err ''invalid spec'')
      | Inr spec \<Rightarrow>
          Inr [\<lparr>ac_action_id = [], ac_kind = ''create'', ac_resource_id = rid, ac_ref = None,
                ac_params = BVal (encode_params show_d
                  \<lparr>cp_name = ds_name ds, cp_spec = spec, cp_labels = ds_labels ds\<rparr>),
                ac_destructive = False\<rparr>])"

text \<open>Malformed parameters are an invalid action.\<close>

definition read_params :: "(string \<Rightarrow> int option) \<Rightarrow> action \<Rightarrow> err + create_params" where
  "read_params pd act =
     (case decode_params pd (ac_params act) of
        Inl _ \<Rightarrow> Inl (invalid_err ''malformed create params'') | Inr p \<Rightarrow> Inr p)"

section \<open>Resume data\<close>

text \<open>
  \<open>_ = json.Unmarshal(op.Data, &data)\<close>: the error is dropped, so a field of another type keeps
  its zero value and the other fields are still read.
\<close>

fun lax_str :: "json \<Rightarrow> string" where "lax_str (JStr s) = s" | "lax_str _ = []"
fun lax_int :: "json \<Rightarrow> int" where "lax_int (JNum n) = n" | "lax_int _ = 0"
fun lax_bool :: "json \<Rightarrow> bool" where "lax_bool (JBool b) = b" | "lax_bool _ = False"
fun lax_ints :: "json \<Rightarrow> int list" where "lax_ints (JArr xs) = map lax_int xs" | "lax_ints _ = []"

definition data_fields :: "json blob \<Rightarrow> (string \<times> json) list" where
  "data_fields d = (case d of BVal (JObj fs) \<Rightarrow> fs | _ \<Rightarrow> [])"

lemma jfield_Nil [simp]: "jfield k [] = JNull"
  by (simp add: jfield_def)

lemma data_fields_simps [simp]: "data_fields BNil = []" "data_fields BBad = []" "data_fields (BVal (JObj fs)) = fs"
  by (simp_all add: data_fields_def)


section \<open>The parameters survive the journal\<close>

lemma jfield_append: "jfield k (xs @ ys) = (case map_of (rev ys) k of None \<Rightarrow> jfield k xs | Some v \<Rightarrow> v)"
  by (simp add: jfield_def map_add_def split: option.splits)

lemma jfield_Cons: "jfield k ((k', v) # xs) = (case map_of (rev xs) k of None \<Rightarrow> if k = k' then v else JNull | Some w \<Rightarrow> w)"
  by (simp add: jfield_def map_add_def split: option.splits)

lemma get_str_map_encode [simp]: "get_str_map (map (\<lambda>(k, v). (k, JStr v)) ls) = Inr ls"
  by (induction ls) auto

lemma get_labels_encode [simp]: "get_labels (encode_labels ls) = Inr ls"
  by (simp add: encode_labels_def)

lemmas omit_defs = omit_str_def omit_int_def omit_dur_def

lemma decode_tcp_encode:
  assumes "\<And>d. pd (show_d d) = Some d"
  shows "decode_tcp pd (encode_tcp show_d t) = Inr (Some t)"
  by (cases t) (auto simp: encode_tcp_def omit_defs jfield_Cons jfield_append get_duration_def assms)

lemma decode_http_encode:
  assumes "\<And>d. pd (show_d d) = Some d"
  shows "decode_http pd (encode_http show_d h) = Inr (Some h)"
  by (cases h) (auto simp: encode_http_def omit_defs jfield_Cons jfield_append get_duration_def assms)

lemma decode_readiness_encode:
  assumes "\<And>d. pd (show_d d) = Some d"
  shows "decode_readiness pd (encode_readiness show_d r) = Inr (Some r)"
  using decode_tcp_encode [of pd show_d, OF assms] decode_http_encode [of pd show_d, OF assms]
  by (cases r) (auto simp: encode_readiness_def omit_defs jfield_Cons jfield_append get_duration_def assms
      split: option.splits)

definition machine_fields :: "(int \<Rightarrow> string) \<Rightarrow> machine_spec \<Rightarrow> (string \<times> json) list" where
  "machine_fields show_d m =
     [(''serverType'', JStr (ma_server_type m)), (''image'', JStr (ma_image m))]
       @ omit_str ''location'' (ma_location m) @ omit_str ''userData'' (ma_user_data m)
       @ (if ma_labels m = [] then [] else [(''labels'', encode_labels (ma_labels m))])
       @ (case ma_readiness m of None \<Rightarrow> [] | Some r \<Rightarrow> [(''readiness'', encode_readiness show_d r)])"

lemma encode_machine_fields: "encode_machine show_d m = JObj (machine_fields show_d m)"
  by (simp add: encode_machine_def machine_fields_def)

lemma decode_machine_encode:
  assumes "\<And>d. pd (show_d d) = Some d"
  shows "decode_machine pd (machine_fields show_d m) = Inr m"
  using decode_readiness_encode [of pd show_d, OF assms]
  by (cases m) (auto simp: machine_fields_def decode_machine_def omit_defs jfield_Cons jfield_append
      split: option.splits)

text \<open>
  What a driver plans is what it applies: the journaled create parameters decode to the same
  name, machine spec (with its readiness probe and its durations) and labels, for any parser and
  printer of durations that are inverse to each other.
\<close>

theorem create_params_roundtrip:
  assumes "\<And>d. pd (show_d d) = Some d"
  shows "decode_params pd (BVal (encode_params show_d p)) = Inr p"
  using decode_machine_encode [of pd show_d, OF assms]
  by (cases p) (simp add: encode_params_def decode_params_def encode_machine_fields jfield_Cons)

text \<open>Decimal nanoseconds, an instance of the parser and printer of durations.\<close>

definition parse_decimal :: "string \<Rightarrow> int option" where
  "parse_decimal s = (case s of
     [] \<Rightarrow> None
   | c # r \<Rightarrow> (if c = CHR ''-'' then map_option (\<lambda>n. - int n) (parse_nat r) else map_option int (parse_nat s)))"

lemma parse_decimal_show: "parse_decimal (show_int n) = Some n"
proof (cases "n < 0")
  case False
  obtain d r where d: "digits (nat n) = digit d # r" "d < 10" using digits_Cons by blast
  then show ?thesis
    using digit_not_sign [OF d(2)] parse_nat_digits [of "nat n"] False by (simp add: parse_decimal_def show_int_def)
qed (simp add: parse_decimal_def show_int_def)

definition ex_params :: create_params where
  "ex_params = \<lparr>cp_name = ''vm'', cp_spec = \<lparr>ma_server_type = ''cx22'', ma_image = ''name:ubuntu'', ma_location = [],
     ma_user_data = [], ma_labels = [(''team'', ''a'')], ma_readiness = Some \<lparr>rd_tcp = Some \<lparr>tp_port = 22, tp_timeout = 3 * sec\<rparr>,
       rd_http = None, rd_initial_delay = 0, rd_period = sec, rd_budget = 0, rd_success_threshold = 0\<rparr>\<rparr>,
     cp_labels = [(label_op, ''o1'')]\<rparr>"

theorem create_params_roundtrip_witness:
  "decode_params parse_decimal (BVal (encode_params show_int ex_params)) = Inr ex_params"
  by (rule create_params_roundtrip) (rule parse_decimal_show)

section \<open>The contract of a driver\<close>

text \<open>An action that is refused before anything is sent: the state is as it was.\<close>

definition refuses :: "(err + 'a) \<times> 's \<Rightarrow> 's \<Rightarrow> bool" where
  "refuses r s \<longleftrightarrow> (\<exists>e. r = (Inl e, s) \<and> classify e = ErrInvalid \<and> effect e = EffectNone)"

lemma refuses_invalid [simp]: "refuses (failS (invalid_err m) s) s"
  by (simp add: refuses_def failS_def)

lemma refuses_liftS: "refuses (bindS (liftS (Inl (invalid_err m))) f s) s"
  by (simp add: refuses_def bindS_def liftS_def)

definition same_ref :: "string \<Rightarrow> ext_ref \<Rightarrow> json blob \<Rightarrow> operation_ref" where
  "same_ref aid ref d = \<lparr>or_action_id = aid, or_ref = Some ref, or_data = d\<rparr>"

text \<open>
  What the engine relies on when it dispatches an action: \<open>lookup\<close> is the driver's search for the
  machine of an operation, \<open>readable\<close> tells whether the create parameters decode.
\<close>

locale cloud_driver =
  fixes kinds :: "string list"
    and apply_act :: "action \<Rightarrow> ('s, operation_ref) io"
    and lookup :: "action \<Rightarrow> 's \<Rightarrow> ext_ref option \<times> 's"
    and readable :: "action \<Rightarrow> bool"
  assumes create_found: "\<lbrakk>ac_kind act = ''create''; readable act; lookup act s = (Some ref, t)\<rbrakk>
      \<Longrightarrow> \<exists>d. apply_act act s = (Inr (same_ref (ac_action_id act) ref d), t)"
    and unreadable: "\<lbrakk>ac_kind act = ''create''; \<not> readable act\<rbrakk> \<Longrightarrow> refuses (apply_act act s) s"
    and unknown_kind: "ac_kind act \<notin> set kinds \<Longrightarrow> refuses (apply_act act s) s"
    and answer: "apply_act act s = (Inr oref, t) \<Longrightarrow> or_action_id oref = ac_action_id act
      \<and> (ac_kind act \<noteq> ''create'' \<longrightarrow> ac_ref act \<noteq> None \<and> or_ref oref = ac_ref act)"
begin

lemma accepted_kind: "apply_act act s = (Inr oref, t) \<Longrightarrow> ac_kind act \<in> set kinds"
  using unknown_kind [of act s] by (auto simp: refuses_def)

lemma accepted_create: "apply_act act s = (Inr oref, t) \<Longrightarrow> ac_kind act = ''create'' \<Longrightarrow> readable act"
  using unreadable [of act s] by (auto simp: refuses_def)

end

text \<open>
  A driver whose lookups only read what \<open>view\<close> shows of the cloud; \<open>honest\<close> states the documented
  behaviour of the cloud behind it.
\<close>

locale reading_driver = cloud_driver kinds apply_act lookup readable
  for kinds and apply_act :: "action \<Rightarrow> ('s, operation_ref) io" and lookup and readable +
  fixes view :: "'s \<Rightarrow> 'm" and honest :: bool
  assumes lookup_reads: "honest \<Longrightarrow> keeps view (lookup act)"
begin

text \<open>A create whose machine is found again creates nothing.\<close>

lemma replay_creates_nothing:
  assumes "honest" and "ac_kind act = ''create''" and "readable act"
    and "lookup act s = (Some ref, t)"
  shows "\<exists>d u. apply_act act s = (Inr (same_ref (ac_action_id act) ref d), u) \<and> view u = view s"
  using create_found [OF assms(2-4)] keepsD [OF lookup_reads [OF assms(1)] assms(4)] by blast

end

text \<open>A driver that tells the truth about the side effect of its errors.\<close>

locale truthful_driver = reading_driver +
  assumes truth: "honest \<Longrightarrow> truthful view (apply_act act)"

text \<open>
  What the engine makes of an error without side effect: the action goes out again as it is, at
  most \<open>n\<close> more times.
\<close>

fun blind_retries :: "('s, 'a) io \<Rightarrow> nat \<Rightarrow> ('s, 'a) io" where
  "blind_retries m 0 s = m s"
| "blind_retries m (Suc n) s =
     (case m s of
        (Inl e, t) \<Rightarrow> if effect e = EffectNone then blind_retries m n t else (Inl e, t)
      | (Inr x, t) \<Rightarrow> (Inr x, t))"

lemma blind_retries_one_attempt:
  assumes "truthful view m"
  shows "\<exists>u. view u = view s \<and> blind_retries m n s = m u"
proof (induction n arbitrary: s)
  case (Suc n)
  show ?case
  proof (cases "m s")
    case (Pair r t)
    show ?thesis
    proof (cases "\<exists>e. r = Inl e \<and> effect e = EffectNone")
      case True
      then have "view t = view s" "blind_retries m (Suc n) s = blind_retries m n t"
        using assms Pair by (auto simp: truthful_def)
      then show ?thesis using Suc.IH [of t] by metis
    next
      case False
      then have "blind_retries m (Suc n) s = m s" using Pair by (auto split: sum.splits)
      then show ?thesis by blast
    qed
  qed
qed auto

context truthful_driver
begin

lemma one_attempt: "honest \<Longrightarrow> \<exists>u. view u = view s \<and> blind_retries (apply_act act) n s = apply_act act u"
  by (rule blind_retries_one_attempt) (rule truth)

end

end
