(* ===== verification/Fake_Provider.thy ===== *)
theory Fake_Provider
  imports Driver_Kit "HOL-Library.AList"
begin

text \<open>
  The in-tree fake provider (providers/fake/fake.go), a deterministic cloud in memory: its compute
  driver with state passing and the injection of faults. The test hooks and call counters are left out; injected faults and
  rate limits are part of the state. Go iterates over the object map in any order; here it is the
  order of creation.
\<close>

record fake_options =
  fo_create_steps :: int
  fo_delete_steps :: int
  fo_stop_steps :: int
  fo_start_steps :: int
  fo_list_lag_steps :: int
  fo_page_size :: int
  fo_park :: bool
  fo_start_estimate :: int
  fo_billing :: "(string \<times> billing_policy) list"

datatype object_state =
  ObCreating | ObRunning | ObStopping | ObStopped | ObStarting | ObDeleting | ObGone

record object =
  fb_id :: string
  fb_name :: string
  fb_state :: object_state
  fb_steps_left :: int
  fb_list_lag :: int
  fb_spec :: machine_spec
  fb_labels :: labels
  fb_capacity :: capacity

record apply_fault =
  af_class :: error_class
  af_effect :: side_effect
  af_mutate :: bool
  af_retry_in :: int
  af_message :: string
  af_kind_only :: string

record vol_object =
  vb_id :: string
  vb_name :: string
  vb_gone :: bool
  vb_spec :: volume_spec
  vb_labels :: labels

record fake =
  fk_owner :: string
  fk_opt :: fake_options
  fk_seq :: nat
  fk_objects :: "object list"
  fk_volumes :: "vol_object list"
  fk_faults :: "apply_fault list"
  fk_rate_limit_left :: int
  fk_rate_retry_after :: int

text \<open>\<open>New\<close>; the instance name only occurs in messages.\<close>

definition new_fake :: "string \<Rightarrow> fake_options \<Rightarrow> fake" where
  "new_fake owner opt = \<lparr>fk_owner = owner, fk_opt = opt, fk_seq = 0, fk_objects = [], fk_volumes = [],
     fk_faults = [], fk_rate_limit_left = 0, fk_rate_retry_after = 0\<rparr>"

definition object_id :: "nat \<Rightarrow> string" where
  "object_id seq = digits (100000 + seq)"

section \<open>Errors and observations\<close>

definition fake_err :: "error_class \<Rightarrow> side_effect \<Rightarrow> int \<Rightarrow> string \<Rightarrow> err" where
  "fake_err c e ra m = EProv \<lparr>pe_class = c, pe_side_effect = e, pe_retry_after = ra, pe_message = m\<rparr>"

definition fake_not_found :: err where
  "fake_not_found = fake_err ErrNotFound EffectNone 0 ''not found''"

definition rate_limited :: "fake \<Rightarrow> (err option \<times> fake)" where
  "rate_limited f =
     (if fk_rate_limit_left f > 0
      then (Some (fake_err ErrRateLimited EffectNone (fk_rate_retry_after f) ''injected rate limit''),
            f\<lparr>fk_rate_limit_left := fk_rate_limit_left f - 1\<rparr>)
      else (None, f))"

definition fake_owned :: "fake \<Rightarrow> object \<Rightarrow> bool" where
  "fake_owned f x = (lab (fb_labels x) label_managed = ''true'' \<and> lab (fb_labels x) label_owner = fk_owner f)"

fun object_state_name :: "object_state \<Rightarrow> string" where
  "object_state_name ObCreating = ''creating''"
| "object_state_name ObRunning = ''running''"
| "object_state_name ObStopping = ''stopping''"
| "object_state_name ObStopped = ''stopped''"
| "object_state_name ObStarting = ''starting''"
| "object_state_name ObDeleting = ''deleting''"
| "object_state_name ObGone = ''gone''"

fun observed_state :: "object_state \<Rightarrow> observed_phase" where
  "observed_state ObCreating = PhasePending"
| "observed_state ObRunning = PhaseRunning"
| "observed_state ObStopping = PhaseRunning"
| "observed_state ObStopped = PhaseStopped"
| "observed_state ObStarting = PhasePending"
| "observed_state ObDeleting = PhaseDeleting"
| "observed_state ObGone = PhaseGone"

definition fake_observe :: "fake \<Rightarrow> object \<Rightarrow> observed_resource" where
  "fake_observe f x =
     \<lparr>ob_ref = \<lparr>ref_id = fb_id x, ref_extra = []\<rparr>, ob_kind = ''compute.machine'',
      ob_fleetplane_id = lab (fb_labels x) label_id, ob_create_op_id = lab (fb_labels x) label_op,
      ob_owned = fake_owned f x, ob_phase = observed_state (fb_state x),
      ob_provider_state = object_state_name (fb_state x),
      ob_capacity = fb_capacity x, ob_addresses = [(''public-v4'', ''127.0.0.1'')],
      ob_labels = fb_labels x,
      ob_extensions = BVal (JObj [(''fake'', JBool True), (''name'', JStr (fb_name x)),
        (''serverType'', JStr (ma_server_type (fb_spec x)))])\<rparr>"

definition object_get :: "string \<Rightarrow> fake \<Rightarrow> object option" where
  "object_get i f = (case tget fb_id i (fk_objects f) of
     None \<Rightarrow> None | Some x \<Rightarrow> (if fb_state x = ObGone then None else Some x))"

definition object_set :: "string \<Rightarrow> (object \<Rightarrow> object) \<Rightarrow> fake \<Rightarrow> fake" where
  "object_set i g f = f\<lparr>fk_objects := tupd fb_id i g (fk_objects f)\<rparr>"

section \<open>The driver\<close>

text \<open>
  \<open>Discover\<close>: one list pass lowers the visibility lag of every object by one; the chunked
  assembly of the pages is written out.
\<close>

fun pages :: "nat \<Rightarrow> nat \<Rightarrow> 'a list \<Rightarrow> 'a list" where
  "pages psize 0 xs = []"
| "pages psize (Suc n) xs = (if xs = [] then [] else take psize xs @ pages psize n (drop psize xs))"

definition fake_discover ::
    "discover_scope \<Rightarrow> labels \<Rightarrow> fake \<Rightarrow> (err + observed_resource list) \<times> fake" where
  "fake_discover scope sel f =
     (case rate_limited f of
        (Some e, f) \<Rightarrow> (Inl e, f)
      | (None, f) \<Rightarrow>
          (let f = f\<lparr>fk_objects := map (\<lambda>x. if fb_list_lag x > 0 then x\<lparr>fb_list_lag := fb_list_lag x - 1\<rparr>
                 else x) (fk_objects f)\<rparr>;
               found = map (fake_observe f) (filter (\<lambda>x. \<not> (fb_state x = ObGone \<or> fb_list_lag x > 0)
                 \<and> \<not> (scope \<noteq> ScopeAll \<and> \<not> fake_owned f x) \<and> labels_match (fb_labels x) sel)
                 (fk_objects f))
           in (Inr (if fo_page_size (fk_opt f) > 0
                    then pages (nat (fo_page_size (fk_opt f))) (length found) found else found), f)))"

definition fake_get :: "ext_ref \<Rightarrow> fake \<Rightarrow> (err + observed_resource) \<times> fake" where
  "fake_get ref f =
     (case rate_limited f of
        (Some e, f) \<Rightarrow> (Inl e, f)
      | (None, f) \<Rightarrow>
          ((case object_get (ref_id ref) f of
              None \<Rightarrow> Inl fake_not_found | Some x \<Rightarrow> Inr (fake_observe f x)), f))"

text \<open>\<open>Plan\<close> of a create.\<close>

definition fake_plan ::
    "(string \<Rightarrow> int option) \<Rightarrow> (int \<Rightarrow> string) \<Rightarrow> string \<Rightarrow> desired_state \<Rightarrow> err + action list" where
  "fake_plan pd show_d rid ds =
     (case parse_spec pd (ds_spec ds) of
        Inl e \<Rightarrow> Inl (fake_err ErrInvalid EffectNone 0 ''invalid spec'')
      | Inr spec \<Rightarrow>
          Inr [\<lparr>ac_action_id = [], ac_kind = ''create'', ac_resource_id = rid, ac_ref = None,
                ac_params = BVal (encode_params show_d
                  \<lparr>cp_name = ds_name ds, cp_spec = spec, cp_labels = ds_labels ds\<rparr>),
                ac_destructive = False\<rparr>])"

definition with_op :: "string \<Rightarrow> object \<Rightarrow> bool" where
  "with_op oid x \<longleftrightarrow> fb_state x \<noteq> ObGone \<and> lab (fb_labels x) label_op = oid"

definition new_object :: "fake \<Rightarrow> create_params \<Rightarrow> object" where
  "new_object f p =
     \<lparr>fb_id = object_id (fk_seq f + 1), fb_name = cp_name p,
      fb_state = (if fo_create_steps (fk_opt f) > 0 then ObCreating else ObRunning),
      fb_steps_left = (if fo_create_steps (fk_opt f) > 0 then fo_create_steps (fk_opt f) else 0),
      fb_list_lag = fo_list_lag_steps (fk_opt f), fb_spec = cp_spec p,
      fb_labels = AList.updates (map fst (cp_labels p)) (map snd (cp_labels p)) (ma_labels (cp_spec p)),
      fb_capacity = [(''cpu'', 2), (''memoryMiB'', 4096)]\<rparr>"

definition ref_of :: "action \<Rightarrow> string \<Rightarrow> operation_ref" where
  "ref_of act i = \<lparr>or_action_id = ac_action_id act, or_ref = Some \<lparr>ref_id = i, ref_extra = []\<rparr>,
     or_data = BNil\<rparr>"

definition apply_create ::
    "(string \<Rightarrow> int option) \<Rightarrow> action \<Rightarrow> fake \<Rightarrow> (err + operation_ref) \<times> fake" where
  "apply_create pd act f =
     (case decode_params pd (ac_params act) of
        Inl e \<Rightarrow> (Inl (fake_err ErrInvalid EffectNone 0 ''malformed create params''), f)
      | Inr p \<Rightarrow>
          (case find (with_op (ac_action_id act)) (fk_objects f) of
             Some x \<Rightarrow> (Inr (ref_of act (fb_id x)), f)
           | None \<Rightarrow>
               (let x = new_object f p in
                (Inr (ref_of act (fb_id x)),
                 f\<lparr>fk_seq := fk_seq f + 1, fk_objects := fk_objects f @ [x]\<rparr>))))"

definition to_state :: "object_state \<Rightarrow> object_state \<Rightarrow> int \<Rightarrow> object \<Rightarrow> object" where
  "to_state via final steps x =
     (if steps > 0 then x\<lparr>fb_state := via, fb_steps_left := steps\<rparr> else x\<lparr>fb_state := final\<rparr>)"

definition apply_delete :: "action \<Rightarrow> fake \<Rightarrow> (err + operation_ref) \<times> fake" where
  "apply_delete act f =
     (case ac_ref act of
        None \<Rightarrow> (Inl (fake_err ErrInvalid EffectNone 0 ''delete requires a ref''), f)
      | Some ref \<Rightarrow>
          (Inr \<lparr>or_action_id = ac_action_id act, or_ref = Some ref, or_data = BNil\<rparr>,
           (if object_get (ref_id ref) f = None then f
            else object_set (ref_id ref) (to_state ObDeleting ObGone (fo_delete_steps (fk_opt f))) f)))"

definition apply_power :: "action \<Rightarrow> fake \<Rightarrow> (err + operation_ref) \<times> fake" where
  "apply_power act f =
     (case ac_ref act of
        None \<Rightarrow> (Inl (fake_err ErrInvalid EffectNone 0 ''requires a ref''), f)
      | Some ref \<Rightarrow>
          (if \<not> fo_park (fk_opt f) then (Inl (fake_err ErrInvalid EffectNone 0 ''parking not supported''), f)
           else (case object_get (ref_id ref) f of
              None \<Rightarrow> (Inl fake_not_found, f)
            | Some x \<Rightarrow>
                (Inr \<lparr>or_action_id = ac_action_id act, or_ref = Some ref, or_data = BNil\<rparr>,
                 (if ac_kind act = ''stop'' then
                    (if fb_state x = ObStopped \<or> fb_state x = ObStopping then f
                     else object_set (ref_id ref) (to_state ObStopping ObStopped (fo_stop_steps (fk_opt f))) f)
                  else
                    (if fb_state x = ObRunning \<or> fb_state x = ObStarting then f
                     else object_set (ref_id ref) (to_state ObStarting ObRunning (fo_start_steps (fk_opt f))) f))))))"

definition apply_locked ::
    "(string \<Rightarrow> int option) \<Rightarrow> action \<Rightarrow> fake \<Rightarrow> (err + operation_ref) \<times> fake" where
  "apply_locked pd act f =
     (if ac_kind act = ''create'' then apply_create pd act f
      else if ac_kind act = ''delete'' then apply_delete act f
      else if ac_kind act = ''stop'' \<or> ac_kind act = ''start'' then apply_power act f
      else (Inl (fake_err ErrInvalid EffectNone 0 ''unknown action kind''), f))"

definition fake_apply ::
    "(string \<Rightarrow> int option) \<Rightarrow> action \<Rightarrow> fake \<Rightarrow> (err + operation_ref) \<times> fake" where
  "fake_apply pd act f =
     (case rate_limited f of
        (Some e, f) \<Rightarrow> (Inl e, f)
      | (None, f) \<Rightarrow>
          (case fk_faults f of
             fault # rest \<Rightarrow>
               (if af_kind_only fault = [] \<or> af_kind_only fault = ac_kind act then
                  (let f = f\<lparr>fk_faults := rest\<rparr> in
                   (Inl (fake_err (af_class fault) (af_effect fault) (af_retry_in fault) (af_message fault)),
                    if af_mutate fault then snd (apply_locked pd act f) else f))
                else apply_locked pd act f)
           | [] \<Rightarrow> apply_locked pd act f))"

text \<open>\<open>ObserveOperation\<close>: one observation is one step of the object.\<close>

definition step_object :: "object \<Rightarrow> object" where
  "step_object x =
     (let done = (\<lambda>final. if fb_steps_left x - 1 \<le> 0
            then x\<lparr>fb_steps_left := fb_steps_left x - 1, fb_state := final\<rparr>
            else x\<lparr>fb_steps_left := fb_steps_left x - 1\<rparr>) in
      case fb_state x of
        ObCreating \<Rightarrow> done ObRunning
      | ObDeleting \<Rightarrow> done ObGone
      | ObStopping \<Rightarrow> done ObStopped
      | ObStarting \<Rightarrow> done ObRunning
      | _ \<Rightarrow> x)"

definition in_progress :: "object_state \<Rightarrow> bool" where
  "in_progress st = (st = ObCreating \<or> st = ObDeleting \<or> st = ObStopping \<or> st = ObStarting)"

definition fake_observe_op :: "operation_ref \<Rightarrow> fake \<Rightarrow> (err + operation_status) \<times> fake" where
  "fake_observe_op oref f =
     (case rate_limited f of
        (Some e, f) \<Rightarrow> (Inl e, f)
      | (None, f) \<Rightarrow>
          (case or_ref oref of
             None \<Rightarrow> (Inr (status PsUnknown None None 0), f)
           | Some ref \<Rightarrow>
               (case object_get (ref_id ref) f of
                  None \<Rightarrow> (Inl fake_not_found, f)
                | Some x \<Rightarrow>
                    (let y = step_object x; f = object_set (ref_id ref) step_object f in
                     if in_progress (fb_state y)
                     then (Inr (status PsRunning (Some ref) None 0), f)
                     else if fb_state y = ObGone
                     then (Inr (status PsSucceeded (Some ref) None 0), f)
                     else (Inr (status PsSucceeded (Some ref) (Some (fake_observe f y)) 0), f)))))"

definition fake_parking :: "fake_options \<Rightarrow> string \<Rightarrow> park_policy" where
  "fake_parking opt kind =
     (if fo_park opt \<and> kind = ''compute.machine''
      then \<lparr>pk_supported = True, pk_start_estimate = fo_start_estimate opt\<rparr> else zero_park)"

definition fake_billing :: "fake_options \<Rightarrow> string \<Rightarrow> billing_policy" where
  "fake_billing opt kind = (case map_of (fo_billing opt) kind of None \<Rightarrow> zero_billing | Some b \<Rightarrow> b)"

section \<open>Fault injection\<close>

definition fail_next_apply :: "error_class \<Rightarrow> side_effect \<Rightarrow> nat \<Rightarrow> fake \<Rightarrow> fake" where
  "fail_next_apply c e n f = f\<lparr>fk_faults := fk_faults f @ replicate n
     \<lparr>af_class = c, af_effect = e, af_mutate = False, af_retry_in = 0, af_message = ''injected apply failure'',
      af_kind_only = []\<rparr>\<rparr>"

definition accept_but_drop_response :: "fake \<Rightarrow> fake" where
  "accept_but_drop_response f = f\<lparr>fk_faults := fk_faults f @
     [\<lparr>af_class = ErrRetryable, af_effect = EffectMaybe, af_mutate = True, af_retry_in = 0,
       af_message = ''injected: response lost after accept'', af_kind_only = ''create''\<rparr>]\<rparr>"

definition rate_limit_next :: "int \<Rightarrow> int \<Rightarrow> fake \<Rightarrow> fake" where
  "rate_limit_next n ra f = f\<lparr>fk_rate_limit_left := n, fk_rate_retry_after := ra\<rparr>"

definition set_list_lag_steps :: "int \<Rightarrow> fake \<Rightarrow> fake" where
  "set_list_lag_steps n f = f\<lparr>fk_opt := (fk_opt f)\<lparr>fo_list_lag_steps := n\<rparr>\<rparr>"

definition inject_running :: "string \<Rightarrow> labels \<Rightarrow> fake \<Rightarrow> ext_ref \<times> fake" where
  "inject_running name ls f =
     (let i = object_id (fk_seq f + 1) in
      (\<lparr>ref_id = i, ref_extra = []\<rparr>,
       f\<lparr>fk_seq := fk_seq f + 1, fk_objects := fk_objects f @
         [\<lparr>fb_id = i, fb_name = name, fb_state = ObRunning, fb_steps_left = 0, fb_list_lag = 0,
           fb_spec = zero_machine\<lparr>ma_server_type := ''cpx31'', ma_image := ''snapshot:injected''\<rparr>,
           fb_labels = ls, fb_capacity = [(''cpu'', 2), (''memoryMiB'', 4096)]\<rparr>]\<rparr>))"

definition fake_objects :: "fake \<Rightarrow> observed_resource list" where
  "fake_objects f = map (fake_observe f) (filter (\<lambda>x. fb_state x \<noteq> ObGone) (fk_objects f))"

text \<open>The answers of the driver in a state, as the kernel's driver record.\<close>

definition fake_driver :: "(string \<Rightarrow> int option) \<Rightarrow> (int \<Rightarrow> string) \<Rightarrow> fake \<Rightarrow> driver" where
  "fake_driver pd show_d f =
     \<lparr>dr_plan = fake_plan pd show_d,
      dr_apply = (\<lambda>act. fst (fake_apply pd act f)),
      dr_observe = (\<lambda>oref. fst (fake_observe_op oref f)),
      dr_get = (\<lambda>ref. fst (fake_get ref f)),
      dr_discover = (\<lambda>scope sel. fst (fake_discover scope sel f))\<rparr>"

section \<open>The contract\<close>

text \<open>The search of \<open>applyLocked\<close> for the object of an operation.\<close>

definition fake_lookup :: "action \<Rightarrow> fake \<Rightarrow> ext_ref option \<times> fake" where
  "fake_lookup act f =
     (map_option (\<lambda>x. \<lparr>ref_id = fb_id x, ref_extra = []\<rparr>) (find (with_op (ac_action_id act)) (fk_objects f)), f)"

lemma fake_refuses [simp]: "refuses (Inl (fake_err ErrInvalid EffectNone n m), f) f"
  by (simp add: refuses_def fake_err_def classify_def effect_def)

lemma fake_create_answer: "apply_create pd act f = (Inr oref, g) \<Longrightarrow> or_action_id oref = ac_action_id act"
  by (auto simp: apply_create_def ref_of_def Let_def split: sum.splits option.splits)

lemma fake_other_answer:
  "apply_delete act f = (Inr oref, g) \<Longrightarrow>
     or_action_id oref = ac_action_id act \<and> ac_ref act \<noteq> None \<and> or_ref oref = ac_ref act"
  "apply_power act f = (Inr oref, g) \<Longrightarrow>
     or_action_id oref = ac_action_id act \<and> ac_ref act \<noteq> None \<and> or_ref oref = ac_ref act"
  by (auto simp: apply_delete_def apply_power_def split: option.splits if_split_asm)

lemma fake_errors_keep:
  "apply_create pd act f = (Inl e, g) \<Longrightarrow> g = f" "apply_delete act f = (Inl e, g) \<Longrightarrow> g = f"
  "apply_power act f = (Inl e, g) \<Longrightarrow> g = f"
  by (auto simp: apply_create_def apply_delete_def apply_power_def Let_def split: sum.splits option.splits if_split_asm)

interpretation fake: truthful_driver "[''create'', ''delete'', ''stop'', ''start'']" "apply_locked pd" fake_lookup
    "\<lambda>act. is_ok (decode_params pd (ac_params act))" fk_objects True
  for pd
proof (unfold_locales, goal_cases)
  case (1 act s ref t)
  then show ?case
    by (auto simp: apply_locked_def apply_create_def fake_lookup_def ref_of_def same_ref_def is_ok_def split: sum.splits)
next
  case (2 act s)
  then show ?case by (auto simp: apply_locked_def apply_create_def is_ok_def split: sum.splits)
next
  case (3 act s)
  then show ?case by (simp add: apply_locked_def)
next
  case (4 act s oref t)
  then show ?case
    using fake_create_answer [of pd act s oref t] fake_other_answer [of act s oref t]
    by (simp add: apply_locked_def split: if_split_asm)
next
  case (5 oid)
  then show ?case by (simp add: keeps_def fake_lookup_def)
next
  case (6 act)
  then show ?case
    by (auto simp: truthful_def apply_locked_def dest: fake_errors_keep split: if_split_asm)
qed

end
