(* ===== verification/Witnesses.thy ===== *)
theory Witnesses
  imports Safety Fake_Provider
begin

text \<open>
  Concrete rows and states on which the properties of the components are instantiated: one machine
  \<open>r1\<close> with four processors in a given phase, acquisitions and operations on it, and the providers
  of the theory Scenario.
\<close>

section \<open>Rows\<close>

definition w_res :: "string \<Rightarrow> phase \<Rightarrow> resource" where
  "w_res rid ph = \<lparr>r_id = rid, r_name = rid, r_kind = ''k'', r_provider = ''p'', r_class = [], r_pool = None,
     r_ownership = Managed, r_phase = ph, r_external_id = Some ''x1'',
     r_external_ref = BVal \<lparr>ref_id = ''x1'', ref_extra = []\<rparr>,
     r_generation = 1, r_observed_generation = 1, r_spec = BNil, r_extension = BNil,
     r_capacity = BVal [(''cpu'', 4)], r_exclusive_alloc = False, r_delete_protected = False,
     r_labels = [], r_ready_at = None, r_last_lease_ended_at = None, r_drain_started_at = None,
     r_parked_at = None, r_created_at = 0, r_updated_at = 0, r_deleted_at = None\<rparr>"

definition w_op :: "op_kind \<Rightarrow> op_state \<Rightarrow> int \<Rightarrow> operation" where
  "w_op k st n = (new_op ''o1'' k ''r1'' None ''p'' ex_act 0)\<lparr>op_state := st, op_attempt := n\<rparr>"

definition w_acq :: "int \<Rightarrow> acquisition" where
  "w_acq cpus = \<lparr>a_id = ''a1'', a_actor = ''me'', a_kind = ''k'', a_class = [],
     a_constraints = BVal \<lparr>rq_exclusive = False, rq_constraints = BVal [(''cpu'', cpus)], rq_max_wait_ms = 0\<rparr>,
     a_quantity = 1, a_ttl_seconds = 60, a_state = AcqPending, a_lease = None, a_pending_resource = None,
     a_created_at = 900, a_updated_at = 900\<rparr>"

definition w_db :: "resource list \<Rightarrow> operation list \<Rightarrow> acquisition list \<Rightarrow> db" where
  "w_db rs xs as = empty_db\<lparr>resources := rs, operations := xs, acquisitions := as\<rparr>"

definition w_idle :: db where
  "w_idle = w_db [w_res ''r1'' Ready] [] [w_acq 2]"

section \<open>Storage, scheduler and leases\<close>

theorem phase_race_one_winner_witness:
  "\<exists>s1 e. cas_phase ''r1'' Ready Allocated 5 w_idle = Inr s1 \<and> cas_phase ''r1'' Ready Draining 6 s1 = Inl e"
proof -
  have "is_ok (cas_phase ''r1'' Ready Allocated 5 w_idle)" by code_simp
  then obtain s1 where "cas_phase ''r1'' Ready Allocated 5 w_idle = Inr s1" by (auto simp: is_ok_iff)
  with phase_race_one_winner [OF this, of Draining 6] show ?thesis by simp
qed

lemma w_reserve:
  obtains s' where "reserve ex_sched (w_acq 2) ''r1'' [(''cpu'', 2)] False ''l1'' w_idle = Inr s'"
proof -
  have "is_ok (reserve ex_sched (w_acq 2) ''r1'' [(''cpu'', 2)] False ''l1'' w_idle)" by code_simp
  with that show ?thesis by (auto simp: is_ok_iff)
qed

theorem reserve_within_capacity_witness:
  "\<exists>s' used. reserve ex_sched (w_acq 2) ''r1'' [(''cpu'', 2)] False ''l1'' w_idle = Inr s'
     \<and> sum_active ''r1'' s' = Inr used \<and> vget used ''cpu'' \<le> 4"
proof -
  obtain s' where s': "reserve ex_sched (w_acq 2) ''r1'' [(''cpu'', 2)] False ''l1'' w_idle = Inr s'"
    by (rule w_reserve)
  from reserve_within_capacity [OF s'] obtain res tot used where
    r: "tget r_id ''r1'' (resources w_idle) = Some res" "parse_vec (r_capacity res) = Inr tot"
    and u: "sum_active ''r1'' s' = Inr used" "\<forall>(dim, t) \<in> set tot. vget used dim \<le> t" by blast
  have "tot = [(''cpu'', 4)]" using r by (auto simp: w_idle_def w_db_def w_res_def parse_vec_def)
  with s' u show ?thesis by auto
qed

theorem reserve_effect_witness:
  "\<exists>s' r. reserve ex_sched (w_acq 2) ''r1'' [(''cpu'', 2)] False ''l1'' w_idle = Inr s'
     \<and> tget r_id ''r1'' (resources s') = Some r \<and> r_phase r = Allocated \<and> length (leases s') = 1"
proof -
  obtain s' where s': "reserve ex_sched (w_acq 2) ''r1'' [(''cpu'', 2)] False ''l1'' w_idle = Inr s'"
    by (rule w_reserve)
  have "leases w_idle = []" by (simp add: w_idle_def w_db_def empty_db_def)
  with reserve_effect [OF s'] s' show ?thesis by auto
qed

theorem satisfy_outcome_witness:
  "\<exists>b s'. satisfy ex_sched ''a1'' w_idle = (Inr b, s') \<and> tget a_id ''a1'' (acquisitions s') = Some b"
proof -
  have "is_ok (fst (satisfy ex_sched ''a1'' w_idle))" by code_simp
  then obtain b s' where s': "satisfy ex_sched ''a1'' w_idle = (Inr b, s')"
    by (cases "satisfy ex_sched ''a1'' w_idle") (auto simp: is_ok_iff)
  moreover have "tget a_id ''a1'' (acquisitions w_idle) = Some (w_acq 2)"
    by (simp add: w_idle_def w_db_def w_acq_def)
  ultimately show ?thesis using satisfy_outcome by blast
qed

definition w_two :: db where
  "w_two = w_db [w_res ''r1'' Ready, w_res ''r2'' Ready] [] [w_acq 2]"

lemma w_ranked: "map cd_id (ranked_candidates ex_sched (w_acq 2) [(''cpu'', 2)] False w_two) = [''r1'', ''r2'']"
  by code_simp

lemma w_candidate: "map_option cd_id (candidate_of ex_sched (w_acq 2) [(''cpu'', 2)] False w_two (w_res ''r2'' Ready))
    = Some ''r2''"
  by code_simp

theorem first_candidate_is_best_witness:
  "\<exists>(c :: candidate) cs d. ranked_candidates ex_sched (w_acq 2) [(''cpu'', 2)] False w_two = c # cs \<and> cd_id c = ''r1''
     \<and> cd_id d = ''r2'' \<and> candidate_key c \<le> candidate_key d"
proof -
  obtain c cs where c: "ranked_candidates ex_sched (w_acq 2) [(''cpu'', 2)] False w_two = c # cs" "cd_id c = ''r1''"
    using w_ranked by (auto simp: map_eq_Cons_conv)
  obtain d where d: "candidate_of ex_sched (w_acq 2) [(''cpu'', 2)] False w_two (w_res ''r2'' Ready) = Some d"
    "cd_id d = ''r2''"
    using w_candidate by auto
  have r: "w_res ''r2'' Ready \<in> set (resources w_two)" by (simp add: w_two_def w_db_def)
  from first_candidate_is_best [OF c(1) r _ _ _ _ _ d(1)] have "candidate_key c \<le> candidate_key d"
    by (simp add: w_res_def w_acq_def live_def)
  with c d show ?thesis by blast
qed

definition w_leased :: db where
  "w_leased = tx_or_keep w_idle (reserve ex_sched (w_acq 2) ''r1'' [(''cpu'', 2)] False ''l1'' w_idle)"

theorem release_effect_witness:
  "\<exists>s' l r'. release ''l1'' 2000 w_leased = Inr s' \<and> tget l_id ''l1'' (leases w_leased) = Some l
     \<and> tget r_id (l_resource l) (resources s') = Some r' \<and> r_last_lease_ended_at r' = Some 2000"
proof -
  have "is_ok (release ''l1'' 2000 w_leased)" by code_simp
  then obtain s' where s': "release ''l1'' 2000 w_leased = Inr s'" by (auto simp: is_ok_iff)
  from release_effect [OF s'] s' show ?thesis by blast
qed

section \<open>Operation engine\<close>

definition w_run :: "op_kind \<Rightarrow> op_state \<Rightarrow> int \<Rightarrow> phase \<Rightarrow> db" where
  "w_run k st n ph = w_db [w_res ''r1'' ph] [w_op k st n] []"

lemma w_run_simps [simp]:
  "operations (w_run k st n ph) = [w_op k st n]" "resources (w_run k st n ph) = [w_res ''r1'' ph]"
  "op_id (w_op k st n) = ''o1''" "op_kind (w_op k st n) = k" "op_state (w_op k st n) = st"
  "op_attempt (w_op k st n) = n" "op_resource (w_op k st n) = Some ''r1''"
  "r_id (w_res rid ph) = rid" "r_phase (w_res rid ph) = ph" "live (w_res rid ph)"
  "op_verify_deadline_at (w_op k st n) = None"
  by (simp_all add: w_run_def w_db_def w_op_def w_res_def new_op_def live_def)

lemma w_driver [simp]: "driver_and_action ex_engine (w_op k st n) (w_run k' st' n' ph) = Inr (ex_driver, ex_act)"
  by (simp add: driver_and_action_def w_op_def ex_engine_def ex_providers_def resource_get_def)

theorem dispatch_is_write_ahead_witness:
  "\<exists>t z. tget op_id ''o1'' (operations t) = Some z \<and> op_state z = OpInFlight \<and> op_attempt z = 1
     \<and> dispatch ex_engine (w_op OpKindCreate OpJournaled 0) (w_run OpKindCreate OpJournaled 0 Provisioning)
       = run_tx t (accept_tx ex_engine (w_op OpKindCreate OpJournaled 0)
           \<lparr>or_action_id = ac_action_id ex_act, or_ref = Some ex_ref, or_data = BNil\<rparr> t)"
proof -
  let ?x = "w_op OpKindCreate OpJournaled 0" and ?s = "w_run OpKindCreate OpJournaled 0 Provisioning"
  have "driver_and_action ex_engine ?x ?s = Inr (ex_driver, ex_act)" by simp
  from dispatch_is_write_ahead [OF this, of ?x] show ?thesis
    by (auto simp: is_park_op_def ex_driver_def)
qed

theorem ambiguous_apply_is_verified_witness:
  "\<exists>s' z. handle_apply_error ex_engine (w_op OpKindCreate OpInFlight 1) (EOther ''timeout'')
       (w_run OpKindCreate OpInFlight 1 Provisioning) = (None, s')
     \<and> tget op_id ''o1'' (operations s') = Some z \<and> op_state z = OpVerifying"
proof -
  let ?x = "w_op OpKindCreate OpInFlight 1" and ?s = "w_run OpKindCreate OpInFlight 1 Provisioning"
  have "effect (EOther ''timeout'') \<noteq> EffectNone" by (simp add: effect_def)
  moreover have "\<exists>s' z. handle_apply_error ex_engine ?x (EOther ''timeout'') ?s = (None, s')
    \<and> tget op_id (op_id ?x) (operations s') = Some z
    \<and> resources s' = resources ?s \<and> op_error_class z = Some (classify (EOther ''timeout''))
    \<and> (effect (EOther ''timeout'') = EffectNone \<longrightarrow> op_state z = OpJournaled \<and> op_next_attempt_at z =
         Some (ee_now ex_engine + milliseconds (backoff ex_engine (op_attempt ?x) (Some (EOther ''timeout'')))))
    \<and> (effect (EOther ''timeout'') \<noteq> EffectNone \<longrightarrow>
         op_state z = OpVerifying \<and> op_next_attempt_at z = Some (ee_now ex_engine + 2000))"
    by (rule ambiguous_apply_is_verified [of _ _ ?x]) (simp_all add: classify_def)
  ultimately show ?thesis by auto
qed

theorem create_redispatch_needs_proof_witness:
  "\<exists>s' z. verify ex_engine (w_op OpKindCreate OpVerifying 1) (w_run OpKindCreate OpVerifying 1 Provisioning) = (None, s')
     \<and> tget op_id ''o1'' (operations s') = Some z \<and> op_state z = OpExternalAccepted
     \<and> op_external_ref z = BVal \<lparr>ref_id = ''x1'', ref_extra = []\<rparr>"
proof -
  let ?x = "w_op OpKindCreate OpVerifying 1" and ?s = "w_run OpKindCreate OpVerifying 1 Provisioning"
  have "fst (verify ex_engine ?x ?s) = None" by code_simp
  then obtain s' where v: "verify ex_engine ?x ?s = (None, s')" by (cases "verify ex_engine ?x ?s") auto
  have "map (\<lambda>x. (op_id x, op_state x)) (operations (snd (verify ex_engine ?x ?s))) = [(''o1'', OpExternalAccepted)]"
    by code_simp
  then obtain z where z: "operations s' = [z]" "op_id z = ''o1''" "op_state z = OpExternalAccepted"
    by (auto simp: v map_eq_Cons_conv)
  have "dr_discover ex_driver ScopeOwned [(label_op, op_id ?x)] = Inr [ex_obs ''x1'']"
    by (simp add: ex_driver_def)
  with create_redispatch_needs_proof [of ?x ex_engine ?s ex_driver ex_act ?x None s' z] v z show ?thesis
    by (auto simp: ex_obs_def)
qed

theorem park_op_gives_up_witness:
  "\<exists>t z. dispatch ex_engine (w_op OpKindStop OpJournaled 8) (w_run OpKindStop OpJournaled 8 Parking)
       = (None, ee_on_terminal ex_engine z t) \<and> op_state z = OpFailed \<and> phase_is t ''r1'' Ready"
proof -
  let ?x = "w_op OpKindStop OpJournaled 8" and ?s = "w_run OpKindStop OpJournaled 8 Parking"
  have "driver_and_action ex_engine ?x ?s = Inr (ex_driver, ex_act)" by simp
  from park_op_gives_up [OF this, of "''r1''"] show ?thesis
    by (auto simp: is_park_op_def phase_is_def)
qed

definition w_gone :: err where
  "w_gone = EProv \<lparr>pe_class = ErrNotFound, pe_side_effect = EffectNone, pe_retry_after = 0, pe_message = []\<rparr>"

theorem not_found_completes_delete_witness:
  "\<exists>t z. handle_apply_error ex_engine (w_op OpKindDelete OpInFlight 1) w_gone (w_run OpKindDelete OpInFlight 1 Deleting)
       = (None, ee_on_terminal ex_engine z t) \<and> op_state z = OpSucceeded"
proof -
  let ?x = "w_op OpKindDelete OpInFlight 1" and ?s = "w_run OpKindDelete OpInFlight 1 Deleting"
  have "classify w_gone = ErrNotFound" by (simp add: w_gone_def classify_def)
  from not_found_completes_delete [OF this, of ?x ?s ?x "''r1''" Deleting ex_engine] show ?thesis
    by (auto simp: phase_is_def)
qed

theorem backoff_bounds_witness:
  "10 * ms \<le> backoff ex_engine 3 None \<and> 2 * backoff ex_engine 3 None \<le> 900 * sec"
proof -
  have "10 * ms \<le> backoff ex_engine 3 None \<and> 2 * backoff ex_engine 3 None
      \<le> max (2 * (10 * ms)) (max (3 * ec_backoff_cap (ee_cfg ex_engine)) 0)"
    using backoff_bounds [of ex_engine 3 None] by (simp add: ex_engine_def sec_def)
  then show ?thesis by (simp add: ex_engine_def sec_def ms_def)
qed

section \<open>Pool reconciler\<close>

definition w_pool_row :: pool where
  "w_pool_row = \<lparr>p_id = ''q'', p_name = ''q'', p_kind = ''k'',
     p_spec = BVal \<lparr>ps_class = [], ps_replicas = 0, ps_min_ready = 1, ps_min_running = 0, ps_max_resources = 3,
       ps_reclaim = None, ps_machine = Some BNil, ps_provider = ''p'', ps_kind = ''k''\<rparr>,
     p_generation = 1, p_observed_generation = 0, p_paused = False, p_created_at = 0, p_updated_at = 0\<rparr>"

definition w_pool_db :: db where
  "w_pool_db = (w_db [(w_res ''r1'' Ready)\<lparr>r_pool := Some ''q''\<rparr>, (w_res ''r2'' Ready)\<lparr>r_pool := Some ''q''\<rparr>] [] [])
     \<lparr>pools := [w_pool_row]\<rparr>"

lemma w_drains: "(case fst (run_once ex_rec ''q'' w_pool_db) of Inl _ \<Rightarrow> False | Inr d \<Rightarrow> d_drained d = 1 \<and> d_parked_now d = 0)"
  by code_simp

theorem run_once_bounds_witness:
  "\<exists>(d :: delta) s'. run_once ex_rec ''q'' w_pool_db = (Inr d, s') \<and> 1 \<le> d_ready d - d_drained d
     \<and> spent d \<le> 5 \<and> d_created d \<le> 1"
proof -
  obtain d :: delta and s' where r: "run_once ex_rec ''q'' w_pool_db = (Inr d, s')"
    and d: "d_drained d = 1" "d_parked_now d = 0"
    using w_drains by (cases "run_once ex_rec ''q'' w_pool_db") (auto split: sum.splits)
  have 1: "0 \<le> rc_max_mutations (re_cfg ex_rec)" and m: "rc_max_mutations (re_cfg ex_rec) = 5"
    by (simp_all add: ex_rec_def)
  have 2: "tget p_id ''q'' (pools w_pool_db) = Some w_pool_row" by (simp add: w_pool_db_def w_pool_row_def)
  obtain spec where spec: "p_spec w_pool_row = BVal spec" "ps_min_ready spec = 1" "ps_max_resources spec = 3"
    by (simp add: w_pool_row_def)
  have len: "length (resource_list (no_filter\<lparr>f_pool := Some ''q''\<rparr>) w_pool_db) = 2" by code_simp
  note b = run_once_bounds [OF r 1 2, unfolded m len]
  from b have "spent d \<le> 5" by linarith
  moreover have "1 \<le> d_ready d - d_drained d" using b spec d by force
  moreover have "d_created d \<le> 1" using b spec by force
  ultimately show ?thesis using r by blast
qed

theorem reclaim_spares_witness:
  "\<exists>r. tget r_id ''r1'' (resources (w_db [w_res ''r1'' Failed] [] [])) = Some r \<and> r_ownership r = Managed"
proof -
  have "is_ok (journal_delete ''r1'' 7 ''o9'' (w_db [w_res ''r1'' Failed] [] []))" by code_simp
  then obtain s' where "journal_delete ''r1'' 7 ''o9'' (w_db [w_res ''r1'' Failed] [] []) = Inr s'"
    by (auto simp: is_ok_iff)
  with reclaim_spares [of "''r1''" 7 "''o9''" "w_db [w_res ''r1'' Failed] [] []" s' Ready] show ?thesis by blast
qed


end
