(* ===== verification/Guarantees.thy ===== *)
theory Guarantees
  imports Witnesses
begin

text \<open>
  What the commands and loops guarantee beyond the invariants: restart, the lease sweep, replayed
  requests, orphans; and behaviour that differs from what the code means to do.
\<close>

section \<open>Restart\<close>

text \<open>
  C11. After a restart no operation is left in flight: \<open>Resume\<close> succeeds in every reachable state and
  sends exactly the operations whose call may have been cut off to verification, at once; every other
  operation stays as it is.
\<close>

theorem resume_routes_in_flight:
  assumes "reachable s"
  shows "\<exists>t. resume wall s = (None, t) \<and> operations t =
    map (\<lambda>x. if op_state x = OpInFlight
       then x\<lparr>op_state := OpVerifying, op_next_attempt_at := None, op_updated_at := wall\<rparr> else x) (operations s)"
proof -
  have d: "distinct (map op_id (operations s))" using coreD(2) [OF kinvD(1) [OF reachable_kinv [OF assms]]] .
  have is_o: "x \<in> set (ops_non_terminal s) \<longleftrightarrow> x \<in> set (operations s) \<and> is_open x" for x
    by (simp add: ops_non_terminal_def)
  have "distinct (map op_id (filter is_open (operations s)))" using d by (rule distinct_map_filter)
  moreover have "mset (map op_id (ops_non_terminal s)) = mset (map op_id (filter is_open (operations s)))"
    by (simp add: ops_non_terminal_def)
  ultimately have "distinct (map op_id (ops_non_terminal s))" by (metis mset_eq_imp_distinct_iff)
  then obtain t where t: "resume wall s = (None, t)" "operations t = map (\<lambda>y. if y \<in> set (ops_non_terminal s)
      \<and> op_state y = OpInFlight then after_move y OpVerifying (\<lambda>y. y\<lparr>op_next_attempt_at := None\<rparr>) wall else y) (operations s)"
    unfolding resume_def using resume_ops_ok [OF d] is_o by blast
  have "operations t = map (\<lambda>x. if op_state x = OpInFlight
      then x\<lparr>op_state := OpVerifying, op_next_attempt_at := None, op_updated_at := wall\<rparr> else x) (operations s)"
    unfolding t(2)
  proof (rule map_cong [OF refl])
    fix x
    assume x: "x \<in> set (operations s)"
    have "after_move x OpVerifying (\<lambda>y. y\<lparr>op_next_attempt_at := None\<rparr>) wall
        = x\<lparr>op_state := OpVerifying, op_next_attempt_at := None, op_updated_at := wall\<rparr>"
      by (cases x) (simp add: after_move_def op_columns_def op_written_def)
    then show "(if x \<in> set (ops_non_terminal s) \<and> op_state x = OpInFlight
        then after_move x OpVerifying (\<lambda>y. y\<lparr>op_next_attempt_at := None\<rparr>) wall else x)
      = (if op_state x = OpInFlight
        then x\<lparr>op_state := OpVerifying, op_next_attempt_at := None, op_updated_at := wall\<rparr> else x)"
      using x coreD(4) [OF kinvD(1) [OF reachable_kinv [OF assms]] x] by (auto simp: is_o is_open_def stamped_def)
  qed
  with t(1) show ?thesis by blast
qed

theorem resume_routes_in_flight_witness:
  "\<exists>t. resume 9 ex_s3 = (None, t) \<and> map op_state (operations t) = [OpJournaled]"
proof -
  have "map op_state (operations ex_s3) = [OpJournaled]" by code_simp
  then obtain x where x: "operations ex_s3 = [x]" "op_state x = OpJournaled" by (auto simp: map_eq_Cons_conv)
  have "reachable ex_s3" by (rule reachable_steps [OF ex_steps13 ex_reach1])
  from resume_routes_in_flight [OF this, of 9] x show ?thesis by auto
qed

section \<open>The lease sweep\<close>

definition overdue :: "int \<Rightarrow> lease \<Rightarrow> bool" where
  "overdue now l \<longleftrightarrow> l_state l = LeaseActive \<and> (case l_expires_at l of None \<Rightarrow> False | Some e \<Rightarrow> e \<le> now)"

lemma leases_expiring_overdue:
  "leases_expiring now n s = take n (sort_key (\<lambda>l. case l_expires_at l of None \<Rightarrow> 0 | Some e \<Rightarrow> e)
     (filter (overdue now) (leases s)))"
  by (simp add: leases_expiring_def overdue_def [abs_def])

lemma distinct_map_take: "distinct (map f xs) \<Longrightarrow> distinct (map f (take n xs))"
  by (metis distinct_take take_map)

lemma filter_map_expired:
  assumes "distinct (map l_id ls)" and "set es \<subseteq> set ls" and "distinct es" and "\<forall>l \<in> set es. overdue now l"
  shows "length (filter (overdue now) (map (\<lambda>l. if l_id l \<in> l_id ` set es then lease_columns LeaseExpired now l else l) ls))
    = length (filter (overdue now) ls) - length es"
proof -
  let ?f = "\<lambda>l. if l_id l \<in> l_id ` set es then lease_columns LeaseExpired now l else l"
  have hit: "l_id l \<in> l_id ` set es \<longleftrightarrow> l \<in> set es" if "l \<in> set ls" for l
    using that assms(1,2) by (auto dest: distinct_key_eqD)
  have f: "overdue now (?f l) \<longleftrightarrow> overdue now l \<and> l \<notin> set es" if "l \<in> set ls" for l
    using hit [OF that] assms(4) by (auto simp: overdue_def lease_columns_def)
  have dl: "distinct ls" using assms(1) by (simp add: distinct_map)
  have "filter (\<lambda>l. overdue now (?f l)) ls = filter (\<lambda>l. overdue now l \<and> l \<notin> set es) ls"
    by (rule filter_cong) (simp_all add: f)
  then have "length (filter (overdue now) (map ?f ls)) = length (filter (\<lambda>l. overdue now l \<and> l \<notin> set es) ls)"
    by (simp add: filter_map comp_def)
  also have "\<dots> = card {l \<in> set ls. overdue now l \<and> l \<notin> set es}"
    using distinct_card [of "filter (\<lambda>l. overdue now l \<and> l \<notin> set es) ls"] dl by simp
  also have "{l \<in> set ls. overdue now l \<and> l \<notin> set es} = set (filter (overdue now) ls) - set es" by auto
  also have "card \<dots> = card (set (filter (overdue now) ls)) - card (set es)"
    using assms(2,4) by (intro card_Diff_subset) auto
  finally show ?thesis
    using dl assms(3) distinct_card [of "filter (overdue now) ls"] by (simp add: distinct_card)
qed

text \<open>
  C25. Each lease sweep ends as many overdue leases as its batch allows, all of them when there are at
  most a hundred; it never fails on one, and what it leaves is exactly the rest.
\<close>

theorem sweep_ends_overdue_leases:
  assumes "reachable s" and "sweep_expired now s = (n, t)"
  shows "n = min 100 (length (filter (overdue now) (leases s)))
    \<and> length (filter (overdue now) (leases t)) = length (filter (overdue now) (leases s)) - n"
proof -
  let ?es = "leases_expiring now 100 s"
  have k: "kinv s" by (rule reachable_kinv [OF assms(1)])
  have d: "distinct (map l_id (leases s))" by (rule coreD(3) [OF kinvD(1) [OF k]])
  have sub: "l \<in> set ?es \<Longrightarrow> l \<in> set (leases s) \<and> overdue now l" for l
    by (auto simp: leases_expiring_overdue dest: in_set_takeD)
  have "mset (map l_id (sort_key g (filter (overdue now) (leases s)))) = mset (map l_id (filter (overdue now) (leases s)))"
    for g :: "lease \<Rightarrow> int" by simp
  then have "distinct (map l_id (sort_key g (filter (overdue now) (leases s))))" for g :: "lease \<Rightarrow> int"
    using distinct_map_filter [OF d] by (metis mset_eq_imp_distinct_iff)
  then have de: "distinct (map l_id ?es)" unfolding leases_expiring_overdue by (rule distinct_map_take)
  have rows: "tget l_id (l_id l) (leases s) = Some l \<and> l_state l = LeaseActive" if "l \<in> set ?es" for l
    using sub [OF that] tget_of_mem [OF d] by (simp add: overdue_def)
  have len: "length ?es = min 100 (length (filter (overdue now) (leases s)))"
    by (simp add: leases_expiring_overdue)
  from expire_fold [OF k de rows, of now 0] assms(2) have
    n: "n = length ?es" and t: "leases t =
      map (\<lambda>l. if l_id l \<in> l_id ` set ?es then lease_columns LeaseExpired now l else l) (leases s)"
    by (simp_all add: sweep_expired_def)
  have "length (filter (overdue now) (leases t)) = length (filter (overdue now) (leases s)) - length ?es"
    unfolding t using filter_map_expired [OF d, of ?es now] sub de by (simp add: distinct_map subset_iff)
  with n len show ?thesis by simp
qed

theorem sweep_ends_overdue_leases_witness:
  "\<exists>t. sweep_expired 1000000000 ex_s2 = (1, t) \<and> length (filter (overdue 1000000000) (leases t)) = 0"
proof -
  have "length (filter (overdue 1000000000) (leases ex_s2)) = 1" by code_simp
  moreover obtain n t where "sweep_expired 1000000000 ex_s2 = (n, t)" by fastforce
  ultimately show ?thesis using sweep_ends_overdue_leases [OF ex_reach2] by fastforce
qed

section \<open>Replayed requests\<close>

lemma keyed_first_run:
  assumes "ia_key ia \<noteq> []" and "\<And>u r u'. body u = Inr (r, u') \<Longrightarrow> idem u' = idem u"
    and "keyed_tx ia oid rep now wall body s = Inr (out, t)"
  shows "\<exists>rec. tget idem_key (ia_scope ia, ia_key ia) (idem t) = Some rec \<and> i_request_hash rec = ia_hash ia
    \<and> i_state rec \<noteq> IdemInProgress \<and> i_http_status rec = oc_status out \<and> i_result rec = oc_body out"
proof (cases "tget idem_key (ia_scope ia, ia_key ia) (idem s)")
  case None
  let ?k = "(ia_scope ia, ia_key ia)"
  define row where "row = \<lparr>i_scope = ia_scope ia, i_key = ia_key ia, i_request_hash = ia_hash ia,
      i_state = IdemInProgress, i_operation = (if oid = [] then None else Some oid), i_http_status = 0, i_result = [],
      i_created_at = wall, i_completed_at = None, i_expires_at = None\<rparr>"
  from assms(1,3) None obtain st b s2 where run: "body (s\<lparr>idem := idem s @ [row]\<rparr>) = Inr ((st, b), s2)"
      "idem_complete (ia_scope ia) (ia_key ia) st b (now + milliseconds idem_retention) wall s2 = Inr t"
      "out = \<lparr>oc_status = st, oc_body = b, oc_replayed = False\<rparr>"
    by (auto simp: keyed_tx_def bindE_Inr_iff idem_begin_def Let_def row_def)
  have key: "idem_key row = ?k" by (simp add: row_def idem_key_def)
  have "idem s2 = idem s @ [row]" using assms(2) [OF run(1)] by simp
  then have "tget idem_key ?k (idem s2) = Some row" using None key by (simp add: tget_append)
  with run(2,3) show ?thesis
    by (auto simp: idem_complete_def idem_finish_def tget_tupd keeps_key_def idem_key_def row_def split: if_splits)
next
  case (Some rec)
  with assms(1,3) show ?thesis by (auto simp: keyed_tx_def idem_begin_def split: if_splits)
qed

lemma idem_frames:
  "cas_phase rid p q now s = Inr t \<Longrightarrow> idem t = idem s" "mark_deleted rid now s = Inr t \<Longrightarrow> idem t = idem s"
  "op_append x s = Inr t \<Longrightarrow> idem t = idem s" "event_append e s = Inr t \<Longrightarrow> idem t = idem s"
  by (auto simp: cas_phase_def mark_deleted_def exec_one_def op_append_def event_append_def
      split: option.splits if_split_asm)

lemma delete_body_frame: "delete_body env cmd oid build s = Inr (r, t) \<Longrightarrow> idem t = idem s"
  unfolding delete_body_def
  by (auto simp: bindE_Inr_iff idem_frames split: option.splits if_split_asm dest!: idem_frames)

text \<open>
  C26. An idempotency key makes a delete request run once. Whatever happens between the two requests, as
  long as the record of the key is kept: the same request returns the stored status and body, marked
  as replayed, and changes nothing; another request under the key is refused and changes nothing.
\<close>

theorem replayed_delete_runs_once:
  assumes "\<not> dm_dry_run cmd" and "ia_key (dm_idem cmd) \<noteq> []"
    and "delete_resource env cmd oid build s = Inr (out, t)"
    and "tget idem_key (ia_scope (dm_idem cmd), ia_key (dm_idem cmd)) (idem u)
       = tget idem_key (ia_scope (dm_idem cmd), ia_key (dm_idem cmd)) (idem t)"
    and "\<not> dm_dry_run cmd'" and "ia_scope (dm_idem cmd') = ia_scope (dm_idem cmd)"
    and "ia_key (dm_idem cmd') = ia_key (dm_idem cmd)"
  shows "delete_resource env' cmd' oid' build' u =
    (if ia_hash (dm_idem cmd') = ia_hash (dm_idem cmd) then Inr (out\<lparr>oc_replayed := True\<rparr>, u) else Inl EIdemMismatch)"
proof -
  from assms(1,3) have "keyed_tx (dm_idem cmd) oid report_op (ap_now env) (ap_wall env) (delete_body env cmd oid build) s
      = Inr (out, t)" by (simp add: delete_resource_def)
  from keyed_first_run [OF assms(2) _ this] delete_body_frame obtain rec where
    rec: "tget idem_key (ia_scope (dm_idem cmd), ia_key (dm_idem cmd)) (idem u) = Some rec"
      "i_request_hash rec = ia_hash (dm_idem cmd)" "i_state rec \<noteq> IdemInProgress"
      "i_http_status rec = oc_status out" "i_result rec = oc_body out"
    unfolding assms(4) by metis
  have "out\<lparr>oc_replayed := True\<rparr> = \<lparr>oc_status = oc_status out, oc_body = oc_body out, oc_replayed = True\<rparr>"
    by (cases out) simp
  then show ?thesis
    using assms(2,5-7) rec by (auto simp: delete_resource_def keyed_tx_def idem_begin_def)
qed

definition ex_delete :: "string \<Rightarrow> delete_cmd" where
  "ex_delete h = \<lparr>dm_id = ''r1'', dm_actor = ''me'', dm_dry_run = False,
     dm_idem = \<lparr>ia_scope = ''DELETE'', ia_key = ''k1'', ia_hash = h\<rparr>\<rparr>"

theorem replayed_delete_runs_once_witness:
  "\<exists>out t. delete_resource ex_app (ex_delete ''h'') ''d1'' (\<lambda>r. (202, r_id r)) w_idle = Inr (out, t)
    \<and> delete_resource ex_app (ex_delete ''h'') ''d2'' (\<lambda>r. (200, [])) t = Inr (out\<lparr>oc_replayed := True\<rparr>, t)
    \<and> delete_resource ex_app (ex_delete ''g'') ''d3'' (\<lambda>r. (200, [])) t = Inl EIdemMismatch"
proof -
  have "is_ok (delete_resource ex_app (ex_delete ''h'') ''d1'' (\<lambda>r. (202, r_id r)) w_idle)" by code_simp
  then obtain out t where o: "delete_resource ex_app (ex_delete ''h'') ''d1'' (\<lambda>r. (202, r_id r)) w_idle = Inr (out, t)"
    by (auto simp: is_ok_iff)
  have x: "\<not> dm_dry_run (ex_delete h)" "ia_key (dm_idem (ex_delete h)) = ''k1''"
    "ia_scope (dm_idem (ex_delete h)) = ''DELETE''" "ia_hash (dm_idem (ex_delete h)) = h" for h
    by (simp_all add: ex_delete_def)
  have "ia_key (dm_idem (ex_delete ''h'')) \<noteq> []" by (simp add: x)
  from replayed_delete_runs_once [OF x(1) this o refl x(1)]
  have "delete_resource ex_app (ex_delete g) d (\<lambda>r. (200, [])) t
      = (if g = ''h'' then Inr (out\<lparr>oc_replayed := True\<rparr>, t) else Inl EIdemMismatch)" for g d
    by (simp add: x)
  with o show ?thesis by simp
qed

section \<open>Orphans\<close>


definition ex_lost :: driver where
  "ex_lost = ex_driver\<lparr>dr_get := (\<lambda>_. Inl w_gone)\<rparr>"


section \<open>Where the code does not do what it means to\<close>

text \<open>
  C39. Deleting a resource whose machine does not exist yet buries the record at once, also while its
  create operation is open. From then on that create can never complete: in every later state the
  success of any create of the resource is rolled back, and the operation stays open.
\<close>

theorem buried_create_never_completes:
  assumes "reachable s" and "tget r_id (dm_id cmd) (resources s) = Some r" and "r_external_id r = None"
    and "delete_resource env cmd oid build s = Inr (out, t)" and "\<not> dm_dry_run cmd" and "ia_key (dm_idem cmd) = []"
    and "tx_steps t u" and "op_resource x = Some (dm_id cmd)"
  shows "\<exists>e. succeed_create eenv x st u = (Some e, u)"
proof -
  let ?rid = "dm_id cmd"
  from assms(4-6) have b: "delete_body env cmd oid build s = Inr ((oc_status out, oc_body out), t)"
    by (auto simp: delete_resource_def keyed_tx_def bindE_Inr_iff)
  then have md: "mark_deleted ?rid (ap_now env) s = Inr t"
    using assms(2,3) by (auto simp: delete_body_def bindE_Inr_iff resource_get_def split: option.splits if_split_asm)
  then have row: "tget r_id ?rid (resources t) \<noteq> None" "\<forall>r'. tget r_id ?rid (resources t) = Some r' \<longrightarrow> \<not> live r'"
    by (auto simp: mark_deleted_Inr tget_tupd keeps_key_def live_def)
  have "kadv s t" by (rule kadv_delete_body [OF reachable_kinv [OF assms(1)] b])
  then have "evolves t u" using tx_steps_evolves [OF assms(7)] kadv_kinv by blast
  then obtain r' where r': "tget r_id ?rid (resources u) = Some r'" "\<not> live r'"
    using row unfolding evolves_def rows_evolve_def resource_evolves_def by blast
  have dead: "cas_phase ?rid Provisioning Ready now v = Inl EConflict"
    if "map_option live (tget r_id ?rid (resources v)) = Some False" for v now
    using that by (auto simp: cas_phase_def)
  have facts: "\<exists>e. create_done eenv st ?rid v = Inl e" if v: "tget r_id ?rid (resources v) = Some r'" for v
  proof (cases "observe_tx ?rid (ee_now eenv) True (st_resource st) v")
    case (Inr w)
    then have "map_option live (tget r_id ?rid (resources w)) = Some False"
      using v r'(2)
      by (auto simp: observe_tx_def set_provider_facts_def exec_one_def put_observed_def tx_or_keep_def tget_tupd
          keeps_key_def live_def Let_def split: option.splits if_split_asm)
    then show ?thesis using dead Inr by (auto simp: create_done_def)
  qed (simp add: create_done_def)
  have "\<exists>e. succeed_tx eenv x (op_state x) (create_done eenv st) u = Inl e"
  proof (cases "op_transition (op_id x) (op_state x) OpSucceeded (\<lambda>y. y) (ee_wall eenv) u")
    case (Inr v)
    then have "tget r_id ?rid (resources v) = Some r'" using r'(1) by (auto simp: op_transition_Inr)
    with facts obtain e where "create_done eenv st ?rid v = Inl e" by blast
    with Inr assms(8) show ?thesis by (auto simp: succeed_tx_def)
  qed (simp add: succeed_tx_def)
  then show ?thesis by (auto simp: succeed_create_def commit_terminal_def)
qed

definition ex_prepared :: prepared where
  "ex_prepared = \<lparr>pr_resource = (w_res ''r1'' Provisioning)\<lparr>r_external_id := None, r_external_ref := BNil\<rparr>,
     pr_op = w_op OpKindCreate OpJournaled 0\<rparr>"

definition ex_new :: db where
  "ex_new = tx_or_keep empty_db (journal ex_prepared ''me'' [] empty_db)"

definition ex_bury :: delete_cmd where
  "ex_bury = \<lparr>dm_id = ''r1'', dm_actor = ''me'', dm_dry_run = False, dm_idem = \<lparr>ia_scope = [], ia_key = [], ia_hash = []\<rparr>\<rparr>"

theorem buried_create_never_completes_witness:
  "\<exists>out t e. delete_resource ex_app ex_bury ''d1'' (\<lambda>r. (202, r_id r)) ex_new = Inr (out, t)
    \<and> succeed_create ex_engine (w_op OpKindCreate OpExternalAccepted 1) (status PsSucceeded None None 0) t = (Some e, t)"
proof -
  have "create_ready ex_prepared"
    by (simp add: create_ready_def ex_prepared_def w_res_def w_op_def new_op_def live_def)
  then have "tx_steps empty_db ex_new" unfolding ex_new_def by (rule steps_keep [OF s_pool_create])
  then have reach: "reachable ex_new" using reachable_steps reach_init by blast
  have "map (\<lambda>r. (r_id r, r_external_id r)) (resources ex_new) = [(''r1'', None)]" by code_simp
  then obtain r where r: "tget r_id ''r1'' (resources ex_new) = Some r" "r_external_id r = None"
    by (auto simp: map_eq_Cons_conv)
  have "is_ok (delete_resource ex_app ex_bury ''d1'' (\<lambda>r. (202, r_id r)) ex_new)" by code_simp
  then obtain out t where o: "delete_resource ex_app ex_bury ''d1'' (\<lambda>r. (202, r_id r)) ex_new = Inr (out, t)"
    by (auto simp: is_ok_iff)
  have x: "dm_id ex_bury = ''r1''" "\<not> dm_dry_run ex_bury" "ia_key (dm_idem ex_bury) = []" by (simp_all add: ex_bury_def)
  have "op_resource (w_op OpKindCreate OpExternalAccepted 1) = Some (dm_id ex_bury)" by (simp add: x(1))
  from buried_create_never_completes [OF reach _ r(2) o x(2,3) rtranclp.rtrancl_refl this] r(1) x(1) o
  show ?thesis by auto
qed

text \<open>
  The history of an operation never informs an estimate: its query names a column the journal does
  not have, so every query fails, and start, provisioning and deletion times are always the defaults.
\<close>

theorem history_never_informs:
  fixes s :: db
  shows "start_estimate env prov kind s
     = (if pk_start_estimate (pv_parking (se_providers env) prov kind) > 0
        then pk_start_estimate (pv_parking (se_providers env) prov kind) else 60 * sec)
   \<and> provisioning_estimate prov s = 90 * sec \<and> observed_deletes prov s = []"
proof -
  have "recent_terminal p k n s = Inl (EOther ''no such column'')" for p k n
    unfolding recent_terminal_def by code_simp
  then show ?thesis
    by (simp add: start_estimate_def provisioning_estimate_def observed_deletes_def Let_def)
qed

end
