(* ===== verification/Hetzner.thy ===== *)
theory Hetzner
  imports Driver_Kit
begin

text \<open>
  The Hetzner Cloud driver (providers/hetzner/hetzner.go). The cloud behind the hcloud library is an
  argument: a record of its calls on a cloud state of any type. The library pages its listings
  itself; its error codes and statuses are the constructors below.
\<close>

section \<open>The library's types\<close>

datatype hz_code =
  HzNotFound | HzRateLimitExceeded | HzConflict | HzLocked | HzUniqueness | HzResourceLimitExceeded
| HzInvalidInput | HzUnauthorized | HzForbidden | HzOtherCode string

datatype hz_error = HzApiError hz_code | HzTransport

datatype hz_status =
  HzInitializing | HzStarting | HzMigrating | HzRebuilding | HzRunning | HzOff | HzStopping | HzDeleting
| HzOtherStatus string

text \<open>An address is \<open>None\<close> where the library has no or an unspecified one.\<close>

record hz_server =
  hs_id :: int
  hs_status :: hz_status
  hs_status_text :: string
  hs_labels :: labels
  hs_v4 :: "string option"
  hs_v6 :: "string option"
  hs_private :: "string option list"
  hs_type :: "(int \<times> rat) option"
  hs_native :: json

record hz_type =
  ht_name :: string
  ht_arch :: string

record hz_image =
  hi_id :: int
  hi_created :: int

record hz_create_opts =
  ho_name :: string
  ho_type :: hz_type
  ho_image :: hz_image
  ho_user_data :: string
  ho_labels :: labels
  ho_location :: "string option"

record hz_created =
  hc_server :: int
  hc_action :: "int option"
  hc_next :: "int list"

datatype hz_action_status = HzActionRunning | HzActionSuccess | HzActionError

record 'w hz_api =
  hz_locations :: "('w, hz_error, unit) api"
  hz_servers :: "string \<Rightarrow> 'w \<Rightarrow> (hz_error + hz_server list) \<times> 'w"
  hz_server_by_id :: "int \<Rightarrow> ('w, hz_error, hz_server option) api"
  hz_create :: "hz_create_opts \<Rightarrow> ('w, hz_error, hz_created) api"
  hz_delete :: "int \<Rightarrow> ('w, hz_error, int option) api"
  hz_action_by_id :: "int \<Rightarrow> ('w, hz_error, (hz_action_status \<times> string) option) api"
  hz_type_by_name :: "string \<Rightarrow> ('w, hz_error, hz_type option) api"
  hz_image_by_id :: "int \<Rightarrow> ('w, hz_error, hz_image option) api"
  hz_images_named :: "string \<Rightarrow> string \<Rightarrow> 'w \<Rightarrow> (hz_error + hz_image list) \<times> 'w"
  hz_snapshots :: "string \<Rightarrow> 'w \<Rightarrow> (hz_error + hz_image list) \<times> 'w"

text \<open>The driver's fields: its cloud, the owner, the default location, and the clock.\<close>

record 'w hetzner =
  hz_api :: "'w hz_api"
  hz_owner :: string
  hz_location :: string
  hz_now :: int

section \<open>Mapping\<close>

definition hz_map_err :: "int \<Rightarrow> hz_error folder" where
  "hz_map_err now e eff p =
     (case e of
        HzApiError c \<Rightarrow>
          (case c of
             HzNotFound \<Rightarrow> (perr ErrNotFound EffectNone [], p)
           | HzRateLimitExceeded \<Rightarrow>
               (let (d, p') = on_429 now 0 p in
                (EProv \<lparr>pe_class = ErrRateLimited, pe_side_effect = EffectNone, pe_retry_after = d, pe_message = []\<rparr>, p'))
           | HzConflict \<Rightarrow> (perr ErrConflict eff [], p)
           | HzLocked \<Rightarrow> (perr ErrConflict eff [], p)
           | HzUniqueness \<Rightarrow> (perr ErrConflict eff [], p)
           | HzResourceLimitExceeded \<Rightarrow> (perr ErrQuota EffectNone [], p)
           | HzInvalidInput \<Rightarrow> (perr ErrInvalid EffectNone [], p)
           | HzUnauthorized \<Rightarrow> (perr ErrInvalid EffectNone [], p)
           | HzForbidden \<Rightarrow> (perr ErrInvalid EffectNone [], p)
           | HzOtherCode _ \<Rightarrow> (perr ErrRetryable eff [], p))
      | HzTransport \<Rightarrow> (perr ErrRetryable eff [], p))"

fun hz_phase :: "hz_status \<Rightarrow> observed_phase" where
  "hz_phase HzInitializing = PhasePending"
| "hz_phase HzStarting = PhasePending"
| "hz_phase HzMigrating = PhasePending"
| "hz_phase HzRebuilding = PhasePending"
| "hz_phase HzRunning = PhaseRunning"
| "hz_phase HzOff = PhaseStopped"
| "hz_phase HzStopping = PhaseStopped"
| "hz_phase HzDeleting = PhaseDeleting"
| "hz_phase (HzOtherStatus s) = PhaseUnknown"

text \<open>\<open>int64\<close> of a float truncates towards zero.\<close>

definition trunc :: "rat \<Rightarrow> int" where
  "trunc x = (if x < 0 then - \<lfloor>- x\<rfloor> else \<lfloor>x\<rfloor>)"

definition hz_addresses :: "hz_server \<Rightarrow> addresses" where
  "hz_addresses srv =
     (case hs_v4 srv of None \<Rightarrow> [] | Some a \<Rightarrow> [(''public-v4'', a)])
     @ (case hs_v6 srv of None \<Rightarrow> [] | Some a \<Rightarrow> [(''public-v6'', a)])
     @ List.map_filter (map_option (\<lambda>a. (''private'', a))) (hs_private srv)"

definition hz_observe :: "'w hetzner \<Rightarrow> hz_server \<Rightarrow> observed_resource" where
  "hz_observe h srv =
     \<lparr>ob_ref = \<lparr>ref_id = show_int (hs_id srv), ref_extra = []\<rparr>, ob_kind = compute_kind,
      ob_fleetplane_id = lab (hs_labels srv) label_id, ob_create_op_id = lab (hs_labels srv) label_op,
      ob_owned = owned_by (hz_owner h) (hs_labels srv), ob_phase = hz_phase (hs_status srv),
      ob_provider_state = hs_status_text srv,
      ob_capacity = (case hs_type srv of None \<Rightarrow> []
        | Some (cores, gb) \<Rightarrow> [(''cpu'', cores), (''memoryMiB'', trunc (gb * 1024))]),
      ob_addresses = hz_addresses srv, ob_labels = hs_labels srv, ob_extensions = BVal (hs_native srv)\<rparr>"

definition hz_not_found :: err where
  "hz_not_found = perr ErrNotFound EffectNone ''server not found''"

text \<open>A call behind the pacer, whose request may have had an effect or not.\<close>

definition hz_call :: "'w hetzner \<Rightarrow> side_effect \<Rightarrow> ('w, hz_error, 'a) api \<Rightarrow> ('w dstate, 'a) io" where
  "hz_call h eff f = paced (hz_now h) (hz_map_err (hz_now h)) eff f"

section \<open>Provider methods\<close>

definition hz_billing :: "string \<Rightarrow> billing_policy" where
  "hz_billing kind = (if kind = compute_kind
     then \<lparr>bp_minimum = 0, bp_increment = 3600 * sec, bp_buffer = 300 * sec\<rparr> else zero_billing)"

definition hz_health :: "'w hetzner \<Rightarrow> ('w dstate, unit) io" where
  "hz_health h = hz_call h EffectNone (hz_locations (hz_api h))"

section \<open>Reads\<close>

definition hz_selector :: "string \<Rightarrow> discover_scope \<Rightarrow> labels \<Rightarrow> string" where
  "hz_selector owner scope sel =
     join '','' (sort ((if scope = ScopeAll then []
         else [label_managed @ ''=true'', label_owner @ ''='' @ owner])
       @ map (\<lambda>(k, v). k @ ''='' @ v) sel))"

definition hz_discover :: "'w hetzner \<Rightarrow> discover_scope \<Rightarrow> labels \<Rightarrow> ('w dstate, observed_resource list) io" where
  "hz_discover h scope sel =
     bindS (hz_call h EffectNone (no_meta (hz_servers (hz_api h) (hz_selector (hz_owner h) scope sel)))) (\<lambda>servers.
     retS (map (hz_observe h) servers))"

definition hz_get :: "'w hetzner \<Rightarrow> ext_ref \<Rightarrow> ('w dstate, observed_resource) io" where
  "hz_get h ref =
     (case parse_int (ref_id ref) of
        None \<Rightarrow> failS (invalid_err ''malformed server id'')
      | Some i \<Rightarrow>
          bindS (hz_call h EffectNone (hz_server_by_id (hz_api h) i)) (\<lambda>srv.
          case srv of None \<Rightarrow> failS hz_not_found | Some x \<Rightarrow> retS (hz_observe h x)))"

section \<open>Lookups\<close>

definition hz_server_type :: "'w hetzner \<Rightarrow> string \<Rightarrow> ('w dstate, hz_type) io" where
  "hz_server_type h name =
     bindS (hz_call h EffectNone (hz_type_by_name (hz_api h) name)) (\<lambda>st.
     case st of None \<Rightarrow> failS (invalid_err ''unknown server type'') | Some t \<Rightarrow> retS t)"

definition hz_first_image :: "hz_image list \<Rightarrow> ('s, hz_image) io" where
  "hz_first_image imgs =
     (case imgs of [] \<Rightarrow> failS (invalid_err ''no image matches'') | i # _ \<Rightarrow> retS i)"

definition hz_image :: "'w hetzner \<Rightarrow> string \<Rightarrow> string \<Rightarrow> ('w dstate, hz_image) io" where
  "hz_image h spec arch =
     (case cut_at (CHR '':'') spec of
        None \<Rightarrow> failS (invalid_err ''image must be id, name or snapshot'')
      | Some (kind, rest) \<Rightarrow>
          bindS (acquire_slot (hz_now h)) (\<lambda>_.
          let quiet = (\<lambda>f. api_call (hz_now h) (hz_map_err (hz_now h)) EffectNone (no_meta f)) in
          if kind = ''id'' then
            (case parse_int rest of
               None \<Rightarrow> failS (invalid_err ''malformed image id'')
             | Some i \<Rightarrow>
                 bindS (api_call (hz_now h) (hz_map_err (hz_now h)) EffectNone (hz_image_by_id (hz_api h) i)) (\<lambda>img.
                 hz_first_image (case img of None \<Rightarrow> [] | Some x \<Rightarrow> [x])))
          else if kind = ''name'' then bindS (quiet (hz_images_named (hz_api h) rest arch)) hz_first_image
          else if kind = ''snapshot'' then
            bindS (quiet (hz_snapshots (hz_api h) rest)) (\<lambda>imgs. hz_first_image (sort_key (\<lambda>i. - hi_created i) imgs))
          else failS (invalid_err ''unknown image form'')))"

section \<open>Mutations\<close>

text \<open>\<open>opData\<close>.\<close>

definition hz_data :: "int \<Rightarrow> bool \<Rightarrow> int list \<Rightarrow> json blob" where
  "hz_data server del actions =
     BVal (JObj ([(''v'', JNum 1), (''serverId'', JNum server)]
       @ (if del then [(''delete'', JBool True)] else [])
       @ (if actions = [] then [] else [(''actions'', JArr (map JNum actions))])))"

text \<open>The machine an earlier run of the same operation left: lookup errors find nothing.\<close>

definition hz_dedup :: "'w hetzner \<Rightarrow> string \<Rightarrow> 'w dstate \<Rightarrow> ext_ref option \<times> 'w dstate" where
  "hz_dedup h oid s =
     (case hz_discover h ScopeOwned [(label_op, oid)] s of
        (Inr (x # _), t) \<Rightarrow> (Some (ob_ref x), t) | (_, t) \<Rightarrow> (None, t))"

definition hz_apply_create :: "(string \<Rightarrow> int option) \<Rightarrow> 'w hetzner \<Rightarrow> action \<Rightarrow> ('w dstate, operation_ref) io" where
  "hz_apply_create pd h act =
     bindS (liftS (read_params pd act)) (\<lambda>p.
     askS (hz_dedup h (ac_action_id act)) (\<lambda>existing.
     case existing of
       Some ref \<Rightarrow> retS \<lparr>or_action_id = ac_action_id act, or_ref = Some ref, or_data = BNil\<rparr>
     | None \<Rightarrow>
         bindS (hz_server_type h (ma_server_type (cp_spec p))) (\<lambda>st.
         bindS (hz_image h (ma_image (cp_spec p)) (ht_arch st)) (\<lambda>img.
         let loc = (if ma_location (cp_spec p) = [] then hz_location h else ma_location (cp_spec p)) in
         bindS (hz_call h EffectMaybe (hz_create (hz_api h)
           \<lparr>ho_name = cp_name p, ho_type = st, ho_image = img, ho_user_data = ma_user_data (cp_spec p),
            ho_labels = merge_labels (ma_labels (cp_spec p)) (cp_labels p),
            ho_location = (if loc = [] then None else Some loc)\<rparr>)) (\<lambda>r.
         retS \<lparr>or_action_id = ac_action_id act,
           or_ref = Some \<lparr>ref_id = show_int (hc_server r), ref_extra = []\<rparr>,
           or_data = hz_data (hc_server r) False
             ((case hc_action r of None \<Rightarrow> [] | Some a \<Rightarrow> [a]) @ hc_next r)\<rparr>)))))"

definition hz_apply_delete :: "'w hetzner \<Rightarrow> action \<Rightarrow> ('w dstate, operation_ref) io" where
  "hz_apply_delete h act =
     (case ac_ref act of
        None \<Rightarrow> failS (invalid_err ''delete requires a ref'')
      | Some ref \<Rightarrow>
          (case parse_int (ref_id ref) of
             None \<Rightarrow> failS (invalid_err ''malformed server id'')
           | Some i \<Rightarrow>
               bindS (hz_call h EffectNone (hz_server_by_id (hz_api h) i)) (\<lambda>srv.
               case srv of
                 None \<Rightarrow> retS \<lparr>or_action_id = ac_action_id act, or_ref = Some ref, or_data = BNil\<rparr>
               | Some _ \<Rightarrow>
                   bindS (api_call (hz_now h) (hz_map_err (hz_now h)) EffectMaybe (hz_delete (hz_api h) i)) (\<lambda>a.
                   retS \<lparr>or_action_id = ac_action_id act, or_ref = Some ref,
                     or_data = hz_data i True (case a of None \<Rightarrow> [] | Some x \<Rightarrow> [x])\<rparr>))))"

definition hz_apply :: "(string \<Rightarrow> int option) \<Rightarrow> 'w hetzner \<Rightarrow> action \<Rightarrow> ('w dstate, operation_ref) io" where
  "hz_apply pd h act =
     (if ac_kind act = ''create'' then hz_apply_create pd h act
      else if ac_kind act = ''delete'' then hz_apply_delete h act
      else failS (invalid_err ''unknown action kind''))"

section \<open>Observation of an operation\<close>

text \<open>The pending actions of the cloud, in order: the first one that runs or failed decides.\<close>

fun hz_poll_actions :: "'w hetzner \<Rightarrow> ext_ref option \<Rightarrow> int list \<Rightarrow> ('w dstate, operation_status option) io" where
  "hz_poll_actions h ref [] = retS None"
| "hz_poll_actions h ref (a # as) =
     bindS (hz_call h EffectNone (hz_action_by_id (hz_api h) a)) (\<lambda>r.
     case r of
       None \<Rightarrow> hz_poll_actions h ref as
     | Some (HzActionError, m) \<Rightarrow>
         retS (Some ((status PsFailed ref None 0)\<lparr>st_failure := Some \<lparr>pe_class = ErrTerminal,
           pe_side_effect = EffectMaybe, pe_retry_after = 0, pe_message = m\<rparr>\<rparr>))
     | Some (HzActionRunning, m) \<Rightarrow> retS (Some (status PsRunning ref None (2 * sec)))
     | Some (HzActionSuccess, m) \<Rightarrow> hz_poll_actions h ref as)"

definition hz_observe_op :: "'w hetzner \<Rightarrow> operation_ref \<Rightarrow> ('w dstate, operation_status) io" where
  "hz_observe_op h oref =
     (let fs = data_fields (or_data oref) in
      bindS (hz_poll_actions h (or_ref oref) (lax_ints (jfield ''actions'' fs))) (\<lambda>st.
      case st of
        Some x \<Rightarrow> retS x
      | None \<Rightarrow>
          (case or_ref oref of
             None \<Rightarrow> retS (status PsUnknown None None 0)
           | Some ref \<Rightarrow>
               bindS (hz_get h ref) (\<lambda>obs.
               if lax_bool (jfield ''delete'' fs) then retS (status PsRunning (Some ref) None (2 * sec))
               else if ob_phase obs = PhaseRunning then retS (status PsSucceeded (Some ref) (Some obs) 0)
               else retS (status PsRunning (Some ref) None (2 * sec))))))"

section \<open>The truth of the side effect\<close>

text \<open>The error codes with which the cloud refuses a request outright.\<close>

definition hz_refused :: "hz_error \<Rightarrow> bool" where
  "hz_refused e \<longleftrightarrow> e \<in> HzApiError ` {HzNotFound, HzRateLimitExceeded, HzResourceLimitExceeded, HzInvalidInput,
     HzUnauthorized, HzForbidden}"

text \<open>
  The documented behaviour of the cloud: hz_reads change no machine, and neither does a refused create
  or delete.
\<close>

definition hz_honest :: "('w \<Rightarrow> 'm) \<Rightarrow> 'w hz_api \<Rightarrow> bool" where
  "hz_honest mach c \<longleftrightarrow>
     (\<forall>q. reads_only mach (no_meta (hz_servers c q))) \<and> (\<forall>i. reads_only mach (hz_server_by_id c i))
   \<and> (\<forall>n. reads_only mach (hz_type_by_name c n)) \<and> (\<forall>i. reads_only mach (hz_image_by_id c i))
   \<and> (\<forall>n a. reads_only mach (no_meta (hz_images_named c n a))) \<and> (\<forall>q. reads_only mach (no_meta (hz_snapshots c q)))
   \<and> (\<forall>opts. refusal_changes_nothing mach hz_refused (hz_create c opts))
   \<and> (\<forall>i. refusal_changes_nothing mach hz_refused (hz_delete c i))"

lemma hz_not_refused: "\<not> hz_refused e \<Longrightarrow> effect (fst (hz_map_err now e EffectMaybe p)) \<noteq> EffectNone"
  by (auto simp: hz_map_err_def hz_refused_def split: hz_error.splits hz_code.splits)

lemma hz_reads: "reads_only mach f \<Longrightarrow> keeps (cloud_view mach) (hz_call h eff f)"
  unfolding hz_call_def by (rule keeps_paced)

lemma hz_mutates:
  "refusal_changes_nothing mach hz_refused f \<Longrightarrow> truthful (cloud_view mach) (hz_call h EffectMaybe f)"
  unfolding hz_call_def by (rule truthful_paced) (assumption, rule hz_not_refused)

lemma hz_dedup_reads:
  assumes "hz_honest mach (hz_api h)"
  shows "keeps (cloud_view mach) (hz_dedup h oid)"
proof (rule keeps_like)
  show "keeps (cloud_view mach) (hz_discover h ScopeOwned [(label_op, oid)])"
    unfolding hz_discover_def using assms [unfolded hz_honest_def] by (intro effect_rules hz_reads) auto
  show "snd (hz_dedup h oid s) = snd (hz_discover h ScopeOwned [(label_op, oid)] s)" for s
    by (simp add: hz_dedup_def split: prod.split sum.split list.split)
qed

lemma hz_truthful:
  assumes "hz_honest mach (hz_api h)"
  shows "truthful (cloud_view mach) (hz_apply pd h act)"
proof -
  note rd = assms [unfolded hz_honest_def]
  note dedup = hz_dedup_reads [OF assms]
  have ty: "keeps (cloud_view mach) (hz_server_type h n)" for n
    unfolding hz_server_type_def using rd
    by (intro effect_rules hz_reads) (auto intro: effect_rules split: option.splits)
  have first: "keeps (cloud_view mach) (hz_first_image imgs)" for imgs
    by (auto simp: hz_first_image_def intro: effect_rules split: list.splits)
  have img: "keeps (cloud_view mach) (hz_image h spec arch)" for spec arch
    unfolding hz_image_def Let_def using rd
    by (auto intro!: effect_rules keeps_api_call first split: option.splits)
  have last: "truthful (cloud_view mach) (bindS (hz_call h EffectMaybe (hz_create (hz_api h) opts)) (\<lambda>r. retS (g r)))"
    for opts and g :: "hz_created \<Rightarrow> operation_ref"
    using rd by (intro truthful_last hz_mutates) auto
  have made: "truthful (cloud_view mach) (bindS (hz_server_type h n) (\<lambda>st. bindS (hz_image h im (ht_arch st)) (\<lambda>img.
      bindS (hz_call h EffectMaybe (hz_create (hz_api h) (opts st img))) (\<lambda>r. retS (g r)))))"
    for n im opts and g :: "hz_created \<Rightarrow> operation_ref"
    by (rule truthful_bindS [OF ty], rule truthful_bindS [OF img], rule last)
  have create: "truthful (cloud_view mach) (hz_apply_create pd h act)"
    unfolding hz_apply_create_def Let_def
    by (intro truthful_bindS truthful_askS dedup keeps_liftS) (auto intro: made truthful_retS split: option.split)
  have del: "truthful (cloud_view mach) (bindS
      (api_call (hz_now h) (hz_map_err (hz_now h)) EffectMaybe (hz_delete (hz_api h) i)) (\<lambda>a. retS (g a)))"
    for i and g :: "int option \<Rightarrow> operation_ref"
    using rd by (intro truthful_last truthful_api_call [of mach hz_refused]) (simp_all add: hz_not_refused)
  have "truthful (cloud_view mach) (bindS (hz_call h EffectNone (hz_server_by_id (hz_api h) i)) (\<lambda>srv.
      case srv of None \<Rightarrow> retS x | Some _ \<Rightarrow> bindS (api_call (hz_now h) (hz_map_err (hz_now h)) EffectMaybe
        (hz_delete (hz_api h) i)) (\<lambda>a. retS (g a))))" for i x and g :: "int option \<Rightarrow> operation_ref"
    using rd by (intro truthful_bindS hz_reads) (auto intro: del truthful_retS split: option.split)
  then have delete: "truthful (cloud_view mach) (hz_apply_delete h act)"
    unfolding hz_apply_delete_def by (auto intro: truthful_failS split: option.split)
  show ?thesis
    unfolding hz_apply_def using create delete by (auto intro: effect_rules)
qed

section \<open>The contract\<close>

lemma hz_apply_answer:
  assumes "hz_apply pd h act s = (Inr oref, t)"
  shows "or_action_id oref = ac_action_id act
    \<and> (ac_kind act \<noteq> ''create'' \<longrightarrow> ac_ref act \<noteq> None \<and> or_ref oref = ac_ref act)"
  using assms
  by (auto simp: hz_apply_def hz_apply_create_def hz_apply_delete_def Let_def bindS_def askS_def retS_def failS_def
      split: if_splits option.splits prod.splits sum.splits)

interpretation hz: truthful_driver "[''create'', ''delete'']" "hz_apply pd h" "\<lambda>act. hz_dedup h (ac_action_id act)"
    "\<lambda>act. is_ok (read_params pd act)" "cloud_view mach" "hz_honest mach (hz_api h)"
  for pd h mach
proof (unfold_locales, goal_cases)
  case (1 act s ref t)
  then show ?case
    by (auto simp: hz_apply_def hz_apply_create_def bindS_def liftS_def askS_def retS_def same_ref_def is_ok_def
        split: sum.splits)
next
  case (2 act s)
  then show ?case
    by (auto simp: hz_apply_def hz_apply_create_def read_params_def is_ok_def bindS_def liftS_def refuses_def split: sum.splits)
next
  case (3 act s)
  then show ?case by (simp add: hz_apply_def)
qed (simp_all add: hz_apply_answer hz_dedup_reads hz_truthful)

end
