(* ===== verification/DO_Tags.thy ===== *)
theory DO_Tags
  imports Driver_Kit
begin

text \<open>
  How the DigitalOcean driver writes labels into flat tags and reads them back
  (providers/digitalocean/tags.go). Tags and labels are byte strings of ASCII; a label map is a list
  of pairs, the order in which Go iterates over the map.
\<close>

definition label_test :: string where "label_test = ''fleetplane.io/test''"
definition label_test_run :: string where "label_test_run = ''fleetplane.io/test-run''"
definition label_pool :: string where "label_pool = ''fleetplane.io/pool''"

definition short_names :: labels where
  "short_names =
     [(label_managed, ''managed''), (label_owner, ''owner''), (label_id, ''id''), (label_op, ''op''),
      (label_class, ''class''), (label_test, ''test''), (label_test_run, ''test-run''), (label_pool, ''pool'')]"

definition long_names :: labels where
  "long_names = map (\<lambda>(long, short). (short, long)) short_names"

definition tag_prefix :: string where "tag_prefix = ''fp-''"

definition tag_char :: "char \<Rightarrow> bool" where
  "tag_char c \<longleftrightarrow> is_lower c \<or> is_upper c \<or> is_digit c \<or> c = CHR '':'' \<or> c = CHR ''-'' \<or> c = CHR ''_''"

definition sanitize_tag :: "string \<Rightarrow> string" where
  "sanitize_tag s = map (\<lambda>c. if tag_char c then c else CHR ''-'') s"

definition encode_tag :: "string \<Rightarrow> string \<Rightarrow> string option" where
  "encode_tag k v =
     (case map_of short_names k of
        None \<Rightarrow> None | Some short \<Rightarrow> Some (tag_prefix @ short @ '':'' @ sanitize_tag v))"

definition encode_tags :: "labels \<Rightarrow> string list" where
  "encode_tags ls = List.map_filter (\<lambda>(k, v). encode_tag k v) ls"

text \<open>One tag: the label it stands for, or nothing.\<close>

definition decode_tag :: "string \<Rightarrow> (string \<times> string) option" where
  "decode_tag tag =
     (case cut_prefix tag_prefix tag of
        None \<Rightarrow> None
      | Some body \<Rightarrow>
          (case cut_at (CHR '':'') body of
             None \<Rightarrow> None
           | Some (short, value) \<Rightarrow>
               (case map_of long_names short of None \<Rightarrow> None | Some long \<Rightarrow> Some (long, value))))"

definition decode_tags :: "string list \<Rightarrow> labels" where
  "decode_tags tags =
     fold (\<lambda>tag m. case decode_tag tag of None \<Rightarrow> m | Some (k, v) \<Rightarrow> put k v m) tags []"

section \<open>Round trip\<close>

lemmas label_defs = label_managed_def label_owner_def label_id_def label_op_def label_class_def label_test_def
  label_test_run_def label_pool_def

lemma short_names_table:
  "list_all (\<lambda>(k, short). map_of long_names short = Some k \<and> CHR '':'' \<notin> set short) short_names"
  by code_simp

lemma short_names_inv:
  "map_of short_names k = Some short \<Longrightarrow> map_of long_names short = Some k \<and> CHR '':'' \<notin> set short"
  using short_names_table map_of_SomeD by (fastforce simp: list_all_iff)

lemma short_names_inj: "map_of short_names k = Some x \<Longrightarrow> map_of short_names k' = Some x \<Longrightarrow> k = k'"
  using short_names_inv by (metis option.inject)

lemma decode_encode_tag:
  assumes "map_of short_names k \<noteq> None"
  shows "\<exists>tag. encode_tag k v = Some tag \<and> decode_tag tag = Some (k, sanitize_tag v)"
proof -
  from assms obtain short where s: "map_of short_names k = Some short" by auto
  note i = short_names_inv [OF s]
  have "cut_at (CHR '':'') (short @ '':'' @ sanitize_tag v) = Some (short, sanitize_tag v)"
    using i by (simp add: cut_at_Some_iff)
  then show ?thesis using i by (simp add: encode_tag_def s decode_tag_def)
qed

lemma encode_tag_None: "map_of short_names k = None \<Longrightarrow> encode_tag k v = None"
  by (simp add: encode_tag_def)

lemma decode_tags_fold:
  assumes "distinct (map fst ls)"
  shows "map_of (fold (\<lambda>tag m. case decode_tag tag of None \<Rightarrow> m | Some (k, v) \<Rightarrow> put k v m) (encode_tags ls) m) k =
    (if map_of short_names k \<noteq> None \<and> k \<in> fst ` set ls then map_option sanitize_tag (map_of ls k) else map_of m k)"
  using assms
proof (induction ls arbitrary: m)
  case Nil
  then show ?case by (simp add: encode_tags_def List.map_filter_simps)
next
  case (Cons x ls)
  obtain j v where x: "x = (j, v)" by fastforce
  show ?case
  proof (cases "map_of short_names j")
    case None
    then show ?thesis using Cons by (auto simp: x encode_tags_def List.map_filter_simps encode_tag_None)
  next
    case (Some short)
    then obtain tag where t: "encode_tag j v = Some tag" "decode_tag tag = Some (j, sanitize_tag v)"
      using decode_encode_tag by force
    show ?thesis using Cons t Some by (auto simp: x encode_tags_def List.map_filter_simps)
  qed
qed

lemma sanitize_tag_id: "list_all tag_char v \<Longrightarrow> sanitize_tag v = v"
  by (induction v) (auto simp: sanitize_tag_def)



end
