(* ===== verification/Digital_Ocean.thy ===== *)
theory Digital_Ocean
  imports DO_Tags
begin

text \<open>
  The DigitalOcean driver (providers/digitalocean/digitalocean.go) over a cloud given by a record of
  the godo calls it makes. Listings come in pages: page \<open>n\<close> and whether it is the last one; the driver
  asks for one after the other, here at most a given number of pages.
\<close>

section \<open>The library's types\<close>

text \<open>An error with an HTTP response carries its status; any other is a transport failure.\<close>

datatype do_error = DoHttp int | DoTransport

record droplet =
  dp_id :: int
  dp_status :: string
  dp_tags :: "string list"
  dp_networks :: "((string \<times> string) list \<times> (string \<times> string) list) option"
  dp_vcpus :: int
  dp_memory :: int
  dp_native :: json

record do_image =
  di_id :: int
  di_name :: string
  di_created :: string

datatype do_image_ref = DoImageId int | DoImageSlug string

record do_create_req =
  dq_name :: string
  dq_region :: string
  dq_size :: string
  dq_image :: do_image_ref
  dq_user_data :: string
  dq_tags :: "string list"

text \<open>A tag of \<open>None\<close> lists everything. A page is its rows and whether it is the last.\<close>

record 'w do_api =
  do_regions :: "('w, do_error, unit) api"
  do_droplets :: "string option \<Rightarrow> nat \<Rightarrow> ('w, do_error, droplet list \<times> bool) api"
  do_droplet :: "int \<Rightarrow> ('w, do_error, droplet) api"
  do_create :: "do_create_req \<Rightarrow> ('w, do_error, int) api"
  do_delete :: "int \<Rightarrow> ('w, do_error, unit) api"
  do_images :: "nat \<Rightarrow> ('w, do_error, do_image list \<times> bool) api"

record 'w digital_ocean =
  do_api :: "'w do_api"
  do_owner :: string
  do_region :: string
  do_now :: int
  do_max_pages :: nat

section \<open>Mapping\<close>

definition do_map_err :: "int \<Rightarrow> do_error folder" where
  "do_map_err now e eff p =
     (case e of
        DoTransport \<Rightarrow> (perr ErrRetryable eff [], p)
      | DoHttp code \<Rightarrow>
          (if code = 404 then (perr ErrNotFound EffectNone [], p)
           else if code = 429 then
             (let (d, p') = on_429 now 0 p in
              (EProv \<lparr>pe_class = ErrRateLimited, pe_side_effect = EffectNone, pe_retry_after = d, pe_message = []\<rparr>, p'))
           else if code = 409 \<or> code = 423 then (perr ErrConflict eff [], p)
           else if code = 422 \<or> code = 400 \<or> code = 401 \<or> code = 403 then (perr ErrInvalid EffectNone [], p)
           else (perr ErrRetryable eff [], p)))"

definition do_phase :: "string \<Rightarrow> observed_phase" where
  "do_phase s = (if s = ''new'' then PhasePending else if s = ''active'' then PhaseRunning
     else if s = ''off'' then PhaseStopped else if s = ''archive'' then PhaseGone else PhaseUnknown)"

text \<open>Networks are pairs of a type and an address.\<close>

definition do_addresses :: "droplet \<Rightarrow> addresses" where
  "do_addresses dr =
     (case dp_networks dr of None \<Rightarrow> []
      | Some (v4, v6) \<Rightarrow>
          map (\<lambda>(ty, a). (if ty = ''public'' then ''public-v4'' else ''private'', a)) v4
          @ map (\<lambda>(ty, a). (''public-v6'', a)) (filter (\<lambda>(ty, a). ty = ''public'') v6))"

definition do_observe :: "'w digital_ocean \<Rightarrow> droplet \<Rightarrow> observed_resource" where
  "do_observe h dr =
     (let ls = decode_tags (dp_tags dr) in
      \<lparr>ob_ref = \<lparr>ref_id = show_int (dp_id dr), ref_extra = []\<rparr>, ob_kind = compute_kind,
       ob_fleetplane_id = lab ls label_id, ob_create_op_id = lab ls label_op,
       ob_owned = owned_by (do_owner h) ls, ob_phase = do_phase (dp_status dr),
       ob_provider_state = dp_status dr, ob_capacity = [(''cpu'', dp_vcpus dr), (''memoryMiB'', dp_memory dr)],
       ob_addresses = do_addresses dr, ob_labels = ls, ob_extensions = BVal (dp_native dr)\<rparr>)"

definition do_billing :: "string \<Rightarrow> billing_policy" where
  "do_billing kind = (if kind = compute_kind
     then \<lparr>bp_minimum = 0, bp_increment = 3600 * sec, bp_buffer = 300 * sec\<rparr> else zero_billing)"

definition do_call :: "'w digital_ocean \<Rightarrow> side_effect \<Rightarrow> ('w, do_error, 'a) api \<Rightarrow> ('w dstate, 'a) io" where
  "do_call h eff f = api_call (do_now h) (do_map_err (do_now h)) eff f"

definition do_health :: "'w digital_ocean \<Rightarrow> ('w dstate, unit) io" where
  "do_health h = bindS (acquire_slot (do_now h)) (\<lambda>_. do_call h EffectNone (do_regions (do_api h)))"

section \<open>Reads\<close>

text \<open>
  The paging loop: page 0 asks for the first page as page 1 does, so the second request is for
  page 2. With no page left to ask for, the loop has not ended and gives no result.
\<close>

fun do_pages :: "nat \<Rightarrow> (nat \<Rightarrow> ('s, 'a list \<times> bool) io) \<Rightarrow> nat \<Rightarrow> ('s, 'a list option) io" where
  "do_pages 0 get n = retS None"
| "do_pages (Suc fuel) get n =
     bindS (get n) (\<lambda>(batch, last).
     if last then retS (Some batch)
     else bindS (do_pages fuel get (if n + 1 = 1 then 2 else n + 1)) (\<lambda>rest. retS (map_option (append batch) rest)))"

definition do_all :: "'w digital_ocean \<Rightarrow> (nat \<Rightarrow> ('w dstate, 'a list \<times> bool) io) \<Rightarrow> ('w dstate, 'a list) io" where
  "do_all h get = bindS (do_pages (do_max_pages h) get 0) (\<lambda>r.
     case r of None \<Rightarrow> failS (EOther ''out of pages'') | Some xs \<Rightarrow> retS xs)"

text \<open>The most selective tag: the operation's, the resource's, or the owner's.\<close>

definition do_primary :: "labels \<Rightarrow> string option" where
  "do_primary want =
     (case List.map_filter (\<lambda>k. case map_of want k of None \<Rightarrow> None | Some v \<Rightarrow> encode_tag k v)
        [label_op, label_id, label_owner] of [] \<Rightarrow> None | t # _ \<Rightarrow> Some t)"

definition do_discover ::
    "'w digital_ocean \<Rightarrow> discover_scope \<Rightarrow> labels \<Rightarrow> ('w dstate, observed_resource list) io" where
  "do_discover h scope sel =
     bindS (acquire_slot (do_now h)) (\<lambda>_.
     let want = wanted (do_owner h) scope sel in
     bindS (do_all h (\<lambda>n. do_call h EffectNone (do_droplets (do_api h) (do_primary want) n))) (\<lambda>ds.
     retS (filter (\<lambda>obs. labels_match (ob_labels obs) want) (map (do_observe h) ds))))"

definition do_get :: "'w digital_ocean \<Rightarrow> ext_ref \<Rightarrow> ('w dstate, observed_resource) io" where
  "do_get h ref =
     (case parse_int (ref_id ref) of
        None \<Rightarrow> failS (invalid_err ''malformed droplet id'')
      | Some i \<Rightarrow>
          bindS (acquire_slot (do_now h)) (\<lambda>_.
          bindS (do_call h EffectNone (do_droplet (do_api h) i)) (\<lambda>dr. retS (do_observe h dr))))"

text \<open>The two halves of an image selector; both must be there.\<close>

definition do_cut :: "string \<Rightarrow> (string \<times> string) option" where
  "do_cut s = (case cut_at (CHR '':'') s of None \<Rightarrow> None
     | Some (a, b) \<Rightarrow> if a \<noteq> [] \<and> b \<noteq> [] then Some (a, b) else None)"

definition do_newest :: "string \<Rightarrow> do_image list \<Rightarrow> do_image option" where
  "do_newest name imgs =
     fold (\<lambda>i best. if di_name i \<noteq> name then best
        else (case best of None \<Rightarrow> Some i | Some b \<Rightarrow> if di_created i > di_created b then Some i else best)) imgs None"

definition do_image :: "'w digital_ocean \<Rightarrow> string \<Rightarrow> ('w dstate, do_image_ref) io" where
  "do_image h spec =
     (case do_cut spec of
        None \<Rightarrow> failS (invalid_err ''image must be id, slug or snapshot'')
      | Some (kind, rest) \<Rightarrow>
          (if kind = ''id'' then
             (case parse_int rest of None \<Rightarrow> failS (invalid_err ''malformed image id'') | Some i \<Rightarrow> retS (DoImageId i))
           else if kind = ''slug'' then retS (DoImageSlug rest)
           else if kind = ''snapshot'' then
             bindS (acquire_slot (do_now h)) (\<lambda>_.
             bindS (do_all h (\<lambda>n. do_call h EffectNone (do_images (do_api h) n))) (\<lambda>imgs.
             case do_newest rest imgs of
               None \<Rightarrow> failS (invalid_err ''no snapshot of this name'') | Some i \<Rightarrow> retS (DoImageId (di_id i))))
           else failS (invalid_err ''unknown image form'')))"

section \<open>Mutations\<close>

definition do_data :: "int \<Rightarrow> bool \<Rightarrow> json blob" where
  "do_data i del = BVal (JObj ([(''v'', JNum 1), (''dropletId'', JNum i)]
     @ (if del then [(''delete'', JBool True)] else [])))"

definition do_dedup :: "'w digital_ocean \<Rightarrow> string \<Rightarrow> 'w dstate \<Rightarrow> ext_ref option \<times> 'w dstate" where
  "do_dedup h oid s =
     (case do_discover h ScopeOwned [(label_op, oid)] s of
        (Inr (x # _), t) \<Rightarrow> (Some (ob_ref x), t) | (_, t) \<Rightarrow> (None, t))"

definition do_apply_create ::
    "(string \<Rightarrow> int option) \<Rightarrow> 'w digital_ocean \<Rightarrow> action \<Rightarrow> ('w dstate, operation_ref) io" where
  "do_apply_create pd h act =
     bindS (liftS (read_params pd act)) (\<lambda>p.
     askS (do_dedup h (ac_action_id act)) (\<lambda>existing.
     case existing of
       Some ref \<Rightarrow> retS \<lparr>or_action_id = ac_action_id act, or_ref = Some ref, or_data = BNil\<rparr>
     | None \<Rightarrow>
         bindS (do_image h (ma_image (cp_spec p))) (\<lambda>img.
         let region = (if ma_location (cp_spec p) = [] then do_region h else ma_location (cp_spec p));
             tags = sort (encode_tags (cp_labels p) @ encode_tags (ma_labels (cp_spec p))) in
         bindS (acquire_slot (do_now h)) (\<lambda>_.
         bindS (do_call h EffectMaybe (do_create (do_api h)
           \<lparr>dq_name = cp_name p, dq_region = region, dq_size = ma_server_type (cp_spec p), dq_image = img,
            dq_user_data = ma_user_data (cp_spec p), dq_tags = tags\<rparr>)) (\<lambda>i.
         retS \<lparr>or_action_id = ac_action_id act, or_ref = Some \<lparr>ref_id = show_int i, ref_extra = []\<rparr>,
           or_data = do_data i False\<rparr>)))))"

definition do_apply_delete :: "'w digital_ocean \<Rightarrow> action \<Rightarrow> ('w dstate, operation_ref) io" where
  "do_apply_delete h act =
     (case ac_ref act of
        None \<Rightarrow> failS (invalid_err ''delete requires a ref'')
      | Some ref \<Rightarrow>
          (case parse_int (ref_id ref) of
             None \<Rightarrow> failS (invalid_err ''malformed droplet id'')
           | Some i \<Rightarrow>
               bindS (acquire_slot (do_now h)) (\<lambda>_.
               catchS (do_call h EffectMaybe (do_delete (do_api h) i)) (\<lambda>r.
               case r of
                 Inr _ \<Rightarrow> retS \<lparr>or_action_id = ac_action_id act, or_ref = Some ref, or_data = do_data i True\<rparr>
               | Inl e \<Rightarrow>
                   (if is_class e ErrNotFound
                    then retS \<lparr>or_action_id = ac_action_id act, or_ref = Some ref, or_data = BNil\<rparr>
                    else failS e)))))"

definition do_apply :: "(string \<Rightarrow> int option) \<Rightarrow> 'w digital_ocean \<Rightarrow> action \<Rightarrow> ('w dstate, operation_ref) io" where
  "do_apply pd h act =
     (if ac_kind act = ''create'' then do_apply_create pd h act
      else if ac_kind act = ''delete'' then do_apply_delete h act
      else failS (invalid_err ''unknown action kind''))"

section \<open>Observation of an operation\<close>

definition do_observe_op :: "'w digital_ocean \<Rightarrow> operation_ref \<Rightarrow> ('w dstate, operation_status) io" where
  "do_observe_op h oref =
     (case or_ref oref of
        None \<Rightarrow> retS (status PsUnknown None None 0)
      | Some ref \<Rightarrow>
          bindS (do_get h ref) (\<lambda>obs.
          if lax_bool (jfield ''delete'' (data_fields (or_data oref)))
            then retS (status PsRunning (Some ref) None (2 * sec))
          else if ob_phase obs = PhaseRunning then retS (status PsSucceeded (Some ref) (Some obs) 0)
          else retS (status PsRunning (Some ref) None (2 * sec))))"

section \<open>The contract\<close>

definition do_refused :: "do_error \<Rightarrow> bool" where
  "do_refused e \<longleftrightarrow> e \<in> DoHttp ` {404, 429, 422, 400, 401, 403}"

text \<open>The documented behaviour: reads change nothing, and neither does a refused create or delete.\<close>

definition do_honest :: "('w \<Rightarrow> 'm) \<Rightarrow> 'w do_api \<Rightarrow> bool" where
  "do_honest mach c \<longleftrightarrow>
     (\<forall>t n. reads_only mach (do_droplets c t n)) \<and> (\<forall>n. reads_only mach (do_images c n))
   \<and> (\<forall>q. refusal_changes_nothing mach do_refused (do_create c q))
   \<and> (\<forall>i. refusal_changes_nothing mach do_refused (do_delete c i))"

lemma do_not_refused: "\<not> do_refused e \<Longrightarrow> effect (fst (do_map_err now e EffectMaybe p)) \<noteq> EffectNone"
  by (auto simp: do_map_err_def do_refused_def image_iff split: do_error.splits)

lemma keeps_do_pages [effect_rules]: "(\<And>n. keeps view (get n)) \<Longrightarrow> keeps view (do_pages fuel get n)"
  by (induction fuel arbitrary: n) (auto intro!: effect_rules split: prod.split)

lemma keeps_do_all [effect_rules]: "(\<And>n. keeps view (get n)) \<Longrightarrow> keeps view (do_all h get)"
  unfolding do_all_def by (intro effect_rules) (auto intro: effect_rules split: option.split)

lemma do_reads: "reads_only mach f \<Longrightarrow> keeps (cloud_view mach) (do_call h eff f)"
  unfolding do_call_def by (rule keeps_api_call)

lemma do_mutates:
  "refusal_changes_nothing mach do_refused f \<Longrightarrow> truthful (cloud_view mach) (do_call h EffectMaybe f)"
  unfolding do_call_def by (rule truthful_api_call) (assumption, rule do_not_refused)

lemma do_dedup_reads:
  assumes "do_honest mach (do_api h)"
  shows "keeps (cloud_view mach) (do_dedup h oid)"
proof (rule keeps_like)
  show "keeps (cloud_view mach) (do_discover h ScopeOwned [(label_op, oid)])"
    unfolding do_discover_def Let_def using assms [unfolded do_honest_def] by (intro effect_rules do_reads) auto
  show "snd (do_dedup h oid s) = snd (do_discover h ScopeOwned [(label_op, oid)] s)" for s
    by (simp add: do_dedup_def split: prod.split sum.split list.split)
qed

lemma do_truthful:
  assumes "do_honest mach (do_api h)"
  shows "truthful (cloud_view mach) (do_apply pd h act)"
proof -
  note rd = assms [unfolded do_honest_def]
  have img: "keeps (cloud_view mach) (do_image h spec)" for spec
    unfolding do_image_def using rd
    by (auto intro!: effect_rules do_reads split: option.split)
  have last: "truthful (cloud_view mach) (bindS (do_call h EffectMaybe (do_create (do_api h) q)) (\<lambda>i. retS (g i)))"
    for q and g :: "int \<Rightarrow> operation_ref"
    using rd by (intro truthful_last do_mutates) auto
  have made: "truthful (cloud_view mach) (bindS (do_image h im) (\<lambda>img. bindS (acquire_slot (do_now h)) (\<lambda>_.
      bindS (do_call h EffectMaybe (do_create (do_api h) (q img))) (\<lambda>i. retS (g i)))))"
    for im q and g :: "int \<Rightarrow> operation_ref"
    by (rule truthful_bindS [OF img], rule truthful_bindS [OF keeps_acquire_slot], rule last)
  have create: "truthful (cloud_view mach) (do_apply_create pd h act)"
    unfolding do_apply_create_def Let_def
    by (intro truthful_bindS truthful_askS do_dedup_reads [OF assms] keeps_liftS)
      (auto intro: made truthful_retS split: option.split)
  have del: "truthful (cloud_view mach) (catchS (do_call h EffectMaybe (do_delete (do_api h) i)) (\<lambda>r.
      case r of Inr _ \<Rightarrow> retS x | Inl e \<Rightarrow> (if is_class e ErrNotFound then retS y else failS e)))"
    for i and x y :: operation_ref
    using rd by (intro truthful_caught do_mutates) (auto intro: effect_rules simp: failS_def)
  have delete: "truthful (cloud_view mach) (do_apply_delete h act)"
    unfolding do_apply_delete_def
    by (auto intro!: truthful_failS truthful_bindS [OF keeps_acquire_slot] del split: option.split)
  show ?thesis
    unfolding do_apply_def using create delete by (auto intro: effect_rules)
qed

lemma do_apply_answer:
  assumes "do_apply pd h act s = (Inr oref, t)"
  shows "or_action_id oref = ac_action_id act
    \<and> (ac_kind act \<noteq> ''create'' \<longrightarrow> ac_ref act \<noteq> None \<and> or_ref oref = ac_ref act)"
  using assms
  by (auto simp: do_apply_def do_apply_create_def do_apply_delete_def Let_def bindS_def askS_def catchS_def retS_def
      failS_def split: if_splits option.splits prod.splits sum.splits)

interpretation docean: truthful_driver "[''create'', ''delete'']" "do_apply pd h" "\<lambda>act. do_dedup h (ac_action_id act)"
    "\<lambda>act. is_ok (read_params pd act)" "cloud_view mach" "do_honest mach (do_api h)"
  for pd h mach
proof (unfold_locales, goal_cases)
  case (1 act s ref t)
  then show ?case
    by (auto simp: do_apply_def do_apply_create_def bindS_def liftS_def askS_def retS_def same_ref_def is_ok_def
        split: sum.splits)
next
  case (2 act s)
  then show ?case
    by (auto simp: do_apply_def do_apply_create_def read_params_def is_ok_def bindS_def liftS_def refuses_def split: sum.splits)
next
  case (3 act s)
  then show ?case by (simp add: do_apply_def)
qed (simp_all add: do_apply_answer do_dedup_reads do_truthful)

end
