(* ===== verification/GCP_Labels.thy ===== *)
theory GCP_Labels
  imports DO_Tags
begin

text \<open>
  How the GCP driver writes labels into the restricted alphabet of Compute Engine and reads them back
  (providers/gcp/labels.go): reserved keys get short names, values are lowered, and identifiers with
  a ULID get their capital letters back. Labels are strings of ASCII characters.
\<close>

definition max_label_len :: nat where "max_label_len = 63"

definition gcp_short_names :: labels where
  "gcp_short_names =
     [(label_managed, ''fp-managed''), (label_owner, ''fp-owner''), (label_id, ''fp-id''), (label_op, ''fp-op''),
      (label_class, ''fp-class''), (label_test, ''fp-test''), (label_test_run, ''fp-test-run'')]"

definition gcp_long_names :: labels where
  "gcp_long_names = map (\<lambda>(long, short). (short, long)) gcp_short_names"

definition restore_case :: "string \<Rightarrow> bool" where
  "restore_case k \<longleftrightarrow> k \<in> set [''fp-owner'', ''fp-id'', ''fp-op'', ''fp-test-run'']"

text \<open>The regular expression \<open>^[a-z]+_[0-9a-z]+$\<close>.\<close>

definition ulid_like :: "string \<Rightarrow> bool" where
  "ulid_like s =
     (case cut_at (CHR ''_'') s of
        None \<Rightarrow> False
      | Some (p, r) \<Rightarrow> p \<noteq> [] \<and> list_all is_lower p \<and> r \<noteq> [] \<and> list_all (\<lambda>c. is_digit c \<or> is_lower c) r)"

definition label_char :: "char \<Rightarrow> bool" where
  "label_char c \<longleftrightarrow> is_lower c \<or> is_digit c \<or> c = CHR ''-'' \<or> c = CHR ''_''"

definition sanitize_runes :: "string \<Rightarrow> string" where
  "sanitize_runes s = map (\<lambda>c. if label_char c then c else CHR ''-'') (to_lower s)"

definition truncate_label :: "string \<Rightarrow> string" where
  "truncate_label s = take max_label_len s"

definition sanitize_key :: "string \<Rightarrow> string" where
  "sanitize_key k =
     (let s = sanitize_runes k in if s = [] \<or> \<not> is_lower (hd s) then ''u-'' @ s else s)"

definition encode_key :: "string \<Rightarrow> string" where
  "encode_key k = (case map_of gcp_short_names k of Some short \<Rightarrow> short | None \<Rightarrow> truncate_label (sanitize_key k))"

definition encode_value :: "string \<Rightarrow> string" where
  "encode_value v = truncate_label (sanitize_runes v)"

definition gcp_encode_labels :: "labels \<Rightarrow> labels" where
  "gcp_encode_labels ls = fold (\<lambda>(k, v) m. put (encode_key k) (encode_value v) m) ls []"

definition decode_value :: "string \<Rightarrow> string \<Rightarrow> string" where
  "decode_value k v =
     (if restore_case k \<and> ulid_like v then
        (case cut_at (CHR ''_'') v of None \<Rightarrow> v | Some (p, r) \<Rightarrow> p @ ''_'' @ to_upper r)
      else v)"

definition gcp_decode_labels :: "labels \<Rightarrow> labels" where
  "gcp_decode_labels raw =
     fold (\<lambda>(k, v) m. case map_of gcp_long_names k of
         None \<Rightarrow> put k v m | Some long \<Rightarrow> put long (decode_value k v) m) raw []"

section \<open>Identifiers survive\<close>

text \<open>
  The shape of an identifier: a lower-case prefix, an underscore, and a payload of digits and
  capital letters, short enough for a label.
\<close>

definition ulid_id :: "string \<Rightarrow> bool" where
  "ulid_id s \<longleftrightarrow> length s \<le> max_label_len \<and>
     (\<exists>p r. s = p @ ''_'' @ r \<and> p \<noteq> [] \<and> list_all is_lower p \<and> r \<noteq> [] \<and> list_all (\<lambda>c. is_digit c \<or> is_upper c) r)"

lemma char_classes:
  "is_lower c \<Longrightarrow> \<not> is_upper c" "is_digit c \<Longrightarrow> \<not> is_upper c" "is_digit c \<Longrightarrow> \<not> is_lower c"
  "is_upper c \<Longrightarrow> \<not> is_lower c" "is_upper c \<Longrightarrow> is_lower (lower_char c)"
  by (auto simp: ascii_simps char_less_eq_nat of_char_of)

lemma sanitize_lower: "list_all is_lower p \<Longrightarrow> sanitize_runes p = p"
  by (induction p) (auto simp: sanitize_runes_def to_lower_def lower_char_id char_classes label_char_def)

lemma sanitize_append: "sanitize_runes (a @ b) = sanitize_runes a @ sanitize_runes b"
  by (simp add: sanitize_runes_def to_lower_def)

lemma sanitize_underscore [simp]: "sanitize_runes ''_'' = ''_''"
  by (simp add: sanitize_runes_def to_lower_def label_char_def lower_char_def is_upper_def char_less_eq_nat)

lemma payload_char:
  assumes "is_digit c \<or> is_upper c"
  shows "label_char (lower_char c) \<and> (is_digit (lower_char c) \<or> is_lower (lower_char c)) \<and> upper_char (lower_char c) = c
    \<and> lower_char c \<noteq> CHR ''_''"
proof -
  have "is_digit (lower_char c) \<or> is_lower (lower_char c)"
    using assms char_classes lower_char_id by metis
  moreover have "upper_char (lower_char c) = c"
    using assms char_classes by (intro upper_lower_char) auto
  moreover have "\<not> (is_digit CHR ''_'' \<or> is_lower CHR ''_'')"
    by (simp add: is_digit_def is_lower_def char_less_eq_nat)
  ultimately show ?thesis by (auto simp: label_char_def)
qed

lemma sanitize_payload:
  assumes "list_all (\<lambda>c. is_digit c \<or> is_upper c) r"
  shows "sanitize_runes r = to_lower r \<and> list_all (\<lambda>c. is_digit c \<or> is_lower c) (to_lower r)
    \<and> to_upper (to_lower r) = r"
  using assms
proof (induction r)
  case (Cons c r)
  then show ?case using payload_char [of c] by (auto simp: sanitize_runes_def to_lower_def to_upper_def)
qed (simp add: sanitize_runes_def to_lower_def to_upper_def)

lemma decode_encode_ulid:
  assumes "ulid_id v" and "restore_case k"
  shows "decode_value k (encode_value v) = v"
proof -
  from assms(1) obtain p r where v: "v = p @ ''_'' @ r" "p \<noteq> []" "list_all is_lower p" "r \<noteq> []"
    "list_all (\<lambda>c. is_digit c \<or> is_upper c) r" and len: "length v \<le> max_label_len"
    by (auto simp: ulid_id_def)
  note s = sanitize_payload [OF v(5)]
  have u: "CHR ''_'' \<notin> set p"
  proof
    assume "CHR ''_'' \<in> set p"
    then have "is_lower CHR ''_''" using v(3) by (auto simp: list_all_iff)
    then show False by (simp add: is_lower_def char_less_eq_nat)
  qed
  have "sanitize_runes v = p @ ''_'' @ to_lower r"
    using s sanitize_lower [OF v(3)] by (simp only: v(1) sanitize_append sanitize_underscore)
  moreover have "length (sanitize_runes v) = length v" by (simp add: sanitize_runes_def to_lower_def)
  ultimately have e: "encode_value v = p @ ''_'' @ to_lower r"
    using len by (simp add: encode_value_def truncate_label_def)
  have cut: "cut_at (CHR ''_'') (encode_value v) = Some (p, to_lower r)"
    unfolding e using u by (simp add: cut_at_Some_iff)
  have "ulid_like (encode_value v)"
    unfolding ulid_like_def cut using v s by (simp add: to_lower_def)
  then show ?thesis using assms(2) cut s v(1) by (simp add: decode_value_def)
qed

text \<open>Values outside the identifiers: what the alphabet allows comes back as it is.\<close>

definition plain_label :: "string \<Rightarrow> bool" where
  "plain_label v \<longleftrightarrow> length v \<le> max_label_len \<and> list_all label_char v"

lemma encode_plain:
  assumes "plain_label v"
  shows "encode_value v = v"
proof -
  have "sanitize_runes v = v"
    using assms unfolding plain_label_def
  proof (induction v)
    case (Cons c v)
    then have "\<not> is_upper c"
      using char_classes by (auto simp: label_char_def is_upper_def char_less_eq_nat)
    then show ?case using Cons by (simp add: sanitize_runes_def to_lower_def lower_char_id)
  qed (simp add: sanitize_runes_def to_lower_def)
  then show ?thesis using assms by (simp add: encode_value_def truncate_label_def plain_label_def)
qed

section \<open>Round trip of a label map\<close>

text \<open>The labels the kernel writes: reserved keys, identifiers and plain values.\<close>

definition kernel_label :: "string \<Rightarrow> string \<Rightarrow> bool" where
  "kernel_label k v \<longleftrightarrow>
     (case map_of gcp_short_names k of
        None \<Rightarrow> False
      | Some short \<Rightarrow> if restore_case short then ulid_id v else plain_label v)"

lemma gcp_short_inv:
  assumes "map_of gcp_short_names k = Some short"
  shows "map_of gcp_long_names short = Some k"
proof -
  from assms have "(k, short) \<in> set gcp_short_names" by (rule map_of_SomeD)
  then show ?thesis by (auto simp: gcp_short_names_def gcp_long_names_def label_defs)
qed

lemma decode_encode_label:
  assumes "kernel_label k v"
  shows "map_of gcp_long_names (encode_key k) = Some k \<and> decode_value (encode_key k) (encode_value v) = v"
proof -
  from assms obtain short where s: "map_of gcp_short_names k = Some short"
    by (auto simp: kernel_label_def split: option.splits)
  have "encode_key k = short" by (simp add: encode_key_def s)
  moreover have "decode_value short (encode_value v) = v"
  proof (cases "restore_case short")
    case True
    then show ?thesis using assms s by (intro decode_encode_ulid) (auto simp: kernel_label_def)
  next
    case False
    then have "plain_label v" using assms s by (simp add: kernel_label_def)
    then show ?thesis using False encode_plain by (simp add: decode_value_def)
  qed
  ultimately show ?thesis using gcp_short_inv [OF s] by simp
qed

text \<open>Assigning pairs whose keys are all different collects them.\<close>

lemma fold_put:
  assumes "distinct (map f xs)" and "\<And>x. x \<in> set xs \<Longrightarrow> f x \<notin> fst ` set m"
  shows "fold (\<lambda>x m. put (f x) (g x) m) xs m = rev (map (\<lambda>x. (f x, g x)) xs) @ m"
  using assms
proof (induction xs arbitrary: m)
  case (Cons x xs)
  have "filter (\<lambda>(k, _). k \<noteq> f x) m = m"
    using Cons.prems(2) [of x] by (intro filter_True) force
  then have "put (f x) (g x) m = (f x, g x) # m" by (simp add: put_def)
  moreover have "f y \<notin> fst ` set ((f x, g x) # m)" if "y \<in> set xs" for y
    using Cons.prems that by (auto simp: image_iff)
  ultimately show ?case using Cons.IH [of "(f x, g x) # m"] Cons.prems(1) by simp
qed simp

lemma gcp_encode_rev:
  assumes "distinct (map fst ls)" and "list_all (\<lambda>(k, v). kernel_label k v) ls"
  shows "gcp_encode_labels ls = rev (map (\<lambda>(k, v). (encode_key k, encode_value v)) ls)"
proof -
  have inv: "map_of gcp_long_names (encode_key (fst x)) = Some (fst x)" if "x \<in> set ls" for x
    using assms(2) that decode_encode_label [of "fst x" "snd x"] by (auto simp: list_all_iff)
  have "distinct (map (\<lambda>x. encode_key (fst x)) ls)"
    using assms(1) inv by (simp add: distinct_map inj_on_def) (metis option.inject)
  then have "fold (\<lambda>x m. put (encode_key (fst x)) (encode_value (snd x)) m) ls [] =
      rev (map (\<lambda>x. (encode_key (fst x), encode_value (snd x))) ls) @ []"
    by (rule fold_put) simp
  then show ?thesis by (simp add: gcp_encode_labels_def case_prod_unfold)
qed

text \<open>
  The labels the kernel writes come back unchanged from Compute Engine's restricted labels: the
  reserved keys with identifiers (prefix, underscore, ULID in capitals) or plain lower-case values,
  although every value was lowered on the way.
\<close>

theorem gcp_labels_roundtrip:
  assumes "distinct (map fst ls)" and "list_all (\<lambda>(k, v). kernel_label k v) ls"
  shows "gcp_decode_labels (gcp_encode_labels ls) = ls"
proof -
  let ?f = "\<lambda>x :: string \<times> string. the (map_of gcp_long_names (fst x))"
  let ?g = "\<lambda>x :: string \<times> string. decode_value (fst x) (snd x)"
  let ?raw = "map (\<lambda>(k, v). (encode_key k, encode_value v)) ls"
  have there: "map_of gcp_long_names (encode_key k) = Some k \<and> decode_value (encode_key k) (encode_value v) = v"
    if "(k, v) \<in> set ls" for k v
    using assms(2) that decode_encode_label by (auto simp: list_all_iff)
  have eq: "map (\<lambda>x. (?f x, ?g x)) ?raw = ls"
    unfolding map_map by (rule map_idI) (auto simp: there)
  have keys: "map ?f ?raw = map fst ls"
    unfolding map_map by (rule map_cong [OF refl]) (auto simp: there)
  have "gcp_decode_labels (rev ?raw) = fold (\<lambda>x m. put (?f x) (?g x) m) (rev ?raw) []"
    unfolding gcp_decode_labels_def by (rule fold_cong) (auto simp: there fun_eq_iff)
  also have "\<dots> = rev (map (\<lambda>x. (?f x, ?g x)) (rev ?raw)) @ []"
  proof (rule fold_put)
    show "distinct (map ?f (rev ?raw))" using assms(1) keys by (simp only: rev_map [symmetric] distinct_rev)
  qed simp
  also have "\<dots> = ls" using eq by (simp add: rev_map)
  finally show ?thesis by (simp add: gcp_encode_rev [OF assms])
qed

theorem gcp_labels_roundtrip_witness:
  "gcp_decode_labels (gcp_encode_labels [(label_op, ''op_01HX2''), (label_managed, ''true'')])
     = [(label_op, ''op_01HX2''), (label_managed, ''true'')]"
proof (rule gcp_labels_roundtrip)
  have "ulid_id ''op_01HX2''"
    unfolding ulid_id_def
    by (intro conjI exI [of _ "''op''"] exI [of _ "''01HX2''"])
      (simp_all add: max_label_len_def is_lower_def is_upper_def is_digit_def char_less_eq_nat)
  moreover have "plain_label ''true''" by code_simp
  moreover have "map_of gcp_short_names label_op = Some ''fp-op''" "map_of gcp_short_names label_managed = Some ''fp-managed''"
    by code_simp+
  ultimately show "list_all (\<lambda>(k, v). kernel_label k v) [(label_op, ''op_01HX2''), (label_managed, ''true'')]"
    by (simp add: kernel_label_def restore_case_def)
qed (simp add: label_defs)

end
