(* ===== verification/GCP.thy ===== *)
theory GCP
  imports GCP_Labels
begin

text \<open>
  The Compute Engine driver (providers/gcp/gcp.go) over a cloud given by a record of the calls of the
  generated client it makes. Absent pointers in the client's lists are left out. The driver keeps a
  cache of machine-type capacities beside the pacer; listings are read to the end, with at most a
  given number of pages.
\<close>

section \<open>The client's types\<close>

text \<open>An API error has a status, the reasons of its items, and the Retry-After header.\<close>

datatype gcp_error = GcpApi int "string list" string | GcpTransport

record gce_instance =
  gi_name :: string
  gi_status :: string
  gi_zone :: string
  gi_labels :: labels
  gi_machine_type :: string
  gi_nics :: "(string \<times> string list) list"
  gi_native :: json

record gce_image =
  gm_name :: string
  gm_self_link :: string
  gm_labels :: labels
  gm_created :: string

record gce_insert =
  ge_name :: string
  ge_machine_type :: string
  ge_labels :: labels
  ge_source_image :: string
  ge_network :: string
  ge_subnetwork :: string
  ge_user_data :: "string option"

text \<open>A zonal operation: its status and its errors, each a code and a message.\<close>

type_synonym gce_operation = "string \<times> (string \<times> string) list"

type_synonym ('w, 'a) gcall = "'w \<Rightarrow> (gcp_error + 'a) \<times> 'w"

record 'w gcp_api =
  gc_zone :: "('w, unit) gcall"
  gc_aggregated :: "string \<Rightarrow> string \<Rightarrow> ('w, gce_instance list \<times> string) gcall"
  gc_list :: "string \<Rightarrow> string \<Rightarrow> string \<Rightarrow> ('w, gce_instance list \<times> string) gcall"
  gc_get :: "string \<Rightarrow> string \<Rightarrow> ('w, gce_instance) gcall"
  gc_insert :: "string \<Rightarrow> gce_insert \<Rightarrow> ('w, string) gcall"
  gc_delete :: "string \<Rightarrow> string \<Rightarrow> ('w, string) gcall"
  gc_stop :: "string \<Rightarrow> string \<Rightarrow> ('w, string) gcall"
  gc_start :: "string \<Rightarrow> string \<Rightarrow> ('w, string) gcall"
  gc_zone_op :: "string \<Rightarrow> string \<Rightarrow> ('w, gce_operation) gcall"
  gc_machine_type :: "string \<Rightarrow> string \<Rightarrow> ('w, int \<times> int) gcall"
  gc_family :: "string \<Rightarrow> string \<Rightarrow> ('w, gce_image) gcall"
  gc_image :: "string \<Rightarrow> string \<Rightarrow> ('w, gce_image) gcall"
  gc_images :: "string \<Rightarrow> ('w, gce_image list \<times> string) gcall"

record 'w gcp =
  gp_api :: "'w gcp_api"
  gp_owner :: string
  gp_project :: string
  gp_zone :: string
  gp_network :: string
  gp_subnetwork :: string
  gp_now :: int
  gp_parse_time :: "string \<Rightarrow> int option"
  gp_max_pages :: nat

record 'w gstate = "'w dstate" +
  gs_cache :: "(string \<times> capacity) list"

section \<open>Errors\<close>

definition retry_after_header :: "string \<Rightarrow> int" where
  "retry_after_header h = (case parse_int h of None \<Rightarrow> 0 | Some n \<Rightarrow> if n > 0 then n * sec else 0)"

definition gcp_map_err :: "int \<Rightarrow> gcp_error folder" where
  "gcp_map_err now e eff p =
     (case e of
        GcpTransport \<Rightarrow> (perr ErrRetryable eff [], p)
      | GcpApi code reasons header \<Rightarrow>
          (if code = 404 then (perr ErrNotFound EffectNone [], p)
           else if code = 429 \<or> code = 403 \<and> (''rateLimitExceeded'' \<in> set reasons
               \<or> ''userRateLimitExceeded'' \<in> set reasons) then
             (let (d, p') = on_429 now 0 p; ra = retry_after_header header in
              (EProv \<lparr>pe_class = ErrRateLimited, pe_side_effect = EffectNone,
                 pe_retry_after = (if ra > 0 then ra else d), pe_message = []\<rparr>, p'))
           else if code = 403 \<and> ''quotaExceeded'' \<in> set reasons then (perr ErrQuota EffectNone [], p)
           else if code = 401 \<or> code = 403 then (perr ErrInvalid EffectNone [], p)
           else if code = 409 \<or> code = 412 then (perr ErrConflict eff [], p)
           else if code = 400 then (perr ErrInvalid EffectNone [], p)
           else (perr ErrRetryable eff [], p)))"

definition operation_failure :: "(string \<times> string) list \<Rightarrow> perror" where
  "operation_failure errs =
     (let (code, msg) = hd errs in
      \<lparr>pe_class =
         (if contains ''QUOTA_EXCEEDED'' code then ErrQuota
          else if contains ''NOT_FOUND'' code then ErrNotFound
          else if contains ''RESOURCE_POOL_EXHAUSTED'' code \<or> contains ''RATE_EXCEEDED'' code then ErrRetryable
          else ErrTerminal),
       pe_side_effect = EffectMaybe, pe_retry_after = 0, pe_message = msg\<rparr>)"

definition gcp_call :: "'w gcp \<Rightarrow> side_effect \<Rightarrow> ('w, 'a) gcall \<Rightarrow> ('w gstate, 'a) io" where
  "gcp_call g eff f = paced (gp_now g) (gcp_map_err (gp_now g)) eff (no_meta f)"

section \<open>Provider methods\<close>

definition gcp_billing :: "string \<Rightarrow> billing_policy" where
  "gcp_billing kind = (if kind = compute_kind
     then \<lparr>bp_minimum = 60 * sec, bp_increment = 0, bp_buffer = 0\<rparr> else zero_billing)"

definition gcp_parking :: "string \<Rightarrow> park_policy" where
  "gcp_parking kind = (if kind = compute_kind
     then \<lparr>pk_supported = True, pk_start_estimate = 45 * sec\<rparr> else zero_park)"

definition gcp_health :: "'w gcp \<Rightarrow> ('w gstate, unit) io" where
  "gcp_health g = gcp_call g EffectNone (gc_zone (gp_api g))"

section \<open>Observations\<close>

definition gcp_phase :: "string \<Rightarrow> observed_phase" where
  "gcp_phase s =
     (if s \<in> set [''PENDING'', ''PROVISIONING'', ''STAGING''] then PhasePending
      else if s = ''RUNNING'' then PhaseRunning
      else if s \<in> set [''PENDING_STOP'', ''STOPPING'', ''SUSPENDING'', ''SUSPENDED'', ''STOPPED'', ''TERMINATED'',
        ''DEPROVISIONING''] then PhaseStopped
      else PhaseUnknown)"

text \<open>Best effort: a failed lookup is not an error, and only successes are cached.\<close>

definition gcp_capacity :: "'w gcp \<Rightarrow> string \<Rightarrow> string \<Rightarrow> 'w gstate \<Rightarrow> capacity \<times> 'w gstate" where
  "gcp_capacity g zone ty s =
     (if ty = [] then ([], s)
      else let key = zone @ ''/'' @ ty in
        case map_of (gs_cache s) key of
          Some c \<Rightarrow> (c, s)
        | None \<Rightarrow>
            (case gcp_call g EffectNone (gc_machine_type (gp_api g) zone ty) s of
               (Inl _, t) \<Rightarrow> ([], t)
             | (Inr (cpus, mb), t) \<Rightarrow>
                 (let c = [(''cpu'', cpus), (''memoryMiB'', mb)] in (c, t\<lparr>gs_cache := (key, c) # gs_cache t\<rparr>))))"

definition gcp_ref :: "string \<Rightarrow> string \<Rightarrow> ext_ref" where
  "gcp_ref name zone = \<lparr>ref_id = name, ref_extra = [(''zone'', zone)]\<rparr>"

definition gcp_addresses :: "gce_instance \<Rightarrow> addresses" where
  "gcp_addresses i = concat (map (\<lambda>(ip, nats).
     (if ip = [] then [] else [(''private'', ip)]) @ map (\<lambda>a. (''public-v4'', a)) (filter (\<lambda>a. a \<noteq> []) nats))
     (gi_nics i))"

definition instance_zone :: "string \<Rightarrow> gce_instance \<Rightarrow> string" where
  "instance_zone dflt i = (let z = last_segment (gi_zone i) in if z = [] then dflt else z)"

definition gcp_observe :: "'w gcp \<Rightarrow> gce_instance \<Rightarrow> ('w gstate, observed_resource) io" where
  "gcp_observe g i =
     (let zone = instance_zone (gp_zone g) i; ls = gcp_decode_labels (gi_labels i) in
      askS (gcp_capacity g zone (last_segment (gi_machine_type i))) (\<lambda>c.
      retS \<lparr>ob_ref = gcp_ref (gi_name i) zone, ob_kind = compute_kind,
        ob_fleetplane_id = lab ls label_id, ob_create_op_id = lab ls label_op,
        ob_owned = owned_by (gp_owner g) ls, ob_phase = gcp_phase (gi_status i),
        ob_provider_state = gi_status i, ob_capacity = c, ob_addresses = gcp_addresses i,
        ob_labels = ls, ob_extensions = BVal (gi_native i)\<rparr>))"

section \<open>Reads\<close>

definition label_filter :: "string \<Rightarrow> string \<Rightarrow> string" where
  "label_filter k v = ''labels.'' @ k @ '' = '' @ [CHR 34] @ v @ [CHR 34]"

definition gcp_discover :: "'w gcp \<Rightarrow> discover_scope \<Rightarrow> labels \<Rightarrow> ('w gstate, observed_resource list) io" where
  "gcp_discover g scope sel =
     (let want = wanted (gp_owner g) scope sel;
          flt = join '' AND '' (sort (map (\<lambda>(k, v). label_filter (encode_key k) (encode_value v)) want)) in
      bindS (token_pages (gp_max_pages g) (\<lambda>tok. gcp_call g EffectNone (gc_aggregated (gp_api g) flt tok)) []) (\<lambda>is.
      bindS (mapS (gcp_observe g) is) (\<lambda>obs.
      retS (filter (\<lambda>x. labels_match (ob_labels x) want) obs))))"

definition zone_of :: "'w gcp \<Rightarrow> ext_ref \<Rightarrow> string" where
  "zone_of g ref = (let z = lab (ref_extra ref) ''zone'' in if z = [] then gp_zone g else z)"

definition get_instance :: "'w gcp \<Rightarrow> string \<Rightarrow> string \<Rightarrow> ('w gstate, gce_instance) io" where
  "get_instance g zone name = gcp_call g EffectNone (gc_get (gp_api g) zone name)"

definition gcp_get :: "'w gcp \<Rightarrow> ext_ref \<Rightarrow> ('w gstate, observed_resource) io" where
  "gcp_get g ref =
     (if ref_id ref = [] then failS (invalid_err ''empty instance name'')
      else bindS (get_instance g (zone_of g ref) (ref_id ref)) (gcp_observe g))"

section \<open>Images\<close>

definition image_url :: "gce_image \<Rightarrow> string \<Rightarrow> string" where
  "image_url i proj = (if gm_self_link i \<noteq> [] then gm_self_link i
     else ''projects/'' @ proj @ ''/global/images/'' @ gm_name i)"

definition split_project :: "string \<Rightarrow> string \<Rightarrow> string \<times> string" where
  "split_project rest dflt =
     (case cut_at (CHR ''/'') rest of
        None \<Rightarrow> (dflt, rest)
      | Some (p, v) \<Rightarrow> if p \<noteq> [] \<and> v \<noteq> [] \<and> CHR ''/'' \<notin> set v then (p, v) else (dflt, rest))"

text \<open>A lookup that finds nothing is a configuration error.\<close>

definition image_lookup :: "'w gcp \<Rightarrow> ('w, gce_image) gcall \<Rightarrow> ('w gstate, gce_image) io" where
  "image_lookup g f = catchS (gcp_call g EffectNone f) (\<lambda>r.
     case r of
       Inr i \<Rightarrow> retS i
     | Inl e \<Rightarrow> failS (if is_class e ErrNotFound then invalid_err ''no image matches'' else e))"

text \<open>A timestamp that does not parse is the zero time, before every other.\<close>

fun after_time :: "int option \<Rightarrow> int option \<Rightarrow> bool" where
  "after_time None b = False"
| "after_time (Some x) None = True"
| "after_time (Some x) (Some y) = (x > y)"

definition gcp_newest :: "'w gcp \<Rightarrow> string \<Rightarrow> string \<Rightarrow> gce_image list \<Rightarrow> gce_image option" where
  "gcp_newest g k v imgs =
     fold (\<lambda>i best. if lab (gm_labels i) k \<noteq> v then best
        else (case best of
            None \<Rightarrow> Some i
          | Some b \<Rightarrow> if after_time (gp_parse_time g (gm_created i)) (gp_parse_time g (gm_created b)) then Some i else best))
       imgs None"

definition image_form :: "string \<Rightarrow> (string \<times> string) option" where
  "image_form s = (case cut_at (CHR '':'') s of None \<Rightarrow> None
     | Some (a, b) \<Rightarrow> if a = [] \<or> b = [] then None else Some (a, b))"

definition gcp_image :: "'w gcp \<Rightarrow> string \<Rightarrow> ('w gstate, string) io" where
  "gcp_image g spec =
     (case image_form spec of
        None \<Rightarrow> failS (invalid_err ''image must be id, family, name or snapshot'')
      | Some (form, rest) \<Rightarrow>
          (if form = ''id'' then
             retS (if CHR ''/'' \<in> set rest then rest
                   else ''projects/'' @ gp_project g @ ''/global/images/'' @ rest)
           else if form = ''family'' then
             (let (proj, fam) = split_project rest (gp_project g) in
              bindS (image_lookup g (gc_family (gp_api g) proj fam)) (\<lambda>i. retS (image_url i proj)))
           else if form = ''name'' then
             (let (proj, name) = split_project rest (gp_project g) in
              bindS (image_lookup g (gc_image (gp_api g) proj name)) (\<lambda>i. retS (image_url i proj)))
           else if form = ''snapshot'' then
             (case cut_at (CHR ''='') rest of
                None \<Rightarrow> failS (invalid_err ''snapshot selector must be label=value'')
              | Some (k, v) \<Rightarrow>
                  (if k = [] then failS (invalid_err ''snapshot selector must be label=value'')
                   else
                     bindS (token_pages (gp_max_pages g) (\<lambda>tok. gcp_call g EffectNone (gc_images (gp_api g) tok)) []) (\<lambda>imgs.
                     case gcp_newest g (encode_key k) (encode_value v) imgs of
                       None \<Rightarrow> failS (invalid_err ''no image matches'')
                     | Some i \<Rightarrow> retS (image_url i (gp_project g)))))
           else failS (invalid_err ''unknown image form'')))"

section \<open>Mutations\<close>

definition gcp_data :: "string \<Rightarrow> string \<Rightarrow> string \<Rightarrow> string \<Rightarrow> json blob" where
  "gcp_data kind op zone inst =
     BVal (JObj ([(''v'', JNum 1), (''kind'', JStr kind), (''op'', JStr op), (''zone'', JStr zone),
         (''instance'', JStr inst)]
       @ (if kind = ''delete'' then [(''delete'', JBool True)] else [])))"

definition create_zone :: "'w gcp \<Rightarrow> create_params \<Rightarrow> string" where
  "create_zone g p = (if ma_location (cp_spec p) = [] then gp_zone g else ma_location (cp_spec p))"

text \<open>\<open>findByOp\<close>: a live instance of the zone with the operation's label; errors find nothing.\<close>

definition usable_for :: "string \<Rightarrow> gce_instance \<Rightarrow> bool" where
  "usable_for oid i \<longleftrightarrow> gi_status i \<noteq> ''TERMINATED'' \<and> gi_status i \<noteq> ''DEPROVISIONING''
     \<and> lab (gcp_decode_labels (gi_labels i)) label_op = oid"

definition find_by_op :: "'w gcp \<Rightarrow> string \<Rightarrow> string \<Rightarrow> 'w gstate \<Rightarrow> ext_ref option \<times> 'w gstate" where
  "find_by_op g zone oid s =
     (let flt = label_filter (lab gcp_short_names label_op) (encode_value oid) in
      case token_pages (gp_max_pages g) (\<lambda>tok. gcp_call g EffectNone (gc_list (gp_api g) zone flt tok)) [] s of
        (Inl _, t) \<Rightarrow> (None, t)
      | (Inr is, t) \<Rightarrow>
          (map_option (\<lambda>i. gcp_ref (gi_name i) (instance_zone zone i)) (find (usable_for oid) is), t))"

definition gcp_apply_create :: "(string \<Rightarrow> int option) \<Rightarrow> 'w gcp \<Rightarrow> action \<Rightarrow> ('w gstate, operation_ref) io" where
  "gcp_apply_create pd g act =
     bindS (liftS (read_params pd act)) (\<lambda>p.
     let zone = create_zone g p in
     askS (find_by_op g zone (ac_action_id act)) (\<lambda>existing.
     case existing of
       Some ref \<Rightarrow> retS \<lparr>or_action_id = ac_action_id act, or_ref = Some ref, or_data = BNil\<rparr>
     | None \<Rightarrow>
         bindS (gcp_image g (ma_image (cp_spec p))) (\<lambda>src.
         bindS (gcp_call g EffectMaybe (gc_insert (gp_api g) zone
           \<lparr>ge_name = cp_name p,
            ge_machine_type = ''zones/'' @ zone @ ''/machineTypes/'' @ ma_server_type (cp_spec p),
            ge_labels = gcp_encode_labels (merge_labels (ma_labels (cp_spec p)) (cp_labels p)),
            ge_source_image = src,
            ge_network = (if gp_network g = [] then ''global/networks/default'' else gp_network g),
            ge_subnetwork = gp_subnetwork g,
            ge_user_data = (if ma_user_data (cp_spec p) = [] then None else Some (ma_user_data (cp_spec p)))\<rparr>)) (\<lambda>op.
         retS \<lparr>or_action_id = ac_action_id act, or_ref = Some (gcp_ref (cp_name p) zone),
           or_data = gcp_data ''create'' op zone (cp_name p)\<rparr>))))"

definition gcp_apply_delete :: "'w gcp \<Rightarrow> action \<Rightarrow> ('w gstate, operation_ref) io" where
  "gcp_apply_delete g act =
     (case ac_ref act of
        None \<Rightarrow> failS (invalid_err ''delete requires a ref'')
      | Some ref \<Rightarrow>
          (if ref_id ref = [] then failS (invalid_err ''delete requires a ref'')
           else let zone = zone_of g ref in
             catchS (gcp_call g EffectMaybe (gc_delete (gp_api g) zone (ref_id ref))) (\<lambda>r.
             case r of
               Inr op \<Rightarrow> retS \<lparr>or_action_id = ac_action_id act, or_ref = Some ref,
                 or_data = gcp_data ''delete'' op zone (ref_id ref)\<rparr>
             | Inl e \<Rightarrow>
                 (if is_class e ErrNotFound
                  then retS \<lparr>or_action_id = ac_action_id act, or_ref = Some ref, or_data = BNil\<rparr>
                  else failS e))))"

definition stop_complete :: "string \<Rightarrow> bool" where
  "stop_complete s \<longleftrightarrow> s \<in> set [''TERMINATED'', ''STOPPED'', ''SUSPENDED'']"

definition stop_settled :: "string \<Rightarrow> bool" where
  "stop_settled s \<longleftrightarrow> s \<in> set [''STOPPING'', ''PENDING_STOP'', ''SUSPENDING''] \<or> stop_complete s"

definition start_settled :: "string \<Rightarrow> bool" where
  "start_settled s \<longleftrightarrow> s \<in> set [''RUNNING'', ''STAGING'', ''PROVISIONING'']"

definition settled_for :: "string \<Rightarrow> string \<Rightarrow> bool" where
  "settled_for kind = (if kind = ''start'' then start_settled else stop_settled)"

text \<open>
  \<open>applyStopStart\<close>: nothing to do for a machine that is there or on the way; a refused mutation is
  looked at once more, because the machine may have got there meanwhile.
\<close>

definition gcp_apply_power :: "'w gcp \<Rightarrow> action \<Rightarrow> ('w gstate, operation_ref) io" where
  "gcp_apply_power g act =
     (case ac_ref act of
        None \<Rightarrow> failS (invalid_err ''requires a ref'')
      | Some ref \<Rightarrow>
          (if ref_id ref = [] then failS (invalid_err ''requires a ref'')
           else let zone = zone_of g ref; settled = settled_for (ac_kind act);
                    ok = (\<lambda>op. retS \<lparr>or_action_id = ac_action_id act, or_ref = Some ref,
                       or_data = gcp_data (ac_kind act) op zone (ref_id ref)\<rparr>) in
             bindS (get_instance g zone (ref_id ref)) (\<lambda>i.
             if settled (gi_status i) then ok []
             else catchS (gcp_call g EffectMaybe
                 ((if ac_kind act = ''stop'' then gc_stop else gc_start) (gp_api g) zone (ref_id ref))) (\<lambda>r.
               case r of
                 Inr op \<Rightarrow> ok op
               | Inl e \<Rightarrow>
                   (if is_class e ErrInvalid \<or> is_class e ErrTerminal then
                      catchS (get_instance g zone (ref_id ref)) (\<lambda>again.
                        case again of
                          Inr j \<Rightarrow> if settled (gi_status j) then ok [] else failS e
                        | Inl _ \<Rightarrow> failS e)
                    else failS e)))))"

definition gcp_apply :: "(string \<Rightarrow> int option) \<Rightarrow> 'w gcp \<Rightarrow> action \<Rightarrow> ('w gstate, operation_ref) io" where
  "gcp_apply pd g act =
     (if ac_kind act = ''create'' then gcp_apply_create pd g act
      else if ac_kind act = ''delete'' then gcp_apply_delete g act
      else if ac_kind act = ''stop'' \<or> ac_kind act = ''start'' then gcp_apply_power g act
      else failS (invalid_err ''unknown action kind''))"

section \<open>Observation of an operation\<close>

text \<open>The kind of an operation: old records have only the delete flag.\<close>

definition gcp_op_kind :: "(string \<times> json) list \<Rightarrow> string" where
  "gcp_op_kind fs =
     (let k = lax_str (jfield ''kind'' fs) in
      if k \<noteq> [] then k else if lax_bool (jfield ''delete'' fs) then ''delete'' else ''create'')"

definition data_zone :: "'w gcp \<Rightarrow> (string \<times> json) list \<Rightarrow> string" where
  "data_zone g fs = (let z = lax_str (jfield ''zone'' fs) in if z = [] then gp_zone g else z)"

text \<open>The zonal operation, if there is one: \<open>None\<close> leaves the decision to the instance.\<close>

definition zone_op_status ::
    "'w gcp \<Rightarrow> ext_ref option \<Rightarrow> (string \<times> json) list \<Rightarrow> ('w gstate, operation_status option) io" where
  "zone_op_status g ref fs =
     (let op = lax_str (jfield ''op'' fs) in
      if op = [] then retS None
      else catchS (gcp_call g EffectNone (gc_zone_op (gp_api g) (data_zone g fs) op)) (\<lambda>r.
        case r of
          Inl e \<Rightarrow> if is_class e ErrNotFound then retS None else failS e
        | Inr (st, errs) \<Rightarrow>
            (if st = ''PENDING'' then retS (Some (status PsPending ref None (2 * sec)))
             else if st = ''RUNNING'' then retS (Some (status PsRunning ref None (2 * sec)))
             else if st = ''DONE'' \<and> errs \<noteq> []
               then retS (Some ((status PsFailed ref None 0)\<lparr>st_failure := Some (operation_failure errs)\<rparr>))
             else retS None)))"

definition gcp_terminal :: "string \<Rightarrow> observed_resource \<Rightarrow> operation_state" where
  "gcp_terminal kind obs =
     (if kind = ''delete'' then PsRunning
      else if kind = ''create'' then (if ob_phase obs = PhaseRunning then PsSucceeded else PsRunning)
      else if kind = ''stop'' then (if stop_complete (ob_provider_state obs) then PsSucceeded else PsRunning)
      else if kind = ''start'' then (if ob_provider_state obs = ''RUNNING'' then PsSucceeded else PsRunning)
      else PsUnknown)"

definition gcp_observe_op :: "'w gcp \<Rightarrow> operation_ref \<Rightarrow> ('w gstate, operation_status) io" where
  "gcp_observe_op g oref =
     (let fs = data_fields (or_data oref) in
      bindS (zone_op_status g (or_ref oref) fs) (\<lambda>st.
      case st of
        Some x \<Rightarrow> retS x
      | None \<Rightarrow>
          (let name = lax_str (jfield ''instance'' fs) in
           case (case or_ref oref of Some ref \<Rightarrow> Some ref
                  | None \<Rightarrow> if name = [] then None else Some (gcp_ref name (data_zone g fs))) of
             None \<Rightarrow> retS (status PsUnknown None None 0)
           | Some ref \<Rightarrow>
               bindS (gcp_get g ref) (\<lambda>obs.
               let q = gcp_terminal (gcp_op_kind fs) obs in
               retS (status q (Some ref) (if q = PsSucceeded then Some obs else None)
                 (if q = PsRunning then 2 * sec else 0))))))"

section \<open>The contract\<close>

definition gcp_refused :: "gcp_error \<Rightarrow> bool" where
  "gcp_refused e \<longleftrightarrow> (\<exists>c rs hd. e = GcpApi c rs hd \<and> c \<in> {404, 429, 403, 401, 400})"

text \<open>
  The documented behaviour: lookups change nothing, and neither does a mutation the API refuses.
\<close>

definition gcp_honest :: "('w \<Rightarrow> 'm) \<Rightarrow> 'w gcp_api \<Rightarrow> bool" where
  "gcp_honest mach c \<longleftrightarrow>
     (\<forall>z q t. reads_only mach (no_meta (gc_list c z q t))) \<and> (\<forall>z n. reads_only mach (no_meta (gc_get c z n)))
   \<and> (\<forall>p f. reads_only mach (no_meta (gc_family c p f))) \<and> (\<forall>p n. reads_only mach (no_meta (gc_image c p n)))
   \<and> (\<forall>t. reads_only mach (no_meta (gc_images c t)))
   \<and> (\<forall>z i. refusal_changes_nothing mach gcp_refused (no_meta (gc_insert c z i)))
   \<and> (\<forall>z n. refusal_changes_nothing mach gcp_refused (no_meta (gc_delete c z n)))
   \<and> (\<forall>z n. refusal_changes_nothing mach gcp_refused (no_meta (gc_stop c z n)))
   \<and> (\<forall>z n. refusal_changes_nothing mach gcp_refused (no_meta (gc_start c z n)))"

lemma gcp_not_refused: "\<not> gcp_refused e \<Longrightarrow> effect (fst (gcp_map_err now e EffectMaybe p)) \<noteq> EffectNone"
  by (auto simp: gcp_map_err_def gcp_refused_def split: gcp_error.splits)

lemma gcp_reads: "reads_only mach (no_meta f) \<Longrightarrow> keeps (cloud_view mach) (gcp_call g eff f)"
  unfolding gcp_call_def by (rule keeps_paced)

lemma gcp_mutates:
  "refusal_changes_nothing mach gcp_refused (no_meta f) \<Longrightarrow> truthful (cloud_view mach) (gcp_call g EffectMaybe f)"
  unfolding gcp_call_def by (rule truthful_paced) (assumption, rule gcp_not_refused)

lemma find_by_op_reads:
  assumes "gcp_honest mach (gp_api g)"
  shows "keeps (cloud_view mach) (find_by_op g zone oid)"
proof (rule keeps_like)
  let ?flt = "label_filter (lab gcp_short_names label_op) (encode_value oid)"
  let ?get = "token_pages (gp_max_pages g) (\<lambda>tok. gcp_call g EffectNone (gc_list (gp_api g) zone ?flt tok)) []"
  show "keeps (cloud_view mach) ?get"
    using assms [unfolded gcp_honest_def] by (intro keeps_token_pages gcp_reads) auto
  show "snd (find_by_op g zone oid s) = snd (?get s)" for s
    by (simp add: find_by_op_def Let_def split: prod.split sum.split)
qed

lemma keeps_image_lookup:
  "reads_only mach (no_meta f) \<Longrightarrow> keeps (cloud_view mach) (image_lookup g f)"
  unfolding image_lookup_def
  by (intro effect_rules gcp_reads) (auto intro: effect_rules split: sum.split)

lemma gcp_image_reads:
  assumes "gcp_honest mach (gp_api g)"
  shows "keeps (cloud_view mach) (gcp_image g spec)"
proof -
  note rd = assms [unfolded gcp_honest_def]
  have pages: "keeps (cloud_view mach) (token_pages n (\<lambda>tok. gcp_call g EffectNone (gc_images (gp_api g) tok)) t)" for n t
    using rd by (intro keeps_token_pages gcp_reads) auto
  have fam: "keeps (cloud_view mach) (image_lookup g (gc_family (gp_api g) a b))" for a b
    using rd by (intro keeps_image_lookup) auto
  have name: "keeps (cloud_view mach) (image_lookup g (gc_image (gp_api g) a b))" for a b
    using rd by (intro keeps_image_lookup) auto
  show ?thesis unfolding gcp_image_def Let_def by (intro effect_rules pages fam name)
qed

lemma gcp_power_truthful:
  assumes "gcp_honest mach (gp_api g)"
  shows "truthful (cloud_view mach) (gcp_apply_power g act)"
proof -
  note rd = assms [unfolded gcp_honest_def]
  have get: "keeps (cloud_view mach) (get_instance g z n)" for z n
    unfolding get_instance_def using rd by (intro gcp_reads) auto
  have move: "truthful (cloud_view mach) (catchS (gcp_call g EffectMaybe
        ((if b then gc_stop else gc_start) (gp_api g) z n)) (\<lambda>r.
      case r of Inr op \<Rightarrow> retS (f op)
      | Inl e \<Rightarrow> (if is_class e ErrInvalid \<or> is_class e ErrTerminal then
          catchS (get_instance g z n) (\<lambda>again. case again of
            Inr j \<Rightarrow> if settled (gi_status j) then retS (f []) else failS e | Inl _ \<Rightarrow> failS e)
          else failS e)))" for b z n settled and f :: "string \<Rightarrow> operation_ref"
  proof (rule truthful_caught)
    show "truthful (cloud_view mach) (gcp_call g EffectMaybe ((if b then gc_stop else gc_start) (gp_api g) z n))"
      using rd by (intro gcp_mutates) auto
  qed (auto intro!: effect_rules get simp: failS_def catchS_def retS_def split: prod.split sum.split)
  show ?thesis
    unfolding gcp_apply_power_def Let_def
    by (intro truthful_option truthful_failS truthful_if truthful_bindS get truthful_retS move)
qed

lemma gcp_truthful:
  assumes "gcp_honest mach (gp_api g)"
  shows "truthful (cloud_view mach) (gcp_apply pd g act)"
proof -
  note rd = assms [unfolded gcp_honest_def]
  have last: "truthful (cloud_view mach) (bindS (gcp_call g EffectMaybe (gc_insert (gp_api g) z q)) (\<lambda>op. retS (f op)))"
    for z q and f :: "string \<Rightarrow> operation_ref"
    using rd by (intro truthful_last gcp_mutates) auto
  have made: "truthful (cloud_view mach) (bindS (gcp_image g im) (\<lambda>src.
      bindS (gcp_call g EffectMaybe (gc_insert (gp_api g) z (q src))) (\<lambda>op. retS (f op))))"
    for im z q and f :: "string \<Rightarrow> operation_ref"
    by (rule truthful_bindS [OF gcp_image_reads [OF assms]], rule last)
  have create: "truthful (cloud_view mach) (gcp_apply_create pd g act)"
    unfolding gcp_apply_create_def Let_def
    by (intro truthful_bindS truthful_askS find_by_op_reads [OF assms] keeps_liftS)
      (auto intro: made truthful_retS split: option.split)
  have del: "truthful (cloud_view mach) (catchS (gcp_call g EffectMaybe (gc_delete (gp_api g) z n)) (\<lambda>r.
      case r of Inr op \<Rightarrow> retS (f op) | Inl e \<Rightarrow> (if is_class e ErrNotFound then retS y else failS e)))"
    for z n y and f :: "string \<Rightarrow> operation_ref"
    using rd by (intro truthful_caught gcp_mutates) (auto intro: effect_rules simp: failS_def)
  have delete: "truthful (cloud_view mach) (gcp_apply_delete g act)"
    unfolding gcp_apply_delete_def Let_def by (auto intro!: truthful_failS del split: option.split)
  show ?thesis
    unfolding gcp_apply_def using create delete gcp_power_truthful [OF assms] by (auto intro: effect_rules)
qed

lemma gcp_apply_answer:
  assumes "gcp_apply pd g act s = (Inr oref, t)"
  shows "or_action_id oref = ac_action_id act
    \<and> (ac_kind act \<noteq> ''create'' \<longrightarrow> ac_ref act \<noteq> None \<and> or_ref oref = ac_ref act)"
  using assms
  by (auto simp: gcp_apply_def gcp_apply_create_def gcp_apply_delete_def gcp_apply_power_def Let_def bindS_def
      askS_def catchS_def retS_def failS_def split: if_splits option.splits prod.splits sum.splits)

text \<open>The driver looks for the machine of an operation in the zone of its create parameters.\<close>

definition gcp_lookup :: "(string \<Rightarrow> int option) \<Rightarrow> 'w gcp \<Rightarrow> action \<Rightarrow> 'w gstate \<Rightarrow> ext_ref option \<times> 'w gstate" where
  "gcp_lookup pd g act s =
     (case read_params pd act of
        Inl _ \<Rightarrow> (None, s) | Inr p \<Rightarrow> find_by_op g (create_zone g p) (ac_action_id act) s)"

lemma gcp_lookup_reads:
  assumes "gcp_honest mach (gp_api g)"
  shows "keeps (cloud_view mach) (gcp_lookup pd g act)"
  using find_by_op_reads [OF assms] by (auto simp: keeps_def gcp_lookup_def split: sum.split)

interpretation gcp: truthful_driver "[''create'', ''delete'', ''stop'', ''start'']" "gcp_apply pd g" "gcp_lookup pd g"
    "\<lambda>act. is_ok (read_params pd act)" "cloud_view mach" "gcp_honest mach (gp_api g)"
  for pd g mach
proof (unfold_locales, goal_cases)
  case (1 act s ref t)
  then show ?case
    by (auto simp: gcp_apply_def gcp_apply_create_def gcp_lookup_def bindS_def liftS_def askS_def retS_def
        same_ref_def is_ok_def Let_def split: sum.splits)
next
  case (2 act s)
  then show ?case
    by (auto simp: gcp_apply_def gcp_apply_create_def read_params_def is_ok_def bindS_def liftS_def refuses_def
        split: sum.splits)
next
  case (3 act s)
  then show ?case by (simp add: gcp_apply_def)
qed (simp_all add: gcp_apply_answer gcp_lookup_reads gcp_truthful)

end
