(* ===== verification/AWS.thy ===== *)
theory AWS
  imports DO_Tags
begin

text \<open>
  The EC2 driver (providers/aws/aws.go) over the slice of the EC2 API it calls, a record of functions
  on a cloud state. A listing's filters are pairs of a name and the allowed values; it is read to the
  end with at most a given number of pages. Optional members of the API's structs are options.
\<close>

section \<open>The API's types\<close>

text \<open>An error the API codes, or any other.\<close>

datatype aws_error = AwsApi string | AwsTransport

record ec2_instance =
  ai_id :: "string option"
  ai_state :: "string option"
  ai_type :: string
  ai_tags :: "(string option \<times> string option) list"
  ai_public :: "string option"
  ai_v6 :: "string option"
  ai_private :: "string option"
  ai_native :: json

record ec2_image =
  am_id :: "string option"
  am_created :: "string option"

type_synonym ec2_filters = "(string \<times> string list) list"

record ec2_run =
  ar_image :: string
  ar_type :: string
  ar_token :: string
  ar_tags :: labels
  ar_zone :: "string option"
  ar_user_data :: "string option"
  ar_subnet :: "string option"
  ar_groups :: "string list"
  ar_key :: "string option"
  ar_profile :: "string option"

type_synonym ('w, 'a) acall = "'w \<Rightarrow> (aws_error + 'a) \<times> 'w"

text \<open>\<open>aw_describe\<close> and \<open>aw_by_id\<close> are the two uses of \<open>DescribeInstances\<close>.\<close>

record 'w ec2_api =
  aw_describe :: "ec2_filters \<Rightarrow> string \<Rightarrow> ('w, ec2_instance list \<times> string) acall"
  aw_by_id :: "string \<Rightarrow> ('w, ec2_instance list) acall"
  aw_run :: "ec2_run \<Rightarrow> ('w, string option list) acall"
  aw_terminate :: "string \<Rightarrow> ('w, unit) acall"
  aw_stop :: "string \<Rightarrow> ('w, unit) acall"
  aw_start :: "string \<Rightarrow> ('w, unit) acall"
  aw_images :: "string list \<Rightarrow> ec2_filters \<Rightarrow> string \<Rightarrow> ('w, ec2_image list \<times> string) acall"
  aw_types :: "string \<Rightarrow> ('w, (int option \<times> int option) list) acall"
  aw_regions :: "string \<Rightarrow> ('w, unit) acall"

record 'w aws =
  aw_api :: "'w ec2_api"
  aw_owner :: string
  aw_region :: string
  aw_subnet :: string
  aw_groups :: "string list"
  aw_key :: string
  aw_profile :: string
  aw_now :: int
  aw_max_pages :: nat

record 'w astate = "'w dstate" +
  as_cache :: "(string \<times> capacity) list"

section \<open>Errors\<close>

definition aws_map_err :: "int \<Rightarrow> aws_error folder" where
  "aws_map_err now e eff p =
     (case e of
        AwsTransport \<Rightarrow> (perr ErrRetryable eff [], p)
      | AwsApi c \<Rightarrow>
          (if c \<in> set [''Throttling'', ''ThrottlingException'', ''RequestLimitExceeded'', ''RequestThrottled'',
               ''RequestThrottledException''] then
             (let (d, p') = on_429 now 0 p in
              (EProv \<lparr>pe_class = ErrRateLimited, pe_side_effect = EffectNone, pe_retry_after = d, pe_message = []\<rparr>, p'))
           else if has_suffix ''.NotFound'' c then (perr ErrNotFound EffectNone [], p)
           else if c = ''InstanceLimitExceeded'' \<or> c = ''VcpuLimitExceeded'' then (perr ErrQuota EffectNone [], p)
           else if c = ''UnauthorizedOperation'' \<or> c = ''AuthFailure'' then (perr ErrInvalid EffectNone [], p)
           else if c = ''UnsupportedOperation'' then (perr ErrInvalid EffectNone [], p)
           else if c = ''IncorrectInstanceState'' then (perr ErrRetryable EffectNone [], p)
           else if c = ''IdempotentParameterMismatch'' then (perr ErrConflict eff [], p)
           else if has_suffix ''.Malformed'' c \<or> c = ''ValidationError'' \<or> c = ''MissingParameter''
               \<or> prefix ''InvalidParameter'' c then (perr ErrInvalid EffectNone [], p)
           else (perr ErrRetryable eff [], p)))"

definition aws_not_found :: err where
  "aws_not_found = perr ErrNotFound EffectNone ''instance not found''"

definition aws_call :: "'w aws \<Rightarrow> side_effect \<Rightarrow> ('w, 'a) acall \<Rightarrow> ('w astate, 'a) io" where
  "aws_call h eff f = paced (aw_now h) (aws_map_err (aw_now h)) eff (no_meta f)"

section \<open>Provider methods\<close>

definition aws_billing :: "string \<Rightarrow> billing_policy" where
  "aws_billing kind = (if kind = compute_kind
     then \<lparr>bp_minimum = 60 * sec, bp_increment = 0, bp_buffer = 0\<rparr> else zero_billing)"

definition aws_parking :: "string \<Rightarrow> park_policy" where
  "aws_parking kind = (if kind = compute_kind
     then \<lparr>pk_supported = True, pk_start_estimate = 30 * sec\<rparr> else zero_park)"

definition aws_health :: "'w aws \<Rightarrow> ('w astate, unit) io" where
  "aws_health h = aws_call h EffectNone (aw_regions (aw_api h) (aw_region h))"

section \<open>Observations\<close>

definition deref :: "string option \<Rightarrow> string" where
  "deref x = (case x of None \<Rightarrow> [] | Some s \<Rightarrow> s)"

definition aws_phase :: "string \<Rightarrow> observed_phase" where
  "aws_phase s =
     (if s = ''pending'' then PhasePending else if s = ''running'' then PhaseRunning
      else if s = ''stopping'' \<or> s = ''stopped'' then PhaseStopped
      else if s = ''shutting-down'' then PhaseDeleting
      else if s = ''terminated'' then PhaseGone else PhaseUnknown)"

definition type_capacity :: "int option \<times> int option \<Rightarrow> capacity" where
  "type_capacity t =
     (case fst t of None \<Rightarrow> [] | Some n \<Rightarrow> [(''cpu'', n)])
     @ (case snd t of None \<Rightarrow> [] | Some n \<Rightarrow> [(''memoryMiB'', n)])"

definition aws_capacity :: "'w aws \<Rightarrow> string \<Rightarrow> 'w astate \<Rightarrow> capacity \<times> 'w astate" where
  "aws_capacity h ty s =
     (if ty = [] then ([], s)
      else case map_of (as_cache s) ty of
        Some c \<Rightarrow> (c, s)
      | None \<Rightarrow>
          (case aws_call h EffectNone (aw_types (aw_api h) ty) s of
             (Inr (info # _), t) \<Rightarrow> (let c = type_capacity info in (c, t\<lparr>as_cache := (ty, c) # as_cache t\<rparr>))
           | (_, t) \<Rightarrow> ([], t)))"

definition aws_labels :: "(string option \<times> string option) list \<Rightarrow> labels" where
  "aws_labels tags = fold (\<lambda>(k, v) m. case k of None \<Rightarrow> m | Some key \<Rightarrow> put key (deref v) m) tags []"

definition aws_addresses :: "ec2_instance \<Rightarrow> addresses" where
  "aws_addresses i = filter (\<lambda>(_, a). a \<noteq> [])
     [(''public-v4'', deref (ai_public i)), (''public-v6'', deref (ai_v6 i)), (''private'', deref (ai_private i))]"

definition aws_observe :: "'w aws \<Rightarrow> ec2_instance \<Rightarrow> ('w astate, observed_resource) io" where
  "aws_observe h i =
     (let ls = aws_labels (ai_tags i); st = deref (ai_state i) in
      askS (aws_capacity h (ai_type i)) (\<lambda>c.
      retS \<lparr>ob_ref = \<lparr>ref_id = deref (ai_id i), ref_extra = []\<rparr>, ob_kind = compute_kind,
        ob_fleetplane_id = lab ls label_id, ob_create_op_id = lab ls label_op,
        ob_owned = owned_by (aw_owner h) ls, ob_phase = aws_phase st, ob_provider_state = st,
        ob_capacity = c, ob_addresses = aws_addresses i, ob_labels = ls, ob_extensions = BVal (ai_native i)\<rparr>))"

section \<open>Reads\<close>

definition live_states :: "string list" where
  "live_states = [''pending'', ''running'', ''shutting-down'', ''stopping'', ''stopped'']"

definition dedup_states :: "string list" where
  "dedup_states = [''pending'', ''running'', ''stopping'', ''stopped'']"

definition tag_filter :: "string \<Rightarrow> string \<Rightarrow> string \<times> string list" where
  "tag_filter k v = (''tag:'' @ k, [v])"

definition describe_all :: "'w aws \<Rightarrow> ec2_filters \<Rightarrow> ('w astate, ec2_instance list) io" where
  "describe_all h flt =
     token_pages (aw_max_pages h) (\<lambda>tok. aws_call h EffectNone (aw_describe (aw_api h) flt tok)) []"

definition aws_discover :: "'w aws \<Rightarrow> discover_scope \<Rightarrow> labels \<Rightarrow> ('w astate, observed_resource list) io" where
  "aws_discover h scope sel =
     bindS (describe_all h ((''instance-state-name'', live_states)
       # (if scope = ScopeAll then [] else [tag_filter label_managed ''true'', tag_filter label_owner (aw_owner h)])
       @ map (\<lambda>(k, v). tag_filter k v) (sort_key fst sel))) (mapS (aws_observe h))"

text \<open>The first instance of an answer for one id.\<close>

definition aws_first :: "'w aws \<Rightarrow> string \<Rightarrow> ('w astate, ec2_instance) io" where
  "aws_first h i =
     (if i = [] then failS (invalid_err ''empty instance id'')
      else bindS (aws_call h EffectNone (aw_by_id (aw_api h) i)) (\<lambda>r.
        case r of [] \<Rightarrow> failS aws_not_found | x # _ \<Rightarrow> retS x))"

definition aws_get :: "'w aws \<Rightarrow> ext_ref \<Rightarrow> ('w astate, observed_resource) io" where
  "aws_get h ref = bindS (aws_first h (ref_id ref)) (aws_observe h)"

definition instance_state :: "'w aws \<Rightarrow> string \<Rightarrow> ('w astate, string) io" where
  "instance_state h i = bindS (aws_first h i) (\<lambda>x. retS (deref (ai_state x)))"

section \<open>Images\<close>

definition aws_newest :: "ec2_image list \<Rightarrow> ec2_image option" where
  "aws_newest imgs =
     fold (\<lambda>i best. if am_id i = None then best
        else (case best of None \<Rightarrow> Some i | Some b \<Rightarrow> if deref (am_created i) > deref (am_created b) then Some i else best))
       imgs None"

definition newest_image :: "'w aws \<Rightarrow> string list \<Rightarrow> string \<times> string list \<Rightarrow> ('w astate, string) io" where
  "newest_image h owners flt =
     bindS (token_pages (aw_max_pages h) (\<lambda>tok. aws_call h EffectNone
         (aw_images (aw_api h) owners [flt, (''state'', [''available''])] tok)) []) (\<lambda>imgs.
     case aws_newest imgs of None \<Rightarrow> failS (invalid_err ''no image matches'') | Some i \<Rightarrow> retS (deref (am_id i)))"

definition aws_image :: "'w aws \<Rightarrow> string \<Rightarrow> ('w astate, string) io" where
  "aws_image h spec =
     (case cut_at (CHR '':'') spec of
        None \<Rightarrow> failS (invalid_err ''image must be id, name or snapshot'')
      | Some (kind, rest) \<Rightarrow>
          (if rest = [] then failS (invalid_err ''image must be id, name or snapshot'')
           else if kind = ''id'' then
             (if prefix ''ami-'' rest then retS rest else failS (invalid_err ''malformed image id''))
           else if kind = ''name'' then newest_image h [''self'', ''amazon''] (''name'', [rest])
           else if kind = ''snapshot'' then
             (case cut_at (CHR ''='') rest of
                None \<Rightarrow> failS (invalid_err ''snapshot image selector must be snapshot:k=v'')
              | Some (k, v) \<Rightarrow>
                  (if k = [] then failS (invalid_err ''snapshot image selector must be snapshot:k=v'')
                   else newest_image h [''self''] (tag_filter k v)))
           else failS (invalid_err ''unknown image form'')))"

section \<open>Mutations\<close>

definition aws_data :: "string \<Rightarrow> bool \<Rightarrow> string \<Rightarrow> json blob" where
  "aws_data i del op = BVal (JObj ([(''v'', JNum 1), (''instanceId'', JStr i)]
     @ (if del then [(''delete'', JBool True)] else []) @ (if op = [] then [] else [(''op'', JStr op)])))"

text \<open>Spec labels, then the name, then the identity labels, in the order of their keys.\<close>

definition create_tags :: "string \<Rightarrow> labels \<Rightarrow> labels \<Rightarrow> labels" where
  "create_tags name spec_labels identity =
     sort_key fst (merge_labels (merge_labels spec_labels (if name = [] then [] else [(''Name'', name)])) identity)"

definition some_text :: "string \<Rightarrow> string option" where
  "some_text s = (if s = [] then None else Some s)"

text \<open>The instance of an earlier run of the operation, in a usable state.\<close>

definition aws_dedup :: "'w aws \<Rightarrow> string \<Rightarrow> 'w astate \<Rightarrow> ext_ref option \<times> 'w astate" where
  "aws_dedup h oid s =
     (case describe_all h [tag_filter label_op oid, (''instance-state-name'', dedup_states)] s of
        (Inr (x # _), t) \<Rightarrow> (map_option (\<lambda>i. \<lparr>ref_id = i, ref_extra = []\<rparr>) (ai_id x), t)
      | (_, t) \<Rightarrow> (None, t))"

definition aws_apply_create :: "(string \<Rightarrow> int option) \<Rightarrow> 'w aws \<Rightarrow> action \<Rightarrow> ('w astate, operation_ref) io" where
  "aws_apply_create pd h act =
     bindS (liftS (read_params pd act)) (\<lambda>p.
     askS (aws_dedup h (ac_action_id act)) (\<lambda>existing.
     case existing of
       Some ref \<Rightarrow> retS \<lparr>or_action_id = ac_action_id act, or_ref = Some ref, or_data = BNil\<rparr>
     | None \<Rightarrow>
         bindS (aws_image h (ma_image (cp_spec p))) (\<lambda>img.
         bindS (aws_call h EffectMaybe (aw_run (aw_api h)
           \<lparr>ar_image = img, ar_type = ma_server_type (cp_spec p), ar_token = ac_action_id act,
            ar_tags = create_tags (cp_name p) (ma_labels (cp_spec p)) (cp_labels p),
            ar_zone = some_text (ma_location (cp_spec p)),
            ar_user_data = map_option base64 (some_text (ma_user_data (cp_spec p))),
            ar_subnet = some_text (aw_subnet h), ar_groups = aw_groups h, ar_key = some_text (aw_key h),
            ar_profile = some_text (aw_profile h)\<rparr>)) (\<lambda>r.
         case r of
           Some i # _ \<Rightarrow> retS \<lparr>or_action_id = ac_action_id act,
             or_ref = Some \<lparr>ref_id = i, ref_extra = []\<rparr>, or_data = aws_data i False []\<rparr>
         | _ \<Rightarrow> failS (perr ErrRetryable EffectMaybe ''RunInstances returned no instance'')))))"

definition aws_apply_delete :: "'w aws \<Rightarrow> action \<Rightarrow> ('w astate, operation_ref) io" where
  "aws_apply_delete h act =
     (case ac_ref act of
        None \<Rightarrow> failS (invalid_err ''delete requires a ref'')
      | Some ref \<Rightarrow>
          catchS (aws_call h EffectMaybe (aw_terminate (aw_api h) (ref_id ref))) (\<lambda>r.
          case r of
            Inr _ \<Rightarrow> retS \<lparr>or_action_id = ac_action_id act, or_ref = Some ref,
              or_data = aws_data (ref_id ref) True []\<rparr>
          | Inl e \<Rightarrow>
              (if is_class e ErrNotFound
               then retS \<lparr>or_action_id = ac_action_id act, or_ref = Some ref, or_data = BNil\<rparr>
               else failS e)))"

definition aws_apply_power :: "'w aws \<Rightarrow> action \<Rightarrow> ('w astate, operation_ref) io" where
  "aws_apply_power h act =
     (case ac_ref act of
        None \<Rightarrow> failS (invalid_err ''requires a ref'')
      | Some ref \<Rightarrow>
          bindS (instance_state h (ref_id ref)) (\<lambda>st.
          let ok = \<lparr>or_action_id = ac_action_id act, or_ref = Some ref,
                or_data = aws_data (ref_id ref) False (ac_kind act)\<rparr> in
          if st = ''shutting-down'' \<or> st = ''terminated'' then failS aws_not_found
          else if ac_kind act = ''stop'' then
            (if st = ''stopped'' \<or> st = ''stopping'' then retS ok
             else bindS (aws_call h EffectMaybe (aw_stop (aw_api h) (ref_id ref))) (\<lambda>_. retS ok))
          else
            (if st = ''running'' \<or> st = ''pending'' then retS ok
             else bindS (aws_call h EffectMaybe (aw_start (aw_api h) (ref_id ref))) (\<lambda>_. retS ok))))"

definition aws_apply :: "(string \<Rightarrow> int option) \<Rightarrow> 'w aws \<Rightarrow> action \<Rightarrow> ('w astate, operation_ref) io" where
  "aws_apply pd h act =
     (if ac_kind act = ''create'' then aws_apply_create pd h act
      else if ac_kind act = ''delete'' then aws_apply_delete h act
      else if ac_kind act = ''stop'' \<or> ac_kind act = ''start'' then aws_apply_power h act
      else failS (invalid_err ''unknown action kind''))"

section \<open>Observation of an operation\<close>

text \<open>What the resume data and the machine say together; \<open>None\<close> is not found.\<close>

definition aws_terminal :: "(string \<times> json) list \<Rightarrow> observed_resource \<Rightarrow> operation_state option" where
  "aws_terminal fs obs =
     (let op = lax_str (jfield ''op'' fs); gone = (ob_phase obs = PhaseGone) in
      if op = ''stop'' then
        (if gone then None else Some (if ob_provider_state obs = ''stopped'' then PsSucceeded else PsRunning))
      else if op = ''start'' then
        (if gone then None else Some (if ob_provider_state obs = ''running'' then PsSucceeded else PsRunning))
      else if lax_bool (jfield ''delete'' fs) then Some (if gone then PsSucceeded else PsRunning)
      else if lax_str (jfield ''instanceId'' fs) \<noteq> [] \<and> op = [] then
        (if gone then None else Some (if ob_phase obs = PhaseRunning then PsSucceeded else PsRunning))
      else (if gone then None else Some PsUnknown))"

definition aws_observe_op :: "'w aws \<Rightarrow> operation_ref \<Rightarrow> ('w astate, operation_status) io" where
  "aws_observe_op h oref =
     (case or_ref oref of
        None \<Rightarrow> retS (status PsUnknown None None 0)
      | Some ref \<Rightarrow>
          bindS (aws_get h ref) (\<lambda>obs.
          case aws_terminal (data_fields (or_data oref)) obs of
            None \<Rightarrow> failS aws_not_found
          | Some q \<Rightarrow> retS (status q (Some ref) (if q = PsRunning then None else Some obs)
              (if q = PsSucceeded then 0 else 2 * sec))))"

section \<open>The contract\<close>

text \<open>The codes with which EC2 refuses a request outright.\<close>

definition aws_refused :: "aws_error \<Rightarrow> bool" where
  "aws_refused e \<longleftrightarrow> (\<exists>c. e = AwsApi c \<and>
     (c \<in> set [''Throttling'', ''ThrottlingException'', ''RequestLimitExceeded'', ''RequestThrottled'',
        ''RequestThrottledException'', ''InstanceLimitExceeded'', ''VcpuLimitExceeded'', ''UnauthorizedOperation'',
        ''AuthFailure'', ''UnsupportedOperation'', ''IncorrectInstanceState'', ''ValidationError'', ''MissingParameter'']
      \<or> has_suffix ''.NotFound'' c \<or> has_suffix ''.Malformed'' c \<or> prefix ''InvalidParameter'' c))"

definition aws_honest :: "('w \<Rightarrow> 'm) \<Rightarrow> 'w ec2_api \<Rightarrow> bool" where
  "aws_honest mach c \<longleftrightarrow>
     (\<forall>f t. reads_only mach (no_meta (aw_describe c f t))) \<and> (\<forall>i. reads_only mach (no_meta (aw_by_id c i)))
   \<and> (\<forall>ow f t. reads_only mach (no_meta (aw_images c ow f t)))
   \<and> (\<forall>q. refusal_changes_nothing mach aws_refused (no_meta (aw_run c q)))
   \<and> (\<forall>i. refusal_changes_nothing mach aws_refused (no_meta (aw_terminate c i)))
   \<and> (\<forall>i. refusal_changes_nothing mach aws_refused (no_meta (aw_stop c i)))
   \<and> (\<forall>i. refusal_changes_nothing mach aws_refused (no_meta (aw_start c i)))"

lemma aws_not_refused:
  assumes "\<not> aws_refused e"
  shows "effect (fst (aws_map_err now e EffectMaybe p)) \<noteq> EffectNone"
proof (cases e)
  case (AwsApi c)
  with assms have "aws_map_err now e EffectMaybe p = (perr ErrConflict EffectMaybe [], p)
      \<or> aws_map_err now e EffectMaybe p = (perr ErrRetryable EffectMaybe [], p)"
    unfolding aws_refused_def aws_map_err_def by simp
  then show ?thesis by auto
qed (simp add: aws_map_err_def)

lemma aws_reads: "reads_only mach (no_meta f) \<Longrightarrow> keeps (cloud_view mach) (aws_call h eff f)"
  unfolding aws_call_def by (rule keeps_paced)

lemma aws_mutates:
  "refusal_changes_nothing mach aws_refused (no_meta f) \<Longrightarrow> truthful (cloud_view mach) (aws_call h EffectMaybe f)"
  unfolding aws_call_def by (rule truthful_paced) (assumption, rule aws_not_refused)

lemma aws_dedup_reads:
  assumes "aws_honest mach (aw_api h)"
  shows "keeps (cloud_view mach) (aws_dedup h oid)"
proof (rule keeps_like)
  let ?flt = "[tag_filter label_op oid, (''instance-state-name'', dedup_states)]"
  show "keeps (cloud_view mach) (describe_all h ?flt)"
    unfolding describe_all_def using assms [unfolded aws_honest_def] by (intro keeps_token_pages aws_reads) auto
  show "snd (aws_dedup h oid s) = snd (describe_all h ?flt s)" for s
    by (simp add: aws_dedup_def split: prod.split sum.split list.split)
qed

lemma aws_truthful:
  assumes "aws_honest mach (aw_api h)"
  shows "truthful (cloud_view mach) (aws_apply pd h act)"
proof -
  note rd = assms [unfolded aws_honest_def]
  have newest: "keeps (cloud_view mach) (newest_image h ow f)" for ow f
    unfolding newest_image_def using rd by (intro effect_rules keeps_token_pages aws_reads) auto
  have img: "keeps (cloud_view mach) (aws_image h spec)" for spec
    unfolding aws_image_def by (intro effect_rules newest)
  have state: "keeps (cloud_view mach) (instance_state h i)" for i
    unfolding instance_state_def aws_first_def using rd
    by (intro effect_rules aws_reads) (auto intro: effect_rules split: list.split)
  have run: "truthful (cloud_view mach) (bindS (aws_call h EffectMaybe (aw_run (aw_api h) q)) (\<lambda>r.
      case r of Some i # _ \<Rightarrow> retS (f i) | _ \<Rightarrow> failS (perr ErrRetryable EffectMaybe m)))"
    for q m and f :: "string \<Rightarrow> operation_ref"
  proof (rule truthful_bindS_final)
    show "truthful (cloud_view mach) (aws_call h EffectMaybe (aw_run (aw_api h) q))"
      using rd by (intro aws_mutates) auto
  qed (auto simp: retS_def failS_def split: list.splits option.splits)
  have create: "truthful (cloud_view mach) (aws_apply_create pd h act)"
    unfolding aws_apply_create_def
    by (intro truthful_bindS truthful_askS truthful_option truthful_retS keeps_liftS aws_dedup_reads [OF assms] img run)
  have del: "truthful (cloud_view mach) (catchS (aws_call h EffectMaybe (aw_terminate (aw_api h) i)) (\<lambda>r.
      case r of Inr _ \<Rightarrow> retS x | Inl e \<Rightarrow> (if is_class e ErrNotFound then retS y else failS e)))"
    for i and x y :: operation_ref
    using rd by (intro truthful_caught aws_mutates) (auto intro: effect_rules simp: failS_def)
  have delete: "truthful (cloud_view mach) (aws_apply_delete h act)"
    unfolding aws_apply_delete_def by (intro truthful_option truthful_failS del)
  have stop: "truthful (cloud_view mach) (bindS (aws_call h EffectMaybe (aw_stop (aw_api h) i)) (\<lambda>_. retS x))"
    and start: "truthful (cloud_view mach) (bindS (aws_call h EffectMaybe (aw_start (aw_api h) i)) (\<lambda>_. retS x))"
    for i and x :: operation_ref
    using rd by (intro truthful_last aws_mutates; simp)+
  have power: "truthful (cloud_view mach) (aws_apply_power h act)"
    unfolding aws_apply_power_def Let_def
    by (intro truthful_option truthful_failS truthful_bindS truthful_if state truthful_retS stop start)
  show ?thesis
    unfolding aws_apply_def using create delete power by (intro truthful_if truthful_failS)
qed

lemma guarded_answer:
  assumes "(if a then failS e else if b then (if c then retS x else bindS m (\<lambda>_. retS x))
      else (if d then retS x else bindS n (\<lambda>_. retS x))) u = (Inr y, t)"
  shows "y = x"
  using assms by (cases a; cases b; cases c; cases d) (auto simp: retS_def failS_def elim!: bindS_InrE)

lemma aws_power_answer:
  assumes "aws_apply_power h act s = (Inr oref, t)"
  shows "or_action_id oref = ac_action_id act \<and> ac_ref act \<noteq> None \<and> or_ref oref = ac_ref act"
proof (cases "ac_ref act")
  case None
  with assms show ?thesis by (simp add: aws_apply_power_def failS_def)
next
  case (Some ref)
  from assms obtain st u where "oref = \<lparr>or_action_id = ac_action_id act, or_ref = Some ref,
      or_data = aws_data (ref_id ref) False (ac_kind act)\<rparr>"
    unfolding aws_apply_power_def Some option.case Let_def by (elim bindS_InrE) (drule guarded_answer, blast)
  then show ?thesis using Some by simp
qed

lemma aws_delete_answer:
  assumes "aws_apply_delete h act s = (Inr oref, t)"
  shows "or_action_id oref = ac_action_id act \<and> ac_ref act \<noteq> None \<and> or_ref oref = ac_ref act"
  using assms
  by (auto simp: aws_apply_delete_def catchS_def retS_def failS_def split: option.splits prod.splits sum.splits if_split_asm)

lemma aws_create_answer:
  assumes "aws_apply_create pd h act s = (Inr oref, t)"
  shows "or_action_id oref = ac_action_id act"
  using assms
  by (auto simp: aws_apply_create_def askS_def retS_def failS_def elim!: bindS_InrE
      split: option.splits prod.splits list.splits)

lemma aws_apply_answer:
  assumes "aws_apply pd h act s = (Inr oref, t)"
  shows "or_action_id oref = ac_action_id act
    \<and> (ac_kind act \<noteq> ''create'' \<longrightarrow> ac_ref act \<noteq> None \<and> or_ref oref = ac_ref act)"
  using assms aws_power_answer [of h act s oref t] aws_delete_answer [of h act s oref t]
    aws_create_answer [of pd h act s oref t]
  by (simp add: aws_apply_def failS_def split: if_split_asm)

interpretation aws: truthful_driver "[''create'', ''delete'', ''stop'', ''start'']" "aws_apply pd h"
    "\<lambda>act. aws_dedup h (ac_action_id act)" "\<lambda>act. is_ok (read_params pd act)" "cloud_view mach"
    "aws_honest mach (aw_api h)"
  for pd h mach
proof (unfold_locales, goal_cases)
  case (1 act s ref t)
  then show ?case
    by (auto simp: aws_apply_def aws_apply_create_def bindS_def liftS_def askS_def retS_def same_ref_def is_ok_def
        split: sum.splits)
next
  case (2 act s)
  then show ?case
    by (auto simp: aws_apply_def aws_apply_create_def read_params_def is_ok_def bindS_def liftS_def refuses_def
        split: sum.splits)
next
  case (3 act s)
  then show ?case by (simp add: aws_apply_def)
qed (simp_all add: aws_apply_answer aws_dedup_reads aws_truthful)

end
