(* ===== verification/Docker.thy ===== *)
theory Docker
  imports Driver_Kit
begin

text \<open>
  The Docker driver (providers/docker/docker.go). The Engine API is a function from a request to an
  answer on a state of any type; a request is what it asks for, without the text of its URL, and a
  body is the document \<open>json.Unmarshal\<close> sees.
\<close>

section \<open>The Engine API\<close>

record dk_create =
  dc_image :: string
  dc_cmd :: "string list"
  dc_labels :: labels
  dc_nano_cpus :: int
  dc_memory :: int
  dc_network :: "string option"
  dc_env :: "string list"

datatype dk_request =
  DkPing | DkList "string list" | DkInspect string | DkCreate string dk_create
| DkStart string | DkStop string | DkRemove string | DkPull string

text \<open>No answer, a status whose body breaks off, or a status with its body.\<close>

datatype dk_answer = DkNoAnswer | DkBroken int | DkAnswer int "json blob"

type_synonym 'w dk_http = "dk_request \<Rightarrow> 'w \<Rightarrow> dk_answer \<times> 'w"

record 'w docker =
  dk_http :: "'w dk_http"
  dk_owner :: string
  dk_command :: "string list"
  dk_network :: string

section \<open>Transport\<close>

definition dk_retryable :: err where
  "dk_retryable = perr ErrRetryable EffectNone []"

definition dk_map_status :: "int \<Rightarrow> side_effect \<Rightarrow> err" where
  "dk_map_status code eff =
     (if code = 404 then perr ErrNotFound EffectNone []
      else if code = 409 then perr ErrConflict eff []
      else if code = 400 \<or> code = 403 then perr ErrInvalid EffectNone []
      else perr ErrRetryable eff [])"

fun is_get :: "dk_request \<Rightarrow> bool" where
  "is_get DkPing = True"
| "is_get (DkList ls) = True"
| "is_get (DkInspect i) = True"
| "is_get _ = False"

definition dk_do :: "'w docker \<Rightarrow> dk_request \<Rightarrow> side_effect \<Rightarrow> ('w, json blob) io" where
  "dk_do d req eff w =
     (case dk_http d req w of
        (DkNoAnswer, w') \<Rightarrow> (Inl (perr ErrRetryable (if is_get req then EffectNone else eff) []), w')
      | (DkBroken code, w') \<Rightarrow> (Inl dk_retryable, w')
      | (DkAnswer code body, w') \<Rightarrow>
          (if code \<ge> 300 \<and> code \<noteq> 304 then (Inl (dk_map_status code eff), w') else (Inr body, w')))"

section \<open>Provider methods\<close>

definition dk_parking :: "string \<Rightarrow> park_policy" where
  "dk_parking kind = (if kind = compute_kind
     then \<lparr>pk_supported = True, pk_start_estimate = 2 * sec\<rparr> else zero_park)"

definition dk_health :: "'w docker \<Rightarrow> ('w, unit) io" where
  "dk_health d = bindS (dk_do d DkPing EffectNone) (\<lambda>_. retS ())"

section \<open>Observations\<close>

fun get_obj :: "json \<Rightarrow> err + (string \<times> json) list" where
  "get_obj JNull = Inr []"
| "get_obj (JObj fs) = Inr fs"
| "get_obj _ = Inl bad_type"

record dk_inspect =
  dn_id :: string
  dn_labels :: labels
  dn_status :: string
  dn_exit_code :: int
  dn_nano_cpus :: int
  dn_memory :: int
  dn_addresses :: "string list"

fun network_addresses :: "(string \<times> json) list \<Rightarrow> err + string list" where
  "network_addresses [] = Inr []"
| "network_addresses ((_, n) # r) =
     bindE (get_obj n) (\<lambda>fs. bindE (get_str (jfield ''IPAddress'' fs)) (\<lambda>a.
     bindE (network_addresses r) (\<lambda>as. Inr (a # as))))"

definition decode_inspect :: "json blob \<Rightarrow> err + dk_inspect" where
  "decode_inspect raw =
     (case raw of
        BVal j \<Rightarrow>
          bindE (get_obj j) (\<lambda>fs.
          bindE (get_str (jfield ''Id'' fs)) (\<lambda>i.
          bindE (get_obj (jfield ''Config'' fs)) (\<lambda>cfg.
          bindE (get_labels (jfield ''Labels'' cfg)) (\<lambda>ls.
          bindE (get_obj (jfield ''State'' fs)) (\<lambda>st.
          bindE (get_str (jfield ''Status'' st)) (\<lambda>status.
          bindE (get_int (jfield ''ExitCode'' st)) (\<lambda>exit.
          bindE (get_obj (jfield ''HostConfig'' fs)) (\<lambda>hc.
          bindE (get_int (jfield ''NanoCpus'' hc)) (\<lambda>cpus.
          bindE (get_int (jfield ''Memory'' hc)) (\<lambda>mib.
          bindE (get_obj (jfield ''NetworkSettings'' fs)) (\<lambda>ns.
          bindE (get_obj (jfield ''Networks'' ns)) (\<lambda>nets.
          bindE (network_addresses nets) (\<lambda>addrs.
          Inr \<lparr>dn_id = i, dn_labels = ls, dn_status = status, dn_exit_code = exit, dn_nano_cpus = cpus,
            dn_memory = mib, dn_addresses = addrs\<rparr>)))))))))))))
      | _ \<Rightarrow> Inl bad_type)"

definition dk_phase :: "string \<Rightarrow> observed_phase" where
  "dk_phase s =
     (if s = ''created'' \<or> s = ''restarting'' then PhasePending
      else if s = ''running'' then PhaseRunning
      else if s = ''exited'' \<or> s = ''paused'' then PhaseStopped
      else if s = ''removing'' then PhaseDeleting
      else PhaseUnknown)"

definition dk_observe :: "'w docker \<Rightarrow> json blob \<Rightarrow> err + observed_resource" where
  "dk_observe d raw =
     (case decode_inspect raw of
        Inl _ \<Rightarrow> Inl dk_retryable
      | Inr c \<Rightarrow>
          Inr \<lparr>ob_ref = \<lparr>ref_id = dn_id c, ref_extra = []\<rparr>, ob_kind = compute_kind,
            ob_fleetplane_id = lab (dn_labels c) label_id, ob_create_op_id = lab (dn_labels c) label_op,
            ob_owned = owned_by (dk_owner d) (dn_labels c), ob_phase = dk_phase (dn_status c),
            ob_provider_state = dn_status c,
            ob_capacity = [(''cpu'', go_div (dn_nano_cpus c) 1000000000), (''memoryMiB'', dn_memory c div 2 ^ 20)],
            ob_addresses = map (\<lambda>a. (''private'', a)) (filter (\<lambda>a. a \<noteq> []) (dn_addresses c)),
            ob_labels = dn_labels c, ob_extensions = raw\<rparr>)"

definition dk_get :: "'w docker \<Rightarrow> ext_ref \<Rightarrow> ('w, observed_resource) io" where
  "dk_get d ref = bindS (dk_do d (DkInspect (ref_id ref)) EffectNone) (\<lambda>body. liftS (dk_observe d body))"

fun list_ids :: "json list \<Rightarrow> err + string list" where
  "list_ids [] = Inr []"
| "list_ids (j # r) = bindE (get_obj j) (\<lambda>fs. bindE (get_str (jfield ''Id'' fs)) (\<lambda>i.
     bindE (list_ids r) (\<lambda>is. Inr (i # is))))"

definition decode_list :: "json blob \<Rightarrow> err + string list" where
  "decode_list raw = (case raw of BVal (JArr js) \<Rightarrow> list_ids js | BVal JNull \<Rightarrow> Inr [] | _ \<Rightarrow> Inl bad_type)"

text \<open>Every listed container is inspected; one that has gone meanwhile is skipped.\<close>

fun dk_inspect_all :: "'w docker \<Rightarrow> string list \<Rightarrow> ('w, observed_resource list) io" where
  "dk_inspect_all d [] = retS []"
| "dk_inspect_all d (i # is) =
     catchS (dk_get d \<lparr>ref_id = i, ref_extra = []\<rparr>) (\<lambda>r.
     case r of
       Inr obs \<Rightarrow> bindS (dk_inspect_all d is) (\<lambda>rest. retS (obs # rest))
     | Inl e \<Rightarrow> if is_class e ErrNotFound then dk_inspect_all d is else failS e)"

definition dk_discover :: "'w docker \<Rightarrow> discover_scope \<Rightarrow> labels \<Rightarrow> ('w, observed_resource list) io" where
  "dk_discover d scope sel =
     bindS (dk_do d (DkList ((if scope = ScopeAll then []
         else [label_managed @ ''=true'', label_owner @ ''='' @ dk_owner d])
       @ map (\<lambda>(k, v). k @ ''='' @ v) sel)) EffectNone) (\<lambda>body.
     case decode_list body of
       Inl _ \<Rightarrow> failS dk_retryable
     | Inr is \<Rightarrow> dk_inspect_all d is)"

section \<open>Planning\<close>

text \<open>A size is the number of processors, and the memory in MiB after an x.\<close>

definition parse_size :: "string \<Rightarrow> (int \<times> int) option" where
  "parse_size s =
     (let (c, m) = (case cut_at (CHR ''x'') s of None \<Rightarrow> (s, []) | Some cm \<Rightarrow> cm) in
      case parse_int c of
        None \<Rightarrow> None
      | Some cpu \<Rightarrow>
          (if cpu \<le> 0 then None
           else if m = [] then Some (cpu, 0)
           else (case parse_int m of None \<Rightarrow> None | Some mib \<Rightarrow> if mib < 6 then None else Some (cpu, mib))))"

definition image_ref :: "string \<Rightarrow> string option" where
  "image_ref s =
     (let r = trim_prefix ''name:'' s in
      if r = [] \<or> prefix ''snapshot:'' r \<or> prefix ''id:'' r then None else Some r)"

record dk_params =
  dk_base :: create_params
  dk_cpu :: int
  dk_mem :: int

definition dk_encode_params :: "(int \<Rightarrow> string) \<Rightarrow> dk_params \<Rightarrow> json" where
  "dk_encode_params show_d p =
     JObj [(''name'', JStr (cp_name (dk_base p))), (''spec'', encode_machine show_d (cp_spec (dk_base p))),
       (''cpu'', JNum (dk_cpu p)), (''memMiB'', JNum (dk_mem p)), (''labels'', encode_labels (cp_labels (dk_base p)))]"

definition dk_decode_params :: "(string \<Rightarrow> int option) \<Rightarrow> json blob \<Rightarrow> err + dk_params" where
  "dk_decode_params pd raw =
     bindE (decode_params pd raw) (\<lambda>b.
     bindE (get_int (jfield ''cpu'' (data_fields raw))) (\<lambda>cpu.
     bindE (get_int (jfield ''memMiB'' (data_fields raw))) (\<lambda>mib.
     Inr \<lparr>dk_base = b, dk_cpu = cpu, dk_mem = mib\<rparr>)))"

definition dk_plan :: "(string \<Rightarrow> int option) \<Rightarrow> (int \<Rightarrow> string) \<Rightarrow> string \<Rightarrow> desired_state \<Rightarrow> err + action list" where
  "dk_plan pd show_d rid ds =
     (case parse_spec pd (ds_spec ds) of
        Inl _ \<Rightarrow> Inl (invalid_err ''invalid spec'')
      | Inr spec \<Rightarrow>
          (case parse_size (ma_server_type spec) of
             None \<Rightarrow> Inl (invalid_err ''docker serverType must be cpu x memMiB'')
           | Some (cpu, mib) \<Rightarrow>
               (if image_ref (ma_image spec) = None then Inl (invalid_err ''docker image must be a reference'')
                else Inr [\<lparr>ac_action_id = [], ac_kind = ''create'', ac_resource_id = rid, ac_ref = None,
                   ac_params = BVal (dk_encode_params show_d \<lparr>dk_base = \<lparr>cp_name = ''fp-'' @ rid, cp_spec = spec,
                     cp_labels = ds_labels ds\<rparr>, dk_cpu = cpu, dk_mem = mib\<rparr>),
                   ac_destructive = False\<rparr>])))"

section \<open>Mutations\<close>

definition dk_op_ref :: "action \<Rightarrow> ext_ref option \<Rightarrow> operation_ref" where
  "dk_op_ref act ref = \<lparr>or_action_id = ac_action_id act, or_ref = ref,
     or_data = BVal (JObj [(''v'', JNum 1), (''kind'', JStr (ac_kind act))])\<rparr>"

text \<open>A pull without a tag is of the latest; its progress may end in an error of the registry.\<close>

definition pull_ref :: "string \<Rightarrow> string" where
  "pull_ref img = (if CHR '':'' \<in> set (last_segment img) then img else img @ '':latest'')"

fun pull_lines :: "json list \<Rightarrow> err + unit" where
  "pull_lines [] = Inr ()"
| "pull_lines (j # r) =
     (case get_obj j of
        Inl _ \<Rightarrow> Inl dk_retryable
      | Inr fs \<Rightarrow>
          (case get_str (jfield ''error'' fs) of
             Inl _ \<Rightarrow> Inl dk_retryable
           | Inr e \<Rightarrow> if e = [] then pull_lines r else Inl (invalid_err ''image pull'')))"

definition dk_pull :: "'w docker \<Rightarrow> string \<Rightarrow> ('w, unit) io" where
  "dk_pull d img w =
     (case dk_http d (DkPull (pull_ref img)) w of
        (DkNoAnswer, w') \<Rightarrow> (Inl dk_retryable, w')
      | (DkBroken code, w') \<Rightarrow>
          ((if code \<ge> 300 then Inl (dk_map_status code EffectNone) else Inl dk_retryable), w')
      | (DkAnswer code body, w') \<Rightarrow>
          ((if code \<ge> 300 then Inl (dk_map_status code EffectNone)
            else (case body of BNil \<Rightarrow> Inr () | BVal (JArr js) \<Rightarrow> pull_lines js | _ \<Rightarrow> Inl dk_retryable)), w'))"

definition dk_dedup :: "'w docker \<Rightarrow> string \<Rightarrow> 'w \<Rightarrow> ext_ref option \<times> 'w" where
  "dk_dedup d oid w =
     (case dk_discover d ScopeOwned [(label_op, oid)] w of
        (Inr (x # _), t) \<Rightarrow> (Some (ob_ref x), t) | (_, t) \<Rightarrow> (None, t))"

definition dk_create_body :: "'w docker \<Rightarrow> dk_params \<Rightarrow> string \<Rightarrow> dk_create" where
  "dk_create_body d p img =
     \<lparr>dc_image = img, dc_cmd = dk_command d,
      dc_labels = merge_labels (ma_labels (cp_spec (dk_base p))) (cp_labels (dk_base p)),
      dc_nano_cpus = i64 (dk_cpu p * 1000000000), dc_memory = i64 (dk_mem p * 2 ^ 20),
      dc_network = (if dk_network d = [] then None else Some (dk_network d)),
      dc_env = (let ud = ma_user_data (cp_spec (dk_base p)) in
        if ud = [] then [] else [''FLEETPLANE_USER_DATA='' @ ud])\<rparr>"

text \<open>Creating, with one pull of a missing image in between.\<close>

definition dk_create_container :: "'w docker \<Rightarrow> dk_params \<Rightarrow> string \<Rightarrow> ('w, json blob) io" where
  "dk_create_container d p img =
     (let req = DkCreate (cp_name (dk_base p)) (dk_create_body d p img) in
      catchS (dk_do d req EffectMaybe) (\<lambda>r.
      case r of
        Inr body \<Rightarrow> retS body
      | Inl e \<Rightarrow>
          (if is_class e ErrNotFound then bindS (dk_pull d img) (\<lambda>_. dk_do d req EffectMaybe)
           else failS e)))"

definition created_id :: "json blob \<Rightarrow> err + string" where
  "created_id body =
     (case body of
        BVal (JObj fs) \<Rightarrow>
          (case get_str (jfield ''Id'' fs) of Inl _ \<Rightarrow> Inl dk_retryable
           | Inr i \<Rightarrow> if i = [] then Inl dk_retryable else Inr i)
      | _ \<Rightarrow> Inl dk_retryable)"

definition dk_apply_create :: "(string \<Rightarrow> int option) \<Rightarrow> 'w docker \<Rightarrow> action \<Rightarrow> ('w, operation_ref) io" where
  "dk_apply_create pd d act =
     (case dk_decode_params pd (ac_params act) of
        Inl _ \<Rightarrow> failS (invalid_err ''malformed create params'')
      | Inr p \<Rightarrow>
          askS (dk_dedup d (ac_action_id act)) (\<lambda>existing.
          case existing of
            Some ref \<Rightarrow> retS (dk_op_ref act (Some ref))
          | None \<Rightarrow>
              (case image_ref (ma_image (cp_spec (dk_base p))) of
                 None \<Rightarrow> failS (invalid_err ''docker image'')
               | Some img \<Rightarrow>
                   bindS (dk_create_container d p img) (\<lambda>body.
                   bindS (liftS (created_id body)) (\<lambda>i.
                   catchS (dk_do d (DkStart i) EffectMaybe) (\<lambda>_.
                   retS (dk_op_ref act (Some \<lparr>ref_id = i, ref_extra = []\<rparr>))))))))"

definition dk_apply_delete :: "'w docker \<Rightarrow> action \<Rightarrow> ('w, operation_ref) io" where
  "dk_apply_delete d act =
     (case ac_ref act of
        None \<Rightarrow> failS (invalid_err ''delete requires a ref'')
      | Some ref \<Rightarrow>
          catchS (dk_do d (DkRemove (ref_id ref)) EffectMaybe) (\<lambda>r.
          case r of
            Inr _ \<Rightarrow> retS (dk_op_ref act (Some ref))
          | Inl e \<Rightarrow> if is_class e ErrNotFound then retS (dk_op_ref act (Some ref)) else failS e))"

definition dk_apply_power :: "'w docker \<Rightarrow> action \<Rightarrow> ('w, operation_ref) io" where
  "dk_apply_power d act =
     (case ac_ref act of
        None \<Rightarrow> failS (invalid_err ''requires a ref'')
      | Some ref \<Rightarrow>
          bindS (dk_do d ((if ac_kind act = ''stop'' then DkStop else DkStart) (ref_id ref)) EffectMaybe) (\<lambda>_.
          retS (dk_op_ref act (Some ref))))"

definition dk_apply :: "(string \<Rightarrow> int option) \<Rightarrow> 'w docker \<Rightarrow> action \<Rightarrow> ('w, operation_ref) io" where
  "dk_apply pd d act =
     (if ac_kind act = ''create'' then dk_apply_create pd d act
      else if ac_kind act = ''delete'' then dk_apply_delete d act
      else if ac_kind act = ''stop'' \<or> ac_kind act = ''start'' then dk_apply_power d act
      else failS (invalid_err ''unknown action kind''))"

section \<open>Observation of an operation\<close>

definition dk_observe_op :: "'w docker \<Rightarrow> operation_ref \<Rightarrow> ('w, operation_status) io" where
  "dk_observe_op d oref =
     (case or_ref oref of
        None \<Rightarrow> retS (status PsUnknown None None 0)
      | Some ref \<Rightarrow>
          (let kind = lax_str (jfield ''kind'' (data_fields (or_data oref)));
               running = retS (status PsRunning (Some ref) None sec) in
           bindS (dk_get d ref) (\<lambda>obs.
           let succeeded = retS (status PsSucceeded (Some ref) (Some obs) 0) in
           if kind = ''delete'' then running
           else if kind = ''stop'' then (if ob_phase obs = PhaseStopped then succeeded else running)
           else if ob_provider_state obs = ''running'' then succeeded
           else if ob_provider_state obs = ''created''
             then catchS (dk_do d (DkStart (ref_id ref)) EffectMaybe) (\<lambda>_. running)
           else if (ob_provider_state obs = ''exited'' \<or> ob_provider_state obs = ''dead'') \<and> kind \<noteq> ''start''
             then retS ((status PsFailed (Some ref) None 0)\<lparr>st_failure := Some \<lparr>pe_class = ErrTerminal,
               pe_side_effect = EffectMaybe, pe_retry_after = 0, pe_message = ''container exited''\<rparr>\<rparr>)
           else running)))"

section \<open>The contract\<close>

text \<open>The Engine API serves a GET without changing a container.\<close>

definition dk_honest :: "('w \<Rightarrow> 'm) \<Rightarrow> 'w dk_http \<Rightarrow> bool" where
  "dk_honest mach http \<longleftrightarrow> (\<forall>req w. is_get req \<longrightarrow> mach (snd (http req w)) = mach w)"

lemma dk_do_state: "snd (dk_do d req eff w) = snd (dk_http d req w)"
  by (simp add: dk_do_def split: prod.split dk_answer.split)

lemma dk_reads: "dk_honest mach (dk_http d) \<Longrightarrow> is_get req \<Longrightarrow> keeps mach (dk_do d req eff)"
  by (simp add: keeps_def dk_honest_def dk_do_state)

lemma keeps_dk_get: "dk_honest mach (dk_http d) \<Longrightarrow> keeps mach (dk_get d ref)"
  unfolding dk_get_def by (intro effect_rules dk_reads) simp_all

lemma keeps_dk_inspect_all: "dk_honest mach (dk_http d) \<Longrightarrow> keeps mach (dk_inspect_all d is)"
  by (induction "is") (auto intro!: effect_rules keeps_dk_get)

lemma dk_dedup_reads:
  assumes "dk_honest mach (dk_http d)"
  shows "keeps mach (dk_dedup d oid)"
proof (rule keeps_like)
  show "keeps mach (dk_discover d ScopeOwned [(label_op, oid)])"
    unfolding dk_discover_def using assms by (intro effect_rules dk_reads keeps_dk_inspect_all) simp_all
  show "snd (dk_dedup d oid s) = snd (dk_discover d ScopeOwned [(label_op, oid)] s)" for s
    by (simp add: dk_dedup_def split: prod.split sum.split list.split)
qed

lemma dk_create_answer: "dk_apply_create pd d act s = (Inr oref, t) \<Longrightarrow> or_action_id oref = ac_action_id act"
  by (auto simp: dk_apply_create_def dk_op_ref_def askS_def catchS_def retS_def failS_def elim!: bindS_InrE
      split: option.splits prod.splits sum.splits)

lemma dk_other_answer:
  "dk_apply_delete d act s = (Inr oref, t) \<Longrightarrow>
     or_action_id oref = ac_action_id act \<and> ac_ref act \<noteq> None \<and> or_ref oref = ac_ref act"
  "dk_apply_power d act s = (Inr oref, t) \<Longrightarrow>
     or_action_id oref = ac_action_id act \<and> ac_ref act \<noteq> None \<and> or_ref oref = ac_ref act"
  by (auto simp: dk_apply_delete_def dk_apply_power_def dk_op_ref_def catchS_def retS_def failS_def elim!: bindS_InrE
      split: option.splits prod.splits sum.splits if_split_asm)

lemma dk_apply_answer:
  assumes "dk_apply pd d act s = (Inr oref, t)"
  shows "or_action_id oref = ac_action_id act
    \<and> (ac_kind act \<noteq> ''create'' \<longrightarrow> ac_ref act \<noteq> None \<and> or_ref oref = ac_ref act)"
  using assms dk_other_answer [of d act s oref t] dk_create_answer [of pd d act s oref t]
  by (simp add: dk_apply_def failS_def split: if_split_asm)

interpretation docker: reading_driver "[''create'', ''delete'', ''stop'', ''start'']" "dk_apply pd d"
    "\<lambda>act. dk_dedup d (ac_action_id act)" "\<lambda>act. is_ok (dk_decode_params pd (ac_params act))" mach
    "dk_honest mach (dk_http d)"
  for pd d mach
proof (unfold_locales, goal_cases)
  case (1 act s ref t)
  then show ?case
    by (auto simp: dk_apply_def dk_apply_create_def askS_def retS_def same_ref_def dk_op_ref_def is_ok_def
        split: sum.splits)
next
  case (2 act s)
  then show ?case
    by (auto simp: dk_apply_def dk_apply_create_def is_ok_def split: sum.splits)
next
  case (3 act s)
  then show ?case by (simp add: dk_apply_def)
qed (simp_all add: dk_apply_answer dk_dedup_reads)

text \<open>
  The driver is no \<open>truthful_driver\<close>: when the body of the answer to a create breaks off, \<open>do\<close> returns
  an error without side effect, whatever the Engine did.
\<close>

lemma dk_broken_create:
  assumes "ac_kind act = ''create''" and "dk_decode_params pd (ac_params act) = Inr p"
    and "dk_dedup d (ac_action_id act) w = (None, w1)"
    and "image_ref (ma_image (cp_spec (dk_base p))) = Some img"
    and "dk_http d (DkCreate (cp_name (dk_base p)) (dk_create_body d p img)) w1 = (DkBroken code, w2)"
  shows "dk_apply pd d act w = (Inl dk_retryable, w2)" and "effect dk_retryable = EffectNone"
  using assms
  by (simp_all add: dk_apply_def dk_apply_create_def askS_def dk_create_container_def catchS_def dk_do_def
      Let_def
      dk_retryable_def failS_def bindS_def is_class_def)

end
