(* ===== verification/Clouds.thy ===== *)
theory Clouds
  imports Hetzner Digital_Ocean GCP AWS Docker Fake_Provider
begin

text \<open>
  What all drivers promise the engine, read off their interpretations of the driver contract, and two
  places where a driver falls short of it.
\<close>

section \<open>Dispatching again\<close>

text \<open>
  C14. An error without side effect may be answered by sending the action again, as the engine does:
  on each of the four clouds, whose documented behaviour is the hypothesis, any number of blind
  repetitions ends like one single attempt from a state with the same machines.
\<close>

theorem blind_retries_take_effect_once:
  assumes "hz_honest m1 (hz_api hz)" and "do_honest m2 (do_api dg)" and "gcp_honest m3 (gp_api gc)"
    and "aws_honest m4 (aw_api aw)"
  shows "(\<exists>u. m1 (dt_cloud u) = m1 (dt_cloud s1)
            \<and> blind_retries (hz_apply pd hz act) n s1 = hz_apply pd hz act u)
       \<and> (\<exists>u. m2 (dt_cloud u) = m2 (dt_cloud s2)
            \<and> blind_retries (do_apply pd dg act) n s2 = do_apply pd dg act u)
       \<and> (\<exists>u. m3 (dt_cloud u) = m3 (dt_cloud s3)
            \<and> blind_retries (gcp_apply pd gc act) n s3 = gcp_apply pd gc act u)
       \<and> (\<exists>u. m4 (dt_cloud u) = m4 (dt_cloud s4)
            \<and> blind_retries (aws_apply pd aw act) n s4 = aws_apply pd aw act u)"
  using hz.one_attempt [OF assms(1), of s1 pd act n] docean.one_attempt [OF assms(2), of s2 pd act n]
    gcp.one_attempt [OF assms(3), of s3 pd act n] aws.one_attempt [OF assms(4), of s4 pd act n]
  unfolding cloud_view_def by blast


section \<open>Where the contract does not hold\<close>

text \<open>
  On EC2 a create that was found again never completes: the driver answers without resume data, and
  an operation without resume data is observed as unknown for ever, whatever the machine does.
\<close>

theorem aws_adopted_create_never_succeeds:
  assumes "ac_kind act = ''create''" and "read_params pd act = Inr p"
    and "aws_dedup aw (ac_action_id act) s = (Some ref, t)"
  shows "\<exists>oref. aws_apply pd aw act s = (Inr oref, t)
    \<and> \<not> (\<exists>u st v. aws_observe_op aw oref u = (Inr st, v) \<and> st_state st = PsSucceeded)"
proof (intro exI conjI)
  let ?oref = "\<lparr>or_action_id = ac_action_id act, or_ref = Some ref, or_data = BNil\<rparr>"
  show "aws_apply pd aw act s = (Inr ?oref, t)"
    using assms by (simp add: aws_apply_def aws_apply_create_def bindS_def liftS_def askS_def retS_def)
  show "\<not> (\<exists>u st v. aws_observe_op aw ?oref u = (Inr st, v) \<and> st_state st = PsSucceeded)"
    by (auto simp: aws_observe_op_def aws_terminal_def Let_def retS_def failS_def elim!: bindS_InrE
        split: if_split_asm)
qed

text \<open>
  The Docker driver can claim that a create had no effect although the Engine made the container:
  when the body of the answer breaks off, the error has the side effect none and the state is the one
  the Engine left.
\<close>

theorem docker_broken_answer_claims_no_effect:
  assumes "ac_kind act = ''create''" and "dk_decode_params pd (ac_params act) = Inr q"
    and "dk_dedup dk (ac_action_id act) w = (None, w1)"
    and "image_ref (ma_image (cp_spec (dk_base q))) = Some img"
    and "dk_http dk (DkCreate (cp_name (dk_base q)) (dk_create_body dk q img)) w1 = (DkBroken code, w2)"
  shows "\<exists>e. dk_apply pd dk act w = (Inl e, w2) \<and> effect e = EffectNone"
  using dk_broken_create [OF assms] by blast

end
