(* ===== verification/Cloud_Witnesses.thy ===== *)
theory Cloud_Witnesses
  imports Clouds
begin

text \<open>
  Concrete clouds at which the properties of the drivers are applied: the state of each is the number
  of machines, one of them made by the operation o1.
\<close>

definition toy_labels :: labels where
  "toy_labels = [(label_managed, ''true''), (label_owner, ''me''), (label_op, ''o1''), (label_id, ''r1'')]"

definition toy_pacer :: pacer where
  "toy_pacer = \<lparr>pc_base = 5, pc_limit = 5, pc_parked = None\<rparr>"

definition toy_state :: "nat dstate" where
  "toy_state = \<lparr>dt_pacer = toy_pacer, dt_cloud = 1\<rparr>"

definition toy_action :: action where
  "toy_action = \<lparr>ac_action_id = ''o1'', ac_kind = ''create'', ac_resource_id = ''r1'', ac_ref = None,
     ac_params = BVal (JObj []), ac_destructive = False\<rparr>"

definition toy_params :: create_params where
  "toy_params = \<lparr>cp_name = [], cp_spec = zero_machine, cp_labels = []\<rparr>"

lemma toy_params: "read_params pd toy_action = Inr toy_params"
  by (simp add: read_params_def toy_action_def decode_params_def toy_params_def)

lemma toy_action_simps [simp]: "ac_kind toy_action = ''create''" "ac_action_id toy_action = ''o1''"
  by (simp_all add: toy_action_def)

section \<open>Hetzner\<close>

definition toy_server :: hz_server where
  "toy_server = \<lparr>hs_id = 7, hs_status = HzRunning, hs_status_text = ''running'', hs_labels = toy_labels,
     hs_v4 = None, hs_v6 = None, hs_private = [], hs_type = None, hs_native = JNull\<rparr>"

definition toy_hz :: "nat hetzner" where
  "toy_hz = \<lparr>hz_api = \<lparr>hz_locations = (\<lambda>w. (Inr (), None, w)), hz_servers = (\<lambda>q w. (Inr [toy_server], w)),
       hz_server_by_id = (\<lambda>i w. (Inr (Some toy_server), None, w)),
       hz_create = (\<lambda>q w. (Inr \<lparr>hc_server = 8, hc_action = None, hc_next = []\<rparr>, None, w + 1)),
       hz_delete = (\<lambda>i w. (Inr None, None, w - 1)), hz_action_by_id = (\<lambda>i w. (Inr None, None, w)),
       hz_type_by_name = (\<lambda>n w. (Inr None, None, w)), hz_image_by_id = (\<lambda>i w. (Inr None, None, w)),
       hz_images_named = (\<lambda>n a w. (Inr [], w)), hz_snapshots = (\<lambda>q w. (Inr [], w))\<rparr>,
     hz_owner = ''me'', hz_location = [], hz_now = 0\<rparr>"

lemma toy_hz_honest: "hz_honest id (hz_api toy_hz)"
  by (simp add: toy_hz_def hz_honest_def reads_only_def refusal_changes_nothing_def no_meta_def)

lemma toy_hz_found: "hz_dedup toy_hz ''o1'' toy_state = (Some \<lparr>ref_id = ''7'', ref_extra = []\<rparr>, toy_state)"
  by code_simp

section \<open>DigitalOcean\<close>

definition toy_do :: "nat digital_ocean" where
  "toy_do = \<lparr>do_api = \<lparr>do_regions = (\<lambda>w. (Inr (), None, w)),
       do_droplets = (\<lambda>t n w. (Inr ([\<lparr>dp_id = 7, dp_status = ''active'', dp_tags = encode_tags toy_labels,
         dp_networks = None, dp_vcpus = 1, dp_memory = 1024, dp_native = JNull\<rparr>], True), None, w)),
       do_droplet = (\<lambda>i w. (Inl (DoHttp 404), None, w)), do_create = (\<lambda>q w. (Inr 8, None, w + 1)),
       do_delete = (\<lambda>i w. (Inr (), None, w - 1)), do_images = (\<lambda>n w. (Inr ([], True), None, w))\<rparr>,
     do_owner = ''me'', do_region = ''nyc'', do_now = 0, do_max_pages = 3\<rparr>"

lemma toy_do_honest: "do_honest id (do_api toy_do)"
  by (simp add: toy_do_def do_honest_def reads_only_def refusal_changes_nothing_def no_meta_def)

lemma toy_do_found: "do_dedup toy_do ''o1'' toy_state = (Some \<lparr>ref_id = ''7'', ref_extra = []\<rparr>, toy_state)"
  by code_simp

section \<open>Compute Engine\<close>

definition toy_gcp :: "nat gcp" where
  "toy_gcp = \<lparr>gp_api = \<lparr>gc_zone = (\<lambda>w. (Inr (), w)), gc_aggregated = (\<lambda>q t w. (Inr ([], []), w)),
       gc_list = (\<lambda>z q t w. (Inr ([\<lparr>gi_name = ''vm7'', gi_status = ''RUNNING'', gi_zone = ''zones/z1'',
         gi_labels = gcp_encode_labels toy_labels, gi_machine_type = [], gi_nics = [], gi_native = JNull\<rparr>], []), w)),
       gc_get = (\<lambda>z n w. (Inl (GcpApi 404 [] []), w)), gc_insert = (\<lambda>z i w. (Inr ''op1'', w + 1)),
       gc_delete = (\<lambda>z n w. (Inr ''op2'', w - 1)), gc_stop = (\<lambda>z n w. (Inr ''op3'', w)),
       gc_start = (\<lambda>z n w. (Inr ''op4'', w)), gc_zone_op = (\<lambda>z n w. (Inr (''DONE'', []), w)),
       gc_machine_type = (\<lambda>z n w. (Inr (1, 1024), w)), gc_family = (\<lambda>p f w. (Inl (GcpApi 404 [] []), w)),
       gc_image = (\<lambda>p n w. (Inl (GcpApi 404 [] []), w)), gc_images = (\<lambda>t w. (Inr ([], []), w))\<rparr>,
     gp_owner = ''me'', gp_project = ''p1'', gp_zone = ''z1'', gp_network = [], gp_subnetwork = [], gp_now = 0,
     gp_parse_time = (\<lambda>s. None), gp_max_pages = 3\<rparr>"

definition toy_gstate :: "nat gstate" where
  "toy_gstate = \<lparr>dt_pacer = toy_pacer, dt_cloud = 1, gs_cache = []\<rparr>"

lemma toy_gcp_honest: "gcp_honest id (gp_api toy_gcp)"
  by (simp add: toy_gcp_def gcp_honest_def reads_only_def refusal_changes_nothing_def no_meta_def)

lemma toy_gcp_found: "find_by_op toy_gcp ''z1'' ''o1'' toy_gstate = (Some (gcp_ref ''vm7'' ''z1''), toy_gstate)"
  by code_simp

section \<open>EC2\<close>

definition toy_aws :: "nat aws" where
  "toy_aws = \<lparr>aw_api = \<lparr>aw_describe = (\<lambda>f t w. (Inr ([\<lparr>ai_id = Some ''i7'', ai_state = Some ''running'', ai_type = [],
         ai_tags = [], ai_public = None, ai_v6 = None, ai_private = None, ai_native = JNull\<rparr>], []), w)),
       aw_by_id = (\<lambda>i w. (Inr [], w)), aw_run = (\<lambda>q w. (Inr [Some ''i8''], w + 1)),
       aw_terminate = (\<lambda>i w. (Inr (), w - 1)), aw_stop = (\<lambda>i w. (Inr (), w)), aw_start = (\<lambda>i w. (Inr (), w)),
       aw_images = (\<lambda>ow f t w. (Inr ([], []), w)), aw_types = (\<lambda>t w. (Inr [], w)), aw_regions = (\<lambda>r w. (Inr (), w))\<rparr>,
     aw_owner = ''me'', aw_region = ''eu'', aw_subnet = [], aw_groups = [], aw_key = [], aw_profile = [],
     aw_now = 0, aw_max_pages = 3\<rparr>"

definition toy_astate :: "nat astate" where
  "toy_astate = \<lparr>dt_pacer = toy_pacer, dt_cloud = 1, as_cache = []\<rparr>"

lemma toy_aws_honest: "aws_honest id (aw_api toy_aws)"
  by (simp add: toy_aws_def aws_honest_def reads_only_def refusal_changes_nothing_def no_meta_def)

lemma toy_aws_found: "aws_dedup toy_aws ''o1'' toy_astate = (Some \<lparr>ref_id = ''i7'', ref_extra = []\<rparr>, toy_astate)"
  by code_simp

section \<open>Docker\<close>

text \<open>A create makes the container, but its answer breaks off.\<close>

fun toy_http :: "dk_request \<Rightarrow> nat \<Rightarrow> dk_answer \<times> nat" where
  "toy_http (DkList ls) n = (DkAnswer 200 (BVal (JArr (if n = 0 then [] else [JObj [(''Id'', JStr ''c7'')]]))), n)"
| "toy_http (DkInspect i) n = (DkAnswer 200 (BVal (JObj [(''Id'', JStr i)])), n)"
| "toy_http (DkCreate name body) n = (DkBroken 201, n + 1)"
| "toy_http req n = (DkAnswer 200 BNil, n)"

definition toy_docker :: "nat docker" where
  "toy_docker = \<lparr>dk_http = toy_http, dk_owner = ''me'', dk_command = [], dk_network = []\<rparr>"

definition toy_dk_action :: action where
  "toy_dk_action = toy_action\<lparr>ac_params := BVal (JObj [(''spec'', JObj [(''image'', JStr ''ubuntu'')])])\<rparr>"

definition toy_dk_params :: dk_params where
  "toy_dk_params = \<lparr>dk_base = toy_params\<lparr>cp_spec := zero_machine\<lparr>ma_image := ''ubuntu''\<rparr>\<rparr>, dk_cpu = 0, dk_mem = 0\<rparr>"

lemma toy_docker_found: "dk_dedup toy_docker ''o1'' 1 = (Some \<lparr>ref_id = ''c7'', ref_extra = []\<rparr>, 1)"
  by code_simp

lemma toy_docker_absent: "dk_dedup toy_docker ''o1'' 0 = (None, 0)"
  by code_simp

lemma toy_dk_empty: "dk_decode_params pd (ac_params toy_action) = Inr \<lparr>dk_base = toy_params, dk_cpu = 0, dk_mem = 0\<rparr>"
  by (simp add: toy_action_def dk_decode_params_def decode_params_def toy_params_def)

lemma toy_dk_image: "dk_decode_params parse_decimal (ac_params toy_dk_action) = Inr toy_dk_params"
  by code_simp

section \<open>The properties at these clouds\<close>

theorem blind_retries_take_effect_once_witness:
  "(\<exists>u. id (dt_cloud u) = id (dt_cloud toy_state)
      \<and> blind_retries (hz_apply parse_decimal toy_hz toy_action) 3 toy_state = hz_apply parse_decimal toy_hz toy_action u)
 \<and> (\<exists>u. id (dt_cloud u) = id (dt_cloud toy_state)
      \<and> blind_retries (do_apply parse_decimal toy_do toy_action) 3 toy_state = do_apply parse_decimal toy_do toy_action u)
 \<and> (\<exists>u. id (dt_cloud u) = id (dt_cloud toy_gstate)
      \<and> blind_retries (gcp_apply parse_decimal toy_gcp toy_action) 3 toy_gstate = gcp_apply parse_decimal toy_gcp toy_action u)
 \<and> (\<exists>u. id (dt_cloud u) = id (dt_cloud toy_astate)
      \<and> blind_retries (aws_apply parse_decimal toy_aws toy_action) 3 toy_astate = aws_apply parse_decimal toy_aws toy_action u)"
  by (rule blind_retries_take_effect_once [OF toy_hz_honest toy_do_honest toy_gcp_honest toy_aws_honest])


theorem aws_adopted_create_never_succeeds_witness:
  "\<exists>oref. aws_apply parse_decimal toy_aws toy_action toy_astate = (Inr oref, toy_astate)
    \<and> \<not> (\<exists>u st v. aws_observe_op toy_aws oref u = (Inr st, v) \<and> st_state st = PsSucceeded)"
  using aws_adopted_create_never_succeeds [OF _ toy_params, of toy_aws toy_astate] toy_aws_found by simp

theorem docker_broken_answer_claims_no_effect_witness:
  "\<exists>e. dk_apply parse_decimal toy_docker toy_dk_action 0 = (Inl e, 1) \<and> effect e = EffectNone"
proof (rule docker_broken_answer_claims_no_effect [OF _ toy_dk_image])
  show "ac_kind toy_dk_action = ''create''" by (simp add: toy_dk_action_def)
  show "dk_dedup toy_docker (ac_action_id toy_dk_action) 0 = (None, 0)"
    using toy_docker_absent by (simp add: toy_dk_action_def)
  show "image_ref (ma_image (cp_spec (dk_base toy_dk_params))) = Some ''ubuntu''" by code_simp
  show "dk_http toy_docker (DkCreate (cp_name (dk_base toy_dk_params)) (dk_create_body toy_docker toy_dk_params ''ubuntu'')) 0
      = (DkBroken 201, 1)"
    by (simp add: toy_docker_def)
qed

end
