(* ===== verification/Wire.thy ===== *)
theory Wire
  imports App_Admin Go_Text
begin

text \<open>
  The wire format of the HTTP API: the JSON types of pkg/apiclient (types.go, types_more.go), their
  encoding as \<open>encoding/json\<close> does it from the struct tags, their decoding, and the text of a JSON
  document. A \<open>time.Time\<close> field is its unix milliseconds; the text of a time and of a duration are
  arguments (package time). Object keys are matched without regard to case, the last of several
  equal keys counts, and keys are ASCII.
\<close>

section \<open>JSON text\<close>

definition hex_digit :: "nat \<Rightarrow> char" where
  "hex_digit n = (if n < 10 then char_of (48 + n) else char_of (87 + n))"

definition hex2 :: "nat \<Rightarrow> string" where
  "hex2 n = [hex_digit (n div 16), hex_digit (n mod 16)]"

definition esc_char :: "char \<Rightarrow> string" where
  "esc_char c =
     (let n = (of_char c :: nat) in
      if n = 34 then [CHR 0x5C, CHR 0x22]
      else if n = 92 then [CHR 0x5C, CHR 0x5C]
      else if n = 8 then CHR 0x5C # ''b''
      else if n = 12 then CHR 0x5C # ''f''
      else if n = 10 then CHR 0x5C # ''n''
      else if n = 13 then CHR 0x5C # ''r''
      else if n = 9 then CHR 0x5C # ''t''
      else if n < 32 \<or> c = CHR ''<'' \<or> c = CHR ''>'' \<or> c = CHR ''&'' then CHR 0x5C # ''u00'' @ hex2 n
      else [c])"

definition quote_text :: "string \<Rightarrow> string" where
  "quote_text s = CHR 0x22 # concat (map esc_char s) @ [CHR 0x22]"

fun json_text :: "json \<Rightarrow> string" where
  "json_text JNull = ''null''"
| "json_text (JBool b) = (if b then ''true'' else ''false'')"
| "json_text (JNum n) = show_int n"
| "json_text (JReal s) = s"
| "json_text (JStr s) = quote_text s"
| "json_text (JArr xs) = ''['' @ join '','' (map json_text xs) @ '']''"
| "json_text (JObj fs) = ''{'' @ join '','' (map (\<lambda>(k, v). quote_text k @ '':'' @ json_text v) fs) @ ''}''"

section \<open>Encoding structs\<close>

text \<open>
  The fields of a struct in declaration order; \<open>None\<close> is a \<open>json.RawMessage\<close> that is not JSON, for
  which \<open>Marshal\<close> of the whole value fails.
\<close>

type_synonym fields = "(string \<times> json option) list"

definition seal :: "fields \<Rightarrow> json option" where
  "seal fs = (if list_ex (\<lambda>(_, v). v = None) fs then None else Some (JObj (map (\<lambda>(k, v). (k, the v)) fs)))"

definition fld :: "string \<Rightarrow> json \<Rightarrow> fields" where "fld k v = [(k, Some v)]"

definition omit_str :: "string \<Rightarrow> string \<Rightarrow> fields" where
  "omit_str k s = (if s = [] then [] else fld k (JStr s))"

definition omit_bool :: "string \<Rightarrow> bool \<Rightarrow> fields" where
  "omit_bool k b = (if b then fld k (JBool True) else [])"

definition omit_int :: "string \<Rightarrow> int \<Rightarrow> fields" where
  "omit_int k n = (if n = 0 then [] else fld k (JNum n))"

definition raw_field :: "string \<Rightarrow> json blob \<Rightarrow> fields" where
  "raw_field k b = (case b of BNil \<Rightarrow> [(k, Some JNull)] | BBad \<Rightarrow> [(k, None)] | BVal j \<Rightarrow> [(k, Some j)])"

definition omit_raw :: "string \<Rightarrow> json blob \<Rightarrow> fields" where
  "omit_raw k b = (if b = BNil then [] else raw_field k b)"

definition labels_json :: "labels \<Rightarrow> json" where
  "labels_json m = JObj (map (\<lambda>(k, v). (k, JStr v)) (sort_key fst (AList.clearjunk m)))"

definition omit_labels :: "string \<Rightarrow> labels \<Rightarrow> fields" where
  "omit_labels k m = (if m = [] then [] else fld k (labels_json m))"

text \<open>The zero \<open>time.Time\<close> (year 1), which \<open>omitzero\<close> leaves out.\<close>

definition zero_time :: int where "zero_time = -62135596800000"

definition time_field :: "(int \<Rightarrow> string) \<Rightarrow> string \<Rightarrow> int \<Rightarrow> fields" where
  "time_field show k t = (if t = zero_time then [] else fld k (JStr (show t)))"

definition opt_time :: "(int \<Rightarrow> string) \<Rightarrow> string \<Rightarrow> int option \<Rightarrow> fields" where
  "opt_time show k t = (case t of None \<Rightarrow> [] | Some t \<Rightarrow> fld k (JStr (show t)))"

lemma list_ex_fields [simp]:
  "\<not> list_ex (\<lambda>(_, v). v = None) (fld k j)"
  "\<not> list_ex (\<lambda>(_, v). v = None) (omit_str k s)"
  "\<not> list_ex (\<lambda>(_, v). v = None) (omit_bool k b)"
  "\<not> list_ex (\<lambda>(_, v). v = None) (omit_int k n)"
  "\<not> list_ex (\<lambda>(_, v). v = None) (omit_labels k m)"
  "\<not> list_ex (\<lambda>(_, v). v = None) (time_field show k t)"
  "\<not> list_ex (\<lambda>(_, v). v = None) (opt_time show k t')"
  "list_ex (\<lambda>(_, v). v = None) (omit_raw k r) \<longleftrightarrow> r = BBad"
  "list_ex (\<lambda>(_, v). v = None) (raw_field k r) \<longleftrightarrow> r = BBad"
  by (auto simp: fld_def omit_str_def omit_bool_def omit_int_def omit_labels_def time_field_def
      opt_time_def omit_raw_def raw_field_def split: option.splits blob.splits)

section \<open>Wire types\<close>

definition api_version :: string where "api_version = ''fleetplane.io/v1alpha1''"

record w_metadata =
  wm_id :: string
  wm_name :: string
  wm_labels :: labels
  wm_ownership :: string
  wm_protected :: bool
  wm_generation :: int
  wm_observed_generation :: int
  wm_created_at :: int
  wm_updated_at :: int
  wm_deleted_at :: "int option"

definition zero_metadata :: w_metadata where
  "zero_metadata = \<lparr>wm_id = [], wm_name = [], wm_labels = [], wm_ownership = [], wm_protected = False,
     wm_generation = 0, wm_observed_generation = 0, wm_created_at = zero_time, wm_updated_at = zero_time,
     wm_deleted_at = None\<rparr>"

definition metadata_fields :: "(int \<Rightarrow> string) \<Rightarrow> w_metadata \<Rightarrow> fields" where
  "metadata_fields show m =
     fld ''id'' (JStr (wm_id m)) @ omit_str ''name'' (wm_name m) @ omit_labels ''labels'' (wm_labels m)
     @ omit_str ''ownership'' (wm_ownership m) @ omit_bool ''protected'' (wm_protected m)
     @ omit_int ''generation'' (wm_generation m) @ omit_int ''observedGeneration'' (wm_observed_generation m)
     @ time_field show ''createdAt'' (wm_created_at m) @ time_field show ''updatedAt'' (wm_updated_at m)
     @ opt_time show ''deletedAt'' (wm_deleted_at m)"

record w_resource_spec =
  ws_kind :: string
  ws_provider :: string
  ws_class :: string
  ws_machine :: "json blob"

definition spec_fields :: "w_resource_spec \<Rightarrow> fields" where
  "spec_fields x =
     fld ''kind'' (JStr (ws_kind x)) @ fld ''provider'' (JStr (ws_provider x))
     @ omit_str ''class'' (ws_class x) @ omit_raw ''machine'' (ws_machine x)"

record w_resource_status =
  wt_phase :: string
  wt_external_id :: string
  wt_parked_at :: "int option"
  wt_external_ref :: "json blob"
  wt_capacity :: "json blob"
  wt_extensions :: "json blob"

definition zero_status :: w_resource_status where
  "zero_status = \<lparr>wt_phase = [], wt_external_id = [], wt_parked_at = None, wt_external_ref = BNil,
     wt_capacity = BNil, wt_extensions = BNil\<rparr>"

definition status_fields :: "(int \<Rightarrow> string) \<Rightarrow> w_resource_status \<Rightarrow> fields" where
  "status_fields show x =
     fld ''phase'' (JStr (wt_phase x)) @ omit_str ''externalId'' (wt_external_id x)
     @ opt_time show ''parkedAt'' (wt_parked_at x) @ omit_raw ''externalRef'' (wt_external_ref x)
     @ omit_raw ''capacity'' (wt_capacity x) @ omit_raw ''extensions'' (wt_extensions x)"

record w_resource =
  wr_api_version :: string
  wr_kind :: string
  wr_metadata :: w_metadata
  wr_spec :: w_resource_spec
  wr_status :: w_resource_status

definition resource_json :: "(int \<Rightarrow> string) \<Rightarrow> w_resource \<Rightarrow> json option" where
  "resource_json show x = seal
     (fld ''apiVersion'' (JStr (wr_api_version x)) @ fld ''kind'' (JStr (wr_kind x))
      @ [(''metadata'', seal (metadata_fields show (wr_metadata x))),
         (''spec'', seal (spec_fields (wr_spec x)))]
      @ (if wr_status x = zero_status then [] else [(''status'', seal (status_fields show (wr_status x)))]))"

record w_create_request =
  wc_api_version :: string
  wc_kind :: string
  wc_metadata :: w_metadata
  wc_spec :: w_resource_spec

definition create_request_json :: "(int \<Rightarrow> string) \<Rightarrow> w_create_request \<Rightarrow> json option" where
  "create_request_json show x = seal
     (omit_str ''apiVersion'' (wc_api_version x) @ omit_str ''kind'' (wc_kind x)
      @ (if wc_metadata x = zero_metadata then [] else [(''metadata'', seal (metadata_fields show (wc_metadata x)))])
      @ [(''spec'', seal (spec_fields (wc_spec x)))])"

record w_error =
  we_code :: string
  we_message :: string
  we_request_id :: string
  we_retryable :: bool
  we_retry_after :: int
  we_details :: "json blob"

definition error_json :: "w_error \<Rightarrow> json option" where
  "error_json x = seal [(''error'', seal
     (fld ''code'' (JStr (we_code x)) @ fld ''message'' (JStr (we_message x))
      @ omit_str ''requestId'' (we_request_id x) @ fld ''retryable'' (JBool (we_retryable x))
      @ omit_int ''retryAfterSeconds'' (we_retry_after x) @ omit_raw ''details'' (we_details x)))]"

record w_acquire =
  wa_kind :: string
  wa_class :: string
  wa_quantity :: int
  wa_constraints :: "json blob"
  wa_exclusive :: bool
  wa_lease :: "string option"
  wa_max_wait :: string
  wa_idem_key :: string

definition acquire_json :: "w_acquire \<Rightarrow> json option" where
  "acquire_json x = seal
     (omit_str ''kind'' (wa_kind x) @ omit_str ''class'' (wa_class x) @ omit_int ''quantity'' (wa_quantity x)
      @ omit_raw ''constraints'' (wa_constraints x) @ omit_bool ''exclusive'' (wa_exclusive x)
      @ (case wa_lease x of None \<Rightarrow> [] | Some ttl \<Rightarrow> [(''lease'', seal (omit_str ''ttl'' ttl))])
      @ omit_str ''maxWait'' (wa_max_wait x) @ omit_str ''idempotencyKey'' (wa_idem_key x))"

record w_acquisition =
  wq_api_version :: string
  wq_kind :: string
  wq_id :: string
  wq_state :: string
  wq_class :: string
  wq_resource_kind :: string
  wq_resource_id :: string
  wq_lease_id :: string
  wq_actor :: string
  wq_max_wait :: string
  wq_queue_deadline :: "int option"
  wq_created_at :: int
  wq_updated_at :: int

definition acquisition_json :: "(int \<Rightarrow> string) \<Rightarrow> w_acquisition \<Rightarrow> json option" where
  "acquisition_json show x = seal
     (fld ''apiVersion'' (JStr (wq_api_version x)) @ fld ''kind'' (JStr (wq_kind x)) @ fld ''id'' (JStr (wq_id x))
      @ fld ''state'' (JStr (wq_state x)) @ omit_str ''class'' (wq_class x)
      @ omit_str ''resourceKind'' (wq_resource_kind x) @ omit_str ''resourceId'' (wq_resource_id x)
      @ omit_str ''leaseId'' (wq_lease_id x) @ omit_str ''actor'' (wq_actor x)
      @ omit_str ''maxWait'' (wq_max_wait x) @ opt_time show ''queueDeadline'' (wq_queue_deadline x)
      @ time_field show ''createdAt'' (wq_created_at x) @ time_field show ''updatedAt'' (wq_updated_at x))"

record w_pool =
  wp_api_version :: string
  wp_kind :: string
  wp_metadata :: w_metadata
  wp_spec :: "json blob"
  wp_paused :: bool

definition pool_json :: "(int \<Rightarrow> string) \<Rightarrow> w_pool \<Rightarrow> json option" where
  "pool_json show x = seal
     (fld ''apiVersion'' (JStr (wp_api_version x)) @ fld ''kind'' (JStr (wp_kind x))
      @ [(''metadata'', seal (metadata_fields show (wp_metadata x)))]
      @ raw_field ''spec'' (wp_spec x) @ omit_bool ''paused'' (wp_paused x))"

record w_operation =
  wo_id :: string
  wo_kind :: string
  wo_state :: string
  wo_provider :: string
  wo_resource_id :: string
  wo_attempt :: int
  wo_error_class :: string
  wo_created_at :: int
  wo_updated_at :: int

definition operation_json :: "(int \<Rightarrow> string) \<Rightarrow> w_operation \<Rightarrow> json option" where
  "operation_json show x = seal
     (fld ''id'' (JStr (wo_id x)) @ fld ''kind'' (JStr (wo_kind x)) @ fld ''state'' (JStr (wo_state x))
      @ omit_str ''provider'' (wo_provider x) @ omit_str ''resourceId'' (wo_resource_id x)
      @ omit_int ''attempt'' (wo_attempt x) @ omit_str ''errorClass'' (wo_error_class x)
      @ time_field show ''createdAt'' (wo_created_at x) @ time_field show ''updatedAt'' (wo_updated_at x))"

record w_event =
  wv_id :: string
  wv_ts :: int
  wv_type :: string
  wv_actor :: string
  wv_outcome :: string
  wv_provider :: string
  wv_resource_id :: string
  wv_operation_id :: string

definition event_json :: "(int \<Rightarrow> string) \<Rightarrow> w_event \<Rightarrow> json option" where
  "event_json show x = seal
     (fld ''id'' (JStr (wv_id x)) @ fld ''ts'' (JStr (show (wv_ts x))) @ fld ''type'' (JStr (wv_type x))
      @ omit_str ''actor'' (wv_actor x) @ omit_str ''outcome'' (wv_outcome x)
      @ omit_str ''provider'' (wv_provider x) @ omit_str ''resourceId'' (wv_resource_id x)
      @ omit_str ''operationId'' (wv_operation_id x))"

text \<open>\<open>ClassReclaim\<close>: idleAfter, park and deleteAfter; \<open>ClassScheduling\<close> with its optional queue.\<close>

record w_reclaim =
  wl_idle_after :: string
  wl_park :: string
  wl_delete_after :: string

record w_class_spec =
  wk_kind :: string
  wk_provider :: string
  wk_template :: "json blob"
  wk_reclaim :: "w_reclaim option"
  wk_scheduling :: "string option option"

definition reclaim_fields :: "w_reclaim \<Rightarrow> fields" where
  "reclaim_fields r = omit_str ''idleAfter'' (wl_idle_after r) @ omit_str ''park'' (wl_park r)
     @ omit_str ''deleteAfter'' (wl_delete_after r)"

definition class_spec_fields :: "w_class_spec \<Rightarrow> fields" where
  "class_spec_fields x =
     fld ''kind'' (JStr (wk_kind x)) @ fld ''provider'' (JStr (wk_provider x))
     @ raw_field ''template'' (wk_template x)
     @ (case wk_reclaim x of None \<Rightarrow> [] | Some r \<Rightarrow> [(''reclaim'', seal (reclaim_fields r))])
     @ (case wk_scheduling x of None \<Rightarrow> []
        | Some None \<Rightarrow> [(''scheduling'', seal [])]
        | Some (Some w) \<Rightarrow> [(''scheduling'', seal [(''queue'', seal (omit_str ''maxWait'' w))])])"

record w_class =
  wy_api_version :: string
  wy_kind :: string
  wy_metadata :: w_metadata
  wy_spec :: w_class_spec
  wy_source :: string

definition class_json :: "(int \<Rightarrow> string) \<Rightarrow> w_class \<Rightarrow> json option" where
  "class_json show x = seal
     (fld ''apiVersion'' (JStr (wy_api_version x)) @ fld ''kind'' (JStr (wy_kind x))
      @ [(''metadata'', seal (metadata_fields show (wy_metadata x))),
         (''spec'', seal (class_spec_fields (wy_spec x)))]
      @ fld ''source'' (JStr (wy_source x)))"

text \<open>The list envelopes; an item that cannot be marshalled spoils the list.\<close>

definition array :: "json option list \<Rightarrow> json option" where
  "array xs = (if list_ex (\<lambda>x. x = None) xs then None else Some (JArr (map the xs)))"

definition list_json :: "string \<Rightarrow> json option list \<Rightarrow> json option" where
  "list_json kind items = seal
     (fld ''apiVersion'' (JStr api_version) @ fld ''kind'' (JStr kind) @ [(''items'', array items)])"

text \<open>The listings the server builds as a map, whose keys are sorted.\<close>

definition map_list_json :: "string \<Rightarrow> json option list \<Rightarrow> json option" where
  "map_list_json kind items = seal
     (fld ''apiVersion'' (JStr api_version) @ [(''items'', array items)] @ fld ''kind'' (JStr kind))"

end
