(* ===== verification/Wire_Decode.thy ===== *)
theory Wire_Decode
  imports Wire
begin

text \<open>
  Decoding the wire types: \<open>json.Unmarshal\<close> into the structs of pkg/apiclient, with
  \<open>DisallowUnknownFields\<close> as a flag, the request bodies the server reads and the replies the client
  reads. Times are parsed by an argument. The round trips show that what one side encodes the other
  side reads back unchanged.
\<close>

section \<open>Fields of an object\<close>

text \<open>The last value of a key, compared without regard to case.\<close>

definition jkey :: "string \<Rightarrow> (string \<times> json) list \<Rightarrow> json option" where
  "jkey k fs = map_of (rev (map (\<lambda>(k, v). (to_lower k, v)) fs)) (to_lower k)"

definition jval :: "string \<Rightarrow> (string \<times> json) list \<Rightarrow> json" where
  "jval k fs = (case jkey k fs of None \<Rightarrow> JNull | Some v \<Rightarrow> v)"

definition known :: "bool \<Rightarrow> string list \<Rightarrow> (string \<times> json) list \<Rightarrow> bool" where
  "known strict ks fs \<longleftrightarrow> \<not> strict \<or> list_all (\<lambda>(k, _). to_lower k \<in> set (map to_lower ks)) fs"

text \<open>A struct: \<open>null\<close> leaves the zero value, an object is read field by field.\<close>

definition struct :: "bool \<Rightarrow> string list \<Rightarrow> 'a \<Rightarrow> ((string \<times> json) list \<Rightarrow> err + 'a) \<Rightarrow> json \<Rightarrow> err + 'a" where
  "struct strict ks z body j = (case j of
     JNull \<Rightarrow> Inr z
   | JObj fs \<Rightarrow> (if known strict ks fs then body fs else Inl (EOther ''json: unknown field''))
   | _ \<Rightarrow> Inl bad_type)"

text \<open>A pointer: absent and \<open>null\<close> are \<open>nil\<close>.\<close>

definition pointer :: "(json \<Rightarrow> err + 'a) \<Rightarrow> json \<Rightarrow> err + 'a option" where
  "pointer dec j = (if j = JNull then Inr None else bindE (dec j) (\<lambda>x. Inr (Some x)))"

fun get_bool :: "json \<Rightarrow> err + bool" where
  "get_bool JNull = Inr False"
| "get_bool (JBool b) = Inr b"
| "get_bool _ = Inl bad_type"

definition get_i64 :: "json \<Rightarrow> err + int" where
  "get_i64 j = bindE (get_int j) (\<lambda>n. if in_i64 n then Inr n else Inl bad_type)"

definition get_time :: "(string \<Rightarrow> int option) \<Rightarrow> json \<Rightarrow> err + int" where
  "get_time parse j = (case j of
     JNull \<Rightarrow> Inr zero_time
   | JStr s \<Rightarrow> (case parse s of None \<Rightarrow> Inl (EOther ''parsing time'') | Some t \<Rightarrow> Inr t)
   | _ \<Rightarrow> Inl (EOther ''Time.UnmarshalJSON: input is not a JSON string''))"

text \<open>A \<open>json.RawMessage\<close> keeps whatever is there, \<open>null\<close> included.\<close>

definition raw_of :: "json option \<Rightarrow> json blob" where
  "raw_of x = (case x of None \<Rightarrow> BNil | Some j \<Rightarrow> BVal j)"

section \<open>The structs\<close>

definition metadata_keys :: "string list" where
  "metadata_keys = [''id'', ''name'', ''labels'', ''ownership'', ''protected'', ''generation'',
     ''observedGeneration'', ''createdAt'', ''updatedAt'', ''deletedAt'']"

definition decode_metadata :: "(string \<Rightarrow> int option) \<Rightarrow> bool \<Rightarrow> json \<Rightarrow> err + w_metadata" where
  "decode_metadata parse strict = struct strict metadata_keys zero_metadata (\<lambda>fs.
     bindE (get_str (jval ''id'' fs)) (\<lambda>i.
     bindE (get_str (jval ''name'' fs)) (\<lambda>n.
     bindE (get_labels (jval ''labels'' fs)) (\<lambda>l.
     bindE (get_str (jval ''ownership'' fs)) (\<lambda>ow.
     bindE (get_bool (jval ''protected'' fs)) (\<lambda>p.
     bindE (get_i64 (jval ''generation'' fs)) (\<lambda>g.
     bindE (get_i64 (jval ''observedGeneration'' fs)) (\<lambda>og.
     bindE (get_time parse (jval ''createdAt'' fs)) (\<lambda>c.
     bindE (get_time parse (jval ''updatedAt'' fs)) (\<lambda>u.
     bindE (pointer (get_time parse) (jval ''deletedAt'' fs)) (\<lambda>d.
     Inr \<lparr>wm_id = i, wm_name = n, wm_labels = l, wm_ownership = ow, wm_protected = p, wm_generation = g,
          wm_observed_generation = og, wm_created_at = c, wm_updated_at = u, wm_deleted_at = d\<rparr>)))))))))))"

definition zero_spec :: w_resource_spec where
  "zero_spec = \<lparr>ws_kind = [], ws_provider = [], ws_class = [], ws_machine = BNil\<rparr>"

definition decode_resource_spec :: "bool \<Rightarrow> json \<Rightarrow> err + w_resource_spec" where
  "decode_resource_spec strict = struct strict [''kind'', ''provider'', ''class'', ''machine''] zero_spec (\<lambda>fs.
     bindE (get_str (jval ''kind'' fs)) (\<lambda>k.
     bindE (get_str (jval ''provider'' fs)) (\<lambda>p.
     bindE (get_str (jval ''class'' fs)) (\<lambda>c.
     Inr \<lparr>ws_kind = k, ws_provider = p, ws_class = c, ws_machine = raw_of (jkey ''machine'' fs)\<rparr>))))"

definition decode_create_request :: "(string \<Rightarrow> int option) \<Rightarrow> json \<Rightarrow> err + w_create_request" where
  "decode_create_request parse = struct True [''apiVersion'', ''kind'', ''metadata'', ''spec'']
     \<lparr>wc_api_version = [], wc_kind = [], wc_metadata = zero_metadata, wc_spec = zero_spec\<rparr> (\<lambda>fs.
     bindE (get_str (jval ''apiVersion'' fs)) (\<lambda>a.
     bindE (get_str (jval ''kind'' fs)) (\<lambda>k.
     bindE (decode_metadata parse True (jval ''metadata'' fs)) (\<lambda>m.
     bindE (decode_resource_spec True (jval ''spec'' fs)) (\<lambda>sp.
     Inr \<lparr>wc_api_version = a, wc_kind = k, wc_metadata = m, wc_spec = sp\<rparr>)))))"

definition decode_status :: "(string \<Rightarrow> int option) \<Rightarrow> json \<Rightarrow> err + w_resource_status" where
  "decode_status parse = struct False [] zero_status (\<lambda>fs.
     bindE (get_str (jval ''phase'' fs)) (\<lambda>p.
     bindE (get_str (jval ''externalId'' fs)) (\<lambda>e.
     bindE (pointer (get_time parse) (jval ''parkedAt'' fs)) (\<lambda>t.
     Inr \<lparr>wt_phase = p, wt_external_id = e, wt_parked_at = t, wt_external_ref = raw_of (jkey ''externalRef'' fs),
          wt_capacity = raw_of (jkey ''capacity'' fs), wt_extensions = raw_of (jkey ''extensions'' fs)\<rparr>))))"

definition decode_resource :: "(string \<Rightarrow> int option) \<Rightarrow> json \<Rightarrow> err + w_resource" where
  "decode_resource parse = struct False []
     \<lparr>wr_api_version = [], wr_kind = [], wr_metadata = zero_metadata, wr_spec = zero_spec, wr_status = zero_status\<rparr> (\<lambda>fs.
     bindE (get_str (jval ''apiVersion'' fs)) (\<lambda>a.
     bindE (get_str (jval ''kind'' fs)) (\<lambda>k.
     bindE (decode_metadata parse False (jval ''metadata'' fs)) (\<lambda>m.
     bindE (decode_resource_spec False (jval ''spec'' fs)) (\<lambda>sp.
     bindE (decode_status parse (jval ''status'' fs)) (\<lambda>st.
     Inr \<lparr>wr_api_version = a, wr_kind = k, wr_metadata = m, wr_spec = sp, wr_status = st\<rparr>))))))"

definition zero_acquire :: w_acquire where
  "zero_acquire = \<lparr>wa_kind = [], wa_class = [], wa_quantity = 0, wa_constraints = BNil, wa_exclusive = False,
     wa_lease = None, wa_max_wait = [], wa_idem_key = []\<rparr>"

definition decode_acquire :: "json \<Rightarrow> err + w_acquire" where
  "decode_acquire = struct True [''kind'', ''class'', ''quantity'', ''constraints'', ''exclusive'', ''lease'',
     ''maxWait'', ''idempotencyKey''] zero_acquire (\<lambda>fs.
     bindE (get_str (jval ''kind'' fs)) (\<lambda>k.
     bindE (get_str (jval ''class'' fs)) (\<lambda>c.
     bindE (get_i64 (jval ''quantity'' fs)) (\<lambda>q.
     bindE (get_bool (jval ''exclusive'' fs)) (\<lambda>x.
     bindE (pointer (struct True [''ttl''] [] (\<lambda>ls. get_str (jval ''ttl'' ls))) (jval ''lease'' fs)) (\<lambda>l.
     bindE (get_str (jval ''maxWait'' fs)) (\<lambda>w.
     bindE (get_str (jval ''idempotencyKey'' fs)) (\<lambda>i.
     Inr \<lparr>wa_kind = k, wa_class = c, wa_quantity = q, wa_constraints = raw_of (jkey ''constraints'' fs),
          wa_exclusive = x, wa_lease = l, wa_max_wait = w, wa_idem_key = i\<rparr>))))))))"

definition decode_acquisition :: "(string \<Rightarrow> int option) \<Rightarrow> json \<Rightarrow> err + w_acquisition" where
  "decode_acquisition parse = struct False []
     \<lparr>wq_api_version = [], wq_kind = [], wq_id = [], wq_state = [], wq_class = [], wq_resource_kind = [],
      wq_resource_id = [], wq_lease_id = [], wq_actor = [], wq_max_wait = [], wq_queue_deadline = None,
      wq_created_at = zero_time, wq_updated_at = zero_time\<rparr> (\<lambda>fs.
     bindE (get_str (jval ''apiVersion'' fs)) (\<lambda>a.
     bindE (get_str (jval ''kind'' fs)) (\<lambda>k.
     bindE (get_str (jval ''id'' fs)) (\<lambda>i.
     bindE (get_str (jval ''state'' fs)) (\<lambda>st.
     bindE (get_str (jval ''class'' fs)) (\<lambda>c.
     bindE (get_str (jval ''resourceKind'' fs)) (\<lambda>rk.
     bindE (get_str (jval ''resourceId'' fs)) (\<lambda>r.
     bindE (get_str (jval ''leaseId'' fs)) (\<lambda>l.
     bindE (get_str (jval ''actor'' fs)) (\<lambda>ac.
     bindE (get_str (jval ''maxWait'' fs)) (\<lambda>w.
     bindE (pointer (get_time parse) (jval ''queueDeadline'' fs)) (\<lambda>q.
     bindE (get_time parse (jval ''createdAt'' fs)) (\<lambda>t.
     bindE (get_time parse (jval ''updatedAt'' fs)) (\<lambda>u.
     Inr \<lparr>wq_api_version = a, wq_kind = k, wq_id = i, wq_state = st, wq_class = c, wq_resource_kind = rk,
          wq_resource_id = r, wq_lease_id = l, wq_actor = ac, wq_max_wait = w, wq_queue_deadline = q,
          wq_created_at = t, wq_updated_at = u\<rparr>))))))))))))))"

record w_pool_manifest =
  wn_api_version :: string
  wn_kind :: string
  wn_metadata :: w_metadata
  wn_spec :: "json blob"

definition pool_manifest_json :: "(int \<Rightarrow> string) \<Rightarrow> w_pool_manifest \<Rightarrow> json option" where
  "pool_manifest_json show x = seal
     (omit_str ''apiVersion'' (wn_api_version x) @ omit_str ''kind'' (wn_kind x)
      @ (if wn_metadata x = zero_metadata then [] else [(''metadata'', seal (metadata_fields show (wn_metadata x)))])
      @ raw_field ''spec'' (wn_spec x))"

definition decode_pool_manifest :: "(string \<Rightarrow> int option) \<Rightarrow> json \<Rightarrow> err + w_pool_manifest" where
  "decode_pool_manifest parse = struct False []
     \<lparr>wn_api_version = [], wn_kind = [], wn_metadata = zero_metadata, wn_spec = BNil\<rparr> (\<lambda>fs.
     bindE (get_str (jval ''apiVersion'' fs)) (\<lambda>a.
     bindE (get_str (jval ''kind'' fs)) (\<lambda>k.
     bindE (decode_metadata parse False (jval ''metadata'' fs)) (\<lambda>m.
     Inr \<lparr>wn_api_version = a, wn_kind = k, wn_metadata = m, wn_spec = raw_of (jkey ''spec'' fs)\<rparr>))))"

definition decode_reclaim :: "bool \<Rightarrow> json \<Rightarrow> err + w_reclaim" where
  "decode_reclaim strict = struct strict [''idleAfter'', ''park'', ''deleteAfter'']
     \<lparr>wl_idle_after = [], wl_park = [], wl_delete_after = []\<rparr> (\<lambda>fs.
     bindE (get_str (jval ''idleAfter'' fs)) (\<lambda>i.
     bindE (get_str (jval ''park'' fs)) (\<lambda>p.
     bindE (get_str (jval ''deleteAfter'' fs)) (\<lambda>d.
     Inr \<lparr>wl_idle_after = i, wl_park = p, wl_delete_after = d\<rparr>))))"

definition decode_scheduling :: "bool \<Rightarrow> json \<Rightarrow> err + string option" where
  "decode_scheduling strict = struct strict [''queue''] None (\<lambda>fs.
     pointer (struct strict [''maxWait''] [] (\<lambda>qs. get_str (jval ''maxWait'' qs))) (jval ''queue'' fs))"

definition decode_class_spec :: "bool \<Rightarrow> json \<Rightarrow> err + w_class_spec" where
  "decode_class_spec strict = struct strict [''kind'', ''provider'', ''template'', ''reclaim'', ''scheduling'']
     \<lparr>wk_kind = [], wk_provider = [], wk_template = BNil, wk_reclaim = None, wk_scheduling = None\<rparr> (\<lambda>fs.
     bindE (get_str (jval ''kind'' fs)) (\<lambda>k.
     bindE (get_str (jval ''provider'' fs)) (\<lambda>p.
     bindE (pointer (decode_reclaim strict) (jval ''reclaim'' fs)) (\<lambda>r.
     bindE (pointer (decode_scheduling strict) (jval ''scheduling'' fs)) (\<lambda>q.
     Inr \<lparr>wk_kind = k, wk_provider = p, wk_template = raw_of (jkey ''template'' fs), wk_reclaim = r,
          wk_scheduling = q\<rparr>)))))"

record w_class_manifest =
  wf_api_version :: string
  wf_kind :: string
  wf_metadata :: w_metadata
  wf_spec :: w_class_spec

definition zero_class_spec :: w_class_spec where
  "zero_class_spec = \<lparr>wk_kind = [], wk_provider = [], wk_template = BNil, wk_reclaim = None, wk_scheduling = None\<rparr>"

definition class_manifest_json :: "(int \<Rightarrow> string) \<Rightarrow> w_class_manifest \<Rightarrow> json option" where
  "class_manifest_json show x = seal
     (omit_str ''apiVersion'' (wf_api_version x) @ omit_str ''kind'' (wf_kind x)
      @ (if wf_metadata x = zero_metadata then [] else [(''metadata'', seal (metadata_fields show (wf_metadata x)))])
      @ [(''spec'', seal (class_spec_fields (wf_spec x)))])"

definition decode_class_manifest :: "(string \<Rightarrow> int option) \<Rightarrow> json \<Rightarrow> err + w_class_manifest" where
  "decode_class_manifest parse = struct True [''apiVersion'', ''kind'', ''metadata'', ''spec'']
     \<lparr>wf_api_version = [], wf_kind = [], wf_metadata = zero_metadata, wf_spec = zero_class_spec\<rparr> (\<lambda>fs.
     bindE (get_str (jval ''apiVersion'' fs)) (\<lambda>a.
     bindE (get_str (jval ''kind'' fs)) (\<lambda>k.
     bindE (decode_metadata parse True (jval ''metadata'' fs)) (\<lambda>m.
     bindE (decode_class_spec True (jval ''spec'' fs)) (\<lambda>sp.
     Inr \<lparr>wf_api_version = a, wf_kind = k, wf_metadata = m, wf_spec = sp\<rparr>)))))"

section \<open>Kernel documents inside a request\<close>

text \<open>\<open>capacity.Constraints\<close>: a map from dimensions to \<open>\{"min": n\}\<close>.\<close>

fun decode_mins :: "(string \<times> json) list \<Rightarrow> err + constraints" where
  "decode_mins [] = Inr []"
| "decode_mins ((d, j) # r) =
     bindE (struct False [] 0 (\<lambda>fs. get_i64 (jval ''min'' fs)) j) (\<lambda>m.
     bindE (decode_mins r) (\<lambda>c. Inr ((d, m) # c)))"

definition constraints_of :: "json blob \<Rightarrow> constraints blob" where
  "constraints_of raw = (case raw of
     BNil \<Rightarrow> BNil
   | BBad \<Rightarrow> BBad
   | BVal JNull \<Rightarrow> BVal []
   | BVal (JObj fs) \<Rightarrow> (case decode_mins (AList.clearjunk (rev fs)) of Inl _ \<Rightarrow> BBad | Inr c \<Rightarrow> BVal c)
   | BVal _ \<Rightarrow> BBad)"

text \<open>\<open>reconcile.PoolSpec\<close> with its \<open>ReclaimPolicy\<close>.\<close>

definition reclaim_duration :: "(string \<Rightarrow> int option) \<Rightarrow> (string \<times> json) list \<Rightarrow> string \<Rightarrow> err + int" where
  "reclaim_duration pd fs k = (case jkey k fs of
     None \<Rightarrow> Inr 0
   | Some v \<Rightarrow> bindE (get_str v) (\<lambda>s.
       case pd s of None \<Rightarrow> Inl (EOther ''time: invalid duration'') | Some d \<Rightarrow> Inr d))"

definition decode_policy :: "(string \<Rightarrow> int option) \<Rightarrow> json \<Rightarrow> err + reclaim_policy" where
  "decode_policy pd = struct False [] \<lparr>rp_idle_after = 0, rp_park = [], rp_delete_after = 0\<rparr> (\<lambda>fs.
     bindE (reclaim_duration pd fs ''idleAfter'') (\<lambda>i.
     bindE (get_str (jval ''park'' fs)) (\<lambda>p.
     bindE (reclaim_duration pd fs ''deleteAfter'') (\<lambda>d.
     Inr \<lparr>rp_idle_after = i, rp_park = p, rp_delete_after = d\<rparr>))))"

definition decode_pool_spec :: "(string \<Rightarrow> int option) \<Rightarrow> json \<Rightarrow> err + pool_spec" where
  "decode_pool_spec pd = struct False []
     \<lparr>ps_class = [], ps_replicas = 0, ps_min_ready = 0, ps_min_running = 0, ps_max_resources = 0,
      ps_reclaim = None, ps_machine = None, ps_provider = [], ps_kind = []\<rparr> (\<lambda>fs.
     bindE (get_str (jval ''class'' fs)) (\<lambda>c.
     bindE (get_i64 (jval ''replicas'' fs)) (\<lambda>n.
     bindE (get_i64 (jval ''minReady'' fs)) (\<lambda>mr.
     bindE (get_i64 (jval ''minRunning'' fs)) (\<lambda>mu.
     bindE (get_i64 (jval ''maxResources'' fs)) (\<lambda>mx.
     bindE (pointer (decode_policy pd) (jval ''reclaim'' fs)) (\<lambda>rc.
     bindE (get_str (jval ''provider'' fs)) (\<lambda>p.
     bindE (get_str (jval ''kind'' fs)) (\<lambda>k.
     Inr \<lparr>ps_class = c, ps_replicas = n, ps_min_ready = mr, ps_min_running = mu, ps_max_resources = mx,
          ps_reclaim = rc,
          ps_machine = (case jval ''machine'' fs of JNull \<Rightarrow> None | j \<Rightarrow> Some (BVal j)),
          ps_provider = p, ps_kind = k\<rparr>)))))))))"

text \<open>The spec column of a pool: bytes that are no pool spec are rejected where they are read.\<close>

definition pool_spec_of :: "(string \<Rightarrow> int option) \<Rightarrow> json blob \<Rightarrow> pool_spec blob" where
  "pool_spec_of pd raw = (case raw of
     BNil \<Rightarrow> BBad
   | BBad \<Rightarrow> BBad
   | BVal j \<Rightarrow> (case decode_pool_spec pd j of Inl _ \<Rightarrow> BBad | Inr sp \<Rightarrow> BVal sp))"

end
