(* ===== verification/Auth.thy ===== *)
theory Auth
  imports Wire
begin

text \<open>
  Authentication and authorisation (internal/api/auth.go): the closed set of permissions, the
  configured tokens with the digests of their secrets, the parsing of a bearer header, and minting
  a token. SHA-256 and the random bytes are arguments.
\<close>

section \<open>Permissions\<close>

datatype permission =
  PermResourceRead | PermResourceAcquire | PermResourceCreate | PermResourceDelete
| PermPoolRead | PermPoolWrite | PermClassRead | PermClassWrite
| PermProviderRead | PermProviderAdmin | PermOperationRead | PermAdmin

fun perm_name :: "permission \<Rightarrow> string" where
  "perm_name PermResourceRead = ''resource.read''"
| "perm_name PermResourceAcquire = ''resource.acquire''"
| "perm_name PermResourceCreate = ''resource.create''"
| "perm_name PermResourceDelete = ''resource.delete''"
| "perm_name PermPoolRead = ''pool.read''"
| "perm_name PermPoolWrite = ''pool.write''"
| "perm_name PermClassRead = ''class.read''"
| "perm_name PermClassWrite = ''class.write''"
| "perm_name PermProviderRead = ''provider.read''"
| "perm_name PermProviderAdmin = ''provider.admin''"
| "perm_name PermOperationRead = ''operation.read''"
| "perm_name PermAdmin = ''admin''"

definition all_permissions :: "permission list" where
  "all_permissions = [PermResourceRead, PermResourceAcquire, PermResourceCreate, PermResourceDelete,
     PermPoolRead, PermPoolWrite, PermClassRead, PermClassWrite, PermProviderRead, PermProviderAdmin,
     PermOperationRead, PermAdmin]"

text \<open>A permission set is the list of its members.\<close>

fun new_perm_set :: "string list \<Rightarrow> err + permission list" where
  "new_perm_set [] = Inr []"
| "new_perm_set (p # ps) =
     (case find (\<lambda>k. perm_name k = p) all_permissions of
        None \<Rightarrow> Inl (EOther ''unknown permission'')
      | Some k \<Rightarrow> bindE (new_perm_set ps) (\<lambda>s. Inr (k # s)))"

definition allows :: "permission list \<Rightarrow> permission \<Rightarrow> bool" where
  "allows s p \<longleftrightarrow> PermAdmin \<in> set s \<or> p \<in> set s"

lemma all_permissions_complete: "p \<in> set all_permissions"
  by (cases p) (simp_all add: all_permissions_def)

lemma perm_name_inj: "perm_name p = perm_name q \<Longrightarrow> p = q"
  by (cases p; cases q) simp_all

lemma find_permission: "find (\<lambda>k. perm_name k = perm_name p) all_permissions = Some p"
proof -
  obtain q where q: "find (\<lambda>k. perm_name k = perm_name p) all_permissions = Some q"
    using all_permissions_complete [of p] by (cases "find (\<lambda>k. perm_name k = perm_name p) all_permissions")
      (auto simp: find_None_iff)
  then have "perm_name q = perm_name p" by (auto simp: find_Some_iff)
  with q perm_name_inj show ?thesis by blast
qed

lemma new_perm_set_names: "new_perm_set (map perm_name ps) = Inr ps"
  by (induction ps) (simp_all add: find_permission)

lemma new_perm_set_Inr_iff: "new_perm_set xs = Inr ps \<longleftrightarrow> xs = map perm_name ps"
proof
  show "new_perm_set xs = Inr ps \<Longrightarrow> xs = map perm_name ps"
    by (induction xs arbitrary: ps) (auto simp: bindE_Inr_iff find_Some_iff split: option.splits)
qed (simp add: new_perm_set_names)

section \<open>Tokens\<close>

record principal =
  pn_token_id :: string
  pn_name :: string
  pn_perms :: "permission list"

record token_record =
  tk_id :: string
  tk_name :: string
  tk_sha :: string
  tk_perms :: "permission list"

record authenticator =
  au_by_id :: "(string \<times> token_record) list"
  au_dummy :: string

definition new_authenticator :: "string \<Rightarrow> token_record list \<Rightarrow> authenticator" where
  "new_authenticator dummy recs =
     \<lparr>au_by_id = fold (\<lambda>r m. AList.update (tk_id r) r m) recs [], au_dummy = dummy\<rparr>"

definition auth_enabled :: "authenticator \<Rightarrow> bool" where
  "auth_enabled a \<longleftrightarrow> length (au_by_id a) > 0"

definition principal_of_record :: "token_record \<Rightarrow> principal" where
  "principal_of_record r = \<lparr>pn_token_id = tk_id r, pn_name = tk_name r, pn_perms = tk_perms r\<rparr>"

text \<open>The digest comparison takes place for an unknown id as well, with the dummy digest.\<close>

definition authenticate :: "(string \<Rightarrow> string) \<Rightarrow> authenticator \<Rightarrow> string \<Rightarrow> err + principal" where
  "authenticate sha a hdr =
     (case cut_prefix ''Bearer '' hdr of
        None \<Rightarrow> Inl (EOther ''missing bearer token'')
      | Some raw \<Rightarrow> (case cut_prefix ''flp_'' (trim_space raw) of
          None \<Rightarrow> Inl (EOther ''malformed token'')
        | Some body \<Rightarrow> (case cut_at CHR ''.'' body of
            None \<Rightarrow> Inl (EOther ''malformed token'')
          | Some (i, secret) \<Rightarrow>
              (let rec = map_of (au_by_id a) i;
                   want = (case rec of None \<Rightarrow> au_dummy a | Some r \<Rightarrow> tk_sha r)
               in if sha secret \<noteq> want \<or> rec = None then Inl (EOther ''invalid token'')
                  else Inr (principal_of_record (the rec))))))"

definition parse_token :: "(string \<Rightarrow> string) \<Rightarrow> string \<Rightarrow> string \<Rightarrow> permission list \<Rightarrow> err + token_record" where
  "parse_token sha plaintext name perms =
     (case cut_prefix ''flp_'' (trim_space plaintext) of
        None \<Rightarrow> Inl (EOther ''malformed token: want flp_<id>.<secret>'')
      | Some body \<Rightarrow> (case cut_at CHR ''.'' body of
          None \<Rightarrow> Inl (EOther ''malformed token: want flp_<id8>.<secret>'')
        | Some (i, secret) \<Rightarrow>
            (if length i \<noteq> 8 \<or> secret = [] then Inl (EOther ''malformed token: want flp_<id8>.<secret>'')
             else Inr \<lparr>tk_id = i, tk_name = name, tk_sha = sha secret, tk_perms = perms\<rparr>)))"

text \<open>\<open>hex.EncodeToString\<close> and \<open>base64.RawURLEncoding\<close>.\<close>

definition hex :: "string \<Rightarrow> string" where
  "hex s = concat (map (\<lambda>c. hex2 (of_char c)) s)"

definition base64_url :: "string \<Rightarrow> string" where
  "base64_url s = map (\<lambda>c. if c = CHR ''+'' then CHR ''-'' else if c = CHR ''/'' then CHR ''_'' else c)
     (filter (\<lambda>c. c \<noteq> CHR ''='') (base64 s))"

text \<open>\<open>GenerateToken\<close> with its 4 and 32 random bytes: the plaintext and the record.\<close>

definition generate_token ::
    "(string \<Rightarrow> string) \<Rightarrow> string \<Rightarrow> permission list \<Rightarrow> string \<Rightarrow> string \<Rightarrow> string \<times> token_record" where
  "generate_token sha name perms idb secretb =
     (let i = hex idb; secret = base64_url secretb in
      (''flp_'' @ i @ ''.'' @ secret, \<lparr>tk_id = i, tk_name = name, tk_sha = sha secret, tk_perms = perms\<rparr>))"

section \<open>Laws\<close>

lemma of_char_lt: "of_char c < (256 :: nat)" for c :: char
  by (rule nat_of_char_less_256)

lemma dropWhile_none: "list_all (\<lambda>c. \<not> P c) xs \<Longrightarrow> dropWhile P xs = xs"
  by (cases xs) simp_all

lemma trim_space_id: "list_all (\<lambda>c. \<not> is_space c) s \<Longrightarrow> trim_space s = s"
  unfolding trim_space_def by (metis dropWhile_none list_all_rev rev_rev_ident)

text \<open>The characters of tokens: neither a space nor a dot, nor what separates id and secret.\<close>

definition token_char :: "char \<Rightarrow> bool" where
  "token_char c \<longleftrightarrow> \<not> is_space c \<and> c \<noteq> CHR ''.''"

lemma b64_url_char: "n < 64 \<Longrightarrow> token_char (b64_char n)"
proof -
  have "list_all (\<lambda>n. token_char (b64_char n)) [0..<64]" by code_simp
  then show "n < 64 \<Longrightarrow> token_char (b64_char n)" by (simp add: list_all_iff)
qed

lemma b64_bytes_chars: "list_all (\<lambda>n. n < 256) ns \<Longrightarrow> list_all (\<lambda>c. token_char c \<or> c = CHR ''='') (b64_bytes ns)"
proof (induction ns rule: b64_bytes.induct)
  case (4 a b c r)
  then show ?case by (auto intro!: b64_url_char)
qed (auto intro!: b64_url_char)

lemma base64_url_chars: "list_all token_char (base64_url s)"
proof -
  have "list_all (\<lambda>n. n < 256) (map of_char s :: nat list)" by (simp add: list_all_iff of_char_lt)
  then have "list_all (\<lambda>c. token_char c \<or> c = CHR ''='') (base64 s)"
    unfolding base64_def by (rule b64_bytes_chars)
  moreover have "token_char CHR ''-'' \<and> token_char CHR ''_''" by (simp add: token_char_def is_space_def)
  ultimately show ?thesis by (auto simp: base64_url_def list_all_iff)
qed

lemma hex_digit_ok: "n < 16 \<Longrightarrow> token_char (hex_digit n)"
proof -
  have "list_all (\<lambda>n. token_char (hex_digit n)) [0..<16]" by code_simp
  then show "n < 16 \<Longrightarrow> token_char (hex_digit n)" by (simp add: list_all_iff)
qed

lemma of_char_div: "of_char c div 16 < (16 :: nat)" for c :: char
  using of_char_lt [of c] by (simp add: less_mult_imp_div_less)

lemma hex_chars: "list_all token_char (hex s)"
  by (induction s) (auto simp: hex_def hex2_def intro!: hex_digit_ok of_char_div)

lemma length_hex: "length (hex s) = 2 * length s"
  by (induction s) (simp_all add: hex_def hex2_def)

lemma generated_text:
  "trim_space (''flp_'' @ hex idb @ ''.'' @ base64_url secretb) = ''flp_'' @ hex idb @ ''.'' @ base64_url secretb"
  using hex_chars [of idb] base64_url_chars [of secretb]
  by (intro trim_space_id) (auto simp: list_all_iff token_char_def is_space_def)

lemma hex_no_dot: "CHR ''.'' \<notin> set (hex s)"
  using hex_chars [of s] by (auto simp: list_all_iff token_char_def)

lemma base64_url_nonempty: "s \<noteq> [] \<Longrightarrow> base64_url s \<noteq> []"
proof -
  assume "s \<noteq> []"
  then obtain c r where s: "s = c # r" by (cases s) auto
  obtain x y where "base64 s = x # y" "x = b64_char (of_char c div 4)"
    by (cases r; cases "tl r") (auto simp: s base64_def)
  moreover have "of_char c div 4 < (64 :: nat)" using of_char_lt [of c] by (simp add: less_mult_imp_div_less)
  moreover have "b64_char n \<noteq> CHR ''=''" if "n < 64" for n
  proof -
    have "list_all (\<lambda>n. b64_char n \<noteq> CHR ''='') [0..<64]" by code_simp
    then show ?thesis using that by (simp add: list_all_iff)
  qed
  ultimately show ?thesis by (simp add: base64_url_def)
qed

lemma map_of_fold_update:
  "map_of (fold (\<lambda>r m. AList.update (tk_id r) r m) recs m0) i =
     (case find (\<lambda>r. tk_id r = i) (rev recs) of None \<Rightarrow> map_of m0 i | Some r \<Rightarrow> Some r)"
  by (induction recs arbitrary: m0)
    (auto simp: update_conv' tget_append [unfolded tget_def] split: option.splits)

lemma authenticate_sound:
  assumes "authenticate sha a hdr = Inr p"
  obtains i secret r where "trim_space (drop 7 hdr) = ''flp_'' @ i @ ''.'' @ secret"
    "map_of (au_by_id a) i = Some r" "sha secret = tk_sha r" "p = principal_of_record r"
  using assms that
  by (auto simp: authenticate_def cut_prefix_Some_iff cut_at_Some_iff Let_def
      split: option.splits if_splits prod.splits)

lemma parse_token_InrE:
  assumes "parse_token sha plain name perms = Inr rec"
  obtains secret where "trim_space plain = ''flp_'' @ tk_id rec @ ''.'' @ secret" "CHR ''.'' \<notin> set (tk_id rec)"
    "tk_sha rec = sha secret" "tk_name rec = name" "tk_perms rec = perms"
  using assms that
  by (auto simp: parse_token_def cut_prefix_Some_iff cut_at_Some_iff split: option.splits if_splits prod.splits)

text \<open>A token of whatever origin, whose record is the one under its id.\<close>

lemma parsed_authenticates:
  assumes "parse_token sha plain name perms = Inr rec" and "map_of (au_by_id a) (tk_id rec) = Some rec"
  shows "authenticate sha a (''Bearer '' @ plain) = Inr \<lparr>pn_token_id = tk_id rec, pn_name = name, pn_perms = perms\<rparr>"
proof -
  obtain secret where p: "trim_space plain = ''flp_'' @ tk_id rec @ ''.'' @ secret" "CHR ''.'' \<notin> set (tk_id rec)"
    "tk_sha rec = sha secret" "tk_name rec = name" "tk_perms rec = perms"
    using assms(1) by (rule parse_token_InrE)
  have "cut_prefix ''flp_'' (trim_space plain) = Some (tk_id rec @ ''.'' @ secret)"
    unfolding p(1) by (rule cut_prefix_append)
  moreover have "cut_at CHR ''.'' (tk_id rec @ ''.'' @ secret) = Some (tk_id rec, secret)"
    using cut_at_append [OF p(2)] by simp
  ultimately show ?thesis
    using p(3-5) assms(2)
    by (simp add: authenticate_def principal_of_record_def cut_prefix_append [of "''Bearer ''", simplified])
qed

lemma parse_generated:
  assumes "generate_token sha name perms idb secretb = (plain, rec)" and "length idb = 4" and "secretb \<noteq> []"
  shows "parse_token sha plain name perms = Inr rec"
proof -
  have g: "plain = ''flp_'' @ hex idb @ ''.'' @ base64_url secretb"
    "rec = \<lparr>tk_id = hex idb, tk_name = name, tk_sha = sha (base64_url secretb), tk_perms = perms\<rparr>"
    using assms(1) by (auto simp: generate_token_def Let_def)
  have t: "cut_prefix ''flp_'' (trim_space plain) = Some (hex idb @ ''.'' @ base64_url secretb)"
    unfolding g(1) generated_text by (rule cut_prefix_append)
  have "cut_at CHR ''.'' (hex idb @ ''.'' @ base64_url secretb) = Some (hex idb, base64_url secretb)"
    using cut_at_append [OF hex_no_dot] by simp
  then show ?thesis
    using t assms(2,3) base64_url_nonempty [of secretb] length_hex [of idb] g(2) by (simp add: parse_token_def)
qed

text \<open>
  A minted token authenticates as the principal it was minted for, wherever its record is the one
  configured under its id, and installing the plaintext through \<open>ParseToken\<close> gives the same record.
\<close>

theorem generated_token_authenticates:
  assumes "generate_token sha name perms idb secretb = (plain, rec)"
    and "length idb = 4" and "length secretb = 32"
    and "\<forall>r \<in> set recs. tk_id r = tk_id rec \<longrightarrow> r = rec"
  shows "authenticate sha (new_authenticator dummy (rec # recs)) (''Bearer '' @ plain)
           = Inr \<lparr>pn_token_id = tk_id rec, pn_name = name, pn_perms = perms\<rparr>
    \<and> parse_token sha plain name perms = Inr rec"
proof (rule conjI [rotated])
  show p: "parse_token sha plain name perms = Inr rec"
    by (rule parse_generated [OF assms(1,2)]) (use assms(3) in auto)
  have "map_of (au_by_id (new_authenticator dummy (rec # recs))) (tk_id rec) = Some rec"
  proof (cases "find (\<lambda>r. tk_id r = tk_id rec) (rev recs)")
    case None
    then show ?thesis by (simp add: new_authenticator_def map_of_fold_update update_conv')
  next
    case (Some r)
    then have "r = rec" using assms(4) by (auto dest: tget_SomeD [unfolded tget_def])
    with Some show ?thesis by (simp add: new_authenticator_def map_of_fold_update)
  qed
  with p show "authenticate sha (new_authenticator dummy (rec # recs)) (''Bearer '' @ plain)
      = Inr \<lparr>pn_token_id = tk_id rec, pn_name = name, pn_perms = perms\<rparr>"
    by (rule parsed_authenticates)
qed

end
