(* ===== verification/Routes.thy ===== *)
theory Routes
  imports Auth
begin

text \<open>
  The route table of the HTTP API (internal/api/routes.go), the request multiplexer of net/http as
  the table uses it, and the colon verbs. A handler is named by a constructor; what it does is in
  the theory of the handlers.
\<close>

datatype handler =
  CreateAcquisition | ListAcquisitions | GetAcquisition | ReleaseAcquisition
| CreateResource | ListResources | GetResource | DeleteResource
| DrainResource | ParkResource | StartResource | UndrainResource | ProtectResource | UnprotectResource
| CreatePool | ListPools | GetPool | UpdatePool | DeletePool | ReconcilePool | PausePool | ResumePool
| CreateClass | ListClasses | GetClass | UpdateClass | DeleteClass
| ListOperations | GetOperation | ResolveOperation | ListEvents | ListProviders

text \<open>A path segment of a pattern: a literal or a wildcard.\<close>

datatype segment = Lit string | Wild string

record route =
  rt_method :: string
  rt_pattern :: "segment list"
  rt_verb :: string
  rt_perm :: permission
  rt_mutating :: bool
  rt_handler :: handler

definition route_row :: "string \<Rightarrow> segment list \<Rightarrow> string \<Rightarrow> permission \<Rightarrow> bool \<Rightarrow> handler \<Rightarrow> route" where
  "route_row m p v pm mu h = \<lparr>rt_method = m, rt_pattern = p, rt_verb = v, rt_perm = pm, rt_mutating = mu, rt_handler = h\<rparr>"

definition p_acqs :: "segment list" where "p_acqs = [Lit ''v1'', Lit ''acquisitions'']"
definition p_res :: "segment list" where "p_res = [Lit ''v1'', Lit ''resources'']"
definition p_pools :: "segment list" where "p_pools = [Lit ''v1'', Lit ''pools'']"
definition p_classes :: "segment list" where "p_classes = [Lit ''v1'', Lit ''classes'']"
definition p_ops :: "segment list" where "p_ops = [Lit ''v1'', Lit ''operations'']"

abbreviation w_id :: "segment list" where "w_id \<equiv> [Wild ''id'']"
abbreviation w_idverb :: "segment list" where "w_idverb \<equiv> [Wild ''idverb'']"
abbreviation w_name :: "segment list" where "w_name \<equiv> [Wild ''name'']"

definition routes :: "route list" where
  "routes =
    [route_row ''POST'' p_acqs [] PermResourceAcquire True CreateAcquisition,
     route_row ''GET'' p_acqs [] PermResourceRead False ListAcquisitions,
     route_row ''GET'' (p_acqs @ w_id) [] PermResourceRead False GetAcquisition,
     route_row ''DELETE'' (p_acqs @ w_id) [] PermResourceAcquire True ReleaseAcquisition,
     route_row ''POST'' p_res [] PermResourceCreate True CreateResource,
     route_row ''GET'' p_res [] PermResourceRead False ListResources,
     route_row ''GET'' (p_res @ w_id) [] PermResourceRead False GetResource,
     route_row ''DELETE'' (p_res @ w_id) [] PermResourceDelete True DeleteResource,
     route_row ''POST'' (p_res @ w_idverb) ''drain'' PermResourceDelete True DrainResource,
     route_row ''POST'' (p_res @ w_idverb) ''park'' PermResourceDelete True ParkResource,
     route_row ''POST'' (p_res @ w_idverb) ''start'' PermResourceCreate True StartResource,
     route_row ''POST'' (p_res @ w_idverb) ''undrain'' PermResourceDelete True UndrainResource,
     route_row ''POST'' (p_res @ w_idverb) ''protect'' PermResourceDelete True ProtectResource,
     route_row ''POST'' (p_res @ w_idverb) ''unprotect'' PermResourceDelete True UnprotectResource,
     route_row ''POST'' p_pools [] PermPoolWrite True CreatePool,
     route_row ''GET'' p_pools [] PermPoolRead False ListPools,
     route_row ''GET'' (p_pools @ w_id) [] PermPoolRead False GetPool,
     route_row ''PUT'' (p_pools @ w_id) [] PermPoolWrite True UpdatePool,
     route_row ''DELETE'' (p_pools @ w_id) [] PermPoolWrite True DeletePool,
     route_row ''POST'' (p_pools @ w_idverb) ''reconcile'' PermPoolWrite True ReconcilePool,
     route_row ''POST'' (p_pools @ w_idverb) ''pause'' PermPoolWrite True PausePool,
     route_row ''POST'' (p_pools @ w_idverb) ''resume'' PermPoolWrite True ResumePool,
     route_row ''POST'' p_classes [] PermClassWrite True CreateClass,
     route_row ''GET'' p_classes [] PermClassRead False ListClasses,
     route_row ''GET'' (p_classes @ w_name) [] PermClassRead False GetClass,
     route_row ''PUT'' (p_classes @ w_name) [] PermClassWrite True UpdateClass,
     route_row ''DELETE'' (p_classes @ w_name) [] PermClassWrite True DeleteClass,
     route_row ''GET'' p_ops [] PermOperationRead False ListOperations,
     route_row ''GET'' (p_ops @ w_id) [] PermOperationRead False GetOperation,
     route_row ''POST'' (p_ops @ w_idverb) ''resolve'' PermProviderAdmin True ResolveOperation,
     route_row ''GET'' [Lit ''v1'', Lit ''events''] [] PermOperationRead False ListEvents,
     route_row ''GET'' [Lit ''v1'', Lit ''providers''] [] PermProviderRead False ListProviders]"

section \<open>The multiplexer\<close>

text \<open>
  A pattern matches a path segment by segment, a wildcard any non-empty one. A \<open>GET\<close> pattern serves
  \<open>HEAD\<close> too. Rows of one method and pattern share one entry; where only other methods match, the
  answer is 405.
\<close>

fun match_path :: "segment list \<Rightarrow> string list \<Rightarrow> (string \<times> string) list option" where
  "match_path [] [] = Some []"
| "match_path (Lit l # ps) (s # ss) = (if l = s then match_path ps ss else None)"
| "match_path (Wild w # ps) (s # ss) =
     (if s = [] then None else map_option (\<lambda>b. (w, s) # b) (match_path ps ss))"
| "match_path _ _ = None"

definition serves_method :: "string \<Rightarrow> string \<Rightarrow> bool" where
  "serves_method pat m \<longleftrightarrow> pat = m \<or> pat = ''GET'' \<and> m = ''HEAD''"

definition matching :: "string \<Rightarrow> string list \<Rightarrow> route list" where
  "matching m path = filter (\<lambda>rt. serves_method (rt_method rt) m \<and> match_path (rt_pattern rt) path \<noteq> None) routes"

datatype mux_result = NoPattern | WrongMethod | Found "route list" "(string \<times> string) list"

definition mux :: "string \<Rightarrow> string list \<Rightarrow> mux_result" where
  "mux m path =
     (case matching m path of
        rt # rts \<Rightarrow> Found (rt # rts) (the (match_path (rt_pattern rt) path))
      | [] \<Rightarrow> (if list_ex (\<lambda>rt. match_path (rt_pattern rt) path \<noteq> None) routes then WrongMethod else NoPattern))"

section \<open>Colon verbs\<close>

text \<open>\<open>splitVerb\<close>: at the last colon, both sides non-empty.\<close>

definition split_verb :: "string \<Rightarrow> (string \<times> string) option" where
  "split_verb s =
     (case cut_at CHR '':'' (rev s) of
        None \<Rightarrow> None
      | Some (v, i) \<Rightarrow> (if i = [] \<or> v = [] then None else Some (rev i, rev v)))"

text \<open>\<open>dispatch\<close>: the row a matched entry resolves to, with the path values of the handler.\<close>

definition dispatch_row :: "route list \<Rightarrow> (string \<times> string) list \<Rightarrow> (route \<times> (string \<times> string) list) option" where
  "dispatch_row defs vals =
     (if rt_verb (hd defs) = [] then Some (hd defs, vals)
      else (case split_verb (lab vals ''idverb'') of
          None \<Rightarrow> None
        | Some (i, verb) \<Rightarrow> (case find (\<lambda>d. rt_verb d = verb) defs of
            None \<Rightarrow> None
          | Some d \<Rightarrow> Some (d, put ''id'' i vals))))"

section \<open>Laws\<close>

lemma split_verb_Some_iff:
  "split_verb s = Some (i, v) \<longleftrightarrow> s = i @ '':'' @ v \<and> CHR '':'' \<notin> set v \<and> i \<noteq> [] \<and> v \<noteq> []"
proof -
  have "split_verb s = Some (i, v) \<longleftrightarrow> cut_at CHR '':'' (rev s) = Some (rev v, rev i) \<and> i \<noteq> [] \<and> v \<noteq> []"
    by (auto simp: split_verb_def split: option.splits)
  also have "\<dots> \<longleftrightarrow> rev s = rev v @ CHR '':'' # rev i \<and> CHR '':'' \<notin> set v \<and> i \<noteq> [] \<and> v \<noteq> []"
    by (simp add: cut_at_Some_iff)
  also have "rev s = rev v @ CHR '':'' # rev i \<longleftrightarrow> s = i @ '':'' @ v"
    by (metis append.assoc append_Cons append_Nil rev.simps(2) rev_append rev_rev_ident)
  finally show ?thesis .
qed

definition read_methods :: "string list" where "read_methods = [''GET'', ''HEAD'']"

lemma mutating_rows:
  "list_all (\<lambda>rt. rt_mutating rt \<longleftrightarrow> rt_method rt \<notin> set read_methods) routes"
  by code_simp

text \<open>
  Rows that share method and path shape: the entries without verbs have one row, the entries with
  verbs have verbs on every row, without a repetition.
\<close>

lemma entries_consistent:
  "list_all (\<lambda>rt. list_all (\<lambda>rt'. rt_method rt = rt_method rt' \<and> rt_pattern rt = rt_pattern rt'
      \<longrightarrow> rt = rt' \<or> rt_verb rt \<noteq> [] \<and> rt_verb rt' \<noteq> [] \<and> rt_verb rt \<noteq> rt_verb rt') routes) routes"
  by code_simp

lemma matching_rows: "rt \<in> set (matching m path) \<Longrightarrow> rt \<in> set routes \<and> serves_method (rt_method rt) m"
  by (simp add: matching_def)

lemma mux_Found:
  assumes "mux m path = Found defs vals"
  shows "defs \<noteq> []" and "defs = matching m path"
  using assms by (auto simp: mux_def split: list.splits if_splits)

lemma dispatch_row_mem:
  assumes "dispatch_row defs vals = Some (rt, vals')" and "defs \<noteq> []"
  shows "rt \<in> set defs"
  using assms by (auto simp: dispatch_row_def find_Some_iff hd_conv_nth split: option.splits prod.splits if_splits)

text \<open>What a dispatched row's method says about writing: only \<open>GET\<close> rows serve \<open>GET\<close> and \<open>HEAD\<close>.\<close>

lemma dispatched_mutating:
  assumes "mux m path = Found defs vals" and "dispatch_row defs vals = Some (rt, vals')"
    and "rt_mutating rt"
  shows "m \<notin> set read_methods" and "rt \<in> set routes"
proof -
  have mem: "rt \<in> set (matching m path)"
    using dispatch_row_mem [OF assms(2)] mux_Found [OF assms(1)] by simp
  then show "rt \<in> set routes" using matching_rows by blast
  then have "rt_method rt \<notin> set read_methods" using mutating_rows assms(3) by (auto simp: list_all_iff)
  moreover have "serves_method (rt_method rt) m" using matching_rows [OF mem] by simp
  ultimately show "m \<notin> set read_methods" by (auto simp: serves_method_def read_methods_def)
qed

end
