(* ===== verification/Health.thy ===== *)
theory Health
  imports App_Admin Go_Text
begin

text \<open>
  The health tracker (internal/app/health.go) over all instances, and the listing of audit events
  (internal/storage/sqlite/misc.go). The ids of events are minted by an argument, one per position
  of the append-only table.
\<close>

section \<open>The tracker\<close>

record tracked =
  tr_instance :: string
  tr_driver :: string
  tr_health :: provider_health
  tr_error :: string

text \<open>\<open>NewHealthTracker\<close>: one entry per configured instance, given with its driver.\<close>

definition new_tracker :: "int \<Rightarrow> (string \<times> string) list \<Rightarrow> tracked list" where
  "new_tracker now insts =
     map (\<lambda>(n, d). \<lparr>tr_instance = n, tr_driver = d, tr_health = health_new now, tr_error = []\<rparr>) (sort_key fst insts)"

definition tracker_record :: "health_config \<Rightarrow> int \<Rightarrow> string \<Rightarrow> string option \<Rightarrow> tracked list \<Rightarrow> tracked list" where
  "tracker_record cfg now name failure ts =
     tupd tr_instance name (\<lambda>t. t\<lparr>tr_health := health_record cfg now (failure \<noteq> None) (tr_health t),
        tr_error := (case failure of None \<Rightarrow> [] | Some e \<Rightarrow> e)\<rparr>) ts"

text \<open>\<open>CheckAll\<close>: the answers of the providers' health calls, one after the other by name.\<close>

definition check_all :: "health_config \<Rightarrow> int \<Rightarrow> (string \<Rightarrow> string option) \<Rightarrow> tracked list \<Rightarrow> tracked list" where
  "check_all cfg now answers ts =
     fold (\<lambda>name. tracker_record cfg now name (answers name)) (map tr_instance (sort_key tr_instance ts)) ts"

definition health_snapshot :: "tracked list \<Rightarrow> tracked list" where
  "health_snapshot ts = sort_key tr_instance ts"

fun health_state_name :: "health_state \<Rightarrow> string" where
  "health_state_name HUnknown = ''unknown''"
| "health_state_name HHealthy = ''healthy''"
| "health_state_name HDegraded = ''degraded''"
| "health_state_name HUnavailable = ''unavailable''"

section \<open>Audit events\<close>

record event_filter =
  ef_after :: string
  ef_since :: int
  ef_type :: string
  ef_resource :: "string option"
  ef_pool :: "string option"

definition event_matches :: "event_filter \<Rightarrow> string \<times> event \<Rightarrow> bool" where
  "event_matches f = (\<lambda>(i, e).
     (ef_after f = [] \<or> i > ef_after f) \<and> (ef_since f \<le> 0 \<or> ev_ts e \<ge> ef_since f)
     \<and> (ef_type f = [] \<or> ev_type e = ef_type f)
     \<and> (ef_resource f = None \<or> ev_resource e = ef_resource f)
     \<and> (ef_pool f = None \<or> ev_pool e = ef_pool f))"

definition list_events :: "(nat \<Rightarrow> string) \<Rightarrow> event_filter \<Rightarrow> nat \<Rightarrow> db \<Rightarrow> (string \<times> event) list" where
  "list_events ids f limit s =
     take limit (sort_key fst (filter (event_matches f) (zip (map ids [0..<length (events s)]) (events s))))"

section \<open>Laws\<close>

text \<open>A check touches the health of the named instance only, and every instance keeps its entry.\<close>

lemma tracker_record_instances: "map tr_instance (tracker_record cfg now name f ts) = map tr_instance ts"
  unfolding tracker_record_def by (rule map_key_tupd) (simp add: keeps_key_def)

lemma tracker_record_get:
  "tget tr_instance n (tracker_record cfg now name f ts) =
     (if n = name then map_option (\<lambda>t. t\<lparr>tr_health := health_record cfg now (f \<noteq> None) (tr_health t),
        tr_error := (case f of None \<Rightarrow> [] | Some e \<Rightarrow> e)\<rparr>) (tget tr_instance n ts)
      else tget tr_instance n ts)"
  unfolding tracker_record_def by (simp add: tget_tupd keeps_key_def)

lemma check_fold_get:
  "distinct names \<Longrightarrow> tget tr_instance n (fold (\<lambda>name. tracker_record cfg now name (answers name)) names ts) =
     (if n \<in> set names then map_option (\<lambda>t. t\<lparr>tr_health := health_record cfg now (answers n \<noteq> None) (tr_health t),
        tr_error := (case answers n of None \<Rightarrow> [] | Some e \<Rightarrow> e)\<rparr>) (tget tr_instance n ts)
      else tget tr_instance n ts)"
  by (induction names arbitrary: ts) (auto simp: tracker_record_get)

lemma check_all_get:
  assumes "distinct (map tr_instance ts)" and "tget tr_instance n ts = Some t"
  shows "tget tr_instance n (check_all cfg now answers ts) =
    Some (t\<lparr>tr_health := health_record cfg now (answers n \<noteq> None) (tr_health t),
        tr_error := (case answers n of None \<Rightarrow> [] | Some e \<Rightarrow> e)\<rparr>)"
proof -
  have "mset (map tr_instance (sort_key tr_instance ts)) = mset (map tr_instance ts)" by simp
  then have "distinct (map tr_instance (sort_key tr_instance ts))"
    using assms(1) mset_eq_imp_distinct_iff by blast
  moreover have "n \<in> set (map tr_instance (sort_key tr_instance ts))"
    using tget_SomeD [OF assms(2)] by auto
  ultimately show ?thesis using assms(2) by (simp add: check_all_def check_fold_get)
qed

end
