(* ===== verification/Handlers.thy ===== *)
theory Handlers
  imports Wire_Decode Routes Health
begin

text \<open>
  The handlers of the HTTP API (internal/api/api.go, handlers.go, classes.go) as functions from a
  request and the database to a reply and the database, over the commands of the application
  service, and the chain around them: multiplexer, verb dispatch, authentication, authorisation.
  The parser of JSON texts, the texts of errors, times and durations, SHA-256 and the fresh
  identifiers are arguments.
\<close>

section \<open>Requests, replies and the server\<close>

record http_request =
  hr_method :: string
  hr_path :: "string list"
  hr_query :: "(string \<times> string) list"
  hr_authorization :: string
  hr_request_id :: string
  hr_idem_key :: string
  hr_body :: string

text \<open>
  A body is a marshalled document, stored bytes sent verbatim, a plain text of net/http, or nothing
  where marshalling failed.
\<close>

datatype reply_body = Doc json | Stored string | Text string | NoBody

record response =
  rs_status :: int
  rs_headers :: "(string \<times> string) list"
  rs_body :: reply_body

record server =
  sv_app :: app_env
  sv_auth :: authenticator
  sv_health :: "tracked list option"
  sv_sha :: "string \<Rightarrow> string"
  sv_decode :: "string \<Rightarrow> json option"
  sv_unmarshal :: "string \<Rightarrow> json option"
  sv_show_time :: "int \<Rightarrow> string"
  sv_parse_time :: "string \<Rightarrow> int option"
  sv_show_duration :: "int \<Rightarrow> string"
  sv_show_spec :: "pool_spec \<Rightarrow> json"
  sv_event_id :: "nat \<Rightarrow> string"
  sv_text :: "err \<Rightarrow> string"

text \<open>Fresh identifiers of one request: an object, an operation, and a request id.\<close>

record fresh =
  fr_object :: string
  fr_op :: string
  fr_request :: string

text \<open>What a handler sees of a request: the caller, the path values and the id of the request.\<close>

record call =
  cl_req :: http_request
  cl_actor :: string
  cl_vals :: "(string \<times> string) list"
  cl_fresh :: fresh
  cl_id :: string

abbreviation path_id :: "call \<Rightarrow> string" where
  "path_id c \<equiv> lab (cl_vals c) ''id''"

abbreviation path_name :: "call \<Rightarrow> string" where
  "path_name c \<equiv> lab (cl_vals c) ''name''"

definition query_get :: "call \<Rightarrow> string \<Rightarrow> string" where
  "query_get c k = lab (hr_query (cl_req c)) k"

definition query_all :: "call \<Rightarrow> string \<Rightarrow> string list" where
  "query_all c k = map snd (filter (\<lambda>(k', _). k' = k) (hr_query (cl_req c)))"

section \<open>Writing replies\<close>

definition write_json :: "int \<Rightarrow> json option \<Rightarrow> response" where
  "write_json code v = \<lparr>rs_status = code, rs_headers = [(''Content-Type'', ''application/json'')],
     rs_body = (case v of None \<Rightarrow> NoBody | Some j \<Rightarrow> Doc j)\<rparr>"

definition write_error_details :: "string \<Rightarrow> int \<Rightarrow> string \<Rightarrow> string \<Rightarrow> bool \<Rightarrow> json blob \<Rightarrow> response" where
  "write_error_details rid code ec msg retryable details = write_json code (error_json
     \<lparr>we_code = ec, we_message = msg, we_request_id = rid, we_retryable = retryable, we_retry_after = 0,
      we_details = details\<rparr>)"

definition write_error :: "string \<Rightarrow> int \<Rightarrow> string \<Rightarrow> string \<Rightarrow> bool \<Rightarrow> response" where
  "write_error rid code ec msg retryable = write_error_details rid code ec msg retryable BNil"

definition write_app_error :: "server \<Rightarrow> string \<Rightarrow> err \<Rightarrow> response" where
  "write_app_error sv rid e = (case e of
     EInvalid m \<Rightarrow> write_error rid 400 ''invalid'' m False
   | EInFlight oid \<Rightarrow> write_error_details rid 409 ''idempotency_in_flight''
       ''the original request for this idempotency key is still running; poll the operation'' False
       (BVal (JObj [(''operationId'', JStr oid)]))
   | EIdemMismatch \<Rightarrow> write_error rid 409 ''idempotency_mismatch'' (sv_text sv e) False
   | ENotFound \<Rightarrow> write_error rid 404 ''not_found'' (sv_text sv e) False
   | EConflict \<Rightarrow> write_error rid 409 ''conflict'' (sv_text sv e) False
   | _ \<Rightarrow> write_error rid 500 ''internal'' ''internal error'' True)"

definition write_outcome :: "outcome \<Rightarrow> response" where
  "write_outcome out = \<lparr>rs_status = oc_status out,
     rs_headers = (if oc_replayed out then [(''Idempotency-Replayed'', ''true'')] else [])
       @ [(''Content-Type'', ''application/json'')],
     rs_body = Stored (oc_body out)\<rparr>"

definition bad_request :: "call \<Rightarrow> string \<Rightarrow> response" where
  "bad_request c msg = write_error (cl_id c) 400 ''invalid'' msg False"

text \<open>\<open>json.Marshal\<close> to bytes, with nothing where it fails.\<close>

definition marshal :: "json option \<Rightarrow> string" where
  "marshal j = (case j of None \<Rightarrow> [] | Some j \<Rightarrow> json_text j)"

definition str_map :: "(string \<times> string) list \<Rightarrow> json option" where
  "str_map m = Some (labels_json m)"

section \<open>Serialization\<close>

fun ownership_name :: "ownership \<Rightarrow> string" where
  "ownership_name Managed = ''managed''"
| "ownership_name Adopted = ''adopted''"
| "ownership_name Observed = ''observed''"

fun op_kind_name :: "op_kind \<Rightarrow> string" where
  "op_kind_name OpKindCreate = ''resource.create''"
| "op_kind_name OpKindDelete = ''resource.delete''"
| "op_kind_name OpKindStop = ''resource.stop''"
| "op_kind_name OpKindStart = ''resource.start''"

fun op_state_name :: "op_state \<Rightarrow> string" where
  "op_state_name OpJournaled = ''journaled''"
| "op_state_name OpInFlight = ''in_flight''"
| "op_state_name OpExternalAccepted = ''external_accepted''"
| "op_state_name OpVerifying = ''verifying''"
| "op_state_name OpUncertain = ''uncertain''"
| "op_state_name OpSucceeded = ''succeeded''"
| "op_state_name OpFailed = ''failed''"
| "op_state_name OpAborted = ''aborted''"

fun error_class_name :: "error_class \<Rightarrow> string" where
  "error_class_name ErrRetryable = ''retryable''"
| "error_class_name ErrRateLimited = ''rate_limited''"
| "error_class_name ErrConflict = ''conflict''"
| "error_class_name ErrNotFound = ''not_found''"
| "error_class_name ErrInvalid = ''invalid''"
| "error_class_name ErrQuota = ''quota''"
| "error_class_name ErrTerminal = ''terminal''"

definition opt_str :: "string option \<Rightarrow> string" where
  "opt_str x = (case x of None \<Rightarrow> [] | Some s \<Rightarrow> s)"

definition ref_json :: "ext_ref \<Rightarrow> json" where
  "ref_json r = JObj ((''id'', JStr (ref_id r)) #
     (if ref_extra r = [] then [] else [(''extra'', labels_json (ref_extra r))]))"

definition vector_json :: "vector \<Rightarrow> json" where
  "vector_json v = JObj (map (\<lambda>(k, n). (k, JNum n)) (sort_key fst v))"

definition to_envelope :: "resource \<Rightarrow> w_resource" where
  "to_envelope r =
     \<lparr>wr_api_version = api_version, wr_kind = ''Resource'',
      wr_metadata = \<lparr>wm_id = r_id r, wm_name = r_name r, wm_labels = r_labels r,
        wm_ownership = ownership_name (r_ownership r), wm_protected = r_delete_protected r,
        wm_generation = r_generation r, wm_observed_generation = r_observed_generation r,
        wm_created_at = r_created_at r, wm_updated_at = r_updated_at r, wm_deleted_at = r_deleted_at r\<rparr>,
      wr_spec = \<lparr>ws_kind = r_kind r, ws_provider = r_provider r, ws_class = r_class r, ws_machine = r_spec r\<rparr>,
      wr_status = \<lparr>wt_phase = phase_name (r_phase r), wt_external_id = opt_str (r_external_id r),
        wt_parked_at = r_parked_at r, wt_external_ref = map_blob ref_json (r_external_ref r),
        wt_capacity = map_blob vector_json (r_capacity r), wt_extensions = r_extension r\<rparr>\<rparr>"

definition to_acq_envelope :: "server \<Rightarrow> acquisition \<Rightarrow> w_acquisition" where
  "to_acq_envelope sv a =
     (let wait = (case parse_request (a_constraints a) of
          Inl _ \<Rightarrow> None
        | Inr (rq, _) \<Rightarrow> (if rq_max_wait_ms rq > 0 then Some (rq_max_wait_ms rq) else None))
      in \<lparr>wq_api_version = api_version, wq_kind = ''Acquisition'', wq_id = a_id a,
          wq_state = acq_state_name (a_state a), wq_class = a_class a, wq_resource_kind = a_kind a,
          wq_resource_id = opt_str (a_pending_resource a), wq_lease_id = opt_str (a_lease a),
          wq_actor = a_actor a,
          wq_max_wait = (case wait of None \<Rightarrow> [] | Some w \<Rightarrow> sv_show_duration sv (i64 (w * ms))),
          wq_queue_deadline = (case wait of None \<Rightarrow> None | Some w \<Rightarrow> Some (i64 (a_created_at a + w))),
          wq_created_at = a_created_at a, wq_updated_at = a_updated_at a\<rparr>)"

definition to_pool_envelope :: "server \<Rightarrow> pool \<Rightarrow> w_pool" where
  "to_pool_envelope sv p =
     \<lparr>wp_api_version = api_version, wp_kind = ''Pool'',
      wp_metadata = zero_metadata\<lparr>wm_id := p_id p, wm_name := p_name p, wm_generation := p_generation p,
        wm_observed_generation := p_observed_generation p, wm_created_at := p_created_at p,
        wm_updated_at := p_updated_at p\<rparr>,
      wp_spec = map_blob (sv_show_spec sv) (p_spec p), wp_paused = p_paused p\<rparr>"

definition to_op_envelope :: "operation \<Rightarrow> w_operation" where
  "to_op_envelope x =
     \<lparr>wo_id = op_id x, wo_kind = op_kind_name (op_kind x), wo_state = op_state_name (op_state x),
      wo_provider = op_provider x, wo_resource_id = opt_str (op_resource x), wo_attempt = op_attempt x,
      wo_error_class = (case op_error_class x of None \<Rightarrow> [] | Some e \<Rightarrow> error_class_name e),
      wo_created_at = op_created_at x, wo_updated_at = op_updated_at x\<rparr>"

definition to_event :: "string \<times> event \<Rightarrow> w_event" where
  "to_event = (\<lambda>(i, e).
     \<lparr>wv_id = i, wv_ts = ev_ts e, wv_type = ev_type e, wv_actor = ev_actor e, wv_outcome = ev_outcome e,
      wv_provider = ev_provider e, wv_resource_id = opt_str (ev_resource e),
      wv_operation_id = opt_str (ev_operation e)\<rparr>)"

definition class_ms :: "server \<Rightarrow> int option \<Rightarrow> string" where
  "class_ms sv x = (case x of None \<Rightarrow> [] | Some n \<Rightarrow> sv_show_duration sv (i64 (n * ms)))"

definition to_class_envelope :: "server \<Rightarrow> class_record \<Rightarrow> w_class" where
  "to_class_envelope sv c =
     \<lparr>wy_api_version = api_version, wy_kind = ''Class'',
      wy_metadata = zero_metadata\<lparr>wm_name := c_name c, wm_created_at := c_created_at c,
        wm_updated_at := c_updated_at c\<rparr>,
      wy_spec = \<lparr>wk_kind = c_kind c, wk_provider = c_provider c, wk_template = c_spec c,
        wk_reclaim = (if c_reclaim_idle_after_ms c \<noteq> None \<or> c_reclaim_park c \<noteq> []
              \<or> c_reclaim_delete_after_ms c \<noteq> None
            then Some \<lparr>wl_idle_after = class_ms sv (c_reclaim_idle_after_ms c), wl_park = c_reclaim_park c,
                       wl_delete_after = class_ms sv (c_reclaim_delete_after_ms c)\<rparr>
            else None),
        wk_scheduling = (case c_queue_max_wait_ms c of None \<Rightarrow> None
            | Some _ \<Rightarrow> Some (Some (class_ms sv (c_queue_max_wait_ms c))))\<rparr>,
      wy_source = c_source c\<rparr>"

definition health_json :: "server \<Rightarrow> tracked \<Rightarrow> json option" where
  "health_json sv t = seal
     (fld ''instance'' (JStr (tr_instance t)) @ fld ''driver'' (JStr (tr_driver t))
      @ fld ''state'' (JStr (health_state_name (ph_state (tr_health t))))
      @ fld ''since'' (JStr (sv_show_time sv (ph_since (tr_health t))))
      @ time_field (sv_show_time sv) ''lastCheck''
          (if ph_last_check (tr_health t) = 0 then zero_time else ph_last_check (tr_health t))
      @ omit_str ''lastError'' (tr_error t) @ fld ''consecutiveFailures'' (JNum (ph_failures (tr_health t))))"

section \<open>Request bodies\<close>

definition max_body :: nat where "max_body = 1048576"

text \<open>A body read whole: longer ones than \<open>MaxBytesReader\<close> allows are an error.\<close>

definition read_all :: "call \<Rightarrow> string option" where
  "read_all c = (if length (hr_body (cl_req c)) > max_body then None else Some (hr_body (cl_req c)))"

text \<open>\<open>readBody\<close> of the class handlers keeps what could be read.\<close>

definition read_body :: "call \<Rightarrow> string" where
  "read_body c = take max_body (hr_body (cl_req c))"

definition decode_with :: "(string \<Rightarrow> json option) \<Rightarrow> (json \<Rightarrow> err + 'a) \<Rightarrow> string \<Rightarrow> err + 'a" where
  "decode_with parse dec body =
     (case parse body of None \<Rightarrow> Inl (EOther ''invalid JSON'') | Some j \<Rightarrow> dec j)"

text \<open>The duration of a body field; an empty one is zero.\<close>

definition bad_duration :: err where "bad_duration = EOther ''time: invalid duration''"

definition body_duration :: "server \<Rightarrow> string \<Rightarrow> int option" where
  "body_duration sv s = (if s = [] then Some 0 else ap_parse_duration (sv_app sv) s)"

text \<open>The request hash: the hex digest of the bytes.\<close>

definition request_hash :: "server \<Rightarrow> string \<Rightarrow> string" where
  "request_hash sv b = hex (sv_sha sv b)"

definition idem_of :: "server \<Rightarrow> call \<Rightarrow> string \<Rightarrow> string \<Rightarrow> string \<Rightarrow> idem_args" where
  "idem_of sv c scope key bytes =
     \<lparr>ia_scope = scope @ ''|'' @ cl_actor c, ia_key = key, ia_hash = request_hash sv bytes\<rparr>"

section \<open>Resources\<close>

type_synonym serving = "response \<times> db"

definition created_reply :: "server \<Rightarrow> resource \<Rightarrow> int \<times> string" where
  "created_reply sv r = (201, marshal (resource_json (sv_show_time sv) (to_envelope r)))"

definition create_cmd_of :: "server \<Rightarrow> call \<Rightarrow> string \<Rightarrow> w_create_request \<Rightarrow> create_cmd" where
  "create_cmd_of sv c body req =
     \<lparr>cc_kind = ws_kind (wc_spec req), cc_provider = ws_provider (wc_spec req),
      cc_name = wm_name (wc_metadata req), cc_class = ws_class (wc_spec req),
      cc_spec = ws_machine (wc_spec req), cc_labels = wm_labels (wc_metadata req), cc_actor = cl_actor c,
      cc_idem = idem_of sv c ''POST /v1/resources'' (hr_idem_key (cl_req c)) body\<rparr>"

definition h_create_resource :: "server \<Rightarrow> call \<Rightarrow> db \<Rightarrow> serving" where
  "h_create_resource sv c s =
     (case read_all c of
        None \<Rightarrow> (bad_request c ''request body too large or unreadable'', s)
      | Some body \<Rightarrow>
        (case decode_with (sv_decode sv) (decode_create_request (sv_parse_time sv)) body of
           Inl e \<Rightarrow> (bad_request c (''malformed request: '' @ sv_text sv e), s)
         | Inr req \<Rightarrow>
           (case create_resource (sv_app sv) (create_cmd_of sv c body req) (fr_object (cl_fresh c))
                (fr_op (cl_fresh c)) (created_reply sv) s of
              Inl e \<Rightarrow> (write_app_error sv (cl_id c) e, s)
            | Inr (out, s') \<Rightarrow> (write_outcome out, s'))))"

text \<open>A read: the error of the query or its document, and the database as it was.\<close>

definition answer :: "server \<Rightarrow> call \<Rightarrow> err + json option \<Rightarrow> db \<Rightarrow> serving" where
  "answer sv c r s = (case r of Inl e \<Rightarrow> (write_app_error sv (cl_id c) e, s) | Inr j \<Rightarrow> (write_json 200 j, s))"

definition h_get_resource :: "server \<Rightarrow> call \<Rightarrow> db \<Rightarrow> serving" where
  "h_get_resource sv c s =
     answer sv c (bindE (resource_get (path_id c) s) (\<lambda>r. Inr (resource_json (sv_show_time sv) (to_envelope r)))) s"

fun parse_phases :: "string list \<Rightarrow> string + phase list" where
  "parse_phases [] = Inr []"
| "parse_phases (p # ps) =
     (case find (\<lambda>q. phase_name q = p) all_phases of
        None \<Rightarrow> Inl p
      | Some q \<Rightarrow> bindE (parse_phases ps) (\<lambda>qs. Inr (q # qs)))"

definition h_list_resources :: "server \<Rightarrow> call \<Rightarrow> db \<Rightarrow> serving" where
  "h_list_resources sv c s =
     (case parse_phases (query_all c ''phase'') of
        Inl p \<Rightarrow> (bad_request c (''unknown phase '' @ p), s)
      | Inr phs \<Rightarrow>
          (write_json 200 (list_json ''ResourceList'' (map (\<lambda>r. resource_json (sv_show_time sv) (to_envelope r))
            (resource_list (no_filter\<lparr>f_kind := query_get c ''kind'', f_class := query_get c ''class'',
               f_provider := query_get c ''provider'',
               f_pool := (if query_get c ''pool'' = [] then None else Some (query_get c ''pool'')),
               f_phases := phs\<rparr>) s))), s))"

definition deleted_reply :: "bool \<Rightarrow> resource \<Rightarrow> int \<times> string" where
  "deleted_reply dry r =
     (if dry then (200, json_text (JObj [(''dryRun'', JBool True), (''id'', JStr (r_id r)), (''wouldDelete'', JBool True)]))
      else (202, json_text (JObj [(''id'', JStr (r_id r)), (''status'', JStr ''deleting'')])))"

definition delete_cmd_of :: "server \<Rightarrow> call \<Rightarrow> delete_cmd" where
  "delete_cmd_of sv c =
     \<lparr>dm_id = path_id c, dm_actor = cl_actor c, dm_dry_run = (query_get c ''dryRun'' = ''true''),
      dm_idem = idem_of sv c ''DELETE /v1/resources'' (hr_idem_key (cl_req c)) (''DELETE /v1/resources/'' @ path_id c)\<rparr>"

definition h_delete_resource :: "server \<Rightarrow> call \<Rightarrow> db \<Rightarrow> serving" where
  "h_delete_resource sv c s =
     (case delete_resource (sv_app sv) (delete_cmd_of sv c) (fr_op (cl_fresh c))
         (deleted_reply (query_get c ''dryRun'' = ''true'')) s of
        Inl e \<Rightarrow> (write_app_error sv (cl_id c) e, s)
      | Inr (out, s') \<Rightarrow> (write_outcome out, s'))"

definition status_json :: "string \<Rightarrow> string \<Rightarrow> json option" where
  "status_json i st = str_map [(''id'', i), (''status'', st)]"

text \<open>A journalled verb: its error, or 202 and the status.\<close>

definition accept_verb :: "server \<Rightarrow> call \<Rightarrow> err + db \<Rightarrow> json option \<Rightarrow> int \<Rightarrow> db \<Rightarrow> serving" where
  "accept_verb sv c r doc code s =
     (case r of Inl e \<Rightarrow> (write_app_error sv (cl_id c) e, s) | Inr s' \<Rightarrow> (write_json code doc, s'))"

definition h_drain_resource :: "server \<Rightarrow> call \<Rightarrow> db \<Rightarrow> serving" where
  "h_drain_resource sv c s =
     accept_verb sv c (drain_resource (sv_app sv) (path_id c) (cl_actor c) s) (status_json (path_id c) ''draining'') 202 s"

definition park_start :: "server \<Rightarrow> call \<Rightarrow> err + db \<Rightarrow> string \<Rightarrow> db \<Rightarrow> serving" where
  "park_start sv c r status s =
     (case r of
        Inr s' \<Rightarrow> (write_json 202 (status_json (path_id c) status), s')
      | Inl EAlreadyThere \<Rightarrow> (write_json 200 (status_json (path_id c) status), s)
      | Inl EParkUnsupported \<Rightarrow> (write_error (cl_id c) 409 ''park_unsupported'' (sv_text sv EParkUnsupported) False, s)
      | Inl e \<Rightarrow> (write_app_error sv (cl_id c) e, s))"

definition h_park_resource :: "server \<Rightarrow> call \<Rightarrow> db \<Rightarrow> serving" where
  "h_park_resource sv c s =
     park_start sv c (park_resource (sv_app sv) (path_id c) (cl_actor c) (fr_op (cl_fresh c)) s) ''parking'' s"

definition h_start_resource :: "server \<Rightarrow> call \<Rightarrow> db \<Rightarrow> serving" where
  "h_start_resource sv c s =
     park_start sv c (start_resource (sv_app sv) (path_id c) (cl_actor c) (fr_op (cl_fresh c)) s) ''starting'' s"

definition sync_verb :: "server \<Rightarrow> call \<Rightarrow> err + db \<Rightarrow> string \<Rightarrow> db \<Rightarrow> serving" where
  "sync_verb sv c r status s =
     (case r of
        Inr s' \<Rightarrow> (write_json 200 (status_json (path_id c) status), s')
      | Inl EAlreadyThere \<Rightarrow> (write_json 200 (status_json (path_id c) status), s)
      | Inl e \<Rightarrow> (write_app_error sv (cl_id c) e, s))"

definition h_undrain_resource :: "server \<Rightarrow> call \<Rightarrow> db \<Rightarrow> serving" where
  "h_undrain_resource sv c s =
     sync_verb sv c (undrain_resource (sv_app sv) (path_id c) (cl_actor c) s) ''ready'' s"

definition h_protect_resource :: "server \<Rightarrow> bool \<Rightarrow> call \<Rightarrow> db \<Rightarrow> serving" where
  "h_protect_resource sv on c s =
     sync_verb sv c (set_resource_protected (sv_app sv) (path_id c) on (cl_actor c) s)
       (if on then ''protected'' else ''unprotected'') s"

section \<open>Acquisitions\<close>

definition acq_reply :: "server \<Rightarrow> acquisition \<Rightarrow> int \<times> string" where
  "acq_reply sv a = (201, marshal (acquisition_json (sv_show_time sv) (to_acq_envelope sv a)))"

text \<open>The body's idempotency key and the header must agree.\<close>

definition agreed_key :: "call \<Rightarrow> string \<Rightarrow> string option" where
  "agreed_key c k =
     (let h = hr_idem_key (cl_req c) in
      if k = [] then Some h else if h \<noteq> [] \<and> h \<noteq> k then None else Some k)"

definition acquire_cmd_of :: "server \<Rightarrow> call \<Rightarrow> string \<Rightarrow> w_acquire \<Rightarrow> int \<Rightarrow> int \<Rightarrow> string \<Rightarrow> acquire_cmd" where
  "acquire_cmd_of sv c body req ttl wait key =
     \<lparr>aq_kind = wa_kind req, aq_class = wa_class req, aq_constraints = constraints_of (wa_constraints req),
      aq_exclusive = wa_exclusive req, aq_quantity = wa_quantity req, aq_ttl = ttl, aq_max_wait = wait,
      aq_actor = cl_actor c, aq_idem = idem_of sv c ''POST /v1/acquisitions'' key body\<rparr>"

definition h_create_acquisition :: "server \<Rightarrow> call \<Rightarrow> db \<Rightarrow> serving" where
  "h_create_acquisition sv c s =
     (case read_all c of
        None \<Rightarrow> (bad_request c ''request body too large or unreadable'', s)
      | Some body \<Rightarrow>
        (case decode_with (sv_decode sv) decode_acquire body of
           Inl e \<Rightarrow> (bad_request c (''malformed request: '' @ sv_text sv e), s)
         | Inr req \<Rightarrow>
           (case body_duration sv (opt_str (wa_lease req)) of
              None \<Rightarrow> (bad_request c (''lease.ttl: '' @ sv_text sv bad_duration), s)
            | Some ttl \<Rightarrow>
              (case body_duration sv (wa_max_wait req) of
                 None \<Rightarrow> (bad_request c ''maxWait: must be a non-negative Go duration'', s)
               | Some wait \<Rightarrow>
                 (if wait < 0 then (bad_request c ''maxWait: must be a non-negative Go duration'', s)
                  else (case agreed_key c (wa_idem_key req) of
                     None \<Rightarrow> (bad_request c ''Idempotency-Key header and body idempotencyKey disagree'', s)
                   | Some key \<Rightarrow>
                     (case acquire (sv_app sv) (acquire_cmd_of sv c body req ttl wait key)
                          (fr_object (cl_fresh c)) (acq_reply sv) s of
                        (Inl e, s') \<Rightarrow> (write_app_error sv (cl_id c) e, s')
                      | (Inr out, s') \<Rightarrow> (write_outcome out, s'))))))))"

definition h_get_acquisition :: "server \<Rightarrow> call \<Rightarrow> db \<Rightarrow> serving" where
  "h_get_acquisition sv c s = answer sv c (bindE (get_acquisition (path_id c) s)
     (\<lambda>a. Inr (acquisition_json (sv_show_time sv) (to_acq_envelope sv a)))) s"

fun parse_states :: "string list \<Rightarrow> string + acq_state list" where
  "parse_states [] = Inr []"
| "parse_states (p # ps) =
     (case find (\<lambda>q. acq_state_name q = p) [AcqPending, AcqProvisioning, AcqBound, AcqFailed, AcqReleased, AcqExpired] of
        None \<Rightarrow> Inl p
      | Some q \<Rightarrow> bindE (parse_states ps) (\<lambda>qs. Inr (q # qs)))"

definition h_list_acquisitions :: "server \<Rightarrow> call \<Rightarrow> db \<Rightarrow> serving" where
  "h_list_acquisitions sv c s =
     (case parse_states (query_all c ''state'') of
        Inl p \<Rightarrow> (bad_request c (''unknown acquisition state '' @ p), s)
      | Inr sts \<Rightarrow>
          (write_json 200 (list_json ''AcquisitionList''
             (map (\<lambda>a. acquisition_json (sv_show_time sv) (to_acq_envelope sv a))
               (list_acquisitions sts (query_get c ''resource'') s))), s))"

definition h_release_acquisition :: "server \<Rightarrow> call \<Rightarrow> db \<Rightarrow> serving" where
  "h_release_acquisition sv c s =
     accept_verb sv c (app_release (sv_app sv) (path_id c) s)
       (str_map [(''id'', path_id c), (''state'', ''released'')]) 200 s"

section \<open>Pools\<close>

definition upsert_cmd_of :: "server \<Rightarrow> call \<Rightarrow> string \<Rightarrow> w_pool_manifest \<Rightarrow> upsert_pool_cmd" where
  "upsert_cmd_of sv c i req =
     \<lparr>up_id = i, up_name = wm_name (wn_metadata req),
      up_spec = pool_spec_of (ap_parse_duration (sv_app sv)) (wn_spec req), up_actor = cl_actor c\<rparr>"

definition h_upsert_pool :: "server \<Rightarrow> string \<Rightarrow> call \<Rightarrow> db \<Rightarrow> serving" where
  "h_upsert_pool sv i c s =
     (case read_all c of
        None \<Rightarrow> (bad_request c ''request body too large or unreadable'', s)
      | Some body \<Rightarrow>
        (case decode_with (sv_unmarshal sv) (decode_pool_manifest (sv_parse_time sv)) body of
           Inl e \<Rightarrow> (bad_request c (''malformed pool: '' @ sv_text sv e), s)
         | Inr req \<Rightarrow>
           (case upsert_pool (sv_app sv) (upsert_cmd_of sv c i req) (fr_object (cl_fresh c)) s of
              Inl e \<Rightarrow> (write_app_error sv (cl_id c) e, s)
            | Inr (p, s') \<Rightarrow> (write_json 200 (pool_json (sv_show_time sv) (to_pool_envelope sv p)), s'))))"

definition h_get_pool :: "server \<Rightarrow> call \<Rightarrow> db \<Rightarrow> serving" where
  "h_get_pool sv c s = answer sv c (bindE (get_pool (path_id c) s)
     (\<lambda>p. Inr (pool_json (sv_show_time sv) (to_pool_envelope sv p)))) s"

definition h_list_pools :: "server \<Rightarrow> call \<Rightarrow> db \<Rightarrow> serving" where
  "h_list_pools sv c s =
     (write_json 200 (list_json ''PoolList'' (map (\<lambda>p. pool_json (sv_show_time sv) (to_pool_envelope sv p)) (pool_list s))), s)"

definition h_delete_pool :: "server \<Rightarrow> call \<Rightarrow> db \<Rightarrow> serving" where
  "h_delete_pool sv c s =
     accept_verb sv c (app_delete_pool (sv_app sv) (path_id c) (cl_actor c) s) (status_json (path_id c) ''deleted'') 200 s"

definition h_pause_pool :: "server \<Rightarrow> bool \<Rightarrow> call \<Rightarrow> db \<Rightarrow> serving" where
  "h_pause_pool sv on c s =
     sync_verb sv c (app_set_pool_paused (sv_app sv) (path_id c) on (cl_actor c) s)
       (if on then ''paused'' else ''running'') s"

definition h_reconcile_pool :: "server \<Rightarrow> call \<Rightarrow> db \<Rightarrow> serving" where
  "h_reconcile_pool sv c s =
     accept_verb sv c (bindE (reconcile_pool (path_id c) s) (\<lambda>_. Inr s)) (status_json (path_id c) ''reconciling'') 202 s"

section \<open>Classes\<close>

text \<open>The name of the class: the URL's, which a name in the body must not contradict.\<close>

definition class_name_for :: "string \<Rightarrow> string \<Rightarrow> string option" where
  "class_name_for url body = (if url = [] then Some body else if body \<noteq> [] \<and> body \<noteq> url then None else Some url)"

definition class_cmd_of ::
    "server \<Rightarrow> call \<Rightarrow> string \<Rightarrow> bool \<Rightarrow> w_class_manifest \<Rightarrow> string + upsert_class_cmd" where
  "class_cmd_of sv c name must_create req =
     (let sp = wf_spec req;
          rc = (case wk_reclaim sp of None \<Rightarrow> \<lparr>wl_idle_after = [], wl_park = [], wl_delete_after = []\<rparr> | Some r \<Rightarrow> r);
          q = (case wk_scheduling sp of Some (Some w) \<Rightarrow> w | _ \<Rightarrow> [])
      in case body_duration sv (wl_idle_after rc) of
           None \<Rightarrow> Inl (''reclaim.idleAfter: '' @ sv_text sv bad_duration)
         | Some i \<Rightarrow> (case body_duration sv (wl_delete_after rc) of
             None \<Rightarrow> Inl (''reclaim.deleteAfter: '' @ sv_text sv bad_duration)
           | Some d \<Rightarrow> (case body_duration sv q of
               None \<Rightarrow> Inl (''scheduling.queue.maxWait: '' @ sv_text sv bad_duration)
             | Some w \<Rightarrow> Inr
                 \<lparr>uc_name = name, uc_kind = wk_kind sp, uc_provider = wk_provider sp, uc_template = wk_template sp,
                  uc_reclaim_idle = i, uc_reclaim_park = wl_park rc, uc_reclaim_del = d, uc_queue_max_wait = w,
                  uc_actor = cl_actor c, uc_must_create = must_create\<rparr>)))"

definition class_error :: "server \<Rightarrow> call \<Rightarrow> err \<Rightarrow> response" where
  "class_error sv c e = (case e of
     EClassExists \<Rightarrow> write_error (cl_id c) 409 ''conflict'' (sv_text sv e) False
   | EClassConfigOwned \<Rightarrow> write_error (cl_id c) 409 ''config_owned'' (sv_text sv e) False
   | _ \<Rightarrow> write_app_error sv (cl_id c) e)"

definition h_upsert_class :: "server \<Rightarrow> string \<Rightarrow> bool \<Rightarrow> call \<Rightarrow> db \<Rightarrow> serving" where
  "h_upsert_class sv url must_create c s =
     (case decode_with (sv_decode sv) (decode_class_manifest (sv_parse_time sv)) (read_body c) of
        Inl e \<Rightarrow> (bad_request c (''malformed class: '' @ sv_text sv e), s)
      | Inr req \<Rightarrow>
        (case class_name_for url (wm_name (wf_metadata req)) of
           None \<Rightarrow> (bad_request c ''metadata.name disagrees with the URL'', s)
         | Some name \<Rightarrow>
           (case class_cmd_of sv c name must_create req of
              Inl m \<Rightarrow> (bad_request c m, s)
            | Inr cmd \<Rightarrow>
              (case upsert_class (sv_app sv) cmd s of
                 Inl e \<Rightarrow> (class_error sv c e, s)
               | Inr (rec, s') \<Rightarrow>
                   (write_json (if must_create then 201 else 200)
                      (class_json (sv_show_time sv) (to_class_envelope sv rec)), s')))))"

definition h_get_class :: "server \<Rightarrow> call \<Rightarrow> db \<Rightarrow> serving" where
  "h_get_class sv c s = answer sv c (bindE (class_get (path_name c) s)
     (\<lambda>rec. Inr (class_json (sv_show_time sv) (to_class_envelope sv rec)))) s"

definition h_list_classes :: "server \<Rightarrow> call \<Rightarrow> db \<Rightarrow> serving" where
  "h_list_classes sv c s =
     (write_json 200 (list_json ''ClassList'' (map (\<lambda>rec. class_json (sv_show_time sv) (to_class_envelope sv rec)) (class_list s))), s)"

definition h_delete_class :: "server \<Rightarrow> call \<Rightarrow> db \<Rightarrow> serving" where
  "h_delete_class sv c s =
     (case delete_class (sv_app sv) (path_name c) (cl_actor c) s of
        Inl EClassConfigOwned \<Rightarrow> (write_error (cl_id c) 409 ''config_owned'' (sv_text sv EClassConfigOwned) False, s)
      | Inl e \<Rightarrow> (write_app_error sv (cl_id c) e, s)
      | Inr s' \<Rightarrow> (write_json 200 (str_map [(''name'', path_name c), (''status'', ''deleted'')]), s'))"

section \<open>Operations, events and providers\<close>

definition h_get_operation :: "server \<Rightarrow> call \<Rightarrow> db \<Rightarrow> serving" where
  "h_get_operation sv c s = answer sv c (bindE (op_get (path_id c) s)
     (\<lambda>x. Inr (operation_json (sv_show_time sv) (to_op_envelope x)))) s"

definition h_list_operations :: "server \<Rightarrow> call \<Rightarrow> db \<Rightarrow> serving" where
  "h_list_operations sv c s =
     (write_json 200 (map_list_json ''OperationList'' (map (\<lambda>x. operation_json (sv_show_time sv) (to_op_envelope x)) (ops_non_terminal s))), s)"

definition resolve_action_of :: "string \<Rightarrow> resolve_action" where
  "resolve_action_of a = (if a = ''retry-verification'' then RetryVerification
     else if a = ''mark-failed'' then MarkFailed else OtherAction)"

definition h_resolve_operation :: "server \<Rightarrow> call \<Rightarrow> db \<Rightarrow> serving" where
  "h_resolve_operation sv c s =
     (case decode_with (sv_decode sv) (struct False [] [] (\<lambda>fs. get_str (jval ''action'' fs))) (hr_body (cl_req c)) of
        Inl e \<Rightarrow> (bad_request c (''body: '' @ sv_text sv e), s)
      | Inr act \<Rightarrow>
          accept_verb sv c (resolve_operation (sv_app sv) (path_id c) (resolve_action_of act) (cl_actor c) s)
            (str_map [(''action'', act), (''id'', path_id c)]) 202 s)"

definition event_limit :: "string \<Rightarrow> nat" where
  "event_limit l = (case parse_int l of
     Some n \<Rightarrow> (if n > 0 \<and> n \<le> 1000 then nat n else 100) | None \<Rightarrow> 100)"

definition h_list_events :: "server \<Rightarrow> call \<Rightarrow> db \<Rightarrow> serving" where
  "h_list_events sv c s =
     (let since = query_get c ''since'' in
      case (if since = [] then Some None else map_option Some (ap_parse_duration (sv_app sv) since)) of
        None \<Rightarrow> (bad_request c (''since: '' @ sv_text sv bad_duration), s)
      | Some d \<Rightarrow>
          (write_json 200 (map_list_json ''EventList'' (map (\<lambda>e. event_json (sv_show_time sv) (to_event e))
             (list_events (sv_event_id sv)
               \<lparr>ef_after = query_get c ''after'',
                ef_since = (case d of None \<Rightarrow> 0 | Some d \<Rightarrow> (ap_wall (sv_app sv) * ms - d) div ms), ef_type = [],
                ef_resource = (if query_get c ''resource'' = [] then None else Some (query_get c ''resource'')),
                ef_pool = None\<rparr>
               (event_limit (query_get c ''limit'')) s))), s))"

definition h_list_providers :: "server \<Rightarrow> call \<Rightarrow> db \<Rightarrow> serving" where
  "h_list_providers sv c s =
     (write_json 200 (map_list_json ''ProviderList''
        (map (health_json sv) (case sv_health sv of None \<Rightarrow> [] | Some ts \<Rightarrow> health_snapshot ts))), s)"

section \<open>The chain\<close>

fun handle :: "handler \<Rightarrow> server \<Rightarrow> call \<Rightarrow> db \<Rightarrow> serving" where
  "handle CreateAcquisition sv = h_create_acquisition sv"
| "handle ListAcquisitions sv = h_list_acquisitions sv"
| "handle GetAcquisition sv = h_get_acquisition sv"
| "handle ReleaseAcquisition sv = h_release_acquisition sv"
| "handle CreateResource sv = h_create_resource sv"
| "handle ListResources sv = h_list_resources sv"
| "handle GetResource sv = h_get_resource sv"
| "handle DeleteResource sv = h_delete_resource sv"
| "handle DrainResource sv = h_drain_resource sv"
| "handle ParkResource sv = h_park_resource sv"
| "handle StartResource sv = h_start_resource sv"
| "handle UndrainResource sv = h_undrain_resource sv"
| "handle ProtectResource sv = h_protect_resource sv True"
| "handle UnprotectResource sv = h_protect_resource sv False"
| "handle CreatePool sv = h_upsert_pool sv []"
| "handle ListPools sv = h_list_pools sv"
| "handle GetPool sv = h_get_pool sv"
| "handle UpdatePool sv = (\<lambda>c. h_upsert_pool sv (path_id c) c)"
| "handle DeletePool sv = h_delete_pool sv"
| "handle ReconcilePool sv = h_reconcile_pool sv"
| "handle PausePool sv = h_pause_pool sv True"
| "handle ResumePool sv = h_pause_pool sv False"
| "handle CreateClass sv = h_upsert_class sv [] True"
| "handle ListClasses sv = h_list_classes sv"
| "handle GetClass sv = h_get_class sv"
| "handle UpdateClass sv = (\<lambda>c. h_upsert_class sv (path_name c) False c)"
| "handle DeleteClass sv = h_delete_class sv"
| "handle ListOperations sv = h_list_operations sv"
| "handle GetOperation sv = h_get_operation sv"
| "handle ResolveOperation sv = h_resolve_operation sv"
| "handle ListEvents sv = h_list_events sv"
| "handle ListProviders sv = h_list_providers sv"

definition add_header :: "string \<times> string \<Rightarrow> response \<Rightarrow> response" where
  "add_header h r = r\<lparr>rs_headers := h # rs_headers r\<rparr>"

text \<open>
  \<open>withMiddleware\<close>: the request id, authentication and authorisation when tokens are configured, then
  the handler, which runs under the caller's name.
\<close>

definition with_middleware ::
    "server \<Rightarrow> permission \<Rightarrow> (call \<Rightarrow> db \<Rightarrow> serving) \<Rightarrow> fresh \<Rightarrow> http_request \<Rightarrow> (string \<times> string) list \<Rightarrow> db \<Rightarrow> serving" where
  "with_middleware sv perm h fr req vals s =
     (let rid = (if hr_request_id req = [] then ''req_'' @ fr_request fr else hr_request_id req);
          go = (\<lambda>actor. h \<lparr>cl_req = req, cl_actor = actor, cl_vals = vals, cl_fresh = fr, cl_id = rid\<rparr> s);
          (r, s') =
            (if \<not> auth_enabled (sv_auth sv) then go ''-''
             else (case authenticate (sv_sha sv) (sv_auth sv) (hr_authorization req) of
               Inl e \<Rightarrow> (add_header (''WWW-Authenticate'', ''Bearer'')
                   (write_error rid 401 ''unauthenticated'' (sv_text sv e) False), s)
             | Inr p \<Rightarrow>
                 (if \<not> allows (pn_perms p) perm
                  then (write_error rid 403 ''permission_denied'' (''token '' @ pn_name p @ '' lacks '' @ perm_name perm) False, s)
                  else go (pn_name p))))
      in (add_header (''X-Request-Id'', rid) r, s'))"

definition unknown_action :: "call \<Rightarrow> db \<Rightarrow> serving" where
  "unknown_action c s = (write_error (cl_id c) 404 ''not_found'' ''unknown action'' False, s)"

text \<open>The whole handler of the API: multiplexer, dispatch, middleware.\<close>

definition serve :: "server \<Rightarrow> fresh \<Rightarrow> http_request \<Rightarrow> db \<Rightarrow> serving" where
  "serve sv fr req s =
     (case mux (hr_method req) (hr_path req) of
        NoPattern \<Rightarrow> (\<lparr>rs_status = 404, rs_headers = [], rs_body = Text ''404 page not found''\<rparr>, s)
      | WrongMethod \<Rightarrow> (\<lparr>rs_status = 405, rs_headers = [], rs_body = Text ''Method Not Allowed''\<rparr>, s)
      | Found defs vals \<Rightarrow>
          (case dispatch_row defs vals of
             None \<Rightarrow> with_middleware sv PermResourceRead unknown_action fr req vals s
           | Some (rt, vals') \<Rightarrow> with_middleware sv (rt_perm rt) (handle (rt_handler rt) sv) fr req vals' s))"

text \<open>
  The gate in front of it (internal/boot): while the journal is not recovered, or during shutdown,
  only reads pass.
\<close>

definition mutation_gate :: "server \<Rightarrow> bool \<Rightarrow> fresh \<Rightarrow> http_request \<Rightarrow> db \<Rightarrow> serving" where
  "mutation_gate sv ready fr req s =
     (if \<not> ready \<and> hr_method req \<noteq> ''GET'' \<and> hr_method req \<noteq> ''HEAD''
      then (add_header (''Retry-After'', ''2'') (write_json 503 (Some (JObj [(''error'', JObj
              [(''code'', JStr ''unready''), (''message'', JStr ''recovery in progress or shutting down''),
               (''retryable'', JBool True)])]))), s)
      else serve sv fr req s)"

end
