(* ===== verification/URL_Text.thy ===== *)
theory URL_Text
  imports Go_Text
begin

text \<open>
  What the client and the server use of net/url: percent-encoding of path segments and query
  components, their decoding, \<open>Values.Encode\<close> and the parsing of a request target into decoded path
  segments and query pairs.
\<close>

definition unreserved :: "char \<Rightarrow> bool" where
  "unreserved c \<longleftrightarrow> is_lower c \<or> is_upper c \<or> is_digit c \<or> c \<in> {CHR ''-'', CHR ''_'', CHR ''.'', CHR ''~''}"

definition upper_hex :: "nat \<Rightarrow> char" where
  "upper_hex n = (if n < 10 then char_of (48 + n) else char_of (55 + n))"

definition pct :: "char \<Rightarrow> string" where
  "pct c = [CHR ''%'', upper_hex (of_char c div 16), upper_hex (of_char c mod 16)]"

text \<open>\<open>url.PathEscape\<close> and \<open>url.QueryEscape\<close>.\<close>

definition path_escape_char :: "char \<Rightarrow> string" where
  "path_escape_char c = (if unreserved c \<or> c \<in> {CHR ''$'', CHR ''&'', CHR ''+'', CHR ''='', CHR '':'', CHR ''@''} then [c] else pct c)"

definition path_escape :: "string \<Rightarrow> string" where
  "path_escape s = concat (map path_escape_char s)"

definition query_escape_char :: "char \<Rightarrow> string" where
  "query_escape_char c = (if unreserved c then [c] else if c = CHR '' '' then ''+'' else pct c)"

definition query_escape :: "string \<Rightarrow> string" where
  "query_escape s = concat (map query_escape_char s)"

definition unhex :: "char \<Rightarrow> nat option" where
  "unhex c = (let n = of_char c in
     if 48 \<le> n \<and> n \<le> 57 then Some (n - 48) else if 65 \<le> n \<and> n \<le> 70 then Some (n - 55)
     else if 97 \<le> n \<and> n \<le> 102 then Some (n - 87) else None)"

text \<open>\<open>url.PathUnescape\<close>, and with the flag \<open>url.QueryUnescape\<close>, where a plus is a space.\<close>

fun unescape :: "bool \<Rightarrow> string \<Rightarrow> string option" where
  "unescape q [] = Some []"
| "unescape q (c # r) =
     (if c = CHR ''%'' then
        (case r of
           a # b # r' \<Rightarrow> (case (unhex a, unhex b) of
               (Some x, Some y) \<Rightarrow> map_option (\<lambda>t. char_of (16 * x + y) # t) (unescape q r')
             | _ \<Rightarrow> None)
         | _ \<Rightarrow> None)
      else map_option (\<lambda>t. (if q \<and> c = CHR ''+'' then CHR '' '' else c) # t) (unescape q r))"

text \<open>\<open>strings.Split\<close> at a character.\<close>

fun split_on :: "char \<Rightarrow> string \<Rightarrow> string list" where
  "split_on c [] = [[]]"
| "split_on c (x # xs) = (if x = c then [] # split_on c xs
     else (case split_on c xs of p # ps \<Rightarrow> (x # p) # ps | [] \<Rightarrow> [[x]]))"

text \<open>All results, or none.\<close>

fun all_some :: "'a option list \<Rightarrow> 'a list option" where
  "all_some [] = Some []"
| "all_some (x # xs) = (case x of None \<Rightarrow> None | Some v \<Rightarrow> map_option (\<lambda>r. v # r) (all_some xs))"

section \<open>Queries\<close>

text \<open>\<open>Values.Encode\<close>: the pairs sorted by key, values of one key in their order.\<close>

definition encode_pair :: "string \<times> string \<Rightarrow> string" where
  "encode_pair = (\<lambda>(k, v). query_escape k @ ''='' @ query_escape v)"

definition encode_values :: "(string \<times> string) list \<Rightarrow> string" where
  "encode_values q = join ''&'' (map encode_pair (sort_key fst q))"

definition parse_pair :: "string \<Rightarrow> (string \<times> string) option" where
  "parse_pair s = (case cut_at CHR ''='' s of
     None \<Rightarrow> map_option (\<lambda>k. (k, [])) (unescape True s)
   | Some (k, v) \<Rightarrow> (case (unescape True k, unescape True v) of (Some k', Some v') \<Rightarrow> Some (k', v') | _ \<Rightarrow> None))"

text \<open>\<open>URL.Query\<close> drops what does not parse.\<close>

definition parse_query :: "string \<Rightarrow> (string \<times> string) list" where
  "parse_query s = concat (map (\<lambda>p. if p = [] then [] else (case parse_pair p of None \<Rightarrow> [] | Some kv \<Rightarrow> [kv])) (split_on CHR ''&'' s))"

section \<open>Request targets\<close>

text \<open>A target \<open>/a/b?q\<close>: decoded path segments and query; the multiplexer decodes segment by segment.\<close>

definition parse_target :: "string \<Rightarrow> (string list \<times> (string \<times> string) list) option" where
  "parse_target t =
     (let (p, q) = (case cut_at CHR ''?'' t of None \<Rightarrow> (t, []) | Some (p, q) \<Rightarrow> (p, q))
      in case p of
           [] \<Rightarrow> None
         | c # r \<Rightarrow> (if c \<noteq> CHR ''/'' then None
             else map_option (\<lambda>ss. (ss, parse_query q)) (all_some (map (unescape False) (split_on CHR ''/'' r)))))"

section \<open>Laws\<close>

lemma hex_roundtrip:
  "n < 256 \<Longrightarrow> unhex (upper_hex (n div 16)) = Some (n div 16) \<and> unhex (upper_hex (n mod 16)) = Some (n mod 16)"
proof -
  have "unhex (upper_hex m) = Some m" if "m < 16" for m
    using that by (simp add: unhex_def upper_hex_def of_char_of)
  then show "n < 256 \<Longrightarrow> ?thesis" by (simp add: less_mult_imp_div_less)
qed

lemma unescape_pct: "unescape q (pct c @ r) = map_option (\<lambda>t. c # t) (unescape q r)"
  using hex_roundtrip [of "of_char c"] by (simp add: pct_def)

lemma unreserved_plain: "unreserved c \<Longrightarrow> c \<notin> {CHR ''%'', CHR ''+'', CHR ''/'', CHR ''?'', CHR ''&'', CHR ''='', CHR '':''}"
proof -
  have "list_all (\<lambda>c. \<not> unreserved c) [CHR ''%'', CHR ''+'', CHR ''/'', CHR ''?'', CHR ''&'', CHR ''='', CHR '':'']"
    by code_simp
  then show "unreserved c \<Longrightarrow> ?thesis" by auto
qed

lemma unescape_path_char: "unescape False (path_escape_char c @ r) = map_option (\<lambda>t. c # t) (unescape False r)"
  using unreserved_plain [of c] by (auto simp: path_escape_char_def unescape_pct)

lemma unescape_path [simp]: "unescape False (path_escape s) = Some s"
  by (induction s) (simp_all add: path_escape_def unescape_path_char)

lemma unescape_query_char: "unescape True (query_escape_char c @ r) = map_option (\<lambda>t. c # t) (unescape True r)"
  using unreserved_plain [of c] by (auto simp: query_escape_char_def unescape_pct)

lemma unescape_query [simp]: "unescape True (query_escape s) = Some s"
  by (induction s) (simp_all add: query_escape_def unescape_query_char)

lemma upper_hex_plain: "n < 16 \<Longrightarrow> unreserved (upper_hex n)"
proof -
  have "list_all (\<lambda>n. unreserved (upper_hex n)) [0..<16]" by code_simp
  then show "n < 16 \<Longrightarrow> unreserved (upper_hex n)" by (simp add: list_all_iff)
qed

lemma pct_chars: "x \<in> set (pct c) \<Longrightarrow> x = CHR ''%'' \<or> unreserved x"
proof -
  have "of_char c div 16 < (16 :: nat)" using nat_of_char_less_256 [of c] by (simp add: less_mult_imp_div_less)
  then show "x \<in> set (pct c) \<Longrightarrow> ?thesis" using upper_hex_plain by (auto simp: pct_def)
qed

lemma path_escape_chars:
  "x \<in> set (path_escape s) \<Longrightarrow> x \<noteq> CHR ''/'' \<and> x \<noteq> CHR ''?''"
proof -
  assume "x \<in> set (path_escape s)"
  then obtain c where "x \<in> set (path_escape_char c)" by (auto simp: path_escape_def)
  then show ?thesis
    using pct_chars [of x c] unreserved_plain [of x] unreserved_plain [of c]
    by (auto simp: path_escape_char_def split: if_splits)
qed

lemma query_escape_chars:
  "x \<in> set (query_escape s) \<Longrightarrow> x \<noteq> CHR ''&'' \<and> x \<noteq> CHR ''=''"
proof -
  assume "x \<in> set (query_escape s)"
  then obtain c where "x \<in> set (query_escape_char c)" by (auto simp: query_escape_def)
  then show ?thesis
    using pct_chars [of x c] unreserved_plain [of x] unreserved_plain [of c]
    by (auto simp: query_escape_char_def split: if_splits)
qed

lemma split_on_none: "c \<notin> set s \<Longrightarrow> split_on c s = [s]"
  by (induction s) auto

lemma split_on_append: "c \<notin> set a \<Longrightarrow> split_on c (a @ c # b) = a # split_on c b"
  by (induction a) auto

lemma parse_encode_pair: "parse_pair (encode_pair kv) = Some kv"
proof -
  obtain k v where kv: "kv = (k, v)" by (cases kv)
  have "CHR ''='' \<notin> set (query_escape k)" using query_escape_chars by blast
  then show ?thesis by (simp add: kv encode_pair_def parse_pair_def)
qed

lemma encode_pair_chars: "CHR ''&'' \<notin> set (encode_pair kv) \<and> encode_pair kv \<noteq> []"
  using query_escape_chars by (cases kv) (auto simp: encode_pair_def)

lemma split_join:
  "xs \<noteq> [] \<Longrightarrow> \<forall>x \<in> set xs. c \<notin> set x \<Longrightarrow> split_on c (join [c] xs) = xs"
proof (induction xs rule: list_nonempty_induct)
  case (single x)
  then show ?case by (simp add: join_def split_on_none)
next
  case (cons x xs)
  then obtain y ys where xs: "xs = y # ys" by (cases xs) auto
  have "join [c] (x # xs) = x @ c # join [c] xs" by (simp add: join_def xs)
  with cons show ?case by (simp add: split_on_append)
qed

text \<open>What \<open>Values.Encode\<close> writes, the server parses back, in key order.\<close>

lemma parse_encode_values: "parse_query (encode_values q) = sort_key fst q"
proof (cases "q = []")
  case True
  then show ?thesis by (simp add: encode_values_def join_def parse_query_def)
next
  case False
  then have "map encode_pair (sort_key fst q) \<noteq> []" by simp
  then have sp: "split_on CHR ''&'' (encode_values q) = map encode_pair (sort_key fst q)"
    unfolding encode_values_def by (rule split_join) (use encode_pair_chars in auto)
  have "concat (map (\<lambda>kv. if encode_pair kv = [] then [] else (case parse_pair (encode_pair kv) of None \<Rightarrow> [] | Some kv \<Rightarrow> [kv])) l) = l" for l
    by (induction l) (simp_all add: parse_encode_pair encode_pair_chars)
  then show ?thesis by (simp add: parse_query_def sp comp_def)
qed

end
