(* ===== verification/Wire_Laws.thy ===== *)
theory Wire_Laws
  imports Wire_Decode
begin

text \<open>
  Round trips of the wire types: one rule per kind of field for what a lookup finds in an encoded
  struct, then each type in one step.
\<close>

named_theorems wire_simps \<open>lookups in encoded structs\<close>

definition opened :: "fields \<Rightarrow> (string \<times> json) list" where
  "opened fs = map (\<lambda>(k, v). (k, the v)) fs"

lemma seal_Some: "seal fs = Some j \<longleftrightarrow> \<not> list_ex (\<lambda>(_, v). v = None) fs \<and> j = JObj (opened fs)"
  by (auto simp: seal_def opened_def)

lemma seal_fields: "\<not> list_ex (\<lambda>(_, v). v = None) fs \<Longrightarrow> seal fs = Some (JObj (opened fs))"
  by (simp add: seal_Some)

lemma opened_append [wire_simps]: "opened (a @ b) = opened a @ opened b"
  by (simp add: opened_def)

lemma opened_Nil [wire_simps]: "opened [] = []"
  by (simp add: opened_def)

lemma opened_Cons [wire_simps]: "opened ((k, v) # r) = [(k, the v)] @ opened r"
  by (simp add: opened_def)

text \<open>Optional lookups under names of their own, so that a proof never splits on them.\<close>

definition or_else :: "json option \<Rightarrow> json option \<Rightarrow> json option" where
  "or_else a b = (case a of None \<Rightarrow> b | Some v \<Rightarrow> Some v)"

definition or_null :: "json option \<Rightarrow> json" where
  "or_null a = (case a of None \<Rightarrow> JNull | Some v \<Rightarrow> v)"

lemma or_else_None [wire_simps]: "or_else None b = b" "or_else a None = a"
  by (simp_all add: or_else_def split: option.splits)

lemma or_null_simps [wire_simps]: "or_null None = JNull" "or_null (Some v) = v"
  by (simp_all add: or_null_def)

definition some_str :: "string \<Rightarrow> json option" where "some_str s = (if s = [] then None else Some (JStr s))"
definition some_bool :: "bool \<Rightarrow> json option" where "some_bool b = (if b then Some (JBool True) else None)"
definition some_int :: "int \<Rightarrow> json option" where "some_int n = (if n = 0 then None else Some (JNum n))"
definition some_labels :: "labels \<Rightarrow> json option" where "some_labels m = (if m = [] then None else Some (labels_json m))"
definition some_time :: "(int \<Rightarrow> string) \<Rightarrow> int \<Rightarrow> json option" where
  "some_time show t = (if t = zero_time then None else Some (JStr (show t)))"
definition some_opt_time :: "(int \<Rightarrow> string) \<Rightarrow> int option \<Rightarrow> json option" where
  "some_opt_time show d = map_option (\<lambda>t. JStr (show t)) d"
definition some_raw :: "json blob \<Rightarrow> json option" where
  "some_raw r = (case r of BVal j \<Rightarrow> Some j | _ \<Rightarrow> None)"

lemmas some_defs = some_str_def some_bool_def some_int_def some_labels_def some_time_def
  some_opt_time_def some_raw_def or_null_def

lemma jkey_append [wire_simps]: "jkey k (a @ b) = or_else (jkey k b) (jkey k a)"
  by (simp add: jkey_def map_add_def or_else_def split: option.splits)

lemma jkey_Nil [wire_simps]: "jkey k [] = None"
  by (simp add: jkey_def)

lemma jkey_Cons [wire_simps]:
  "jkey k ((k', v) # r) = or_else (jkey k r) (if to_lower k = to_lower k' then Some v else None)"
  by (auto simp: jkey_def or_else_def map_add_def split: option.splits)

lemma jkey_fields [wire_simps]:
  "jkey k (opened (fld k' j)) = (if to_lower k = to_lower k' then Some j else None)"
  "jkey k (opened (omit_str k' s)) = (if to_lower k = to_lower k' then some_str s else None)"
  "jkey k (opened (omit_bool k' b)) = (if to_lower k = to_lower k' then some_bool b else None)"
  "jkey k (opened (omit_int k' n)) = (if to_lower k = to_lower k' then some_int n else None)"
  "jkey k (opened (omit_labels k' m)) = (if to_lower k = to_lower k' then some_labels m else None)"
  "jkey k (opened (time_field show k' t)) = (if to_lower k = to_lower k' then some_time show t else None)"
  "jkey k (opened (opt_time show k' d)) = (if to_lower k = to_lower k' then some_opt_time show d else None)"
  by (auto simp: opened_def jkey_def fld_def omit_str_def omit_bool_def omit_int_def omit_labels_def
      time_field_def opt_time_def some_defs split: option.splits)

lemma jkey_raw [wire_simps]:
  "r \<noteq> BBad \<Longrightarrow> jkey k (opened (omit_raw k' r)) = (if to_lower k = to_lower k' then some_raw r else None)"
  by (cases r) (auto simp: opened_def jkey_def omit_raw_def raw_field_def some_defs)

lemma jval_alt [wire_simps]: "jval k fs = or_null (jkey k fs)"
  by (simp add: jval_def or_null_def)

lemma raw_of_some [wire_simps]: "r \<noteq> BBad \<Longrightarrow> raw_of (some_raw r) = r"
  by (cases r) (simp_all add: raw_of_def some_raw_def)

text \<open>What the field readers find.\<close>

lemma read_simple [wire_simps]:
  "get_str (or_null (some_str s)) = Inr s"
  "get_bool (or_null (some_bool b)) = Inr b"
  "in_i64 n \<Longrightarrow> get_i64 (or_null (some_int n)) = Inr n"
  by (auto simp: some_defs get_i64_def in_i64_def)

text \<open>
  RFC 3339 has years of four digits; within them \<open>MarshalJSON\<close> and \<open>UnmarshalJSON\<close> of a time agree.
\<close>

definition in_years :: "int \<Rightarrow> bool" where
  "in_years t \<longleftrightarrow> - 62167219200000 \<le> t \<and> t < 253402300800000"

definition opt_in_years :: "int option \<Rightarrow> bool" where
  "opt_in_years d \<longleftrightarrow> (case d of None \<Rightarrow> True | Some t \<Rightarrow> in_years t)"

definition rfc3339 :: "(int \<Rightarrow> string) \<Rightarrow> (string \<Rightarrow> int option) \<Rightarrow> bool" where
  "rfc3339 show parse \<longleftrightarrow> (\<forall>t. in_years t \<longrightarrow> parse (show t) = Some t)"

lemma read_times [wire_simps]:
  "rfc3339 show parse \<Longrightarrow> in_years t \<Longrightarrow> get_time parse (or_null (some_time show t)) = Inr t"
  "rfc3339 show parse \<Longrightarrow> opt_in_years d \<Longrightarrow> pointer (get_time parse) (or_null (some_opt_time show d)) = Inr d"
  by (auto simp: rfc3339_def some_defs get_time_def pointer_def opt_in_years_def split: option.splits)

definition canonical :: "labels \<Rightarrow> bool" where
  "canonical m \<longleftrightarrow> sort_key fst (AList.clearjunk m) = m"

lemma get_str_map_id: "get_str_map (map (\<lambda>(k, v). (k, JStr v)) m) = Inr m"
  by (induction m) auto

lemma read_labels [wire_simps]: "canonical m \<Longrightarrow> get_labels (or_null (some_labels m)) = Inr m"
  by (simp add: canonical_def labels_json_def get_str_map_id some_defs)

lemma known_lax [wire_simps]: "known False ks fs"
  by (simp add: known_def)

lemma struct_object [wire_simps]: "known strict ks fs \<Longrightarrow> struct strict ks z body (JObj fs) = body fs"
  by (simp add: struct_def)

lemma struct_null [wire_simps]: "struct strict ks z body JNull = Inr z"
  by (simp add: struct_def)

lemma known_append [wire_simps]: "known strict ks (a @ b) \<longleftrightarrow> known strict ks a \<and> known strict ks b"
  by (auto simp: known_def)

lemma known_Cons [wire_simps]:
  "known strict ks ((k, v) # r) \<longleftrightarrow> (\<not> strict \<or> to_lower k \<in> set (map to_lower ks)) \<and> known strict ks r"
  by (auto simp: known_def)

lemma known_Nil [wire_simps]: "known strict ks []"
  by (simp add: known_def)

lemma known_fields [wire_simps]:
  assumes "to_lower k \<in> set (map to_lower ks)"
  shows "known strict ks (opened (fld k j))" "known strict ks (opened (omit_str k s))"
    "known strict ks (opened (omit_bool k b))" "known strict ks (opened (omit_int k n))"
    "known strict ks (opened (omit_labels k m))" "known strict ks (opened (time_field show k t))"
    "known strict ks (opened (opt_time show k d))" "known strict ks (opened (omit_raw k r))"
    "known strict ks (opened (raw_field k r))"
  using assms by (auto simp: known_def opened_def fld_def omit_str_def omit_bool_def omit_int_def
      omit_labels_def time_field_def opt_time_def omit_raw_def raw_field_def split: option.splits blob.splits)

text \<open>The keys of the wire types in lower case.\<close>

lemma lower_keys [wire_simps]:
  "to_lower ''id'' = ''id''" "to_lower ''name'' = ''name''" "to_lower ''labels'' = ''labels''"
  "to_lower ''ownership'' = ''ownership''" "to_lower ''protected'' = ''protected''"
  "to_lower ''generation'' = ''generation''" "to_lower ''observedGeneration'' = ''observedgeneration''"
  "to_lower ''createdAt'' = ''createdat''" "to_lower ''updatedAt'' = ''updatedat''"
  "to_lower ''deletedAt'' = ''deletedat''" "to_lower ''kind'' = ''kind''" "to_lower ''provider'' = ''provider''"
  "to_lower ''class'' = ''class''" "to_lower ''machine'' = ''machine''" "to_lower ''phase'' = ''phase''"
  "to_lower ''externalId'' = ''externalid''" "to_lower ''parkedAt'' = ''parkedat''"
  "to_lower ''externalRef'' = ''externalref''" "to_lower ''capacity'' = ''capacity''"
  "to_lower ''extensions'' = ''extensions''" "to_lower ''apiVersion'' = ''apiversion''"
  "to_lower ''metadata'' = ''metadata''" "to_lower ''spec'' = ''spec''" "to_lower ''status'' = ''status''"
  "to_lower ''quantity'' = ''quantity''" "to_lower ''constraints'' = ''constraints''"
  "to_lower ''exclusive'' = ''exclusive''" "to_lower ''lease'' = ''lease''" "to_lower ''ttl'' = ''ttl''"
  "to_lower ''maxWait'' = ''maxwait''" "to_lower ''idempotencyKey'' = ''idempotencykey''"
  "to_lower ''state'' = ''state''" "to_lower ''resourceKind'' = ''resourcekind''"
  "to_lower ''resourceId'' = ''resourceid''" "to_lower ''leaseId'' = ''leaseid''" "to_lower ''actor'' = ''actor''"
  "to_lower ''queueDeadline'' = ''queuedeadline''"
  by code_simp+

section \<open>The round trips\<close>

definition metadata_ok :: "w_metadata \<Rightarrow> bool" where
  "metadata_ok m \<longleftrightarrow> canonical (wm_labels m) \<and> in_i64 (wm_generation m) \<and> in_i64 (wm_observed_generation m)
     \<and> in_years (wm_created_at m) \<and> in_years (wm_updated_at m) \<and> opt_in_years (wm_deleted_at m)"

lemma metadata_roundtrip:
  assumes "metadata_ok m" and "rfc3339 show parse"
  shows "\<exists>j. seal (metadata_fields show m) = Some j \<and> decode_metadata parse strict j = Inr m"
proof -
  have "seal (metadata_fields show m) = Some (JObj (opened (metadata_fields show m)))"
    by (rule seal_fields) (simp add: metadata_fields_def)
  moreover have "known strict metadata_keys (opened (metadata_fields show m))"
    by (simp add: metadata_fields_def metadata_keys_def wire_simps del: append_assoc list.set)
      (simp add: wire_simps)
  ultimately show ?thesis
    using assms unfolding metadata_ok_def
    by (simp add: decode_metadata_def wire_simps metadata_fields_def)
qed


lemma spec_roundtrip:
  assumes "ws_machine x \<noteq> BBad"
  shows "\<exists>j. seal (spec_fields x) = Some j \<and> decode_resource_spec strict j = Inr x"
proof -
  have "seal (spec_fields x) = Some (JObj (opened (spec_fields x)))"
    by (rule seal_fields) (simp add: spec_fields_def assms)
  moreover have "known strict [''kind'', ''provider'', ''class'', ''machine''] (opened (spec_fields x))"
    by (simp add: spec_fields_def wire_simps)
  ultimately show ?thesis
    using assms by (simp add: decode_resource_spec_def wire_simps spec_fields_def)
qed

definition status_ok :: "w_resource_status \<Rightarrow> bool" where
  "status_ok x \<longleftrightarrow> wt_external_ref x \<noteq> BBad \<and> wt_capacity x \<noteq> BBad \<and> wt_extensions x \<noteq> BBad
     \<and> opt_in_years (wt_parked_at x)"

lemma status_roundtrip:
  assumes "status_ok x" and "rfc3339 show parse"
  shows "\<exists>j. seal (status_fields show x) = Some j \<and> decode_status parse j = Inr x"
proof -
  have "seal (status_fields show x) = Some (JObj (opened (status_fields show x)))"
    by (rule seal_fields) (use assms(1) in \<open>simp add: status_fields_def status_ok_def\<close>)
  then show ?thesis
    using assms unfolding status_ok_def by (simp add: decode_status_def wire_simps status_fields_def)
qed

definition resource_ok :: "w_resource \<Rightarrow> bool" where
  "resource_ok x \<longleftrightarrow> metadata_ok (wr_metadata x) \<and> ws_machine (wr_spec x) \<noteq> BBad \<and> status_ok (wr_status x)"

lemma resource_roundtrip:
  assumes "resource_ok x" and "rfc3339 show parse"
  shows "\<exists>j. resource_json show x = Some j \<and> decode_resource parse j = Inr x"
proof -
  from assms obtain m sp st where
    m: "seal (metadata_fields show (wr_metadata x)) = Some m" "decode_metadata parse False m = Inr (wr_metadata x)"
    and sp: "seal (spec_fields (wr_spec x)) = Some sp" "decode_resource_spec False sp = Inr (wr_spec x)"
    and st: "seal (status_fields show (wr_status x)) = Some st" "decode_status parse st = Inr (wr_status x)"
    using metadata_roundtrip spec_roundtrip status_roundtrip unfolding resource_ok_def by blast
  have "decode_status parse JNull = Inr zero_status" by (simp add: decode_status_def wire_simps)
  with m sp st show ?thesis
    by (cases "wr_status x = zero_status")
      (simp_all add: resource_json_def seal_fields decode_resource_def wire_simps)
qed

lemma zero_metadata_null: "decode_metadata parse strict JNull = Inr zero_metadata"
  by (simp add: decode_metadata_def wire_simps)

lemma create_request_roundtrip:
  assumes "metadata_ok (wc_metadata x)" and "ws_machine (wc_spec x) \<noteq> BBad" and "rfc3339 show parse"
  shows "\<exists>j. create_request_json show x = Some j \<and> decode_create_request parse j = Inr x"
proof -
  from assms obtain m sp where
    m: "seal (metadata_fields show (wc_metadata x)) = Some m" "decode_metadata parse True m = Inr (wc_metadata x)"
    and sp: "seal (spec_fields (wc_spec x)) = Some sp" "decode_resource_spec True sp = Inr (wc_spec x)"
    using metadata_roundtrip spec_roundtrip by blast
  then show ?thesis
    by (cases "wc_metadata x = zero_metadata")
      (simp_all add: create_request_json_def seal_fields decode_create_request_def zero_metadata_null wire_simps)
qed

definition acquisition_ok :: "w_acquisition \<Rightarrow> bool" where
  "acquisition_ok x \<longleftrightarrow> in_years (wq_created_at x) \<and> in_years (wq_updated_at x) \<and> opt_in_years (wq_queue_deadline x)"

lemma acquisition_roundtrip:
  assumes "acquisition_ok x" and "rfc3339 show parse"
  shows "\<exists>j. acquisition_json show x = Some j \<and> decode_acquisition parse j = Inr x"
  using assms unfolding acquisition_ok_def by (simp add: acquisition_json_def seal_fields decode_acquisition_def wire_simps)

lemma acquire_roundtrip:
  assumes "in_i64 (wa_quantity x)" and "wa_constraints x \<noteq> BBad"
  shows "\<exists>j. acquire_json x = Some j \<and> decode_acquire j = Inr x"
proof (cases "wa_lease x")
  case None
  with assms show ?thesis
    by (simp add: acquire_json_def seal_fields decode_acquire_def wire_simps pointer_def)
next
  case (Some ttl)
  have "seal (omit_str ''ttl'' ttl) = Some (JObj (opened (omit_str ''ttl'' ttl)))"
    by (rule seal_fields) simp
  with Some assms show ?thesis
    by (simp add: acquire_json_def seal_fields decode_acquire_def wire_simps pointer_def)
qed

text \<open>
  C38. The server reads back the request the client sent, and the client the resource or acquisition
  the server sent: decoding an encoded value of the wire types gives that value, strictly for
  requests, whatever fields \<open>omitempty\<close> and \<open>omitzero\<close> left out.
\<close>

theorem wire_roundtrip:
  assumes "rfc3339 show parse"
    and "resource_ok res" and "metadata_ok (wc_metadata req)" and "ws_machine (wc_spec req) \<noteq> BBad"
    and "in_i64 (wa_quantity acq)" and "wa_constraints acq \<noteq> BBad" and "acquisition_ok a"
  shows "bindE (case resource_json show res of None \<Rightarrow> Inl bad_type | Some j \<Rightarrow> Inr j) (decode_resource parse) = Inr res
    \<and> bindE (case create_request_json show req of None \<Rightarrow> Inl bad_type | Some j \<Rightarrow> Inr j) (decode_create_request parse) = Inr req
    \<and> bindE (case acquire_json acq of None \<Rightarrow> Inl bad_type | Some j \<Rightarrow> Inr j) decode_acquire = Inr acq
    \<and> bindE (case acquisition_json show a of None \<Rightarrow> Inl bad_type | Some j \<Rightarrow> Inr j) (decode_acquisition parse) = Inr a"
  using resource_roundtrip [OF assms(2,1)] create_request_roundtrip [OF assms(3,4,1)]
    acquire_roundtrip [OF assms(5,6)] acquisition_roundtrip [OF assms(7,1)] by auto

end
