(* ===== verification/Client.thy ===== *)
theory Client
  imports Handlers URL_Text Wire_Laws
begin

text \<open>
  The Go client of the API (pkg/apiclient/client.go, client_more.go): the request each method sends,
  what it makes of the reply, and that every request reaches the handler it is meant for with the
  identifier it was given. The transport is an argument: a function from requests to replies.
\<close>

section \<open>Requests\<close>

text \<open>A request before it is sent: the body is absent or a marshalled value, which may fail.\<close>

record outgoing =
  og_method :: string
  og_target :: string
  og_body :: "json option option"
  og_key :: string

definition bare :: "string \<Rightarrow> string \<Rightarrow> outgoing" where
  "bare m t = \<lparr>og_method = m, og_target = t, og_body = None, og_key = []\<rparr>"

definition with_query :: "string \<Rightarrow> (string \<times> string) list \<Rightarrow> string" where
  "with_query path q = (let enc = encode_values q in if enc \<noteq> [] then path @ ''?'' @ enc else path)"

definition set_query :: "(string \<times> string) list \<Rightarrow> (string \<times> string) list" where
  "set_query kvs = filter (\<lambda>(_, v). v \<noteq> []) kvs"

record w_resource_filter =
  wrf_kind :: string
  wrf_class :: string
  wrf_provider :: string
  wrf_pool :: string
  wrf_phases :: "string list"

definition filter_query :: "w_resource_filter \<Rightarrow> (string \<times> string) list" where
  "filter_query f = set_query [(''kind'', wrf_kind f), (''class'', wrf_class f), (''provider'', wrf_provider f),
      (''pool'', wrf_pool f)] @ map (\<lambda>p. (''phase'', p)) (wrf_phases f)"

definition q_create_resource :: "(int \<Rightarrow> string) \<Rightarrow> w_create_request \<Rightarrow> string \<Rightarrow> outgoing" where
  "q_create_resource show req key = \<lparr>og_method = ''POST'', og_target = ''/v1/resources'',
     og_body = Some (create_request_json show req), og_key = key\<rparr>"
definition q_get_resource :: "string \<Rightarrow> outgoing" where
  "q_get_resource i = bare ''GET'' (''/v1/resources/'' @ i)"
definition q_list_resources :: "w_resource_filter \<Rightarrow> outgoing" where
  "q_list_resources f = bare ''GET'' (with_query ''/v1/resources'' (filter_query f))"
definition q_delete_resource :: "string \<Rightarrow> string \<Rightarrow> outgoing" where
  "q_delete_resource i key = (bare ''DELETE'' (''/v1/resources/'' @ i))\<lparr>og_key := key\<rparr>"
definition q_acquire :: "w_acquire \<Rightarrow> string \<Rightarrow> outgoing" where
  "q_acquire req key = \<lparr>og_method = ''POST'', og_target = ''/v1/acquisitions'', og_body = Some (acquire_json req),
     og_key = key\<rparr>"
definition q_get_acquisition :: "string \<Rightarrow> outgoing" where
  "q_get_acquisition i = bare ''GET'' (''/v1/acquisitions/'' @ i)"
definition q_list_acquisitions :: "string list \<Rightarrow> string \<Rightarrow> outgoing" where
  "q_list_acquisitions states res = bare ''GET'' (with_query ''/v1/acquisitions''
     (map (\<lambda>s. (''state'', s)) states @ set_query [(''resource'', res)]))"
definition q_release :: "string \<Rightarrow> outgoing" where
  "q_release i = bare ''DELETE'' (''/v1/acquisitions/'' @ i)"
definition q_drain_resource :: "string \<Rightarrow> outgoing" where
  "q_drain_resource i = bare ''POST'' (''/v1/resources/'' @ i @ '':drain'')"
definition q_undrain_resource :: "string \<Rightarrow> outgoing" where
  "q_undrain_resource i = bare ''POST'' (''/v1/resources/'' @ i @ '':undrain'')"
definition q_protect_resource :: "string \<Rightarrow> outgoing" where
  "q_protect_resource i = bare ''POST'' (''/v1/resources/'' @ i @ '':protect'')"
definition q_unprotect_resource :: "string \<Rightarrow> outgoing" where
  "q_unprotect_resource i = bare ''POST'' (''/v1/resources/'' @ i @ '':unprotect'')"
definition q_park_resource :: "string \<Rightarrow> outgoing" where
  "q_park_resource i = bare ''POST'' (''/v1/resources/'' @ path_escape i @ '':park'')"
definition q_start_resource :: "string \<Rightarrow> outgoing" where
  "q_start_resource i = bare ''POST'' (''/v1/resources/'' @ path_escape i @ '':start'')"
definition q_pause_pool :: "string \<Rightarrow> outgoing" where
  "q_pause_pool i = bare ''POST'' (''/v1/pools/'' @ i @ '':pause'')"
definition q_resume_pool :: "string \<Rightarrow> outgoing" where
  "q_resume_pool i = bare ''POST'' (''/v1/pools/'' @ i @ '':resume'')"
definition q_delete_pool :: "string \<Rightarrow> outgoing" where
  "q_delete_pool i = bare ''DELETE'' (''/v1/pools/'' @ i)"
definition q_apply_pool :: "(int \<Rightarrow> string) \<Rightarrow> w_pool_manifest \<Rightarrow> outgoing" where
  "q_apply_pool show m = (bare ''POST'' ''/v1/pools'')\<lparr>og_body := Some (pool_manifest_json show m)\<rparr>"
definition q_get_pool :: "string \<Rightarrow> outgoing" where
  "q_get_pool i = bare ''GET'' (''/v1/pools/'' @ i)"
definition q_list_pools :: outgoing where
  "q_list_pools = bare ''GET'' ''/v1/pools''"
definition q_reconcile_pool :: "string \<Rightarrow> outgoing" where
  "q_reconcile_pool i = bare ''POST'' (''/v1/pools/'' @ i @ '':reconcile'')"
definition q_get_operation :: "string \<Rightarrow> outgoing" where
  "q_get_operation i = bare ''GET'' (''/v1/operations/'' @ i)"
definition q_list_operations :: outgoing where
  "q_list_operations = bare ''GET'' ''/v1/operations''"
definition q_list_events :: "string \<Rightarrow> string \<Rightarrow> string \<Rightarrow> int \<Rightarrow> outgoing" where
  "q_list_events after since res limit = bare ''GET'' (with_query ''/v1/events''
     (set_query [(''after'', after), (''since'', since), (''resource'', res)]
      @ (if limit > 0 then [(''limit'', show_int limit)] else [])))"
definition q_list_providers :: outgoing where
  "q_list_providers = bare ''GET'' ''/v1/providers''"
definition q_create_class :: "(int \<Rightarrow> string) \<Rightarrow> w_class_manifest \<Rightarrow> outgoing" where
  "q_create_class show m = (bare ''POST'' ''/v1/classes'')\<lparr>og_body := Some (class_manifest_json show m)\<rparr>"
definition q_upsert_class :: "(int \<Rightarrow> string) \<Rightarrow> string \<Rightarrow> w_class_manifest \<Rightarrow> outgoing" where
  "q_upsert_class show n m = (bare ''PUT'' (''/v1/classes/'' @ path_escape n))\<lparr>og_body := Some (class_manifest_json show m)\<rparr>"
definition q_get_class :: "string \<Rightarrow> outgoing" where
  "q_get_class n = bare ''GET'' (''/v1/classes/'' @ path_escape n)"
definition q_list_classes :: outgoing where
  "q_list_classes = bare ''GET'' ''/v1/classes''"
definition q_delete_class :: "string \<Rightarrow> outgoing" where
  "q_delete_class n = bare ''DELETE'' (''/v1/classes/'' @ path_escape n)"

section \<open>Sending\<close>

datatype client_error = TransportError string | ApiError int w_error

definition zero_error :: w_error where
  "zero_error = \<lparr>we_code = [], we_message = [], we_request_id = [], we_retryable = False, we_retry_after = 0,
     we_details = BNil\<rparr>"

definition decode_error :: "json \<Rightarrow> err + w_error" where
  "decode_error = struct False [] zero_error (\<lambda>fs. struct False [] zero_error (\<lambda>es.
     bindE (get_str (jval ''code'' es)) (\<lambda>c.
     bindE (get_str (jval ''message'' es)) (\<lambda>m.
     bindE (get_str (jval ''requestId'' es)) (\<lambda>r.
     bindE (get_bool (jval ''retryable'' es)) (\<lambda>b.
     bindE (get_i64 (jval ''retryAfterSeconds'' es)) (\<lambda>a.
     Inr \<lparr>we_code = c, we_message = m, we_request_id = r, we_retryable = b, we_retry_after = a,
          we_details = raw_of (jkey ''details'' es)\<rparr>)))))) (jval ''error'' fs))"

text \<open>The request on the wire: the target parsed, the token and the key as headers.\<close>

definition wire_request :: "string \<Rightarrow> outgoing \<Rightarrow> client_error + http_request" where
  "wire_request token og =
     (case og_body og of
        Some None \<Rightarrow> Inl (TransportError ''json: error calling MarshalJSON'')
      | b \<Rightarrow> (case parse_target (og_target og) of
          None \<Rightarrow> Inl (TransportError ''invalid URL'')
        | Some (path, q) \<Rightarrow> Inr
            \<lparr>hr_method = og_method og, hr_path = path, hr_query = q,
             hr_authorization = (if token = [] then [] else ''Bearer '' @ token), hr_request_id = [],
             hr_idem_key = og_key og,
             hr_body = (case b of Some (Some j) \<Rightarrow> json_text j | _ \<Rightarrow> [])\<rparr>))"

text \<open>
  The reply as the client reads it: the document of the body (or none, where it is not JSON), an
  \<open>APIError\<close> from a status of 300 on, with whatever of the error body decodes.
\<close>

definition body_json :: "(string \<Rightarrow> json option) \<Rightarrow> reply_body \<Rightarrow> json option" where
  "body_json parse b = (case b of Doc j \<Rightarrow> Some j | Stored t \<Rightarrow> parse t | Text t \<Rightarrow> parse t | NoBody \<Rightarrow> None)"

definition read_reply ::
    "(string \<Rightarrow> json option) \<Rightarrow> (json \<Rightarrow> err + 'a) option \<Rightarrow> response \<Rightarrow> client_error + 'a option" where
  "read_reply parse dec r =
     (if rs_status r \<ge> 300 then
        Inl (ApiError (rs_status r) (case body_json parse (rs_body r) of
               None \<Rightarrow> zero_error
             | Some j \<Rightarrow> (case decode_error j of Inl _ \<Rightarrow> zero_error | Inr e \<Rightarrow> e)))
      else (case dec of
          None \<Rightarrow> Inr None
        | Some d \<Rightarrow> (case body_json parse (rs_body r) of
            None \<Rightarrow> Inl (TransportError ''invalid JSON'')
          | Some j \<Rightarrow> (case d j of Inl _ \<Rightarrow> Inl (TransportError ''json: cannot unmarshal'') | Inr x \<Rightarrow> Inr (Some x)))))"

text \<open>\<open>Client.do\<close> against a server reached by \<open>send\<close>.\<close>

definition client_do ::
    "(http_request \<Rightarrow> 's \<Rightarrow> response \<times> 's) \<Rightarrow> (string \<Rightarrow> json option) \<Rightarrow> string \<Rightarrow> outgoing
      \<Rightarrow> (json \<Rightarrow> err + 'a) option \<Rightarrow> 's \<Rightarrow> (client_error + 'a option) \<times> 's" where
  "client_do send parse token og dec s =
     (case wire_request token og of
        Inl e \<Rightarrow> (Inl e, s)
      | Inr req \<Rightarrow> (let (r, s') = send req s in (read_reply parse dec r, s')))"

section \<open>Every request reaches its handler\<close>

definition reaches :: "outgoing \<Rightarrow> handler \<Rightarrow> string \<Rightarrow> string \<Rightarrow> bool" where
  "reaches og h key v \<longleftrightarrow>
     (\<exists>path q defs vals rt vals'. parse_target (og_target og) = Some (path, q)
        \<and> mux (og_method og) path = Found defs vals \<and> dispatch_row defs vals = Some (rt, vals')
        \<and> rt_handler rt = h \<and> lab vals' key = v)"

definition plain_id :: "string \<Rightarrow> bool" where
  "plain_id i \<longleftrightarrow> i \<noteq> [] \<and> list_all unreserved i"

lemma plain_chars:
  assumes "plain_id i"
  shows "CHR ''%'' \<notin> set i" "CHR ''/'' \<notin> set i" "CHR ''?'' \<notin> set i" "i \<noteq> []"
  using assms unreserved_plain by (auto simp: plain_id_def list_all_iff)

lemma unescape_plain: "CHR ''%'' \<notin> set s \<Longrightarrow> unescape False s = Some s"
  by (induction s) auto

lemma unescape_append_plain: "unescape False a = Some b \<Longrightarrow> CHR ''%'' \<notin> set s \<Longrightarrow> unescape False (a @ s) = Some (b @ s)"
proof (induction "False" a arbitrary: b rule: unescape.induct)
  case 1
  then show ?case by (simp add: unescape_plain)
next
  case (2 c r)
  show ?case
  proof (cases "c = CHR ''%''")
    case True
    with 2 show ?thesis by (auto split: list.splits option.splits)
  next
    case False
    with 2 show ?thesis by auto
  qed
qed

text \<open>A segment of a target: it has no slash and no question mark, and decodes to a value.\<close>

definition segment_of :: "string \<Rightarrow> string \<Rightarrow> bool" where
  "segment_of t v \<longleftrightarrow> CHR ''/'' \<notin> set t \<and> CHR ''?'' \<notin> set t \<and> unescape False t = Some v"

lemma segment_plain: "plain_id i \<Longrightarrow> segment_of i i"
  using plain_chars [of i] by (simp add: segment_of_def unescape_plain)

lemma segment_escaped: "segment_of (path_escape n) n"
  using path_escape_chars [of _ n] by (auto simp: segment_of_def)

lemma segment_suffix:
  "segment_of t v \<Longrightarrow> CHR ''%'' \<notin> set x \<Longrightarrow> CHR ''/'' \<notin> set x \<Longrightarrow> CHR ''?'' \<notin> set x \<Longrightarrow> segment_of (t @ x) (v @ x)"
  by (simp add: segment_of_def unescape_append_plain)

definition collection :: "string \<Rightarrow> bool" where
  "collection col \<longleftrightarrow> CHR ''%'' \<notin> set col \<and> CHR ''/'' \<notin> set col \<and> CHR ''?'' \<notin> set col"

lemma no_query: "CHR ''?'' \<notin> set t \<Longrightarrow> parse_target (CHR ''/'' # t) =
    map_option (\<lambda>ss. (ss, [])) (all_some (map (unescape False) (split_on CHR ''/'' t)))"
proof -
  assume "CHR ''?'' \<notin> set t"
  then have "CHR ''?'' \<notin> set (CHR ''/'' # t)" by simp
  then have "cut_at CHR ''?'' (CHR ''/'' # t) = None" by (rule iffD2 [OF cut_at_None_iff])
  moreover have "parse_query [] = []" by (simp add: parse_query_def)
  ultimately show ?thesis by (simp add: parse_target_def)
qed

lemma target_two: "collection col \<Longrightarrow> parse_target (''/v1/'' @ col) = Some ([''v1'', col], [])"
  by (simp add: collection_def no_query split_on_none unescape_plain)

lemma target_three:
  "collection col \<Longrightarrow> segment_of t v \<Longrightarrow> parse_target (''/v1/'' @ col @ ''/'' @ t) = Some ([''v1'', col, v], [])"
  by (simp add: collection_def segment_of_def no_query split_on_none split_on_append unescape_plain)

lemma target_query:
  assumes "collection col"
  shows "parse_target (with_query (''/v1/'' @ col) q) = Some ([''v1'', col], sort_key fst q)"
proof (cases "encode_values q = []")
  case True
  then have "sort_key fst q = []" using parse_encode_values [of q] by (simp add: parse_query_def)
  then show ?thesis using True target_two [OF assms] by (simp add: with_query_def)
next
  case False
  have "cut_at CHR ''?'' ((''/v1/'' @ col) @ CHR ''?'' # encode_values q) = Some (''/v1/'' @ col, encode_values q)"
    by (rule cut_at_append) (use assms in \<open>simp add: collection_def\<close>)
  then show ?thesis
    using False assms by (simp add: with_query_def parse_target_def parse_encode_values collection_def
        split_on_none unescape_plain)
qed

text \<open>The rows of a collection, or of its members, for a method.\<close>

definition row_at :: "string \<Rightarrow> bool \<Rightarrow> route \<Rightarrow> bool" where
  "row_at col wild rt = (case rt_pattern rt of
     [Lit a, Lit b] \<Rightarrow> \<not> wild \<and> a = ''v1'' \<and> b = col
   | [Lit a, Lit b, Wild w] \<Rightarrow> wild \<and> a = ''v1'' \<and> b = col
   | _ \<Rightarrow> False)"

definition rows :: "string \<Rightarrow> string \<Rightarrow> bool \<Rightarrow> route list" where
  "rows m col wild = filter (\<lambda>rt. serves_method (rt_method rt) m \<and> row_at col wild rt) routes"

text \<open>The entry for method and collection is there and leads to a handler, by its verb if it has one.\<close>

definition routed :: "string \<Rightarrow> string \<Rightarrow> string \<Rightarrow> string \<Rightarrow> handler \<Rightarrow> bool" where
  "routed m col w verb h =
     (case rows m col (w \<noteq> []) of
        [] \<Rightarrow> False
      | rt # rts \<Rightarrow>
          (if verb = [] then rt_verb rt = [] \<and> rt_handler rt = h
           else rt_verb rt \<noteq> [] \<and> w = ''idverb'' \<and>
             (case find (\<lambda>d. rt_verb d = verb) (rt # rts) of None \<Rightarrow> False | Some d \<Rightarrow> rt_handler d = h))
          \<and> (if w = [] then rt_pattern rt = [Lit ''v1'', Lit col] else rt_pattern rt = [Lit ''v1'', Lit col, Wild w]))"

lemma matching_rows_of:
  "matching m [''v1'', col] = rows m col False"
  "v \<noteq> [] \<Longrightarrow> matching m [''v1'', col, v] = rows m col True"
proof -
  have "list_all (\<lambda>rt. \<exists>a b. rt_pattern rt = [Lit a, Lit b] \<or> (\<exists>w. rt_pattern rt = [Lit a, Lit b, Wild w])) routes"
    by (simp add: routes_def route_row_def p_acqs_def p_res_def p_pools_def p_classes_def p_ops_def)
  then have shape: "\<exists>a b. rt_pattern rt = [Lit a, Lit b] \<or> (\<exists>w. rt_pattern rt = [Lit a, Lit b, Wild w])"
    if "rt \<in> set routes" for rt using that by (simp add: list_all_iff)
  have "match_path (rt_pattern rt) [''v1'', col] \<noteq> None \<longleftrightarrow> row_at col False rt"
    and "v \<noteq> [] \<Longrightarrow> match_path (rt_pattern rt) [''v1'', col, v] \<noteq> None \<longleftrightarrow> row_at col True rt"
    if "rt \<in> set routes" for rt
    using shape [OF that] by (auto simp: row_at_def split: if_splits)
  then show "matching m [''v1'', col] = rows m col False"
    "v \<noteq> [] \<Longrightarrow> matching m [''v1'', col, v] = rows m col True"
    unfolding matching_def rows_def by (auto intro!: filter_cong)
qed

lemma routed_cases:
  assumes "routed m col w verb h"
  obtains rt rts where "rows m col (w \<noteq> []) = rt # rts"
    "verb = [] \<longrightarrow> rt_verb rt = [] \<and> rt_handler rt = h"
    "verb \<noteq> [] \<longrightarrow> rt_verb rt \<noteq> [] \<and> w = ''idverb'' \<and> (\<exists>d. find (\<lambda>d. rt_verb d = verb) (rt # rts) = Some d \<and> rt_handler d = h)"
    "w = [] \<longrightarrow> rt_pattern rt = [Lit ''v1'', Lit col]" "w \<noteq> [] \<longrightarrow> rt_pattern rt = [Lit ''v1'', Lit col, Wild w]"
  using assms by (cases "rows m col (w \<noteq> [])") (auto simp: routed_def split: option.splits if_splits)

lemma reaches_collection:
  assumes "routed m col [] [] h" and "og_method og = m"
    and "parse_target (og_target og) = Some ([''v1'', col], q)"
  shows "reaches og h k []"
  using assms(1)
proof (rule routed_cases)
  fix rt rts
  assume r: "rows m col ([] \<noteq> []) = rt # rts" "[] = [] \<longrightarrow> rt_verb rt = [] \<and> rt_handler rt = h"
    "[] = [] \<longrightarrow> rt_pattern rt = [Lit ''v1'', Lit col]"
  then have "mux m [''v1'', col] = Found (rt # rts) []" by (simp add: mux_def matching_rows_of)
  with assms(2,3) r show ?thesis by (fastforce simp: reaches_def dispatch_row_def lab_def)
qed

lemma reaches_member:
  assumes "routed m col w [] h" and "w \<noteq> []" and "og_method og = m" and "v \<noteq> []"
    and "parse_target (og_target og) = Some ([''v1'', col, v], q)"
  shows "reaches og h w v"
  using assms(1)
proof (rule routed_cases)
  fix rt rts
  assume r: "rows m col (w \<noteq> []) = rt # rts" "[] = [] \<longrightarrow> rt_verb rt = [] \<and> rt_handler rt = h"
    "w \<noteq> [] \<longrightarrow> rt_pattern rt = [Lit ''v1'', Lit col, Wild w]"
  then have "mux m [''v1'', col, v] = Found (rt # rts) [(w, v)]"
    using assms(2,4) by (simp add: mux_def matching_rows_of)
  with assms(3,5) r show ?thesis by (fastforce simp: reaches_def dispatch_row_def lab_def)
qed

lemma reaches_verb:
  assumes "routed m col ''idverb'' verb h" and "verb \<noteq> []" and "CHR '':'' \<notin> set verb" and "og_method og = m"
    and "i \<noteq> []" and "parse_target (og_target og) = Some ([''v1'', col, i @ '':'' @ verb], q)"
  shows "reaches og h ''id'' i"
  using assms(1)
proof (rule routed_cases)
  fix rt rts
  assume r: "rows m col (''idverb'' \<noteq> []) = rt # rts"
    "verb \<noteq> [] \<longrightarrow> rt_verb rt \<noteq> [] \<and> ''idverb'' = ''idverb'' \<and>
       (\<exists>d. find (\<lambda>d. rt_verb d = verb) (rt # rts) = Some d \<and> rt_handler d = h)"
    "''idverb'' \<noteq> [] \<longrightarrow> rt_pattern rt = [Lit ''v1'', Lit col, Wild ''idverb'']"
  then obtain d where d: "find (\<lambda>d. rt_verb d = verb) (rt # rts) = Some d" "rt_handler d = h" "rt_verb rt \<noteq> []"
    using assms(2) by blast
  let ?vals = "[(''idverb'', i @ '':'' @ verb)]"
  have "mux m [''v1'', col, i @ '':'' @ verb] = Found (rt # rts) ?vals"
    using r by (simp add: mux_def matching_rows_of)
  moreover have "split_verb (i @ '':'' @ verb) = Some (i, verb)"
    using assms(2,3,5) by (simp add: split_verb_Some_iff)
  then have "dispatch_row (rt # rts) ?vals = Some (d, put ''id'' i ?vals)"
    using d by (simp add: dispatch_row_def lab_def)
  moreover have "lab (put ''id'' i ?vals) ''id'' = i" by (simp add: lab_map_of)
  ultimately show ?thesis using assms(4,6) d(2) unfolding reaches_def by blast
qed

definition client_routes :: "(string \<times> string \<times> string \<times> string \<times> handler) list" where
  "client_routes =
     [(''POST'', ''resources'', [], [], CreateResource), (''GET'', ''resources'', [], [], ListResources),
      (''GET'', ''resources'', ''id'', [], GetResource), (''DELETE'', ''resources'', ''id'', [], DeleteResource),
      (''POST'', ''acquisitions'', [], [], CreateAcquisition), (''GET'', ''acquisitions'', [], [], ListAcquisitions),
      (''GET'', ''acquisitions'', ''id'', [], GetAcquisition), (''DELETE'', ''acquisitions'', ''id'', [], ReleaseAcquisition),
      (''POST'', ''resources'', ''idverb'', ''drain'', DrainResource), (''POST'', ''resources'', ''idverb'', ''undrain'', UndrainResource),
      (''POST'', ''resources'', ''idverb'', ''protect'', ProtectResource), (''POST'', ''resources'', ''idverb'', ''unprotect'', UnprotectResource),
      (''POST'', ''resources'', ''idverb'', ''park'', ParkResource), (''POST'', ''resources'', ''idverb'', ''start'', StartResource),
      (''POST'', ''pools'', ''idverb'', ''pause'', PausePool), (''POST'', ''pools'', ''idverb'', ''resume'', ResumePool),
      (''POST'', ''pools'', ''idverb'', ''reconcile'', ReconcilePool), (''DELETE'', ''pools'', ''id'', [], DeletePool),
      (''POST'', ''pools'', [], [], CreatePool), (''GET'', ''pools'', ''id'', [], GetPool), (''GET'', ''pools'', [], [], ListPools),
      (''GET'', ''operations'', ''id'', [], GetOperation), (''GET'', ''operations'', [], [], ListOperations),
      (''GET'', ''events'', [], [], ListEvents), (''GET'', ''providers'', [], [], ListProviders),
      (''POST'', ''classes'', [], [], CreateClass), (''PUT'', ''classes'', ''name'', [], UpdateClass),
      (''GET'', ''classes'', ''name'', [], GetClass), (''GET'', ''classes'', [], [], ListClasses),
      (''DELETE'', ''classes'', ''name'', [], DeleteClass)]"

lemma client_routed: "(m, col, w, verb, h) \<in> set client_routes \<Longrightarrow> routed m col w verb h"
proof -
  have all: "list_all (\<lambda>(m, col, w, verb, h). routed m col w verb h) client_routes" by code_simp
  show "(m, col, w, verb, h) \<in> set client_routes \<Longrightarrow> routed m col w verb h"
    using all by (auto simp: list_all_iff)
qed


lemma client_collection:
  assumes "(m, col, [], [], h) \<in> set client_routes" and "collection col" and "og_method og = m"
    and "og_target og = ''/v1/'' @ col \<or> (\<exists>q. og_target og = with_query (''/v1/'' @ col) q)"
  shows "reaches og h k []"
proof -
  have "\<exists>q. parse_target (og_target og) = Some ([''v1'', col], q)"
    using assms(4) target_two [OF assms(2)] target_query [OF assms(2)] by auto
  then show ?thesis using reaches_collection [OF client_routed [OF assms(1)] assms(3)] by blast
qed

lemma client_member:
  assumes "(m, col, w, [], h) \<in> set client_routes" and "w \<noteq> []" and "collection col" and "og_method og = m"
    and "segment_of t v" and "v \<noteq> []" and "og_target og = ''/v1/'' @ col @ ''/'' @ t"
  shows "reaches og h w v"
  by (rule reaches_member [OF client_routed [OF assms(1)] assms(2,4,6)])
    (simp add: assms(7) target_three [OF assms(3,5), simplified])

lemma client_verb:
  assumes "(m, col, ''idverb'', verb, h) \<in> set client_routes" and "collection col" and "og_method og = m"
    and "segment_of t i" and "i \<noteq> []" and "verb \<noteq> []" and "list_all is_lower verb"
    and "og_target og = ''/v1/'' @ col @ ''/'' @ t @ '':'' @ verb"
  shows "reaches og h ''id'' i"
proof -
  have "\<not> is_lower CHR '':''" "\<not> is_lower CHR ''%''" "\<not> is_lower CHR ''/''" "\<not> is_lower CHR ''?''" by code_simp+
  then have c: "CHR '':'' \<notin> set verb" "CHR ''%'' \<notin> set ('':'' @ verb)" "CHR ''/'' \<notin> set ('':'' @ verb)"
    "CHR ''?'' \<notin> set ('':'' @ verb)"
    using assms(7) by (auto simp: list_all_iff)
  have "segment_of (t @ '':'' @ verb) (i @ '':'' @ verb)" by (rule segment_suffix [OF assms(4) c(2-4)])
  then have "parse_target (og_target og) = Some ([''v1'', col, i @ '':'' @ verb], [])"
    unfolding assms(8) by (rule target_three [OF assms(2)])
  then show ?thesis by (rule reaches_verb [OF client_routed [OF assms(1)] assms(6) c(1) assms(3,5)])
qed

lemma collections: "collection ''resources''" "collection ''acquisitions''" "collection ''pools''"
  "collection ''operations''" "collection ''events''" "collection ''providers''" "collection ''classes''"
  by (simp_all add: collection_def)

lemmas client_targets = q_create_resource_def q_get_resource_def q_list_resources_def q_delete_resource_def
  q_acquire_def q_get_acquisition_def q_list_acquisitions_def q_release_def q_drain_resource_def
  q_undrain_resource_def q_protect_resource_def q_unprotect_resource_def q_park_resource_def
  q_start_resource_def q_pause_pool_def q_resume_pool_def q_delete_pool_def q_apply_pool_def
  q_get_pool_def q_list_pools_def q_reconcile_pool_def q_get_operation_def q_list_operations_def
  q_list_events_def q_list_providers_def q_create_class_def q_upsert_class_def q_get_class_def
  q_list_classes_def q_delete_class_def bare_def

lemma client_reaches_collections:
  "reaches (q_create_resource show cr key) CreateResource k []"
  "reaches (q_list_resources f) ListResources k []"
  "reaches (q_acquire ar key) CreateAcquisition k []"
  "reaches (q_list_acquisitions sts res) ListAcquisitions k []"
  "reaches (q_apply_pool show pm) CreatePool k []"
  "reaches q_list_pools ListPools k []"
  "reaches q_list_operations ListOperations k []"
  "reaches (q_list_events a since res limit) ListEvents k []"
  "reaches q_list_providers ListProviders k []"
  "reaches (q_create_class show cm) CreateClass k []"
  "reaches q_list_classes ListClasses k []"
proof -
  note s = collections client_targets client_routes_def
  show "reaches (q_create_resource show cr key) CreateResource k []"
    by (rule client_collection [where m = "''POST''" and col = "''resources''"]) (auto simp: s)
  show "reaches (q_list_resources f) ListResources k []"
    by (rule client_collection [where m = "''GET''" and col = "''resources''"]) (auto simp: s)
  show "reaches (q_acquire ar key) CreateAcquisition k []"
    by (rule client_collection [where m = "''POST''" and col = "''acquisitions''"]) (auto simp: s)
  show "reaches (q_list_acquisitions sts res) ListAcquisitions k []"
    by (rule client_collection [where m = "''GET''" and col = "''acquisitions''"]) (auto simp: s)
  show "reaches (q_apply_pool show pm) CreatePool k []"
    by (rule client_collection [where m = "''POST''" and col = "''pools''"]) (auto simp: s)
  show "reaches q_list_pools ListPools k []"
    by (rule client_collection [where m = "''GET''" and col = "''pools''"]) (auto simp: s)
  show "reaches q_list_operations ListOperations k []"
    by (rule client_collection [where m = "''GET''" and col = "''operations''"]) (auto simp: s)
  show "reaches (q_list_events a since res limit) ListEvents k []"
    by (rule client_collection [where m = "''GET''" and col = "''events''"]) (auto simp: s)
  show "reaches q_list_providers ListProviders k []"
    by (rule client_collection [where m = "''GET''" and col = "''providers''"]) (auto simp: s)
  show "reaches (q_create_class show cm) CreateClass k []"
    by (rule client_collection [where m = "''POST''" and col = "''classes''"]) (auto simp: s)
  show "reaches q_list_classes ListClasses k []"
    by (rule client_collection [where m = "''GET''" and col = "''classes''"]) (auto simp: s)
qed

lemma client_reaches_members:
  assumes "plain_id i" and "n \<noteq> []"
  shows "reaches (q_get_resource i) GetResource ''id'' i"
    "reaches (q_delete_resource i key) DeleteResource ''id'' i"
    "reaches (q_get_acquisition i) GetAcquisition ''id'' i"
    "reaches (q_release i) ReleaseAcquisition ''id'' i"
    "reaches (q_delete_pool i) DeletePool ''id'' i"
    "reaches (q_get_pool i) GetPool ''id'' i"
    "reaches (q_get_operation i) GetOperation ''id'' i"
    "reaches (q_upsert_class show n cm) UpdateClass ''name'' n"
    "reaches (q_get_class n) GetClass ''name'' n"
    "reaches (q_delete_class n) DeleteClass ''name'' n"
proof -
  note i = segment_plain [OF assms(1)] plain_chars(4) [OF assms(1)]
  note n = segment_escaped [of n] assms(2)
  note s = collections client_targets client_routes_def
  show "reaches (q_get_resource i) GetResource ''id'' i"
    by (rule client_member [where m = "''GET''" and col = "''resources''", OF _ _ _ _ i]) (simp_all add: s)
  show "reaches (q_delete_resource i key) DeleteResource ''id'' i"
    by (rule client_member [where m = "''DELETE''" and col = "''resources''", OF _ _ _ _ i]) (simp_all add: s)
  show "reaches (q_get_acquisition i) GetAcquisition ''id'' i"
    by (rule client_member [where m = "''GET''" and col = "''acquisitions''", OF _ _ _ _ i]) (simp_all add: s)
  show "reaches (q_release i) ReleaseAcquisition ''id'' i"
    by (rule client_member [where m = "''DELETE''" and col = "''acquisitions''", OF _ _ _ _ i]) (simp_all add: s)
  show "reaches (q_delete_pool i) DeletePool ''id'' i"
    by (rule client_member [where m = "''DELETE''" and col = "''pools''", OF _ _ _ _ i]) (simp_all add: s)
  show "reaches (q_get_pool i) GetPool ''id'' i"
    by (rule client_member [where m = "''GET''" and col = "''pools''", OF _ _ _ _ i]) (simp_all add: s)
  show "reaches (q_get_operation i) GetOperation ''id'' i"
    by (rule client_member [where m = "''GET''" and col = "''operations''", OF _ _ _ _ i]) (simp_all add: s)
  show "reaches (q_upsert_class show n cm) UpdateClass ''name'' n"
    by (rule client_member [where m = "''PUT''" and col = "''classes''", OF _ _ _ _ n]) (simp_all add: s)
  show "reaches (q_get_class n) GetClass ''name'' n"
    by (rule client_member [where m = "''GET''" and col = "''classes''", OF _ _ _ _ n]) (simp_all add: s)
  show "reaches (q_delete_class n) DeleteClass ''name'' n"
    by (rule client_member [where m = "''DELETE''" and col = "''classes''", OF _ _ _ _ n]) (simp_all add: s)
qed

lemma client_reaches_verbs:
  assumes "plain_id i" and "n \<noteq> []"
  shows "reaches (q_drain_resource i) DrainResource ''id'' i"
    "reaches (q_undrain_resource i) UndrainResource ''id'' i"
    "reaches (q_protect_resource i) ProtectResource ''id'' i"
    "reaches (q_unprotect_resource i) UnprotectResource ''id'' i"
    "reaches (q_pause_pool i) PausePool ''id'' i"
    "reaches (q_resume_pool i) ResumePool ''id'' i"
    "reaches (q_reconcile_pool i) ReconcilePool ''id'' i"
    "reaches (q_park_resource n) ParkResource ''id'' n"
    "reaches (q_start_resource n) StartResource ''id'' n"
proof -
  note i = segment_plain [OF assms(1)] plain_chars(4) [OF assms(1)]
  note n = segment_escaped [of n] assms(2)
  note s = collections client_targets client_routes_def
  have lower: "list_all (list_all is_lower) [''drain'', ''undrain'', ''protect'', ''unprotect'', ''pause'', ''resume'', ''reconcile'', ''park'', ''start'']" by code_simp
  show "reaches (q_drain_resource i) DrainResource ''id'' i"
    by (rule client_verb [where m = "''POST''" and col = "''resources''" and verb = "''drain''", OF _ _ _ i])
      (use lower in \<open>simp_all add: s\<close>)
  show "reaches (q_undrain_resource i) UndrainResource ''id'' i"
    by (rule client_verb [where m = "''POST''" and col = "''resources''" and verb = "''undrain''", OF _ _ _ i])
      (use lower in \<open>simp_all add: s\<close>)
  show "reaches (q_protect_resource i) ProtectResource ''id'' i"
    by (rule client_verb [where m = "''POST''" and col = "''resources''" and verb = "''protect''", OF _ _ _ i])
      (use lower in \<open>simp_all add: s\<close>)
  show "reaches (q_unprotect_resource i) UnprotectResource ''id'' i"
    by (rule client_verb [where m = "''POST''" and col = "''resources''" and verb = "''unprotect''", OF _ _ _ i])
      (use lower in \<open>simp_all add: s\<close>)
  show "reaches (q_pause_pool i) PausePool ''id'' i"
    by (rule client_verb [where m = "''POST''" and col = "''pools''" and verb = "''pause''", OF _ _ _ i])
      (use lower in \<open>simp_all add: s\<close>)
  show "reaches (q_resume_pool i) ResumePool ''id'' i"
    by (rule client_verb [where m = "''POST''" and col = "''pools''" and verb = "''resume''", OF _ _ _ i])
      (use lower in \<open>simp_all add: s\<close>)
  show "reaches (q_reconcile_pool i) ReconcilePool ''id'' i"
    by (rule client_verb [where m = "''POST''" and col = "''pools''" and verb = "''reconcile''", OF _ _ _ i])
      (use lower in \<open>simp_all add: s\<close>)
  show "reaches (q_park_resource n) ParkResource ''id'' n"
    by (rule client_verb [where m = "''POST''" and col = "''resources''" and verb = "''park''", OF _ _ _ n])
      (use lower in \<open>simp_all add: s\<close>)
  show "reaches (q_start_resource n) StartResource ''id'' n"
    by (rule client_verb [where m = "''POST''" and col = "''resources''" and verb = "''start''", OF _ _ _ n])
      (use lower in \<open>simp_all add: s\<close>)
qed


end
