(* ===== verification/Commands.thy ===== *)
theory Commands
  imports Client
begin

text \<open>
  The client commands (internal/cli): what each one asks of the API, what it prints and the exit code.
  A command runs over a connection, which is the transport and the world behind it; files, YAML and the
  rendering of generic values are arguments. Tables and indented JSON are not rendered.
\<close>

section \<open>Errors and exit codes\<close>

datatype cmd_error =
  CmdError string
| CmdPanic string
| CmdClient client_error
| WatchFailed string string
| InDocument nat cmd_error

text \<open>\<open>errors.As\<close> looks through the wrapping of \<open>apply\<close>.\<close>

fun exit_code :: "cmd_error \<Rightarrow> int" where
  "exit_code (WatchFailed i st) = 6"
| "exit_code (CmdClient (ApiError st e)) =
     (if st = 404 then 3
      else if st = 401 \<or> st = 403 then 4
      else if st = 409 then 5
      else if st \<ge> 500 then 7
      else 1)"
| "exit_code (InDocument n e) = exit_code e"
| "exit_code (CmdPanic m) = 2"
| "exit_code e = 1"

definition execute :: "(cmd_error + 'a) \<times> 's \<Rightarrow> int" where
  "execute r = (case fst r of Inl e \<Rightarrow> exit_code e | Inr _ \<Rightarrow> 0)"

section \<open>Commands\<close>

type_synonym ('s, 'a) cmd = "'s \<Rightarrow> (cmd_error + 'a) \<times> 's"

definition retC :: "'a \<Rightarrow> ('s, 'a) cmd" where "retC x s = (Inr x, s)"
definition failC :: "cmd_error \<Rightarrow> ('s, 'a) cmd" where "failC e s = (Inl e, s)"

definition bindC :: "('s, 'a) cmd \<Rightarrow> ('a \<Rightarrow> ('s, 'b) cmd) \<Rightarrow> ('s, 'b) cmd" where
  "bindC m f s = (case m s of (Inl e, t) \<Rightarrow> (Inl e, t) | (Inr x, t) \<Rightarrow> f x t)"

text \<open>What fails outside the API: \<open>return err\<close>.\<close>

definition liftC :: "err + 'a \<Rightarrow> ('s, 'a) cmd" where
  "liftC r = (case r of Inl e \<Rightarrow> failC (CmdError ''error'') | Inr x \<Rightarrow> retC x)"

text \<open>The address is in the transport; \<open>cx_renorm\<close> is a value decoded to \<open>any\<close> and marshalled again.\<close>

record 's connection =
  cx_send :: "http_request \<Rightarrow> 's \<Rightarrow> response \<times> 's"
  cx_parse :: "string \<Rightarrow> json option"
  cx_parse_time :: "string \<Rightarrow> int option"
  cx_show_time :: "int \<Rightarrow> string"
  cx_sprint :: "json \<Rightarrow> string"
  cx_renorm :: "json \<Rightarrow> json"
  cx_token :: string

definition call_api :: "'s connection \<Rightarrow> outgoing \<Rightarrow> ('s, unit) cmd" where
  "call_api cx og s =
     (case client_do (cx_send cx) (cx_parse cx) (cx_token cx) og (None :: (json \<Rightarrow> err + unit) option) s of
        (Inl e, t) \<Rightarrow> (Inl (CmdClient e), t)
      | (Inr _, t) \<Rightarrow> (Inr (), t))"

definition fetch :: "'s connection \<Rightarrow> outgoing \<Rightarrow> (json \<Rightarrow> err + 'a) \<Rightarrow> ('s, 'a) cmd" where
  "fetch cx og dec s =
     (case client_do (cx_send cx) (cx_parse cx) (cx_token cx) og (Some dec) s of
        (Inl e, t) \<Rightarrow> (Inl (CmdClient e), t)
      | (Inr None, t) \<Rightarrow> (Inl (CmdClient (TransportError ''invalid JSON'')), t)
      | (Inr (Some x), t) \<Rightarrow> (Inr x, t))"

section \<open>Replies the commands read\<close>

definition decode_pool :: "(string \<Rightarrow> int option) \<Rightarrow> json \<Rightarrow> err + w_pool" where
  "decode_pool parse = struct False []
     \<lparr>wp_api_version = [], wp_kind = [], wp_metadata = zero_metadata, wp_spec = BNil, wp_paused = False\<rparr> (\<lambda>fs.
     bindE (get_str (jval ''apiVersion'' fs)) (\<lambda>a.
     bindE (get_str (jval ''kind'' fs)) (\<lambda>k.
     bindE (decode_metadata parse False (jval ''metadata'' fs)) (\<lambda>m.
     bindE (get_bool (jval ''paused'' fs)) (\<lambda>p.
     Inr \<lparr>wp_api_version = a, wp_kind = k, wp_metadata = m, wp_spec = raw_of (jkey ''spec'' fs), wp_paused = p\<rparr>)))))"

definition decode_class :: "(string \<Rightarrow> int option) \<Rightarrow> json \<Rightarrow> err + w_class" where
  "decode_class parse = struct False []
     \<lparr>wy_api_version = [], wy_kind = [], wy_metadata = zero_metadata, wy_spec = zero_class_spec, wy_source = []\<rparr> (\<lambda>fs.
     bindE (get_str (jval ''apiVersion'' fs)) (\<lambda>a.
     bindE (get_str (jval ''kind'' fs)) (\<lambda>k.
     bindE (decode_metadata parse False (jval ''metadata'' fs)) (\<lambda>m.
     bindE (decode_class_spec False (jval ''spec'' fs)) (\<lambda>sp.
     bindE (get_str (jval ''source'' fs)) (\<lambda>src.
     Inr \<lparr>wy_api_version = a, wy_kind = k, wy_metadata = m, wy_spec = sp, wy_source = src\<rparr>))))))"

definition decode_operation :: "(string \<Rightarrow> int option) \<Rightarrow> json \<Rightarrow> err + w_operation" where
  "decode_operation parse = struct False []
     \<lparr>wo_id = [], wo_kind = [], wo_state = [], wo_provider = [], wo_resource_id = [], wo_attempt = 0,
      wo_error_class = [], wo_created_at = zero_time, wo_updated_at = zero_time\<rparr> (\<lambda>fs.
     bindE (get_str (jval ''id'' fs)) (\<lambda>i.
     bindE (get_str (jval ''kind'' fs)) (\<lambda>k.
     bindE (get_str (jval ''state'' fs)) (\<lambda>st.
     bindE (get_str (jval ''provider'' fs)) (\<lambda>p.
     bindE (get_str (jval ''resourceId'' fs)) (\<lambda>r.
     bindE (get_i64 (jval ''attempt'' fs)) (\<lambda>a.
     bindE (get_str (jval ''errorClass'' fs)) (\<lambda>e.
     bindE (get_time parse (jval ''createdAt'' fs)) (\<lambda>c.
     bindE (get_time parse (jval ''updatedAt'' fs)) (\<lambda>u.
     Inr \<lparr>wo_id = i, wo_kind = k, wo_state = st, wo_provider = p, wo_resource_id = r, wo_attempt = a,
          wo_error_class = e, wo_created_at = c, wo_updated_at = u\<rparr>))))))))))"

text \<open>The manifests of the command line are read leniently.\<close>

definition read_create_request :: "(string \<Rightarrow> int option) \<Rightarrow> json \<Rightarrow> err + w_create_request" where
  "read_create_request parse = struct False []
     \<lparr>wc_api_version = [], wc_kind = [], wc_metadata = zero_metadata, wc_spec = zero_spec\<rparr> (\<lambda>fs.
     bindE (get_str (jval ''apiVersion'' fs)) (\<lambda>a.
     bindE (get_str (jval ''kind'' fs)) (\<lambda>k.
     bindE (decode_metadata parse False (jval ''metadata'' fs)) (\<lambda>m.
     bindE (decode_resource_spec False (jval ''spec'' fs)) (\<lambda>sp.
     Inr \<lparr>wc_api_version = a, wc_kind = k, wc_metadata = m, wc_spec = sp\<rparr>)))))"

definition read_class_manifest :: "(string \<Rightarrow> int option) \<Rightarrow> json \<Rightarrow> err + w_class_manifest" where
  "read_class_manifest parse = struct False []
     \<lparr>wf_api_version = [], wf_kind = [], wf_metadata = zero_metadata, wf_spec = zero_class_spec\<rparr> (\<lambda>fs.
     bindE (get_str (jval ''apiVersion'' fs)) (\<lambda>a.
     bindE (get_str (jval ''kind'' fs)) (\<lambda>k.
     bindE (decode_metadata parse False (jval ''metadata'' fs)) (\<lambda>m.
     bindE (decode_class_spec False (jval ''spec'' fs)) (\<lambda>sp.
     Inr \<lparr>wf_api_version = a, wf_kind = k, wf_metadata = m, wf_spec = sp\<rparr>)))))"

section \<open>apply (apply.go)\<close>

record manifest =
  mf_api_version :: string
  mf_kind :: string
  mf_raw :: json

text \<open>The documents of the YAML stream, each a map or empty; what is no JSON is an error of the decoder.\<close>

fun decode_manifests :: "(string \<times> json) list list \<Rightarrow> err + manifest list" where
  "decode_manifests [] = Inr []"
| "decode_manifests (v # vs) =
     (if v = [] then decode_manifests vs
      else bindE (get_str (jval ''apiVersion'' v)) (\<lambda>a.
           bindE (get_str (jval ''kind'' v)) (\<lambda>k.
           bindE (decode_manifests vs) (\<lambda>docs.
           Inr (\<lparr>mf_api_version = a, mf_kind = k, mf_raw = JObj v\<rparr> # docs)))))"

definition apply_one :: "'s connection \<Rightarrow> manifest \<Rightarrow> ('s, string) cmd" where
  "apply_one cx m =
     (if mf_api_version m \<noteq> [] \<and> mf_api_version m \<noteq> api_version
      then failC (CmdError ''unsupported apiVersion'')
      else if mf_kind m = ''Class'' then
        bindC (liftC (read_class_manifest (cx_parse_time cx) (mf_raw m))) (\<lambda>cm.
        bindC (fetch cx (q_upsert_class (cx_show_time cx) (wm_name (wf_metadata cm)) cm) (decode_class (cx_parse_time cx))) (\<lambda>cls.
        retC (''class/'' @ wm_name (wy_metadata cls) @ '': applied'')))
      else if mf_kind m = ''Pool'' then
        bindC (liftC (decode_pool_manifest (cx_parse_time cx) (mf_raw m))) (\<lambda>pm.
        bindC (fetch cx (q_apply_pool (cx_show_time cx) pm) (decode_pool (cx_parse_time cx))) (\<lambda>p.
        retC (''pool/'' @ wm_name (wp_metadata p) @ '' ('' @ wm_id (wp_metadata p) @ ''): applied'')))
      else if mf_kind m = ''Resource'' then
        bindC (liftC (read_create_request (cx_parse_time cx) (mf_raw m))) (\<lambda>req.
        bindC (fetch cx (q_create_resource (cx_show_time cx) req (''apply:'' @ wm_name (wc_metadata req)))
            (decode_resource (cx_parse_time cx))) (\<lambda>r.
        retC (''resource/'' @ wm_name (wr_metadata r) @ '' ('' @ wm_id (wr_metadata r) @ ''): '' @ wt_phase (wr_status r))))
      else failC (CmdError ''unsupported manifest kind''))"

text \<open>The documents in order; the first error ends the command, what was applied before stays.\<close>

fun apply_docs :: "'s connection \<Rightarrow> nat \<Rightarrow> manifest list \<Rightarrow> ('s, string list) cmd" where
  "apply_docs cx n [] s = (Inr [], s)"
| "apply_docs cx n (m # docs) s =
     (case apply_one cx m s of
        (Inl e, t) \<Rightarrow> (Inl (InDocument (Suc n) e), t)
      | (Inr l, t) \<Rightarrow> (case apply_docs cx (Suc n) docs t of (Inl e, u) \<Rightarrow> (Inl e, u) | (Inr ls, u) \<Rightarrow> (Inr (l # ls), u)))"

definition apply_cmd :: "'s connection \<Rightarrow> err + (string \<times> json) list list \<Rightarrow> ('s, string list) cmd" where
  "apply_cmd cx stream =
     bindC (liftC stream) (\<lambda>vs.
     bindC (liftC (decode_manifests vs)) (\<lambda>docs.
     if docs = [] then failC (CmdError ''no manifests found'') else apply_docs cx 0 docs))"

section \<open>watch and acquire (acquire.go)\<close>

text \<open>One poll: the state to print, whether it is final, and whether it is a success.\<close>

definition watch_once :: "'s connection \<Rightarrow> string \<Rightarrow> ('s, string \<times> bool \<times> bool) cmd" where
  "watch_once cx i =
     (if prefix ''acq_'' i then
        bindC (fetch cx (q_get_acquisition i) (decode_acquisition (cx_parse_time cx))) (\<lambda>a.
        if wq_state a = ''bound''
        then retC (''bound -> '' @ wq_resource_id a @ '' (lease '' @ wq_lease_id a @ '')'', True, True)
        else if wq_state a \<in> {''failed'', ''expired'', ''released''} then retC (wq_state a, True, False)
        else retC (wq_state a, False, False))
      else if prefix ''op_'' i then
        bindC (fetch cx (q_get_operation i) (decode_operation (cx_parse_time cx))) (\<lambda>x.
        if wo_state x = ''succeeded'' then retC (wo_state x, True, True)
        else if wo_state x \<in> {''failed'', ''aborted''} then retC (wo_state x, True, False)
        else retC (wo_state x, False, False))
      else failC (CmdError ''watch supports acq_ and op_ ids''))"

text \<open>
  The loop prints each change of state; between two polls the world moves, and the timeout leaves
  finitely many polls: after the last of \<open>waits\<close> it strikes.
\<close>

fun watch_loop :: "'s connection \<Rightarrow> string \<Rightarrow> ('s \<Rightarrow> 's) list \<Rightarrow> string \<Rightarrow> 's \<Rightarrow> string list \<times> (cmd_error + unit) \<times> 's" where
  "watch_loop cx i waits seen s =
     (case watch_once cx i s of
        (Inl e, t) \<Rightarrow> ([], Inl e, t)
      | (Inr (st, fin, ok), t) \<Rightarrow>
          (let line = (if st \<noteq> seen then [i @ '': '' @ st] else []) in
           if fin then (line, if ok then Inr () else Inl (WatchFailed i st), t)
           else (case waits of
               [] \<Rightarrow> (line, Inl (WatchFailed i (''timeout waiting (last: '' @ st @ '')'')), t)
             | w # ws \<Rightarrow> (let (ls, r, u) = watch_loop cx i ws st (w t) in (line @ ls, r, u)))))"

definition or_dash :: "string \<Rightarrow> string" where
  "or_dash s = (if s = [] then ''-'' else s)"

record acquire_flags =
  af_class :: string
  af_ttl :: string
  af_max_wait :: string
  af_key :: string
  af_cpu :: int
  af_memory :: int
  af_exclusive :: bool

definition acquire_constraints :: "acquire_flags \<Rightarrow> json blob" where
  "acquire_constraints fl =
     (let cs = (if af_cpu fl > 0 then [(''cpu'', JObj [(''min'', JNum (af_cpu fl))])] else [])
            @ (if af_memory fl > 0 then [(''memoryMiB'', JObj [(''min'', JNum (af_memory fl))])] else [])
      in if cs = [] then BNil else BVal (JObj cs))"

definition acquire_request :: "acquire_flags \<Rightarrow> w_acquire" where
  "acquire_request fl =
     \<lparr>wa_kind = [], wa_class = af_class fl, wa_quantity = 0, wa_constraints = acquire_constraints fl,
      wa_exclusive = af_exclusive fl, wa_lease = (if af_ttl fl = [] then None else Some (af_ttl fl)),
      wa_max_wait = af_max_wait fl, wa_idem_key = []\<rparr>"

text \<open>The reply of the accept is replaced by the current state, where that can be read.\<close>

definition acquire_cmd_run :: "'s connection \<Rightarrow> acquire_flags \<Rightarrow> ('s, string) cmd" where
  "acquire_cmd_run cx fl =
     bindC (fetch cx (q_acquire (acquire_request fl) (af_key fl)) (decode_acquisition (cx_parse_time cx))) (\<lambda>a s.
     (let (cur, t) = fetch cx (q_get_acquisition (wq_id a)) (decode_acquisition (cx_parse_time cx)) s;
          b = (case cur of Inl _ \<Rightarrow> a | Inr c \<Rightarrow> c)
      in (Inr (wq_id b @ '' -> '' @ or_dash (wq_resource_id b) @ [CHR 0x0A] @ ''state: '' @ wq_state b), t)))"

definition verb_cmd :: "'s connection \<Rightarrow> (string \<Rightarrow> outgoing) \<Rightarrow> string \<Rightarrow> string \<Rightarrow> ('s, string) cmd" where
  "verb_cmd cx q word i = bindC (call_api cx (q i)) (\<lambda>_. retC (i @ '': '' @ word))"

definition release_cmd :: "'s connection \<Rightarrow> string \<Rightarrow> ('s, string) cmd" where
  "release_cmd cx = verb_cmd cx q_release ''released''"

definition acquisition_states :: "bool \<Rightarrow> string list \<Rightarrow> string list" where
  "acquisition_states every states =
     (if every then [''pending'', ''provisioning'', ''bound'', ''failed'', ''released'', ''expired''] else states)"

section \<open>Resources (resources.go)\<close>

definition resource_verbs :: "(string \<times> string \<times> (string \<Rightarrow> outgoing)) list" where
  "resource_verbs =
     [(''drain'', ''draining'', q_drain_resource), (''undrain'', ''ready'', q_undrain_resource),
      (''park'', ''parking'', q_park_resource), (''start'', ''starting'', q_start_resource),
      (''protect'', ''protected'', q_protect_resource), (''unprotect'', ''unprotected'', q_unprotect_resource)]"

definition delete_resource_cmd :: "'s connection \<Rightarrow> string \<Rightarrow> string \<Rightarrow> ('s, string) cmd" where
  "delete_resource_cmd cx key i = bindC (call_api cx (q_delete_resource i key)) (\<lambda>_. retC (i @ '': deleting''))"

record create_flags =
  kf_manifest :: "json option"
  kf_key :: string
  kf_name :: string
  kf_class :: string
  kf_provider :: string
  kf_kind :: string
  kf_server_type :: string
  kf_image :: string
  kf_location :: string
  kf_user_data :: "string option"
  kf_labels :: "string list"

text \<open>A map of Go decoded from JSON: \<open>null\<close> gives the nil map, into which an assignment panics.\<close>

definition machine_map :: "json blob \<Rightarrow> cmd_error + (string \<times> json) list option" where
  "machine_map raw = (case raw of
     BNil \<Rightarrow> Inr (Some [])
   | BVal JNull \<Rightarrow> Inr None
   | BVal (JObj fs) \<Rightarrow> Inr (Some (AList.clearjunk (rev fs)))
   | _ \<Rightarrow> Inl (CmdError ''manifest spec.machine''))"

definition assign :: "string \<Rightarrow> json \<Rightarrow> (string \<times> json) list option \<Rightarrow> cmd_error + (string \<times> json) list option" where
  "assign k v m = (case m of
     None \<Rightarrow> Inl (CmdPanic ''assignment to entry in nil map'')
   | Some fs \<Rightarrow> Inr (Some (AList.update k v fs)))"

definition assign_set :: "string \<Rightarrow> string \<Rightarrow> (string \<times> json) list option \<Rightarrow> cmd_error + (string \<times> json) list option" where
  "assign_set k v m = (if v = [] then Inr m else assign k (JStr v) m)"

fun add_labels :: "string list \<Rightarrow> (string \<times> string) list \<Rightarrow> cmd_error + (string \<times> string) list" where
  "add_labels [] m = Inr m"
| "add_labels (kv # kvs) m =
     (case cut_at CHR ''='' kv of
        None \<Rightarrow> Inl (CmdError ''--label wants key=value'')
      | Some (k, v) \<Rightarrow> add_labels kvs (AList.update k v m))"

definition overlay_labels :: "(json \<Rightarrow> string) \<Rightarrow> string list \<Rightarrow> (string \<times> json) list option \<Rightarrow> cmd_error + (string \<times> json) list option" where
  "overlay_labels sprint kvs m =
     (if kvs = [] then Inr m
      else (let old = (case m of Some fs \<Rightarrow> (case map_of fs ''labels'' of Some (JObj l) \<Rightarrow> l | _ \<Rightarrow> []) | None \<Rightarrow> []) in
        bindE (add_labels kvs (map (\<lambda>(k, v). (k, sprint v)) old)) (\<lambda>labels.
        assign ''labels'' (JObj (map (\<lambda>(k, v). (k, JStr v)) (sort_key fst labels))) m)))"

definition set_over :: "string \<Rightarrow> string \<Rightarrow> string" where
  "set_over flag old = (if flag = [] then old else flag)"

text \<open>The request of \<open>resources create\<close>: the flags over the manifest.\<close>

definition create_request :: "'s connection \<Rightarrow> create_flags \<Rightarrow> cmd_error + w_create_request" where
  "create_request cx fl =
     (case (case kf_manifest fl of
          None \<Rightarrow> Inr \<lparr>wc_api_version = [], wc_kind = [], wc_metadata = zero_metadata, wc_spec = zero_spec\<rparr>
        | Some j \<Rightarrow> read_create_request (cx_parse_time cx) j) of
        Inl e \<Rightarrow> Inl (CmdError ''manifest'')
      | Inr req \<Rightarrow>
     bindE (machine_map (ws_machine (wc_spec req))) (\<lambda>m0.
     bindE (assign_set ''serverType'' (kf_server_type fl) m0) (\<lambda>m1.
     bindE (assign_set ''image'' (kf_image fl) m1) (\<lambda>m2.
     bindE (assign_set ''location'' (kf_location fl) m2) (\<lambda>m3.
     bindE (case kf_user_data fl of None \<Rightarrow> Inr m3 | Some ud \<Rightarrow> assign ''userData'' (JStr ud) m3) (\<lambda>m4.
     bindE (overlay_labels (cx_sprint cx) (kf_labels fl) m4) (\<lambda>m5.
     let sp = wc_spec req;
         machine = (case m5 of Some (f # fs) \<Rightarrow> BVal (cx_renorm cx (JObj (sort_key fst (f # fs)))) | _ \<Rightarrow> ws_machine sp);
         class = set_over (kf_class fl) (ws_class sp);
         kind = set_over (kf_kind fl) (ws_kind sp);
         sp' = sp\<lparr>ws_machine := machine, ws_class := class, ws_provider := set_over (kf_provider fl) (ws_provider sp),
           ws_kind := (if class = [] \<and> kind = [] then ''compute.machine'' else kind)\<rparr>
     in if kf_manifest fl = None \<and> ws_class sp' = [] \<and> ws_provider sp' = []
        then Inl (CmdError ''need -f, --class, or --provider with --image/--server-type'')
        else Inr (req\<lparr>wc_spec := sp',
               wc_metadata := (wc_metadata req)\<lparr>wm_name := set_over (kf_name fl) (wm_name (wc_metadata req))\<rparr>\<rparr>))))))))"

definition create_cmd_run :: "'s connection \<Rightarrow> create_flags \<Rightarrow> ('s, string) cmd" where
  "create_cmd_run cx fl =
     (case create_request cx fl of
        Inl e \<Rightarrow> failC e
      | Inr req \<Rightarrow>
          bindC (fetch cx (q_create_resource (cx_show_time cx) req (kf_key fl)) (decode_resource (cx_parse_time cx))) (\<lambda>r.
          retC (wm_id (wr_metadata r) @ '': '' @ wt_phase (wr_status r))))"

section \<open>Classes (classes.go)\<close>

record class_flags =
  lf_kind :: string
  lf_provider :: string
  lf_template :: "json blob"
  lf_reclaim_idle :: string
  lf_reclaim_park :: string
  lf_delete_after :: string
  lf_queue_max_wait :: string

text \<open>The columns of the listing that show a policy.\<close>

definition class_columns :: "w_class \<Rightarrow> string list" where
  "class_columns c =
     (let sp = wy_spec c;
          r = (case wk_reclaim sp of None \<Rightarrow> \<lparr>wl_idle_after = [], wl_park = [], wl_delete_after = []\<rparr> | Some r \<Rightarrow> r)
      in [wm_name (wy_metadata c), wk_kind sp, wk_provider sp, wy_source c, or_dash (wl_idle_after r),
          (if wl_park r = [] then ''auto'' else wl_park r), or_dash (wl_delete_after r),
          or_dash (case wk_scheduling sp of Some (Some w) \<Rightarrow> w | _ \<Rightarrow> [])])"

definition class_manifest :: "string \<Rightarrow> class_flags \<Rightarrow> cmd_error + w_class_manifest" where
  "class_manifest name fl =
     (if lf_template fl = BNil then Inl (CmdError ''a template is required'')
      else Inr
        \<lparr>wf_api_version = api_version, wf_kind = ''Class'', wf_metadata = zero_metadata\<lparr>wm_name := name\<rparr>,
         wf_spec = \<lparr>wk_kind = lf_kind fl, wk_provider = lf_provider fl, wk_template = lf_template fl,
           wk_reclaim = (if lf_reclaim_idle fl \<noteq> [] \<or> lf_reclaim_park fl \<noteq> [] \<or> lf_delete_after fl \<noteq> []
             then Some \<lparr>wl_idle_after = lf_reclaim_idle fl, wl_park = lf_reclaim_park fl, wl_delete_after = lf_delete_after fl\<rparr>
             else None),
           wk_scheduling = (if lf_queue_max_wait fl \<noteq> [] then Some (Some (lf_queue_max_wait fl)) else None)\<rparr>\<rparr>)"

definition class_create_cmd :: "'s connection \<Rightarrow> string \<Rightarrow> class_flags \<Rightarrow> ('s, string) cmd" where
  "class_create_cmd cx name fl =
     (case class_manifest name fl of
        Inl e \<Rightarrow> failC e
      | Inr m \<Rightarrow>
          bindC (fetch cx (q_create_class (cx_show_time cx) m) (decode_class (cx_parse_time cx))) (\<lambda>cls.
          retC (''class/'' @ wm_name (wy_metadata cls) @ '' created'')))"

definition class_delete_cmd :: "'s connection \<Rightarrow> string \<Rightarrow> ('s, string) cmd" where
  "class_delete_cmd cx name = bindC (call_api cx (q_delete_class name)) (\<lambda>_. retC (''class/'' @ name @ '' deleted''))"

section \<open>Pools and tokens (misc.go)\<close>

definition pool_apply_cmd :: "'s connection \<Rightarrow> json \<Rightarrow> ('s, string) cmd" where
  "pool_apply_cmd cx j =
     bindC (liftC (decode_pool_manifest (cx_parse_time cx) j)) (\<lambda>m.
     bindC (fetch cx (q_apply_pool (cx_show_time cx) m) (decode_pool (cx_parse_time cx))) (\<lambda>p.
     retC (wm_name (wp_metadata p) @ '' ('' @ wm_id (wp_metadata p) @ ''): applied'')))"

definition pool_verbs :: "(string \<times> string \<times> (string \<Rightarrow> outgoing)) list" where
  "pool_verbs =
     [(''reconcile'', ''reconciling'', q_reconcile_pool), (''pause'', ''paused'', q_pause_pool),
      (''resume'', ''running'', q_resume_pool), (''delete'', ''deleted'', q_delete_pool)]"

definition compact_json :: "json blob \<Rightarrow> string" where
  "compact_json raw =
     (let s = (case raw of BVal j \<Rightarrow> json_text j | _ \<Rightarrow> []) in
      if length s > 60 then take 57 s @ ''...'' else s)"

definition pool_columns :: "w_pool \<Rightarrow> string list" where
  "pool_columns p = [wm_id (wp_metadata p), wm_name (wp_metadata p),
     (if wp_paused p then ''paused'' else ''running''), compact_json (wp_spec p)]"

end
