(* ===== verification/API_Laws.thy ===== *)
theory API_Laws
  imports Handlers Runs
begin

text \<open>
  What the HTTP API does to the database: a read leaves it alone, every request is a run of the
  kernel's transactions, and a write needs the permission of its route.
\<close>

section \<open>Reads are pure\<close>

lemma snd_answer [simp]: "snd (answer sv c r s) = s"
  by (simp add: answer_def split: sum.splits)

fun reads :: "handler \<Rightarrow> bool" where
  "reads ListAcquisitions = True" | "reads GetAcquisition = True" | "reads ListResources = True"
| "reads GetResource = True" | "reads ListPools = True" | "reads GetPool = True"
| "reads ListClasses = True" | "reads GetClass = True" | "reads ListOperations = True"
| "reads GetOperation = True" | "reads ListEvents = True" | "reads ListProviders = True"
| "reads _ = False"

lemma read_rows: "list_all (\<lambda>rt. reads (rt_handler rt) \<longleftrightarrow> \<not> rt_mutating rt) routes"
  by code_simp

lemma reads_pure: "reads h \<Longrightarrow> snd (handle h sv c s) = s"
  by (cases h)
    (simp_all add: h_list_acquisitions_def h_get_acquisition_def h_list_resources_def h_get_resource_def
      h_list_pools_def h_get_pool_def h_list_classes_def h_get_class_def h_list_operations_def
      h_get_operation_def h_list_events_def h_list_providers_def Let_def split: sum.splits option.splits)

section \<open>Every request is a run\<close>

lemma steps_result: "(\<And>t. r = Inr t \<Longrightarrow> tx_step s t) \<Longrightarrow> tx_steps s (snd (accept_verb sv c r doc code s))"
  by (cases r) (auto simp: accept_verb_def intro: steps_one)

lemma steps_sync: "(\<And>t. r = Inr t \<Longrightarrow> tx_step s t) \<Longrightarrow> tx_steps s (snd (sync_verb sv c r st s))"
  by (cases r) (auto simp: sync_verb_def intro: steps_one split: err.splits)

lemma steps_park: "(\<And>t. r = Inr t \<Longrightarrow> tx_step s t) \<Longrightarrow> tx_steps s (snd (park_start sv c r st s))"
  by (cases r) (auto simp: park_start_def intro: steps_one split: err.splits)

lemma park_resource_step: "park_resource env rid actor oid s = Inr t \<Longrightarrow> tx_step s t"
  by (auto simp: park_resource_def result_simps intro: s_stop)

lemma start_resource_step: "start_resource env rid actor oid s = Inr t \<Longrightarrow> tx_step s t"
  by (auto simp: start_resource_def result_simps intro: s_start)

lemma create_resource_step: "create_resource env cmd rid oid build s = Inr (out, t) \<Longrightarrow> tx_step s t"
  by (erule create_resource_InrE) (rule s_create)

lemma delete_resource_steps: "delete_resource env cmd oid build s = Inr (out, t) \<Longrightarrow> tx_steps s t"
  by (auto simp: delete_resource_def bindE_Inr_iff intro: steps_one s_delete split: if_splits)

lemma app_release_steps: "app_release env aid s = Inr t \<Longrightarrow> tx_steps s t"
  by (auto simp: app_release_def result_simps intro: steps_one s_release_acq split: if_splits)

lemma steps_h_create: "tx_steps s (snd (h_create_resource sv c s))"
  by (auto simp: h_create_resource_def intro: steps_one create_resource_step split: option.splits sum.splits prod.splits)

lemma steps_h_delete: "tx_steps s (snd (h_delete_resource sv c s))"
  by (auto simp: h_delete_resource_def intro: delete_resource_steps split: sum.splits prod.splits)

lemma steps_create_acquisition: "tx_steps s (snd (h_create_acquisition sv c s))"
proof -
  have 1: "acquire env cmd aid build s = (x, t) \<Longrightarrow> tx_steps s t" for env cmd aid build x t
    using steps_acquire by (metis snd_conv)
  show ?thesis
    by (auto simp: h_create_acquisition_def intro: 1 split: option.splits sum.splits prod.splits)
qed

lemma steps_release_acquisition: "tx_steps s (snd (h_release_acquisition sv c s))"
  by (auto simp: h_release_acquisition_def accept_verb_def intro: app_release_steps split: sum.splits)

lemma steps_upsert_pool: "tx_steps s (snd (h_upsert_pool sv i c s))"
  by (auto simp: h_upsert_pool_def intro: steps_one s_upsert_pool split: option.splits sum.splits prod.splits)

lemma steps_upsert_class: "tx_steps s (snd (h_upsert_class sv url mc c s))"
  by (auto simp: h_upsert_class_def intro: steps_one s_upsert_class split: option.splits sum.splits prod.splits)

lemma steps_delete_class: "tx_steps s (snd (h_delete_class sv c s))"
  by (auto simp: h_delete_class_def intro: steps_one s_delete_class split: sum.splits err.splits)

lemma steps_resolve: "tx_steps s (snd (h_resolve_operation sv c s))"
  by (auto simp: h_resolve_operation_def intro!: steps_result intro: s_resolve split: sum.splits)

lemma steps_handle: "tx_steps s (snd (handle h sv c s))"
proof (cases "reads h")
  case True
  then show ?thesis by (simp add: reads_pure)
next
  case False
  then show ?thesis
    by (cases h)
      (auto simp: h_drain_resource_def h_park_resource_def h_start_resource_def h_undrain_resource_def
        h_protect_resource_def h_delete_pool_def h_pause_pool_def h_reconcile_pool_def accept_verb_def
        result_simps
        intro!: steps_sync steps_park steps_h_create steps_h_delete
          steps_create_acquisition steps_release_acquisition steps_upsert_pool steps_upsert_class
          steps_delete_class steps_resolve
        intro: steps_one s_drain s_undrain s_protect s_delete_pool s_pause_pool park_resource_step start_resource_step
        split: sum.splits)
qed

lemma with_middleware_cases:
  assumes "with_middleware sv perm h fr req vals s = (r, s')"
  obtains "s' = s"
  | c x where "h c s = (x, s')" "auth_enabled (sv_auth sv) \<longrightarrow>
      (\<exists>p. authenticate (sv_sha sv) (sv_auth sv) (hr_authorization req) = Inr p \<and> allows (pn_perms p) perm)"
proof (cases "auth_enabled (sv_auth sv)")
  case False
  then show ?thesis
    using assms that(2) by (force simp: with_middleware_def Let_def split: prod.splits)
next
  case True
  show ?thesis
  proof (cases "authenticate (sv_sha sv) (sv_auth sv) (hr_authorization req)")
    case (Inl e)
    then show ?thesis using assms True that(1) by (auto simp: with_middleware_def Let_def)
  next
    case (Inr p)
    then show ?thesis
      using assms True that by (cases "allows (pn_perms p) perm")
        (force simp: with_middleware_def Let_def split: prod.splits)+
  qed
qed

lemma serve_cases:
  assumes "serve sv fr req s = (r, s')"
  obtains "s' = s"
  | defs vals rt vals' c x where "mux (hr_method req) (hr_path req) = Found defs vals"
      "dispatch_row defs vals = Some (rt, vals')" "handle (rt_handler rt) sv c s = (x, s')"
      "auth_enabled (sv_auth sv) \<longrightarrow>
        (\<exists>p. authenticate (sv_sha sv) (sv_auth sv) (hr_authorization req) = Inr p \<and> allows (pn_perms p) (rt_perm rt))"
proof (cases "mux (hr_method req) (hr_path req)")
  case (Found defs vals)
  show ?thesis
  proof (cases "dispatch_row defs vals")
    case None
    with assms Found have "with_middleware sv PermResourceRead unknown_action fr req vals s = (r, s')"
      by (simp add: serve_def)
    then have "s' = s" by (rule with_middleware_cases) (simp_all add: unknown_action_def)
    then show ?thesis by (rule that(1))
  next
    case (Some rv)
    obtain rt vals' where rv: "rv = (rt, vals')" by (cases rv)
    with assms Found Some have "with_middleware sv (rt_perm rt) (handle (rt_handler rt) sv) fr req vals' s = (r, s')"
      by (simp add: serve_def)
    then show ?thesis
      by (rule with_middleware_cases) (use that Found Some rv in blast)+
  qed
qed (use assms that(1) in \<open>simp_all add: serve_def\<close>)

lemma steps_handled: "handle h sv c s = (x, s') \<Longrightarrow> tx_steps s s'"
  using steps_handle [of s h sv c] by simp

lemma steps_serve: "serve sv fr req s = (r, s') \<Longrightarrow> tx_steps s s'"
  by (erule serve_cases) (auto intro: steps_handled)

lemma gate_runs: "tx_steps s (snd (mutation_gate sv ready fr req s))"
  using steps_serve [of sv fr req s "fst (serve sv fr req s)"] by (simp add: mutation_gate_def)

text \<open>
  C7. Every request the gate lets through is a run of the kernel's transactions, whatever its method,
  path, body and caller, so a reachable state stays reachable and keeps the kernel invariant under
  any traffic.
\<close>

theorem api_requests_are_runs:
  "tx_steps s (snd (mutation_gate sv ready fr req s))
   \<and> (\<not> reachable s \<or> reachable (snd (mutation_gate sv ready fr req s)) \<and> kinv (snd (mutation_gate sv ready fr req s)))"
  using gate_runs reachable_steps reachable_kinv by blast

section \<open>A write needs its permission\<close>

definition read_permissions :: "permission list" where
  "read_permissions = [PermResourceRead, PermPoolRead, PermClassRead, PermProviderRead, PermOperationRead]"

lemma write_rows: "list_all (\<lambda>rt. rt_mutating rt \<longrightarrow> rt_perm rt \<notin> set read_permissions) routes"
  by code_simp

text \<open>
  C10. A request changes the database only when the control plane is ready, its route is one of the
  mutating rows of the table (never \<open>GET\<close> or \<open>HEAD\<close>, never under a read permission), and, with tokens
  configured, its bearer token authenticates and holds the permission of that row or \<open>admin\<close>.
\<close>

theorem api_write_needs_permission:
  assumes "mutation_gate sv ready fr req s = (r, s')" and "s' \<noteq> s"
  shows "ready \<and> hr_method req \<noteq> ''GET'' \<and> hr_method req \<noteq> ''HEAD''
    \<and> (\<exists>defs vals rt vals'. mux (hr_method req) (hr_path req) = Found defs vals
         \<and> dispatch_row defs vals = Some (rt, vals') \<and> rt_mutating rt \<and> rt_perm rt \<notin> set read_permissions
         \<and> (auth_enabled (sv_auth sv) \<longrightarrow>
              (\<exists>i secret rec. trim_space (drop 7 (hr_authorization req)) = ''flp_'' @ i @ ''.'' @ secret
                 \<and> map_of (au_by_id (sv_auth sv)) i = Some rec \<and> sv_sha sv secret = tk_sha rec
                 \<and> allows (tk_perms rec) (rt_perm rt))))"
proof -
  from assms have "serve sv fr req s = (r, s')" by (auto simp: mutation_gate_def split: if_splits)
  with assms(2) obtain defs vals rt vals' c x where
    m: "mux (hr_method req) (hr_path req) = Found defs vals" "dispatch_row defs vals = Some (rt, vals')"
    and s': "handle (rt_handler rt) sv c s = (x, s')"
    and a: "auth_enabled (sv_auth sv) \<longrightarrow>
        (\<exists>p. authenticate (sv_sha sv) (sv_auth sv) (hr_authorization req) = Inr p \<and> allows (pn_perms p) (rt_perm rt))"
    by (elim serve_cases) auto
  have rows: "rt \<in> set routes"
    using dispatch_row_mem [OF m(2)] mux_Found [OF m(1)] matching_rows by blast
  have mu: "rt_mutating rt"
    using reads_pure [of "rt_handler rt" sv c s] s' assms(2) read_rows rows by (auto simp: list_all_iff)
  have meth: "hr_method req \<notin> set read_methods" using dispatched_mutating [OF m mu] by simp
  then have "ready" using assms by (auto simp: mutation_gate_def read_methods_def split: if_splits)
  moreover have "rt_perm rt \<notin> set read_permissions" using write_rows rows mu by (auto simp: list_all_iff)
  moreover have "\<exists>i secret rec. trim_space (drop 7 (hr_authorization req)) = ''flp_'' @ i @ ''.'' @ secret
                 \<and> map_of (au_by_id (sv_auth sv)) i = Some rec \<and> sv_sha sv secret = tk_sha rec
                 \<and> allows (tk_perms rec) (rt_perm rt)" if on: "auth_enabled (sv_auth sv)"
  proof -
    from a on obtain p where p: "authenticate (sv_sha sv) (sv_auth sv) (hr_authorization req) = Inr p"
      and al: "allows (pn_perms p) (rt_perm rt)" by blast
    from p show ?thesis by (rule authenticate_sound) (use al in \<open>auto simp: principal_of_record_def\<close>)
  qed
  ultimately show ?thesis using m mu meth by (auto simp: read_methods_def)
qed

end
