(* ===== verification/Reply_Types.thy ===== *)
theory Reply_Types
  imports API_Laws Wire_Laws
begin

text \<open>
  A type system for the documents of the API: the struct types of pkg/apiclient as types of JSON
  values, a typing judgment, and type safety of the server: whatever a handler answers has the type
  that goes with its status and route.
\<close>

section \<open>Types of documents\<close>

text \<open>A struct type lists its fields in order: key, whether it is always there, type.\<close>

datatype ty = TStr | TBool | TInt | TAny | TMap ty | TArr ty | TObj "(string \<times> bool \<times> ty) list"

inductive has_type :: "json \<Rightarrow> ty \<Rightarrow> bool" and has_fields :: "(string \<times> json) list \<Rightarrow> (string \<times> bool \<times> ty) list \<Rightarrow> bool" where
  t_str [intro!]: "has_type (JStr s) TStr"
| t_bool [intro!]: "has_type (JBool b) TBool"
| t_int [intro!]: "has_type (JNum n) TInt"
| t_any [intro!]: "has_type j TAny"
| t_map: "(\<And>k v. (k, v) \<in> set fs \<Longrightarrow> has_type v t) \<Longrightarrow> has_type (JObj fs) (TMap t)"
| t_arr: "(\<And>x. x \<in> set xs \<Longrightarrow> has_type x t) \<Longrightarrow> has_type (JArr xs) (TArr t)"
| t_obj: "has_fields fs fts \<Longrightarrow> has_type (JObj fs) (TObj fts)"
| f_nil [intro!]: "has_fields [] []"
| f_here: "has_type v t \<Longrightarrow> has_fields fs fts \<Longrightarrow> has_fields ((k, v) # fs) ((k, req, t) # fts)"
| f_absent: "has_fields fs fts \<Longrightarrow> has_fields fs ((k, False, t) # fts)"

inductive_cases has_type_objE: "has_type (JObj fs) (TObj fts)"
inductive_cases has_type_strE: "has_type j TStr"
inductive_cases has_fields_NilE: "has_fields fs []"
inductive_cases has_fields_ConsE: "has_fields fs ((k, req, t) # fts)"

inductive_simps has_type_simps [simp]:
  "has_type (JStr s) t" "has_type (JBool b) t" "has_type (JNum n) t" "has_type JNull t"

definition labels_ty :: ty where "labels_ty = TMap TStr"

definition metadata_ty :: ty where
  "metadata_ty = TObj [(''id'', True, TStr), (''name'', False, TStr), (''labels'', False, labels_ty),
     (''ownership'', False, TStr), (''protected'', False, TBool), (''generation'', False, TInt),
     (''observedGeneration'', False, TInt), (''createdAt'', False, TStr), (''updatedAt'', False, TStr),
     (''deletedAt'', False, TStr)]"

definition resource_ty :: ty where
  "resource_ty = TObj [(''apiVersion'', True, TStr), (''kind'', True, TStr), (''metadata'', True, metadata_ty),
     (''spec'', True, TObj [(''kind'', True, TStr), (''provider'', True, TStr), (''class'', False, TStr),
        (''machine'', False, TAny)]),
     (''status'', False, TObj [(''phase'', True, TStr), (''externalId'', False, TStr), (''parkedAt'', False, TStr),
        (''externalRef'', False, TAny), (''capacity'', False, TAny), (''extensions'', False, TAny)])]"

definition acquisition_ty :: ty where
  "acquisition_ty = TObj [(''apiVersion'', True, TStr), (''kind'', True, TStr), (''id'', True, TStr),
     (''state'', True, TStr), (''class'', False, TStr), (''resourceKind'', False, TStr), (''resourceId'', False, TStr),
     (''leaseId'', False, TStr), (''actor'', False, TStr), (''maxWait'', False, TStr), (''queueDeadline'', False, TStr),
     (''createdAt'', False, TStr), (''updatedAt'', False, TStr)]"

definition pool_ty :: ty where
  "pool_ty = TObj [(''apiVersion'', True, TStr), (''kind'', True, TStr), (''metadata'', True, metadata_ty),
     (''spec'', True, TAny), (''paused'', False, TBool)]"

definition class_ty :: ty where
  "class_ty = TObj [(''apiVersion'', True, TStr), (''kind'', True, TStr), (''metadata'', True, metadata_ty),
     (''spec'', True, TObj [(''kind'', True, TStr), (''provider'', True, TStr), (''template'', True, TAny),
        (''reclaim'', False, TObj [(''idleAfter'', False, TStr), (''park'', False, TStr), (''deleteAfter'', False, TStr)]),
        (''scheduling'', False, TObj [(''queue'', False, TObj [(''maxWait'', False, TStr)])])]),
     (''source'', True, TStr)]"

definition operation_ty :: ty where
  "operation_ty = TObj [(''id'', True, TStr), (''kind'', True, TStr), (''state'', True, TStr),
     (''provider'', False, TStr), (''resourceId'', False, TStr), (''attempt'', False, TInt),
     (''errorClass'', False, TStr), (''createdAt'', False, TStr), (''updatedAt'', False, TStr)]"

definition event_ty :: ty where
  "event_ty = TObj [(''id'', True, TStr), (''ts'', True, TStr), (''type'', True, TStr), (''actor'', False, TStr),
     (''outcome'', False, TStr), (''provider'', False, TStr), (''resourceId'', False, TStr), (''operationId'', False, TStr)]"

definition health_ty :: ty where
  "health_ty = TObj [(''instance'', True, TStr), (''driver'', True, TStr), (''state'', True, TStr),
     (''since'', True, TStr), (''lastCheck'', False, TStr), (''lastError'', False, TStr),
     (''consecutiveFailures'', True, TInt)]"

definition error_ty :: ty where
  "error_ty = TObj [(''error'', True, TObj [(''code'', True, TStr), (''message'', True, TStr),
     (''requestId'', False, TStr), (''retryable'', True, TBool), (''retryAfterSeconds'', False, TInt),
     (''details'', False, TAny)])]"

definition list_ty :: "ty \<Rightarrow> ty" where
  "list_ty t = TObj [(''apiVersion'', True, TStr), (''kind'', True, TStr), (''items'', True, TArr t)]"

definition map_list_ty :: "ty \<Rightarrow> ty" where
  "map_list_ty t = TObj [(''apiVersion'', True, TStr), (''items'', True, TArr t), (''kind'', True, TStr)]"

definition delete_ty :: ty where
  "delete_ty = TObj [(''dryRun'', False, TBool), (''id'', True, TStr), (''status'', False, TStr), (''wouldDelete'', False, TBool)]"

fun ok_ty :: "handler \<Rightarrow> ty" where
  "ok_ty CreateAcquisition = acquisition_ty" | "ok_ty GetAcquisition = acquisition_ty"
| "ok_ty ListAcquisitions = list_ty acquisition_ty"
| "ok_ty CreateResource = resource_ty" | "ok_ty GetResource = resource_ty"
| "ok_ty ListResources = list_ty resource_ty" | "ok_ty DeleteResource = delete_ty"
| "ok_ty CreatePool = pool_ty" | "ok_ty UpdatePool = pool_ty" | "ok_ty GetPool = pool_ty"
| "ok_ty ListPools = list_ty pool_ty"
| "ok_ty CreateClass = class_ty" | "ok_ty UpdateClass = class_ty" | "ok_ty GetClass = class_ty"
| "ok_ty ListClasses = list_ty class_ty"
| "ok_ty GetOperation = operation_ty" | "ok_ty ListOperations = map_list_ty operation_ty"
| "ok_ty ListEvents = map_list_ty event_ty" | "ok_ty ListProviders = map_list_ty health_ty"
| "ok_ty _ = labels_ty"

section \<open>Encoded values are typed\<close>

lemma f_builders:
  assumes "has_fields (opened r) fts"
  shows "has_type j t \<Longrightarrow> has_fields (opened (fld k j @ r)) ((k, req, t) # fts)"
    "has_fields (opened (omit_str k s @ r)) ((k, False, TStr) # fts)"
    "has_fields (opened (omit_bool k b @ r)) ((k, False, TBool) # fts)"
    "has_fields (opened (omit_int k n @ r)) ((k, False, TInt) # fts)"
    "has_fields (opened (omit_labels k m @ r)) ((k, False, labels_ty) # fts)"
    "has_fields (opened (time_field show k t1 @ r)) ((k, False, TStr) # fts)"
    "has_fields (opened (opt_time show k t2 @ r)) ((k, False, TStr) # fts)"
    "has_fields (opened (omit_raw k raw @ r)) ((k, False, TAny) # fts)"
    "has_fields (opened (raw_field k raw @ r)) ((k, True, TAny) # fts)"
    "has_type (the x) t \<Longrightarrow> has_fields (opened ((k, x) # r)) ((k, req, t) # fts)"
    "has_type (the x) t \<Longrightarrow> has_fields (opened ([(k, x)] @ r)) ((k, req, t) # fts)"
proof -
  have lj: "has_type (labels_json m) labels_ty" for m
    unfolding labels_json_def labels_ty_def by (rule t_map) auto
  show "has_type j t \<Longrightarrow> has_fields (opened (fld k j @ r)) ((k, req, t) # fts)"
    "has_fields (opened (omit_str k s @ r)) ((k, False, TStr) # fts)"
    "has_fields (opened (omit_bool k b @ r)) ((k, False, TBool) # fts)"
    "has_fields (opened (omit_int k n @ r)) ((k, False, TInt) # fts)"
    "has_fields (opened (omit_labels k m @ r)) ((k, False, labels_ty) # fts)"
    "has_fields (opened (time_field show k t1 @ r)) ((k, False, TStr) # fts)"
    "has_fields (opened (opt_time show k t2 @ r)) ((k, False, TStr) # fts)"
    "has_fields (opened (omit_raw k raw @ r)) ((k, False, TAny) # fts)"
    "has_fields (opened (raw_field k raw @ r)) ((k, True, TAny) # fts)"
    "has_type (the x) t \<Longrightarrow> has_fields (opened ((k, x) # r)) ((k, req, t) # fts)"
    "has_type (the x) t \<Longrightarrow> has_fields (opened ([(k, x)] @ r)) ((k, req, t) # fts)"
    using assms lj
    by (auto simp: opened_def fld_def omit_str_def omit_bool_def omit_int_def omit_labels_def
        time_field_def opt_time_def omit_raw_def raw_field_def intro: f_here f_absent split: option.splits blob.splits)
qed

lemma f_end: "has_fields (opened []) []"
  by (simp add: wire_simps f_nil)

lemmas f_ends = f_builders [OF f_end, unfolded append_Nil2]

lemma f_skip: "has_fields (opened []) fts \<Longrightarrow> has_fields (opened []) ((k, False, t) # fts)"
  by (rule f_absent)

lemma sealed_typed: "has_fields (opened fs) fts \<Longrightarrow> seal fs = Some j \<Longrightarrow> has_type j (TObj fts)"
  by (simp add: seal_Some t_obj)

lemma the_sealed_typed: "has_fields (opened fs) fts \<Longrightarrow> seal fs \<noteq> None \<Longrightarrow> has_type (the (seal fs)) (TObj fts)"
  using sealed_typed by fastforce

text \<open>A nested struct of a sealed one is sealed.\<close>

lemma seal_inner: "seal (a @ (k, x) # b) = Some j \<Longrightarrow> x \<noteq> None"
  by (auto simp: seal_Some)

lemma metadata_typed: "seal (metadata_fields show m) \<noteq> None \<Longrightarrow> has_type (the (seal (metadata_fields show m))) metadata_ty"
  unfolding metadata_ty_def metadata_fields_def
  by (rule the_sealed_typed) (intro f_builders f_ends t_str)

lemma acquisition_typed: "acquisition_json show x = Some j \<Longrightarrow> has_type j acquisition_ty"
  unfolding acquisition_json_def acquisition_ty_def
  by (erule sealed_typed [rotated]) (intro f_builders f_ends t_str)

lemma operation_typed: "operation_json show x = Some j \<Longrightarrow> has_type j operation_ty"
  unfolding operation_json_def operation_ty_def
  by (erule sealed_typed [rotated]) (intro f_builders f_ends t_str)

lemma event_typed: "event_json show x = Some j \<Longrightarrow> has_type j event_ty"
  unfolding event_json_def event_ty_def
  by (erule sealed_typed [rotated]) (intro f_builders f_ends t_str)

lemma health_typed: "health_json sv t = Some j \<Longrightarrow> has_type j health_ty"
  unfolding health_json_def health_ty_def
  by (erule sealed_typed [rotated]) (intro f_builders f_ends t_str t_int)

lemma error_typed: "error_json x = Some j \<Longrightarrow> has_type j error_ty"
  unfolding error_json_def error_ty_def
  by (frule seal_inner [of "[]", simplified], erule sealed_typed [rotated])
    (intro f_ends the_sealed_typed f_builders t_str t_bool, simp)

lemma pool_typed: "pool_json show x = Some j \<Longrightarrow> has_type j pool_ty"
proof -
  assume j: "pool_json show x = Some j"
  then have m: "seal (metadata_fields show (wp_metadata x)) \<noteq> None"
    by (auto simp: pool_json_def seal_Some)
  from j show ?thesis
    unfolding pool_json_def pool_ty_def
    by (erule_tac sealed_typed [rotated]) (intro f_builders f_ends t_str metadata_typed m)
qed

lemma resource_typed: "resource_json show x = Some j \<Longrightarrow> has_type j resource_ty"
proof -
  assume j: "resource_json show x = Some j"
  then have m: "seal (metadata_fields show (wr_metadata x)) \<noteq> None" "seal (spec_fields (wr_spec x)) \<noteq> None"
    and st: "wr_status x \<noteq> zero_status \<Longrightarrow> seal (status_fields show (wr_status x)) \<noteq> None"
    by (auto simp: resource_json_def seal_Some)
  have sp: "has_fields (opened (spec_fields y)) [(''kind'', True, TStr), (''provider'', True, TStr), (''class'', False, TStr),
        (''machine'', False, TAny)]" for y
    unfolding spec_fields_def by (intro f_builders f_ends t_str)
  have stt: "has_fields (opened (status_fields show y)) [(''phase'', True, TStr), (''externalId'', False, TStr), (''parkedAt'', False, TStr),
        (''externalRef'', False, TAny), (''capacity'', False, TAny), (''extensions'', False, TAny)]" for y
    unfolding status_fields_def by (intro f_builders f_ends t_str)
  show ?thesis
  proof (cases "wr_status x = zero_status")
    case True
    with j show ?thesis
      unfolding resource_json_def resource_ty_def if_P [OF True] append_Nil2 append_Cons append_Nil
      by (elim sealed_typed [rotated])
        (intro f_builders f_absent f_end t_str metadata_typed the_sealed_typed sp m)
  next
    case False
    with j show ?thesis
      unfolding resource_json_def resource_ty_def if_not_P [OF False] append_Cons append_Nil
      by (elim sealed_typed [rotated])
        (intro f_builders f_ends t_str metadata_typed the_sealed_typed sp stt m st [OF False])
  qed
qed


lemma class_typed: "class_json show x = Some j \<Longrightarrow> has_type j class_ty"
proof -
  let ?sp = "[(''kind'', True, TStr), (''provider'', True, TStr), (''template'', True, TAny),
        (''reclaim'', False, TObj [(''idleAfter'', False, TStr), (''park'', False, TStr), (''deleteAfter'', False, TStr)]),
        (''scheduling'', False, TObj [(''queue'', False, TObj [(''maxWait'', False, TStr)])])]"
  assume j: "class_json show x = Some j"
  then have m: "seal (metadata_fields show (wy_metadata x)) \<noteq> None" "seal (class_spec_fields (wy_spec x)) \<noteq> None"
    by (auto simp: class_json_def seal_Some)
  have rc: "has_type (the (seal (reclaim_fields r))) (TObj [(''idleAfter'', False, TStr), (''park'', False, TStr), (''deleteAfter'', False, TStr)])" for r
    by (rule the_sealed_typed) (unfold reclaim_fields_def, intro f_builders f_ends, simp add: seal_fields)
  have w: "seal (omit_str ''maxWait'' w) \<noteq> None" for w by (simp add: seal_fields)
  have q: "has_type (the (seal [(''queue'', seal (omit_str ''maxWait'' w))])) (TObj [(''queue'', False, TObj [(''maxWait'', False, TStr)])])" for w
    by (rule the_sealed_typed, intro f_ends the_sealed_typed w) (simp add: seal_Some w)
  have e: "has_type (the (seal [])) (TObj [(''queue'', False, TObj [(''maxWait'', False, TStr)])])"
    by (rule the_sealed_typed, intro f_absent f_end) (simp add: seal_Some)
  have tail: "has_fields (opened (case wk_scheduling y of None \<Rightarrow> []
        | Some None \<Rightarrow> [(''scheduling'', seal [])]
        | Some (Some w) \<Rightarrow> [(''scheduling'', seal [(''queue'', seal (omit_str ''maxWait'' w))])]))
      [(''scheduling'', False, TObj [(''queue'', False, TObj [(''maxWait'', False, TStr)])])]" for y
    using q e by (auto split: option.splits intro: f_ends f_absent f_end simp del: has_type_simps)
  have "has_fields (opened (class_spec_fields y)) ?sp" for y
    unfolding class_spec_fields_def
    by (intro f_builders t_str, cases "wk_reclaim y")
      (simp_all add: f_absent tail f_builders(10) [OF tail rc])
  then show ?thesis
    using j unfolding class_json_def class_ty_def append_Cons append_Nil
    by (elim sealed_typed [rotated]) (intro f_builders f_ends t_str metadata_typed the_sealed_typed m)
qed

lemma array_typed:
  assumes "array xs = Some j" and t: "\<And>y. Some y \<in> set xs \<Longrightarrow> has_type y t"
  shows "has_type j (TArr t)"
proof -
  from assms(1) have j: "j = JArr (map the xs)" and n: "None \<notin> set xs"
    by (auto simp: array_def list_ex_iff split: if_splits)
  have "has_type y t" if y: "y \<in> set (map the xs)" for y
  proof -
    from y obtain x where "x \<in> set xs" "y = the x" by auto
    with n t show ?thesis by (cases x) auto
  qed
  then show ?thesis unfolding j by (rule t_arr)
qed

lemma array_Some: "None \<notin> set xs \<Longrightarrow> \<exists>j. array xs = Some j"
  by (auto simp: array_def list_ex_iff)

lemma list_typed:
  assumes "list_json k items = Some j" and "\<And>y. Some y \<in> set items \<Longrightarrow> has_type y t"
  shows "has_type j (list_ty t)"
proof -
  have a: "array items \<noteq> None" using assms(1) by (auto simp: list_json_def seal_Some)
  then have "has_type (the (array items)) (TArr t)" using array_typed [of items _ t] assms(2) by auto
  then show ?thesis
    using assms(1) unfolding list_json_def list_ty_def
    by (elim sealed_typed [rotated]) (intro f_builders f_ends t_str)
qed

lemma map_list_typed:
  assumes "map_list_json k items = Some j" and "\<And>y. Some y \<in> set items \<Longrightarrow> has_type y t"
  shows "has_type j (map_list_ty t)"
proof -
  have a: "array items \<noteq> None" using assms(1) by (auto simp: map_list_json_def seal_Some)
  then have "has_type (the (array items)) (TArr t)" using array_typed [of items _ t] assms(2) by auto
  then show ?thesis
    using assms(1) unfolding map_list_json_def map_list_ty_def append_Cons append_Nil
    by (elim sealed_typed [rotated]) (intro f_builders f_ends t_str)
qed

section \<open>Stored documents\<close>

text \<open>The raw documents of the tables are JSON; so every row has an envelope.\<close>

definition raw_ok :: "db \<Rightarrow> bool" where
  "raw_ok s \<longleftrightarrow>
     (\<forall>r \<in> set (resources s). r_spec r \<noteq> BBad \<and> r_extension r \<noteq> BBad \<and> r_external_ref r \<noteq> BBad \<and> r_capacity r \<noteq> BBad)
     \<and> (\<forall>p \<in> set (pools s). p_spec p \<noteq> BBad) \<and> (\<forall>c \<in> set (classes s). c_spec c \<noteq> BBad)"

lemma map_blob_BBad [simp]: "map_blob f b = BBad \<longleftrightarrow> b = BBad"
  by (cases b) simp_all

definition row_ok :: "resource \<Rightarrow> bool" where
  "row_ok r \<longleftrightarrow> r_spec r \<noteq> BBad \<and> r_extension r \<noteq> BBad \<and> r_external_ref r \<noteq> BBad \<and> r_capacity r \<noteq> BBad"

lemma resource_json_some: "row_ok r \<Longrightarrow> \<exists>j. resource_json show (to_envelope r) = Some j \<and> has_type j resource_ty"
proof -
  assume "row_ok r"
  then have "\<exists>j. resource_json show (to_envelope r) = Some j"
    by (simp add: resource_json_def to_envelope_def row_ok_def seal_Some metadata_fields_def spec_fields_def status_fields_def)
  then show ?thesis using resource_typed by blast
qed

lemma acquisition_json_some: "\<exists>j. acquisition_json show x = Some j \<and> has_type j acquisition_ty"
proof -
  have "\<exists>j. acquisition_json show x = Some j" by (simp add: acquisition_json_def seal_Some)
  then show ?thesis using acquisition_typed by blast
qed

lemma operation_json_some: "\<exists>j. operation_json show x = Some j \<and> has_type j operation_ty"
proof -
  have "\<exists>j. operation_json show x = Some j" by (simp add: operation_json_def seal_Some)
  then show ?thesis using operation_typed by blast
qed

lemma event_json_some: "\<exists>j. event_json show x = Some j \<and> has_type j event_ty"
proof -
  have "\<exists>j. event_json show x = Some j" by (simp add: event_json_def seal_Some)
  then show ?thesis using event_typed by blast
qed

lemma health_json_some: "\<exists>j. health_json sv x = Some j \<and> has_type j health_ty"
proof -
  have "\<exists>j. health_json sv x = Some j" by (simp add: health_json_def seal_Some)
  then show ?thesis using health_typed by blast
qed

lemma pool_json_some: "p_spec p \<noteq> BBad \<Longrightarrow> \<exists>j. pool_json show (to_pool_envelope sv p) = Some j \<and> has_type j pool_ty"
proof -
  assume "p_spec p \<noteq> BBad"
  then have "\<exists>j. pool_json show (to_pool_envelope sv p) = Some j"
    by (simp add: pool_json_def to_pool_envelope_def seal_Some metadata_fields_def)
  then show ?thesis using pool_typed by blast
qed

lemma class_json_some: "c_spec c \<noteq> BBad \<Longrightarrow> \<exists>j. class_json show (to_class_envelope sv c) = Some j \<and> has_type j class_ty"
proof -
  assume "c_spec c \<noteq> BBad"
  then have "\<exists>j. class_json show (to_class_envelope sv c) = Some j"
    by (auto simp: class_json_def to_class_envelope_def seal_Some metadata_fields_def class_spec_fields_def
        reclaim_fields_def split: option.splits)
  then show ?thesis using class_typed by blast
qed

lemma list_json_some:
  "(\<And>x. x \<in> set items \<Longrightarrow> \<exists>j. x = Some j \<and> has_type j t) \<Longrightarrow> \<exists>j. list_json k items = Some j \<and> has_type j (list_ty t)"
proof -
  assume a: "\<And>x. x \<in> set items \<Longrightarrow> \<exists>j. x = Some j \<and> has_type j t"
  then have "None \<notin> set items" by blast
  then obtain arr where "array items = Some arr" using array_Some by blast
  then have "\<exists>j. list_json k items = Some j" by (simp add: list_json_def seal_fields)
  then show ?thesis using list_typed a by (metis option.inject)
qed

lemma map_list_json_some:
  "(\<And>x. x \<in> set items \<Longrightarrow> \<exists>j. x = Some j \<and> has_type j t) \<Longrightarrow> \<exists>j. map_list_json k items = Some j \<and> has_type j (map_list_ty t)"
proof -
  assume a: "\<And>x. x \<in> set items \<Longrightarrow> \<exists>j. x = Some j \<and> has_type j t"
  then have "None \<notin> set items" by blast
  then obtain arr where "array items = Some arr" using array_Some by blast
  then have "\<exists>j. map_list_json k items = Some j" by (simp add: map_list_json_def seal_fields)
  then show ?thesis using map_list_typed a by (metis option.inject)
qed


section \<open>Type safety of the server\<close>

text \<open>
  A reply fits a route of type \<open>t\<close>: a document of that type under a success status, an error
  document otherwise; a stored outcome is verbatim a replay or the text of such a document.
\<close>

definition well_typed :: "ty \<Rightarrow> response \<Rightarrow> bool" where
  "well_typed t r = (case rs_body r of
     Doc j \<Rightarrow> has_type j (if rs_status r \<ge> 300 then error_ty else t)
   | Stored b \<Rightarrow> (''Idempotency-Replayed'', ''true'') \<in> set (rs_headers r)
       \<or> rs_status r < 300 \<and> (\<exists>j. b = json_text j \<and> has_type j t)
   | Text _ \<Rightarrow> rs_status r = 404 \<or> rs_status r = 405
   | NoBody \<Rightarrow> False)"

lemma wt_header: "well_typed t r \<Longrightarrow> well_typed t (add_header h r)"
  by (auto simp: well_typed_def add_header_def split: reply_body.splits)

lemma wt_doc: "has_type j t \<Longrightarrow> code < 300 \<Longrightarrow> well_typed t (write_json code (Some j))"
  by (simp add: well_typed_def write_json_def)

lemma wt_some: "\<exists>j. x = Some j \<and> has_type j t \<Longrightarrow> code < 300 \<Longrightarrow> well_typed t (write_json code x)"
  using wt_doc by blast

lemma wt_details:
  assumes "d \<noteq> BBad" and "code \<ge> 300"
  shows "well_typed t (write_error_details rid code ec msg rt d)"
proof -
  have "error_json \<lparr>we_code = ec, we_message = msg, we_request_id = rid, we_retryable = rt, we_retry_after = 0,
      we_details = d\<rparr> \<noteq> None"
    using assms(1) by (simp add: error_json_def seal_fields)
  then show ?thesis using error_typed assms(2) by (auto simp: write_error_details_def write_json_def well_typed_def)
qed

lemma wt_error: "code \<ge> 300 \<Longrightarrow> well_typed t (write_error rid code ec msg rt)"
  unfolding write_error_def by (rule wt_details) simp_all

lemma wt_app_error: "well_typed t (write_app_error sv rid e)"
  by (auto simp: write_app_error_def intro: wt_error wt_details split: err.splits)

lemma wt_bad_request: "well_typed t (bad_request c m)"
  by (simp add: bad_request_def wt_error)

lemma wt_status: "code < 300 \<Longrightarrow> well_typed labels_ty (write_json code (str_map m))"
  unfolding str_map_def
  by (rule wt_doc) (auto simp: labels_json_def labels_ty_def intro!: t_map)

lemma wt_fresh_outcome:
  "st < 300 \<Longrightarrow> has_type j t \<Longrightarrow> well_typed t (write_outcome \<lparr>oc_status = st, oc_body = json_text j, oc_replayed = rp\<rparr>)"
  by (auto simp: well_typed_def write_outcome_def)

lemma wt_replay: "oc_replayed out \<Longrightarrow> well_typed t (write_outcome out)"
  by (simp add: well_typed_def write_outcome_def)

named_theorems wt_intros \<open>replies that are well typed\<close>

lemmas [wt_intros] = wt_error wt_app_error wt_bad_request wt_status

lemma wt_answer: "(\<And>x. r = Inr x \<Longrightarrow> \<exists>j. x = Some j \<and> has_type j t) \<Longrightarrow> well_typed t (fst (answer sv c r s))"
  by (cases r) (auto simp: answer_def wt_doc intro: wt_intros)

lemma wt_accept: "code < 300 \<Longrightarrow> well_typed labels_ty (fst (accept_verb sv c r (str_map m) code s))"
  by (cases r) (auto simp: accept_verb_def intro: wt_intros)

lemma wt_sync: "well_typed labels_ty (fst (sync_verb sv c r st s))"
  by (cases r) (auto simp: sync_verb_def status_json_def intro: wt_intros split: err.splits)

lemma wt_park: "well_typed labels_ty (fst (park_start sv c r st s))"
  by (cases r) (auto simp: park_start_def status_json_def intro: wt_intros split: err.splits)

text \<open>The outcome of a keyed command is a replay or what its body built.\<close>

lemma keyed_outcome:
  assumes "keyed_tx ia oid rep now wall body s = Inr (out, s')"
  obtains "oc_replayed out" | t st b t' where "body t = Inr ((st, b), t')"
    "out = \<lparr>oc_status = st, oc_body = b, oc_replayed = False\<rparr>"
  using assms
  by (cases rule: keyed_tx_cases) auto

lemma kinds_validate_raw: "kinds_validate pd k spec = Inr u \<Longrightarrow> spec \<noteq> BBad"
  by (auto simp: kinds_validate_def parse_spec_def volume_parse_spec_def split: if_splits)

lemma create_outcome:
  assumes "create_resource env cmd rid oid build s = Inr (out, s')"
  obtains "oc_replayed out" | r where "row_ok r"
    "out = \<lparr>oc_status = fst (build r), oc_body = snd (build r), oc_replayed = False\<rparr>"
proof -
  from assms obtain c where c: "resolve_create cmd s = Inr c"
    by (auto simp: create_resource_def bindE_Inr_iff)
  then obtain u where u: "kinds_validate (ap_parse_duration env) (cc_kind c) (cc_spec c) = Inr u"
    using assms by (cases "kinds_validate (ap_parse_duration env) (cc_kind c) (cc_spec c)")
      (auto simp: create_resource_def)
  with assms c obtain inst where i: "pv_instance (ap_providers env) (cc_provider c) = Some inst"
    by (cases "pv_instance (ap_providers env) (cc_provider c)") (auto simp: create_resource_def)
  from assms c u i obtain p0 where p0: "prepare (ap_providers env) (se_owner (ap_sched env))
        \<lparr>cs_kind = cc_kind c, cs_provider = cc_provider c, cs_name = cc_name c,
         cs_spec = cc_spec c, cs_labels = cc_labels c, cs_class = cc_class c,
         cs_pool = None\<rparr> (ap_now env) rid oid = Inr p0"
    and k: "keyed_tx (cc_idem c) oid report_op (ap_now env) (ap_wall env)
       (create_body (p0\<lparr>pr_op := with_idem (cc_idem c) (pr_op p0)\<rparr>) (cc_actor c) (ia_key (cc_idem c)) build) s
       = Inr (out, s')"
    by (auto simp: create_resource_def bindE_Inr_iff Let_def create_body_def [abs_def] split: if_splits)
  have ok: "row_ok (pr_resource p0)"
    using p0 kinds_validate_raw [OF u] by (elim prepare_Inr) (simp add: row_ok_def new_resource_def)
  from k show ?thesis
    by (rule keyed_outcome) (use that ok in \<open>auto simp: create_body_def bindE_Inr_iff prod_eq_iff\<close>)
qed

lemma delete_outcome:
  assumes "delete_resource env cmd oid build s = Inr (out, s')"
  obtains "oc_replayed out" | r where
    "out = \<lparr>oc_status = fst (build r), oc_body = snd (build r), oc_replayed = False\<rparr>"
proof (cases "dm_dry_run cmd")
  case True
  with assms show ?thesis using that by (auto simp: delete_resource_def bindE_Inr_iff)
next
  case False
  with assms have k: "keyed_tx (dm_idem cmd) oid report_op (ap_now env) (ap_wall env)
             (delete_body env cmd oid build) s = Inr (out, s')" by (simp add: delete_resource_def)
  have b: "\<exists>r. build r = x" if "delete_body env cmd oid build t = Inr (x, t')" for x t t'
    using that by (auto simp: delete_body_def bindE_Inr_iff split: option.splits if_splits)
  from k show ?thesis
    by (rule keyed_outcome) (use that b in \<open>force simp: prod_eq_iff\<close>)+
qed

lemma acquire_outcome:
  assumes "acquire env cmd aid build s = (Inr out, s')"
  obtains "oc_replayed out" | a where
    "out = \<lparr>oc_status = fst (build a), oc_body = snd (build a), oc_replayed = False\<rparr>"
proof -
  from assms obtain t where t: "acquire_tx env cmd aid build s = Inr (out, t)"
    by (auto simp: acquire_def split: if_splits sum.splits prod.splits err.splits)
  then have "keyed_tx (aq_idem cmd) [] (\<lambda>_. []) (ap_now env) (ap_wall env)
      (acquire_body (new_acquisition env cmd aid) \<lparr>ev_ts = ap_now env, ev_actor = aq_actor cmd,
                ev_idem_key = ia_key (aq_idem cmd), ev_type = ''acquisition.requested'',
                ev_resource = None, ev_pool = None, ev_operation = None, ev_provider = [],
                ev_outcome = ''pending''\<rparr> build) s = Inr (out, t)"
    by (simp add: acquire_tx_def acquire_body_def [abs_def] Let_def)
  then show ?thesis
    by (rule keyed_outcome) (use that in \<open>auto simp: acquire_body_def bindE_Inr_iff prod_eq_iff\<close>)
qed


lemma wt_outcome_reply:
  "oc_replayed out \<or> oc_status out < 300 \<and> (\<exists>j. oc_body out = json_text j \<and> has_type j t) \<Longrightarrow>
    well_typed t (write_outcome out)"
  by (auto simp: well_typed_def write_outcome_def)

lemma wt_create_resource: "well_typed resource_ty (fst (h_create_resource sv c s))"
proof -
  have "well_typed resource_ty (write_outcome out)"
    if "create_resource env cmd rid oid (created_reply sv) s = Inr (out, s')" for env cmd rid oid out s'
    using that
  proof (rule create_outcome)
    fix r assume "row_ok r" and o: "out = \<lparr>oc_status = fst (created_reply sv r), oc_body = snd (created_reply sv r), oc_replayed = False\<rparr>"
    then obtain j where "resource_json (sv_show_time sv) (to_envelope r) = Some j" "has_type j resource_ty"
      using resource_json_some by blast
    then show ?thesis by (auto simp: o created_reply_def marshal_def intro!: wt_outcome_reply)
  qed (simp add: wt_replay)
  then show ?thesis
    by (auto simp: h_create_resource_def intro: wt_intros split: option.splits sum.splits prod.splits)
qed

lemma wt_delete_resource: "well_typed delete_ty (fst (h_delete_resource sv c s))"
proof -
  have ty: "has_type (JObj [(''dryRun'', JBool True), (''id'', JStr i), (''wouldDelete'', JBool True)]) delete_ty"
    "has_type (JObj [(''id'', JStr i), (''status'', JStr ''deleting'')]) delete_ty" for i
    unfolding delete_ty_def by (auto intro!: t_obj f_here f_nil intro: f_absent)
  have "well_typed delete_ty (write_outcome out)"
    if "delete_resource env cmd oid (deleted_reply dry) s = Inr (out, s')" for env cmd oid dry out s'
    using that
    by (rule delete_outcome)
      (use ty in \<open>auto simp: deleted_reply_def wt_replay simp del: json_text.simps intro!: wt_outcome_reply\<close>)
  then show ?thesis
    by (auto simp: h_delete_resource_def intro: wt_intros split: sum.splits prod.splits)
qed

lemma wt_create_acquisition: "well_typed acquisition_ty (fst (h_create_acquisition sv c s))"
proof -
  have "well_typed acquisition_ty (write_outcome out)"
    if "acquire env cmd aid (acq_reply sv) s = (Inr out, s')" for env cmd aid out s'
    using that
  proof (rule acquire_outcome)
    fix a assume o: "out = \<lparr>oc_status = fst (acq_reply sv a), oc_body = snd (acq_reply sv a), oc_replayed = False\<rparr>"
    obtain j where "acquisition_json (sv_show_time sv) (to_acq_envelope sv a) = Some j" "has_type j acquisition_ty"
      using acquisition_json_some by blast
    then show ?thesis by (auto simp: o acq_reply_def marshal_def intro!: wt_outcome_reply)
  qed (simp add: wt_replay)
  then show ?thesis
    by (auto simp: h_create_acquisition_def intro: wt_intros split: option.splits sum.splits prod.splits)
qed

lemma wt_upsert_pool: "well_typed pool_ty (fst (h_upsert_pool sv i c s))"
proof -
  have "p_spec p \<noteq> BBad" if "upsert_pool env cmd pid s = Inr (p, s')" for env cmd pid p s'
    using that by (auto simp: upsert_pool_def bindE_Inr_iff Let_def split: if_splits blob.splits)
  then have "upsert_pool env cmd pid s = Inr (p, s') \<Longrightarrow>
      well_typed pool_ty (write_json 200 (pool_json (sv_show_time sv) (to_pool_envelope sv p)))" for env cmd pid p s'
    using pool_json_some by (intro wt_some) auto
  then show ?thesis
    by (auto simp: h_upsert_pool_def intro: wt_intros split: option.splits sum.splits prod.splits)
qed

lemma wt_class_error: "well_typed t (class_error sv c e)"
  by (auto simp: class_error_def intro: wt_intros split: err.splits)

lemma wt_upsert_class: "well_typed class_ty (fst (h_upsert_class sv url mc c s))"
proof -
  have "c_spec rec \<noteq> BBad" if "upsert_class env cmd s = Inr (rec, s')" for env cmd rec s'
  proof -
    note u = that
    from u have "is_ok (kinds_validate (ap_parse_duration env) (uc_kind cmd) (uc_template cmd))"
      by (auto simp: upsert_class_def validate_class_def Let_def bindE_Inr_iff split: if_splits)
    then have "uc_template cmd \<noteq> BBad" using kinds_validate_raw by (auto simp: is_ok_iff)
    moreover obtain name where "(case class_get name s of
         Inr cur \<Rightarrow>
           (if c_source cur = ''config'' then Inl EClassConfigOwned
            else if uc_must_create cmd then Inl EClassExists
            else Inr (api_record cmd name (ap_now env)\<lparr>c_created_at := c_created_at cur\<rparr>))
       | Inl e \<Rightarrow> (if e \<noteq> ENotFound then Inl e else Inr (api_record cmd name (ap_now env)))) = Inr rec"
      using u unfolding upsert_class_def Let_def bindE_Inr_iff Inr_inject prod.inject by blast
    then have "c_spec rec = uc_template cmd"
      by (cases "class_get name s") (auto simp: api_record_def split: if_splits)
    ultimately show ?thesis by simp
  qed
  then have "upsert_class env cmd s = Inr (rec, s') \<Longrightarrow> code < 300 \<Longrightarrow>
      well_typed class_ty (write_json code (class_json (sv_show_time sv) (to_class_envelope sv rec)))"
    for env cmd rec s' code
    using class_json_some by (intro wt_some) auto
  then show ?thesis
    by (auto simp: h_upsert_class_def intro: wt_intros wt_class_error split: option.splits sum.splits prod.splits)
qed

text \<open>Rows found in the tables of a state whose raw documents are JSON.\<close>

lemma raw_rows:
  assumes "raw_ok s"
  shows "resource_get i s = Inr r \<Longrightarrow> row_ok r" "r \<in> set (resource_list f s) \<Longrightarrow> row_ok r"
    "get_pool i s = Inr p \<Longrightarrow> p_spec p \<noteq> BBad" "p \<in> set (pool_list s) \<Longrightarrow> p_spec p \<noteq> BBad"
    "class_get n s = Inr c \<Longrightarrow> c_spec c \<noteq> BBad" "c \<in> set (class_list s) \<Longrightarrow> c_spec c \<noteq> BBad"
proof -
  have r: "row_ok r" if "r \<in> set (resources s)" for r using assms that by (auto simp: raw_ok_def row_ok_def)
  have p: "p_spec p \<noteq> BBad" if "p \<in> set (pools s)" for p using assms that by (simp add: raw_ok_def)
  have c: "c_spec c \<noteq> BBad" if "c \<in> set (classes s)" for c using assms that by (simp add: raw_ok_def)
  show "resource_get i s = Inr r \<Longrightarrow> row_ok r" using r by (auto simp: resource_get_Inr dest: tget_SomeD)
  show "r \<in> set (resource_list f s) \<Longrightarrow> row_ok r" using r by (auto simp: resource_list_def)
  show "get_pool i s = Inr p \<Longrightarrow> p_spec p \<noteq> BBad"
    using p by (auto simp: get_pool_def pool_get_def pool_get_by_name_def find_Some_iff
        dest!: tget_SomeD split: sum.splits option.splits)
  show "p \<in> set (pool_list s) \<Longrightarrow> p_spec p \<noteq> BBad" using p by (simp add: pool_list_def)
  show "class_get n s = Inr c \<Longrightarrow> c_spec c \<noteq> BBad"
    using c by (auto simp: class_get_def dest!: tget_SomeD split: option.splits)
  show "c \<in> set (class_list s) \<Longrightarrow> c_spec c \<noteq> BBad" using c by (simp add: class_list_def)
qed

lemma wt_handle:
  assumes "raw_ok s"
  shows "well_typed (ok_ty h) (fst (handle h sv c s))"
proof -
  note rows = raw_rows [OF assms]
  have one: "resource_get i s = Inr r \<Longrightarrow> \<exists>j. resource_json sh (to_envelope r) = Some j \<and> has_type j resource_ty"
    "get_pool i s = Inr p \<Longrightarrow> \<exists>j. pool_json sh (to_pool_envelope sv p) = Some j \<and> has_type j pool_ty"
    "p \<in> set (pool_list s) \<Longrightarrow> \<exists>j. pool_json sh (to_pool_envelope sv p) = Some j \<and> has_type j pool_ty"
    "class_get n s = Inr cl \<Longrightarrow> \<exists>j. class_json sh (to_class_envelope sv cl) = Some j \<and> has_type j class_ty"
    "cl \<in> set (class_list s) \<Longrightarrow> \<exists>j. class_json sh (to_class_envelope sv cl) = Some j \<and> has_type j class_ty"
    for i r p n cl sh
    using rows resource_json_some pool_json_some class_json_some by metis+
  show ?thesis
  proof (cases h)
    case DeleteClass
    then show ?thesis by (auto simp: h_delete_class_def intro: wt_intros split: sum.splits err.splits)
  next
    case ResolveOperation
    then show ?thesis by (auto simp: h_resolve_operation_def intro: wt_intros wt_accept split: sum.splits)
  next
    case ListResources
    then show ?thesis
      by (auto simp: h_list_resources_def intro: wt_intros split: sum.splits
          intro!: wt_some list_json_some resource_json_some rows(2))
  next
    case ListAcquisitions
    then show ?thesis
      by (auto simp: h_list_acquisitions_def intro: wt_intros split: sum.splits
          intro!: wt_some list_json_some acquisition_json_some)
  next
    case ListEvents
    then show ?thesis
      by (auto simp: h_list_events_def Let_def intro: wt_intros split: option.splits
          intro!: wt_some map_list_json_some event_json_some)
  qed (auto simp: h_get_resource_def h_get_acquisition_def h_get_pool_def h_get_class_def h_get_operation_def
      h_list_pools_def h_list_classes_def h_list_operations_def h_list_providers_def h_drain_resource_def
      h_park_resource_def h_start_resource_def h_undrain_resource_def h_protect_resource_def h_delete_pool_def
      h_pause_pool_def h_reconcile_pool_def h_release_acquisition_def status_json_def bindE_Inr_iff
      intro!: wt_create_resource wt_delete_resource wt_create_acquisition wt_upsert_pool wt_upsert_class
        wt_answer wt_accept wt_sync wt_park wt_some list_json_some map_list_json_some
        acquisition_json_some operation_json_some health_json_some
      intro: one split: option.splits)
qed


lemma wt_middleware:
  assumes "\<And>c. well_typed t (fst (h c s))"
  shows "well_typed t (fst (with_middleware sv perm h fr req vals s))"
proof -
  have h: "well_typed t r" if "h c s = (r, s')" for c r s'
    using assms [of c] that by simp
  show ?thesis
    by (auto simp: with_middleware_def Let_def intro!: wt_header wt_error split: prod.splits sum.splits dest: h)
qed

text \<open>The type a successful reply to a request has.\<close>

definition request_ty :: "http_request \<Rightarrow> ty" where
  "request_ty req = (case mux (hr_method req) (hr_path req) of
     Found defs vals \<Rightarrow> (case dispatch_row defs vals of Some (rt, _) \<Rightarrow> ok_ty (rt_handler rt) | None \<Rightarrow> error_ty)
   | _ \<Rightarrow> error_ty)"


end
