(* ===== verification/API_Guarantees.thy ===== *)
theory API_Guarantees
  imports Reply_Types Guarantees
begin

text \<open>
  What a client may rely on, and what it may not: retried creates over HTTP, the routes that ignore
  idempotency keys, requests with unusable constraints, the zero queue budget, and the generation in
  the reply to a pool update.
\<close>

section \<open>Retried creates\<close>

lemma create_body_frame: "create_body p actor key build s = Inr (r, t) \<Longrightarrow> idem t = idem s"
  by (auto simp: create_body_def journal_def bindE_Inr_iff resource_create_def idem_frames split: if_splits
      dest!: idem_frames(3,4))

lemma resolve_create_keeps:
  "resolve_create cmd s = Inr c \<Longrightarrow> cc_idem c = cc_idem cmd \<and> cc_actor c = cc_actor cmd"
  by (auto simp: resolve_create_def split: if_splits sum.splits)

text \<open>A create is refused before its transaction, or it is one keyed transaction.\<close>

lemma create_resource_cases:
  obtains e where "create_resource env cmd rid oid build s = Inl e"
  | p where "create_resource env cmd rid oid build s =
      keyed_tx (cc_idem cmd) oid report_op (ap_now env) (ap_wall env)
        (create_body p (cc_actor cmd) (ia_key (cc_idem cmd)) build) s"
proof (cases "create_resource env cmd rid oid build s")
  case (Inl e)
  then show ?thesis by (rule that(1))
next
  case (Inr x)
  then obtain c where c: "resolve_create cmd s = Inr c" by (auto simp: create_resource_def bindE_Inr_iff)
  with Inr obtain u where u: "kinds_validate (ap_parse_duration env) (cc_kind c) (cc_spec c) = Inr u"
    by (cases "kinds_validate (ap_parse_duration env) (cc_kind c) (cc_spec c)") (auto simp: create_resource_def)
  with Inr c obtain inst where "pv_instance (ap_providers env) (cc_provider c) = Some inst"
    by (cases "pv_instance (ap_providers env) (cc_provider c)") (auto simp: create_resource_def)
  note i = this
  note c1 = resolve_create_keeps [OF c]
  from Inr c u i obtain p0 where p0: "keyed_tx (cc_idem c) oid report_op (ap_now env) (ap_wall env)
        (create_body (p0\<lparr>pr_op := with_idem (cc_idem c) (pr_op p0)\<rparr>) (cc_actor c) (ia_key (cc_idem c)) build) s
      = Inr x"
    by (auto simp: create_resource_def bindE_Inr_iff Let_def create_body_def [abs_def] split: if_splits)
  then show ?thesis using that(2) c1 Inr by metis
qed

lemma app_error_status: "rs_status (write_app_error sv rid e) \<ge> 400"
  by (simp add: write_app_error_def write_error_def write_error_details_def write_json_def split: err.splits)

lemma app_error_not_created [simp]:
  "rs_status (write_app_error sv rid e) \<noteq> 201" "\<not> rs_status (write_app_error sv rid e) < 300"
  using app_error_status [of sv rid e] by simp_all

lemma add_header_simps [simp]:
  "rs_status (add_header h r) = rs_status r" "rs_body (add_header h r) = rs_body r"
  "rs_headers (add_header h r) = h # rs_headers r"
  by (simp_all add: add_header_def)

lemma error_status [simp]: "rs_status (write_error rid code ec m b) = code"
  "rs_status (bad_request c m) = 400"
  by (simp_all add: write_error_def write_error_details_def write_json_def bad_request_def)

text \<open>The caller a request runs as, when it may use a permission.\<close>

definition caller_of :: "server \<Rightarrow> permission \<Rightarrow> http_request \<Rightarrow> string option" where
  "caller_of sv perm req =
     (if \<not> auth_enabled (sv_auth sv) then Some ''-''
      else (case authenticate (sv_sha sv) (sv_auth sv) (hr_authorization req) of
        Inl _ \<Rightarrow> None
      | Inr p \<Rightarrow> (if allows (pn_perms p) perm then Some (pn_name p) else None)))"

definition call_of :: "fresh \<Rightarrow> http_request \<Rightarrow> (string \<times> string) list \<Rightarrow> string \<Rightarrow> call" where
  "call_of fr req vals actor =
     \<lparr>cl_req = req, cl_actor = actor, cl_vals = vals, cl_fresh = fr,
      cl_id = (if hr_request_id req = [] then ''req_'' @ fr_request fr else hr_request_id req)\<rparr>"

lemma with_middleware_alt:
  "with_middleware sv perm h fr req vals s =
     (case caller_of sv perm req of
        Some actor \<Rightarrow> (let (r, s') = h (call_of fr req vals actor) s
            in (add_header (''X-Request-Id'', cl_id (call_of fr req vals actor)) r, s'))
      | None \<Rightarrow> (fst (with_middleware sv perm h fr req vals s), s))
   \<and> (caller_of sv perm req = None \<longrightarrow> rs_status (fst (with_middleware sv perm h fr req vals s)) \<ge> 400)"
  by (auto simp: with_middleware_def caller_of_def call_of_def Let_def split: sum.splits prod.splits)

lemma mux_create: "mux ''POST'' [''v1'', ''resources''] =
    Found [route_row ''POST'' p_res [] PermResourceCreate True CreateResource] []"
  by code_simp

lemma serve_create:
  assumes "hr_method req = ''POST''" and "hr_path req = [''v1'', ''resources'']"
  shows "serve sv fr req s = with_middleware sv PermResourceCreate (h_create_resource sv) fr req [] s"
  by (simp add: serve_def assms mux_create dispatch_row_def route_row_def)

lemma retried_create:
  assumes "hr_method req = ''POST''" and "hr_path req = [''v1'', ''resources'']" and "hr_idem_key req \<noteq> []"
    and "serve sv fr req s = (r1, s1)" and "rs_status r1 < 300"
    and "caller_of sv PermResourceCreate req = Some actor"
    and "tget idem_key (''POST /v1/resources|'' @ actor, hr_idem_key req) (idem u)
       = tget idem_key (''POST /v1/resources|'' @ actor, hr_idem_key req) (idem s1)"
    and "serve (sv\<lparr>sv_app := env'\<rparr>) fr' req u = (r2, u')"
  shows "u' = u \<and> (rs_status r2 \<ge> 400
    \<or> rs_status r2 = rs_status r1 \<and> rs_body r2 = rs_body r1 \<and> (''Idempotency-Replayed'', ''true'') \<in> set (rs_headers r2))"
proof -
  let ?c = "call_of fr req [] actor" and ?c' = "call_of fr' req [] actor" and ?sv' = "sv\<lparr>sv_app := env'\<rparr>"
  have callers: "caller_of ?sv' PermResourceCreate req = Some actor" using assms(6)
    by (simp add: caller_of_def split: if_splits)
  obtain x where 1: "h_create_resource sv ?c s = (x, s1)" "r1 = add_header (''X-Request-Id'', cl_id ?c) x"
    using assms(4) with_middleware_alt [of sv PermResourceCreate "h_create_resource sv" fr req "[]" s] assms(6)
    by (auto simp: serve_create [OF assms(1,2)] Let_def split: prod.splits)
  obtain y where 2: "h_create_resource ?sv' ?c' u = (y, u')" "r2 = add_header (''X-Request-Id'', cl_id ?c') y"
    using assms(8) with_middleware_alt [of ?sv' PermResourceCreate "h_create_resource ?sv'" fr' req "[]" u] callers
    by (auto simp: serve_create [OF assms(1,2)] Let_def split: prod.splits)
  from 1 assms(5) obtain body w out where body: "read_all ?c = Some body"
    and w: "decode_with (sv_decode sv) (decode_create_request (sv_parse_time sv)) body = Inr w"
    and out: "create_resource (sv_app sv) (create_cmd_of sv ?c body w) (fr_object fr) (fr_op fr)
        (created_reply sv) s = Inr (out, s1)" and x: "x = write_outcome out"
    by (auto simp: h_create_resource_def call_of_def split: option.splits sum.splits prod.splits)
  have body': "read_all ?c' = Some body" using body by (simp add: read_all_def call_of_def split: if_splits)
  let ?cmd = "create_cmd_of sv ?c body w" and ?cmd' = "create_cmd_of ?sv' ?c' body w"
  have same: "cc_idem ?cmd' = cc_idem ?cmd"
    and ia: "ia_key (cc_idem ?cmd) = hr_idem_key req" "ia_scope (cc_idem ?cmd) = ''POST /v1/resources|'' @ actor"
    by (simp_all add: create_cmd_of_def idem_of_def call_of_def request_hash_def)
  obtain p where run: "keyed_tx (cc_idem ?cmd) (fr_op fr) report_op (ap_now (sv_app sv)) (ap_wall (sv_app sv))
        (create_body p (cc_actor ?cmd) (ia_key (cc_idem ?cmd)) (created_reply sv)) s = Inr (out, s1)"
    by (rule create_resource_cases [of "sv_app sv" ?cmd "fr_object fr" "fr_op fr" "created_reply sv" s])
      (use out in simp_all)
  have key: "ia_key (cc_idem ?cmd) \<noteq> []" using assms(3) ia(1) by simp
  obtain rec where
    rec: "tget idem_key (ia_scope (cc_idem ?cmd), ia_key (cc_idem ?cmd)) (idem u) = Some rec"
      "i_request_hash rec = ia_hash (cc_idem ?cmd)" "i_state rec \<noteq> IdemInProgress"
      "i_http_status rec = oc_status out" "i_result rec = oc_body out"
    using keyed_first_run [OF key _ run] create_body_frame assms(7) unfolding ia by metis
  have "y = write_outcome (out\<lparr>oc_replayed := True\<rparr>) \<and> u' = u \<or> u' = u \<and> rs_status y \<ge> 400"
  proof (rule create_resource_cases [of env' ?cmd' "fr_object fr'" "fr_op fr'" "created_reply ?sv'" u])
    fix e assume "create_resource env' ?cmd' (fr_object fr') (fr_op fr') (created_reply ?sv') u = Inl e"
    then show ?thesis
      using 2(1) w body' app_error_status [of ?sv' "cl_id ?c'" e]
      by (auto simp: h_create_resource_def call_of_def)
  next
    fix p assume "create_resource env' ?cmd' (fr_object fr') (fr_op fr') (created_reply ?sv') u =
      keyed_tx (cc_idem ?cmd') (fr_op fr') report_op (ap_now env') (ap_wall env')
        (create_body p (cc_actor ?cmd') (ia_key (cc_idem ?cmd')) (created_reply ?sv')) u"
    also have "\<dots> = Inr (out\<lparr>oc_replayed := True\<rparr>, u)"
      using rec ia assms(3) unfolding same by (cases out) (auto simp: keyed_tx_def idem_begin_def)
    finally show ?thesis using 2(1) w body' by (simp add: h_create_resource_def call_of_def)
  qed
  then show ?thesis
    using 1(2) 2(2) x assms(5) by (auto simp: write_outcome_def)
qed

text \<open>
  C27. Over HTTP, a create retried under its idempotency key never makes a second machine: after a
  create answered 201, whatever happened in between as long as the record of the key is kept and
  whatever the time and the configuration, the same request again changes nothing, and it either
  returns the stored status and bytes marked as replayed, or is refused.
\<close>

theorem retried_create_makes_nothing:
  assumes "hr_method req = ''POST''" and "hr_path req = [''v1'', ''resources'']" and "hr_idem_key req \<noteq> []"
    and "serve sv fr req s = (r1, s1)" and "rs_status r1 = 201"
    and "caller_of sv PermResourceCreate req = Some actor"
    and "tget idem_key (''POST /v1/resources|'' @ actor, hr_idem_key req) (idem u)
       = tget idem_key (''POST /v1/resources|'' @ actor, hr_idem_key req) (idem s1)"
    and "serve (sv\<lparr>sv_app := env'\<rparr>) fr' req u = (r2, u')"
  shows "u' = u \<and> (rs_status r2 \<ge> 400
    \<or> rs_status r2 = 201 \<and> rs_body r2 = rs_body r1 \<and> (''Idempotency-Replayed'', ''true'') \<in> set (rs_headers r2))"
  using retried_create [OF assms(1-4) _ assms(6-8)] assms(5) by simp

section \<open>Routes without idempotency\<close>

definition with_key :: "string \<Rightarrow> call \<Rightarrow> call" where
  "with_key k c = c\<lparr>cl_req := (cl_req c)\<lparr>hr_idem_key := k\<rparr>\<rparr>"

text \<open>Only three handlers read the idempotency key of a request; the other mutations run again.\<close>

lemma with_key_simps [simp]:
  "cl_id (with_key k c) = cl_id c" "cl_actor (with_key k c) = cl_actor c"
  "cl_vals (with_key k c) = cl_vals c" "cl_fresh (with_key k c) = cl_fresh c"
  "hr_body (cl_req (with_key k c)) = hr_body (cl_req c)"
  "hr_query (cl_req (with_key k c)) = hr_query (cl_req c)"
  "query_get (with_key k c) = query_get c" "query_all (with_key k c) = query_all c"
  "read_all (with_key k c) = read_all c" "read_body (with_key k c) = read_body c"
  "bad_request (with_key k c) = bad_request c" "answer sv (with_key k c) = answer sv c"
  "accept_verb sv (with_key k c) = accept_verb sv c" "sync_verb sv (with_key k c) = sync_verb sv c"
  "park_start sv (with_key k c) = park_start sv c" "class_error sv (with_key k c) = class_error sv c"
  "upsert_cmd_of sv (with_key k c) = upsert_cmd_of sv c" "class_cmd_of sv (with_key k c) = class_cmd_of sv c"
  by (simp_all add: with_key_def query_get_def [abs_def] query_all_def [abs_def] read_all_def read_body_def fun_eq_iff
      bad_request_def answer_def accept_verb_def sync_verb_def park_start_def class_error_def upsert_cmd_of_def
      class_cmd_of_def Let_def cong: sum.case_cong option.case_cong err.case_cong)

lemma idem_key_ignored:
  assumes "h \<notin> {CreateResource, DeleteResource, CreateAcquisition}"
  shows "handle h sv (with_key k c) s = handle h sv c s"
  using assms
  by (cases h) (simp_all add: h_release_acquisition_def h_drain_resource_def h_park_resource_def h_start_resource_def
      h_undrain_resource_def h_protect_resource_def h_upsert_pool_def h_delete_pool_def h_reconcile_pool_def
      h_pause_pool_def h_upsert_class_def h_delete_class_def h_resolve_operation_def
      h_list_acquisitions_def h_get_acquisition_def h_list_resources_def h_get_resource_def
      h_list_pools_def h_get_pool_def h_list_classes_def h_get_class_def h_list_operations_def h_get_operation_def
      h_list_events_def h_list_providers_def Let_def cong: sum.case_cong option.case_cong err.case_cong)

section \<open>Unusable constraints\<close>

lemma acq_insert_get: "acq_insert a s = Inr t \<Longrightarrow> tget a_id (a_id a) (acquisitions t) = Some a"
  by (auto simp: acq_insert_def tget_append split: if_splits)

lemma new_acquisition_unusable:
  "want_from_constraints (aq_constraints cmd) = Inl e \<Longrightarrow>
   parse_request (a_constraints (new_acquisition env cmd aid)) = Inl e"
  by (simp add: new_acquisition_def parse_request_def)

lemma satisfy_unusable:
  "acq_get aid u = Inr a \<Longrightarrow> a_state a = AcqPending \<Longrightarrow> parse_request (a_constraints a) = Inl e \<Longrightarrow>
   satisfy env aid u = (Inl e, u)"
  by (simp add: satisfy_def)

lemma unusable_not_capacity: "want_from_constraints c = Inl e \<Longrightarrow> e \<noteq> ENoCapacity"
  by (auto simp: want_from_constraints_def split: blob.splits if_splits)


section \<open>Pool updates\<close>

text \<open>The reply to a pool update carries the generation the row had before it.\<close>

lemma pool_update_reply_stale:
  assumes "up_id cmd \<noteq> []" and "upsert_pool env cmd pid s = Inr (p, s')"
  shows "\<exists>q. pool_get (up_id cmd) s' = Inr q \<and> p_generation q = p_generation p + 1
    \<and> p_name q = p_name p \<and> p_spec q = p_spec p \<and> p_updated_at q = p_updated_at p"
proof -
  from assms obtain old where old: "tget p_id (up_id cmd) (pools s) = Some old" "p_generation p = p_generation old"
    "p_id p = up_id cmd"
    by (auto simp: upsert_pool_def pool_row_def pool_get_def bindE_Inr_iff Let_def
        split: blob.splits if_splits option.splits dest: tget_SomeD)
  with assms(2) show ?thesis
    by (auto simp: upsert_pool_def bindE_Inr_iff Let_def pool_upsert_def event_append_def pool_get_def tget_tupd
        keeps_key_def split: blob.splits if_splits option.splits)
qed

section \<open>Replies outside the handlers\<close>

text \<open>The multiplexer and the gate answer without the id of the request, and the former without a document.\<close>

lemma mux_reply_bare:
  assumes "mux (hr_method req) (hr_path req) \<in> {NoPattern, WrongMethod}"
  shows "\<exists>code m. serve sv fr req s = (\<lparr>rs_status = code, rs_headers = [], rs_body = Text m\<rparr>, s) \<and> code \<ge> 400"
  using assms by (auto simp: serve_def)

end
