(* ===== verification/Command_Laws.thy ===== *)
theory Command_Laws
  imports Commands API_Guarantees
begin

text \<open>
  What the client commands guarantee against the server of the API: a successful \<open>watch\<close> means a
  machine under an active lease, and applying a Resource manifest again makes nothing new.
\<close>

section \<open>A command and the server\<close>

lemma bindC_InrE:
  assumes "bindC m f s = (Inr y, u)"
  obtains x t where "m s = (Inr x, t)" "f x t = (Inr y, u)"
  using assms by (auto simp: bindC_def split: prod.splits sum.splits)

lemma retC_simps [simp]: "retC x s = (Inr y, t) \<longleftrightarrow> y = x \<and> t = s" "failC e s = (Inr z, t) \<longleftrightarrow> False"
  by (auto simp: retC_def failC_def)

lemma liftC_Inr [simp]: "liftC r s = (Inr y, t) \<longleftrightarrow> r = Inr y \<and> t = s"
  by (auto simp: liftC_def retC_def failC_def split: sum.splits)

text \<open>A successful fetch: the request was sent, answered below 300, and the document decodes.\<close>

lemma fetch_InrE:
  assumes "fetch cx og dec s = (Inr x, t)"
  obtains req r j where "wire_request (cx_token cx) og = Inr req" "cx_send cx req s = (r, t)" "rs_status r < 300"
    "body_json (cx_parse cx) (rs_body r) = Some j" "dec j = Inr x"
  using assms that
  by (auto simp: fetch_def client_do_def read_reply_def Let_def
      split: sum.splits option.splits prod.splits if_splits)

lemma wire_request_InrD:
  "wire_request token og = Inr req \<Longrightarrow> hr_method req = og_method og \<and> hr_idem_key req = og_key og
     \<and> hr_request_id req = [] \<and> parse_target (og_target og) = Some (hr_path req, hr_query req)"
  by (auto simp: wire_request_def split: option.splits prod.splits)

text \<open>A request that reaches a handler and is answered below 300 was answered by that handler.\<close>

lemma served_by:
  assumes "reaches og h k v" and "wire_request token og = Inr req" and "serve sv fr req s = (r, t)" and "rs_status r < 300"
  obtains actor vals perm x where "caller_of sv perm req = Some actor" "lab vals k = v"
    "handle h sv (call_of fr req vals actor) s = (x, t)" "r = add_header (''X-Request-Id'', cl_id (call_of fr req vals actor)) x"
proof -
  note w = wire_request_InrD [OF assms(2)]
  from assms(1) w obtain defs vals rt vals' where m: "mux (hr_method req) (hr_path req) = Found defs vals"
    "dispatch_row defs vals = Some (rt, vals')" "rt_handler rt = h" "lab vals' k = v"
    by (auto simp: reaches_def)
  have s: "serve sv fr req s = with_middleware sv (rt_perm rt) (handle h sv) fr req vals' s"
    using m(1-3) by (simp add: serve_def)
  note alt = with_middleware_alt [of sv "rt_perm rt" "handle h sv" fr req vals' s]
  show ?thesis
  proof (cases "caller_of sv (rt_perm rt) req")
    case None
    then have "rs_status r \<ge> 400" using alt assms(3) s by simp
    then show ?thesis using assms(4) by simp
  next
    case (Some actor)
    then show ?thesis
      using alt assms(3) s m(4) by (auto simp: Let_def split: prod.splits intro!: that)
  qed
qed

section \<open>watch\<close>

lemma decoded_acquisition:
  "acquisition_json show x = Some j \<Longrightarrow> decode_acquisition parse j = Inr a \<Longrightarrow>
     wq_state a = wq_state x \<and> wq_resource_id a = wq_resource_id x \<and> wq_lease_id a = wq_lease_id x"
  by (auto simp: acquisition_json_def seal_Some decode_acquisition_def wire_simps bindE_Inr_iff)

lemma acq_bound_name: "acq_state_name q = ''bound'' \<longleftrightarrow> q = AcqBound"
  by (cases q) simp_all

text \<open>What a successful read of an acquisition shows is its row.\<close>

lemma fetched_acquisition:
  assumes "cx_send cx = serve sv fr" and "plain_id i"
    and "fetch cx (q_get_acquisition i) (decode_acquisition parse) s = (Inr a, t)"
  obtains acq where "t = s" "tget a_id i (acquisitions s) = Some acq" "wq_state a = acq_state_name (a_state acq)"
    "wq_lease_id a = opt_str (a_lease acq)"
proof -
  obtain req r j where f: "wire_request (cx_token cx) (q_get_acquisition i) = Inr req" "serve sv fr req s = (r, t)"
    "rs_status r < 300" "body_json (cx_parse cx) (rs_body r) = Some j" "decode_acquisition parse j = Inr a"
    using assms(3) unfolding assms(1) [symmetric] by (rule fetch_InrE)
  have "reaches (q_get_acquisition i) GetAcquisition ''id'' i"
    by (rule client_reaches_members(3) [OF assms(2), of "''x''"]) simp
  then obtain actor vals perm x where h: "caller_of sv perm req = Some actor" "lab vals ''id'' = i"
    "handle GetAcquisition sv (call_of fr req vals actor) s = (x, t)"
    "r = add_header (''X-Request-Id'', cl_id (call_of fr req vals actor)) x"
    using f(1-3) by (rule served_by)
  have p: "path_id (call_of fr req vals actor) = i" using h(2) by (simp add: call_of_def)
  have h3: "answer sv (call_of fr req vals actor) (bindE (get_acquisition i s)
      (\<lambda>a. Inr (acquisition_json (sv_show_time sv) (to_acq_envelope sv a)))) s = (x, t)"
    using h(3) by (simp add: h_get_acquisition_def p)
  have "rs_status x < 300" using f(3) h(4) by simp
  then obtain acq where g: "get_acquisition i s = Inr acq" "t = s"
    and x: "x = write_json 200 (acquisition_json (sv_show_time sv) (to_acq_envelope sv acq))"
    using h3 by (cases "get_acquisition i s") (auto simp: answer_def)
  have j: "acquisition_json (sv_show_time sv) (to_acq_envelope sv acq) = Some j"
    using f(4) h(4) by (auto simp: x write_json_def body_json_def split: option.splits)
  from g(1) obtain row where row: "tget a_id i (acquisitions s) = Some row" "acq = fill_resource_id s row"
    by (auto simp: get_acquisition_def acq_get_def bindE_Inr_iff split: option.splits)
  have same: "a_state acq = a_state row" "a_lease acq = a_lease row"
    using row(2) by (auto simp: fill_resource_id_def split: option.splits sum.splits)
  have "wq_state (to_acq_envelope sv acq) = acq_state_name (a_state acq)"
    "wq_lease_id (to_acq_envelope sv acq) = opt_str (a_lease acq)"
    by (simp_all add: to_acq_envelope_def Let_def)
  then have "wq_state a = acq_state_name (a_state row)" "wq_lease_id a = opt_str (a_lease row)"
    unfolding same [symmetric] using decoded_acquisition [OF j f(5)] by metis+
  then show ?thesis by (rule that [OF g(2) row(1)])
qed

lemma watch_once_bound:
  assumes "cx_send cx = serve sv fr" and "plain_id i" and "prefix ''acq_'' i"
    and "watch_once cx i s = (Inr (st, fin, True), t)"
  obtains acq where "t = s" "tget a_id i (acquisitions s) = Some acq" "a_state acq = AcqBound"
proof -
  obtain a u where f: "fetch cx (q_get_acquisition i) (decode_acquisition (cx_parse_time cx)) s = (Inr a, u)"
    and a: "wq_state a = ''bound''" and u: "u = t"
    using assms(3,4) by (auto simp: watch_once_def split: if_splits elim!: bindC_InrE)
  from assms(1,2) f obtain acq where "u = s" "tget a_id i (acquisitions s) = Some acq" "wq_state a = acq_state_name (a_state acq)"
    by (rule fetched_acquisition)
  with a u show ?thesis by (auto simp: acq_bound_name intro: that)
qed

lemma watch_loop_ok:
  "watch_loop cx i waits seen s = (lines, Inr (), t) \<Longrightarrow> \<exists>u st. watch_once cx i u = (Inr (st, True, True), t)"
proof (induction waits arbitrary: seen s lines)
  case Nil
  then show ?case by (auto simp: Let_def split: prod.splits sum.splits if_splits)
next
  case (Cons w ws)
  then show ?case by (force simp: Let_def split: prod.splits sum.splits if_splits)
qed

text \<open>
  C32. \<open>fleetplane watch\<close> on an acquisition exits with success only when the caller holds a machine: if
  the state of the plane it then sees is a reachable one, the acquisition is bound and has an active
  lease, and the leased machine is live and neither provisioning, deleting nor parking.
\<close>

theorem watch_success_means_leased:
  assumes "cx_send cx = serve sv fr" and "plain_id i" and "prefix ''acq_'' i"
    and "watch_loop cx i waits seen s = (lines, Inr (), t)" and "reachable t"
  shows "\<exists>a l r. tget a_id i (acquisitions t) = Some a \<and> a_state a = AcqBound
    \<and> l \<in> set (leases t) \<and> l_state l = LeaseActive \<and> l_acquisition l = i \<and> a_lease a = Some (l_id l)
    \<and> tget r_id (l_resource l) (resources t) = Some r \<and> r_deleted_at r = None
    \<and> r_phase r \<notin> {Provisioning, Deleting, Parking}"
proof -
  obtain u st where "watch_once cx i u = (Inr (st, True, True), t)" using watch_loop_ok [OF assms(4)] by blast
  from assms(1-3) this obtain a where a: "tget a_id i (acquisitions t) = Some a" "a_state a = AcqBound"
    by (rule watch_once_bound) blast
  then have mem: "a \<in> set (acquisitions t)" "a_id a = i" by (auto dest: tget_SomeD)
  from acq_okD(4) [OF kinvD(2) [OF reachable_kinv [OF assms(5)]] mem(1) a(2)] obtain l where
    l: "l \<in> set (leases t)" "a_lease a = Some (l_id l)" "l_state l = LeaseActive" "l_acquisition l = a_id a" by blast
  obtain r where r: "tget r_id (l_resource l) (resources t) = Some r" "live r" "lease_phase (r_phase r)"
    using leased_resource [OF kinvD(1) [OF reachable_kinv [OF assms(5)]] l(1,3)] by blast
  then show ?thesis using a l mem(2) by (auto simp: live_def lease_phase_def)
qed

section \<open>apply\<close>

lemma create_target: "parse_target ''/v1/resources'' = Some ([''v1'', ''resources''], [])"
  using target_two [OF collections(1)] by simp

text \<open>A Resource document is one keyed create; the key has the name of the resource.\<close>

lemma apply_resource_InrE:
  assumes "apply_one cx m s = (Inr line, t)" and "mf_kind m = ''Resource''"
  obtains req x where "read_create_request (cx_parse_time cx) (mf_raw m) = Inr req"
    "fetch cx (q_create_resource (cx_show_time cx) req (''apply:'' @ wm_name (wc_metadata req)))
       (decode_resource (cx_parse_time cx)) s = (Inr x, t)"
  using assms that by (auto simp: apply_one_def split: if_splits elim!: bindC_InrE)

lemma apply_resource_run:
  assumes "read_create_request (cx_parse_time cx) (mf_raw m) = Inr req" and "mf_kind m = ''Resource''"
    and "mf_api_version m = [] \<or> mf_api_version m = api_version"
  shows "snd (apply_one cx m u) = snd (fetch cx (q_create_resource (cx_show_time cx) req (''apply:'' @ wm_name (wc_metadata req)))
       (decode_resource (cx_parse_time cx)) u)"
  using assms by (auto simp: apply_one_def bindC_def liftC_def retC_def split: prod.splits sum.splits)

lemma snd_fetch:
  "wire_request (cx_token cx) og = Inr req \<Longrightarrow> snd (fetch cx og dec u) = snd (cx_send cx req u)"
  by (auto simp: fetch_def client_do_def Let_def split: prod.splits sum.splits option.splits)

text \<open>
  C33. Applying a manifest again makes nothing: once a Resource document was applied, applying the same
  document again, later and under whatever configuration, leaves the plane as it is, as long as the
  plane keeps its records of idempotency keys.
\<close>

theorem reapplied_resource_makes_nothing:
  assumes "mf_kind m = ''Resource''" and "cx_send cx = serve sv fr"
    and "apply_one cx m s = (Inr line, s1)"
    and "\<forall>k. tget idem_key k (idem u) = tget idem_key k (idem s1)"
  shows "snd (apply_one (cx\<lparr>cx_send := serve (sv\<lparr>sv_app := env'\<rparr>) fr'\<rparr>) m u) = u"
proof -
  let ?cx' = "cx\<lparr>cx_send := serve (sv\<lparr>sv_app := env'\<rparr>) fr'\<rparr>"
  obtain cr x where cr: "read_create_request (cx_parse_time cx) (mf_raw m) = Inr cr"
    and f: "fetch cx (q_create_resource (cx_show_time cx) cr (''apply:'' @ wm_name (wc_metadata cr)))
       (decode_resource (cx_parse_time cx)) s = (Inr x, s1)"
    using assms(3,1) by (rule apply_resource_InrE)
  let ?og = "q_create_resource (cx_show_time cx) cr (''apply:'' @ wm_name (wc_metadata cr))"
  have v: "mf_api_version m = [] \<or> mf_api_version m = api_version"
    using assms(3) by (auto simp: apply_one_def split: if_splits)
  obtain req r j where r: "wire_request (cx_token cx) ?og = Inr req" "serve sv fr req s = (r, s1)" "rs_status r < 300"
    using f unfolding assms(2) [symmetric] by (rule fetch_InrE)
  note w = wire_request_InrD [OF r(1)]
  have req: "hr_method req = ''POST''" "hr_path req = [''v1'', ''resources'']" "hr_idem_key req \<noteq> []"
    using w create_target by (simp_all add: q_create_resource_def)
  obtain actor where c: "caller_of sv PermResourceCreate req = Some actor"
  proof (cases "caller_of sv PermResourceCreate req")
    case None
    then have "rs_status r \<ge> 400"
      using with_middleware_alt [of sv PermResourceCreate "h_create_resource sv" fr req "[]" s] r(2)
      by (simp add: serve_create [OF req(1,2)])
    then show ?thesis using r(3) by simp
  qed (rule that)
  obtain r2 u' where again: "serve (sv\<lparr>sv_app := env'\<rparr>) fr' req u = (r2, u')" by (rule prod.exhaust)
  have "snd (apply_one ?cx' m u) = u'"
    using apply_resource_run [of ?cx' m cr u] snd_fetch [of ?cx' ?og req "decode_resource (cx_parse_time cx)" u] cr assms(1) v r(1) again
    by simp
  moreover have "u' = u" using retried_create [OF req r(2,3) c _ again] assms(4) by simp
  ultimately show ?thesis by simp
qed

section \<open>Corners of the commands\<close>

text \<open>
  A manifest whose machine is \<open>null\<close> decodes to a nil map: any flag that fills the machine then makes
  \<open>resources create\<close> panic.
\<close>

lemma null_machine_panics:
  assumes "read_create_request (cx_parse_time cx) j = Inr req" and "ws_machine (wc_spec req) = BVal JNull"
    and "kf_manifest fl = Some j" and "kf_image fl \<noteq> []"
  shows "\<exists>msg. create_request cx fl = Inl (CmdPanic msg)"
  using assms by (cases "kf_server_type fl = []") (auto simp: create_request_def machine_map_def assign_set_def assign_def)

text \<open>Resource documents without a name share one idempotency key.\<close>

lemma unnamed_resources_share_key:
  assumes "wm_name (wc_metadata a) = []" and "wm_name (wc_metadata b) = []"
  shows "og_key (q_create_resource show a (''apply:'' @ wm_name (wc_metadata a)))
       = og_key (q_create_resource show b (''apply:'' @ wm_name (wc_metadata b)))"
  using assms by (simp add: q_create_resource_def)

text \<open>No error of a command but a panic ends with 2, the documented code for wrong usage.\<close>

fun root_cause :: "cmd_error \<Rightarrow> cmd_error" where
  "root_cause (InDocument n e) = root_cause e"
| "root_cause e = e"

lemma no_usage_code: "exit_code e = 2 \<Longrightarrow> \<exists>m. root_cause e = CmdPanic m"
  by (induction e rule: exit_code.induct) (auto split: if_splits)

end
