(* ===== verification/API_Witnesses.thy ===== *)
theory API_Witnesses
  imports Scenario Auth Client API_Guarantees
begin

text \<open>
  A server over the scenario's providers with one token, and requests on which the properties of the
  HTTP API are instantiated.
\<close>

definition xw_token :: token_record where
  "xw_token = \<lparr>tk_id = ''t1'', tk_name = ''ci'', tk_sha = ''s3'', tk_perms = [PermResourceCreate]\<rparr>"

definition xw_doc :: json where
  "xw_doc = JObj [(''spec'', JObj [(''kind'', JStr ''storage.volume''), (''provider'', JStr ''p''),
     (''machine'', JObj [(''sizeGiB'', JNum 1)])])]"

definition xw_server :: "token_record list \<Rightarrow> server" where
  "xw_server ts = \<lparr>sv_app = ex_app, sv_auth = new_authenticator [] ts, sv_health = None, sv_sha = (\<lambda>s. s),
     sv_decode = (\<lambda>_. Some xw_doc), sv_unmarshal = (\<lambda>_. None), sv_show_time = (\<lambda>_. []), sv_parse_time = (\<lambda>_. None),
     sv_show_duration = (\<lambda>_. []), sv_show_spec = (\<lambda>_. JNull), sv_event_id = (\<lambda>_. []), sv_text = (\<lambda>_. [])\<rparr>"

definition xw_fresh :: fresh where
  "xw_fresh = \<lparr>fr_object = ''r9'', fr_op = ''o9'', fr_request = ''q''\<rparr>"

definition xw_request :: http_request where
  "xw_request = \<lparr>hr_method = ''POST'', hr_path = [''v1'', ''resources''], hr_query = [],
     hr_authorization = ''Bearer flp_t1.s3'', hr_request_id = ''q'', hr_idem_key = ''k'', hr_body = ''b''\<rparr>"

definition xw_create :: w_create_request where
  "xw_create = \<lparr>wc_api_version = [], wc_kind = [], wc_metadata = zero_metadata, wc_spec = \<lparr>ws_kind = ''storage.volume'', ws_provider = ''p'', ws_class = [],
     ws_machine = BVal (JObj [(''sizeGiB'', JNum 1)])\<rparr>\<rparr>"

lemma xw_decoded: "decode_with (\<lambda>_. Some xw_doc) (decode_create_request (\<lambda>_. None)) ''b'' = Inr xw_create"
  by code_simp

definition xw_cmd :: "string \<Rightarrow> string \<Rightarrow> string \<Rightarrow> string \<Rightarrow> create_cmd" where
  "xw_cmd scope actor k h = \<lparr>cc_kind = ''storage.volume'', cc_provider = ''p'', cc_name = [], cc_class = [],
     cc_spec = BVal (JObj [(''sizeGiB'', JNum 1)]), cc_labels = [], cc_actor = actor,
     cc_idem = \<lparr>ia_scope = scope, ia_key = k, ia_hash = h\<rparr>\<rparr>"

lemma xw_create_ok:
  "(case create_resource ex_app (xw_cmd scope actor (c # k) h) ''r9'' ''o9'' (\<lambda>r. (201, f r)) empty_db of
      Inl _ \<Rightarrow> False | Inr (out, s) \<Rightarrow> oc_status out = 201 \<and> map r_id (resources s) = [''r9''])"
  by code_simp

text \<open>A create request runs and makes a machine, for whichever caller the server takes it.\<close>

lemma xw_create_run:
  assumes "hr_method req = ''POST''" and "hr_path req = [''v1'', ''resources'']" and "hr_idem_key req \<noteq> []"
    and "length (hr_body req) \<le> max_body" and "caller_of (xw_server ts) PermResourceCreate req = Some actor"
  obtains r s1 where "serve (xw_server ts) xw_fresh req empty_db = (r, s1)" "rs_status r = 201"
    "map r_id (resources s1) = [''r9'']" "\<exists>t. rs_body r = Stored t"
proof -
  let ?sv = "xw_server ts" and ?c = "call_of xw_fresh req [] actor" and ?b = "hr_body req"
  obtain c k where key: "hr_idem_key req = c # k" using assms(3) by (cases "hr_idem_key req") auto
  have cmd: "create_cmd_of ?sv ?c ?b xw_create = xw_cmd (''POST /v1/resources|'' @ actor) actor (c # k) (hex ?b)"
    by (simp add: create_cmd_of_def xw_cmd_def xw_create_def idem_of_def call_of_def request_hash_def
        xw_server_def key zero_metadata_def)
  obtain out s1 where run: "create_resource (sv_app ?sv) (create_cmd_of ?sv ?c ?b xw_create) ''r9'' ''o9'' (created_reply ?sv)
      empty_db = Inr (out, s1)" "oc_status out = 201" "map r_id (resources s1) = [''r9'']"
    using xw_create_ok [of "''POST /v1/resources|'' @ actor" actor c k "hex ?b" "\<lambda>r. snd (created_reply ?sv r)"]
    unfolding cmd created_reply_def
    by (simp add: xw_server_def split: sum.splits prod.splits)
  have "read_all ?c = Some ?b" using assms(4) by (simp add: read_all_def call_of_def)
  moreover have "decode_with (\<lambda>_. Some xw_doc) (decode_create_request (\<lambda>_. None)) ?b = Inr xw_create"
    using xw_decoded by (simp add: decode_with_def)
  ultimately have "h_create_resource ?sv ?c empty_db = (write_outcome out, s1)"
    using run by (simp add: h_create_resource_def xw_server_def call_of_def xw_fresh_def)
  with assms that run(2,3) with_middleware_alt [of ?sv PermResourceCreate "h_create_resource ?sv" xw_fresh req "[]" empty_db]
  show ?thesis by (auto simp: serve_create [OF assms(1,2)] Let_def write_outcome_def)
qed

lemma xw_run:
  assumes "caller_of (xw_server ts) PermResourceCreate xw_request = Some actor"
  obtains r s1 where "serve (xw_server ts) xw_fresh xw_request empty_db = (r, s1)" "rs_status r = 201"
    "map r_id (resources s1) = [''r9'']"
  by (rule xw_create_run [OF _ _ _ _ assms]) (auto simp: xw_request_def max_body_def intro: that)

lemma xw_callers:
  "caller_of (xw_server []) PermResourceCreate xw_request = Some ''-''"
  "caller_of (xw_server [xw_token]) PermResourceCreate xw_request = Some ''ci''"
  by code_simp+

theorem retried_create_makes_nothing_witness:
  "\<exists>r1 s1 r2. serve (xw_server []) xw_fresh xw_request empty_db = (r1, s1) \<and> rs_status r1 = 201
     \<and> map r_id (resources s1) = [''r9''] \<and> serve (xw_server []) xw_fresh xw_request s1 = (r2, s1)"
proof -
  obtain r1 s1 where run: "serve (xw_server []) xw_fresh xw_request empty_db = (r1, s1)" "rs_status r1 = 201"
    "map r_id (resources s1) = [''r9'']"
    by (rule xw_run [OF xw_callers(1)])
  obtain r2 u where again: "serve (xw_server []\<lparr>sv_app := sv_app (xw_server [])\<rparr>) xw_fresh xw_request s1 = (r2, u)"
    by (rule prod.exhaust)
  have "u = s1"
    using retried_create_makes_nothing [OF _ _ _ run(1,2) xw_callers(1) _ again] by (simp add: xw_request_def)
  with run again show ?thesis by simp
qed

theorem api_write_needs_permission_witness:
  "\<exists>r s1. mutation_gate (xw_server [xw_token]) True xw_fresh xw_request empty_db = (r, s1) \<and> s1 \<noteq> empty_db
     \<and> hr_method xw_request \<noteq> ''GET''"
proof -
  obtain r s1 where run: "serve (xw_server [xw_token]) xw_fresh xw_request empty_db = (r, s1)"
    "map r_id (resources s1) = [''r9'']"
    by (rule xw_run [OF xw_callers(2)])
  have g: "mutation_gate (xw_server [xw_token]) True xw_fresh xw_request empty_db = (r, s1)"
    using run(1) by (simp add: mutation_gate_def)
  have "s1 \<noteq> empty_db" using run(2) by (auto simp: empty_db_def)
  with g api_write_needs_permission [OF g] show ?thesis by simp
qed

theorem api_requests_are_runs_witness:
  "\<exists>r s1. mutation_gate (xw_server []) True xw_fresh xw_request empty_db = (r, s1)
     \<and> map r_id (resources s1) = [''r9''] \<and> reachable s1"
proof -
  obtain r s1 where run: "serve (xw_server []) xw_fresh xw_request empty_db = (r, s1)"
    "map r_id (resources s1) = [''r9'']"
    by (rule xw_run [OF xw_callers(1)])
  have g: "mutation_gate (xw_server []) True xw_fresh xw_request empty_db = (r, s1)"
    using run(1) by (simp add: mutation_gate_def)
  with run(2) api_requests_are_runs [of empty_db "xw_server []" True xw_fresh xw_request] reach_init show ?thesis by auto
qed




section \<open>Tokens and wire types\<close>

theorem generated_token_authenticates_witness:
  "\<exists>plain rec. generate_token (\<lambda>s. s) ''ci'' [PermAdmin] (replicate 4 (CHR ''a'')) (replicate 32 (CHR ''b'')) = (plain, rec)
     \<and> authenticate (\<lambda>s. s) (new_authenticator [] [rec]) (''Bearer '' @ plain)
        = Inr \<lparr>pn_token_id = tk_id rec, pn_name = ''ci'', pn_perms = [PermAdmin]\<rparr>"
proof -
  obtain plain rec where g: "generate_token (\<lambda>s. s) ''ci'' [PermAdmin] (replicate 4 (CHR ''a'')) (replicate 32 (CHR ''b'')) = (plain, rec)"
    by (rule prod.exhaust)
  from generated_token_authenticates [OF g, of "[]" "[]"] g show ?thesis by simp
qed

text \<open>Times in unary, as one instance of the pair of time functions.\<close>

definition xw_show :: "int \<Rightarrow> string" where
  "xw_show t = (if t < 0 then CHR ''-'' # replicate (nat (- t)) (CHR ''1'') else replicate (nat t) (CHR ''1''))"

definition xw_parse :: "string \<Rightarrow> int option" where
  "xw_parse s = (case s of CHR ''-'' # r \<Rightarrow> Some (- int (length r)) | _ \<Rightarrow> Some (int (length s)))"

lemma xw_rfc3339: "rfc3339 xw_show xw_parse"
proof -
  have "xw_parse (xw_show t) = Some t" for t
  proof (cases "t < 0")
    case False
    then have "xw_show t = [] \<and> t = 0 \<or> (\<exists>r. xw_show t = CHR ''1'' # r \<and> int (length (CHR ''1'' # r)) = t)"
      by (cases "nat t") (auto simp: xw_show_def)
    then show ?thesis by (auto simp: xw_parse_def)
  qed (simp add: xw_show_def xw_parse_def)
  then show ?thesis by (simp add: rfc3339_def)
qed

theorem wire_roundtrip_witness:
  "bindE (case create_request_json xw_show xw_create of None \<Rightarrow> Inl bad_type | Some j \<Rightarrow> Inr j)
     (decode_create_request xw_parse) = Inr xw_create"
proof -
  have "resource_ok (to_envelope (new_resource ''r1'' ''n'' \<lparr>cs_kind = ''k'', cs_provider = ''p'', cs_name = ''n'',
      cs_spec = BNil, cs_labels = [], cs_class = [], cs_pool = None\<rparr> 0))"
    by (simp add: resource_ok_def metadata_ok_def status_ok_def to_envelope_def new_resource_def canonical_def
        in_i64_def in_years_def opt_in_years_def)
  moreover have "metadata_ok (wc_metadata xw_create)" "ws_machine (wc_spec xw_create) \<noteq> BBad"
    by (simp_all add: metadata_ok_def xw_create_def zero_metadata_def zero_time_def canonical_def
        in_i64_def in_years_def opt_in_years_def)
  moreover have "in_i64 (wa_quantity zero_acquire)" "wa_constraints zero_acquire \<noteq> BBad"
    by (simp_all add: zero_acquire_def in_i64_def)
  moreover have "acquisition_ok (to_acq_envelope (xw_server []) (new_acquisition ex_app ex_acquire ''a1''))"
    by (simp add: acquisition_ok_def to_acq_envelope_def new_acquisition_def ex_app_def ex_acquire_def ex_sched_def
        parse_request_def want_from_constraints_def effective_max_wait_def milliseconds_def go_div_def Let_def in_years_def opt_in_years_def)
  ultimately show ?thesis using wire_roundtrip [OF xw_rfc3339] by blast
qed

end
