(* ===== verification/Command_Witnesses.thy ===== *)
theory Command_Witnesses
  imports Command_Laws API_Witnesses
begin

text \<open>
  The commands against the server of the scenario: a watch on a bound acquisition and a Resource
  manifest applied twice.
\<close>

definition xc_state :: db where
  "xc_state = snd (acquire ex_app ex_acquire ''acq_1'' (\<lambda>a. (202, a_id a)) ex_s1)"

definition xc_conn :: "db connection" where
  "xc_conn = \<lparr>cx_send = serve (xw_server []) xw_fresh, cx_parse = (\<lambda>_. Some (JObj [])), cx_parse_time = (\<lambda>_. Some 0),
     cx_show_time = (\<lambda>_. []), cx_sprint = (\<lambda>_. []), cx_renorm = (\<lambda>j. j), cx_token = []\<rparr>"

lemma xc_reach: "reachable xc_state"
  unfolding xc_state_def by (rule reachable_steps [OF steps_acquire ex_reach1])

lemma xc_watch: "watch_loop xc_conn ''acq_1'' [] [] xc_state
    = ([''acq_1: bound -> r1 (lease acq_1)''], Inr (), xc_state)"
  by code_simp

theorem watch_success_means_leased_witness:
  "\<exists>a l. tget a_id ''acq_1'' (acquisitions xc_state) = Some a \<and> l \<in> set (leases xc_state)
     \<and> l_state l = LeaseActive \<and> a_lease a = Some (l_id l)"
proof -
  have p: "plain_id ''acq_1''" by code_simp
  have "cx_send xc_conn = serve (xw_server []) xw_fresh" by (simp add: xc_conn_def)
  from watch_success_means_leased [OF this p _ xc_watch xc_reach] show ?thesis by auto
qed

definition xc_manifest :: manifest where
  "xc_manifest = \<lparr>mf_api_version = api_version, mf_kind = ''Resource'', mf_raw = xw_doc\<rparr>"

definition xc_request :: w_create_request where
  "xc_request = \<lparr>wc_api_version = [], wc_kind = [], wc_metadata = zero_metadata, wc_spec = wc_spec xw_create\<rparr>"

lemma xc_read: "read_create_request (cx_parse_time xc_conn) (mf_raw xc_manifest) = Inr xc_request"
  by code_simp

lemma xc_request_json: "create_request_json (cx_show_time xc_conn) xc_request
    = Some (JObj [(''spec'', JObj [(''kind'', JStr ''storage.volume''), (''provider'', JStr ''p''),
        (''machine'', JObj [(''sizeGiB'', JNum 1)])])])"
  by code_simp

lemma xc_text: "length (json_text (JObj [(''spec'', JObj [(''kind'', JStr ''storage.volume''), (''provider'', JStr ''p''),
        (''machine'', JObj [(''sizeGiB'', JNum 1)])])])) \<le> max_body"
  by (simp add: quote_text_def esc_char_def Let_def join_def show_int_def digits.simps [of "Suc 0"] max_body_def)

lemma xc_applied:
  obtains l s1 where "apply_one xc_conn xc_manifest empty_db = (Inr l, s1)" "map r_id (resources s1) = [''r9'']"
proof -
  let ?og = "q_create_resource (cx_show_time xc_conn) xc_request (''apply:'' @ wm_name (wc_metadata xc_request))"
  obtain req where w: "wire_request (cx_token xc_conn) ?og = Inr req" "length (hr_body req) \<le> max_body"
    "hr_authorization req = []"
    using xc_text by (simp add: wire_request_def q_create_resource_def xc_request_json create_target) (simp add: xc_conn_def)
  note d = wire_request_InrD [OF w(1)]
  have req: "hr_method req = ''POST''" "hr_path req = [''v1'', ''resources'']" "hr_idem_key req \<noteq> []"
    using d create_target by (simp_all add: q_create_resource_def)
  have "caller_of (xw_server []) PermResourceCreate req = Some ''-''"
    by (simp add: caller_of_def xw_server_def new_authenticator_def auth_enabled_def)
  from req w(2) this obtain r s1 where run: "serve (xw_server []) xw_fresh req empty_db = (r, s1)" "rs_status r = 201"
    "map r_id (resources s1) = [''r9'']" "\<exists>t. rs_body r = Stored t"
    by (rule xw_create_run)
  have "decode_resource p (JObj []) = Inr (x p)" if "x = (\<lambda>p. projr (decode_resource p (JObj [])))" for x p
    unfolding that by (simp add: decode_resource_def struct_def known_def jval_def jkey_def zero_metadata_def
        decode_metadata_def decode_resource_spec_def decode_status_def)
  then obtain x where dec: "\<And>p. decode_resource p (JObj []) = Inr (x p)" by blast
  have "fetch xc_conn ?og (decode_resource (cx_parse_time xc_conn)) empty_db = (Inr (x (cx_parse_time xc_conn)), s1)"
    using run w(1) dec by (auto simp: fetch_def client_do_def read_reply_def body_json_def xc_conn_def)
  then show ?thesis
    using that run(3) xc_read by (simp add: apply_one_def xc_manifest_def bindC_def liftC_def retC_def)
qed

theorem reapplied_resource_makes_nothing_witness:
  "\<exists>s1. snd (apply_one xc_conn xc_manifest empty_db) = s1 \<and> map r_id (resources s1) = [''r9'']
     \<and> snd (apply_one xc_conn xc_manifest s1) = s1"
proof -
  obtain l s1 where a: "apply_one xc_conn xc_manifest empty_db = (Inr l, s1)" "map r_id (resources s1) = [''r9'']"
    by (rule xc_applied)
  have k: "mf_kind xc_manifest = ''Resource''" by (simp add: xc_manifest_def)
  have c: "cx_send xc_conn = serve (xw_server []) xw_fresh" by (simp add: xc_conn_def)
  have same: "xc_conn\<lparr>cx_send := serve (xw_server []\<lparr>sv_app := sv_app (xw_server [])\<rparr>) xw_fresh\<rparr> = xc_conn"
    by (simp add: xc_conn_def)
  have "snd (apply_one xc_conn xc_manifest s1) = s1"
    using reapplied_resource_makes_nothing [OF k c a(1), of s1 "sv_app (xw_server [])" xw_fresh] unfolding same by simp
  with a show ?thesis by simp
qed

end
