(* ===== verification/Config.thy ===== *)
theory Config
  imports App_Admin
begin

text \<open>
  The configuration file (internal/config/config.go): the decoded document, its defaults and its
  validation. The YAML decoder and \<open>time.ParseDuration\<close> are arguments; a Go map is the list of its
  entries in the order of the iteration.
\<close>

section \<open>The document\<close>

record token_conf =
  tg_id :: string
  tg_name :: string
  tg_sha256 :: string
  tg_permissions :: "string list"

record reclaim_conf =
  rg_idle_after :: int
  rg_park :: string
  rg_delete_after :: int

text \<open>
  A class template; \<open>cg_scheduling\<close> is the pointer to the block with the pointer to its queue. The
  free-form specification is the JSON it marshals to, \<open>BBad\<close> where marshalling fails.
\<close>

record class_conf =
  cg_kind :: string
  cg_provider :: string
  cg_spec :: "json blob"
  cg_reclaim :: "reclaim_conf option"
  cg_scheduling :: "int option option"

record provider_conf =
  pg_driver :: string
  pg_settings :: "json blob"
  pg_billing :: "(string \<times> billing_override) list"

record config =
  cf_addr :: string
  cf_ops_addr :: string
  cf_shutdown_grace :: int
  cf_storage_path :: string
  cf_providers :: "(string \<times> provider_conf) list"
  cf_classes :: "(string \<times> class_conf) list"
  cf_poll_interval :: int
  cf_verify_window :: int
  cf_interval :: int
  cf_max_mutations :: int
  cf_pending_timeout :: int
  cf_discovery_interval :: int
  cf_orphan_grace :: int
  cf_ghost_policy :: string
  cf_adopt_unlabeled :: string
  cf_tokens :: "token_conf list"

text \<open>\<open>Duration.UnmarshalYAML\<close>: the scalar without surrounding blanks and quotes.\<close>

definition is_quote :: "char \<Rightarrow> bool" where
  "is_quote c \<longleftrightarrow> c = CHR 0x22 \<or> c = CHR 0x27"

definition trim_quotes :: "string \<Rightarrow> string" where
  "trim_quotes s = rev (dropWhile is_quote (rev (dropWhile is_quote s)))"

definition unmarshal_duration :: "(string \<Rightarrow> int option) \<Rightarrow> string \<Rightarrow> err + int" where
  "unmarshal_duration pd b =
     (case pd (trim_quotes (trim_space b)) of None \<Rightarrow> Inl (EOther ''invalid duration'') | Some v \<Rightarrow> Inr v)"

section \<open>Defaults\<close>

definition apply_defaults :: "config \<Rightarrow> config" where
  "apply_defaults c =
     c\<lparr>cf_addr := (if cf_addr c = [] then '':8080'' else cf_addr c),
       cf_ops_addr := (if cf_ops_addr c = [] then ''127.0.0.1:9090'' else cf_ops_addr c),
       cf_shutdown_grace := (if cf_shutdown_grace c = 0 then 20 * sec else cf_shutdown_grace c),
       cf_pending_timeout := (if cf_pending_timeout c = 0 then 15 * 60 * sec else cf_pending_timeout c)\<rparr>"

section \<open>Validation\<close>

text \<open>A loop that returns at the first error.\<close>

fun each :: "('a \<Rightarrow> err + unit) \<Rightarrow> 'a list \<Rightarrow> err + unit" where
  "each f [] = Inr ()"
| "each f (x # xs) = bindE (f x) (\<lambda>_. each f xs)"

definition must :: "bool \<Rightarrow> string \<Rightarrow> err + unit" where
  "must ok msg = (if ok then Inr () else Inl (EOther msg))"

definition not_negative :: "int option \<Rightarrow> bool" where
  "not_negative d \<longleftrightarrow> (case d of None \<Rightarrow> True | Some n \<Rightarrow> 0 \<le> n)"

definition validate_override :: "string \<times> billing_override \<Rightarrow> err + unit" where
  "validate_override = (\<lambda>(kind, b).
     bindE (must (\<not> (bo_disabled b \<and> (bo_minimum b \<noteq> None \<or> bo_increment b \<noteq> None \<or> bo_buffer b \<noteq> None \<or> bo_adaptive b)))
        ''disabled may not be combined with other fields'') (\<lambda>_.
     each (\<lambda>d. must (not_negative d) ''must be >= 0'') [bo_minimum b, bo_increment b, bo_buffer b]))"

definition validate_provider :: "string \<times> provider_conf \<Rightarrow> err + unit" where
  "validate_provider = (\<lambda>(name, p).
     bindE (must (pg_driver p \<noteq> []) ''driver is required'') (\<lambda>_. each validate_override (pg_billing p)))"

definition validate_reclaim :: "reclaim_conf \<Rightarrow> err + unit" where
  "validate_reclaim r =
     bindE (must (rg_park r \<in> {[], ''auto'', ''never''}) ''reclaim.park must be auto or never'') (\<lambda>_.
     must (0 \<le> rg_delete_after r \<and> 0 \<le> rg_idle_after r) ''reclaim durations must be >= 0'')"

definition validate_class_conf :: "config \<Rightarrow> string \<times> class_conf \<Rightarrow> err + unit" where
  "validate_class_conf c = (\<lambda>(name, cls).
     bindE (must (cg_kind cls \<noteq> [] \<and> cg_provider cls \<noteq> []) ''needs kind and provider'') (\<lambda>_.
     bindE (must (map_of (cf_providers c) (cg_provider cls) \<noteq> None) ''references unknown provider'') (\<lambda>_.
     bindE (case cg_reclaim cls of None \<Rightarrow> Inr () | Some r \<Rightarrow> validate_reclaim r) (\<lambda>_.
     case cg_scheduling cls of
       Some (Some mw) \<Rightarrow>
         bindE (must (0 \<le> mw) ''maxWait must be >= 0'') (\<lambda>_.
         must (mw \<le> cf_pending_timeout c) ''maxWait exceeds acquire.pendingTimeout'')
     | _ \<Rightarrow> Inr ()))))"

fun validate_tokens :: "string list \<Rightarrow> token_conf list \<Rightarrow> err + unit" where
  "validate_tokens seen [] = Inr ()"
| "validate_tokens seen (t # ts) =
     bindE (must (tg_id t \<noteq> [] \<and> tg_sha256 t \<noteq> []) ''needs id and sha256'') (\<lambda>_.
     bindE (must (length (tg_sha256 t) = 64) ''sha256 must be 64 hex chars'') (\<lambda>_.
     bindE (must (tg_id t \<notin> set seen) ''duplicate id'') (\<lambda>_.
     validate_tokens (tg_id t # seen) ts)))"

definition validate_config :: "config \<Rightarrow> err + unit" where
  "validate_config c =
     bindE (must (cf_storage_path c \<noteq> []) ''storage.path is required'') (\<lambda>_.
     bindE (each validate_provider (cf_providers c)) (\<lambda>_.
     bindE (each (validate_class_conf c) (cf_classes c)) (\<lambda>_.
     validate_tokens [] (cf_tokens c))))"

text \<open>\<open>Parse\<close> and \<open>Load\<close>, over the strict YAML decoder and the file system.\<close>

definition parse_config :: "(string \<Rightarrow> err + config) \<Rightarrow> string \<Rightarrow> err + config" where
  "parse_config decode b =
     bindE (decode b) (\<lambda>c0.
     let c = apply_defaults c0 in bindE (validate_config c) (\<lambda>_. Inr c))"

definition load_config :: "(string \<Rightarrow> err + string) \<Rightarrow> (string \<Rightarrow> err + config) \<Rightarrow> string \<Rightarrow> err + config" where
  "load_config read_file decode path = bindE (read_file path) (parse_config decode)"

section \<open>What the validation accepts\<close>

lemma must_ok [simp]: "must ok m = Inr u \<longleftrightarrow> ok"
  by (simp add: must_def)

lemma each_ok: "each f xs = Inr u \<longleftrightarrow> (\<forall>x \<in> set xs. f x = Inr ())"
  by (induction xs) (auto simp: bindE_Inr_iff)

lemma each_ok_pairs: "each f xs = Inr u \<longleftrightarrow> (\<forall>(n, p) \<in> set xs. f (n, p) = Inr ())"
  by (auto simp: each_ok)

definition override_ok :: "billing_override \<Rightarrow> bool" where
  "override_ok b \<longleftrightarrow> not_negative (bo_minimum b) \<and> not_negative (bo_increment b) \<and> not_negative (bo_buffer b)
     \<and> (bo_disabled b \<longrightarrow> b = \<lparr>bo_disabled = True, bo_minimum = None, bo_increment = None, bo_buffer = None, bo_adaptive = False\<rparr>)"

definition class_conf_ok :: "config \<Rightarrow> class_conf \<Rightarrow> bool" where
  "class_conf_ok c cls \<longleftrightarrow> cg_kind cls \<noteq> [] \<and> cg_provider cls \<in> fst ` set (cf_providers c) - {[]}
     \<and> (\<forall>r. cg_reclaim cls = Some r \<longrightarrow> rg_park r \<in> {[], ''auto'', ''never''} \<and> 0 \<le> rg_idle_after r \<and> 0 \<le> rg_delete_after r)
     \<and> (\<forall>mw. cg_scheduling cls = Some (Some mw) \<longrightarrow> 0 \<le> mw \<and> mw \<le> cf_pending_timeout c)"

definition config_ok :: "config \<Rightarrow> bool" where
  "config_ok c \<longleftrightarrow> cf_storage_path c \<noteq> []
     \<and> (\<forall>(n, p) \<in> set (cf_providers c). pg_driver p \<noteq> [] \<and> (\<forall>(k, b) \<in> set (pg_billing p). override_ok b))
     \<and> (\<forall>(n, cls) \<in> set (cf_classes c). class_conf_ok c cls)
     \<and> distinct (map tg_id (cf_tokens c)) \<and> (\<forall>t \<in> set (cf_tokens c). tg_id t \<noteq> [] \<and> length (tg_sha256 t) = 64)"

lemma validate_override_ok: "validate_override (k, b) = Inr u \<longleftrightarrow> override_ok b"
  by (cases b) (auto simp: validate_override_def override_ok_def bindE_Inr_iff)

lemma validate_provider_ok:
  "validate_provider (n, p) = Inr u \<longleftrightarrow> pg_driver p \<noteq> [] \<and> (\<forall>(k, b) \<in> set (pg_billing p). override_ok b)"
  by (auto simp: validate_provider_def bindE_Inr_iff each_ok validate_override_ok)

lemma validate_class_conf_ok: "validate_class_conf c (n, cls) = Inr u \<longleftrightarrow> class_conf_ok c cls"
  by (auto simp: validate_class_conf_def class_conf_ok_def validate_reclaim_def bindE_Inr_iff map_of_eq_None_iff
      split: option.splits)

lemma validate_tokens_ok:
  "validate_tokens seen ts = Inr u \<longleftrightarrow> distinct (map tg_id ts) \<and> set (map tg_id ts) \<inter> set seen = {}
     \<and> (\<forall>t \<in> set ts. tg_id t \<noteq> [] \<and> length (tg_sha256 t) = 64)"
proof (induction ts arbitrary: seen)
  case (Cons t ts)
  then show ?case by (auto simp: bindE_Inr_iff)
qed simp

lemma validate_config_ok: "validate_config c = Inr u \<longleftrightarrow> config_ok c"
  by (simp add: validate_config_def config_ok_def bindE_Inr_iff each_ok_pairs validate_provider_ok
      validate_class_conf_ok validate_tokens_ok)

end
