(* ===== verification/Identity.thy ===== *)
theory Identity
  imports Go_Text App_Admin
begin

text \<open>
  Identifiers and references: the prefixed ids of internal/ids, the secret references of
  pkg/sdk/secretref, and the identity of the control plane that \<open>EnsureOwnerID\<close>
  (internal/app/providers.go) keeps in the database. The ULID library, the environment and the file
  system are arguments.
\<close>

section \<open>Prefixed ids (internal/ids/ids.go)\<close>

definition id_prefixes :: "string list" where
  "id_prefixes = [''res'', ''pool'', ''acq'', ''lease'', ''op'', ''evt'', ''tok'', ''req'', ''own'']"

definition new_id :: "string \<Rightarrow> string \<Rightarrow> string" where
  "new_id p ulid = p @ ''_'' @ ulid"

definition parse_id :: "(string \<Rightarrow> 'u option) \<Rightarrow> string \<Rightarrow> err + string \<times> 'u" where
  "parse_id parse_ulid s =
     (case cut_at CHR ''_'' s of
        None \<Rightarrow> Inl (EOther ''malformed id'')
      | Some (pre, raw) \<Rightarrow>
          (if pre = [] \<or> raw = [] then Inl (EOther ''malformed id'')
           else (case parse_ulid raw of
               None \<Rightarrow> Inl (EOther ''malformed id'')
             | Some u \<Rightarrow> Inr (pre, u))))"

definition is_id :: "(string \<Rightarrow> 'u option) \<Rightarrow> string \<Rightarrow> string \<Rightarrow> bool" where
  "is_id parse_ulid s p = (case parse_id parse_ulid s of Inl _ \<Rightarrow> False | Inr (pre, _) \<Rightarrow> pre = p)"

lemma id_prefix_plain: "p \<in> set id_prefixes \<Longrightarrow> CHR ''_'' \<notin> set p \<and> p \<noteq> []"
proof -
  have "list_all (\<lambda>p. CHR ''_'' \<notin> set p \<and> p \<noteq> []) id_prefixes" by code_simp
  then show "p \<in> set id_prefixes \<Longrightarrow> ?thesis" by (simp add: list_all_iff)
qed

lemma parse_new_id:
  assumes "p \<in> set id_prefixes" and "ulid \<noteq> []" and "parse_ulid ulid = Some u"
  shows "parse_id parse_ulid (new_id p ulid) = Inr (p, u)"
  using assms id_prefix_plain [OF assms(1)] cut_at_append [of "CHR ''_''" p ulid]
  by (simp add: parse_id_def new_id_def)

text \<open>An id is of one kind only.\<close>

lemma is_id_unique: "is_id parse_ulid s p \<Longrightarrow> is_id parse_ulid s q \<Longrightarrow> p = q"
  by (auto simp: is_id_def split: sum.splits prod.splits)

section \<open>Secret references (pkg/sdk/secretref/secretref.go)\<close>

definition secret_prefix :: string where "secret_prefix = ''secret://''"

definition split_ref :: "string \<Rightarrow> err + string \<times> string" where
  "split_ref ref =
     (case cut_prefix secret_prefix ref of
        None \<Rightarrow> Inl (EOther ''secret reference must start with secret://'')
      | Some rest \<Rightarrow> (case cut_at CHR ''/'' rest of
          None \<Rightarrow> Inl (EOther ''secret reference must have the form secret://<scheme>/<path>'')
        | Some (scheme, path) \<Rightarrow>
            (if scheme = [] \<or> path = [] then Inl (EOther ''secret reference must have the form secret://<scheme>/<path>'')
             else Inr (scheme, path))))"

definition is_ref :: "string \<Rightarrow> bool" where
  "is_ref s = prefix secret_prefix s"

definition trim_one_newline :: "string \<Rightarrow> string" where
  "trim_one_newline b =
     (if b \<noteq> [] \<and> last b = CHR 0x0A
      then (let c = butlast b in if c \<noteq> [] \<and> last c = CHR 0x0D then butlast c else c)
      else b)"

text \<open>The schemes of the default resolver: the environment and absolute files.\<close>

definition default_schemes :: "(string \<Rightarrow> string option) \<Rightarrow> (string \<Rightarrow> err + string) \<Rightarrow> string \<Rightarrow> (string \<Rightarrow> err + string) option" where
  "default_schemes env read_file scheme =
     (if scheme = ''env'' then Some (\<lambda>path. case env path of
          None \<Rightarrow> Inl (EOther ''environment variable is not set'') | Some v \<Rightarrow> Inr v)
      else if scheme = ''file'' then Some (\<lambda>path. bindE (read_file (''/'' @ path)) (\<lambda>b. Inr (trim_one_newline b)))
      else None)"

definition resolve_ref :: "(string \<Rightarrow> (string \<Rightarrow> err + string) option) \<Rightarrow> string \<Rightarrow> err + string" where
  "resolve_ref schemes ref =
     bindE (split_ref ref) (\<lambda>(scheme, path).
     case schemes scheme of
       None \<Rightarrow> Inl (EOther ''unknown scheme'')
     | Some fn \<Rightarrow> (case fn path of Inl e \<Rightarrow> Inl (EOther ''resolving secret reference'') | Inr v \<Rightarrow> Inr v))"

text \<open>What is not a reference is never resolved, and a reference names its scheme up to the first slash.\<close>

lemma split_ref_iff:
  "split_ref ref = Inr (scheme, path) \<longleftrightarrow>
     ref = secret_prefix @ scheme @ ''/'' @ path \<and> scheme \<noteq> [] \<and> path \<noteq> [] \<and> CHR ''/'' \<notin> set scheme"
proof
  assume "ref = secret_prefix @ scheme @ ''/'' @ path \<and> scheme \<noteq> [] \<and> path \<noteq> [] \<and> CHR ''/'' \<notin> set scheme"
  then show "split_ref ref = Inr (scheme, path)" by (simp add: split_ref_def)
qed (auto simp: split_ref_def cut_prefix_Some_iff cut_at_Some_iff split: option.splits if_splits)

lemma resolve_is_ref: "resolve_ref schemes ref = Inr v \<Longrightarrow> is_ref ref"
  by (auto simp: resolve_ref_def bindE_Inr_iff split_ref_iff is_ref_def)

section \<open>The identity of the control plane\<close>

text \<open>
  The checkpoint of the controller \<open>instance\<close> beside the tables: absent, bytes that do not decode,
  or the stored owner, empty when the field is missing; and the table of provider instances.
\<close>

record provider_row =
  pw_name :: string
  pw_driver :: string
  pw_config :: "json blob"
  pw_enabled :: bool
  pw_created_at :: int
  pw_updated_at :: int

record plane =
  pl_db :: db
  pl_instance :: "string blob"
  pl_providers :: "provider_row list"

definition ensure_owner_id :: "string \<Rightarrow> plane \<Rightarrow> err + string \<times> plane" where
  "ensure_owner_id ulid st =
     (case pl_instance st of
        BVal owner \<Rightarrow> (if owner = [] then Inl (EOther ''corrupt instance checkpoint'') else Inr (owner, st))
      | BBad \<Rightarrow> Inl (EOther ''corrupt instance checkpoint'')
      | BNil \<Rightarrow> (let owner = new_id ''own'' ulid in Inr (owner, st\<lparr>pl_instance := BVal owner\<rparr>)))"

text \<open>The owner is minted once: every later boot finds it, whatever id it would have minted.\<close>

lemma owner_id_stable:
  "ensure_owner_id u st = Inr (owner, st') \<Longrightarrow> pl_instance st2 = pl_instance st' \<Longrightarrow>
     ensure_owner_id v st2 = Inr (owner, st2) \<and> owner \<noteq> []"
  by (auto simp: ensure_owner_id_def new_id_def Let_def split: blob.splits if_splits)

lemma owner_id_db: "ensure_owner_id u st = Inr (owner, st') \<Longrightarrow> pl_db st' = pl_db st"
  by (auto simp: ensure_owner_id_def Let_def split: blob.splits if_splits)

end
