(* ===== verification/Boot.thy ===== *)
theory Boot
  imports Config Identity API_Laws URL_Text
begin

text \<open>
  The wiring of the control plane (internal/boot/boot.go) and the provider manager
  (internal/app/providers.go, pkg/sdk/provider/registry.go): from a validated configuration and the
  database to the running process, its recovery, its periodic sweep and its health endpoints. The
  factories of the compiled drivers, the clock, the fresh identity and SHA-256 are arguments.
\<close>

section \<open>Provider instances\<close>

text \<open>
  A constructed instance: what the kernel drives, the name of its driver, and the optional
  capabilities \<open>BillingAware\<close> and \<open>ParkAware\<close>.
\<close>

record built =
  bi_inst :: provider_inst
  bi_driver :: string
  bi_billing :: "(string \<Rightarrow> billing_policy) option"
  bi_parking :: "(string \<Rightarrow> park_policy) option"

record instance_config =
  ic_instance :: string
  ic_owner :: string
  ic_settings :: "json blob"

type_synonym factories = "string \<Rightarrow> (instance_config \<Rightarrow> err + built) option"

definition new_provider :: "factories \<Rightarrow> string \<Rightarrow> instance_config \<Rightarrow> err + built" where
  "new_provider fs driver cfg =
     (case fs driver of
        None \<Rightarrow> Inl (EProv \<lparr>pe_class = ErrInvalid, pe_side_effect = EffectNone, pe_retry_after = 0,
          pe_message = ''unknown provider driver''\<rparr>)
      | Some f \<Rightarrow> f cfg)"

definition driver_policy :: "built \<Rightarrow> string \<Rightarrow> billing_policy" where
  "driver_policy b kind = (case bi_billing b of None \<Rightarrow> zero_billing | Some f \<Rightarrow> f kind)"

record provider_spec =
  sp_name :: string
  sp_driver :: string
  sp_settings :: "json blob"
  sp_billing :: "(string \<times> billing_override) list"

record provider_set =
  vs_instances :: "(string \<times> built) list"
  vs_billing :: "((string \<times> string) \<times> billing_policy \<times> bool) list"

text \<open>\<open>Upsert\<close> of an instance row keeps the time of creation.\<close>

definition provider_upsert :: "provider_row \<Rightarrow> plane \<Rightarrow> plane" where
  "provider_upsert r st =
     (case tget pw_name (pw_name r) (pl_providers st) of
        None \<Rightarrow> st\<lparr>pl_providers := pl_providers st @ [r]\<rparr>
      | Some _ \<Rightarrow> st\<lparr>pl_providers := tupd pw_name (pw_name r) (\<lambda>q. q\<lparr>pw_driver := pw_driver r,
          pw_config := pw_config r, pw_enabled := pw_enabled r, pw_updated_at := pw_updated_at r\<rparr>) (pl_providers st)\<rparr>)"

fun build_providers ::
    "factories \<Rightarrow> string \<Rightarrow> int \<Rightarrow> provider_spec list \<Rightarrow> provider_set \<Rightarrow> plane \<Rightarrow> (err + provider_set) \<times> plane" where
  "build_providers fs owner now [] vs st = (Inr vs, st)"
| "build_providers fs owner now (sp # sps) vs st =
     (case new_provider fs (sp_driver sp)
          \<lparr>ic_instance = sp_name sp, ic_owner = owner, ic_settings = sp_settings sp\<rparr> of
        Inl e \<Rightarrow> (Inl e, st)
      | Inr b \<Rightarrow>
          (case resolve_billing (pi_kinds (bi_inst b)) (driver_policy b) (sp_billing sp) of
             Inl e \<Rightarrow> (Inl e, st)
           | Inr m \<Rightarrow>
               build_providers fs owner now sps
                 (vs\<lparr>vs_instances := AList.update (sp_name sp) b (vs_instances vs),
                     vs_billing := map (\<lambda>(k, x). ((sp_name sp, k), x)) m @ vs_billing vs\<rparr>)
                 (provider_upsert \<lparr>pw_name = sp_name sp, pw_driver = sp_driver sp, pw_config = sp_settings sp,
                    pw_enabled = True, pw_created_at = now, pw_updated_at = now\<rparr> st)))"

text \<open>What the kernel asks the manager: \<open>Instance\<close>, \<open>Billing\<close>, \<open>Parking\<close>, \<open>Names\<close>.\<close>

definition set_billing :: "provider_set \<Rightarrow> string \<Rightarrow> string \<Rightarrow> billing_policy \<times> bool" where
  "set_billing vs name kind =
     (case map_of (vs_billing vs) (name, kind) of
        Some x \<Rightarrow> x
      | None \<Rightarrow> (case map_of (vs_instances vs) name of
          Some b \<Rightarrow> (driver_policy b kind, False) | None \<Rightarrow> (zero_billing, False)))"

definition set_parking :: "provider_set \<Rightarrow> string \<Rightarrow> string \<Rightarrow> park_policy" where
  "set_parking vs name kind =
     (case map_of (vs_instances vs) name of
        Some b \<Rightarrow> (case bi_parking b of Some f \<Rightarrow> f kind | None \<Rightarrow> \<lparr>pk_supported = False, pk_start_estimate = 0\<rparr>)
      | None \<Rightarrow> \<lparr>pk_supported = False, pk_start_estimate = 0\<rparr>)"

definition providers_of :: "provider_set \<Rightarrow> providers" where
  "providers_of vs = \<lparr>pv_instance = (\<lambda>n. map_option bi_inst (map_of (vs_instances vs) n)),
     pv_billing = set_billing vs, pv_parking = set_parking vs\<rparr>"

definition set_names :: "provider_set \<Rightarrow> string list" where
  "set_names vs = sort (map fst (vs_instances vs))"

section \<open>Classes, tokens and instances of a configuration\<close>

fun each_map :: "('a \<Rightarrow> err + 'b) \<Rightarrow> 'a list \<Rightarrow> err + 'b list" where
  "each_map f [] = Inr []"
| "each_map f (x # xs) = bindE (f x) (\<lambda>y. bindE (each_map f xs) (\<lambda>ys. Inr (y # ys)))"

definition spec_of_conf :: "string \<times> provider_conf \<Rightarrow> err + provider_spec" where
  "spec_of_conf = (\<lambda>(name, p).
     if pg_settings p = BBad then Inl (EOther ''providers: settings'')
     else Inr \<lparr>sp_name = name, sp_driver = pg_driver p, sp_settings = pg_settings p, sp_billing = pg_billing p\<rparr>)"

definition class_of_conf :: "(string \<Rightarrow> int option) \<Rightarrow> string \<times> class_conf \<Rightarrow> err + string \<times> class_tmpl" where
  "class_of_conf pd = (\<lambda>(name, cls).
     if cg_spec cls = BBad then Inl (EOther ''classes: spec'')
     else bindE (kinds_validate pd (cg_kind cls) (cg_spec cls)) (\<lambda>_.
     Inr (name,
       \<lparr>ct_kind = cg_kind cls, ct_provider = cg_provider cls, ct_spec = cg_spec cls,
        ct_reclaim = (case cg_reclaim cls of
            None \<Rightarrow> None
          | Some r \<Rightarrow> (if rg_idle_after r > 0 \<or> rg_park r \<noteq> [] \<or> rg_delete_after r > 0
              then Some \<lparr>rp_idle_after = rg_idle_after r, rp_park = rg_park r, rp_delete_after = rg_delete_after r\<rparr>
              else None)),
        ct_queue_max_wait = (case cg_scheduling cls of Some (Some w) \<Rightarrow> w | _ \<Rightarrow> 0)\<rparr>)))"

text \<open>\<open>hex.DecodeString\<close>.\<close>

fun hex_decode :: "string \<Rightarrow> string option" where
  "hex_decode [] = Some []"
| "hex_decode [c] = None"
| "hex_decode (a # b # r) =
     (case (unhex a, unhex b) of
        (Some x, Some y) \<Rightarrow> map_option (\<lambda>t. char_of (16 * x + y) # t) (hex_decode r)
      | _ \<Rightarrow> None)"

definition token_of_conf :: "token_conf \<Rightarrow> err + token_record" where
  "token_of_conf t =
     bindE (new_perm_set (tg_permissions t)) (\<lambda>perms.
     case hex_decode (tg_sha256 t) of
       Some d \<Rightarrow> (if length d \<noteq> 32 then Inl (EOther ''sha256: not 32 hex-encoded bytes'')
           else Inr \<lparr>tk_id = tg_id t, tk_name = tg_name t, tk_sha = d, tk_perms = perms\<rparr>)
     | None \<Rightarrow> Inl (EOther ''sha256: not 32 hex-encoded bytes''))"

definition build_auth :: "string \<Rightarrow> config \<Rightarrow> err + authenticator" where
  "build_auth dummy cfg = bindE (each_map token_of_conf (cf_tokens cfg)) (\<lambda>recs. Inr (new_authenticator dummy recs))"

section \<open>The process\<close>

record boot_env =
  be_factories :: factories
  be_now :: int
  be_ulid :: string
  be_parse_duration :: "string \<Rightarrow> int option"
  be_dummy :: string

record booted =
  bt_owner :: string
  bt_providers :: provider_set
  bt_auth :: authenticator
  bt_tracker :: "tracked list"
  bt_timeout_ms :: int

text \<open>
  \<open>New\<close>: the identity, the instances, the classes, the tokens. What an earlier step wrote stays when a
  later one fails.
\<close>

definition new_app :: "boot_env \<Rightarrow> config \<Rightarrow> plane \<Rightarrow> (err + booted) \<times> plane" where
  "new_app env cfg st0 =
     (case ensure_owner_id (be_ulid env) st0 of
        Inl e \<Rightarrow> (Inl e, st0)
      | Inr (owner, st1) \<Rightarrow>
     (case each_map spec_of_conf (cf_providers cfg) of
        Inl e \<Rightarrow> (Inl e, st1)
      | Inr specs \<Rightarrow>
     (case build_providers (be_factories env) owner (be_now env) specs \<lparr>vs_instances = [], vs_billing = []\<rparr> st1 of
        (Inl e, st2) \<Rightarrow> (Inl e, st2)
      | (Inr vs, st2) \<Rightarrow>
     (case each_map (class_of_conf (be_parse_duration env)) (cf_classes cfg) of
        Inl e \<Rightarrow> (Inl e, st2)
      | Inr cls \<Rightarrow>
     (case seed_config_classes cls (be_now env) (pl_db st2) of
        Inl e \<Rightarrow> (Inl e, st2)
      | Inr s \<Rightarrow>
     (case build_auth (be_dummy env) cfg of
        Inl e \<Rightarrow> (Inl e, st2\<lparr>pl_db := s\<rparr>)
      | Inr auth \<Rightarrow>
          (Inr \<lparr>bt_owner = owner, bt_providers = vs, bt_auth = auth,
                bt_tracker = new_tracker (be_now env) (map (\<lambda>(n, b). (n, bi_driver b)) (vs_instances vs)),
                bt_timeout_ms = milliseconds (cf_pending_timeout cfg)\<rparr>,
           st2\<lparr>pl_db := s\<rparr>)))))))"

text \<open>The discovery's view of health: an instance whose state is unknown counts as healthy.\<close>

definition instance_healthy :: "tracked list \<Rightarrow> string \<Rightarrow> bool" where
  "instance_healthy ts i =
     (case find (\<lambda>t. tr_instance t = i) (health_snapshot ts) of
        Some t \<Rightarrow> ph_state (tr_health t) = HHealthy \<or> ph_state (tr_health t) = HUnknown
      | None \<Rightarrow> True)"

text \<open>The environments the wiring hands to the scheduler and the application service at a time.\<close>

definition sched_of :: "booted \<Rightarrow> int \<Rightarrow> (string \<Rightarrow> nat \<Rightarrow> string) \<Rightarrow> db \<Rightarrow> sched_env" where
  "sched_of b now fresh s = \<lparr>se_providers = providers_of (bt_providers b), se_classes = class_registry s,
     se_now = now, se_owner = bt_owner b, se_fresh = fresh\<rparr>"

text \<open>
  The start of \<open>Serve\<close>: with the storage reachable and the journal recovered the acquisitions are
  resumed and the process is ready; otherwise mutations stay gated.
\<close>

definition startup :: "bool \<Rightarrow> int \<Rightarrow> (db \<Rightarrow> sched_env) \<Rightarrow> int \<Rightarrow> db \<Rightarrow> bool \<times> db" where
  "startup ping wall env timeout s =
     (if \<not> ping then (False, s)
      else (case resume wall s of
          (Some e, s') \<Rightarrow> (False, s')
        | (None, s') \<Rightarrow> (True, sched_resume (env s') timeout s')))"

text \<open>One turn of \<open>sweepLoop\<close>.\<close>

definition sweep_tick :: "bool \<Rightarrow> int \<Rightarrow> (db \<Rightarrow> sched_env) \<Rightarrow> int \<Rightarrow> db \<Rightarrow> db" where
  "sweep_tick ready now env timeout s =
     (if \<not> ready then s
      else (let s' = snd (sweep_expired now s) in sched_resume (env s') timeout s'))"

section \<open>Health endpoints and backup\<close>

definition live_reply :: response where
  "live_reply = write_json 200 (str_map [(''status'', ''ok'')])"

definition ready_reply :: "bool \<Rightarrow> bool \<Rightarrow> response" where
  "ready_reply ready ping =
     (if \<not> ready then write_json 503 (str_map [(''status'', ''unready'')])
      else if \<not> ping then write_json 503 (str_map [(''status'', ''unready''), (''reason'', ''storage'')])
      else write_json 200 (str_map [(''status'', ''ok'')]))"

definition plain_error :: "int \<Rightarrow> string \<Rightarrow> string \<Rightarrow> response" where
  "plain_error code ec msg = write_json code (Some (JObj [(''error'', JObj [(''code'', JStr ec), (''message'', JStr msg)])]))"

definition backup_usage :: string where
  "backup_usage = ''body must be {'' @ quote_text ''to'' @ '':'' @ quote_text ''/abs/path.db'' @ ''}''"

definition handle_backup :: "(string \<Rightarrow> json option) \<Rightarrow> (string \<Rightarrow> string option) \<Rightarrow> string \<Rightarrow> response" where
  "handle_backup parse backup body =
     (case decode_with parse (struct False [] [] (\<lambda>fs. get_str (jval ''to'' fs))) body of
        Inr to_path \<Rightarrow>
          (if to_path = [] then plain_error 400 ''invalid'' backup_usage
           else (case backup to_path of
               Some e \<Rightarrow> plain_error 500 ''internal'' e
             | None \<Rightarrow> write_json 200 (str_map [(''status'', ''ok''), (''to'', to_path)])))
      | Inl _ \<Rightarrow> plain_error 400 ''invalid'' backup_usage)"

end
