(* ===== verification/Boot_Laws.thy ===== *)
theory Boot_Laws
  imports Boot Auth
begin

text \<open>
  What the boot establishes: the class table is the configuration's, the tokens of the configuration
  authenticate, and every state of the process, over any number of boots, crashes and requests, is a
  run of the kernel under one owner identity.
\<close>

section \<open>Loops that build lists\<close>

lemma each_map_Inr: "each_map f xs = Inr ys \<longleftrightarrow> list_all2 (\<lambda>x y. f x = Inr y) xs ys"
proof (induction xs arbitrary: ys)
  case (Cons x xs)
  then show ?case by (cases ys) (auto simp: bindE_Inr_iff)
qed auto

lemma list_all2_mem: "list_all2 P xs ys \<Longrightarrow> x \<in> set xs \<Longrightarrow> \<exists>y \<in> set ys. P x y"
  by (induction rule: list_all2_induct) auto

section \<open>The class table\<close>

definition seeded :: "string \<Rightarrow> class_tmpl \<Rightarrow> int \<Rightarrow> class_record option \<Rightarrow> class_record" where
  "seeded n cls now old = (case old of
     None \<Rightarrow> config_record n cls now
   | Some d \<Rightarrow> (config_record n cls now)\<lparr>c_created_at := c_created_at d\<rparr>)"

lemma config_record_simps [simp]:
  "c_name (config_record n cls now) = n" "c_source (config_record n cls now) = ''config''"
  "c_provider (config_record n cls now) = ct_provider cls"
  by (simp_all add: config_record_def)

lemma seeded_simps [simp]:
  "c_name (seeded n cls now old) = n" "c_source (seeded n cls now old) = ''config''"
  "c_provider (seeded n cls now old) = ct_provider cls"
  by (simp_all add: seeded_def split: option.splits)

lemma class_upsert_config:
  obtains t where "class_upsert (config_record n cls now) s = Inr t"
    "\<And>m. tget c_name m (classes t) =
       (if m = n then Some (seeded n cls now (tget c_name n (classes s))) else tget c_name m (classes s))"
proof (cases "tget c_name n (classes s)")
  case None
  show ?thesis
    by (rule that [of "s\<lparr>classes := classes s @ [config_record n cls now]\<rparr>"])
      (use None in \<open>auto simp: class_upsert_def tget_append seeded_def split: option.splits\<close>)
next
  case (Some d)
  let ?f = "\<lambda>d. (config_record n cls now)\<lparr>c_created_at := c_created_at d\<rparr>"
  have t: "tget c_name m (tupd c_name n ?f (classes s)) =
      (if m = n then map_option ?f (tget c_name n (classes s)) else tget c_name m (classes s))" for m
  proof -
    have "tget c_name m (tupd c_name n ?f xs) = (if m = n then map_option ?f (tget c_name n xs) else tget c_name m xs)" for xs
      by (induction xs) auto
    then show ?thesis .
  qed
  show ?thesis
    by (rule that [of "s\<lparr>classes := tupd c_name n ?f (classes s)\<rparr>"])
      (use Some t in \<open>auto simp: class_upsert_def seeded_def\<close>)
qed

lemma seed_upsert_get:
  assumes "distinct (map fst cfg)"
  obtains t where "seed_upsert now cfg s = Inr t"
    "\<And>m. tget c_name m (classes t) = (case map_of cfg m of
        None \<Rightarrow> tget c_name m (classes s) | Some cls \<Rightarrow> Some (seeded m cls now (tget c_name m (classes s))))"
  using assms
proof (induction cfg arbitrary: s thesis)
  case (Cons nc cfg)
  obtain n cls where nc: "nc = (n, cls)" by (cases nc)
  obtain u where u: "class_upsert (config_record n cls now) s = Inr u"
    "\<And>m. tget c_name m (classes u) =
       (if m = n then Some (seeded n cls now (tget c_name n (classes s))) else tget c_name m (classes s))"
    using class_upsert_config [of n cls now s] by blast
  obtain t where t: "seed_upsert now cfg u = Inr t"
    "\<And>m. tget c_name m (classes t) = (case map_of cfg m of
        None \<Rightarrow> tget c_name m (classes u) | Some cls \<Rightarrow> Some (seeded m cls now (tget c_name m (classes u))))"
    using Cons.IH Cons.prems(2) by auto
  have "map_of cfg n = None" using Cons.prems(2) nc by (simp add: map_of_eq_None_iff)
  with u t show ?case by (intro Cons.prems(1) [of t]) (auto simp: nc split: option.splits)
qed simp

lemma seed_prune_get:
  assumes "distinct (map c_name rs)" and "\<And>r. r \<in> set rs \<Longrightarrow> tget c_name (c_name r) (classes s) = Some r"
  obtains t where "seed_prune cfg rs s = Inr t"
    "\<And>m. tget c_name m (classes t) =
       (if map_of cfg m = None \<and> m \<in> c_name ` set rs then None else tget c_name m (classes s))"
  using assms
proof (induction rs arbitrary: s thesis)
  case (Cons r rs)
  have r: "tget c_name (c_name r) (classes s) = Some r" using Cons.prems(3) by simp
  show ?case
  proof (cases "map_of cfg (c_name r)")
    case None
    let ?u = "s\<lparr>classes := tdel c_name (c_name r) (classes s)\<rparr>"
    have "tget c_name (c_name q) (classes ?u) = Some q" if "q \<in> set rs" for q
    proof -
      have "c_name q \<in> c_name ` set rs" using that by (rule imageI)
      then have "c_name q \<noteq> c_name r" using Cons.prems(2) by auto
      then show ?thesis using Cons.prems(3) that by (simp add: tget_tdel)
    qed
    then obtain t where t: "seed_prune cfg rs ?u = Inr t"
      "\<And>m. tget c_name m (classes t) =
         (if map_of cfg m = None \<and> m \<in> c_name ` set rs then None else tget c_name m (classes ?u))"
      using Cons.IH [of ?u] Cons.prems(2) by auto
    show ?thesis
      by (rule Cons.prems(1) [of t]) (use None r t in \<open>auto simp: class_delete_def tget_tdel\<close>)
  next
    case (Some cls)
    obtain t where t: "seed_prune cfg rs s = Inr t"
      "\<And>m. tget c_name m (classes t) =
         (if map_of cfg m = None \<and> m \<in> c_name ` set rs then None else tget c_name m (classes s))"
      using Cons.IH [of s] Cons.prems(2,3) by auto
    show ?thesis by (rule Cons.prems(1) [of t]) (use Some t in auto)
  qed
qed simp

text \<open>Seeding never fails, and makes the table the configuration's classes and the API's others.\<close>

definition kept_class :: "class_record option \<Rightarrow> class_record option" where
  "kept_class old = (case old of None \<Rightarrow> None | Some r \<Rightarrow> (if c_source r = ''config'' then None else Some r))"

lemma seed_exact:
  assumes "distinct (map fst cfg)" and "distinct (map c_name (classes s))"
  obtains t where "seed_config_classes cfg now s = Inr t"
    "\<And>m. tget c_name m (classes t) = (case map_of cfg m of
        None \<Rightarrow> kept_class (tget c_name m (classes s))
      | Some cls \<Rightarrow> Some (seeded m cls now (tget c_name m (classes s))))"
proof -
  let ?rs = "class_list_by_source ''config'' s"
  have rs: "set ?rs = {r \<in> set (classes s). c_source r = ''config''}"
    by (simp add: class_list_by_source_def)
  have d: "distinct (map c_name ?rs)"
  proof -
    have "mset (map c_name ?rs) = mset (map c_name (filter (\<lambda>c. c_source c = ''config'') (classes s)))"
      by (simp add: class_list_by_source_def)
    moreover have "distinct (map c_name (filter (\<lambda>c. c_source c = ''config'') (classes s)))"
      using assms(2) by (simp add: distinct_map_filter)
    ultimately show ?thesis using mset_eq_imp_distinct_iff by blast
  qed
  have "tget c_name (c_name r) (classes s) = Some r" if "r \<in> set ?rs" for r
    using tget_of_mem [OF assms(2)] that rs by auto
  with d obtain u where u: "seed_prune cfg ?rs s = Inr u"
    "\<And>m. tget c_name m (classes u) =
       (if map_of cfg m = None \<and> m \<in> c_name ` set ?rs then None else tget c_name m (classes s))"
    using seed_prune_get [of ?rs s cfg] by blast
  obtain t where t: "seed_upsert now cfg u = Inr t"
    "\<And>m. tget c_name m (classes t) = (case map_of cfg m of
        None \<Rightarrow> tget c_name m (classes u) | Some cls \<Rightarrow> Some (seeded m cls now (tget c_name m (classes u))))"
    using seed_upsert_get [OF assms(1)] by blast
  have "m \<in> c_name ` set ?rs \<longleftrightarrow> (\<exists>r. tget c_name m (classes s) = Some r \<and> c_source r = ''config'')" for m
    using tget_of_mem [OF assms(2)] by (auto simp: rs image_iff dest!: tget_SomeD)
  with u t show ?thesis
    by (intro that [of t]) (auto simp: seed_config_classes_def kept_class_def split: option.splits)
qed

section \<open>What \<open>New\<close> builds\<close>

lemma provider_upsert_frame [simp]:
  "pl_db (provider_upsert r st) = pl_db st" "pl_instance (provider_upsert r st) = pl_instance st"
  by (simp_all add: provider_upsert_def split: option.splits)

lemma build_frame: "build_providers fs owner now sps vs st = (r, st') \<Longrightarrow> pl_db st' = pl_db st \<and> pl_instance st' = pl_instance st"
  by (induction sps arbitrary: vs st) (auto split: sum.splits)

lemma build_names:
  "build_providers fs owner now sps vs st = (Inr vs', st') \<Longrightarrow>
     dom (map_of (vs_instances vs')) = dom (map_of (vs_instances vs)) \<union> sp_name ` set sps"
  by (induction sps arbitrary: vs st) (auto simp: update_conv' split: sum.splits if_splits)

lemma spec_names: "each_map spec_of_conf ps = Inr sps \<Longrightarrow> sp_name ` set sps = fst ` set ps"
proof -
  have "list_all2 (\<lambda>x y. spec_of_conf x = Inr y) ps sps \<Longrightarrow> sp_name ` set sps = fst ` set ps"
    by (induction rule: list_all2_induct) (auto simp: spec_of_conf_def split: if_splits prod.splits)
  then show "each_map spec_of_conf ps = Inr sps \<Longrightarrow> ?thesis" by (simp add: each_map_Inr)
qed

lemma class_of_conf_name: "class_of_conf pd (n, cls) = Inr (m, tmpl) \<Longrightarrow> m = n \<and> ct_provider tmpl = cg_provider cls"
  by (auto simp: class_of_conf_def bindE_Inr_iff split: if_splits)

lemma class_table:
  assumes "each_map (class_of_conf pd) xs = Inr ys"
  shows "map fst ys = map fst xs
    \<and> (case map_of xs n of None \<Rightarrow> map_of ys n = None
       | Some cls \<Rightarrow> (\<exists>tmpl. class_of_conf pd (n, cls) = Inr (n, tmpl) \<and> map_of ys n = Some tmpl))"
proof -
  have "list_all2 (\<lambda>x y. class_of_conf pd x = Inr y) xs ys" using assms by (simp add: each_map_Inr)
  then show ?thesis
  proof (induction rule: list_all2_induct)
    case (Cons x xs y ys)
    obtain m cls where x: "x = (m, cls)" by (cases x)
    obtain tmpl where y: "y = (m, tmpl)" using Cons.hyps(1) class_of_conf_name by (cases y) (auto simp: x)
    show ?case using Cons by (cases "n = m") (auto simp: x y split: option.splits)
  qed simp
qed

lemma new_app_InrE:
  assumes "new_app env cfg st = (Inr b, st')"
  obtains owner st1 specs vs st2 cls s auth where
    "ensure_owner_id (be_ulid env) st = Inr (owner, st1)" "each_map spec_of_conf (cf_providers cfg) = Inr specs"
    "build_providers (be_factories env) owner (be_now env) specs \<lparr>vs_instances = [], vs_billing = []\<rparr> st1 = (Inr vs, st2)"
    "each_map (class_of_conf (be_parse_duration env)) (cf_classes cfg) = Inr cls"
    "seed_config_classes cls (be_now env) (pl_db st2) = Inr s" "build_auth (be_dummy env) cfg = Inr auth"
    "bt_owner b = owner" "bt_providers b = vs" "bt_auth b = auth" "st' = st2\<lparr>pl_db := s\<rparr>"
  using assms by (auto simp: new_app_def split: sum.splits prod.splits)

text \<open>Durations of whole milliseconds, which the table stores exactly.\<close>

definition whole_ms :: "int \<Rightarrow> bool" where
  "whole_ms d \<longleftrightarrow> ms dvd d"

definition whole_class :: "class_conf \<Rightarrow> bool" where
  "whole_class cls \<longleftrightarrow>
     (case cg_reclaim cls of None \<Rightarrow> True | Some r \<Rightarrow> whole_ms (rg_idle_after r) \<and> whole_ms (rg_delete_after r))
     \<and> (case cg_scheduling cls of Some (Some w) \<Rightarrow> whole_ms w | _ \<Rightarrow> True)"

lemma millis_opt_exact:
  "whole_ms d \<Longrightarrow> pos_ms (millis_opt d) \<longleftrightarrow> d > 0"
  "whole_ms d \<Longrightarrow> 0 \<le> d \<Longrightarrow> ms_dur (millis_opt d) = d"
  by (auto simp: whole_ms_def millis_opt_def pos_ms_def ms_dur_def milliseconds_def go_div_def ms_def)

lemma seeded_columns [simp]:
  "c_kind (seeded n cls now old) = ct_kind cls" "c_spec (seeded n cls now old) = ct_spec cls"
  "c_reclaim_park (seeded n cls now old) = (case ct_reclaim cls of None \<Rightarrow> [] | Some r \<Rightarrow> rp_park r)"
  "c_reclaim_idle_after_ms (seeded n cls now old) = (case ct_reclaim cls of None \<Rightarrow> None | Some r \<Rightarrow> millis_opt (rp_idle_after r))"
  "c_reclaim_delete_after_ms (seeded n cls now old) = (case ct_reclaim cls of None \<Rightarrow> None | Some r \<Rightarrow> millis_opt (rp_delete_after r))"
  "c_queue_max_wait_ms (seeded n cls now old) = millis_opt (ct_queue_max_wait cls)"
  by (simp_all add: seeded_def config_record_def split: option.splits)

lemma registry_exact:
  assumes "class_of_conf pd (n, cls) = Inr (n, tmpl)" and "class_conf_ok cfg cls" and "whole_class cls"
  shows "to_reconcile_class (seeded n tmpl now old) = tmpl"
proof -
  have none: "pos_ms None = False" by (simp add: pos_ms_def)
  have q: "whole_ms (ct_queue_max_wait tmpl) \<and> 0 \<le> ct_queue_max_wait tmpl"
    using assms by (auto simp: class_of_conf_def bindE_Inr_iff class_conf_ok_def whole_class_def whole_ms_def split: if_splits option.splits)
  have r: "case ct_reclaim tmpl of None \<Rightarrow> True | Some r \<Rightarrow> whole_ms (rp_idle_after r) \<and> 0 \<le> rp_idle_after r
      \<and> whole_ms (rp_delete_after r) \<and> 0 \<le> rp_delete_after r \<and> (rp_idle_after r > 0 \<or> rp_park r \<noteq> [] \<or> rp_delete_after r > 0)"
    using assms by (auto simp: class_of_conf_def bindE_Inr_iff class_conf_ok_def whole_class_def split: if_splits option.splits)
  show ?thesis
  proof (cases "ct_reclaim tmpl")
    case None
    then show ?thesis using q by (simp add: to_reconcile_class_def none millis_opt_exact)
  next
    case (Some rp)
    then show ?thesis using q r by (auto simp: to_reconcile_class_def millis_opt_exact)
  qed
qed


section \<open>The tokens of the configuration\<close>

lemma unhex_digit: "n < 16 \<Longrightarrow> unhex (hex_digit n) = Some n"
  by (simp add: unhex_def hex_digit_def of_char_of)

lemma hex_decode_hex: "hex_decode (hex s) = Some s"
proof (induction s)
  case (Cons c s)
  have "(of_char c :: nat) < 256" by (rule nat_of_char_less_256)
  then have "unhex (hex_digit (of_char c div 16)) = Some (of_char c div 16)"
    "unhex (hex_digit (of_char c mod 16)) = Some (of_char c mod 16)"
    by (intro unhex_digit; simp add: less_mult_imp_div_less)+
  then show ?case using Cons by (simp add: hex_def hex2_def)
qed (simp add: hex_def)

lemma authenticator_lookup:
  assumes "distinct (map tk_id recs)" and "rec \<in> set recs"
  shows "map_of (au_by_id (new_authenticator dummy recs)) (tk_id rec) = Some rec"
proof -
  have "map_of (fold (\<lambda>r m. AList.update (tk_id r) r m) recs m) (tk_id rec) = Some rec" for m
    using assms
  proof (induction recs arbitrary: m)
    case (Cons r recs)
    show ?case
    proof (cases "rec \<in> set recs")
      case True
      then show ?thesis using Cons by simp
    next
      case False
      then have r: "rec = r" using Cons.prems(2) by simp
      have "tk_id r \<notin> set (map tk_id recs)" using Cons.prems(1) by simp
      then have "map_of (fold (\<lambda>r m. AList.update (tk_id r) r m) recs m') (tk_id r) = map_of m' (tk_id r)" for m'
        by (induction recs arbitrary: m') (auto simp: update_conv')
      then show ?thesis by (simp add: r update_conv')
    qed
  qed simp
  then show ?thesis by (simp add: new_authenticator_def)
qed

text \<open>The entry \<open>fleetplane token\<close> prints for the configuration.\<close>

definition token_entry :: "token_record \<Rightarrow> token_conf" where
  "token_entry rec = \<lparr>tg_id = tk_id rec, tg_name = tk_name rec, tg_sha256 = hex (tk_sha rec),
     tg_permissions = map perm_name (tk_perms rec)\<rparr>"

lemma token_of_entry: "length (tk_sha rec) = 32 \<Longrightarrow> token_of_conf (token_entry rec) = Inr rec"
  by (simp add: token_of_conf_def token_entry_def new_perm_set_names hex_decode_hex)

lemma token_ids: "each_map token_of_conf ts = Inr recs \<Longrightarrow> map tk_id recs = map tg_id ts"
proof -
  have "list_all2 (\<lambda>x y. token_of_conf x = Inr y) ts recs \<Longrightarrow> map tk_id recs = map tg_id ts"
    by (induction rule: list_all2_induct) (auto simp: token_of_conf_def bindE_Inr_iff split: option.splits if_splits)
  then show "each_map token_of_conf ts = Inr recs \<Longrightarrow> ?thesis" by (simp add: each_map_Inr)
qed

lemma entry_authenticates:
  assumes "parse_token sha plain name perms = Inr rec" and "\<forall>x. length (sha x) = 32" and "config_ok cfg"
    and "token_entry rec \<in> set (cf_tokens cfg)" and "new_app env cfg st = (Inr b, st')"
  shows "authenticate sha (bt_auth b) (''Bearer '' @ plain)
    = Inr \<lparr>pn_token_id = tk_id rec, pn_name = name, pn_perms = perms\<rparr>"
proof -
  obtain recs where recs: "each_map token_of_conf (cf_tokens cfg) = Inr recs" "bt_auth b = new_authenticator (be_dummy env) recs"
    using assms(5) by (rule new_app_InrE) (auto simp: build_auth_def bindE_Inr_iff)
  have "rec \<in> set recs"
  proof -
    have "list_all2 (\<lambda>x y. token_of_conf x = Inr y) (cf_tokens cfg) recs" using recs(1) by (simp add: each_map_Inr)
    from list_all2_mem [OF this assms(4)] obtain r where "r \<in> set recs" "token_of_conf (token_entry rec) = Inr r" by blast
    moreover have "length (tk_sha rec) = 32" using assms(1,2) by (auto elim: parse_token_InrE)
    ultimately show ?thesis using token_of_entry by simp
  qed
  moreover have "distinct (map tk_id recs)" using assms(3) token_ids [OF recs(1)] by (simp add: config_ok_def)
  ultimately have "map_of (au_by_id (bt_auth b)) (tk_id rec) = Some rec"
    using authenticator_lookup [of recs rec "be_dummy env"] recs(2) by simp
  with assms(1) show ?thesis by (rule parsed_authenticates)
qed

text \<open>
  C30. A token minted by the command line authenticates with its name and permissions on every control
  plane that boots with the printed entry in its configuration.
\<close>

theorem configured_token_authenticates:
  assumes "generate_token sha name perms idb secretb = (plain, rec)" and "length idb = 4" and "length secretb = 32"
    and "\<forall>x. length (sha x) = 32" and "config_ok cfg" and "token_entry rec \<in> set (cf_tokens cfg)"
    and "new_app env cfg st = (Inr b, st')"
  shows "authenticate sha (bt_auth b) (''Bearer '' @ plain)
    = Inr \<lparr>pn_token_id = tk_id rec, pn_name = name, pn_perms = perms\<rparr>"
proof -
  have "parse_token sha plain name perms = Inr rec" by (rule parse_generated [OF assms(1,2)]) (use assms(3) in auto)
  then show ?thesis using assms(4-7) by (rule entry_authenticates)
qed

section \<open>The life of the process\<close>

text \<open>
  The process over its database: it boots with whatever configuration, starts up, serves requests
  behind the gate, sweeps, and its loops commit transactions of the kernel; it may stop at any time,
  which loses all but the database.
\<close>

record process =
  pc_plane :: plane
  pc_app :: "booted option"
  pc_ready :: bool

definition with_db :: "db \<Rightarrow> plane \<Rightarrow> plane" where
  "with_db s st = st\<lparr>pl_db := s\<rparr>"

inductive proc_step :: "process \<Rightarrow> process \<Rightarrow> bool" where
  p_boot: "pc_app p = None \<Longrightarrow> new_app env cfg (pc_plane p) = (r, st) \<Longrightarrow>
     proc_step p \<lparr>pc_plane = st, pc_app = (case r of Inl _ \<Rightarrow> None | Inr b \<Rightarrow> Some b), pc_ready = False\<rparr>"
| p_startup: "pc_app p = Some b \<Longrightarrow> startup ping wall senv timeout (pl_db (pc_plane p)) = (up, s) \<Longrightarrow>
     proc_step p \<lparr>pc_plane = with_db s (pc_plane p), pc_app = Some b, pc_ready = up\<rparr>"
| p_request: "pc_app p = Some b \<Longrightarrow> sv_auth sv = bt_auth b \<Longrightarrow>
     mutation_gate sv (pc_ready p) fr req (pl_db (pc_plane p)) = (reply, s) \<Longrightarrow>
     proc_step p (p\<lparr>pc_plane := with_db s (pc_plane p)\<rparr>)"
| p_sweep: "pc_app p = Some b \<Longrightarrow>
     proc_step p (p\<lparr>pc_plane := with_db (sweep_tick (pc_ready p) now senv timeout (pl_db (pc_plane p))) (pc_plane p)\<rparr>)"
| p_loop: "pc_app p = Some b \<Longrightarrow> tx_step (pl_db (pc_plane p)) s \<Longrightarrow>
     proc_step p (p\<lparr>pc_plane := with_db s (pc_plane p)\<rparr>)"
| p_stop: "proc_step p \<lparr>pc_plane = pc_plane p, pc_app = None, pc_ready = False\<rparr>"

definition fresh_process :: process where
  "fresh_process = \<lparr>pc_plane = \<lparr>pl_db = empty_db, pl_instance = BNil, pl_providers = []\<rparr>, pc_app = None, pc_ready = False\<rparr>"

inductive proc_reach :: "process \<Rightarrow> bool" where
  r_fresh: "proc_reach fresh_process"
| r_step: "proc_reach p \<Longrightarrow> proc_step p q \<Longrightarrow> proc_reach q"

lemma with_db_simps [simp]:
  "pl_db (with_db s st) = s" "pl_instance (with_db s st) = pl_instance st"
  by (simp_all add: with_db_def)

lemma steps_new_app: "new_app env cfg st = (r, st') \<Longrightarrow> tx_steps (pl_db st) (pl_db st')"
  by (auto simp: new_app_def dest!: owner_id_db build_frame intro: steps_one [OF s_seed]
      split: sum.splits prod.splits)

lemma steps_startup: "startup ping wall senv timeout s = (up, s') \<Longrightarrow> tx_steps s s'"
proof -
  assume a: "startup ping wall senv timeout s = (up, s')"
  obtain e t where t: "resume wall s = (e, t)" by fastforce
  then have "tx_steps s t" using steps_resume [of s wall] by simp
  with a t show ?thesis
    by (auto simp: startup_def intro: steps_trans [OF _ steps_sched_resume] split: if_splits option.splits)
qed

lemma steps_sweep_tick:
  assumes "kinv s"
  shows "tx_steps s (sweep_tick ready now senv timeout s)"
  using steps_trans [OF steps_sweep_expired [OF assms, of now] steps_sched_resume]
  by (simp add: sweep_tick_def Let_def)

text \<open>Every step of the process is a run of the kernel on its database.\<close>

lemma proc_step_run:
  assumes "proc_step p q" and "kinv (pl_db (pc_plane p))"
  shows "tx_steps (pl_db (pc_plane p)) (pl_db (pc_plane q))"
  using assms
proof cases
  case (p_request b sv fr req reply s)
  then show ?thesis using gate_runs [of "pl_db (pc_plane p)" sv "pc_ready p" fr req] by simp
qed (use assms(2) steps_new_app steps_startup steps_sweep_tick steps_one in \<open>auto split: sum.splits\<close>)

lemma owner_kept_new_app:
  "new_app env cfg st = (r, st') \<Longrightarrow> pl_instance st = BVal owner \<Longrightarrow> pl_instance st' = BVal owner"
  by (auto simp: new_app_def ensure_owner_id_def dest!: build_frame split: sum.splits prod.splits if_splits)

lemma proc_step_owner: "proc_step p q \<Longrightarrow> pl_instance (pc_plane p) = BVal owner \<Longrightarrow> pl_instance (pc_plane q) = BVal owner"
  by (erule proc_step.cases) (auto intro: owner_kept_new_app)

lemma process_state:
  assumes "proc_reach p"
  shows "reachable (pl_db (pc_plane p)) \<and> (pc_ready p \<longrightarrow> pc_app p \<noteq> None)
    \<and> (\<forall>b. pc_app p = Some b \<longrightarrow> pl_instance (pc_plane p) = BVal (bt_owner b))"
  using assms
proof (induction rule: proc_reach.induct)
  case r_fresh
  then show ?case by (simp add: fresh_process_def reach_init)
next
  case (r_step p q)
  have "reachable (pl_db (pc_plane q))"
    using reachable_steps [OF proc_step_run [OF r_step.hyps(2) reachable_kinv]] r_step.IH by blast
  moreover have "(pc_ready q \<longrightarrow> pc_app q \<noteq> None) \<and> (\<forall>b. pc_app q = Some b \<longrightarrow> pl_instance (pc_plane q) = BVal (bt_owner b))"
    using r_step.hyps(2)
  proof cases
    case (p_boot env cfg r st)
    then show ?thesis
      by (auto simp: ensure_owner_id_def Let_def dest!: build_frame elim!: new_app_InrE split: sum.splits blob.splits if_splits)
  qed (use r_step.IH in auto)
  ultimately show ?case by simp
qed

text \<open>
  C8. Over any number of boots, crashes, configurations and requests the database of the process only
  makes transactions of the kernel, so every state is reachable; a process that is ready has
  booted; and all incarnations on one database run under the same owner identity.
\<close>

theorem process_history:
  assumes "proc_reach p" and "proc_step\<^sup>*\<^sup>* p q"
  shows "tx_steps (pl_db (pc_plane p)) (pl_db (pc_plane q)) \<and> reachable (pl_db (pc_plane q))
    \<and> (pc_ready q \<longrightarrow> pc_app q \<noteq> None)
    \<and> (\<forall>b c. pc_app p = Some b \<and> pc_app q = Some c \<longrightarrow> bt_owner c = bt_owner b)"
proof -
  have "proc_reach q \<and> tx_steps (pl_db (pc_plane p)) (pl_db (pc_plane q))
      \<and> (\<forall>w. pl_instance (pc_plane p) = BVal w \<longrightarrow> pl_instance (pc_plane q) = BVal w)"
    using assms(2)
  proof (induction rule: rtranclp_induct)
    case (step y z)
    have "tx_steps (pl_db (pc_plane y)) (pl_db (pc_plane z))"
      using proc_step_run [OF step.hyps(2)] process_state step.IH reachable_kinv by blast
    then show ?case using step r_step proc_step_owner by (meson steps_trans)
  qed (simp add: assms(1))
  then show ?thesis using process_state [of p] process_state [of q] assms(1) by auto
qed

end
