(* ===== verification/Cloud_Init.thy ===== *)
theory Cloud_Init
  imports Boot_Laws "HOL-Library.List_Lexorder"
begin

text \<open>
  \<open>fleetplane cloud-init\<close> (internal/cli/cloudinit.go): the user data of a control plane, from a
  configuration, the files of its secrets and the environment. The YAML library (decoding to a
  generic value, strict decoding of a configuration, printing), SHA-256 and the random bytes are
  arguments; a generic YAML value is a \<open>json\<close>.
\<close>

section \<open>Constants\<close>

definition distro_packages :: "(string \<times> string list) list" where
  "distro_packages =
     [(''ubuntu'', [''curl'', ''tar'', ''ca-certificates'']),
      (''debian'', [''curl'', ''tar'', ''ca-certificates'']),
      (''fedora'', [''tar'', ''ca-certificates'']),
      (''rhel'', [''tar'', ''ca-certificates'']),
      (''rocky'', [''tar'', ''ca-certificates'']),
      (''almalinux'', [''tar'', ''ca-certificates'']),
      (''centos'', [''tar'', ''ca-certificates'']),
      (''arch'', [''curl'', ''tar'', ''ca-certificates'']),
      (''opensuse'', [''curl'', ''tar'', ''ca-certificates''])]"

definition lf :: string where "lf = [CHR 0x0A]"

definition systemd_unit :: string where
  "systemd_unit = concat (map (\<lambda>l. l @ lf)
     [''[Unit]'',
      ''Description=Fleetplane control plane'',
      ''After=network-online.target'',
      ''Wants=network-online.target'',
      [],
      ''[Service]'',
      ''User=fleetplane'',
      ''Group=fleetplane'',
      ''EnvironmentFile=/etc/fleetplane/secrets.env'',
      ''ExecStart=/usr/local/bin/fleetplane serve --config /etc/fleetplane/config.yaml'',
      ''Restart=always'',
      ''RestartSec=2'',
      ''TimeoutStopSec=30'',
      [],
      ''[Install]'',
      ''WantedBy=multi-user.target''])"

section \<open>Options and result\<close>

record ci_opts =
  ci_config :: string
  ci_env_files :: "string list"
  ci_environ :: "(string \<times> string) list"
  ci_distro :: string
  ci_version :: string
  ci_token :: string
  ci_token_name :: string
  ci_perms :: "string list"

datatype ci_warning = OutsideStorage string | FileNotShipped string string

record ci_out =
  cu_user_data :: string
  cu_token :: string
  cu_warnings :: "ci_warning list"

text \<open>
  What the command calls: the YAML decoder to a map (\<open>None\<close> for a document without one), the printers
  (\<open>cy_marshal\<close>, and \<open>cy_marshal_doc\<close> with literal blocks), the strict decoder of \<open>config.Parse\<close>,
  SHA-256, and the 4 and 32 random bytes of a new token.
\<close>

record ci_lib =
  cy_unmarshal :: "string \<Rightarrow> err + (string \<times> json) list option"
  cy_marshal :: "json \<Rightarrow> err + string"
  cy_marshal_doc :: "json \<Rightarrow> err + string"
  cy_decode :: "string \<Rightarrow> err + config"
  cy_sha :: "string \<Rightarrow> string"
  cy_id_bytes :: string
  cy_secret_bytes :: string

section \<open>Environment files\<close>

text \<open>
  The lines of a \<open>bufio.Scanner\<close>: without the newline and one carriage return before it; the last one
  may lack its newline, and a line that does not fit the buffer of 64 KiB ends the scan.
\<close>

definition max_line :: nat where "max_line = 65535"

definition drop_cr :: "string \<Rightarrow> string" where
  "drop_cr l = (if l \<noteq> [] \<and> last l = CHR 0x0D then butlast l else l)"

function scan_lines :: "string \<Rightarrow> string list" where
  "scan_lines s =
     (if s = [] then []
      else case cut_at (CHR 0x0A) s of
        None \<Rightarrow> (if length s \<le> max_line then [drop_cr s] else [])
      | Some (l, r) \<Rightarrow> (if length l \<le> max_line then drop_cr l # scan_lines r else []))"
  by pat_completeness auto

termination
  by (relation "measure length") (auto simp: cut_at_Some_iff)

declare scan_lines.simps [simp del]

definition strip_quotes :: "string \<Rightarrow> string" where
  "strip_quotes v = (if 2 \<le> length v \<and> is_quote (hd v) \<and> last v = hd v then butlast (tl v) else v)"

definition env_line :: "string \<Rightarrow> (string \<times> string) option" where
  "env_line text =
     (let line = trim_space text in
      if line = [] \<or> prefix ''#'' line then None
      else case cut_at (CHR ''='') (trim_prefix ''export '' line) of
        None \<Rightarrow> None
      | Some (k, v) \<Rightarrow> Some (trim_space k, strip_quotes (trim_space v)))"

definition parse_env_file :: "string \<Rightarrow> (string \<times> string) list \<Rightarrow> (string \<times> string) list" where
  "parse_env_file b into =
     fold (\<lambda>l m. case env_line l of None \<Rightarrow> m | Some (k, v) \<Rightarrow> AList.update k v m) (scan_lines b) into"

section \<open>References\<close>

lemma size_member [termination_simp]: "(k, j) \<in> set m \<Longrightarrow> size j < Suc (size_list (size_prod f size) m)"
  by (induction m) (auto split: prod.splits)

lemma size_element [termination_simp]: "x \<in> set xs \<Longrightarrow> size x < Suc (size_list size xs)"
  by (induction xs) auto

fun walk_strings :: "(string \<Rightarrow> 's \<Rightarrow> 's) \<Rightarrow> json \<Rightarrow> 's \<Rightarrow> 's" where
  "walk_strings f (JStr s) st = f s st"
| "walk_strings f (JObj m) st = fold (\<lambda>p st. walk_strings f (snd p) st) m st"
| "walk_strings f (JArr xs) st = fold (\<lambda>x st. walk_strings f x st) xs st"
| "walk_strings f _ st = st"

record ref_scan =
  rf_env :: "(string \<times> string) list"
  rf_seen :: "string list"
  rf_missing :: "string list"
  rf_warnings :: "ci_warning list"

definition collect_ref :: "(string \<times> string) list \<Rightarrow> string \<Rightarrow> ref_scan \<Rightarrow> ref_scan" where
  "collect_ref environ s st =
     (if \<not> is_ref s then st
      else case split_ref s of
        Inl _ \<Rightarrow> st
      | Inr (scheme, path) \<Rightarrow>
          (if scheme = ''env'' then
             (if path \<in> set (rf_seen st) then st
              else
                (let st = st\<lparr>rf_seen := path # rf_seen st\<rparr> in
                 if map_of (rf_env st) path \<noteq> None then st
                 else case map_of environ path of
                     Some v \<Rightarrow> st\<lparr>rf_env := AList.update path v (rf_env st)\<rparr>
                   | None \<Rightarrow> st\<lparr>rf_missing := rf_missing st @ [path]\<rparr>))
           else if scheme = ''file'' then st\<lparr>rf_warnings := rf_warnings st @ [FileNotShipped s path]\<rparr>
           else st))"

section \<open>Rendering\<close>

definition token_json :: "token_record \<Rightarrow> string list \<Rightarrow> json" where
  "token_json rec perms =
     JObj [(''id'', JStr (tk_id rec)), (''name'', JStr (tk_name rec)), (''sha256'', JStr (hex (tk_sha rec))),
       (''permissions'', JArr (map JStr perms))]"

text \<open>The token goes to the end of \<open>auth.tokens\<close>; what is not a map or a list there is replaced.\<close>

definition inject_token :: "token_record \<Rightarrow> string list \<Rightarrow> (string \<times> json) list \<Rightarrow> (string \<times> json) list" where
  "inject_token rec perms cfg =
     (let auth = (case map_of cfg ''auth'' of Some (JObj a) \<Rightarrow> a | _ \<Rightarrow> []);
          tokens = (case map_of auth ''tokens'' of Some (JArr ts) \<Rightarrow> ts | _ \<Rightarrow> [])
      in AList.update ''auth'' (JObj (AList.update ''tokens'' (JArr (tokens @ [token_json rec perms])) auth)) cfg)"

definition secrets_text :: "(string \<times> string) list \<Rightarrow> string" where
  "secrets_text env = concat (map (\<lambda>k. k @ ''='' @ the (map_of env k) @ lf) (sort (remdups (map fst env))))"

definition install_command :: "string \<Rightarrow> string" where
  "install_command version =
     ''curl -fsSL https://raw.githubusercontent.com/samishal1998/fleetplane/main/install.sh | FLEETPLANE_INSTALL_DIR=/usr/local/bin''
     @ (if version \<noteq> [] then '' FLEETPLANE_VERSION='' @ version else []) @ '' sh''"

definition shipped_file :: "string \<Rightarrow> string \<Rightarrow> string \<Rightarrow> json" where
  "shipped_file path permissions content =
     JObj [(''path'', JStr path), (''permissions'', JStr permissions), (''content'', JStr content)]"

definition cloud_doc :: "string list \<Rightarrow> string \<Rightarrow> string \<Rightarrow> string \<Rightarrow> json" where
  "cloud_doc pkgs shipped secrets install =
     JObj
       [(''package_update'', JBool True),
        (''packages'', JArr (map JStr pkgs)),
        (''write_files'', JArr
          [shipped_file ''/etc/fleetplane/config.yaml'' ''0640'' shipped,
           shipped_file ''/etc/fleetplane/secrets.env'' ''0600'' secrets,
           shipped_file ''/etc/systemd/system/fleetplane.service'' ''0644'' systemd_unit]),
        (''runcmd'', JArr (map JStr
          [''useradd --system --home /var/lib/fleetplane --shell /usr/sbin/nologin fleetplane || true'',
           ''mkdir -p /var/lib/fleetplane'',
           ''chown fleetplane:fleetplane /var/lib/fleetplane'',
           ''chgrp fleetplane /etc/fleetplane/config.yaml'',
           install,
           ''systemctl daemon-reload'',
           ''systemctl enable --now fleetplane'']))]"

text \<open>The token of the configuration: parsed from the one given, else minted.\<close>

definition ci_mint :: "ci_lib \<Rightarrow> ci_opts \<Rightarrow> permission list \<Rightarrow> err + string \<times> token_record" where
  "ci_mint y op perms =
     (if ci_token op \<noteq> []
      then bindE (parse_token (cy_sha y) (ci_token op) (ci_token_name op) perms) (\<lambda>rec. Inr ([], rec))
      else Inr (generate_token (cy_sha y) (ci_token_name op) perms (cy_id_bytes y) (cy_secret_bytes y)))"

definition ci_scan :: "ci_opts \<Rightarrow> (string \<times> json) list \<Rightarrow> ci_warning list \<Rightarrow> ref_scan" where
  "ci_scan op cfg warnings =
     walk_strings (collect_ref (ci_environ op)) (JObj cfg)
       \<lparr>rf_env = fold parse_env_file (ci_env_files op) [], rf_seen = [], rf_missing = [], rf_warnings = warnings\<rparr>"

definition render_cloud_init :: "ci_lib \<Rightarrow> ci_opts \<Rightarrow> err + ci_out" where
  "render_cloud_init y op =
     (case map_of distro_packages (ci_distro op) of
        None \<Rightarrow> Inl (EOther ''unsupported distro'')
      | Some pkgs \<Rightarrow>
     bindE (new_perm_set (ci_perms op)) (\<lambda>perms.
     bindE (ci_mint y op perms) (\<lambda>(shown, rec).
     bindE (cy_unmarshal y (ci_config op)) (\<lambda>doc.
     let cfg = inject_token rec (ci_perms op) (case doc of None \<Rightarrow> [] | Some m \<Rightarrow> m) in
     bindE (cy_marshal y (JObj cfg)) (\<lambda>shipped.
     bindE (parse_config (cy_decode y) shipped) (\<lambda>parsed.
     let warnings = (if prefix ''/var/lib/fleetplane/'' (cf_storage_path parsed) then []
             else [OutsideStorage (cf_storage_path parsed)]);
         st = ci_scan op cfg warnings in
     if rf_missing st \<noteq> [] then Inl (EOther ''config references secret://env but no value was given'')
     else
     bindE (cy_marshal_doc y (cloud_doc pkgs shipped (secrets_text (rf_env st)) (install_command (ci_version op)))) (\<lambda>body.
     Inr \<lparr>cu_user_data = ''#cloud-config'' @ lf @ body, cu_token = shown, cu_warnings = rf_warnings st\<rparr>)))))))"

text \<open>
  The command: it reads the configuration and the secrets, splits the environment, and says what goes
  to the terminal and where the user data goes (the file, else the standard output).
\<close>

definition environ_map :: "string list \<Rightarrow> (string \<times> string) list" where
  "environ_map kvs = fold (\<lambda>kv m. case cut_at (CHR ''='') kv of None \<Rightarrow> m | Some (k, v) \<Rightarrow> AList.update k v m) kvs []"

record ci_flags =
  fl_config_path :: string
  fl_env_paths :: "string list"
  fl_distro :: string
  fl_pin :: string
  fl_token :: string
  fl_token_name :: string
  fl_perms :: "string list"
  fl_out_path :: string

record ci_effect =
  ce_warnings :: "ci_warning list"
  ce_shown_token :: "(string \<times> string) option"
  ce_file :: "(string \<times> nat) option"
  ce_data :: string

definition cloud_init_cmd :: "(string \<Rightarrow> err + string) \<Rightarrow> string list \<Rightarrow> ci_lib \<Rightarrow> ci_flags \<Rightarrow> err + ci_effect" where
  "cloud_init_cmd read_file environ y fs =
     bindE (read_file (fl_config_path fs)) (\<lambda>cfg.
     bindE (each_map read_file (fl_env_paths fs)) (\<lambda>files.
     bindE (render_cloud_init y
         \<lparr>ci_config = cfg, ci_env_files = files, ci_environ = environ_map environ, ci_distro = fl_distro fs,
          ci_version = fl_pin fs, ci_token = fl_token fs, ci_token_name = fl_token_name fs, ci_perms = fl_perms fs\<rparr>) (\<lambda>out.
     Inr \<lparr>ce_warnings = cu_warnings out,
          ce_shown_token = (if cu_token out \<noteq> [] then Some (fl_token_name fs, cu_token out) else None),
          ce_file = (if fl_out_path fs = [] then None else Some (fl_out_path fs, 384)),
          ce_data = cu_user_data out\<rparr>)))"

text \<open>The flags' defaults: the version of the command itself when it is a release.\<close>

definition default_flags :: "string \<Rightarrow> ci_flags" where
  "default_flags version =
     \<lparr>fl_config_path = [], fl_env_paths = [], fl_distro = ''ubuntu'',
      fl_pin = (if prefix ''v'' version then version else []), fl_token = [], fl_token_name = ''admin'',
      fl_perms = [''admin''], fl_out_path = []\<rparr>"

end
