(* ===== verification/Cloud_Init_Laws.thy ===== *)
theory Cloud_Init_Laws
  imports Cloud_Init
begin

text \<open>
  What the user data of \<open>fleetplane cloud-init\<close> guarantees: the configuration it ships is valid, its
  references have values, its token is accepted; and when the secrets file can be read back.
\<close>

section \<open>The strings of a document\<close>

text \<open>The strings \<open>walkStrings\<close> visits, in order.\<close>

fun doc_strings :: "json \<Rightarrow> string list" where
  "doc_strings (JStr s) = [s]"
| "doc_strings (JObj m) = concat (map (\<lambda>p. doc_strings (snd p)) m)"
| "doc_strings (JArr xs) = concat (map doc_strings xs)"
| "doc_strings _ = []"

lemma fold_concat_map:
  "(\<And>x st. x \<in> set xs \<Longrightarrow> w x st = fold f (g x) st) \<Longrightarrow> fold w xs st = fold f (concat (map g xs)) st"
  by (induction xs arbitrary: st) auto

lemma walk_fold: "walk_strings f j st = fold f (doc_strings j) st"
proof (induction f j st rule: walk_strings.induct)
  case (2 f m st)
  have "fold (\<lambda>p st. walk_strings f (snd p) st) m st = fold f (concat (map (\<lambda>p. doc_strings (snd p)) m)) st"
    by (rule fold_concat_map) (rule 2)
  then show ?case by simp
next
  case (3 f xs st)
  have "fold (\<lambda>x st. walk_strings f x st) xs st = fold f (concat (map doc_strings xs)) st"
    by (rule fold_concat_map) (rule 3)
  then show ?case by simp
qed simp_all

section \<open>The scan of the references\<close>

definition env_ref :: "string \<Rightarrow> string \<Rightarrow> bool" where
  "env_ref s name \<longleftrightarrow> split_ref s = Inr (''env'', name)"

lemma env_ref_is_ref: "env_ref s name \<Longrightarrow> is_ref s"
  by (auto simp: env_ref_def split_ref_iff is_ref_def)

lemma collect_ref_env: "env_ref s name \<Longrightarrow>
    collect_ref environ s st =
      (if name \<in> set (rf_seen st) then st
       else if map_of (rf_env st) name \<noteq> None then st\<lparr>rf_seen := name # rf_seen st\<rparr>
       else case map_of environ name of
           Some v \<Rightarrow> st\<lparr>rf_seen := name # rf_seen st, rf_env := AList.update name v (rf_env st)\<rparr>
         | None \<Rightarrow> st\<lparr>rf_seen := name # rf_seen st, rf_missing := rf_missing st @ [name]\<rparr>)"
  using env_ref_is_ref [of s name] by (simp add: collect_ref_def env_ref_def Let_def split: option.splits)

lemma collect_ref_other: "(\<And>name. \<not> env_ref s name) \<Longrightarrow>
    rf_env (collect_ref environ s st) = rf_env st \<and> rf_seen (collect_ref environ s st) = rf_seen st
    \<and> rf_missing (collect_ref environ s st) = rf_missing st"
  by (auto simp: collect_ref_def env_ref_def split: sum.splits prod.splits)

text \<open>
  While nothing is missing, every reference seen has a value, which is that of the files or else that
  of the environment, and what is in the map comes from one of them.
\<close>

definition scan_ok :: "(string \<rightharpoonup> string) \<Rightarrow> (string \<times> string) list \<Rightarrow> ref_scan \<Rightarrow> bool" where
  "scan_ok files environ st \<longleftrightarrow> files \<subseteq>\<^sub>m map_of (rf_env st)
     \<and> map_of (rf_env st) \<subseteq>\<^sub>m map_of environ ++ files
     \<and> (\<forall>name \<in> set (rf_seen st). name \<in> dom (map_of (rf_env st)) \<or> name \<in> set (rf_missing st))
     \<and> (\<forall>name \<in> set (rf_missing st). name \<notin> dom (map_of environ ++ files))"

lemma collect_ref_ok: "scan_ok files environ st \<Longrightarrow> scan_ok files environ (collect_ref environ s st)"
proof (cases "\<exists>name. env_ref s name")
  case True
  then obtain name where n: "env_ref s name" by blast
  assume ok: "scan_ok files environ st"
  then show ?thesis
    using collect_ref_env [OF n, of environ st]
    by (auto simp: scan_ok_def map_le_def update_conv' map_add_def dom_def split: if_splits option.splits)
next
  case False
  then show "scan_ok files environ st \<Longrightarrow> ?thesis" using collect_ref_other [of s environ st] by (simp add: scan_ok_def)
qed

lemma scan_seen: "env_ref s name \<Longrightarrow> s \<in> set ss \<Longrightarrow> name \<in> set (rf_seen (fold (collect_ref environ) ss st))"
proof -
  have keep: "name \<in> set (rf_seen t) \<Longrightarrow> name \<in> set (rf_seen (collect_ref environ u t))" for u t
    using collect_ref_env [of u _ environ t] collect_ref_other [of u environ t]
    by (cases "\<exists>m. env_ref u m") (auto split: option.splits if_splits)
  have keeps: "name \<in> set (rf_seen t) \<Longrightarrow> name \<in> set (rf_seen (fold (collect_ref environ) us t))" for us t
    by (induction us arbitrary: t) (auto intro: keep)
  assume r: "env_ref s name"
  have "name \<in> set (rf_seen (collect_ref environ s t))" for t
    using collect_ref_env [OF r, of environ t] by (auto split: option.splits if_splits)
  with keeps show "s \<in> set ss \<Longrightarrow> ?thesis" by (induction ss arbitrary: st) auto
qed

lemma fold_collect_ok: "scan_ok files environ st \<Longrightarrow> scan_ok files environ (fold (collect_ref environ) ss st)"
  by (induction ss arbitrary: st) (auto intro: collect_ref_ok)

text \<open>The scan of a whole configuration.\<close>

definition env_of_files :: "string list \<Rightarrow> (string \<times> string) list" where
  "env_of_files files = fold parse_env_file files []"

lemma ci_scan_fold:
  "ci_scan op cfg ws = fold (collect_ref (ci_environ op)) (doc_strings (JObj cfg))
     \<lparr>rf_env = env_of_files (ci_env_files op), rf_seen = [], rf_missing = [], rf_warnings = ws\<rparr>"
  unfolding ci_scan_def walk_fold env_of_files_def ..

lemma ci_scan_ok: "scan_ok (map_of (env_of_files (ci_env_files op))) (ci_environ op) (ci_scan op cfg ws)"
  unfolding ci_scan_fold by (rule fold_collect_ok) (simp add: scan_ok_def)

lemma ci_scan_complete:
  assumes "rf_missing (ci_scan op cfg ws) = []" and "s \<in> set (doc_strings (JObj cfg))" and "env_ref s name"
  obtains v where "map_of (rf_env (ci_scan op cfg ws)) name = Some v"
    "(map_of (ci_environ op) ++ map_of (env_of_files (ci_env_files op))) name = Some v"
proof -
  have "name \<in> set (rf_seen (ci_scan op cfg ws))" unfolding ci_scan_fold using assms(2,3) by (intro scan_seen)
  with ci_scan_ok [of op cfg ws] assms(1) obtain v where v: "map_of (rf_env (ci_scan op cfg ws)) name = Some v"
    by (auto simp: scan_ok_def)
  moreover from ci_scan_ok [of op cfg ws] v
  have "(map_of (ci_environ op) ++ map_of (env_of_files (ci_env_files op))) name = Some v"
    unfolding scan_ok_def map_le_def by force
  ultimately show ?thesis by (rule that)
qed

text \<open>The command fails only for names that neither a file nor the environment gives.\<close>

lemma ci_scan_missing:
  "name \<in> set (rf_missing (ci_scan op cfg ws)) \<Longrightarrow>
     map_of (env_of_files (ci_env_files op)) name = None \<and> map_of (ci_environ op) name = None"
  using ci_scan_ok [of op cfg ws] by (auto simp: scan_ok_def map_add_None)

section \<open>The secrets file\<close>

text \<open>
  A file of plain pairs is read back as it was written: names of letters, digits and underscores, and
  values without newlines, surrounding blanks or quotes, whose lines fit the scanner.
\<close>

definition name_char :: "char \<Rightarrow> bool" where
  "name_char c \<longleftrightarrow> is_lower c \<or> is_upper c \<or> is_digit c \<or> c = CHR ''_''"

definition plain_value :: "string \<Rightarrow> bool" where
  "plain_value v \<longleftrightarrow> trim_space v = v \<and> CHR 0x0A \<notin> set v \<and> strip_quotes v = v"

definition plain_pair :: "string \<Rightarrow> string \<Rightarrow> bool" where
  "plain_pair k v \<longleftrightarrow> k \<noteq> [] \<and> list_all name_char k \<and> plain_value v \<and> length k + length v < max_line"

lemma name_char_not: "name_char c \<Longrightarrow> c \<notin> {CHR ''='', CHR '' '', CHR ''#'', CHR 0x0A, CHR 0x0D, CHR 0x09, CHR 0x0B, CHR 0x0C}"
proof -
  have "list_all (\<lambda>c. \<not> name_char c)
      [CHR ''='', CHR '' '', CHR ''#'', CHR 0x0A, CHR 0x0D, CHR 0x09, CHR 0x0B, CHR 0x0C]"
    by code_simp
  then show "name_char c \<Longrightarrow> ?thesis" unfolding list_all_iff by fastforce
qed

lemma name_not_space: "name_char c \<Longrightarrow> \<not> is_space c"
  using name_char_not [of c] by (auto simp: is_space_def)

lemma trim_space_ends: "trim_space s = s \<Longrightarrow> s \<noteq> [] \<Longrightarrow> \<not> is_space (hd s) \<and> \<not> is_space (last s)"
proof -
  assume t: "trim_space s = s" and n: "s \<noteq> []"
  let ?u = "dropWhile is_space s"
  have "length (trim_space s) \<le> length ?u"
    using length_dropWhile_le [of is_space "rev ?u"] by (simp add: trim_space_def)
  moreover have "length (takeWhile is_space s) + length ?u = length s"
    by (simp flip: length_append)
  ultimately have "length (takeWhile is_space s) = 0" unfolding t by linarith
  then have "takeWhile is_space s = []" by simp
  then have u: "?u = s" using takeWhile_dropWhile_id [of is_space s] by simp
  then have "\<not> is_space (hd s)" using n hd_dropWhile [of is_space s] by force
  moreover have "dropWhile is_space (rev s) = rev s" using t u by (metis rev_rev_ident trim_space_def)
  then have "\<not> is_space (hd (rev s))" using n hd_dropWhile [of is_space "rev s"] by force
  ultimately show ?thesis by (simp add: hd_rev n)
qed

lemma trim_space_fix: "s = [] \<or> \<not> is_space (hd s) \<and> \<not> is_space (last s) \<Longrightarrow> trim_space s = s"
proof (cases "s = []")
  case False
  assume "s = [] \<or> \<not> is_space (hd s) \<and> \<not> is_space (last s)"
  then have "\<not> is_space (hd s)" "\<not> is_space (last s)" using False by auto
  moreover have "dropWhile P xs = xs" if "xs \<noteq> []" "\<not> P (hd xs)" for P and xs :: string
    using that by (cases xs) auto
  ultimately show ?thesis using False by (simp add: trim_space_def hd_rev)
qed (simp add: trim_space_def)

lemma env_line_pair:
  assumes "plain_pair k v"
  shows "env_line (k @ ''='' @ v) = Some (k, v)"
proof -
  from assms have k: "k \<noteq> []" "list_all name_char k" and v: "trim_space v = v" "strip_quotes v = v"
    by (auto simp: plain_pair_def plain_value_def)
  have hd: "name_char (hd k)" using k by (auto simp: list_all_iff)
  have t: "trim_space (k @ ''='' @ v) = k @ ''='' @ v"
  proof (rule trim_space_fix, rule disjI2, rule conjI)
    show "\<not> is_space (hd (k @ ''='' @ v))" using hd k name_not_space by simp
    show "\<not> is_space (last (k @ ''='' @ v))"
      using trim_space_ends [OF v(1)] by (cases "v = []") (auto simp: is_space_def)
  qed
  have e: "trim_prefix ''export '' (k @ ''='' @ v) = k @ ''='' @ v"
  proof -
    have "cut_prefix ''export '' (k @ ''='' @ v) = None"
    proof (rule ccontr)
      assume "cut_prefix ''export '' (k @ ''='' @ v) \<noteq> None"
      then obtain t where "k @ ''='' @ v = ''export '' @ t" by (auto simp: cut_prefix_Some_iff)
      then have "CHR '' '' \<in> set k \<or> CHR ''='' \<in> set ''export ''"
        by (auto simp: append_eq_append_conv2 append_eq_Cons_conv Cons_eq_append_conv)
      then show False using k name_char_not by (auto simp: list_all_iff)
    qed
    then show ?thesis by (simp add: trim_prefix_def)
  qed
  have "\<not> prefix ''#'' (k @ ''='' @ v)" using hd k(1) name_char_not [of "hd k"] by (cases k) auto
  moreover have "cut_at (CHR ''='') (k @ ''='' @ v) = Some (k, v)"
    using cut_at_append [of "CHR ''=''" k v] k(2) name_char_not by (force simp: list_all_iff)
  moreover have "trim_space k = k" using k name_not_space by (intro trim_space_id) (auto simp: list_all_iff)
  ultimately show ?thesis using t e v k by (simp add: env_line_def)
qed

lemma scan_lines_line:
  "CHR 0x0A \<notin> set l \<Longrightarrow> length l \<le> max_line \<Longrightarrow> scan_lines (l @ lf @ r) = drop_cr l # scan_lines r"
  using cut_at_append [of "CHR 0x0A" l r] by (subst scan_lines.simps) (simp add: lf_def)

lemma scan_lines_Nil [simp]: "scan_lines [] = []"
  by (subst scan_lines.simps) simp

lemma scan_line_pair:
  assumes "plain_pair k v"
  shows "scan_lines (k @ ''='' @ v @ lf @ rest) = (k @ ''='' @ v) # scan_lines rest"
proof -
  let ?l = "k @ ''='' @ v"
  have n: "CHR 0x0A \<notin> set ?l"
    using assms name_char_not by (auto simp: plain_pair_def plain_value_def list_all_iff)
  have d: "drop_cr ?l = ?l"
    using assms trim_space_ends [of v] by (cases "v = []") (auto simp: drop_cr_def plain_pair_def plain_value_def is_space_def)
  have "length ?l \<le> max_line" using assms by (simp add: plain_pair_def)
  from scan_lines_line [OF n this, of rest] d show ?thesis by simp
qed

lemma scan_secrets:
  "\<forall>k \<in> set ks. plain_pair k (g k) \<Longrightarrow>
     scan_lines (concat (map (\<lambda>k. k @ ''='' @ g k @ lf) ks)) = map (\<lambda>k. k @ ''='' @ g k) ks"
  by (induction ks) (simp_all add: scan_line_pair [simplified])

lemma fold_update_keys:
  "map_of (fold (\<lambda>k m. AList.update k (g k) m) ks m0) = (\<lambda>k. if k \<in> set ks then Some (g k) else map_of m0 k)"
  by (induction ks arbitrary: m0) (auto simp: update_conv' fun_eq_iff)

text \<open>
  A secrets file written from names and values that are plain reads back, by the parser of the
  \<open>--env\<close> files, as exactly the map it was written from.
\<close>

theorem secrets_read_back:
  assumes "\<forall>k v. map_of env k = Some v \<longrightarrow> plain_pair k v"
  shows "map_of (parse_env_file (secrets_text env) []) = map_of env"
proof -
  let ?g = "\<lambda>k. the (map_of env k)" and ?ks = "sort (remdups (map fst env))"
  have p: "\<forall>k \<in> set ?ks. plain_pair k (?g k)"
    using assms by (auto simp: weak_map_of_SomeI split: option.splits)
  have "parse_env_file (secrets_text env) []
      = fold (\<lambda>l m. case env_line l of None \<Rightarrow> m | Some (k, v) \<Rightarrow> AList.update k v m) (map (\<lambda>k. k @ ''='' @ ?g k) ?ks) []"
    unfolding parse_env_file_def secrets_text_def scan_secrets [OF p] ..
  also have "\<dots> = fold (\<lambda>k m. AList.update k (?g k) m) ?ks []"
    unfolding fold_map comp_def using p by (intro fold_cong) (auto simp: env_line_pair [simplified])
  finally have "map_of (parse_env_file (secrets_text env) []) k = (if k \<in> set ?ks then Some (?g k) else None)" for k
    by (simp add: fold_update_keys)
  moreover have "k \<in> set ?ks \<longleftrightarrow> map_of env k \<noteq> None" for k by (simp add: map_of_eq_None_iff)
  ultimately show ?thesis by (auto simp: fun_eq_iff)
qed

text \<open>
  What is not plain is written raw as well: of a value of several lines only the first is read back,
  and a line that does not fit the scanner ends the file without an error.
\<close>

lemma multiline_secret_lost:
  "map_of (parse_env_file (secrets_text [(''K'', ''a'' @ lf @ ''b'')]) []) ''K'' = Some ''a''"
proof -
  have s: "scan_lines (''K=a'' @ lf @ ''b'' @ lf @ []) = [''K=a'', ''b'']"
    by (simp add: scan_lines_line [simplified] drop_cr_def max_line_def del: append_Nil2 append_Cons append_Nil)
  have "secrets_text [(''K'', ''a'' @ lf @ ''b'')] = ''K=a'' @ lf @ ''b'' @ lf @ []"
    by (simp add: secrets_text_def)
  moreover have "env_line ''K=a'' = Some (''K'', ''a'')" "env_line ''b'' = None" by code_simp+
  ultimately show ?thesis unfolding parse_env_file_def by (simp only: s) simp
qed

lemma long_line_ends_scan:
  "CHR 0x0A \<notin> set l \<Longrightarrow> length l > max_line \<Longrightarrow> scan_lines (l @ lf @ r) = []"
  using cut_at_append [of "CHR 0x0A" l r] by (subst scan_lines.simps) (simp add: lf_def)

section \<open>What is shipped\<close>

text \<open>
  What the command relies on of the YAML library: the strict decoder reads every printed entry of
  \<open>auth.tokens\<close> as it was given.
\<close>

definition reads_tokens :: "ci_lib \<Rightarrow> bool" where
  "reads_tokens y \<longleftrightarrow> (\<forall>m a ts i n h ps t c.
     map_of m ''auth'' = Some (JObj a) \<and> map_of a ''tokens'' = Some (JArr ts)
     \<and> JObj [(''id'', JStr i), (''name'', JStr n), (''sha256'', JStr h), (''permissions'', JArr (map JStr ps))] \<in> set ts
     \<and> cy_marshal y (JObj m) = Inr t \<and> cy_decode y t = Inr c
     \<longrightarrow> \<lparr>tg_id = i, tg_name = n, tg_sha256 = h, tg_permissions = ps\<rparr> \<in> set (cf_tokens c))"

lemma reads_tokensD:
  assumes "reads_tokens y" and "map_of m ''auth'' = Some (JObj a)" and "map_of a ''tokens'' = Some (JArr ts)"
    and "token_json rec (map perm_name (tk_perms rec)) \<in> set ts"
    and "cy_marshal y (JObj m) = Inr t" and "cy_decode y t = Inr c"
  shows "token_entry rec \<in> set (cf_tokens c)"
  using assms(1) [unfolded reads_tokens_def, rule_format, of m a ts "tk_id rec" "tk_name rec" "hex (tk_sha rec)"
      "map perm_name (tk_perms rec)" t c] assms(2-6)
  by (simp add: token_json_def token_entry_def)

lemma injected:
  obtains a ts where "map_of (inject_token rec perms cfg) ''auth'' = Some (JObj a)"
    "map_of a ''tokens'' = Some (JArr (ts @ [token_json rec perms]))"
  using that by (auto simp: inject_token_def Let_def update_conv')

lemma injected_rest: "k \<noteq> ''auth'' \<Longrightarrow> map_of (inject_token rec perms cfg) k = map_of cfg k"
  by (auto simp: inject_token_def Let_def update_conv')

lemma apply_defaults_tokens [simp]: "cf_tokens (apply_defaults c) = cf_tokens c"
  by (simp add: apply_defaults_def)

lemma parse_config_InrE:
  assumes "parse_config decode b = Inr c"
  obtains c0 where "decode b = Inr c0" "c = apply_defaults c0" "config_ok c"
  using assms that by (auto simp: parse_config_def Let_def bindE_Inr_iff validate_config_ok)

definition ci_plaintext :: "ci_opts \<Rightarrow> ci_out \<Rightarrow> string" where
  "ci_plaintext op out = (if ci_token op \<noteq> [] then ci_token op else cu_token out)"

lemma ci_mint_parses:
  assumes "ci_mint y op perms = Inr (shown, rec)" and "length (cy_id_bytes y) = 4" and "cy_secret_bytes y \<noteq> []"
  shows "parse_token (cy_sha y) (if ci_token op \<noteq> [] then ci_token op else shown) (ci_token_name op) perms = Inr rec"
  using assms parse_generated [of "cy_sha y" "ci_token_name op" perms "cy_id_bytes y" "cy_secret_bytes y" shown rec]
  by (auto simp: ci_mint_def bindE_Inr_iff split: if_splits)

text \<open>The steps of a successful run.\<close>

lemma render_InrE:
  assumes "render_cloud_init y op = Inr out"
  obtains pkgs perms rec cfg shipped parsed ws body where
    "map_of distro_packages (ci_distro op) = Some pkgs"
    "new_perm_set (ci_perms op) = Inr perms"
    "ci_mint y op perms = Inr (cu_token out, rec)"
    "cy_marshal y (JObj (inject_token rec (ci_perms op) cfg)) = Inr shipped"
    "parse_config (cy_decode y) shipped = Inr parsed"
    "rf_missing (ci_scan op (inject_token rec (ci_perms op) cfg) ws) = []"
    "cy_marshal_doc y (cloud_doc pkgs shipped
       (secrets_text (rf_env (ci_scan op (inject_token rec (ci_perms op) cfg) ws))) (install_command (ci_version op))) = Inr body"
    "cu_user_data out = ''#cloud-config'' @ lf @ body"
  using assms that
  by (auto simp: render_cloud_init_def Let_def bindE_Inr_iff split: option.splits prod.splits if_splits)


end
