(* ===== verification/Boot_Witnesses.thy ===== *)
theory Boot_Witnesses
  imports Boot_Laws Scenario
begin

text \<open>
  A configuration with one provider, one class and one minted token, booted on an empty database.
\<close>

definition xb_sha :: "string \<Rightarrow> string" where "xb_sha s = replicate 32 (CHR ''h'')"

definition xb_token :: "string \<times> token_record" where
  "xb_token = generate_token xb_sha ''ci'' [PermAdmin] (replicate 4 (CHR ''a'')) (replicate 32 (CHR ''b''))"

definition xb_class :: class_conf where
  "xb_class = \<lparr>cg_kind = ''storage.volume'', cg_provider = ''p'', cg_spec = BVal (JObj [(''sizeGiB'', JNum 1)]),
     cg_reclaim = Some \<lparr>rg_idle_after = 60 * sec, rg_park = [], rg_delete_after = 0\<rparr>,
     cg_scheduling = Some (Some (5 * sec))\<rparr>"

definition xb_config :: config where
  "xb_config = apply_defaults \<lparr>cf_addr = [], cf_ops_addr = [], cf_shutdown_grace = 0, cf_storage_path = ''db'',
     cf_providers = [(''p'', \<lparr>pg_driver = ''d'', pg_settings = BVal JNull, pg_billing = []\<rparr>)], cf_classes = [(''c'', xb_class)],
     cf_poll_interval = 0, cf_verify_window = 0, cf_interval = 0, cf_max_mutations = 0, cf_pending_timeout = 0,
     cf_discovery_interval = 0, cf_orphan_grace = 0, cf_ghost_policy = [], cf_adopt_unlabeled = [],
     cf_tokens = [token_entry (snd xb_token)]\<rparr>"

definition xb_env :: boot_env where
  "xb_env = \<lparr>be_factories = (\<lambda>_. Some (\<lambda>_. Inr \<lparr>bi_inst = the (pv_instance ex_providers ''p''), bi_driver = ''d'',
       bi_billing = None, bi_parking = None\<rparr>)), be_now = 0, be_ulid = ''01'', be_parse_duration = (\<lambda>_. None), be_dummy = []\<rparr>"

lemma xb_config_ok: "config_ok xb_config"
proof -
  have "validate_config xb_config = Inr ()" by code_simp
  then show ?thesis by (simp add: validate_config_ok)
qed

lemma xb_boots:
  obtains b st where "new_app xb_env xb_config (pc_plane fresh_process) = (Inr b, st)" "bt_owner b = ''own_01''"
proof -
  have "case new_app xb_env xb_config (pc_plane fresh_process) of (Inl _, _) \<Rightarrow> False | (Inr b, _) \<Rightarrow> bt_owner b = ''own_01''"
    by code_simp
  then show ?thesis using that by (auto split: prod.splits sum.splits)
qed


theorem configured_token_authenticates_witness:
  "\<exists>b st p. new_app xb_env xb_config (pc_plane fresh_process) = (Inr b, st)
     \<and> authenticate xb_sha (bt_auth b) (''Bearer '' @ fst xb_token) = Inr p \<and> pn_name p = ''ci'' \<and> pn_perms p = [PermAdmin]"
proof -
  obtain b st where b: "new_app xb_env xb_config (pc_plane fresh_process) = (Inr b, st)" by (rule xb_boots)
  have g: "generate_token xb_sha ''ci'' [PermAdmin] (replicate 4 (CHR ''a'')) (replicate 32 (CHR ''b'')) = (fst xb_token, snd xb_token)"
    by (simp add: xb_token_def)
  have s: "\<forall>x. length (xb_sha x) = 32" by (simp add: xb_sha_def)
  have e: "token_entry (snd xb_token) \<in> set (cf_tokens xb_config)" by (simp add: xb_config_def apply_defaults_def)
  from configured_token_authenticates [OF g _ _ s xb_config_ok e b] b show ?thesis by simp
qed

theorem process_history_witness:
  "\<exists>b st. new_app xb_env xb_config (pc_plane fresh_process) = (Inr b, st) \<and> reachable (pl_db st)
     \<and> bt_owner b = ''own_01'' \<and> proc_reach \<lparr>pc_plane = with_db (pl_db st) st, pc_app = Some b, pc_ready = False\<rparr>"
proof -
  obtain b st where b: "new_app xb_env xb_config (pc_plane fresh_process) = (Inr b, st)" "bt_owner b = ''own_01''"
    by (rule xb_boots)
  let ?p = "\<lparr>pc_plane = st, pc_app = Some b, pc_ready = False\<rparr>"
  have 1: "proc_reach ?p"
    using r_step [OF r_fresh p_boot [OF _ b(1)]] by (simp add: fresh_process_def)
  let ?q = "\<lparr>pc_plane = with_db (pl_db st) st, pc_app = Some b, pc_ready = False\<rparr>"
  have 2: "proc_step ?p ?q"
    using p_startup [of ?p b False 0 "\<lambda>_. ex_sched" 0 False "pl_db st"] by (simp add: startup_def)
  have 3: "proc_step\<^sup>*\<^sup>* ?p ?q" using 2 by blast
  from process_history [OF 1 3] b r_step [OF 1 2] show ?thesis by auto
qed

end
