(* ===== verification/Cloud_Init_Witnesses.thy ===== *)
theory Cloud_Init_Witnesses
  imports Cloud_Init_Laws Boot_Witnesses
begin

text \<open>
  A configuration with one reference, rendered with a minted token and a secrets file, and the control
  plane booted from it.
\<close>

definition xi_opts :: ci_opts where
  "xi_opts = \<lparr>ci_config = ''in'', ci_env_files = [''# s'' @ lf @ ''export T=\"x\"'' @ lf], ci_environ = [(''T'', ''y'')],
     ci_distro = ''debian'', ci_version = [], ci_token = [], ci_token_name = ''ci'', ci_perms = [''admin'']\<rparr>"

definition xi_doc :: "(string \<times> json) list" where
  "xi_doc = [(''s'', JStr ''secret://env/T''),
     (''auth'', JObj [(''tokens'', JArr [token_json (snd xb_token) [''admin'']])])]"

definition xi_lib :: ci_lib where
  "xi_lib = \<lparr>cy_unmarshal = (\<lambda>_. Inr (Some [(''s'', JStr ''secret://env/T'')])),
     cy_marshal = (\<lambda>j. if j = JObj xi_doc then Inr ''cfg'' else Inl (EOther ''marshal'')),
     cy_marshal_doc = (\<lambda>_. Inr ''doc''), cy_decode = (\<lambda>_. Inr xb_config), cy_sha = xb_sha,
     cy_id_bytes = replicate 4 (CHR ''a''), cy_secret_bytes = replicate 32 (CHR ''b'')\<rparr>"

lemma xi_config: "parse_config (cy_decode xi_lib) t = Inr xb_config"
proof -
  have "apply_defaults xb_config = xb_config" by (simp add: xb_config_def apply_defaults_def sec_def ms_def)
  moreover have "validate_config xb_config = Inr ()" using xb_config_ok by (simp add: validate_config_ok)
  ultimately show ?thesis by (simp add: parse_config_def xi_lib_def Let_def)
qed

lemma xi_inject: "inject_token (snd xb_token) [''admin''] [(''s'', JStr ''secret://env/T'')] = xi_doc"
  by (simp add: inject_token_def xi_doc_def)

lemma xi_files: "env_of_files (ci_env_files xi_opts) = [(''T'', ''x'')]"
proof -
  have "scan_lines (''# s'' @ lf @ ''export T=\"x\"'' @ lf @ []) = [''# s'', ''export T=\"x\"'']"
    by (simp add: scan_lines_line [simplified] drop_cr_def max_line_def del: append_Nil2 append_Cons append_Nil)
  then have "scan_lines (hd (ci_env_files xi_opts)) = [''# s'', ''export T=\"x\"'']"
    by (simp add: xi_opts_def)
  moreover have "env_line ''# s'' = None" "env_line ''export T=\"x\"'' = Some (''T'', ''x'')"
    by code_simp+
  ultimately show ?thesis by (simp add: env_of_files_def parse_env_file_def xi_opts_def)
qed

lemma xi_mint: "ci_mint xi_lib xi_opts [PermAdmin] = Inr xb_token"
  by (simp add: ci_mint_def xi_lib_def xi_opts_def xb_token_def)

lemma xi_perms: "new_perm_set (ci_perms xi_opts) = Inr [PermAdmin]"
  by code_simp

lemma xi_scan: "ci_scan xi_opts xi_doc [OutsideStorage ''db''] =
    \<lparr>rf_env = [(''T'', ''x'')], rf_seen = [''T''], rf_missing = [], rf_warnings = [OutsideStorage ''db'']\<rparr>"
  unfolding ci_scan_fold xi_files by code_simp

lemma xi_renders:
  "render_cloud_init xi_lib xi_opts = Inr \<lparr>cu_user_data = ''#cloud-config'' @ lf @ ''doc'', cu_token = fst xb_token,
     cu_warnings = [OutsideStorage ''db'']\<rparr>"
proof -
  have "map_of distro_packages (ci_distro xi_opts) = Some [''curl'', ''tar'', ''ca-certificates'']" by code_simp
  moreover have "cy_unmarshal xi_lib t = Inr (Some [(''s'', JStr ''secret://env/T'')])" for t by (simp add: xi_lib_def)
  moreover have "ci_perms xi_opts = [''admin'']" by (simp add: xi_opts_def)
  moreover have "cy_marshal xi_lib (JObj xi_doc) = Inr ''cfg''" "cy_marshal_doc xi_lib d = Inr ''doc''" for d
    by (simp_all add: xi_lib_def)
  moreover have "cf_storage_path xb_config = ''db''" by (simp add: xb_config_def apply_defaults_def)
  ultimately show ?thesis
    by (simp add: render_cloud_init_def xi_perms [unfolded xi_opts_def, simplified] xi_perms xi_mint xi_inject xi_config xi_scan
        split_beta Let_def)
qed

lemma xi_reads: "reads_tokens xi_lib"
proof -
  have "map_of xi_doc ''auth'' = Some (JObj [(''tokens'', JArr [token_json (snd xb_token) [''admin'']])])"
    by (simp add: xi_doc_def)
  moreover have "cf_tokens xb_config = [token_entry (snd xb_token)]" by (simp add: xb_config_def apply_defaults_def)
  moreover have "tk_perms (snd xb_token) = [PermAdmin]" by (simp add: xb_token_def generate_token_def Let_def)
  ultimately show ?thesis
    by (auto simp: reads_tokens_def xi_lib_def token_json_def token_entry_def split: if_splits)
qed


theorem secrets_read_back_witness:
  "map_of (parse_env_file (secrets_text [(''B_2'', ''y z''), (''A'', [])]) []) = [''B_2'' \<mapsto> ''y z'', ''A'' \<mapsto> []]"
proof -
  have p: "plain_pair ''B_2'' ''y z''" "plain_pair ''A'' []"
    by (simp_all add: plain_pair_def plain_value_def name_char_def ascii_simps char_less_eq_nat max_line_def
        trim_space_def is_space_def strip_quotes_def is_quote_def)
  have "map_of (parse_env_file (secrets_text [(''B_2'', ''y z''), (''A'', [])]) []) = map_of [(''B_2'', ''y z''), (''A'', [])]"
    by (rule secrets_read_back) (use p in \<open>auto split: if_splits\<close>)
  then show ?thesis by auto
qed

end
