(* ===== verification/Fake_Volumes.thy ===== *)
theory Fake_Volumes
  imports Fake_Provider
begin

text \<open>
  The volume driver of the in-tree fake provider (providers/fake/volumes.go): a second kind of
  resource behind the same interface, synchronous and without lag, on the state of the fake
  provider. Neither the rate limits nor the faults injected into the machine driver reach it.
\<close>

definition volume_kind :: string where "volume_kind = ''storage.volume''"

section \<open>Create parameters\<close>

record vol_params =
  vp_name :: string
  vp_spec :: volume_spec
  vp_labels :: labels

definition encode_volume :: "volume_spec \<Rightarrow> json" where
  "encode_volume v = JObj ([(''sizeGiB'', JNum (vo_size_gib v))] @ omit_str ''zone'' (vo_zone v)
     @ omit_str ''filesystem'' (vo_filesystem v))"

definition encode_vol_params :: "vol_params \<Rightarrow> json" where
  "encode_vol_params p = JObj [(''name'', JStr (vp_name p)), (''spec'', encode_volume (vp_spec p)),
     (''labels'', encode_labels (vp_labels p))]"

definition decode_volume :: "(string \<times> json) list \<Rightarrow> err + volume_spec" where
  "decode_volume flds =
     bindE (get_int (jfield ''sizeGiB'' flds)) (\<lambda>n.
     bindE (get_str (jfield ''zone'' flds)) (\<lambda>z.
     bindE (get_str (jfield ''filesystem'' flds)) (\<lambda>f.
     Inr \<lparr>vo_size_gib = n, vo_zone = z, vo_filesystem = f\<rparr>)))"

definition decode_vol_params :: "json blob \<Rightarrow> err + vol_params" where
  "decode_vol_params raw =
     (case raw of
        BVal (JObj fs) \<Rightarrow>
          bindE (get_str (jfield ''name'' fs)) (\<lambda>n.
          bindE (case jfield ''spec'' fs of
              JNull \<Rightarrow> decode_volume []
            | JObj sfs \<Rightarrow> decode_volume sfs
            | _ \<Rightarrow> Inl bad_type) (\<lambda>v.
          bindE (get_labels (jfield ''labels'' fs)) (\<lambda>ls.
          Inr \<lparr>vp_name = n, vp_spec = v, vp_labels = ls\<rparr>)))
      | BVal JNull \<Rightarrow> bindE (decode_volume []) (\<lambda>v. Inr \<lparr>vp_name = [], vp_spec = v, vp_labels = []\<rparr>)
      | _ \<Rightarrow> Inl bad_type)"

lemma vol_params_roundtrip: "decode_vol_params (BVal (encode_vol_params p)) = Inr p"
  by (cases p; cases "vp_spec p")
    (auto simp: encode_vol_params_def decode_vol_params_def encode_volume_def decode_volume_def omit_str_def
      jfield_Cons jfield_append)

section \<open>The driver\<close>

definition vol_owned :: "fake \<Rightarrow> vol_object \<Rightarrow> bool" where
  "vol_owned f x = (lab (vb_labels x) label_managed = ''true'' \<and> lab (vb_labels x) label_owner = fk_owner f)"

definition vol_observe :: "fake \<Rightarrow> vol_object \<Rightarrow> observed_resource" where
  "vol_observe f x =
     \<lparr>ob_ref = \<lparr>ref_id = vb_id x, ref_extra = []\<rparr>, ob_kind = volume_kind,
      ob_fleetplane_id = lab (vb_labels x) label_id, ob_create_op_id = lab (vb_labels x) label_op,
      ob_owned = vol_owned f x, ob_phase = (if vb_gone x then PhaseGone else PhaseRunning),
      ob_provider_state = (if vb_gone x then ''gone'' else ''available''),
      ob_capacity = [(''storageGiB'', vo_size_gib (vb_spec x))], ob_addresses = [],
      ob_labels = vb_labels x,
      ob_extensions = BVal (JObj [(''fake'', JBool True), (''filesystem'', JStr (vo_filesystem (vb_spec x))),
        (''volume'', JStr (vb_name x))])\<rparr>"

definition vol_find :: "string \<Rightarrow> fake \<Rightarrow> vol_object option" where
  "vol_find i f = (case tget vb_id i (fk_volumes f) of
     None \<Rightarrow> None | Some x \<Rightarrow> (if vb_gone x then None else Some x))"

definition vol_discover :: "discover_scope \<Rightarrow> labels \<Rightarrow> (fake, observed_resource list) io" where
  "vol_discover scope sel f =
     (Inr (map (vol_observe f) (filter (\<lambda>x. \<not> vb_gone x \<and> (scope = ScopeAll \<or> vol_owned f x)
        \<and> labels_match (vb_labels x) sel) (fk_volumes f))), f)"

definition vol_get :: "ext_ref \<Rightarrow> (fake, observed_resource) io" where
  "vol_get ref f =
     ((case vol_find (ref_id ref) f of None \<Rightarrow> Inl fake_not_found | Some x \<Rightarrow> Inr (vol_observe f x)), f)"

definition vol_plan :: "string \<Rightarrow> desired_state \<Rightarrow> err + action list" where
  "vol_plan rid ds =
     (case volume_parse_spec (ds_spec ds) of
        Inl e \<Rightarrow> Inl (fake_err ErrInvalid EffectNone 0 ''invalid spec'')
      | Inr spec \<Rightarrow>
          Inr [\<lparr>ac_action_id = [], ac_kind = ''create'', ac_resource_id = rid, ac_ref = None,
                ac_params = BVal (encode_vol_params \<lparr>vp_name = ds_name ds, vp_spec = spec, vp_labels = ds_labels ds\<rparr>),
                ac_destructive = False\<rparr>])"

definition vol_with_op :: "string \<Rightarrow> vol_object \<Rightarrow> bool" where
  "vol_with_op oid x \<longleftrightarrow> \<not> vb_gone x \<and> lab (vb_labels x) label_op = oid"

definition vol_create :: "action \<Rightarrow> (fake, operation_ref) io" where
  "vol_create act f =
     (case decode_vol_params (ac_params act) of
        Inl e \<Rightarrow> (Inl (fake_err ErrInvalid EffectNone 0 ''malformed volume params''), f)
      | Inr p \<Rightarrow>
          (case find (vol_with_op (ac_action_id act)) (fk_volumes f) of
             Some x \<Rightarrow> (Inr (ref_of act (vb_id x)), f)
           | None \<Rightarrow>
               (let i = ''vol-'' @ digits (9000 + (fk_seq f + 1)) in
                (Inr (ref_of act i),
                 f\<lparr>fk_seq := fk_seq f + 1, fk_volumes := fk_volumes f @
                   [\<lparr>vb_id = i, vb_name = vp_name p, vb_gone = False, vb_spec = vp_spec p, vb_labels = vp_labels p\<rparr>]\<rparr>))))"

definition vol_delete :: "action \<Rightarrow> (fake, operation_ref) io" where
  "vol_delete act f =
     (case ac_ref act of
        None \<Rightarrow> (Inl (fake_err ErrInvalid EffectNone 0 ''delete requires a ref''), f)
      | Some ref \<Rightarrow>
          (Inr \<lparr>or_action_id = ac_action_id act, or_ref = Some ref, or_data = BNil\<rparr>,
           f\<lparr>fk_volumes := tupd vb_id (ref_id ref) (\<lambda>x. x\<lparr>vb_gone := True\<rparr>) (fk_volumes f)\<rparr>))"

definition vol_apply :: "action \<Rightarrow> (fake, operation_ref) io" where
  "vol_apply act f =
     (if ac_kind act = ''create'' then vol_create act f
      else if ac_kind act = ''delete'' then vol_delete act f
      else (Inl (fake_err ErrInvalid EffectNone 0 ''unknown action kind''), f))"

definition vol_observe_op :: "operation_ref \<Rightarrow> (fake, operation_status) io" where
  "vol_observe_op oref f =
     ((case or_ref oref of
         None \<Rightarrow> Inr (status PsUnknown None None 0)
       | Some ref \<Rightarrow>
           (case vol_find (ref_id ref) f of
              None \<Rightarrow> Inl fake_not_found
            | Some x \<Rightarrow> Inr (status PsSucceeded (Some ref) (Some (vol_observe f x)) 0))), f)"

section \<open>The contract\<close>

definition vol_lookup :: "action \<Rightarrow> fake \<Rightarrow> ext_ref option \<times> fake" where
  "vol_lookup act f =
     (map_option (\<lambda>x. \<lparr>ref_id = vb_id x, ref_extra = []\<rparr>) (find (vol_with_op (ac_action_id act)) (fk_volumes f)), f)"

lemma vol_create_answer: "vol_create act f = (Inr oref, g) \<Longrightarrow> or_action_id oref = ac_action_id act"
  by (auto simp: vol_create_def ref_of_def Let_def split: sum.splits option.splits)

lemma vol_errors_keep: "vol_create act f = (Inl e, g) \<Longrightarrow> g = f" "vol_delete act f = (Inl e, g) \<Longrightarrow> g = f"
  by (auto simp: vol_create_def vol_delete_def Let_def split: sum.splits option.splits)

text \<open>The volume driver honours the contract of a driver, with the volumes as what it changes.\<close>

interpretation volumes: truthful_driver "[''create'', ''delete'']" vol_apply vol_lookup
    "\<lambda>act. is_ok (decode_vol_params (ac_params act))" fk_volumes True
proof (unfold_locales, goal_cases)
  case (1 act s ref t)
  then show ?case
    by (auto simp: vol_apply_def vol_create_def vol_lookup_def ref_of_def same_ref_def is_ok_def split: sum.splits)
next
  case (2 act s)
  then show ?case by (auto simp: vol_apply_def vol_create_def is_ok_def split: sum.splits)
next
  case (3 act s)
  then show ?case by (simp add: vol_apply_def)
next
  case (4 act s oref t)
  then show ?case
    using vol_create_answer [of act s oref t]
    by (auto simp: vol_apply_def vol_delete_def split: if_split_asm option.splits)
next
  case (5 oid)
  then show ?case by (simp add: keeps_def vol_lookup_def)
next
  case (6 act)
  then show ?case by (auto simp: truthful_def vol_apply_def dest: vol_errors_keep split: if_split_asm)
qed

end
