(* ===== verification/Driver_Setup.thy ===== *)
theory Driver_Setup
  imports Clouds Boot Fake_Volumes
begin

text \<open>
  Where the driver instances come from: the settings block of each driver, its constructor \<open>New\<close>, what
  it tells of itself (\<open>Descriptor\<close>, \<open>Capabilities\<close>, \<open>ResourceDriver\<close>), its \<open>Plan\<close>, and the registry of
  the compiled drivers (pkg/sdk/provider/registry.go, cmd/fleetplane/modules.go). The constructor of a
  cloud's client library is an argument; it gets the options the code sets and gives the calls the
  driver makes. The summary lines of a plan and the values in messages are left out.
\<close>

section \<open>The environment of a constructor\<close>

text \<open>
  \<open>Secrets.Resolve\<close>, the text of a duration and of a fractional number (\<open>strconv.ParseFloat\<close>; the
  integers a \<open>float64\<close> holds exactly are themselves), the clock, and the bound on pages of the models.
\<close>

record setup_env =
  se_resolve :: "string \<Rightarrow> err + string"
  se_float :: "string \<Rightarrow> rat option"
  se_duration :: "string \<Rightarrow> int option"
  se_show :: "int \<Rightarrow> string"
  se_parse_time :: "string \<Rightarrow> int option"
  se_now :: int
  se_pages :: nat

fun get_rat :: "(string \<Rightarrow> rat option) \<Rightarrow> json \<Rightarrow> err + rat" where
  "get_rat pf JNull = Inr 0"
| "get_rat pf (JNum n) = Inr (of_int n)"
| "get_rat pf (JReal s) = (case pf s of None \<Rightarrow> Inl bad_type | Some r \<Rightarrow> Inr r)"
| "get_rat pf _ = Inl bad_type"

definition get_strs :: "json \<Rightarrow> err + string list" where
  "get_strs j = (case j of JNull \<Rightarrow> Inr [] | JArr js \<Rightarrow> each_map get_str js | _ \<Rightarrow> Inl bad_type)"

text \<open>An absent settings block and \<open>null\<close> are the zero settings.\<close>

definition settings_of :: "(json \<Rightarrow> err + 'a) \<Rightarrow> 'a \<Rightarrow> json blob \<Rightarrow> err + 'a" where
  "settings_of dec zero raw =
     (case raw of
        BNil \<Rightarrow> Inr zero
      | BBad \<Rightarrow> Inl (invalid_err ''settings'')
      | BVal j \<Rightarrow> (if j = JNull then Inr zero
          else case dec j of Inl _ \<Rightarrow> Inl (invalid_err ''settings'') | Inr s \<Rightarrow> Inr s))"

text \<open>A value that is not a reference is used as it stands.\<close>

definition reveal :: "setup_env \<Rightarrow> string \<Rightarrow> err + string" where
  "reveal env ref =
     (if \<not> is_ref ref then Inr ref
      else case se_resolve env ref of Inl _ \<Rightarrow> Inl (invalid_err ''secret reference'') | Inr v \<Rightarrow> Inr v)"

definition fresh_state :: "rat \<Rightarrow> 'w \<Rightarrow> 'w dstate" where
  "fresh_state rps w = \<lparr>dt_pacer = pacer_new rps, dt_cloud = w\<rparr>"

text \<open>\<open>Descriptor\<close>.\<close>

record descriptor =
  de_driver :: string
  de_instance :: string
  de_version :: string
  de_kinds :: "string list"
  de_label_discovery :: bool

definition plan_delete :: "string \<Rightarrow> observed_resource \<Rightarrow> action list" where
  "plan_delete rid obs = [\<lparr>ac_action_id = [], ac_kind = ''delete'', ac_resource_id = rid,
     ac_ref = Some (ob_ref obs), ac_params = BNil, ac_destructive = True\<rparr>]"

section \<open>Hetzner\<close>

record hz_settings =
  hset_token :: string
  hset_location :: string
  hset_endpoint :: string
  hset_rps :: rat
  hset_burst :: int
  hset_max_conc :: int

definition zero_hz_settings :: hz_settings where
  "zero_hz_settings = \<lparr>hset_token = [], hset_location = [], hset_endpoint = [], hset_rps = 0, hset_burst = 0, hset_max_conc = 0\<rparr>"

definition decode_hz_settings :: "(string \<Rightarrow> rat option) \<Rightarrow> json \<Rightarrow> err + hz_settings" where
  "decode_hz_settings pf = struct False [] zero_hz_settings (\<lambda>fs.
     bindE (get_str (jval ''token'' fs)) (\<lambda>t.
     bindE (get_str (jval ''location'' fs)) (\<lambda>l.
     bindE (get_str (jval ''endpoint'' fs)) (\<lambda>ep.
     bindE (get_rat pf (jval ''rps'' fs)) (\<lambda>r.
     bindE (get_i64 (jval ''burst'' fs)) (\<lambda>b.
     bindE (get_i64 (jval ''maxConcurrent'' fs)) (\<lambda>m.
     Inr \<lparr>hset_token = t, hset_location = l, hset_endpoint = ep, hset_rps = r, hset_burst = b, hset_max_conc = m\<rparr>)))))))"

text \<open>The options of \<open>hcloud.NewClient\<close>: the token, the retries of the library, an endpoint.\<close>

record hz_options =
  ho_token :: string
  ho_max_retries :: nat
  ho_application :: "string \<times> string"
  ho_endpoint :: "string option"

definition given :: "string \<Rightarrow> string option" where
  "given s = (if s = [] then None else Some s)"

definition new_hetzner ::
    "setup_env \<Rightarrow> (hz_options \<Rightarrow> 'w hz_api) \<Rightarrow> 'w \<Rightarrow> instance_config \<Rightarrow> err + 'w hetzner \<times> 'w dstate" where
  "new_hetzner env client w cfg =
     bindE (settings_of (decode_hz_settings (se_float env)) zero_hz_settings (ic_settings cfg)) (\<lambda>s.
     if hset_token s = [] then Inl (invalid_err ''hetzner: token is required'')
     else bindE (reveal env (hset_token s)) (\<lambda>token.
     Inr (\<lparr>hz_api = client \<lparr>ho_token = token, ho_max_retries = 0, ho_application = (''fleetplane'', ''v1alpha1''),
              ho_endpoint = given (hset_endpoint s)\<rparr>,
           hz_owner = ic_owner cfg, hz_location = hset_location s, hz_now = se_now env\<rparr>,
          fresh_state (hset_rps s) w)))"

definition hz_descriptor :: "string \<Rightarrow> descriptor" where
  "hz_descriptor inst = \<lparr>de_driver = ''hetzner'', de_instance = inst, de_version = ''hcloud-go/v2'',
     de_kinds = [compute_kind], de_label_discovery = True\<rparr>"

definition hz_capabilities :: "string list" where
  "hz_capabilities = [''compute.machine.create'']"

definition hz_plan ::
    "(string \<Rightarrow> int option) \<Rightarrow> (int \<Rightarrow> string) \<Rightarrow> string \<Rightarrow> desired_state option \<Rightarrow> observed_resource option
      \<Rightarrow> err + action list" where
  "hz_plan pd show_d rid desired observed =
     (case (desired, observed) of
        (Some ds, None) \<Rightarrow> plan_create pd show_d rid ds
      | (None, Some obs) \<Rightarrow> Inr (plan_delete rid obs)
      | _ \<Rightarrow> Inr [])"

text \<open>The driver's answers in a state, as the record the kernel calls.\<close>

definition hz_driver ::
    "(string \<Rightarrow> int option) \<Rightarrow> (int \<Rightarrow> string) \<Rightarrow> 'w hetzner \<Rightarrow> 'w dstate \<Rightarrow> driver" where
  "hz_driver pd show_d d s =
     \<lparr>dr_plan = (\<lambda>rid ds. hz_plan pd show_d rid (Some ds) None),
      dr_apply = (\<lambda>act. fst (hz_apply pd d act s)),
      dr_observe = (\<lambda>oref. fst (hz_observe_op d oref s)),
      dr_get = (\<lambda>ref. fst (hz_get d ref s)),
      dr_discover = (\<lambda>scope sel. fst (hz_discover d scope sel s))\<rparr>"

definition hz_resource_driver ::
    "(string \<Rightarrow> int option) \<Rightarrow> (int \<Rightarrow> string) \<Rightarrow> 'w hetzner \<Rightarrow> 'w dstate \<Rightarrow> string \<Rightarrow> driver option" where
  "hz_resource_driver pd show_d d s kind =
     (if kind \<noteq> compute_kind then None else Some (hz_driver pd show_d d s))"

text \<open>An instance as the kernel holds it.\<close>

definition instance_of :: "descriptor \<Rightarrow> (string \<Rightarrow> driver option) \<Rightarrow> provider_inst" where
  "instance_of de drv = \<lparr>pi_kinds = de_kinds de, pi_label_discovery = de_label_discovery de, pi_driver = drv\<rparr>"

definition hz_factory ::
    "setup_env \<Rightarrow> (hz_options \<Rightarrow> 'w hz_api) \<Rightarrow> 'w \<Rightarrow> instance_config \<Rightarrow> err + built" where
  "hz_factory env client w cfg =
     bindE (new_hetzner env client w cfg) (\<lambda>(d, s).
     Inr \<lparr>bi_inst = instance_of (hz_descriptor (ic_instance cfg))
            (hz_resource_driver (se_duration env) (se_show env) d s),
          bi_driver = ''hetzner'', bi_billing = Some hz_billing, bi_parking = None\<rparr>)"

section \<open>DigitalOcean\<close>

record do_settings =
  dset_token :: string
  dset_region :: string
  dset_endpoint :: string
  dset_rps :: rat
  dset_burst :: int
  dset_max_conc :: int

definition zero_do_settings :: do_settings where
  "zero_do_settings = \<lparr>dset_token = [], dset_region = [], dset_endpoint = [], dset_rps = 0, dset_burst = 0, dset_max_conc = 0\<rparr>"

definition decode_do_settings :: "(string \<Rightarrow> rat option) \<Rightarrow> json \<Rightarrow> err + do_settings" where
  "decode_do_settings pf = struct False [] zero_do_settings (\<lambda>fs.
     bindE (get_str (jval ''token'' fs)) (\<lambda>t.
     bindE (get_str (jval ''region'' fs)) (\<lambda>l.
     bindE (get_str (jval ''endpoint'' fs)) (\<lambda>ep.
     bindE (get_rat pf (jval ''rps'' fs)) (\<lambda>r.
     bindE (get_i64 (jval ''burst'' fs)) (\<lambda>b.
     bindE (get_i64 (jval ''maxConcurrent'' fs)) (\<lambda>m.
     Inr \<lparr>dset_token = t, dset_region = l, dset_endpoint = ep, dset_rps = r, dset_burst = b, dset_max_conc = m\<rparr>)))))))"

text \<open>
  \<open>godo.New\<close> gets an HTTP client whose transport sets the authorization header of every request, and
  fails on a base URL it cannot parse; that error is returned as it is.
\<close>

record do_options =
  oo_authorization :: string
  oo_timeout :: int
  oo_user_agent :: string
  oo_base_url :: "string option"

definition token_transport :: "string \<Rightarrow> string" where
  "token_transport token = ''Bearer '' @ token"

definition new_digital_ocean ::
    "setup_env \<Rightarrow> (do_options \<Rightarrow> err + 'w do_api) \<Rightarrow> 'w \<Rightarrow> instance_config \<Rightarrow> err + 'w digital_ocean \<times> 'w dstate" where
  "new_digital_ocean env client w cfg =
     bindE (settings_of (decode_do_settings (se_float env)) zero_do_settings (ic_settings cfg)) (\<lambda>s.
     if dset_token s = [] then Inl (invalid_err ''digitalocean: token is required'')
     else bindE (reveal env (dset_token s)) (\<lambda>token.
     bindE (client \<lparr>oo_authorization = token_transport token, oo_timeout = 60 * sec,
              oo_user_agent = ''fleetplane/v1alpha1'', oo_base_url = given (dset_endpoint s)\<rparr>) (\<lambda>api.
     Inr (\<lparr>do_api = api, do_owner = ic_owner cfg, do_region = dset_region s, do_now = se_now env,
           do_max_pages = se_pages env\<rparr>,
          fresh_state (dset_rps s) w))))"

definition do_descriptor :: "string \<Rightarrow> descriptor" where
  "do_descriptor inst = \<lparr>de_driver = ''digitalocean'', de_instance = inst, de_version = ''godo'',
     de_kinds = [compute_kind], de_label_discovery = True\<rparr>"

definition do_capabilities :: "string list" where
  "do_capabilities = [''compute.machine.create'']"

definition do_plan ::
    "(string \<Rightarrow> int option) \<Rightarrow> (int \<Rightarrow> string) \<Rightarrow> string \<Rightarrow> desired_state option \<Rightarrow> observed_resource option
      \<Rightarrow> err + action list" where
  "do_plan pd show_d rid desired observed =
     (case (desired, observed) of
        (Some ds, None) \<Rightarrow> plan_create pd show_d rid ds
      | (None, Some obs) \<Rightarrow> Inr (plan_delete rid obs)
      | _ \<Rightarrow> Inr [])"

definition do_driver ::
    "(string \<Rightarrow> int option) \<Rightarrow> (int \<Rightarrow> string) \<Rightarrow> 'w digital_ocean \<Rightarrow> 'w dstate \<Rightarrow> driver" where
  "do_driver pd show_d d s =
     \<lparr>dr_plan = (\<lambda>rid ds. do_plan pd show_d rid (Some ds) None),
      dr_apply = (\<lambda>act. fst (do_apply pd d act s)),
      dr_observe = (\<lambda>oref. fst (do_observe_op d oref s)),
      dr_get = (\<lambda>ref. fst (do_get d ref s)),
      dr_discover = (\<lambda>scope sel. fst (do_discover d scope sel s))\<rparr>"

definition do_resource_driver ::
    "(string \<Rightarrow> int option) \<Rightarrow> (int \<Rightarrow> string) \<Rightarrow> 'w digital_ocean \<Rightarrow> 'w dstate \<Rightarrow> string \<Rightarrow> driver option" where
  "do_resource_driver pd show_d d s kind =
     (if kind \<noteq> compute_kind then None else Some (do_driver pd show_d d s))"

definition do_factory ::
    "setup_env \<Rightarrow> (do_options \<Rightarrow> err + 'w do_api) \<Rightarrow> 'w \<Rightarrow> instance_config \<Rightarrow> err + built" where
  "do_factory env client w cfg =
     bindE (new_digital_ocean env client w cfg) (\<lambda>(d, s).
     Inr \<lparr>bi_inst = instance_of (do_descriptor (ic_instance cfg))
            (do_resource_driver (se_duration env) (se_show env) d s),
          bi_driver = ''digitalocean'', bi_billing = Some do_billing, bi_parking = None\<rparr>)"

end
