(* ===== verification/Cloud_Setup.thy ===== *)
theory Cloud_Setup
  imports Driver_Setup
begin

text \<open>
  The constructors of the GCP, AWS, Docker and fake drivers, and the registry of the compiled drivers
  (providers/gcp/gcp.go, providers/aws/aws.go, providers/docker/docker.go, providers/fake/fake.go).
\<close>

section \<open>GCP\<close>

record gcp_settings =
  gset_project :: string
  gset_zone :: string
  gset_network :: string
  gset_subnetwork :: string
  gset_credentials :: string
  gset_endpoint :: string
  gset_rps :: rat
  gset_burst :: int
  gset_max_conc :: int

definition zero_gcp_settings :: gcp_settings where
  "zero_gcp_settings = \<lparr>gset_project = [], gset_zone = [], gset_network = [], gset_subnetwork = [],
     gset_credentials = [], gset_endpoint = [], gset_rps = 0, gset_burst = 0, gset_max_conc = 0\<rparr>"

definition decode_gcp_settings :: "(string \<Rightarrow> rat option) \<Rightarrow> json \<Rightarrow> err + gcp_settings" where
  "decode_gcp_settings pf = struct False [] zero_gcp_settings (\<lambda>fs.
     bindE (get_str (jval ''project'' fs)) (\<lambda>pr.
     bindE (get_str (jval ''zone'' fs)) (\<lambda>z.
     bindE (get_str (jval ''network'' fs)) (\<lambda>nw.
     bindE (get_str (jval ''subnetwork'' fs)) (\<lambda>sn.
     bindE (get_str (jval ''credentialsJson'' fs)) (\<lambda>c.
     bindE (get_str (jval ''endpoint'' fs)) (\<lambda>ep.
     bindE (get_rat pf (jval ''rps'' fs)) (\<lambda>r.
     bindE (get_i64 (jval ''burst'' fs)) (\<lambda>b.
     bindE (get_i64 (jval ''maxConcurrent'' fs)) (\<lambda>m.
     Inr \<lparr>gset_project = pr, gset_zone = z, gset_network = nw, gset_subnetwork = sn, gset_credentials = c,
          gset_endpoint = ep, gset_rps = r, gset_burst = b, gset_max_conc = m\<rparr>))))))))))"

text \<open>
  How the compute service is authorised: not at all at a test endpoint, with the credentials the auth
  library detects in the resolved key, or with what the environment provides.
\<close>

datatype 'c gcp_auth = GcpTestEndpoint string | GcpKey 'c | GcpAmbient

definition gcp_auth_of ::
    "setup_env \<Rightarrow> (string \<Rightarrow> err + 'c) \<Rightarrow> gcp_settings \<Rightarrow> err + 'c gcp_auth" where
  "gcp_auth_of env detect s =
     (if gset_endpoint s \<noteq> [] then Inr (GcpTestEndpoint (gset_endpoint s))
      else if gset_credentials s \<noteq> [] then
        (case se_resolve env (gset_credentials s) of
           Inl _ \<Rightarrow> Inl (invalid_err ''secret reference'')
         | Inr v \<Rightarrow> (case detect v of
             Inl _ \<Rightarrow> Inl (invalid_err ''gcp: credentials'')
           | Inr c \<Rightarrow> Inr (GcpKey c)))
      else Inr GcpAmbient)"

definition new_gcp ::
    "setup_env \<Rightarrow> (string \<Rightarrow> err + 'c) \<Rightarrow> ('c gcp_auth \<Rightarrow> err + 'w gcp_api) \<Rightarrow> 'w \<Rightarrow> instance_config
      \<Rightarrow> err + 'w gcp \<times> 'w gstate" where
  "new_gcp env detect service w cfg =
     bindE (settings_of (decode_gcp_settings (se_float env)) zero_gcp_settings (ic_settings cfg)) (\<lambda>s.
     if gset_project s = [] then Inl (invalid_err ''gcp: project is required'')
     else if gset_zone s = [] then Inl (invalid_err ''gcp: zone is required'')
     else if gset_credentials s \<noteq> [] \<and> \<not> is_ref (gset_credentials s)
     then Inl (invalid_err ''gcp: credentialsJson must be a secret:// reference'')
     else bindE (gcp_auth_of env detect s) (\<lambda>auth.
     case service auth of
       Inl _ \<Rightarrow> Inl (invalid_err ''gcp: constructing compute service'')
     | Inr api \<Rightarrow>
         Inr (\<lparr>gp_api = api, gp_owner = ic_owner cfg, gp_project = gset_project s, gp_zone = gset_zone s,
               gp_network = gset_network s, gp_subnetwork = gset_subnetwork s, gp_now = se_now env,
               gp_parse_time = se_parse_time env, gp_max_pages = se_pages env\<rparr>,
              \<lparr>dt_pacer = pacer_new (gset_rps s), dt_cloud = w, gs_cache = []\<rparr>)))"

definition gcp_descriptor :: "string \<Rightarrow> descriptor" where
  "gcp_descriptor inst = \<lparr>de_driver = ''gcp'', de_instance = inst, de_version = ''compute/v1'',
     de_kinds = [compute_kind], de_label_discovery = True\<rparr>"

definition gcp_capabilities :: "string list" where
  "gcp_capabilities = [''compute.machine.create'']"

definition gcp_plan ::
    "(string \<Rightarrow> int option) \<Rightarrow> (int \<Rightarrow> string) \<Rightarrow> string \<Rightarrow> desired_state option \<Rightarrow> observed_resource option
      \<Rightarrow> err + action list" where
  "gcp_plan pd show_d rid desired observed =
     (case (desired, observed) of
        (Some ds, None) \<Rightarrow> plan_create pd show_d rid ds
      | (None, Some obs) \<Rightarrow> Inr (plan_delete rid obs)
      | _ \<Rightarrow> Inr [])"

definition gcp_driver ::
    "(string \<Rightarrow> int option) \<Rightarrow> (int \<Rightarrow> string) \<Rightarrow> 'w gcp \<Rightarrow> 'w gstate \<Rightarrow> driver" where
  "gcp_driver pd show_d d s =
     \<lparr>dr_plan = (\<lambda>rid ds. gcp_plan pd show_d rid (Some ds) None),
      dr_apply = (\<lambda>act. fst (gcp_apply pd d act s)),
      dr_observe = (\<lambda>oref. fst (gcp_observe_op d oref s)),
      dr_get = (\<lambda>ref. fst (gcp_get d ref s)),
      dr_discover = (\<lambda>scope sel. fst (gcp_discover d scope sel s))\<rparr>"

definition gcp_resource_driver ::
    "(string \<Rightarrow> int option) \<Rightarrow> (int \<Rightarrow> string) \<Rightarrow> 'w gcp \<Rightarrow> 'w gstate \<Rightarrow> string \<Rightarrow> driver option" where
  "gcp_resource_driver pd show_d d s kind =
     (if kind \<noteq> compute_kind then None else Some (gcp_driver pd show_d d s))"

definition gcp_factory ::
    "setup_env \<Rightarrow> (string \<Rightarrow> err + 'c) \<Rightarrow> ('c gcp_auth \<Rightarrow> err + 'w gcp_api) \<Rightarrow> 'w \<Rightarrow> instance_config \<Rightarrow> err + built" where
  "gcp_factory env detect service w cfg =
     bindE (new_gcp env detect service w cfg) (\<lambda>(d, s).
     Inr \<lparr>bi_inst = instance_of (gcp_descriptor (ic_instance cfg))
            (gcp_resource_driver (se_duration env) (se_show env) d s),
          bi_driver = ''gcp'', bi_billing = Some gcp_billing, bi_parking = Some gcp_parking\<rparr>)"

section \<open>AWS\<close>

record aws_settings =
  aset_region :: string
  aset_key_id :: string
  aset_secret_key :: string
  aset_session_token :: string
  aset_endpoint :: string
  aset_subnet :: string
  aset_groups :: "string list"
  aset_key_name :: string
  aset_profile :: string
  aset_rps :: rat
  aset_burst :: int
  aset_max_conc :: int

definition zero_aws_settings :: aws_settings where
  "zero_aws_settings = \<lparr>aset_region = [], aset_key_id = [], aset_secret_key = [], aset_session_token = [],
     aset_endpoint = [], aset_subnet = [], aset_groups = [], aset_key_name = [], aset_profile = [],
     aset_rps = 0, aset_burst = 0, aset_max_conc = 0\<rparr>"

definition decode_aws_settings :: "(string \<Rightarrow> rat option) \<Rightarrow> json \<Rightarrow> err + aws_settings" where
  "decode_aws_settings pf = struct False [] zero_aws_settings (\<lambda>fs.
     bindE (get_str (jval ''region'' fs)) (\<lambda>rg.
     bindE (get_str (jval ''accessKeyId'' fs)) (\<lambda>ki.
     bindE (get_str (jval ''secretAccessKey'' fs)) (\<lambda>sk.
     bindE (get_str (jval ''sessionToken'' fs)) (\<lambda>st.
     bindE (get_str (jval ''endpoint'' fs)) (\<lambda>ep.
     bindE (get_str (jval ''subnetId'' fs)) (\<lambda>sn.
     bindE (get_strs (jval ''securityGroupIds'' fs)) (\<lambda>gs.
     bindE (get_str (jval ''keyName'' fs)) (\<lambda>kn.
     bindE (get_str (jval ''instanceProfile'' fs)) (\<lambda>ip.
     bindE (get_rat pf (jval ''rps'' fs)) (\<lambda>r.
     bindE (get_i64 (jval ''burst'' fs)) (\<lambda>b.
     bindE (get_i64 (jval ''maxConcurrent'' fs)) (\<lambda>m.
     Inr \<lparr>aset_region = rg, aset_key_id = ki, aset_secret_key = sk, aset_session_token = st,
          aset_endpoint = ep, aset_subnet = sn, aset_groups = gs, aset_key_name = kn, aset_profile = ip,
          aset_rps = r, aset_burst = b, aset_max_conc = m\<rparr>)))))))))))))"

text \<open>
  The static credentials of the settings, each part resolved: the key, the secret and the session
  token, empty when there is none. Without a key the environment provides the credentials.
\<close>

definition aws_static ::
    "setup_env \<Rightarrow> aws_settings \<Rightarrow> err + (string \<times> string \<times> string) option" where
  "aws_static env s =
     (if aset_key_id s = [] then Inr None
      else bindE (reveal env (aset_key_id s)) (\<lambda>key.
           bindE (reveal env (aset_secret_key s)) (\<lambda>secret.
           bindE (if aset_session_token s = [] then Inr [] else reveal env (aset_session_token s)) (\<lambda>session.
           Inr (Some (key, secret, session))))))"

text \<open>The options of \<open>config.LoadDefaultConfig\<close>, and the EC2 client of the configuration it gives.\<close>

record aws_options =
  ao_region :: string
  ao_max_attempts :: nat
  ao_static :: "(string \<times> string \<times> string) option"

definition new_aws ::
    "setup_env \<Rightarrow> (aws_options \<Rightarrow> err + 'c) \<Rightarrow> ('c \<Rightarrow> string option \<Rightarrow> 'w ec2_api) \<Rightarrow> 'w \<Rightarrow> instance_config
      \<Rightarrow> err + 'w aws \<times> 'w astate" where
  "new_aws env load client w cfg =
     bindE (settings_of (decode_aws_settings (se_float env)) zero_aws_settings (ic_settings cfg)) (\<lambda>s.
     if aset_region s = [] then Inl (invalid_err ''aws: region is required'')
     else if (aset_key_id s = []) \<noteq> (aset_secret_key s = [])
     then Inl (invalid_err ''aws: accessKeyId and secretAccessKey are all-or-nothing'')
     else if aset_session_token s \<noteq> [] \<and> aset_key_id s = []
     then Inl (invalid_err ''aws: sessionToken requires the static pair'')
     else bindE (aws_static env s) (\<lambda>static.
     case load \<lparr>ao_region = aset_region s, ao_max_attempts = 1, ao_static = static\<rparr> of
       Inl _ \<Rightarrow> Inl (invalid_err ''aws config'')
     | Inr c \<Rightarrow>
         Inr (\<lparr>aw_api = client c (given (aset_endpoint s)), aw_owner = ic_owner cfg, aw_region = aset_region s,
               aw_subnet = aset_subnet s, aw_groups = aset_groups s, aw_key = aset_key_name s,
               aw_profile = aset_profile s, aw_now = se_now env, aw_max_pages = se_pages env\<rparr>,
              \<lparr>dt_pacer = pacer_new (aset_rps s), dt_cloud = w, as_cache = []\<rparr>)))"

definition aws_descriptor :: "string \<Rightarrow> descriptor" where
  "aws_descriptor inst = \<lparr>de_driver = ''aws'', de_instance = inst, de_version = ''aws-sdk-go-v2'',
     de_kinds = [compute_kind], de_label_discovery = True\<rparr>"

definition aws_capabilities :: "string list" where
  "aws_capabilities = [''compute.machine.create'']"

definition aws_plan ::
    "(string \<Rightarrow> int option) \<Rightarrow> (int \<Rightarrow> string) \<Rightarrow> string \<Rightarrow> desired_state option \<Rightarrow> observed_resource option
      \<Rightarrow> err + action list" where
  "aws_plan pd show_d rid desired observed =
     (case (desired, observed) of
        (Some ds, None) \<Rightarrow> plan_create pd show_d rid ds
      | (None, Some obs) \<Rightarrow> Inr (plan_delete rid obs)
      | _ \<Rightarrow> Inr [])"

definition aws_driver ::
    "(string \<Rightarrow> int option) \<Rightarrow> (int \<Rightarrow> string) \<Rightarrow> 'w aws \<Rightarrow> 'w astate \<Rightarrow> driver" where
  "aws_driver pd show_d d s =
     \<lparr>dr_plan = (\<lambda>rid ds. aws_plan pd show_d rid (Some ds) None),
      dr_apply = (\<lambda>act. fst (aws_apply pd d act s)),
      dr_observe = (\<lambda>oref. fst (aws_observe_op d oref s)),
      dr_get = (\<lambda>ref. fst (aws_get d ref s)),
      dr_discover = (\<lambda>scope sel. fst (aws_discover d scope sel s))\<rparr>"

definition aws_resource_driver ::
    "(string \<Rightarrow> int option) \<Rightarrow> (int \<Rightarrow> string) \<Rightarrow> 'w aws \<Rightarrow> 'w astate \<Rightarrow> string \<Rightarrow> driver option" where
  "aws_resource_driver pd show_d d s kind =
     (if kind \<noteq> compute_kind then None else Some (aws_driver pd show_d d s))"

definition aws_factory ::
    "setup_env \<Rightarrow> (aws_options \<Rightarrow> err + 'c) \<Rightarrow> ('c \<Rightarrow> string option \<Rightarrow> 'w ec2_api) \<Rightarrow> 'w \<Rightarrow> instance_config
      \<Rightarrow> err + built" where
  "aws_factory env load client w cfg =
     bindE (new_aws env load client w cfg) (\<lambda>(d, s).
     Inr \<lparr>bi_inst = instance_of (aws_descriptor (ic_instance cfg))
            (aws_resource_driver (se_duration env) (se_show env) d s),
          bi_driver = ''aws'', bi_billing = Some aws_billing, bi_parking = Some aws_parking\<rparr>)"

section \<open>Docker\<close>

record dk_settings =
  kset_host :: string
  kset_command :: "string list"
  kset_network :: string

definition decode_dk_settings :: "json \<Rightarrow> err + dk_settings" where
  "decode_dk_settings = struct False [] \<lparr>kset_host = [], kset_command = [], kset_network = []\<rparr> (\<lambda>fs.
     bindE (get_str (jval ''host'' fs)) (\<lambda>h.
     bindE (get_strs (jval ''command'' fs)) (\<lambda>c.
     bindE (get_str (jval ''network'' fs)) (\<lambda>n.
     Inr \<lparr>kset_host = h, kset_command = c, kset_network = n\<rparr>))))"

definition default_command :: "string list" where
  "default_command = [''sleep'', ''2147483647'']"

text \<open>The base URL of a daemon, with the socket its transport dials for a unix host.\<close>

definition dk_endpoint :: "string \<Rightarrow> (string \<times> string option) option" where
  "dk_endpoint host =
     (case cut_prefix ''unix://'' host of
        Some path \<Rightarrow> Some (''http://docker'', Some path)
      | None \<Rightarrow> (case cut_prefix ''tcp://'' host of
          Some addr \<Rightarrow> Some (''http://'' @ addr, None)
        | None \<Rightarrow> None))"

definition new_docker ::
    "(string \<Rightarrow> string option \<Rightarrow> 'w dk_http) \<Rightarrow> instance_config \<Rightarrow> err + 'w docker" where
  "new_docker http cfg =
     bindE (settings_of decode_dk_settings \<lparr>kset_host = [], kset_command = [], kset_network = []\<rparr> (ic_settings cfg)) (\<lambda>s.
     let host = (if kset_host s = [] then ''unix:///var/run/docker.sock'' else kset_host s);
         command = (if kset_command s = [] then default_command else kset_command s)
     in case dk_endpoint host of
          None \<Rightarrow> Inl (invalid_err ''docker host must be unix:// or tcp://'')
        | Some (base, socket) \<Rightarrow>
            Inr \<lparr>dk_http = http base socket, dk_owner = ic_owner cfg, dk_command = command,
                 dk_network = kset_network s\<rparr>)"

definition dk_descriptor :: "string \<Rightarrow> descriptor" where
  "dk_descriptor inst = \<lparr>de_driver = ''docker'', de_instance = inst, de_version = ''engine-api'',
     de_kinds = [compute_kind], de_label_discovery = True\<rparr>"

definition dk_capabilities :: "string list" where
  "dk_capabilities = [''compute.machine.create'', ''compute.machine.park'']"

definition dk_plan_request ::
    "(string \<Rightarrow> int option) \<Rightarrow> (int \<Rightarrow> string) \<Rightarrow> string \<Rightarrow> desired_state option \<Rightarrow> observed_resource option
      \<Rightarrow> err + action list" where
  "dk_plan_request pd show_d rid desired observed =
     (case (desired, observed) of
        (Some ds, None) \<Rightarrow> dk_plan pd show_d rid ds
      | (None, Some obs) \<Rightarrow> Inr (plan_delete rid obs)
      | _ \<Rightarrow> Inr [])"

definition dk_driver ::
    "(string \<Rightarrow> int option) \<Rightarrow> (int \<Rightarrow> string) \<Rightarrow> 'w docker \<Rightarrow> 'w \<Rightarrow> driver" where
  "dk_driver pd show_d d w =
     \<lparr>dr_plan = (\<lambda>rid ds. dk_plan_request pd show_d rid (Some ds) None),
      dr_apply = (\<lambda>act. fst (dk_apply pd d act w)),
      dr_observe = (\<lambda>oref. fst (dk_observe_op d oref w)),
      dr_get = (\<lambda>ref. fst (dk_get d ref w)),
      dr_discover = (\<lambda>scope sel. fst (dk_discover d scope sel w))\<rparr>"

definition dk_resource_driver ::
    "(string \<Rightarrow> int option) \<Rightarrow> (int \<Rightarrow> string) \<Rightarrow> 'w docker \<Rightarrow> 'w \<Rightarrow> string \<Rightarrow> driver option" where
  "dk_resource_driver pd show_d d w kind =
     (if kind \<noteq> compute_kind then None else Some (dk_driver pd show_d d w))"

definition dk_factory ::
    "setup_env \<Rightarrow> (string \<Rightarrow> string option \<Rightarrow> 'w dk_http) \<Rightarrow> 'w \<Rightarrow> instance_config \<Rightarrow> err + built" where
  "dk_factory env http w cfg =
     bindE (new_docker http cfg) (\<lambda>d.
     Inr \<lparr>bi_inst = instance_of (dk_descriptor (ic_instance cfg))
            (dk_resource_driver (se_duration env) (se_show env) d w),
          bi_driver = ''docker'', bi_billing = None, bi_parking = Some dk_parking\<rparr>)"

section \<open>The fake provider\<close>

text \<open>The reference driver refuses settings it does not know.\<close>

definition decode_billing_settings :: "(string \<Rightarrow> int option) \<Rightarrow> json \<Rightarrow> err + billing_policy" where
  "decode_billing_settings pd = struct True [''minimumDuration'', ''increment'', ''terminationBuffer''] zero_billing (\<lambda>fs.
     bindE (reclaim_duration pd fs ''minimumDuration'') (\<lambda>m.
     bindE (reclaim_duration pd fs ''increment'') (\<lambda>i.
     bindE (reclaim_duration pd fs ''terminationBuffer'') (\<lambda>b.
     Inr \<lparr>bp_minimum = m, bp_increment = i, bp_buffer = b\<rparr>))))"

text \<open>A map of policies; of equal keys the last one counts.\<close>

definition decode_billing_map :: "(string \<Rightarrow> int option) \<Rightarrow> json \<Rightarrow> err + (string \<times> billing_policy) list" where
  "decode_billing_map pd j = (case j of
     JNull \<Rightarrow> Inr []
   | JObj fs \<Rightarrow> bindE (each_map (\<lambda>(k, v). bindE (decode_billing_settings pd v) (\<lambda>b. Inr (k, b))) fs)
       (\<lambda>bs. Inr (rev bs))
   | _ \<Rightarrow> Inl bad_type)"

definition zero_fake_options :: fake_options where
  "zero_fake_options = \<lparr>fo_create_steps = 0, fo_delete_steps = 0, fo_stop_steps = 0, fo_start_steps = 0,
     fo_list_lag_steps = 0, fo_page_size = 0, fo_park = False, fo_start_estimate = 0, fo_billing = []\<rparr>"

definition decode_fake_options :: "(string \<Rightarrow> int option) \<Rightarrow> json \<Rightarrow> err + fake_options" where
  "decode_fake_options pd = struct True [''createSteps'', ''deleteSteps'', ''listLagSteps'', ''pageSize'',
       ''billing'', ''park'', ''stopSteps'', ''startSteps'', ''startEstimate''] zero_fake_options (\<lambda>fs.
     bindE (get_i64 (jval ''createSteps'' fs)) (\<lambda>c.
     bindE (get_i64 (jval ''deleteSteps'' fs)) (\<lambda>d.
     bindE (get_i64 (jval ''listLagSteps'' fs)) (\<lambda>l.
     bindE (get_i64 (jval ''pageSize'' fs)) (\<lambda>ps.
     bindE (decode_billing_map pd (jval ''billing'' fs)) (\<lambda>bs.
     bindE (get_bool (jval ''park'' fs)) (\<lambda>pk.
     bindE (get_i64 (jval ''stopSteps'' fs)) (\<lambda>sp.
     bindE (get_i64 (jval ''startSteps'' fs)) (\<lambda>st.
     bindE (reclaim_duration pd fs ''startEstimate'') (\<lambda>se.
     Inr \<lparr>fo_create_steps = c, fo_delete_steps = d, fo_stop_steps = sp, fo_start_steps = st,
          fo_list_lag_steps = l, fo_page_size = ps, fo_park = pk, fo_start_estimate = se,
          fo_billing = bs\<rparr>))))))))))"

definition fake_descriptor :: "string \<Rightarrow> descriptor" where
  "fake_descriptor inst = \<lparr>de_driver = ''fake'', de_instance = inst, de_version = ''dev'',
     de_kinds = [compute_kind, volume_kind], de_label_discovery = True\<rparr>"

definition fake_capabilities :: "string list" where
  "fake_capabilities = [''compute.machine.create'', ''storage.volume.create'']"

definition vol_driver :: "fake \<Rightarrow> driver" where
  "vol_driver f =
     \<lparr>dr_plan = vol_plan,
      dr_apply = (\<lambda>act. fst (vol_apply act f)),
      dr_observe = (\<lambda>oref. fst (vol_observe_op oref f)),
      dr_get = (\<lambda>ref. fst (vol_get ref f)),
      dr_discover = (\<lambda>scope sel. fst (vol_discover scope sel f))\<rparr>"

text \<open>\<open>Plan\<close> of both kinds, absence included.\<close>

definition fake_plan_request ::
    "(string \<Rightarrow> int option) \<Rightarrow> (int \<Rightarrow> string) \<Rightarrow> string \<Rightarrow> desired_state option \<Rightarrow> observed_resource option
      \<Rightarrow> err + action list" where
  "fake_plan_request pd show_d rid desired observed =
     (case (desired, observed) of
        (Some ds, None) \<Rightarrow> fake_plan pd show_d rid ds
      | (None, Some obs) \<Rightarrow> Inr (plan_delete rid obs)
      | _ \<Rightarrow> Inr [])"

definition vol_plan_request ::
    "string \<Rightarrow> desired_state option \<Rightarrow> observed_resource option \<Rightarrow> err + action list" where
  "vol_plan_request rid desired observed =
     (case (desired, observed) of
        (Some ds, None) \<Rightarrow> vol_plan rid ds
      | (None, Some obs) \<Rightarrow> Inr (plan_delete rid obs)
      | _ \<Rightarrow> Inr [])"

definition fake_resource_driver ::
    "(string \<Rightarrow> int option) \<Rightarrow> (int \<Rightarrow> string) \<Rightarrow> fake \<Rightarrow> string \<Rightarrow> driver option" where
  "fake_resource_driver pd show_d f kind =
     (if kind = compute_kind then Some (fake_driver pd show_d f)
      else if kind = volume_kind then Some (vol_driver f) else None)"

definition fake_factory :: "setup_env \<Rightarrow> instance_config \<Rightarrow> err + built" where
  "fake_factory env cfg =
     bindE (settings_of (decode_fake_options (se_duration env)) zero_fake_options (ic_settings cfg)) (\<lambda>opt.
     Inr \<lparr>bi_inst = instance_of (fake_descriptor (ic_instance cfg))
            (fake_resource_driver (se_duration env) (se_show env) (new_fake (ic_owner cfg) opt)),
          bi_driver = ''fake'', bi_billing = Some (fake_billing opt), bi_parking = Some (fake_parking opt)\<rparr>)"

section \<open>The registry\<close>

type_synonym registry = "(string \<times> (instance_config \<Rightarrow> err + built)) list"

text \<open>\<open>Register\<close> panics on a driver that is already there.\<close>

definition register :: "string \<Rightarrow> (instance_config \<Rightarrow> err + built) \<Rightarrow> registry \<Rightarrow> registry option" where
  "register driver f reg = (if driver \<in> set (map fst reg) then None else Some ((driver, f) # reg))"

definition registered_drivers :: "registry \<Rightarrow> string list" where
  "registered_drivers reg = sort (map fst reg)"

text \<open>What the initialisation of the compiled packages registers, in the order of their imports.\<close>

fun register_all :: "registry \<Rightarrow> registry \<Rightarrow> registry option" where
  "register_all [] reg = Some reg"
| "register_all ((d, f) # rest) reg = Option.bind (register d f reg) (register_all rest)"

text \<open>The client libraries the factories are linked with.\<close>

record ('h, 'd, 'g, 'gc, 'a, 'ac, 'k) libraries =
  li_hcloud :: "hz_options \<Rightarrow> 'h hz_api"
  li_hz_world :: 'h
  li_godo :: "do_options \<Rightarrow> err + 'd do_api"
  li_do_world :: 'd
  li_detect :: "string \<Rightarrow> err + 'gc"
  li_compute :: "'gc gcp_auth \<Rightarrow> err + 'g gcp_api"
  li_gcp_world :: 'g
  li_aws_load :: "aws_options \<Rightarrow> err + 'ac"
  li_ec2 :: "'ac \<Rightarrow> string option \<Rightarrow> 'a ec2_api"
  li_aws_world :: 'a
  li_engine :: "string \<Rightarrow> string option \<Rightarrow> 'k dk_http"
  li_dk_world :: 'k

definition compiled_factories :: "setup_env \<Rightarrow> ('h, 'd, 'g, 'gc, 'a, 'ac, 'k) libraries \<Rightarrow> registry" where
  "compiled_factories env li =
     [(''aws'', aws_factory env (li_aws_load li) (li_ec2 li) (li_aws_world li)),
      (''digitalocean'', do_factory env (li_godo li) (li_do_world li)),
      (''docker'', dk_factory env (li_engine li) (li_dk_world li)),
      (''fake'', fake_factory env),
      (''gcp'', gcp_factory env (li_detect li) (li_compute li) (li_gcp_world li)),
      (''hetzner'', hz_factory env (li_hcloud li) (li_hz_world li))]"

definition compiled_drivers :: "setup_env \<Rightarrow> ('h, 'd, 'g, 'gc, 'a, 'ac, 'k) libraries \<Rightarrow> factories" where
  "compiled_drivers env li =
     (case register_all (compiled_factories env li) [] of None \<Rightarrow> (\<lambda>_. None) | Some reg \<Rightarrow> map_of reg)"

end
