(* ===== verification/Setup_Laws.thy ===== *)
theory Setup_Laws
  imports Cloud_Setup
begin

text \<open>
  What the constructors of the drivers promise the kernel: the contract of a factory as a locale with
  the six factories as its interpretations, the instances a boot builds from them, the errors of a
  construction, and where the secrets of a configuration go.
\<close>

section \<open>Constructors\<close>

text \<open>An error that tells the operator to change the configuration, before anything was called.\<close>

definition config_error :: "err \<Rightarrow> bool" where
  "config_error e \<longleftrightarrow> classify e = ErrInvalid \<and> effect e = EffectNone"

lemma config_error_invalid [simp]: "config_error (invalid_err m)"
  by (simp add: config_error_def invalid_err_def perr_def classify_def effect_def)

lemma settings_of_error: "settings_of dec z raw = Inl e \<Longrightarrow> config_error e"
  by (auto simp: settings_of_def split: blob.splits sum.splits if_split_asm)

lemma reveal_error: "reveal env r = Inl e \<Longrightarrow> config_error e"
  by (auto simp: reveal_def split: sum.splits if_split_asm)

lemma aws_static_error: "aws_static env s = Inl e \<Longrightarrow> config_error e"
  by (auto simp: aws_static_def bindE_Inl_iff dest: reveal_error split: sum.splits if_split_asm)

lemma gcp_auth_error: "gcp_auth_of env detect s = Inl e \<Longrightarrow> config_error e"
  by (auto simp: gcp_auth_of_def split: sum.splits if_split_asm)

lemmas constructor_errors = settings_of_error reveal_error aws_static_error gcp_auth_error

lemma refold_Inl [simp]:
  "(case x of Inl _ \<Rightarrow> Inl e | Inr y \<Rightarrow> Inr (f y)) = Inl e' \<longleftrightarrow> (\<exists>d. x = Inl d) \<and> e' = e"
  by (cases x) auto

lemma new_hetzner_error: "new_hetzner env client w cfg = Inl e \<Longrightarrow> config_error e"
  by (auto simp: new_hetzner_def bindE_Inl_iff dest: constructor_errors split: if_split_asm)

lemma new_digital_ocean_error:
  "new_digital_ocean env client w cfg = Inl e \<Longrightarrow> config_error e \<or> (\<exists>opts. client opts = Inl e)"
  by (auto simp: new_digital_ocean_def bindE_Inl_iff dest: constructor_errors split: if_split_asm)

lemma new_gcp_error: "new_gcp env detect service w cfg = Inl e \<Longrightarrow> config_error e"
  by (auto simp: new_gcp_def bindE_Inl_iff dest: constructor_errors split: if_split_asm)

lemma new_aws_error: "new_aws env load client w cfg = Inl e \<Longrightarrow> config_error e"
  by (auto simp: new_aws_def bindE_Inl_iff dest: constructor_errors split: if_split_asm)

lemma new_docker_error: "new_docker http cfg = Inl e \<Longrightarrow> config_error e"
  by (auto simp: new_docker_def bindE_Inl_iff Let_def dest: constructor_errors
      split: option.splits if_split_asm)

text \<open>A pacer that was just made lets the first call through, at a rate above zero.\<close>

lemma fresh_pacer: "pacer_acquire now (pacer_new rps) = Inr ()" "0 < pc_base (pacer_new rps)"
  by (simp_all add: pacer_acquire_def pacer_new_def Let_def)

lemma dk_endpoint_None: "dk_endpoint host = None \<longleftrightarrow> \<not> prefix ''unix://'' host \<and> \<not> prefix ''tcp://'' host"
  by (auto simp: dk_endpoint_def cut_prefix_def split: option.splits)

text \<open>
  All drivers plan alike: a desired resource that was not observed is created, an observed one that is
  not desired is deleted destructively under its reference, and otherwise there is nothing to do.
\<close>

lemmas plan_defs = hz_plan_def do_plan_def gcp_plan_def aws_plan_def dk_plan_request_def fake_plan_request_def
  vol_plan_request_def

lemma plans_agree:
  assumes "plan \<in> {hz_plan pd show_d, do_plan pd show_d, gcp_plan pd show_d, aws_plan pd show_d,
    dk_plan_request pd show_d, fake_plan_request pd show_d, vol_plan_request}"
    and "plan rid desired observed = Inr acts" and "act \<in> set acts"
  shows "(observed = None \<and> desired \<noteq> None \<and> ac_kind act = ''create'' \<and> \<not> ac_destructive act \<and> ac_ref act = None
      \<or> desired = None \<and> ac_kind act = ''delete'' \<and> ac_destructive act \<and> ac_ref act = map_option ob_ref observed)
    \<and> ac_resource_id act = rid"
  using assms
  by (auto simp: plan_defs plan_delete_def plan_create_def dk_plan_def fake_plan_def vol_plan_def
      split: option.splits sum.splits if_split_asm prod.splits)

section \<open>The contract of a factory\<close>

text \<open>
  The capability contract of an instance: it has a driver for exactly the kinds it declares, and no
  billing window and no parking for any other kind.
\<close>

definition keeps_contract :: "built \<Rightarrow> bool" where
  "keeps_contract b \<longleftrightarrow>
     (\<forall>k. (pi_driver (bi_inst b) k = None) = (k \<notin> set (pi_kinds (bi_inst b)))
        \<and> (k \<notin> set (pi_kinds (bi_inst b)) \<longrightarrow> driver_policy b k = zero_billing
            \<and> (case bi_parking b of None \<Rightarrow> True | Some f \<Rightarrow> f k = zero_park)))"

text \<open>A factory, the name it registers, and the configurations for which its instances keep it.\<close>

locale driver_factory =
  fixes factory :: "instance_config \<Rightarrow> err + built" and name :: string and regular :: "instance_config \<Rightarrow> bool"
  assumes names_itself: "factory cfg = Inr b \<Longrightarrow> bi_driver b = name"
    and discovers: "factory cfg = Inr b \<Longrightarrow> pi_label_discovery (bi_inst b) \<and> compute_kind \<in> set (pi_kinds (bi_inst b))"
    and contract: "factory cfg = Inr b \<Longrightarrow> regular cfg \<Longrightarrow> keeps_contract b"
begin

lemma serves_machines:
  assumes "factory cfg = Inr b" and "regular cfg"
  shows "pi_driver (bi_inst b) compute_kind \<noteq> None"
  using contract [OF assms] discovers [OF assms(1)] by (simp add: keeps_contract_def)

lemma overrides_are_served:
  assumes "factory cfg = Inr b" and "regular cfg"
    and "resolve_billing (pi_kinds (bi_inst b)) (driver_policy b) ovs = Inr m" and "(k, x) \<in> set m"
  shows "pi_driver (bi_inst b) k \<noteq> None"
proof -
  have "(k, x) \<in> set m \<Longrightarrow> resolve_billing ks pol os = Inr m \<Longrightarrow> k \<in> set ks" for ks pol os m
    by (induction os arbitrary: m) (auto simp: bindE_Inr_iff split: if_split_asm)
  then show ?thesis using assms(3,4) contract [OF assms(1,2)] by (simp add: keeps_contract_def)
qed

end

lemmas factory_defs = instance_of_def keeps_contract_def driver_policy_def bindE_Inr_iff

interpretation hz_built: driver_factory "hz_factory env client w" "''hetzner''" "\<lambda>_. True" for env client w
  by unfold_locales (auto simp: factory_defs hz_factory_def hz_descriptor_def hz_resource_driver_def hz_billing_def)

interpretation do_built: driver_factory "do_factory env client w" "''digitalocean''" "\<lambda>_. True" for env client w
  by unfold_locales (auto simp: factory_defs do_factory_def do_descriptor_def do_resource_driver_def do_billing_def)

interpretation gcp_built: driver_factory "gcp_factory env detect service w" "''gcp''" "\<lambda>_. True"
  for env detect service w
  by unfold_locales (auto simp: factory_defs gcp_factory_def gcp_descriptor_def gcp_resource_driver_def
      gcp_billing_def gcp_parking_def)

interpretation aws_built: driver_factory "aws_factory env load client w" "''aws''" "\<lambda>_. True" for env load client w
  by unfold_locales (auto simp: factory_defs aws_factory_def aws_descriptor_def aws_resource_driver_def
      aws_billing_def aws_parking_def)

interpretation dk_built: driver_factory "dk_factory env http w" "''docker''" "\<lambda>_. True" for env http w
  by unfold_locales (auto simp: factory_defs dk_factory_def dk_descriptor_def dk_resource_driver_def dk_parking_def)

text \<open>The fake bills whatever kinds its settings name.\<close>

definition fake_regular :: "setup_env \<Rightarrow> instance_config \<Rightarrow> bool" where
  "fake_regular env cfg \<longleftrightarrow>
     (case settings_of (decode_fake_options (se_duration env)) zero_fake_options (ic_settings cfg) of
        Inl _ \<Rightarrow> True | Inr opt \<Rightarrow> set (map fst (fo_billing opt)) \<subseteq> {compute_kind, volume_kind})"

interpretation fake_built: driver_factory "fake_factory env" "''fake''" "fake_regular env" for env
proof (unfold_locales, goal_cases)
  case (3 cfg b)
  then obtain opt where opt: "settings_of (decode_fake_options (se_duration env)) zero_fake_options (ic_settings cfg) = Inr opt"
    and b: "b = \<lparr>bi_inst = instance_of (fake_descriptor (ic_instance cfg))
            (fake_resource_driver (se_duration env) (se_show env) (new_fake (ic_owner cfg) opt)),
          bi_driver = ''fake'', bi_billing = Some (fake_billing opt), bi_parking = Some (fake_parking opt)\<rparr>"
    by (auto simp: fake_factory_def bindE_Inr_iff)
  have "map_of (fo_billing opt) k = None" if "k \<noteq> compute_kind" "k \<noteq> volume_kind" for k
    using 3(2) that by (auto simp: fake_regular_def opt map_of_eq_None_iff image_iff)
  then show ?case
    by (auto simp: b factory_defs fake_descriptor_def fake_resource_driver_def fake_billing_def fake_parking_def
        compute_kind_def volume_kind_def)
qed (auto simp: factory_defs fake_factory_def fake_descriptor_def)

section \<open>The registry\<close>

lemma compiled_names:
  "map fst (compiled_factories env li) = [''aws'', ''digitalocean'', ''docker'', ''fake'', ''gcp'', ''hetzner'']"
  by (simp add: compiled_factories_def)

lemma register_all_distinct:
  "distinct (map fst fs) \<Longrightarrow> set (map fst fs) \<inter> set (map fst reg) = {} \<Longrightarrow> register_all fs reg = Some (rev fs @ reg)"
  by (induction fs arbitrary: reg) (auto simp: register_def)

text \<open>Registering the compiled drivers does not panic, and \<open>New\<close> finds each of them under its name.\<close>

lemma compiled_registered: "register_all (compiled_factories env li) [] = Some (rev (compiled_factories env li))"
  using register_all_distinct [of "compiled_factories env li" "[]"] by (simp add: compiled_names)

lemma compiled_driver_factory:
  "compiled_drivers env li d = map_of (compiled_factories env li) d"
  unfolding compiled_drivers_def compiled_registered by (auto simp: compiled_factories_def)

end
