(* ===== verification/Setup_Guarantees.thy ===== *)
theory Setup_Guarantees
  imports Setup_Laws
begin

text \<open>
  The compiled drivers under the provider manager: what the kernel may ask of the instances a boot
  builds, and what the client libraries are given of the secrets.
\<close>

section \<open>The instances of a boot\<close>

definition conf_of :: "string \<Rightarrow> provider_spec \<Rightarrow> instance_config" where
  "conf_of owner sp = \<lparr>ic_instance = sp_name sp, ic_owner = owner, ic_settings = sp_settings sp\<rparr>"

definition regular_spec :: "setup_env \<Rightarrow> string \<Rightarrow> provider_spec \<Rightarrow> bool" where
  "regular_spec env owner sp \<longleftrightarrow> (sp_driver sp = ''fake'' \<longrightarrow> fake_regular env (conf_of owner sp))"

lemma compiled_new_provider:
  assumes "new_provider (compiled_drivers env li) (sp_driver sp) (conf_of owner sp) = Inr b"
    and "regular_spec env owner sp"
  shows "keeps_contract b \<and> bi_driver b = sp_driver sp"
  using assms hz_built.contract hz_built.names_itself do_built.contract do_built.names_itself
    gcp_built.contract gcp_built.names_itself aws_built.contract aws_built.names_itself
    dk_built.contract dk_built.names_itself fake_built.contract fake_built.names_itself
  by (auto simp: new_provider_def compiled_driver_factory compiled_factories_def regular_spec_def
      split: if_split_asm)

text \<open>The set of instances keeps the contract when its instances do and its overrides are of served kinds.\<close>

definition set_keeps :: "provider_set \<Rightarrow> bool" where
  "set_keeps vs \<longleftrightarrow>
     (\<forall>n b. map_of (vs_instances vs) n = Some b \<longrightarrow> keeps_contract b)
   \<and> (\<forall>n k x. map_of (vs_billing vs) (n, k) = Some x \<longrightarrow>
        (\<exists>b. map_of (vs_instances vs) n = Some b \<and> k \<in> set (pi_kinds (bi_inst b))))"

lemma resolve_billing_kinds:
  "resolve_billing ks pol os = Inr m \<Longrightarrow> (k, x) \<in> set m \<Longrightarrow> k \<in> set ks"
  by (induction os arbitrary: m) (auto simp: bindE_Inr_iff split: if_split_asm)

lemma set_keeps_add:
  assumes "set_keeps vs" and "keeps_contract b" and "map_of (vs_instances vs) n = None"
    and "resolve_billing (pi_kinds (bi_inst b)) pol ovs = Inr m"
  shows "set_keeps (vs\<lparr>vs_instances := AList.update n b (vs_instances vs),
     vs_billing := map (\<lambda>(k, x). ((n, k), x)) m @ vs_billing vs\<rparr>)"
  unfolding set_keeps_def
proof (intro conjI allI impI, goal_cases)
  case (1 p c)
  then show ?case using assms(1,2) by (auto simp: set_keeps_def update_conv' split: if_split_asm)
next
  case (2 p k x)
  show ?case
  proof (cases "map_of (vs_billing vs) (p, k) = Some x")
    case True
    then obtain c where "map_of (vs_instances vs) p = Some c" "k \<in> set (pi_kinds (bi_inst c))"
      using assms(1) unfolding set_keeps_def by blast
    then show ?thesis using assms(3) by (auto simp: update_conv')
  next
    case False
    then have "((p, k), x) \<in> (\<lambda>(k, x). ((n, k), x)) ` set m"
      using 2 by (auto dest!: map_of_SomeD simp: map_add_Some_iff)
    then show ?thesis using resolve_billing_kinds [OF assms(4)] by (auto simp: update_conv')
  qed
qed

lemma build_set_keeps:
  assumes "build_providers (compiled_drivers env li) owner now sps vs st = (Inr vs', st')"
    and "set_keeps vs" and "\<forall>sp \<in> set sps. regular_spec env owner sp \<and> map_of (vs_instances vs) (sp_name sp) = None"
    and "distinct (map sp_name sps)"
  shows "set_keeps vs'"
  using assms
proof (induction sps arbitrary: vs st)
  case (Cons sp sps)
  from Cons.prems(1) obtain b m where b: "new_provider (compiled_drivers env li) (sp_driver sp) (conf_of owner sp) = Inr b"
    and m: "resolve_billing (pi_kinds (bi_inst b)) (driver_policy b) (sp_billing sp) = Inr m"
    by (auto simp: conf_of_def split: sum.splits)
  let ?vs = "vs\<lparr>vs_instances := AList.update (sp_name sp) b (vs_instances vs),
     vs_billing := map (\<lambda>(k, x). ((sp_name sp, k), x)) m @ vs_billing vs\<rparr>"
  have "keeps_contract b" using compiled_new_provider [OF b] Cons.prems(3) by simp
  then have keeps: "set_keeps ?vs" using set_keeps_add [OF Cons.prems(2) _ _ m] Cons.prems(3) by simp
  have rest: "\<forall>q \<in> set sps. regular_spec env owner q \<and> map_of (vs_instances ?vs) (sp_name q) = None"
    using Cons.prems(3,4) by (auto simp: update_conv' image_iff)
  show ?case
    using Cons.IH [OF _ keeps rest] Cons.prems(1,4) b m by (simp add: conf_of_def)
qed simp

text \<open>
  C18. The kernel never gets a billing window or a park policy for a kind an instance has no driver
  for: of the instances a boot builds from the compiled drivers, with their billing overrides, each
  one declares exactly the kinds it has a driver for, and for any other kind and any unknown instance
  the manager answers with the fine-grained policy and without parking. A fake that is told to bill
  other kinds than its own is left out.
\<close>

theorem kernel_sees_served_kinds_only:
  assumes "build_providers (compiled_drivers env li) owner now sps \<lparr>vs_instances = [], vs_billing = []\<rparr> st = (Inr vs, st')"
    and "distinct (map sp_name sps)" and "\<forall>sp \<in> set sps. regular_spec env owner sp"
  shows "(\<forall>i. pv_instance (providers_of vs) n = Some i \<longrightarrow> (pi_driver i k = None) = (k \<notin> set (pi_kinds i)))
    \<and> (Option.bind (pv_instance (providers_of vs) n) (\<lambda>i. pi_driver i k) = None \<longrightarrow>
         pv_billing (providers_of vs) n k = (zero_billing, False) \<and> pv_parking (providers_of vs) n k = zero_park)"
proof -
  have keeps: "set_keeps vs"
    using assms by (intro build_set_keeps [OF assms(1)]) (auto simp: set_keeps_def)
  then have contract: "map_of (vs_instances vs) n = Some b \<Longrightarrow> keeps_contract b" for b by (simp add: set_keeps_def)
  have "map_of (vs_billing vs) (n, k) = None" if "Option.bind (pv_instance (providers_of vs) n) (\<lambda>i. pi_driver i k) = None"
    using keeps that contract by (cases "map_of (vs_billing vs) (n, k)") (auto simp: set_keeps_def providers_of_def keeps_contract_def, force)
  then show ?thesis
    using contract
    by (auto simp: providers_of_def keeps_contract_def set_billing_def set_parking_def zero_park_def
        split: option.splits)
qed

section \<open>Secrets\<close>

text \<open>What is read out of a reference is no reference itself.\<close>

lemma reveal_no_ref:
  "\<forall>r v. se_resolve env r = Inr v \<longrightarrow> \<not> is_ref v \<Longrightarrow> reveal env r = Inr v \<Longrightarrow> \<not> is_ref v"
  by (auto simp: reveal_def split: sum.splits if_split_asm)

lemma refold_Inr [simp]:
  "(case x of Inl _ \<Rightarrow> Inl e | Inr y \<Rightarrow> Inr (f y)) = Inr z \<longleftrightarrow> (\<exists>y. x = Inr y \<and> z = f y)"
  by (cases x) auto

lemma hz_client:
  assumes "\<forall>r v. se_resolve env r = Inr v \<longrightarrow> \<not> is_ref v" and "new_hetzner env client w cfg = Inr (d, s)"
  shows "(\<exists>opts. hz_api d = client opts \<and> \<not> is_ref (ho_token opts) \<and> ho_max_retries opts = 0)
    \<and> pacer_acquire now (dt_pacer s) = Inr ()"
  using assms(2) reveal_no_ref [OF assms(1)]
  by (fastforce simp: new_hetzner_def bindE_Inr_iff fresh_state_def fresh_pacer split: if_split_asm)

lemma do_client:
  assumes "\<forall>r v. se_resolve env r = Inr v \<longrightarrow> \<not> is_ref v" and "new_digital_ocean env client w cfg = Inr (d, s)"
  shows "(\<exists>token opts. client opts = Inr (do_api d) \<and> oo_authorization opts = token_transport token \<and> \<not> is_ref token)
    \<and> pacer_acquire now (dt_pacer s) = Inr ()"
  using assms(2) reveal_no_ref [OF assms(1)]
  by (fastforce simp: new_digital_ocean_def bindE_Inr_iff fresh_state_def fresh_pacer split: if_split_asm)

lemma gcp_auth_key:
  "gcp_auth_of env detect s = Inr (GcpKey c) \<Longrightarrow>
     \<exists>v. se_resolve env (gset_credentials s) = Inr v \<and> detect v = Inr c \<and> gset_credentials s \<noteq> []"
  by (auto simp: gcp_auth_of_def split: sum.splits if_split_asm)

lemma gcp_client:
  assumes "new_gcp env detect service w cfg = Inr (d, s)"
  shows "(\<exists>auth. service auth = Inr (gp_api d)
      \<and> (\<forall>c. auth = GcpKey c \<longrightarrow> (\<exists>r v. is_ref r \<and> se_resolve env r = Inr v \<and> detect v = Inr c)))
    \<and> pacer_acquire now (dt_pacer s) = Inr ()"
  using assms
  by (fastforce simp: new_gcp_def bindE_Inr_iff fresh_pacer dest: gcp_auth_key split: if_split_asm)

lemma aws_static_no_ref:
  assumes "\<forall>r v. se_resolve env r = Inr v \<longrightarrow> \<not> is_ref v" and "aws_static env s = Inr (Some (key, secret, session))"
  shows "\<not> is_ref key \<and> \<not> is_ref secret \<and> \<not> is_ref session"
  using assms(2) reveal_no_ref [OF assms(1)]
  by (auto simp: aws_static_def bindE_Inr_iff is_ref_def secret_prefix_def split: if_split_asm)

lemma aws_client:
  assumes "\<forall>r v. se_resolve env r = Inr v \<longrightarrow> \<not> is_ref v" and "new_aws env load ec2 w cfg = Inr (d, s)"
  shows "(\<exists>opts c ep. load opts = Inr c \<and> aw_api d = ec2 c ep \<and> ao_max_attempts opts = 1
      \<and> (\<forall>key secret session. ao_static opts = Some (key, secret, session) \<longrightarrow>
           \<not> is_ref key \<and> \<not> is_ref secret \<and> \<not> is_ref session))
    \<and> pacer_acquire now (dt_pacer s) = Inr ()"
proof -
  from assms(2) obtain sts static c where static: "aws_static env sts = Inr static"
    and load: "load \<lparr>ao_region = aset_region sts, ao_max_attempts = 1, ao_static = static\<rparr> = Inr c"
    and d: "aw_api d = ec2 c (given (aset_endpoint sts))" and s: "dt_pacer s = pacer_new (aset_rps sts)"
    by (auto simp: new_aws_def bindE_Inr_iff split: if_split_asm)
  show ?thesis
    using static load d aws_static_no_ref [OF assms(1), of sts]
    by (intro conjI exI [of _ "\<lparr>ao_region = aset_region sts, ao_max_attempts = 1, ao_static = static\<rparr>"] exI [of _ c]
        exI [of _ "given (aset_endpoint sts)"]) (auto simp: s fresh_pacer)
qed


end
