(* ===== verification/Setup_Witnesses.thy ===== *)
theory Setup_Witnesses
  imports Setup_Guarantees Cloud_Witnesses
begin

text \<open>
  The compiled drivers with toy client libraries, whose constructors give the clouds of
  Cloud_Witnesses: a configuration with a Hetzner and a fake instance, and one of each cloud.
\<close>

definition xs_env :: setup_env where
  "xs_env = \<lparr>se_resolve = (\<lambda>r. if r = ''secret://env/TOKEN'' then Inr ''s3cret'' else Inl (EOther ''unset'')),
     se_float = (\<lambda>_. None), se_duration = (\<lambda>_. None), se_show = (\<lambda>_. []), se_parse_time = (\<lambda>_. None),
     se_now = 0, se_pages = 3\<rparr>"

definition xs_libraries :: "(nat, nat, nat, string, nat, string, nat) libraries" where
  "xs_libraries = \<lparr>li_hcloud = (\<lambda>opts. hz_api toy_hz), li_hz_world = 1,
     li_godo = (\<lambda>opts. Inr (do_api toy_do)), li_do_world = 1,
     li_detect = Inr, li_compute = (\<lambda>auth. Inr (gp_api toy_gcp)), li_gcp_world = 1,
     li_aws_load = (\<lambda>opts. Inr (ao_region opts)), li_ec2 = (\<lambda>c ep. aw_api toy_aws), li_aws_world = 1,
     li_engine = (\<lambda>base socket. toy_http), li_dk_world = 1\<rparr>"

definition xs_settings :: "(string \<times> json) list \<Rightarrow> instance_config" where
  "xs_settings fs = \<lparr>ic_instance = ''i'', ic_owner = ''me'', ic_settings = BVal (JObj fs)\<rparr>"

definition xs_specs :: "provider_spec list" where
  "xs_specs =
     [\<lparr>sp_name = ''a'', sp_driver = ''hetzner'',
        sp_settings = BVal (JObj [(''token'', JStr ''secret://env/TOKEN'')]), sp_billing = []\<rparr>,
      \<lparr>sp_name = ''b'', sp_driver = ''fake'',
        sp_settings = BVal (JObj [(''park'', JBool True), (''billing'', JObj [(''compute.machine'', JObj [])])]),
        sp_billing = [(''storage.volume'', \<lparr>bo_disabled = False, bo_minimum = Some 60, bo_increment = None,
          bo_buffer = None, bo_adaptive = False\<rparr>)]\<rparr>]"

definition xs_plane :: plane where
  "xs_plane = \<lparr>pl_db = empty_db, pl_instance = BNil, pl_providers = []\<rparr>"

definition xs_build :: "(err + provider_set) \<times> plane" where
  "xs_build = build_providers (compiled_drivers xs_env xs_libraries) ''me'' 0 xs_specs \<lparr>vs_instances = [], vs_billing = []\<rparr> xs_plane"

lemma xs_built: "is_ok (fst xs_build)" by code_simp

lemma xs_regular: "list_all (regular_spec xs_env ''me'') xs_specs" by code_simp

lemma xs_answers:
  "case xs_build of (Inl _, _) \<Rightarrow> False
   | (Inr vs, _) \<Rightarrow> pv_parking (providers_of vs) ''b'' compute_kind \<noteq> zero_park
       \<and> (case pv_instance (providers_of vs) ''a'' of None \<Rightarrow> False | Some i \<Rightarrow> pi_kinds i = [compute_kind])"
  by code_simp

theorem kernel_sees_served_kinds_only_witness:
  "\<exists>vs st. xs_build = (Inr vs, st) \<and> pv_parking (providers_of vs) ''b'' compute_kind \<noteq> zero_park
     \<and> pv_billing (providers_of vs) ''a'' volume_kind = (zero_billing, False)"
proof -
  obtain vs st where b: "xs_build = (Inr vs, st)" and park: "pv_parking (providers_of vs) ''b'' compute_kind \<noteq> zero_park"
    and i: "\<exists>i. pv_instance (providers_of vs) ''a'' = Some i \<and> pi_kinds i = [compute_kind]"
    using xs_answers by (auto split: prod.splits sum.splits option.splits)
  have "distinct (map sp_name xs_specs)" "\<forall>sp \<in> set xs_specs. regular_spec xs_env ''me'' sp"
    using xs_regular by (simp_all add: xs_specs_def list_all_iff)
  from kernel_sees_served_kinds_only [OF b [unfolded xs_build_def] this, of "''a''" volume_kind] i
  have "pv_billing (providers_of vs) ''a'' volume_kind = (zero_billing, False)"
    by (auto simp: compute_kind_def volume_kind_def)
  with b park show ?thesis by blast
qed


end
