(* ===== verification/Fleet_Gauges.thy ===== *)
theory Fleet_Gauges
  imports API_Guarantees
begin

text \<open>
  The gauges of the fleet (internal/app/stats.go): what a scrape of the metrics computes from the
  database and the health tracker, and that the numbers are those of the fleet.
\<close>

record gauge =
  ga_name :: string
  ga_labels :: "string list"
  ga_value :: nat

text \<open>A Go map of counters: \<open>counts[k]++\<close> for each key.\<close>

definition bump :: "'k \<Rightarrow> ('k \<times> nat) list \<Rightarrow> ('k \<times> nat) list" where
  "bump k m = AList.update k (Suc (case map_of m k of None \<Rightarrow> 0 | Some n \<Rightarrow> n)) m"

definition tally :: "'k list \<Rightarrow> ('k \<times> nat) list" where
  "tally ks = fold bump ks []"

definition resource_key :: "resource \<Rightarrow> string list" where
  "resource_key r = [r_provider r, r_kind r, phase_name (r_phase r)]"

definition resource_gauges :: "db \<Rightarrow> gauge list" where
  "resource_gauges s =
     (let rs = resource_list no_filter s in
      map (\<lambda>(k, n). \<lparr>ga_name = ''fleetplane_resources'', ga_labels = k, ga_value = n\<rparr>) (tally (map resource_key rs))
      @ [\<lparr>ga_name = ''fleetplane_leases_active'', ga_labels = [],
          ga_value = sum_list (map (\<lambda>r. count_active (r_id r) s) rs)\<rparr>])"

text \<open>The state \<open>uncertain\<close> is always exported.\<close>

definition operation_gauges :: "db \<Rightarrow> gauge list" where
  "operation_gauges s =
     (let m = tally (map (\<lambda>x. op_state_name (op_state x)) (ops_non_terminal s));
          m' = (if map_of m ''uncertain'' = None then AList.update ''uncertain'' 0 m else m)
      in map (\<lambda>(k, n). \<lparr>ga_name = ''fleetplane_operations'', ga_labels = [k], ga_value = n\<rparr>) m')"

definition pool_gauges :: "db \<Rightarrow> gauge list" where
  "pool_gauges s = [\<lparr>ga_name = ''fleetplane_pools'', ga_labels = [], ga_value = length (pool_list s)\<rparr>]"

definition health_gauges :: "tracked list option \<Rightarrow> gauge list" where
  "health_gauges h = (case h of None \<Rightarrow> []
     | Some ts \<Rightarrow> map (\<lambda>t. \<lparr>ga_name = ''fleetplane_provider_health_state'',
         ga_labels = [tr_instance t, health_state_name (ph_state (tr_health t))], ga_value = 1\<rparr>) (health_snapshot ts))"

definition collect :: "tracked list option \<Rightarrow> db \<Rightarrow> gauge list" where
  "collect h s = resource_gauges s @ operation_gauges s @ pool_gauges s @ health_gauges h"

section \<open>The numbers are those of the fleet\<close>

text \<open>The value a scrape shows for a series, zero where it is not exported.\<close>

definition scraped :: "gauge list \<Rightarrow> string \<Rightarrow> string list \<Rightarrow> nat" where
  "scraped gs n ls = (case find (\<lambda>g. ga_name g = n \<and> ga_labels g = ls) gs of None \<Rightarrow> 0 | Some g \<Rightarrow> ga_value g)"

lemma map_of_bump: "map_of (bump k m) k' = (if k' = k then Some (Suc (case map_of m k of None \<Rightarrow> 0 | Some n \<Rightarrow> n)) else map_of m k')"
  by (simp add: bump_def update_conv')

lemma map_of_fold_bump:
  "map_of (fold bump ks m) k =
     (if k \<in> set ks then Some (count_list ks k + (case map_of m k of None \<Rightarrow> 0 | Some n \<Rightarrow> n)) else map_of m k)"
  by (induction ks arbitrary: m) (auto simp: map_of_bump split: option.splits)

lemma map_of_tally: "map_of (tally ks) k = (if k \<in> set ks then Some (count_list ks k) else None)"
  by (simp add: tally_def map_of_fold_bump)

lemma scraped_first: "list_all (\<lambda>g. ga_name g \<noteq> n) b \<Longrightarrow> scraped (a @ b) n ls = scraped a n ls"
proof -
  assume "list_all (\<lambda>g. ga_name g \<noteq> n) b"
  then have "find (\<lambda>g. ga_name g = n \<and> ga_labels g = ls) b = None" by (auto simp: find_None_iff list_all_iff)
  then show ?thesis by (induction a) (simp_all add: scraped_def)
qed

lemma scraped_other: "list_all (\<lambda>g. ga_name g \<noteq> n) a \<Longrightarrow> scraped (a @ b) n ls = scraped b n ls"
  by (induction a) (auto simp: scraped_def)

lemma scraped_map: "inj f \<Longrightarrow> scraped (map (\<lambda>(k, v). \<lparr>ga_name = n, ga_labels = f k, ga_value = v\<rparr>) m) n (f k)
    = (case map_of m k of None \<Rightarrow> 0 | Some v \<Rightarrow> v)"
  by (induction m) (auto simp: scraped_def inj_eq)

lemma count_length: "count_list (map f xs) k = length (filter (\<lambda>x. f x = k) xs)"
  by (induction xs) auto

lemma tally_value: "(case map_of (tally (map f xs)) k of None \<Rightarrow> 0 | Some v \<Rightarrow> v) = length (filter (\<lambda>x. f x = k) xs)"
  by (auto simp: map_of_tally count_length filter_empty_conv)

lemma leases_partition:
  assumes "distinct (map r_id rs)" and "\<forall>l \<in> set ls. l_state l = LeaseActive \<longrightarrow> l_resource l \<in> r_id ` set rs"
  shows "sum_list (map (\<lambda>r. length (filter (is_active (r_id r)) ls)) rs) = length (filter (\<lambda>l. l_state l = LeaseActive) ls)"
  using assms(2)
proof (induction ls)
  case (Cons l ls)
  have one: "sum_list (map (\<lambda>r. if is_active (r_id r) l then 1 else 0 :: nat) rs)
      = (if l_state l = LeaseActive then 1 else 0)"
  proof (cases "l_state l = LeaseActive")
    case True
    then have "l_resource l \<in> set (map r_id rs)" using Cons.prems by auto
    then have "sum_list (map (\<lambda>i. if l_resource l = i then 1 else 0 :: nat) (map r_id rs)) = 1"
      using assms(1) by (induction "map r_id rs" arbitrary: rs) (auto simp: sum_list_0)
    then show ?thesis using True by (simp add: is_active_def comp_def)
  qed (simp add: is_active_def)
  have "sum_list (map (\<lambda>r. length (filter (is_active (r_id r)) (l # ls))) rs)
      = sum_list (map (\<lambda>r. (if is_active (r_id r) l then 1 else 0) + length (filter (is_active (r_id r)) ls)) rs)"
    by (intro arg_cong [where f = sum_list] map_cong) auto
  then show ?case using Cons one by (simp add: sum_list_addf)
qed simp

lemma listed_live: "set (resource_list no_filter s) = {r \<in> set (resources s). live r}"
  by (auto simp: resource_list_def resource_matches_def no_filter_def)

lemma op_state_name_inj: "op_state_name p = op_state_name q \<longleftrightarrow> p = q"
  by (cases p; cases q) simp_all

lemma filter_sort_length: "length (filter P (sort_key f xs)) = length (filter P xs)"
  by (metis mset_filter mset_sort size_mset)

lemma phase_name_eq: "phase_name p = phase_name q \<longleftrightarrow> p = q"
  by (cases p; cases q) simp_all

lemma gauge_names:
  "list_all (\<lambda>g. ga_name g \<in> {''fleetplane_resources'', ''fleetplane_leases_active''}) (resource_gauges s)"
  "list_all (\<lambda>g. ga_name g = ''fleetplane_operations'') (operation_gauges s)"
  "list_all (\<lambda>g. ga_name g = ''fleetplane_pools'') (pool_gauges s)"
  "list_all (\<lambda>g. ga_name g = ''fleetplane_provider_health_state'') (health_gauges h)"
  by (auto simp: list_all_iff resource_gauges_def operation_gauges_def pool_gauges_def health_gauges_def Let_def
      split: option.splits)

lemma scraped_resources:
  "scraped (collect h s) ''fleetplane_resources'' ls = length (filter (\<lambda>r. resource_key r = ls) (resource_list no_filter s))"
proof -
  let ?rs = "resource_list no_filter s"
  have "scraped (collect h s) ''fleetplane_resources'' ls
      = scraped (map (\<lambda>(k, v). \<lparr>ga_name = ''fleetplane_resources'', ga_labels = k, ga_value = v\<rparr>) (tally (map resource_key ?rs)))
          ''fleetplane_resources'' ls"
    unfolding collect_def resource_gauges_def Let_def append_assoc
    using gauge_names(2) [of s] gauge_names(3) [of s] gauge_names(4) [of h]
    by (intro scraped_first) (auto simp: list_all_iff)
  also have "\<dots> = length (filter (\<lambda>r. resource_key r = ls) ?rs)"
    using scraped_map [of "\<lambda>x. x" "''fleetplane_resources''" "tally (map resource_key ?rs)" ls]
    by (simp add: tally_value inj_def)
  finally show ?thesis .
qed

lemma scraped_leases:
  "scraped (collect h s) ''fleetplane_leases_active'' []
     = sum_list (map (\<lambda>r. count_active (r_id r) s) (resource_list no_filter s))"
proof -
  have "scraped (collect h s) ''fleetplane_leases_active'' []
      = scraped ([\<lparr>ga_name = ''fleetplane_leases_active'', ga_labels = [],
          ga_value = sum_list (map (\<lambda>r. count_active (r_id r) s) (resource_list no_filter s))\<rparr>]
          @ operation_gauges s @ pool_gauges s @ health_gauges h) ''fleetplane_leases_active'' []"
    unfolding collect_def resource_gauges_def Let_def append_assoc by (intro scraped_other) (auto simp: list_all_iff)
  then show ?thesis by (simp add: scraped_def)
qed

lemma scraped_operations:
  "scraped (collect h s) ''fleetplane_operations'' [n]
     = length (filter (\<lambda>x. op_state_name (op_state x) = n) (ops_non_terminal s))"
proof -
  let ?m = "tally (map (\<lambda>x. op_state_name (op_state x)) (ops_non_terminal s))"
  let ?m' = "if map_of ?m ''uncertain'' = None then AList.update ''uncertain'' 0 ?m else ?m"
  have "scraped (collect h s) ''fleetplane_operations'' [n] = scraped (operation_gauges s) ''fleetplane_operations'' [n]"
  proof -
    have "scraped (collect h s) ''fleetplane_operations'' [n]
        = scraped (operation_gauges s @ pool_gauges s @ health_gauges h) ''fleetplane_operations'' [n]"
      unfolding collect_def by (rule scraped_other) (use gauge_names(1) [of s] in \<open>auto simp: list_all_iff\<close>)
    also have "\<dots> = scraped (operation_gauges s) ''fleetplane_operations'' [n]"
      by (rule scraped_first) (use gauge_names(3) [of s] gauge_names(4) [of h] in \<open>auto simp: list_all_iff\<close>)
    finally show ?thesis .
  qed
  also have "\<dots> = (case map_of ?m' n of None \<Rightarrow> 0 | Some v \<Rightarrow> v)"
    using scraped_map [of "\<lambda>k. [k]" "''fleetplane_operations''" ?m' n] by (simp add: operation_gauges_def Let_def inj_def)
  also have "\<dots> = (case map_of ?m n of None \<Rightarrow> 0 | Some v \<Rightarrow> v)"
    by (auto simp: update_conv')
  finally show ?thesis by (simp add: tally_value)
qed

lemma scraped_pools: "scraped (collect h s) ''fleetplane_pools'' [] = length (pools s)"
proof -
  have "scraped (collect h s) ''fleetplane_pools'' [] = scraped (pool_gauges s @ health_gauges h) ''fleetplane_pools'' []"
    unfolding collect_def append_assoc [symmetric]
    unfolding append_assoc [of _ "pool_gauges s" "health_gauges h"]
    by (rule scraped_other) (use gauge_names(1,2) [of s] in \<open>auto simp: list_all_iff\<close>)
  then show ?thesis by (simp add: scraped_def pool_gauges_def pool_list_def)
qed

text \<open>
  A scrape shows the fleet as it is: in every reachable state the gauge of resources is, for each
  provider, kind and phase, the number of live resources there, the gauge of leases is the number of
  all active leases, and the gauge of operations is the number of open operations in each state.
\<close>

theorem gauges_count_the_fleet:
  assumes "reachable s"
  shows "scraped (collect h s) ''fleetplane_resources'' [p, k, phase_name ph]
       = length (filter (\<lambda>r. live r \<and> r_provider r = p \<and> r_kind r = k \<and> r_phase r = ph) (resources s))
    \<and> scraped (collect h s) ''fleetplane_leases_active'' [] = length (filter (\<lambda>l. l_state l = LeaseActive) (leases s))
    \<and> scraped (collect h s) ''fleetplane_operations'' [op_state_name st]
       = length (filter (\<lambda>x. op_state x = st \<and> \<not> op_terminal st) (operations s))
    \<and> scraped (collect h s) ''fleetplane_pools'' [] = length (pools s)"
proof (intro conjI)
  note core = kinvD(1) [OF reachable_kinv [OF assms]]
  show "scraped (collect h s) ''fleetplane_resources'' [p, k, phase_name ph]
       = length (filter (\<lambda>r. live r \<and> r_provider r = p \<and> r_kind r = k \<and> r_phase r = ph) (resources s))"
    unfolding scraped_resources resource_list_def filter_sort_length filter_filter
    by (intro arg_cong [where f = length] filter_cong)
      (auto simp: resource_key_def phase_name_eq resource_matches_def no_filter_def)
  have "distinct (map r_id (resource_list no_filter s))"
    using coreD(1) [OF core] by (auto simp: resource_list_def distinct_map intro: inj_on_subset)
  moreover have "\<forall>l \<in> set (leases s). l_state l = LeaseActive \<longrightarrow> l_resource l \<in> r_id ` set (resource_list no_filter s)"
    using leased_resource [OF core] by (metis (mono_tags, lifting) imageI listed_live mem_Collect_eq tget_SomeD)
  ultimately show "scraped (collect h s) ''fleetplane_leases_active'' [] = length (filter (\<lambda>l. l_state l = LeaseActive) (leases s))"
    unfolding scraped_leases count_active_def by (rule leases_partition)
  have op: "is_open x \<longleftrightarrow> \<not> op_terminal (op_state x)" if "x \<in> set (operations s)" for x
    using coreD(4) [OF core that] by (auto simp: stamped_def is_open_def)
  show "scraped (collect h s) ''fleetplane_operations'' [op_state_name st]
       = length (filter (\<lambda>x. op_state x = st \<and> \<not> op_terminal st) (operations s))"
    unfolding scraped_operations ops_non_terminal_def filter_sort_length filter_filter
    by (intro arg_cong [where f = length] filter_cong) (auto simp: op_state_name_inj op)
qed (rule scraped_pools)

theorem gauges_count_the_fleet_witness:
  "scraped (collect None ex_s2) ''fleetplane_leases_active'' [] = 1
     \<and> scraped (collect None ex_s2) ''fleetplane_resources'' [''p'', ''k'', ''allocated''] = 1"
proof -
  have "length (filter (\<lambda>l. l_state l = LeaseActive) (leases ex_s2)) = 1
      \<and> length (filter (\<lambda>r. live r \<and> r_provider r = ''p'' \<and> r_kind r = ''k'' \<and> r_phase r = Allocated) (resources ex_s2)) = 1"
    by code_simp
  with gauges_count_the_fleet [OF ex_reach2, of None "''p''" "''k''" Allocated] show ?thesis by simp
qed

end
