(* ===== verification/Store_Open.thy ===== *)
theory Store_Open
  imports Drivers URL_Text
begin

text \<open>
  Opening the database and its transactions (internal/storage/sqlite/db.go and store.go): the DSN of the
  two connection pools, the guard against a newer schema, what is closed when a step fails, the
  mapping of SQLite errors, and the nullable columns. \<open>database/sql\<close>, the SQLite driver and goose are
  arguments: what opening, closing, pinging and migrating a pool answers in a state of the world.
\<close>

section \<open>Connections\<close>

record 'w sql_driver =
  sq_open :: "string \<Rightarrow> 'w \<Rightarrow> (string + nat) \<times> 'w"
  sq_close :: "nat \<Rightarrow> 'w \<Rightarrow> string option \<times> 'w"
  sq_ping :: "nat \<Rightarrow> 'w \<Rightarrow> string option \<times> 'w"
  sq_version :: "nat \<Rightarrow> 'w \<Rightarrow> (string + int) \<times> 'w"
  sq_up :: "nat \<Rightarrow> 'w \<Rightarrow> string option \<times> 'w"

text \<open>The handle of \<open>DB\<close>.\<close>

record sqlite_db =
  db_writer :: nat
  db_reader :: nat
  db_path :: string

definition dsn :: "string \<Rightarrow> string \<Rightarrow> string \<Rightarrow> string" where
  "dsn path txlock synchronous =
     ''file:'' @ path @ ''?_txlock='' @ txlock @ ''&_pragma=journal_mode(WAL)'' @ ''&_pragma=busy_timeout(5000)''
     @ ''&_pragma=foreign_keys(1)'' @ ''&_pragma=temp_store(MEMORY)'' @ ''&_pragma=journal_size_limit(67108864)''
     @ ''&_pragma=synchronous('' @ query_escape synchronous @ '')''"

definition open_pool :: "'w sql_driver \<Rightarrow> string \<Rightarrow> string \<Rightarrow> string \<Rightarrow> 'w \<Rightarrow> (err + nat) \<times> 'w" where
  "open_pool sq path txlock synchronous w =
     (case sq_open sq (dsn path txlock synchronous) w of
        (Inl m, w) \<Rightarrow> (Inl (EOther m), w)
      | (Inr h, w) \<Rightarrow> (Inr h, w))"

text \<open>The highest version among the names of the embedded migrations.\<close>

fun max_version :: "string list \<Rightarrow> int \<Rightarrow> err + int" where
  "max_version [] m = Inr m"
| "max_version (name # names) m =
     (case cut_at CHR ''_'' name of
        None \<Rightarrow> max_version names m
      | Some (num, _) \<Rightarrow>
          (case parse_int num of
             None \<Rightarrow> Inl (EOther ''migration filename'')
           | Some v \<Rightarrow> max_version names (if v > m then v else m)))"

definition max_migration_version :: "string list \<Rightarrow> err + int" where
  "max_migration_version names =
     bindE (max_version names 0) (\<lambda>m.
     if m = 0 then Inl (EOther ''no embedded migrations found'') else Inr m)"

definition embedded_migrations :: "string list" where
  "embedded_migrations = [''0001_baseline.sql'', ''0002_domain.sql'', ''0003_classes.sql'', ''0004_parked.sql'']"

definition migrate :: "'w sql_driver \<Rightarrow> string list \<Rightarrow> nat \<Rightarrow> 'w \<Rightarrow> err option \<times> 'w" where
  "migrate sq names h w =
     (case max_migration_version names of
        Inl e \<Rightarrow> (Some e, w)
      | Inr newest \<Rightarrow>
          (case sq_version sq h w of
             (Inl m, w) \<Rightarrow> (Some (EOther (''migrations: '' @ m)), w)
           | (Inr current, w) \<Rightarrow>
               (if current > newest then (Some (EOther ''database schema is newer than this binary''), w)
                else case sq_up sq h w of
                    (Some m, w) \<Rightarrow> (Some (EOther (''migrations: '' @ m)), w)
                  | (None, w) \<Rightarrow> (None, w))))"

definition db_ping :: "'w sql_driver \<Rightarrow> sqlite_db \<Rightarrow> 'w \<Rightarrow> err option \<times> 'w" where
  "db_ping sq db w =
     (case sq_ping sq (db_writer db) w of
        (Some m, w) \<Rightarrow> (Some (EOther (''writer ping: '' @ m)), w)
      | (None, w) \<Rightarrow>
          (case sq_ping sq (db_reader db) w of
             (Some m, w) \<Rightarrow> (Some (EOther (''reader ping: '' @ m)), w)
           | (None, w) \<Rightarrow> (None, w)))"

text \<open>Both pools are closed, also when closing the first one fails.\<close>

definition db_close :: "'w sql_driver \<Rightarrow> sqlite_db \<Rightarrow> 'w \<Rightarrow> err option \<times> 'w" where
  "db_close sq db w =
     (let (e1, w) = sq_close sq (db_writer db) w; (e2, w) = sq_close sq (db_reader db) w
      in (if e1 = None \<and> e2 = None then None else Some (EOther ''close''), w))"

definition open_database :: "'w sql_driver \<Rightarrow> string list \<Rightarrow> string \<Rightarrow> 'w \<Rightarrow> (err + sqlite_db) \<times> 'w" where
  "open_database sq names path w =
     (case open_pool sq path ''immediate'' ''FULL'' w of
        (Inl e, w) \<Rightarrow> (Inl e, w)
      | (Inr wr, w) \<Rightarrow>
          (case migrate sq names wr w of
             (Some e, w) \<Rightarrow> (Inl e, snd (sq_close sq wr w))
           | (None, w) \<Rightarrow>
               (case open_pool sq path ''deferred'' ''NORMAL'' w of
                  (Inl e, w) \<Rightarrow> (Inl e, snd (sq_close sq wr w))
                | (Inr rd, w) \<Rightarrow>
                    (let db = \<lparr>db_writer = wr, db_reader = rd, db_path = path\<rparr> in
                     case db_ping sq db w of
                       (Some e, w) \<Rightarrow> (Inl e, snd (db_close sq db w))
                     | (None, w) \<Rightarrow> (Inr db, w)))))"

text \<open>\<open>Backup\<close>: a connection of its own, closed at the end; \<open>vacuum\<close> is \<open>VACUUM INTO\<close> on it.\<close>

definition store_backup ::
    "'w sql_driver \<Rightarrow> (nat \<Rightarrow> string \<Rightarrow> 'w \<Rightarrow> string option \<times> 'w) \<Rightarrow> sqlite_db \<Rightarrow> string \<Rightarrow> 'w \<Rightarrow> err option \<times> 'w" where
  "store_backup sq vacuum db dest w =
     (case open_pool sq (db_path db) ''deferred'' ''NORMAL'' w of
        (Inl e, w) \<Rightarrow> (Some e, w)
      | (Inr h, w) \<Rightarrow>
          (let (r, w) = vacuum h dest w
           in (map_option (\<lambda>m. EOther (''backup: '' @ m)) r, snd (sq_close sq h w))))"

section \<open>Transactions\<close>

datatype sql_error = SqlNoRows | SqlError string

definition map_sql_err :: "sql_error \<Rightarrow> err" where
  "map_sql_err e = (case e of
     SqlNoRows \<Rightarrow> ENotFound
   | SqlError m \<Rightarrow>
       (if contains ''UNIQUE constraint failed'' m \<or> contains ''CHECK constraint failed'' m
           \<or> contains ''FOREIGN KEY constraint failed'' m
        then EConflict else EOther m))"

text \<open>
  \<open>Tx\<close>: what \<open>BeginTx\<close> and \<open>Commit\<close> answer are arguments; a rolled back and a failed transaction leave
  the database as it was.
\<close>

definition store_tx :: "sql_error option \<Rightarrow> sql_error option \<Rightarrow> ('s \<Rightarrow> err + 's) \<Rightarrow> 's \<Rightarrow> err option \<times> 's" where
  "store_tx begun committed fn s =
     (case begun of
        Some e \<Rightarrow> (Some (map_sql_err e), s)
      | None \<Rightarrow>
          (case fn s of
             Inl e \<Rightarrow> (Some e, s)
           | Inr s' \<Rightarrow> (case committed of Some e \<Rightarrow> (Some (map_sql_err e), s) | None \<Rightarrow> (None, s'))))"

text \<open>\<open>View\<close> reads a snapshot and is always rolled back.\<close>

definition store_view :: "sql_error option \<Rightarrow> ('s \<Rightarrow> err + 'a) \<Rightarrow> 's \<Rightarrow> (err + 'a) \<times> 's" where
  "store_view begun fn s = (case begun of Some e \<Rightarrow> (Inl (map_sql_err e), s) | None \<Rightarrow> (fn s, s))"

section \<open>Nullable columns\<close>

text \<open>\<open>sql.NullString\<close> and \<open>sql.NullInt64\<close>: a value and whether it is there.\<close>

type_synonym 'a sql_null = "'a \<times> bool"

definition null_of :: "'a \<Rightarrow> 'a option \<Rightarrow> 'a sql_null" where
  "null_of zero p = (case p of None \<Rightarrow> (zero, False) | Some x \<Rightarrow> (x, True))"

definition null_bytes :: "string \<Rightarrow> string sql_null" where
  "null_bytes b = (if b = [] then ([], False) else (b, True))"

definition of_null :: "'a sql_null \<Rightarrow> 'a option" where
  "of_null v = (if snd v then Some (fst v) else None)"

definition bytes_of_null :: "string sql_null \<Rightarrow> string" where
  "bytes_of_null v = (if snd v then fst v else [])"

lemma null_roundtrip [simp]: "of_null (null_of zero p) = p" "bytes_of_null (null_bytes b) = b"
  by (auto simp: of_null_def null_of_def null_bytes_def bytes_of_null_def split: option.splits)

section \<open>Laws\<close>

text \<open>The transactions of the kernel (\<open>run_tx\<close>) are \<open>Tx\<close> when the database itself works.\<close>

lemma store_tx_run: "store_tx None None fn s = run_tx s (fn s)"
  by (simp add: store_tx_def run_tx_def split: sum.splits)

text \<open>All or nothing: the writes of the body are there exactly when no error is returned.\<close>

lemma store_tx_atomic:
  "store_tx begun committed fn s = (r, t) \<Longrightarrow>
     (case r of None \<Rightarrow> fn s = Inr t | Some e \<Rightarrow> t = s)"
  by (auto simp: store_tx_def split: option.splits sum.splits)

lemma max_version_bound:
  "max_version names m = Inr v \<Longrightarrow> m \<le> v \<and> (\<forall>name \<in> set names. \<forall>num rest k.
     cut_at CHR ''_'' name = Some (num, rest) \<and> parse_int num = Some k \<longrightarrow> k \<le> v)"
proof (induction names arbitrary: m)
  case (Cons name names)
  then show ?case by (force split: option.splits prod.splits if_splits)
qed simp

lemma binary_version: "max_migration_version embedded_migrations = Inr 4"
  by code_simp

text \<open>What \<open>database/sql\<close> documents of its pools: \<open>opened\<close> are those that were opened and not closed.\<close>

definition counts_pools :: "('w \<Rightarrow> nat set) \<Rightarrow> 'w sql_driver \<Rightarrow> bool" where
  "counts_pools opened sq \<longleftrightarrow>
     (\<forall>d w. case sq_open sq d w of
        (Inl m, w') \<Rightarrow> opened w' = opened w
      | (Inr h, w') \<Rightarrow> h \<notin> opened w \<and> opened w' = insert h (opened w))
   \<and> (\<forall>h w. opened (snd (sq_close sq h w)) = opened w - {h})
   \<and> (\<forall>h w. opened (snd (sq_ping sq h w)) = opened w)
   \<and> (\<forall>h w. opened (snd (sq_version sq h w)) = opened w)
   \<and> (\<forall>h w. opened (snd (sq_up sq h w)) = opened w)"

lemma counts_poolsD:
  assumes "counts_pools opened sq"
  shows "sq_close sq h w = (x1, w1) \<Longrightarrow> opened w1 = opened w - {h}"
    and "sq_ping sq h w = (x1, w1) \<Longrightarrow> opened w1 = opened w"
    and "sq_version sq h w = (x2, w1) \<Longrightarrow> opened w1 = opened w"
    and "sq_up sq h w = (x1, w1) \<Longrightarrow> opened w1 = opened w"
    and "open_pool sq p lock sy w = (Inl e, w1) \<Longrightarrow> opened w1 = opened w"
    and "open_pool sq p lock sy w = (Inr h, w1) \<Longrightarrow> h \<notin> opened w \<and> opened w1 = insert h (opened w)"
proof -
  note c = assms [unfolded counts_pools_def]
  note cl = c [THEN conjunct2, THEN conjunct1, rule_format, of h w]
    and pg = c [THEN conjunct2, THEN conjunct2, THEN conjunct1, rule_format, of h w]
    and ve = c [THEN conjunct2, THEN conjunct2, THEN conjunct2, THEN conjunct1, rule_format, of h w]
    and up = c [THEN conjunct2, THEN conjunct2, THEN conjunct2, THEN conjunct2, rule_format, of h w]
  show "sq_close sq h w = (x1, w1) \<Longrightarrow> opened w1 = opened w - {h}" using cl by simp
  show "sq_ping sq h w = (x1, w1) \<Longrightarrow> opened w1 = opened w" using pg by simp
  show "sq_version sq h w = (x2, w1) \<Longrightarrow> opened w1 = opened w" using ve by simp
  show "sq_up sq h w = (x1, w1) \<Longrightarrow> opened w1 = opened w" using up by simp
  have "case sq_open sq d w of (Inl m, w') \<Rightarrow> opened w' = opened w
      | (Inr h, w') \<Rightarrow> h \<notin> opened w \<and> opened w' = insert h (opened w)" for d
    by (rule c [THEN conjunct1, rule_format])
  from this [of "dsn p lock sy"]
  show "open_pool sq p lock sy w = (Inl e, w1) \<Longrightarrow> opened w1 = opened w"
    "open_pool sq p lock sy w = (Inr h, w1) \<Longrightarrow> h \<notin> opened w \<and> opened w1 = insert h (opened w)"
    by (auto simp: open_pool_def split: prod.splits sum.splits)
qed

lemma migrate_pools: "counts_pools opened sq \<Longrightarrow> migrate sq names h w = (r, w1) \<Longrightarrow> opened w1 = opened w"
  by (auto simp: migrate_def dest: counts_poolsD split: sum.splits prod.splits option.splits if_split_asm)

lemma ping_pools: "counts_pools opened sq \<Longrightarrow> db_ping sq db w = (r, w1) \<Longrightarrow> opened w1 = opened w"
  by (auto simp: db_ping_def dest: counts_poolsD split: prod.splits option.splits)

lemma close_pools:
  "counts_pools opened sq \<Longrightarrow> db_close sq db w = (r, w1) \<Longrightarrow> opened w1 = opened w - {db_writer db, db_reader db}"
  by (auto simp: db_close_def dest: counts_poolsD split: prod.splits)

text \<open>
  Opening the database leaks no connection pool: after an error exactly the pools that were open
  before are open, after a success the writer and the reader besides them.
\<close>

theorem open_leaks_nothing:
  assumes "counts_pools opened sq" and "open_database sq names path w = (r, w')"
  shows "case r of Inl e \<Rightarrow> opened w' = opened w
    | Inr db \<Rightarrow> opened w' = {db_writer db, db_reader db} \<union> opened w \<and> db_writer db \<noteq> db_reader db"
proof (cases "open_pool sq path ''immediate'' ''FULL'' w")
  case (Pair r1 w1)
  note c = counts_poolsD [OF assms(1)]
  show ?thesis
  proof (cases r1)
    case (Inl e)
    then show ?thesis using assms(2) Pair c(5) by (auto simp: open_database_def)
  next
    case (Inr wr)
    have wr: "wr \<notin> opened w" "opened w1 = insert wr (opened w)" using c(6) Pair Inr by auto
    obtain r2 w2 where m: "migrate sq names wr w1 = (r2, w2)" by fastforce
    have w2: "opened w2 = insert wr (opened w)" using migrate_pools [OF assms(1) m] wr by simp
    have closed: "opened (snd (sq_close sq wr u)) = opened u - {wr}" for u
      using c(1) by (metis prod.collapse)
    note start = assms(2) [unfolded open_database_def Pair Inr, simplified, unfolded m, simplified]
    show ?thesis
    proof (cases r2)
      case (Some e)
      then show ?thesis using start wr(1) w2 closed [of w2] by auto
    next
      case None
      obtain r3 w3 where rd: "open_pool sq path ''deferred'' ''NORMAL'' w2 = (r3, w3)" by fastforce
      note second = start [unfolded None rd, simplified]
      show ?thesis
      proof (cases r3)
        case (Inl e)
        then show ?thesis using second wr(1) w2 closed [of w3] c(5) [OF rd [unfolded Inl]] by auto
      next
        case (Inr h)
        let ?db = "\<lparr>db_writer = wr, db_reader = h, db_path = path\<rparr>"
        have w3: "h \<notin> opened w2" "opened w3 = insert h (opened w2)" using c(6) [OF rd [unfolded Inr]] by auto
        obtain r4 w4 where p: "db_ping sq ?db w3 = (r4, w4)" by fastforce
        obtain r5 w5 where q: "db_close sq ?db w4 = (r5, w5)" by fastforce
        show ?thesis
          using second p w2 w3 wr(1) ping_pools [OF assms(1) p] close_pools [OF assms(1) q] q
          by (cases r4) (auto simp: Inr Let_def)
      qed
    qed
  qed
qed

text \<open>
  A database that a newer binary migrated is refused and not migrated: all that happens is that its
  version is read and the pool is closed again.
\<close>

theorem newer_database_refused:
  assumes "max_migration_version names = Inr newest" and "open_pool sq path ''immediate'' ''FULL'' w = (Inr h, w1)"
    and "sq_version sq h w1 = (Inr current, w2)" and "newest < current"
  shows "\<exists>e. open_database sq names path w = (Inl e, snd (sq_close sq h w2))"
  using assms by (simp add: open_database_def migrate_def)

text \<open>A driver whose world is the list of open handles, and whose database is of version nine.\<close>

definition ex_sql :: "nat list sql_driver" where
  "ex_sql = \<lparr>sq_open = (\<lambda>d w. (Inr (Suc (sum_list w)), Suc (sum_list w) # w)),
     sq_close = (\<lambda>h w. (None, removeAll h w)), sq_ping = (\<lambda>h w. (None, w)),
     sq_version = (\<lambda>h w. (Inr 9, w)), sq_up = (\<lambda>h w. (None, w))\<rparr>"

theorem open_leaks_nothing_witness:
  "\<exists>e w'. open_database ex_sql embedded_migrations ''fleet.db'' [7] = (Inl e, w') \<and> set w' = {7}"
proof -
  have "Suc (sum_list w) \<notin> set w" for w
    using member_le_sum_list [of "Suc (sum_list w)" w] by auto
  then have counts: "counts_pools set ex_sql" by (simp add: counts_pools_def ex_sql_def)
  have "case open_database ex_sql embedded_migrations ''fleet.db'' [7] of (Inl _, _) \<Rightarrow> True | _ \<Rightarrow> False"
    by code_simp
  then obtain e w' where r: "open_database ex_sql embedded_migrations ''fleet.db'' [7] = (Inl e, w')"
    by (auto split: prod.splits sum.splits)
  from open_leaks_nothing [OF counts r] r show ?thesis by auto
qed

end
