(* ===== verification/Conformance.thy ===== *)
theory Conformance
  imports Driver_Kit
begin

text \<open>
  The conformance suite of providers (pkg/sdk/conformance/conformance.go): subtests that drive a
  provider through its interface and pass or fail. A subtest is a function of the bench (the
  state of the provider, what the checker counts and what a running subtest has noted) that ends
  normally or is stopped; its cleanups run afterwards, the last registered first. The random
  suffixes are drawn from an argument; sleeping and messages with values are left out, a panic
  of the suite itself counts as a stop.
\<close>

section \<open>The interface under test (provider.go)\<close>

record 's resource_driver =
  rv_plan :: "string \<Rightarrow> desired_state \<Rightarrow> err + action list"
  rv_apply :: "action \<Rightarrow> ('s, operation_ref) io"
  rv_observe :: "operation_ref \<Rightarrow> ('s, operation_status) io"
  rv_get :: "ext_ref \<Rightarrow> ('s, observed_resource) io"
  rv_discover :: "discover_scope \<Rightarrow> labels \<Rightarrow> ('s, observed_resource list) io"

text \<open>A provider; the optional capabilities are answers of the state.\<close>

record 's provider_kit =
  pv_kinds :: "string list"
  pv_driver :: "string \<Rightarrow> 's resource_driver option"
  pv_billing :: "('s \<Rightarrow> string \<Rightarrow> billing_policy) option"
  pv_parking :: "('s \<Rightarrow> string \<Rightarrow> park_policy) option"

record 's harness =
  hn_provider :: "'s provider_kit"
  hn_kind :: string
  hn_new_spec :: "int \<Rightarrow> json blob"
  hn_invalid_spec :: "json blob"
  hn_owner :: string
  hn_eventual :: bool
  hn_expensive :: bool
  hn_max_steps :: int
  hn_uid :: "nat \<Rightarrow> string"

section \<open>Subtests\<close>

datatype stop = Fatal string | Skip string

record 's bench =
  be_drv :: 's
  be_n :: int
  be_drawn :: nat
  be_errors :: "string list"
  be_cleanup :: "ext_ref list"

type_synonym ('s, 'a) test = "'s bench \<Rightarrow> (stop + 'a) \<times> 's bench"

definition retT :: "'a \<Rightarrow> ('s, 'a) test" where "retT x b = (Inr x, b)"
definition fatalT :: "string \<Rightarrow> ('s, 'a) test" where "fatalT m b = (Inl (Fatal m), b)"
definition skipT :: "string \<Rightarrow> ('s, 'a) test" where "skipT m b = (Inl (Skip m), b)"

definition bindT :: "('s, 'a) test \<Rightarrow> ('a \<Rightarrow> ('s, 'b) test) \<Rightarrow> ('s, 'b) test" where
  "bindT m f b = (case m b of (Inl e, c) \<Rightarrow> (Inl e, c) | (Inr x, c) \<Rightarrow> f x c)"

text \<open>A call of the driver, whose error the subtest looks at.\<close>

definition callT :: "('s, 'a) io \<Rightarrow> ('s, err + 'a) test" where
  "callT m b = (case m (be_drv b) of (r, s) \<Rightarrow> (Inr r, b\<lparr>be_drv := s\<rparr>))"

definition uidT :: "'s harness \<Rightarrow> ('s, string) test" where
  "uidT h b = (Inr (hn_uid h (be_drawn b)), b\<lparr>be_drawn := be_drawn b + 1\<rparr>)"

definition nextT :: "('s, int) test" where
  "nextT b = (Inr (be_n b + 1), b\<lparr>be_n := be_n b + 1\<rparr>)"

definition errorT :: "string \<Rightarrow> ('s, unit) test" where
  "errorT m b = (Inr (), b\<lparr>be_errors := be_errors b @ [m]\<rparr>)"

definition cleanupT :: "ext_ref \<Rightarrow> ('s, unit) test" where
  "cleanupT ref b = (Inr (), b\<lparr>be_cleanup := ref # be_cleanup b\<rparr>)"

text \<open>A deferred call: it runs however the body ends.\<close>

definition deferT :: "('s, unit) test \<Rightarrow> ('s, 'a) test \<Rightarrow> ('s, 'a) test" where
  "deferT fin m b = (case m b of (r, c) \<Rightarrow> (r, snd (fin c)))"

definition requireT :: "bool \<Rightarrow> string \<Rightarrow> ('s, unit) test" where
  "requireT ok m = (if ok then retT () else fatalT m)"

text \<open>A call that must succeed.\<close>

definition mustT :: "string \<Rightarrow> ('s, 'a) io \<Rightarrow> ('s, 'a) test" where
  "mustT m c = bindT (callT c) (\<lambda>r. case r of Inl e \<Rightarrow> fatalT m | Inr x \<Rightarrow> retT x)"

section \<open>Creating and destroying\<close>

definition max_steps :: "'s harness \<Rightarrow> nat" where
  "max_steps h = nat (if hn_max_steps h \<le> 0 then 200 else hn_max_steps h)"

fun poll_to_success :: "'s resource_driver \<Rightarrow> operation_ref \<Rightarrow> nat \<Rightarrow> ('s, unit) test" where
  "poll_to_success d oref 0 = fatalT ''operation did not reach a terminal state''"
| "poll_to_success d oref (Suc k) =
     bindT (callT (rv_observe d oref)) (\<lambda>r.
     case r of
       Inl e \<Rightarrow> (if is_class e ErrRateLimited \<or> is_class e ErrRetryable then poll_to_success d oref k
          else fatalT ''ObserveOperation'')
     | Inr st \<Rightarrow> (if st_state st = PsSucceeded then retT ()
          else if st_state st = PsFailed then fatalT ''operation failed''
          else poll_to_success d oref k))"

text \<open>What \<open>create\<close> and the dedup test plan: one resource with its identity labels.\<close>

definition planned :: "'s harness \<Rightarrow> 's resource_driver \<Rightarrow> string \<Rightarrow> ('s, (err + action list) \<times> string) test" where
  "planned h d pre =
     bindT nextT (\<lambda>n.
     bindT (uidT h) (\<lambda>u1.
     bindT (uidT h) (\<lambda>u2.
     bindT (uidT h) (\<lambda>u3.
     let rid = ''res-conf-'' @ u1; oid = ''op-conf-'' @ u2 in
     retT (rv_plan d rid \<lparr>ds_name = pre @ u3, ds_spec = hn_new_spec h n,
       ds_labels = identity_labels (hn_owner h) rid oid\<rparr>, oid)))))"

definition conf_create :: "'s harness \<Rightarrow> 's resource_driver \<Rightarrow> ('s, ext_ref) test" where
  "conf_create h d =
     bindT (planned h d ''conf-'') (\<lambda>(plan, oid).
     case plan of
       Inl e \<Rightarrow> fatalT ''Plan''
     | Inr acts \<Rightarrow>
         bindT (requireT (length acts = 1 \<and> ac_kind (hd acts) \<noteq> []) ''create plan, want one action'') (\<lambda>_.
         bindT (mustT ''Apply'' (rv_apply d ((hd acts)\<lparr>ac_action_id := oid\<rparr>))) (\<lambda>oref.
         case or_ref oref of
           None \<Rightarrow> fatalT ''Apply(create) returned no accept-time ref''
         | Some ref \<Rightarrow>
             bindT (requireT (ref_id ref \<noteq> []) ''Apply(create) returned no accept-time ref'') (\<lambda>_.
             bindT (cleanupT ref) (\<lambda>_.
             bindT (poll_to_success d oref (max_steps h)) (\<lambda>_.
             retT ref))))))"

definition delete_action :: "string \<Rightarrow> string \<Rightarrow> ext_ref \<Rightarrow> action" where
  "delete_action oid rid ref = \<lparr>ac_action_id = oid, ac_kind = ''delete'', ac_resource_id = rid,
     ac_ref = Some ref, ac_params = BNil, ac_destructive = True\<rparr>"

fun await_end :: "'s resource_driver \<Rightarrow> operation_ref \<Rightarrow> nat \<Rightarrow> ('s, unit) test" where
  "await_end d oref 0 = retT ()"
| "await_end d oref (Suc k) =
     bindT (callT (rv_observe d oref)) (\<lambda>r.
     case r of
       Inl e \<Rightarrow> retT ()
     | Inr st \<Rightarrow> (if st_state st = PsSucceeded \<or> st_state st = PsFailed then retT () else await_end d oref k))"

definition destroy :: "'s harness \<Rightarrow> 's resource_driver \<Rightarrow> ext_ref \<Rightarrow> ('s, unit) test" where
  "destroy h d ref =
     bindT (uidT h) (\<lambda>u.
     bindT (callT (rv_apply d (delete_action (''op-conf-del-'' @ u) ''cleanup'' ref))) (\<lambda>r.
     case r of
       Inl e \<Rightarrow> (if is_class e ErrNotFound then retT () else errorT ''cleanup delete'')
     | Inr oref \<Rightarrow> await_end d oref (max_steps h)))"

section \<open>The catalog\<close>

definition descriptor_declares_kind :: "'s harness \<Rightarrow> ('s, unit) test" where
  "descriptor_declares_kind h = requireT (hn_kind h \<in> set (pv_kinds (hn_provider h))) ''descriptor misses the kind''"

definition get_missing_is_not_found :: "'s harness \<Rightarrow> 's resource_driver \<Rightarrow> ('s, unit) test" where
  "get_missing_is_not_found h d =
     bindT (uidT h) (\<lambda>u.
     bindT (callT (rv_get d \<lparr>ref_id = ''does-not-exist-'' @ u, ref_extra = []\<rparr>)) (\<lambda>r.
     requireT (case r of Inl e \<Rightarrow> is_class e ErrNotFound | Inr _ \<Rightarrow> False) ''Get(missing), want ErrNotFound''))"

definition invalid_spec_is_invalid :: "'s harness \<Rightarrow> 's resource_driver \<Rightarrow> ('s, unit) test" where
  "invalid_spec_is_invalid h d =
     (if hn_invalid_spec h = BNil then skipT ''harness provides no InvalidSpec''
      else (case rv_plan d ''res-conf-invalid'' \<lparr>ds_name = ''x'', ds_spec = hn_invalid_spec h, ds_labels = []\<rparr> of
         Inr _ \<Rightarrow> fatalT ''invalid spec accepted by Plan''
       | Inl e \<Rightarrow>
           bindT (requireT (is_class e ErrInvalid) ''invalid spec, want invalid'') (\<lambda>_.
           requireT (effect e = EffectNone) ''validation failure must be EffectNone'')))"

definition lifecycle :: "'s harness \<Rightarrow> 's resource_driver \<Rightarrow> ('s, unit) test" where
  "lifecycle h d =
     bindT (conf_create h d) (\<lambda>ref.
     bindT (mustT ''Get after create'' (rv_get d ref)) (\<lambda>obs.
     bindT (requireT (ob_phase obs = PhaseRunning) ''created resource phase, want running'') (\<lambda>_.
     bindT (requireT (ob_extensions obs \<noteq> BNil) ''Extensions empty'') (\<lambda>_.
     bindT (destroy h d ref) (\<lambda>_.
     bindT (callT (rv_get d ref)) (\<lambda>r.
     requireT (case r of Inl e \<Rightarrow> is_class e ErrNotFound | Inr _ \<Rightarrow> False) ''Get after delete, want ErrNotFound''))))))"

fun await_deleted :: "'s resource_driver \<Rightarrow> operation_ref \<Rightarrow> nat \<Rightarrow> ('s, unit) test" where
  "await_deleted d oref 0 = fatalT ''delete of deleted never terminal''"
| "await_deleted d oref (Suc k) =
     bindT (callT (rv_observe d oref)) (\<lambda>r.
     case r of
       Inl e \<Rightarrow> (if is_class e ErrNotFound then retT () else fatalT ''ObserveOperation'')
     | Inr st \<Rightarrow> (if st_state st = PsSucceeded then retT ()
          else if st_state st = PsFailed then fatalT ''delete of deleted failed''
          else await_deleted d oref k))"

definition delete_of_deleted :: "'s harness \<Rightarrow> 's resource_driver \<Rightarrow> ('s, unit) test" where
  "delete_of_deleted h d =
     bindT (conf_create h d) (\<lambda>ref.
     bindT (destroy h d ref) (\<lambda>_.
     bindT (uidT h) (\<lambda>u.
     bindT (callT (rv_apply d (delete_action (''op-conf-dd-'' @ u) ''x'' ref))) (\<lambda>r.
     case r of
       Inl e \<Rightarrow> (if is_class e ErrNotFound then retT () else fatalT ''delete of deleted'')
     | Inr oref \<Rightarrow> await_deleted d oref (max_steps h)))))"

definition op_label_dedup :: "'s harness \<Rightarrow> 's resource_driver \<Rightarrow> ('s, unit) test" where
  "op_label_dedup h d =
     bindT (planned h d ''dedup-'') (\<lambda>(plan, oid).
     case plan of
       Inl e \<Rightarrow> fatalT ''Plan''
     | Inr [] \<Rightarrow> fatalT ''panic: index out of range''
     | Inr (a # _) \<Rightarrow>
         (let act = a\<lparr>ac_action_id := oid\<rparr> in
          bindT (mustT ''Apply'' (rv_apply d act)) (\<lambda>oref1.
          bindT (case or_ref oref1 of None \<Rightarrow> retT () | Some ref \<Rightarrow> cleanupT ref) (\<lambda>_.
          bindT (mustT ''replayed Apply errored'' (rv_apply d act)) (\<lambda>oref2.
          case (or_ref oref1, or_ref oref2) of
            (Some r1, Some r2) \<Rightarrow> requireT (ref_id r1 = ref_id r2) ''same ActionID produced two resources''
          | _ \<Rightarrow> fatalT ''panic: nil pointer dereference'')))))"

definition get_before_list :: "'s harness \<Rightarrow> 's resource_driver \<Rightarrow> ('s, unit) test" where
  "get_before_list h d =
     bindT (conf_create h d) (\<lambda>ref.
     bindT (mustT ''Get by ref after accepted create'' (rv_get d ref)) (\<lambda>_. retT ()))"

fun want_labels :: "labels \<Rightarrow> string list \<Rightarrow> ('s, unit) test" where
  "want_labels ls [] = retT ()"
| "want_labels ls (k # ks) =
     bindT (if lab ls k = [] then errorT ''created resource missing label'' else retT ()) (\<lambda>_. want_labels ls ks)"

definition ownership_applied :: "'s harness \<Rightarrow> 's resource_driver \<Rightarrow> ('s, unit) test" where
  "ownership_applied h d =
     bindT (conf_create h d) (\<lambda>ref.
     bindT (mustT ''Get'' (rv_get d ref)) (\<lambda>obs.
     bindT (want_labels (ob_labels obs) [label_managed, label_owner, label_id, label_op]) (\<lambda>_.
     bindT (requireT (ob_owned obs) ''created resource not recognized as Owned'') (\<lambda>_.
     requireT (ob_fleetplane_id obs \<noteq> [] \<and> ob_create_op_id obs \<noteq> []) ''FleetplaneID/CreateOpID not parsed from labels''))))"

definition observed_ids :: "observed_resource list \<Rightarrow> string list" where
  "observed_ids os = map (\<lambda>x. ref_id (ob_ref x)) os"

text \<open>\<open>seen\<close>: the ids listed so far, until the one wanted is among them.\<close>

fun seen_ids :: "'s resource_driver \<Rightarrow> string \<Rightarrow> string list \<Rightarrow> nat \<Rightarrow> ('s, string list) test" where
  "seen_ids d i out 0 = fatalT ''created resource never became discoverable''"
| "seen_ids d i out (Suc k) =
     bindT (mustT ''Discover'' (rv_discover d ScopeOwned [])) (\<lambda>os.
     let out = observed_ids os @ out in
     if i \<in> set out then retT out else seen_ids d i out k)"

definition discovery_stability :: "'s harness \<Rightarrow> 's resource_driver \<Rightarrow> ('s, unit) test" where
  "discovery_stability h d =
     bindT (conf_create h d) (\<lambda>ref.
     bindT (seen_ids d (ref_id ref) [] (max_steps h)) (\<lambda>first.
     bindT (seen_ids d (ref_id ref) [] (max_steps h)) (\<lambda>second.
     requireT (set first \<subseteq> set second) ''discovery unstable'')))"

fun first_owned_list :: "'s resource_driver \<Rightarrow> nat \<Rightarrow> ('s, unit) test" where
  "first_owned_list d 0 = fatalT ''ScopeOwned never returned our resources''"
| "first_owned_list d (Suc k) =
     bindT (mustT ''Discover'' (rv_discover d ScopeOwned [])) (\<lambda>os.
     if os = [] then first_owned_list d k
     else requireT (list_all ob_owned os) ''ScopeOwned returned a non-owned resource'')"

definition owned_scope_only_owned :: "'s harness \<Rightarrow> 's resource_driver \<Rightarrow> ('s, unit) test" where
  "owned_scope_only_owned h d = bindT (conf_create h d) (\<lambda>_. first_owned_list d (max_steps h))"

fun create_many :: "'s harness \<Rightarrow> 's resource_driver \<Rightarrow> nat \<Rightarrow> ('s, string list) test" where
  "create_many h d 0 = retT []"
| "create_many h d (Suc k) =
     bindT (conf_create h d) (\<lambda>ref. bindT (create_many h d k) (\<lambda>ids. retT (ref_id ref # ids)))"

definition page_total :: nat where "page_total = 5"

text \<open>The loop gives up after \<open>MaxSteps\<close> further lists.\<close>

fun all_listed :: "'s resource_driver \<Rightarrow> string list \<Rightarrow> nat \<Rightarrow> ('s, unit) test" where
  "all_listed d ids k =
     bindT (mustT ''Discover'' (rv_discover d ScopeOwned [])) (\<lambda>os.
     if length (filter (\<lambda>i. i \<in> set ids) (observed_ids os)) = page_total then retT ()
     else (case k of 0 \<Rightarrow> fatalT ''pagination lost resources'' | Suc k' \<Rightarrow> all_listed d ids k'))"

declare all_listed.simps [simp del]

definition pagination :: "'s harness \<Rightarrow> 's resource_driver \<Rightarrow> ('s, unit) test" where
  "pagination h d = bindT (create_many h d page_total) (\<lambda>ids. all_listed d ids (max_steps h))"

definition undeclared_kind :: string where "undeclared_kind = ''conformance.undeclared/kind''"

definition billing_contract :: "'s harness \<Rightarrow> ('s, unit) test" where
  "billing_contract h b =
     (case pv_billing (hn_provider h) of
        None \<Rightarrow> skipT ''provider does not implement BillingAware'' b
      | Some ba \<Rightarrow>
          (let pol = ba (be_drv b) (hn_kind h) in
           bindT (requireT (\<not> (bp_minimum pol < 0 \<or> bp_increment pol < 0 \<or> bp_buffer pol < 0))
              ''billing durations must be >= 0'') (\<lambda>_.
           bindT (requireT (ba (be_drv b) (hn_kind h) = pol) ''billing policy unstable across calls'') (\<lambda>_.
           requireT (fine_grained (ba (be_drv b) undeclared_kind)) ''undeclared kind must return the zero policy'')) b))"

definition parking_contract :: "'s harness \<Rightarrow> ('s, unit) test" where
  "parking_contract h b =
     (case pv_parking (hn_provider h) of
        None \<Rightarrow> skipT ''provider does not implement ParkAware'' b
      | Some pa \<Rightarrow>
          (let pol = pa (be_drv b) (hn_kind h) in
           bindT (requireT (\<not> pk_start_estimate pol < 0) ''StartEstimate must be >= 0'') (\<lambda>_.
           bindT (requireT (pa (be_drv b) (hn_kind h) = pol) ''park policy unstable across calls'') (\<lambda>_.
           requireT (\<not> pk_supported (pa (be_drv b) undeclared_kind)) ''undeclared kind must return the zero policy'')) b))"

definition power_action :: "string \<Rightarrow> string \<Rightarrow> ext_ref \<Rightarrow> action" where
  "power_action kind oid ref = \<lparr>ac_action_id = oid, ac_kind = kind, ac_resource_id = [],
     ac_ref = Some ref, ac_params = BNil, ac_destructive = False\<rparr>"

text \<open>One direction of the power cycle: the action, its end, the phase, the action once more.\<close>

definition power_step :: "'s harness \<Rightarrow> 's resource_driver \<Rightarrow> action \<Rightarrow> ext_ref \<Rightarrow> observed_phase \<Rightarrow> ('s, unit) test" where
  "power_step h d act ref ph =
     bindT (mustT (ac_kind act) (rv_apply d act)) (\<lambda>oref.
     bindT (poll_to_success d oref (max_steps h)) (\<lambda>_.
     bindT (callT (rv_get d ref)) (\<lambda>r.
     bindT (requireT (case r of Inl _ \<Rightarrow> False | Inr obs \<Rightarrow> ob_phase obs = ph) ''unexpected phase'') (\<lambda>_.
     bindT (mustT ''the repeated action must succeed'' (rv_apply d act)) (\<lambda>_. retT ())))))"

definition parking_lifecycle :: "'s harness \<Rightarrow> 's resource_driver \<Rightarrow> ('s, unit) test" where
  "parking_lifecycle h d b =
     (if (case pv_parking (hn_provider h) of None \<Rightarrow> True | Some pa \<Rightarrow> \<not> pk_supported (pa (be_drv b) (hn_kind h)))
      then skipT ''parking not supported'' b
      else bindT (conf_create h d) (\<lambda>ref.
        deferT (destroy h d ref)
          (bindT (uidT h) (\<lambda>u1.
           bindT (power_step h d (power_action ''stop'' (''op-conf-stop-'' @ u1) ref) ref PhaseStopped) (\<lambda>_.
           bindT (mustT ''Get'' (rv_get d ref)) (\<lambda>before.
           bindT (uidT h) (\<lambda>u2.
           bindT (power_step h d (power_action ''start'' (''op-conf-start-'' @ u2) ref) ref PhaseRunning) (\<lambda>_.
           bindT (mustT ''Get'' (rv_get d ref)) (\<lambda>after.
           requireT (ob_fleetplane_id after = ob_fleetplane_id before \<and> ob_create_op_id after = ob_create_op_id before
             \<and> ob_owned after) ''identity must survive the stop/start cycle''))))))) ) b)"

section \<open>Running the catalog\<close>

datatype verdict = Passed | Skipped | Failed

fun cleanup :: "'s harness \<Rightarrow> 's resource_driver \<Rightarrow> ext_ref list \<Rightarrow> ('s, unit) test" where
  "cleanup h d [] = retT ()"
| "cleanup h d (ref # refs) = bindT (destroy h d ref) (\<lambda>_. cleanup h d refs)"

definition verdict_of :: "(stop + unit) \<Rightarrow> string list \<Rightarrow> verdict" where
  "verdict_of r errs = (case r of
     Inl (Fatal _) \<Rightarrow> Failed
   | Inl (Skip _) \<Rightarrow> (if errs = [] then Skipped else Failed)
   | Inr _ \<Rightarrow> (if errs = [] then Passed else Failed))"

text \<open>\<open>t.Run\<close>: the body, then the cleanups it registered.\<close>

definition run_subtest :: "'s harness \<Rightarrow> 's resource_driver \<Rightarrow> ('s, unit) test \<Rightarrow> 's bench \<Rightarrow> verdict \<times> 's bench" where
  "run_subtest h d m b =
     (let (r, c) = m (b\<lparr>be_errors := [], be_cleanup := []\<rparr>);
          e = snd (cleanup h d (be_cleanup c) c)
      in (verdict_of r (be_errors e), e))"

definition catalog :: "'s harness \<Rightarrow> 's resource_driver \<Rightarrow> (string \<times> ('s, unit) test) list" where
  "catalog h d =
     [(''Descriptor/DeclaresKind'', descriptor_declares_kind h),
      (''Errors/GetMissingIsErrNotFound'', get_missing_is_not_found h d),
      (''Errors/InvalidSpecIsErrInvalid'', invalid_spec_is_invalid h d),
      (''Lifecycle/CreateObserveGetDelete'', lifecycle h d),
      (''Lifecycle/DeleteOfDeleted'', delete_of_deleted h d),
      (''Idempotency/OpLabelDedup'', op_label_dedup h d),
      (''EventualConsistency/GetBeforeList'', get_before_list h d),
      (''Labels/OwnershipApplied'', ownership_applied h d),
      (''Discovery/Stability'', discovery_stability h d),
      (''Discovery/OwnedScopeOnlyOwned'', owned_scope_only_owned h d),
      (''Operations/PollingReachesTerminal'', lifecycle h d),
      (''Billing/CapabilityContract'', billing_contract h),
      (''Parking/CapabilityContract'', parking_contract h),
      (''Parking/StopStartLifecycle'', parking_lifecycle h d)]
     @ (if hn_expensive h then [(''Pagination/OverOnePage'', pagination h d)] else [])"

fun run_catalog :: "'s harness \<Rightarrow> 's resource_driver \<Rightarrow> (string \<times> ('s, unit) test) list \<Rightarrow> 's bench
    \<Rightarrow> (string \<times> verdict) list \<times> 's bench" where
  "run_catalog h d [] b = ([], b)"
| "run_catalog h d ((name, m) # rest) b =
     (let (v, c) = run_subtest h d m b; (vs, e) = run_catalog h d rest c in ((name, v) # vs, e))"

text \<open>\<open>Run\<close>: without a driver for the kind nothing is tested and the run fails.\<close>

definition run_suite :: "'s harness \<Rightarrow> 's \<Rightarrow> (string \<times> verdict) list option \<times> 's" where
  "run_suite h s =
     (case pv_driver (hn_provider h) (hn_kind h) of
        None \<Rightarrow> (None, s)
      | Some d \<Rightarrow>
          (let (vs, b) = run_catalog h d (catalog h d)
             \<lparr>be_drv = s, be_n = 0, be_drawn = 0, be_errors = [], be_cleanup = []\<rparr>
           in (Some vs, be_drv b)))"

definition suite_passes :: "'s harness \<Rightarrow> 's \<Rightarrow> bool" where
  "suite_passes h s = (case fst (run_suite h s) of None \<Rightarrow> False | Some vs \<Rightarrow> list_all (\<lambda>(_, v). v \<noteq> Failed) vs)"

end
