(* ===== verification/Conformance_Laws.thy ===== *)
theory Conformance_Laws
  imports Conformance
begin

text \<open>
  What the conformance suite demands of a driver, as an interface: a driver that moves the
  resources of a reference model (a map from ids to stages) the way the documented contract says.
  Inside the locale the whole catalog is shown to pass on such a driver, whatever its delays, as
  long as the step bound of the harness covers them.
\<close>

section \<open>Running subtests\<close>

lemma bindT_simps [simp]:
  "m b = (Inl e, c) \<Longrightarrow> bindT m f b = (Inl e, c)" "m b = (Inr x, c) \<Longrightarrow> bindT m f b = f x c"
  by (simp_all add: bindT_def)

lemma retT_simp [simp]: "retT x b = (Inr x, b)" by (simp add: retT_def)
lemma skipT_simp [simp]: "skipT m b = (Inl (Skip m), b)" by (simp add: skipT_def)
lemma uidT_simp [simp]: "uidT h b = (Inr (hn_uid h (be_drawn b)), b\<lparr>be_drawn := be_drawn b + 1\<rparr>)" by (simp add: uidT_def)
lemma nextT_simp [simp]: "nextT b = (Inr (be_n b + 1), b\<lparr>be_n := be_n b + 1\<rparr>)" by (simp add: nextT_def)
lemma cleanupT_simp [simp]: "cleanupT ref b = (Inr (), b\<lparr>be_cleanup := ref # be_cleanup b\<rparr>)" by (simp add: cleanupT_def)
lemma requireT_simp [simp]: "ok \<Longrightarrow> requireT ok m = retT ()" by (simp add: requireT_def)

lemma callT_simp [simp]: "m (be_drv b) = (r, s) \<Longrightarrow> callT m b = (Inr r, b\<lparr>be_drv := s\<rparr>)"
  by (simp add: callT_def)

lemma mustT_simp [simp]: "m (be_drv b) = (Inr x, s) \<Longrightarrow> mustT msg m b = (Inr x, b\<lparr>be_drv := s\<rparr>)"
  by (simp add: mustT_def)

section \<open>The reference model\<close>

text \<open>A resource: who made it, the phase it moves to, the observations and the lists that still takes.\<close>

record stage =
  sg_op :: string
  sg_res :: string
  sg_goal :: observed_phase
  sg_left :: nat
  sg_lag :: nat

definition the_ref :: "string \<Rightarrow> ext_ref" where "the_ref i = \<lparr>ref_id = i, ref_extra = []\<rparr>"

definition advance :: "stage \<Rightarrow> stage option" where
  "advance x = (if sg_left x \<le> 1 then (if sg_goal x = PhaseGone then None else Some (x\<lparr>sg_left := 0\<rparr>))
     else Some (x\<lparr>sg_left := sg_left x - 1\<rparr>))"

definition lag_down :: "stage \<Rightarrow> stage" where "lag_down x = x\<lparr>sg_lag := sg_lag x - 1\<rparr>"

definition conf_desired :: "string \<Rightarrow> string \<Rightarrow> json blob \<Rightarrow> string \<Rightarrow> string \<Rightarrow> desired_state" where
  "conf_desired owner nm raw rid oid = \<lparr>ds_name = nm, ds_spec = raw, ds_labels = identity_labels owner rid oid\<rparr>"

lemma the_ref_simps [simp]: "ref_id (the_ref i) = i" "ref_extra (the_ref i) = []"
  by (simp_all add: the_ref_def)

lemma advance_steps: "1 < sg_left x \<Longrightarrow> advance x = Some (x\<lparr>sg_left := sg_left x - 1\<rparr>)"
  by (simp add: advance_def)

section \<open>The contract\<close>

locale conforming_driver =
  fixes d :: "'s resource_driver"
    and owner :: string
    and inv :: "'s \<Rightarrow> bool"
    and stages :: "'s \<Rightarrow> string \<Rightarrow> stage option"
    and usable rejected :: "json blob \<Rightarrow> bool"
    and create_delay delete_delay stop_delay start_delay list_delay :: nat
    and parks :: bool
  assumes planned_create: "usable raw \<Longrightarrow> \<exists>act. rv_plan d rid (conf_desired owner nm raw rid oid) = Inr [act] \<and> ac_kind act \<noteq> []"
    and planned_invalid: "rejected (ds_spec ds) \<Longrightarrow>
      \<exists>e. rv_plan d rid ds = Inl e \<and> classify e = ErrInvalid \<and> effect e = EffectNone"
    and created: "\<lbrakk>usable raw; rv_plan d rid (conf_desired owner nm raw rid oid) = Inr [act]; inv s;
        \<forall>i x. stages s i = Some x \<longrightarrow> sg_op x \<noteq> oid\<rbrakk>
      \<Longrightarrow> \<exists>i oref t. rv_apply d (act\<lparr>ac_action_id := oid\<rparr>) s = (Inr oref, t) \<and> or_ref oref = Some (the_ref i)
        \<and> i \<noteq> [] \<and> stages s i = None \<and> inv t
        \<and> stages t = (stages s)(i \<mapsto> \<lparr>sg_op = oid, sg_res = rid, sg_goal = PhaseRunning, sg_left = create_delay,
             sg_lag = list_delay\<rparr>)"
    and replayed: "\<lbrakk>usable raw; rv_plan d rid (conf_desired owner nm raw rid oid) = Inr [act]; inv s;
        stages s i = Some x; sg_op x = oid\<rbrakk>
      \<Longrightarrow> \<exists>j y oref. rv_apply d (act\<lparr>ac_action_id := oid\<rparr>) s = (Inr oref, s) \<and> or_ref oref = Some (the_ref j)
        \<and> stages s j = Some y \<and> sg_op y = oid"
    and got: "\<lbrakk>inv s; stages s i = Some x\<rbrakk> \<Longrightarrow> \<exists>obs. rv_get d (the_ref i) s = (Inr obs, s)
        \<and> (sg_left x = 0 \<longrightarrow> ob_phase obs = sg_goal x) \<and> ob_owned obs \<and> ob_extensions obs \<noteq> BNil
        \<and> ob_fleetplane_id obs = sg_res x \<and> ob_create_op_id obs = sg_op x
        \<and> (\<forall>k \<in> {label_managed, label_owner, label_id, label_op}.
             lab (ob_labels obs) k = lab (identity_labels owner (sg_res x) (sg_op x)) k)"
    and got_missing: "\<lbrakk>inv s; stages s i = None\<rbrakk> \<Longrightarrow> \<exists>e. rv_get d (the_ref i) s = (Inl e, s) \<and> classify e = ErrNotFound"
    and no_such_id: "inv s \<Longrightarrow> stages s (''does-not-exist-'' @ u) = None"
    and observed: "\<lbrakk>inv s; or_ref oref = Some (the_ref i); stages s i = Some x\<rbrakk>
      \<Longrightarrow> \<exists>st t. rv_observe d oref s = (Inr st, t) \<and> inv t \<and> stages t = (stages s)(i := advance x)
        \<and> st_state st = (if sg_left x \<le> 1 then PsSucceeded else PsRunning)"
    and observed_missing: "\<lbrakk>inv s; or_ref oref = Some (the_ref i); stages s i = None\<rbrakk>
      \<Longrightarrow> \<exists>e. rv_observe d oref s = (Inl e, s) \<and> classify e = ErrNotFound"
    and deleted: "inv s \<Longrightarrow> \<exists>oref t. rv_apply d (delete_action oid rid (the_ref i)) s = (Inr oref, t)
        \<and> or_ref oref = Some (the_ref i) \<and> inv t
        \<and> stages t = (case stages s i of None \<Rightarrow> stages s
            | Some x \<Rightarrow> (stages s)(i := if delete_delay = 0 then None
                else Some (x\<lparr>sg_goal := PhaseGone, sg_left := delete_delay\<rparr>)))"
    and powered: "\<lbrakk>parks; inv s; stages s i = Some x; sg_left x = 0; sg_goal x = PhaseRunning \<or> sg_goal x = PhaseStopped;
        (kind, goal, n) = (''stop'', PhaseStopped, stop_delay) \<or> (kind, goal, n) = (''start'', PhaseRunning, start_delay)\<rbrakk>
      \<Longrightarrow> \<exists>oref t. rv_apply d (power_action kind oid (the_ref i)) s = (Inr oref, t) \<and> or_ref oref = Some (the_ref i)
        \<and> inv t \<and> stages t = (if sg_goal x = goal then stages s
             else (stages s)(i \<mapsto> x\<lparr>sg_goal := goal, sg_left := n\<rparr>))"
    and discovered: "inv s \<Longrightarrow> \<exists>os t. rv_discover d ScopeOwned [] s = (Inr os, t) \<and> inv t
        \<and> stages t = (\<lambda>i. map_option lag_down (stages s i)) \<and> distinct (observed_ids os)
        \<and> set (observed_ids os) = {i. \<exists>x. stages t i = Some x \<and> sg_lag x = 0} \<and> list_all ob_owned os"
begin

lemma polled:
  assumes "inv (be_drv b)" and "or_ref oref = Some (the_ref i)" and "stages (be_drv b) i = Some x"
    and "sg_goal x \<noteq> PhaseGone" and "1 \<le> k" and "sg_left x \<le> k"
  shows "\<exists>t. poll_to_success d oref k b = (Inr (), b\<lparr>be_drv := t\<rparr>) \<and> inv t
    \<and> stages t = (stages (be_drv b))(i \<mapsto> x\<lparr>sg_left := 0\<rparr>)"
  using assms
proof (induction k arbitrary: b x)
  case (Suc k)
  obtain st t where o: "rv_observe d oref (be_drv b) = (Inr st, t)" "inv t"
      "stages t = (stages (be_drv b))(i := advance x)" "st_state st = (if sg_left x \<le> 1 then PsSucceeded else PsRunning)"
    using observed [OF Suc.prems(1-3)] by metis
  show ?case
  proof (cases "sg_left x \<le> 1")
    case True
    then have "advance x = Some (x\<lparr>sg_left := 0\<rparr>)" using Suc.prems(4) by (simp add: advance_def)
    then show ?thesis using o True by (auto intro!: exI [of _ t])
  next
    case False
    let ?b = "b\<lparr>be_drv := t\<rparr>" and ?x = "x\<lparr>sg_left := sg_left x - 1\<rparr>"
    have p: "inv (be_drv ?b)" "stages (be_drv ?b) i = Some ?x" "sg_goal ?x \<noteq> PhaseGone" "1 \<le> k" "sg_left ?x \<le> k"
      using Suc.prems o False by (simp_all add: advance_def)
    obtain u where u: "poll_to_success d oref k ?b = (Inr (), ?b\<lparr>be_drv := u\<rparr>)" "inv u"
        "stages u = (stages (be_drv ?b))(i \<mapsto> ?x\<lparr>sg_left := 0\<rparr>)"
      using Suc.IH [OF p(1) Suc.prems(2) p(2-5)] by blast
    have "stages u = (stages (be_drv b))(i \<mapsto> x\<lparr>sg_left := 0\<rparr>)" using u(3) o(3) by simp
    then show ?thesis using o(1,4) u(1,2) False by (auto intro!: exI [of _ u])
  qed
qed simp

lemma ended:
  assumes "inv (be_drv b)" and "or_ref oref = Some (the_ref i)"
    and "\<And>x. stages (be_drv b) i = Some x \<Longrightarrow> sg_goal x = PhaseGone \<and> sg_left x \<le> k \<and> 1 \<le> k"
  shows "\<exists>t. await_end d oref k b = (Inr (), b\<lparr>be_drv := t\<rparr>) \<and> inv t \<and> stages t = (stages (be_drv b))(i := None)"
  using assms
proof (induction k arbitrary: b)
  case 0
  then have "stages (be_drv b) i = None" by (cases "stages (be_drv b) i") auto
  then show ?case using 0 by (auto intro!: exI [of _ "be_drv b"])
next
  case (Suc k)
  show ?case
  proof (cases "stages (be_drv b) i")
    case None
    then show ?thesis using observed_missing [OF Suc.prems(1,2)] Suc.prems(1) by (auto simp: fun_upd_idem intro!: exI [of _ "be_drv b"])
  next
    case (Some x)
    obtain st t where o: "rv_observe d oref (be_drv b) = (Inr st, t)" "inv t"
        "stages t = (stages (be_drv b))(i := advance x)" "st_state st = (if sg_left x \<le> 1 then PsSucceeded else PsRunning)"
      using observed [OF Suc.prems(1,2) Some] by metis
    have x: "sg_goal x = PhaseGone" "sg_left x \<le> Suc k" using Suc.prems(3) [OF Some] by simp_all
    show ?thesis
    proof (cases "sg_left x \<le> 1")
      case True
      then show ?thesis using o x by (auto simp: advance_def intro!: exI [of _ t])
    next
      case False
      let ?b = "b\<lparr>be_drv := t\<rparr>"
      have p: "inv (be_drv ?b)"
          "\<And>y. stages (be_drv ?b) i = Some y \<Longrightarrow> sg_goal y = PhaseGone \<and> sg_left y \<le> k \<and> 1 \<le> k"
        using o x False by (auto simp: advance_def)
      obtain u where u: "await_end d oref k ?b = (Inr (), ?b\<lparr>be_drv := u\<rparr>)" "inv u"
          "stages u = (stages (be_drv ?b))(i := None)"
        using Suc.IH [OF p(1) Suc.prems(2) p(2)] by blast
      have "stages u = (stages (be_drv b))(i := None)" using u(3) o(3) by simp
      then show ?thesis using o(1,4) u(1,2) False by (auto intro!: exI [of _ u])
    qed
  qed
qed

lemma deleted_ends:
  assumes "\<And>x. delete_delay = 0 \<or> 1 \<le> k \<and> delete_delay \<le> k" and "inv s"
  shows "\<exists>oref t. rv_apply d (delete_action oid rid (the_ref i)) s = (Inr oref, t) \<and> or_ref oref = Some (the_ref i)
    \<and> inv t \<and> (stages t)(i := None) = (stages s)(i := None)
    \<and> (\<forall>x. stages t i = Some x \<longrightarrow> sg_goal x = PhaseGone \<and> sg_left x \<le> k \<and> 1 \<le> k)"
  using deleted [OF assms(2), of oid rid i] assms(1) by (auto split: option.splits if_splits)

text \<open>What the lists leave alone, and what they show.\<close>

definition base :: "'s \<Rightarrow> string \<Rightarrow> stage option" where
  "base s i = map_option (\<lambda>x. x\<lparr>sg_lag := 0\<rparr>) (stages s i)"

definition listed :: "'s \<Rightarrow> string set" where
  "listed s = {i. \<exists>x. stages s i = Some x \<and> sg_lag x = 0}"

lemma lists:
  assumes "inv s"
  shows "\<exists>os t. rv_discover d ScopeOwned [] s = (Inr os, t) \<and> inv t \<and> base t = base s
    \<and> stages t = (\<lambda>i. map_option lag_down (stages s i)) \<and> distinct (observed_ids os)
    \<and> set (observed_ids os) = listed t \<and> listed s \<subseteq> listed t \<and> list_all ob_owned os"
proof -
  obtain os t where o: "rv_discover d ScopeOwned [] s = (Inr os, t)" "inv t"
      "stages t = (\<lambda>i. map_option lag_down (stages s i))" "distinct (observed_ids os)"
      "set (observed_ids os) = {i. \<exists>x. stages t i = Some x \<and> sg_lag x = 0}" "list_all ob_owned os"
    using discovered [OF assms] by metis
  have "base t = base s"
    by (rule ext) (auto simp: base_def o(3) lag_down_def map_option.compositionality comp_def)
  moreover have "listed s \<subseteq> listed t" by (auto simp: listed_def o(3) lag_down_def)
  ultimately show ?thesis using o by (auto simp: listed_def)
qed

lemma listed_base: "i \<in> listed s \<Longrightarrow> base s i \<noteq> None"
  by (auto simp: listed_def base_def)

lemma seen_lists:
  assumes "inv (be_drv b)" and "stages (be_drv b) i = Some x" and "sg_lag x \<le> k" and "1 \<le> k"
    and "set out \<subseteq> listed (be_drv b)"
  shows "\<exists>out' t. seen_ids d i out k b = (Inr out', b\<lparr>be_drv := t\<rparr>) \<and> inv t \<and> base t = base (be_drv b)
    \<and> set out' \<subseteq> listed t \<and> i \<in> set out' \<and> listed (be_drv b) \<subseteq> set out'"
  using assms
proof (induction k arbitrary: b x out)
  case (Suc k)
  obtain os t where o: "rv_discover d ScopeOwned [] (be_drv b) = (Inr os, t)" "inv t" "base t = base (be_drv b)"
      "stages t = (\<lambda>i. map_option lag_down (stages (be_drv b) i))" "set (observed_ids os) = listed t"
      "listed (be_drv b) \<subseteq> listed t"
    using lists [OF Suc.prems(1)] by metis
  let ?out = "observed_ids os @ out" and ?b = "b\<lparr>be_drv := t\<rparr>"
  have run: "seen_ids d i out (Suc k) b = (if i \<in> set ?out then retT ?out else seen_ids d i ?out k) ?b"
    using o(1) by (simp add: Let_def)
  have out: "set ?out \<subseteq> listed t" "listed (be_drv b) \<subseteq> set ?out" using o Suc.prems(5) by auto
  show ?case
  proof (cases "i \<in> set ?out")
    case True
    then show ?thesis using run o out by (auto intro!: exI [of _ t])
  next
    case False
    have i: "stages t i = Some (lag_down x)" using o(4) Suc.prems(2) by simp
    then have "sg_lag x > 1" using False out o(5) by (auto simp: listed_def lag_down_def)
    then have "sg_lag (lag_down x) \<le> k" "1 \<le> k" using Suc.prems(3) by (simp_all add: lag_down_def)
    then obtain out' u where "seen_ids d i ?out k ?b = (Inr out', ?b\<lparr>be_drv := u\<rparr>)" "inv u" "base u = base t"
        "set out' \<subseteq> listed u" "i \<in> set out'" "listed t \<subseteq> set out'"
      using Suc.IH [of ?b "lag_down x" ?out] o(2) i out(1) by auto
    then show ?thesis using run False o by (auto intro!: exI [of _ u])
  qed
qed simp

section \<open>The catalog on a conforming driver\<close>

definition harness_ok :: "'s harness \<Rightarrow> bool" where
  "harness_ok h \<longleftrightarrow> pv_driver (hn_provider h) (hn_kind h) = Some d \<and> hn_kind h \<in> set (pv_kinds (hn_provider h))
     \<and> (\<forall>n \<ge> 1. usable (hn_new_spec h n)) \<and> (hn_invalid_spec h = BNil \<or> rejected (hn_invalid_spec h))
     \<and> hn_owner h = owner \<and> owner \<noteq> [] \<and> inj (hn_uid h)
     \<and> create_delay \<le> max_steps h \<and> delete_delay \<le> max_steps h \<and> stop_delay \<le> max_steps h
     \<and> start_delay \<le> max_steps h \<and> list_delay \<le> max_steps h
     \<and> (\<forall>ba s. pv_billing (hn_provider h) = Some ba \<and> inv s \<longrightarrow>
          0 \<le> bp_minimum (ba s (hn_kind h)) \<and> 0 \<le> bp_increment (ba s (hn_kind h)) \<and> 0 \<le> bp_buffer (ba s (hn_kind h))
          \<and> fine_grained (ba s undeclared_kind))
     \<and> (\<forall>pa s. pv_parking (hn_provider h) = Some pa \<and> inv s \<longrightarrow>
          0 \<le> pk_start_estimate (pa s (hn_kind h)) \<and> \<not> pk_supported (pa s undeclared_kind)
          \<and> (pk_supported (pa s (hn_kind h)) \<longrightarrow> parks))"

definition op_name :: "'s harness \<Rightarrow> nat \<Rightarrow> string" where "op_name h k = ''op-conf-'' @ hn_uid h k"

text \<open>The bench between two steps: no operation id that is still to be drawn is in use.\<close>

definition sound :: "'s harness \<Rightarrow> 's bench \<Rightarrow> bool" where
  "sound h b \<longleftrightarrow> inv (be_drv b) \<and> 0 \<le> be_n b \<and> be_errors b = [] \<and> (\<forall>r \<in> set (be_cleanup b). ref_extra r = [])
     \<and> (\<forall>i x k. stages (be_drv b) i = Some x \<and> be_drawn b \<le> k \<longrightarrow> sg_op x \<noteq> op_name h k)"

definition succeeds :: "'s harness \<Rightarrow> ('s, unit) test \<Rightarrow> bool" where
  "succeeds h m \<longleftrightarrow> (\<forall>b. sound h b \<longrightarrow> (\<exists>r c. m b = (r, c) \<and> sound h c \<and> (r = Inr () \<or> (\<exists>w. r = Inl (Skip w)))))"

lemma harness_okD:
  assumes "harness_ok h"
  shows "pv_driver (hn_provider h) (hn_kind h) = Some d" "hn_kind h \<in> set (pv_kinds (hn_provider h))"
    "1 \<le> n \<Longrightarrow> usable (hn_new_spec h n)" "hn_invalid_spec h = BNil \<or> rejected (hn_invalid_spec h)"
    "hn_owner h = owner" "owner \<noteq> []" "inj (hn_uid h)"
    "create_delay \<le> max_steps h" "delete_delay \<le> max_steps h" "stop_delay \<le> max_steps h"
    "start_delay \<le> max_steps h" "list_delay \<le> max_steps h"
  using assms by (simp_all add: harness_ok_def)

lemma max_steps_pos: "1 \<le> max_steps h"
  by (auto simp: max_steps_def Suc_le_eq)

lemma soundD:
  assumes "sound h b"
  shows "inv (be_drv b)" "0 \<le> be_n b" "be_errors b = []" "r \<in> set (be_cleanup b) \<Longrightarrow> ref_extra r = []"
    "stages (be_drv b) i = Some x \<Longrightarrow> be_drawn b \<le> k \<Longrightarrow> sg_op x \<noteq> op_name h k"
  using assms by (auto simp: sound_def)

text \<open>Steps that keep or drop operations leave the bench sound.\<close>

lemma sound_next:
  assumes "sound h b" and "inv (be_drv c)" and "be_n b \<le> be_n c" and "be_errors c = []"
    and "set (be_cleanup c) \<subseteq> {r. ref_extra r = []}" and "be_drawn b \<le> be_drawn c"
    and "\<And>i x. stages (be_drv c) i = Some x \<Longrightarrow> \<exists>j y. stages (be_drv b) j = Some y \<and> sg_op x = sg_op y"
  shows "sound h c"
  unfolding sound_def
proof (intro conjI allI impI ballI)
  fix i x k
  assume a: "stages (be_drv c) i = Some x \<and> be_drawn c \<le> k"
  then obtain j y where y: "stages (be_drv b) j = Some y" "sg_op x = sg_op y" using assms(7) by blast
  show "sg_op x \<noteq> op_name h k" using soundD(5) [OF assms(1) y(1), of k] y(2) assms(6) a by simp
qed (use assms soundD(2) [OF assms(1)] in auto)

lemma op_name_inj: "harness_ok h \<Longrightarrow> op_name h j = op_name h k \<longleftrightarrow> j = k"
  using harness_okD(7) [of h] by (auto simp: op_name_def inj_def)

lemma planned_run:
  "planned h d pre b = (Inr (rv_plan d (''res-conf-'' @ hn_uid h (be_drawn b))
      (conf_desired (hn_owner h) (pre @ hn_uid h (be_drawn b + 2)) (hn_new_spec h (be_n b + 1))
        (''res-conf-'' @ hn_uid h (be_drawn b)) (op_name h (be_drawn b + 1))), op_name h (be_drawn b + 1)),
    b\<lparr>be_n := be_n b + 1, be_drawn := be_drawn b + 3\<rparr>)"
  by (simp add: planned_def Let_def conf_desired_def op_name_def numeral_2_eq_2 numeral_3_eq_3)

text \<open>The application of a freshly planned create, as \<open>create\<close> and the dedup test do it.\<close>

lemma fresh_apply:
  assumes "harness_ok h" and "sound h b"
  obtains act i oref t where
    "planned h d pre b = (Inr (Inr [act], op_name h (be_drawn b + 1)), b\<lparr>be_n := be_n b + 1, be_drawn := be_drawn b + 3\<rparr>)"
    and "ac_kind act \<noteq> []"
    and "rv_apply d (act\<lparr>ac_action_id := op_name h (be_drawn b + 1)\<rparr>) (be_drv b) = (Inr oref, t)"
    and "or_ref oref = Some (the_ref i)" and "i \<noteq> []" and "stages (be_drv b) i = None" and "inv t"
    and "stages t = (stages (be_drv b))(i \<mapsto> \<lparr>sg_op = op_name h (be_drawn b + 1),
      sg_res = ''res-conf-'' @ hn_uid h (be_drawn b), sg_goal = PhaseRunning, sg_left = create_delay, sg_lag = list_delay\<rparr>)"
    and "\<exists>oref'. rv_apply d (act\<lparr>ac_action_id := op_name h (be_drawn b + 1)\<rparr>) t = (Inr oref', t)
      \<and> or_ref oref' = Some (the_ref i)"
proof -
  let ?raw = "hn_new_spec h (be_n b + 1)" and ?rid = "''res-conf-'' @ hn_uid h (be_drawn b)"
  let ?nm = "pre @ hn_uid h (be_drawn b + 2)" and ?oid = "op_name h (be_drawn b + 1)"
  have u: "usable ?raw" using harness_okD(3) [OF assms(1)] soundD(2) [OF assms(2)] by simp
  obtain act where act: "rv_plan d ?rid (conf_desired owner ?nm ?raw ?rid ?oid) = Inr [act]" "ac_kind act \<noteq> []"
    using planned_create [OF u] by blast
  have fresh: "sg_op x \<noteq> ?oid" if "stages (be_drv b) i = Some x" for i x
    using soundD(5) [OF assms(2) that] by simp
  obtain i oref t where t: "rv_apply d (act\<lparr>ac_action_id := ?oid\<rparr>) (be_drv b) = (Inr oref, t)"
      "or_ref oref = Some (the_ref i)" "i \<noteq> []" "stages (be_drv b) i = None" "inv t"
      "stages t = (stages (be_drv b))(i \<mapsto> \<lparr>sg_op = ?oid, sg_res = ?rid, sg_goal = PhaseRunning,
        sg_left = create_delay, sg_lag = list_delay\<rparr>)"
    using created [OF u act(1) soundD(1) [OF assms(2)]] fresh by blast
  show ?thesis
  proof (rule that)
    show "planned h d pre b = (Inr (Inr [act], ?oid), b\<lparr>be_n := be_n b + 1, be_drawn := be_drawn b + 3\<rparr>)"
      using act(1) by (simp add: planned_run harness_okD(5) [OF assms(1)])
    have only: "j = i" if "stages t j = Some y" "sg_op y = ?oid" for j y
      using t(6) fresh that by (metis fun_upd_other)
    have "\<exists>j y oref. rv_apply d (act\<lparr>ac_action_id := ?oid\<rparr>) t = (Inr oref, t)
        \<and> or_ref oref = Some (the_ref j) \<and> stages t j = Some y \<and> sg_op y = ?oid"
      by (rule replayed [OF u act(1) t(5), of i]) (simp add: t(6), simp)
    then show "\<exists>oref'. rv_apply d (act\<lparr>ac_action_id := ?oid\<rparr>) t = (Inr oref', t) \<and> or_ref oref' = Some (the_ref i)"
      using only by metis
  qed (use act t in auto)
qed

lemma create_ok:
  assumes "harness_ok h" and "sound h b"
  shows "\<exists>i x c. conf_create h d b = (Inr (the_ref i), c) \<and> sound h c \<and> i \<noteq> []
    \<and> stages (be_drv b) i = None \<and> stages (be_drv c) = (stages (be_drv b))(i \<mapsto> x)
    \<and> sg_op x \<noteq> [] \<and> sg_res x \<noteq> [] \<and> sg_goal x = PhaseRunning \<and> sg_left x = 0 \<and> sg_lag x = list_delay"
proof -
  let ?oid = "op_name h (be_drawn b + 1)"
  obtain act i oref t where a:
    "planned h d ''conf-'' b = (Inr (Inr [act], ?oid), b\<lparr>be_n := be_n b + 1, be_drawn := be_drawn b + 3\<rparr>)"
    "ac_kind act \<noteq> []" "rv_apply d (act\<lparr>ac_action_id := ?oid\<rparr>) (be_drv b) = (Inr oref, t)"
    "or_ref oref = Some (the_ref i)" "i \<noteq> []" "stages (be_drv b) i = None" "inv t"
    "stages t = (stages (be_drv b))(i \<mapsto> \<lparr>sg_op = ?oid, sg_res = ''res-conf-'' @ hn_uid h (be_drawn b),
      sg_goal = PhaseRunning, sg_left = create_delay, sg_lag = list_delay\<rparr>)"
    by (rule fresh_apply [OF assms, of "''conf-''"])
  let ?x = "\<lparr>sg_op = ?oid, sg_res = ''res-conf-'' @ hn_uid h (be_drawn b), sg_goal = PhaseRunning,
    sg_left = 0, sg_lag = list_delay\<rparr>"
  let ?c = "b\<lparr>be_n := be_n b + 1, be_drawn := be_drawn b + 3, be_drv := t, be_cleanup := the_ref i # be_cleanup b\<rparr>"
  obtain u where u: "poll_to_success d oref (max_steps h) ?c = (Inr (), ?c\<lparr>be_drv := u\<rparr>)" "inv u"
      "stages u = (stages (be_drv b))(i \<mapsto> ?x)"
    using polled [of ?c oref i _ "max_steps h"] a(4,7,8) max_steps_pos harness_okD(8) [OF assms(1)] by auto
  have run: "conf_create h d b = (Inr (the_ref i), ?c\<lparr>be_drv := u\<rparr>)"
    using a u(1) by (simp add: conf_create_def)
  have "sound h (?c\<lparr>be_drv := u\<rparr>)"
    using soundD [OF assms(2)] u op_name_inj [OF assms(1)] by (auto simp: sound_def split: if_splits)
  then show ?thesis
    using run a(5,6) u(3) by (auto simp: op_name_def intro!: exI [of _ i] exI [of _ ?x])
qed

lemma destroy_ok:
  assumes "harness_ok h" and "sound h b"
  shows "\<exists>c. destroy h d (the_ref i) b = (Inr (), c) \<and> sound h c \<and> be_cleanup c = be_cleanup b
    \<and> stages (be_drv c) = (stages (be_drv b))(i := None)"
proof -
  let ?act = "delete_action (''op-conf-del-'' @ hn_uid h (be_drawn b)) ''cleanup'' (the_ref i)"
  obtain oref t where t: "rv_apply d ?act (be_drv b) = (Inr oref, t)" "or_ref oref = Some (the_ref i)" "inv t"
      "(stages t)(i := None) = (stages (be_drv b))(i := None)"
      "\<And>x. stages t i = Some x \<Longrightarrow> sg_goal x = PhaseGone \<and> sg_left x \<le> max_steps h \<and> 1 \<le> max_steps h"
    using deleted_ends [of "max_steps h", OF _ soundD(1) [OF assms(2)]] max_steps_pos harness_okD(9) [OF assms(1)] by metis
  let ?c = "b\<lparr>be_drawn := be_drawn b + 1, be_drv := t\<rparr>"
  obtain u where u: "await_end d oref (max_steps h) ?c = (Inr (), ?c\<lparr>be_drv := u\<rparr>)" "inv u" "stages u = (stages t)(i := None)"
    using ended [of ?c oref i "max_steps h"] t by auto
  have run: "destroy h d (the_ref i) b = (Inr (), ?c\<lparr>be_drv := u\<rparr>)" using t(1) u(1) by (simp add: destroy_def)
  have st: "stages u = (stages (be_drv b))(i := None)" using u(3) t(4) by simp
  have "sound h (?c\<lparr>be_drv := u\<rparr>)"
    by (rule sound_next [OF assms(2)]) (use st u(2) soundD [OF assms(2)] in \<open>auto split: if_splits\<close>)
  then show ?thesis using run st by auto
qed

lemma cleanup_ok:
  assumes "harness_ok h" and "sound h b" and "\<And>r. r \<in> set refs \<Longrightarrow> ref_extra r = []"
  shows "\<exists>c. cleanup h d refs b = (Inr (), c) \<and> sound h c"
  using assms(2,3)
proof (induction refs arbitrary: b)
  case (Cons r refs)
  have r: "r = the_ref (ref_id r)" using Cons.prems(2) [of r] by (cases r) (simp add: the_ref_def)
  obtain c where c: "destroy h d r b = (Inr (), c)" "sound h c"
    using destroy_ok [OF assms(1) Cons.prems(1), of "ref_id r"] r by metis
  then show ?case using Cons.IH [OF c(2)] Cons.prems(2) by simp
qed simp

lemma subtest_ok:
  assumes "harness_ok h" and "succeeds h m" and "sound h b"
  shows "\<exists>v c. run_subtest h d m b = (v, c) \<and> v \<noteq> Failed \<and> sound h c"
proof -
  let ?b = "b\<lparr>be_errors := [], be_cleanup := []\<rparr>"
  have "sound h ?b" using assms(3) by (auto simp: sound_def)
  then obtain r c where m: "m ?b = (r, c)" "sound h c" "r = Inr () \<or> (\<exists>w. r = Inl (Skip w))"
    using assms(2) by (auto simp: succeeds_def)
  obtain e where e: "cleanup h d (be_cleanup c) c = (Inr (), e)" "sound h e"
    using cleanup_ok [OF assms(1) m(2) soundD(4) [OF m(2)]] by blast
  have "verdict_of r (be_errors e) \<noteq> Failed" using m(3) soundD(3) [OF e(2)] by (auto simp: verdict_of_def)
  then show ?thesis using m(1) e by (simp add: run_subtest_def)
qed

lemma catalog_ok:
  assumes "harness_ok h" and "\<And>n m. (n, m) \<in> set tests \<Longrightarrow> succeeds h m" and "sound h b"
  shows "\<exists>vs c. run_catalog h d tests b = (vs, c) \<and> list_all (\<lambda>(_, v). v \<noteq> Failed) vs \<and> sound h c"
  using assms(2,3)
proof (induction tests arbitrary: b)
  case (Cons nm tests)
  obtain n m where nm: "nm = (n, m)" by (cases nm)
  then obtain v c where c: "run_subtest h d m b = (v, c)" "v \<noteq> Failed" "sound h c"
    using subtest_ok [OF assms(1) _ Cons.prems(2), of m] Cons.prems(1) [of n m] by auto
  then show ?case using Cons.IH [OF _ c(3)] Cons.prems(1) nm by fastforce
qed simp

section \<open>The subtests\<close>

lemma succeedsI:
  assumes "\<And>b. sound h b \<Longrightarrow> \<exists>c. m b = (Inr (), c) \<and> sound h c"
  shows "succeeds h m"
  using assms by (fastforce simp: succeeds_def)

lemma succeeds_skip: "succeeds h (skipT w)"
  by (simp add: succeeds_def)

text \<open>A fresh resource, observed by \<open>Get\<close>.\<close>

lemma get_stage:
  assumes "sound h b" and "stages (be_drv b) i = Some x"
  obtains obs where "rv_get d (the_ref i) (be_drv b) = (Inr obs, be_drv b)"
    "sg_left x = 0 \<Longrightarrow> ob_phase obs = sg_goal x" "ob_owned obs" "ob_extensions obs \<noteq> BNil"
    "ob_fleetplane_id obs = sg_res x" "ob_create_op_id obs = sg_op x"
    "\<forall>k \<in> {label_managed, label_owner, label_id, label_op}.
      lab (ob_labels obs) k = lab (identity_labels owner (sg_res x) (sg_op x)) k"
  using got [OF soundD(1) [OF assms(1)] assms(2)] by metis

lemma sound_same_drv: "sound h b \<Longrightarrow> sound h (b\<lparr>be_drv := be_drv b\<rparr>)" by simp

lemma sound_drawn: "sound h b \<Longrightarrow> sound h (b\<lparr>be_drawn := be_drawn b + 1\<rparr>)"
  by (auto simp: sound_def)

lemma lifecycle_ok: assumes "harness_ok h" shows "succeeds h (lifecycle h d)"
proof (rule succeedsI)
  fix b assume b: "sound h b"
  obtain i x c where c: "conf_create h d b = (Inr (the_ref i), c)" "sound h c" "stages (be_drv c) i = Some x"
      "sg_goal x = PhaseRunning" "sg_left x = 0"
    using create_ok [OF assms b] by (metis fun_upd_same)
  obtain obs where obs: "rv_get d (the_ref i) (be_drv c) = (Inr obs, be_drv c)" "ob_phase obs = PhaseRunning"
      "ob_extensions obs \<noteq> BNil"
    using get_stage [OF c(2,3)] c(4,5) by metis
  obtain e where e: "destroy h d (the_ref i) c = (Inr (), e)" "sound h e" "stages (be_drv e) i = None"
    using destroy_ok [OF assms c(2), of i] by (metis fun_upd_same)
  obtain er where "rv_get d (the_ref i) (be_drv e) = (Inl er, be_drv e)" "classify er = ErrNotFound"
    using got_missing [OF soundD(1) [OF e(2)] e(3)] by blast
  then show "\<exists>f. lifecycle h d b = (Inr (), f) \<and> sound h f"
    using c(1) obs e by (simp add: lifecycle_def is_class_def)
qed

lemma await_deleted_ok:
  assumes "inv (be_drv b)" and "or_ref oref = Some (the_ref i)" and "stages (be_drv b) i = None" and "1 \<le> k"
  shows "await_deleted d oref k b = (Inr (), b)"
  using observed_missing [OF assms(1-3)] assms(4) by (cases k) (auto simp: is_class_def)

lemma delete_of_deleted_ok: assumes "harness_ok h" shows "succeeds h (delete_of_deleted h d)"
proof (rule succeedsI)
  fix b assume b: "sound h b"
  obtain i c where c: "conf_create h d b = (Inr (the_ref i), c)" "sound h c"
    using create_ok [OF assms b] by blast
  obtain e where e: "destroy h d (the_ref i) c = (Inr (), e)" "sound h e" "stages (be_drv e) i = None"
    using destroy_ok [OF assms c(2), of i] by (metis fun_upd_same)
  let ?act = "delete_action (''op-conf-dd-'' @ hn_uid h (be_drawn e)) ''x'' (the_ref i)"
  obtain oref t where t: "rv_apply d ?act (be_drv e) = (Inr oref, t)" "or_ref oref = Some (the_ref i)" "inv t"
      "stages t = stages (be_drv e)"
    using deleted [OF soundD(1) [OF e(2)], of "''op-conf-dd-'' @ hn_uid h (be_drawn e)" "''x''" i]
    unfolding e(3) option.case by blast
  let ?f = "e\<lparr>be_drawn := be_drawn e + 1, be_drv := t\<rparr>"
  have "sound h ?f"
    by (rule sound_next [OF e(2)]) (use t soundD [OF e(2)] in auto)
  moreover have "await_deleted d oref (max_steps h) ?f = (Inr (), ?f)"
    by (rule await_deleted_ok [of _ _ i]) (use t e(3) max_steps_pos [of h] in simp_all)
  ultimately show "\<exists>f. delete_of_deleted h d b = (Inr (), f) \<and> sound h f"
    using c(1) e(1) t(1) by (simp add: delete_of_deleted_def)
qed

lemma op_label_dedup_ok: assumes "harness_ok h" shows "succeeds h (op_label_dedup h d)"
proof (rule succeedsI)
  fix b assume b: "sound h b"
  let ?oid = "op_name h (be_drawn b + 1)"
  obtain act i oref t where a:
    "planned h d ''dedup-'' b = (Inr (Inr [act], ?oid), b\<lparr>be_n := be_n b + 1, be_drawn := be_drawn b + 3\<rparr>)"
    "ac_kind act \<noteq> []" "rv_apply d (act\<lparr>ac_action_id := ?oid\<rparr>) (be_drv b) = (Inr oref, t)"
    "or_ref oref = Some (the_ref i)" "i \<noteq> []" "stages (be_drv b) i = None" "inv t"
    "stages t = (stages (be_drv b))(i \<mapsto> \<lparr>sg_op = ?oid, sg_res = ''res-conf-'' @ hn_uid h (be_drawn b),
      sg_goal = PhaseRunning, sg_left = create_delay, sg_lag = list_delay\<rparr>)"
    "\<exists>oref'. rv_apply d (act\<lparr>ac_action_id := ?oid\<rparr>) t = (Inr oref', t) \<and> or_ref oref' = Some (the_ref i)"
    by (rule fresh_apply [OF assms b, of "''dedup-''"])
  obtain oref2 where r: "rv_apply d (act\<lparr>ac_action_id := ?oid\<rparr>) t = (Inr oref2, t)" "or_ref oref2 = Some (the_ref i)"
    using a(9) by blast
  let ?c = "b\<lparr>be_n := be_n b + 1, be_drawn := be_drawn b + 3, be_cleanup := the_ref i # be_cleanup b, be_drv := t\<rparr>"
  have "sound h ?c"
    using soundD [OF b] a(7,8) op_name_inj [OF assms] by (auto simp: sound_def split: if_splits)
  then show "\<exists>f. op_label_dedup h d b = (Inr (), f) \<and> sound h f"
    using a(1,3,4) r by (simp add: op_label_dedup_def Let_def)
qed

lemma get_before_list_ok: assumes "harness_ok h" shows "succeeds h (get_before_list h d)"
proof (rule succeedsI)
  fix b assume b: "sound h b"
  obtain i x c where c: "conf_create h d b = (Inr (the_ref i), c)" "sound h c" "stages (be_drv c) i = Some x"
    using create_ok [OF assms b] by (metis fun_upd_same)
  obtain obs where "rv_get d (the_ref i) (be_drv c) = (Inr obs, be_drv c)" using get_stage [OF c(2,3)] by metis
  then show "\<exists>f. get_before_list h d b = (Inr (), f) \<and> sound h f" using c by (simp add: get_before_list_def)
qed

lemma want_labels_ok: "(\<And>k. k \<in> set ks \<Longrightarrow> lab ls k \<noteq> []) \<Longrightarrow> want_labels ls ks b = (Inr (), b)"
  by (induction ks) simp_all

lemma identity_labels_present:
  assumes "owner \<noteq> []" "rid \<noteq> []" "oid \<noteq> []" "k \<in> {label_managed, label_owner, label_id, label_op}"
  shows "lab (identity_labels owner rid oid) k \<noteq> []"
  using assms identity_labels_lookup [of owner rid oid] by (auto simp: lab_def)

lemma ownership_applied_ok: assumes "harness_ok h" shows "succeeds h (ownership_applied h d)"
proof (rule succeedsI)
  fix b assume b: "sound h b"
  obtain i x c where c: "conf_create h d b = (Inr (the_ref i), c)" "sound h c" "stages (be_drv c) i = Some x"
      "sg_op x \<noteq> []" "sg_res x \<noteq> []"
    using create_ok [OF assms b] by (metis fun_upd_same)
  obtain obs where obs: "rv_get d (the_ref i) (be_drv c) = (Inr obs, be_drv c)" "ob_owned obs"
      "ob_fleetplane_id obs = sg_res x" "ob_create_op_id obs = sg_op x"
      "\<forall>k \<in> {label_managed, label_owner, label_id, label_op}.
        lab (ob_labels obs) k = lab (identity_labels owner (sg_res x) (sg_op x)) k"
    by (rule get_stage [OF c(2,3)])
  have present: "lab (ob_labels obs) k \<noteq> []" if "k \<in> {label_managed, label_owner, label_id, label_op}" for k
    using obs(5) that identity_labels_present [OF harness_okD(6) [OF assms] c(5,4) that] by metis
  have "want_labels (ob_labels obs) [label_managed, label_owner, label_id, label_op] c = (Inr (), c)"
    by (rule want_labels_ok, rule present) (simp only: list.set)
  then show "\<exists>f. ownership_applied h d b = (Inr (), f) \<and> sound h f"
    using c obs by (simp add: ownership_applied_def)
qed

lemma base_stage: "base t = base s \<Longrightarrow> stages t i = Some x \<Longrightarrow> \<exists>y. stages s i = Some y \<and> sg_op x = sg_op y"
proof -
  assume "base t = base s" "stages t i = Some x"
  then have "map_option (\<lambda>x. x\<lparr>sg_lag := 0\<rparr>) (stages s i) = Some (x\<lparr>sg_lag := 0\<rparr>)" by (metis base_def option.simps(9))
  then obtain y where "stages s i = Some y" "y\<lparr>sg_lag := 0\<rparr> = x\<lparr>sg_lag := 0\<rparr>" by auto
  then show ?thesis by (metis stage.select_convs(1) stage.surjective stage.update_convs(5))
qed

lemma sound_base:
  assumes "sound h b" and "inv t" and "base t = base (be_drv b)"
  shows "sound h (b\<lparr>be_drv := t\<rparr>)"
proof (rule sound_next [OF assms(1)])
  show "\<exists>j y. stages (be_drv b) j = Some y \<and> sg_op x = sg_op y"
    if "stages (be_drv (b\<lparr>be_drv := t\<rparr>)) i = Some x" for i x
    using base_stage [OF assms(3)] that by fastforce
qed (use assms soundD [OF assms(1)] in auto)

lemma discovery_stability_ok: assumes "harness_ok h" shows "succeeds h (discovery_stability h d)"
proof (rule succeedsI)
  fix b assume b: "sound h b"
  obtain i x c where c: "conf_create h d b = (Inr (the_ref i), c)" "sound h c" "stages (be_drv c) i = Some x"
      "sg_lag x = list_delay"
    using create_ok [OF assms b] by (metis fun_upd_same)
  obtain out t where o1: "seen_ids d i [] (max_steps h) c = (Inr out, c\<lparr>be_drv := t\<rparr>)" "inv t" "base t = base (be_drv c)"
      "set out \<subseteq> listed t" "i \<in> set out"
    using seen_lists [OF soundD(1) [OF c(2)] c(3) _ max_steps_pos, of h "[]"] c(4) harness_okD(12) [OF assms] by auto
  let ?c = "c\<lparr>be_drv := t\<rparr>"
  obtain y where y: "stages (be_drv ?c) i = Some y" "sg_lag y = 0" using o1(4,5) by (auto simp: listed_def)
  have p: "inv (be_drv ?c)" "sg_lag y \<le> max_steps h" "set [] \<subseteq> listed (be_drv ?c)" using o1(2) y(2) by simp_all
  obtain out2 u where o2: "seen_ids d i [] (max_steps h) ?c = (Inr out2, ?c\<lparr>be_drv := u\<rparr>)" "inv u"
      "base u = base (be_drv ?c)" "listed (be_drv ?c) \<subseteq> set out2"
    using seen_lists [OF p(1) y(1) p(2) max_steps_pos p(3)] by blast
  have "set out \<subseteq> set out2" using o1(4) o2(4) by auto
  moreover have "sound h (c\<lparr>be_drv := u\<rparr>)" using sound_base [OF c(2) o2(2)] o1(3) o2(3) by simp
  ultimately show "\<exists>f. discovery_stability h d b = (Inr (), f) \<and> sound h f"
    using c(1) o1(1) o2(1) by (simp add: discovery_stability_def)
qed

lemma first_owned:
  assumes "inv (be_drv b)" and "stages (be_drv b) i = Some x" and "sg_lag x \<le> k" and "1 \<le> k"
  shows "\<exists>t. first_owned_list d k b = (Inr (), b\<lparr>be_drv := t\<rparr>) \<and> inv t \<and> base t = base (be_drv b)"
  using assms
proof (induction k arbitrary: b x)
  case (Suc k)
  obtain os t where o: "rv_discover d ScopeOwned [] (be_drv b) = (Inr os, t)" "inv t" "base t = base (be_drv b)"
      "stages t = (\<lambda>i. map_option lag_down (stages (be_drv b) i))" "set (observed_ids os) = listed t" "list_all ob_owned os"
    using lists [OF Suc.prems(1)] by metis
  let ?b = "b\<lparr>be_drv := t\<rparr>"
  have i: "stages t i = Some (lag_down x)" using o(4) Suc.prems(2) by simp
  show ?case
  proof (cases "os = []")
    case True
    then have "i \<notin> listed t" using o(5) by (simp add: observed_ids_def)
    then have "sg_lag x > 1" using i by (auto simp: listed_def lag_down_def)
    then have p: "inv (be_drv ?b)" "stages (be_drv ?b) i = Some (lag_down x)" "sg_lag (lag_down x) \<le> k" "1 \<le> k"
      using Suc.prems(3) o(2) i by (simp_all add: lag_down_def)
    obtain u where "first_owned_list d k ?b = (Inr (), ?b\<lparr>be_drv := u\<rparr>)" "inv u" "base u = base t"
      using Suc.IH [OF p] by auto
    then show ?thesis using o(1,3) True by (auto intro!: exI [of _ u])
  next
    case False
    then show ?thesis using o(1,2,3,6) by (auto intro!: exI [of _ t])
  qed
qed simp

lemma owned_scope_only_owned_ok: assumes "harness_ok h" shows "succeeds h (owned_scope_only_owned h d)"
proof (rule succeedsI)
  fix b assume b: "sound h b"
  obtain i x c where c: "conf_create h d b = (Inr (the_ref i), c)" "sound h c" "stages (be_drv c) i = Some x"
      "sg_lag x = list_delay"
    using create_ok [OF assms b] by (metis fun_upd_same)
  have "sg_lag x \<le> max_steps h" using c(4) harness_okD(12) [OF assms] by simp
  then obtain t where "first_owned_list d (max_steps h) c = (Inr (), c\<lparr>be_drv := t\<rparr>)" "inv t" "base t = base (be_drv c)"
    using first_owned [OF soundD(1) [OF c(2)] c(3) _ max_steps_pos] by blast
  then show "\<exists>f. owned_scope_only_owned h d b = (Inr (), f) \<and> sound h f"
    using c(1) sound_base [OF c(2)] by (simp add: owned_scope_only_owned_def)
qed

lemma create_many_ok:
  assumes "harness_ok h" and "sound h b"
  shows "\<exists>ids c. create_many h d k b = (Inr ids, c) \<and> sound h c \<and> length ids = k \<and> distinct ids
    \<and> (\<forall>i \<in> set ids. stages (be_drv b) i = None \<and> (\<exists>x. stages (be_drv c) i = Some x \<and> sg_lag x = list_delay))
    \<and> (\<forall>i x. stages (be_drv b) i = Some x \<longrightarrow> stages (be_drv c) i = Some x)"
  using assms(2)
proof (induction k arbitrary: b)
  case (Suc k)
  obtain i x c where c: "conf_create h d b = (Inr (the_ref i), c)" "sound h c" "stages (be_drv b) i = None"
      "stages (be_drv c) = (stages (be_drv b))(i \<mapsto> x)" "sg_lag x = list_delay"
    using create_ok [OF assms(1) Suc.prems] by blast
  obtain ids e where e: "create_many h d k c = (Inr ids, e)" "sound h e" "length ids = k" "distinct ids"
      "\<forall>i \<in> set ids. stages (be_drv c) i = None \<and> (\<exists>x. stages (be_drv e) i = Some x \<and> sg_lag x = list_delay)"
      "\<forall>i x. stages (be_drv c) i = Some x \<longrightarrow> stages (be_drv e) i = Some x"
    using Suc.IH [OF c(2)] by blast
  have "i \<notin> set ids" using e(5) c(4) by auto
  moreover have "stages (be_drv e) j = Some y" if "stages (be_drv b) j = Some y" for j y
    using that c(3,4) e(6) by (metis fun_upd_other option.distinct(1))
  moreover have "stages (be_drv e) i = Some x" using c(4) e(6) by simp
  moreover have "stages (be_drv b) j = None" if "j \<in> set ids" for j
    using that c(4) e(5) by (metis fun_upd_other fun_upd_same option.distinct(1))
  ultimately show ?case using c(1,3,5) e(1-5) by simp
qed simp

lemma counted:
  assumes "distinct ids" and "distinct os" and "set ids \<subseteq> set os"
  shows "length (filter (\<lambda>i. i \<in> set ids) os) = length ids"
proof -
  have "set (filter (\<lambda>i. i \<in> set ids) os) = set ids" using assms(3) by auto
  then show ?thesis using assms(1,2) by (metis distinct_card distinct_filter)
qed

lemma all_listed_ok:
  assumes "inv (be_drv b)" and "distinct ids" and "length ids = page_total"
    and "\<forall>i \<in> set ids. \<exists>x. stages (be_drv b) i = Some x \<and> sg_lag x \<le> Suc k"
  shows "\<exists>t. all_listed d ids k b = (Inr (), b\<lparr>be_drv := t\<rparr>) \<and> inv t \<and> base t = base (be_drv b)"
  using assms(1,4)
proof (induction k arbitrary: b)
  case (0 b)
  obtain os t where o: "rv_discover d ScopeOwned [] (be_drv b) = (Inr os, t)" "inv t" "base t = base (be_drv b)"
      "stages t = (\<lambda>i. map_option lag_down (stages (be_drv b) i))" "distinct (observed_ids os)"
      "set (observed_ids os) = listed t"
    using lists [OF 0(1)] by metis
  have "set ids \<subseteq> listed t"
  proof
    fix i assume "i \<in> set ids"
    then obtain x where "stages (be_drv b) i = Some x" "sg_lag x \<le> Suc 0" using 0(2) by auto
    then show "i \<in> listed t" by (simp add: listed_def o(4) lag_down_def)
  qed
  then have "length (filter (\<lambda>i. i \<in> set ids) (observed_ids os)) = page_total"
    using counted [OF assms(2) o(5)] o(6) assms(3) by simp
  then show ?case using o(1,2,3) by (subst all_listed.simps) (auto intro!: exI [of _ t])
next
  case (Suc k b)
  obtain os t where o: "rv_discover d ScopeOwned [] (be_drv b) = (Inr os, t)" "inv t" "base t = base (be_drv b)"
      "stages t = (\<lambda>i. map_option lag_down (stages (be_drv b) i))"
    using lists [OF Suc.prems(1)] by metis
  let ?b = "b\<lparr>be_drv := t\<rparr>"
  have "\<forall>i \<in> set ids. \<exists>x. stages (be_drv ?b) i = Some x \<and> sg_lag x \<le> Suc k"
  proof
    fix i assume "i \<in> set ids"
    then obtain x where "stages (be_drv b) i = Some x" "sg_lag x \<le> Suc (Suc k)" using Suc.prems(2) by blast
    then show "\<exists>x. stages (be_drv ?b) i = Some x \<and> sg_lag x \<le> Suc k" by (simp add: o(4) lag_down_def)
  qed
  then have later: "\<exists>u. all_listed d ids k ?b = (Inr (), ?b\<lparr>be_drv := u\<rparr>) \<and> inv u \<and> base u = base (be_drv ?b)"
    using Suc.IH [of ?b] o(2) by simp
  show ?case
  proof (cases "length (filter (\<lambda>i. i \<in> set ids) (observed_ids os)) = page_total")
    case True
    then show ?thesis using o(1,2,3) by (subst all_listed.simps) (auto intro!: exI [of _ t])
  next
    case False
    then have "all_listed d ids (Suc k) b = all_listed d ids k ?b"
      using o(1) by (subst all_listed.simps) simp
    then show ?thesis using later o(3) by auto
  qed
qed

lemma pagination_ok: assumes "harness_ok h" shows "succeeds h (pagination h d)"
proof (rule succeedsI)
  fix b assume b: "sound h b"
  obtain ids c where c: "create_many h d page_total b = (Inr ids, c)" "sound h c" "length ids = page_total" "distinct ids"
      "\<forall>i \<in> set ids. \<exists>x. stages (be_drv c) i = Some x \<and> sg_lag x = list_delay"
    using create_many_ok [OF assms b] by blast
  have "\<forall>i \<in> set ids. \<exists>x. stages (be_drv c) i = Some x \<and> sg_lag x \<le> Suc (max_steps h)"
    using c(5) harness_okD(12) [OF assms] by fastforce
  then obtain t where "all_listed d ids (max_steps h) c = (Inr (), c\<lparr>be_drv := t\<rparr>)" "inv t" "base t = base (be_drv c)"
    using all_listed_ok [OF soundD(1) [OF c(2)] c(4,3)] by blast
  then show "\<exists>f. pagination h d b = (Inr (), f) \<and> sound h f"
    using c(1) sound_base [OF c(2)] by (simp add: pagination_def)
qed

lemma power_step_ok:
  assumes "sound h b" and "stages (be_drv b) i = Some x" and "sg_left x = 0" and "parks"
    and "sg_goal x = PhaseRunning \<or> sg_goal x = PhaseStopped" and "n \<le> max_steps h"
    and "(kind, goal, n) = (''stop'', PhaseStopped, stop_delay) \<or> (kind, goal, n) = (''start'', PhaseRunning, start_delay)"
  shows "\<exists>t. power_step h d (power_action kind oid (the_ref i)) (the_ref i) goal b = (Inr (), b\<lparr>be_drv := t\<rparr>)
    \<and> sound h (b\<lparr>be_drv := t\<rparr>) \<and> stages t = (stages (be_drv b))(i \<mapsto> x\<lparr>sg_goal := goal\<rparr>)"
proof -
  let ?act = "power_action kind oid (the_ref i)" and ?y = "x\<lparr>sg_goal := goal\<rparr>"
  have goal: "goal \<noteq> PhaseGone" "goal = PhaseRunning \<or> goal = PhaseStopped" using assms(7) by auto
  obtain oref t where t: "rv_apply d ?act (be_drv b) = (Inr oref, t)" "or_ref oref = Some (the_ref i)" "inv t"
      "stages t = (if sg_goal x = goal then stages (be_drv b) else (stages (be_drv b))(i \<mapsto> x\<lparr>sg_goal := goal, sg_left := n\<rparr>))"
    using powered [OF assms(4) soundD(1) [OF assms(1)] assms(2,3,5,7)] by blast
  have "\<exists>z. stages t i = Some z \<and> sg_goal z = goal \<and> sg_left z \<le> max_steps h \<and> z\<lparr>sg_left := 0\<rparr> = ?y
      \<and> (stages t)(i \<mapsto> ?y) = (stages (be_drv b))(i \<mapsto> ?y)"
    using t(4) assms(2,3,6) by (cases "sg_goal x = goal") auto
  then obtain z where z: "stages t i = Some z" "sg_goal z = goal" "sg_left z \<le> max_steps h" "z\<lparr>sg_left := 0\<rparr> = ?y"
      "(stages t)(i \<mapsto> ?y) = (stages (be_drv b))(i \<mapsto> ?y)"
    by blast
  have p: "inv (be_drv (b\<lparr>be_drv := t\<rparr>))" "stages (be_drv (b\<lparr>be_drv := t\<rparr>)) i = Some z" "sg_goal z \<noteq> PhaseGone"
    using t(3) z goal by simp_all
  obtain u where u: "poll_to_success d oref (max_steps h) (b\<lparr>be_drv := t\<rparr>) = (Inr (), b\<lparr>be_drv := u\<rparr>)" "inv u"
      "stages u = (stages (be_drv b))(i \<mapsto> ?y)"
    using polled [OF p(1) t(2) p(2,3) max_steps_pos z(3)] z(4,5) by auto
  have y: "stages u i = Some ?y" "sg_left ?y = 0" "sg_goal ?y = goal" using u(3) assms(3) by simp_all
  obtain obs where obs: "rv_get d (the_ref i) u = (Inr obs, u)" "ob_phase obs = goal"
    using got [OF u(2) y(1)] y(2,3) by auto
  obtain oref2 v where v: "rv_apply d ?act u = (Inr oref2, v)" "inv v" "stages v = stages u"
    using powered [OF assms(4) u(2) y(1,2) _ assms(7), of oid] goal(2) y(3) by auto
  have "sound h (b\<lparr>be_drv := v\<rparr>)"
  proof (rule sound_next [OF assms(1)])
    show "\<exists>k w. stages (be_drv b) k = Some w \<and> sg_op z = sg_op w"
      if "stages (be_drv (b\<lparr>be_drv := v\<rparr>)) j = Some z" for j z
    proof (cases "j = i")
      case True
      then show ?thesis using that u(3) v(3) by (intro exI [of _ i] exI [of _ x]) (auto simp: assms(2))
    next
      case False
      then show ?thesis using that u(3) v(3) by (intro exI [of _ j] exI [of _ z]) simp
    qed
  qed (use v(2) soundD [OF assms(1)] in auto)
  then show ?thesis
    using t(1) u obs v by (auto simp: power_step_def intro!: exI [of _ v])
qed

lemma parking_lifecycle_ok: assumes "harness_ok h" shows "succeeds h (parking_lifecycle h d)"
  unfolding succeeds_def
proof (intro allI impI)
  fix b assume b: "sound h b"
  show "\<exists>r c. parking_lifecycle h d b = (r, c) \<and> sound h c \<and> (r = Inr () \<or> (\<exists>w. r = Inl (Skip w)))"
  proof (cases "case pv_parking (hn_provider h) of None \<Rightarrow> True | Some pa \<Rightarrow> \<not> pk_supported (pa (be_drv b) (hn_kind h))")
    case True
    then show ?thesis using b by (simp add: parking_lifecycle_def)
  next
    case False
    then have parks using assms soundD(1) [OF b] by (auto simp: harness_ok_def split: option.splits)
    obtain i x c where c: "conf_create h d b = (Inr (the_ref i), c)" "sound h c" "stages (be_drv c) i = Some x"
        "sg_goal x = PhaseRunning" "sg_left x = 0"
      using create_ok [OF assms b] by (metis fun_upd_same)
    let ?c = "c\<lparr>be_drawn := be_drawn c + 1\<rparr>" and ?x = "x\<lparr>sg_goal := PhaseStopped\<rparr>"
    let ?stop = "power_action ''stop'' (''op-conf-stop-'' @ hn_uid h (be_drawn c)) (the_ref i)"
    have p: "stages (be_drv ?c) i = Some x" "sg_goal x = PhaseRunning \<or> sg_goal x = PhaseStopped" using c by simp_all
    obtain t where t: "power_step h d ?stop (the_ref i) PhaseStopped ?c = (Inr (), ?c\<lparr>be_drv := t\<rparr>)"
        "sound h (?c\<lparr>be_drv := t\<rparr>)" "stages t = (stages (be_drv ?c))(i \<mapsto> ?x)"
      using power_step_ok [OF sound_drawn [OF c(2)] p(1) c(5) \<open>parks\<close> p(2) harness_okD(10) [OF assms], of "''stop''" PhaseStopped]
      by blast
    let ?e = "?c\<lparr>be_drv := t\<rparr>"
    have x: "stages (be_drv ?e) i = Some ?x" using t(3) by simp
    obtain before where bf: "rv_get d (the_ref i) (be_drv ?e) = (Inr before, be_drv ?e)"
        "ob_fleetplane_id before = sg_res ?x" "ob_create_op_id before = sg_op ?x"
      using get_stage [OF t(2) x] by metis
    let ?f = "?e\<lparr>be_drawn := be_drawn ?e + 1\<rparr>" and ?y = "?x\<lparr>sg_goal := PhaseRunning\<rparr>"
    let ?start = "power_action ''start'' (''op-conf-start-'' @ hn_uid h (be_drawn ?e)) (the_ref i)"
    have q: "stages (be_drv ?f) i = Some ?x" "sg_left ?x = 0" "sg_goal ?x = PhaseRunning \<or> sg_goal ?x = PhaseStopped"
      using x c(5) by simp_all
    obtain u where u: "power_step h d ?start (the_ref i) PhaseRunning ?f = (Inr (), ?f\<lparr>be_drv := u\<rparr>)"
        "sound h (?f\<lparr>be_drv := u\<rparr>)" "stages u = (stages (be_drv ?f))(i \<mapsto> ?y)"
      using power_step_ok [OF sound_drawn [OF t(2)] q(1,2) \<open>parks\<close> q(3) harness_okD(11) [OF assms], of "''start''" PhaseRunning]
      by blast
    have y: "stages (be_drv (?f\<lparr>be_drv := u\<rparr>)) i = Some ?y" using u(3) by simp
    obtain after where af: "rv_get d (the_ref i) u = (Inr after, u)" "ob_owned after"
        "ob_fleetplane_id after = sg_res ?y" "ob_create_op_id after = sg_op ?y"
      using get_stage [OF u(2) y] by (metis bench.select_convs(1) bench.surjective bench.update_convs(1))
    obtain g where g: "destroy h d (the_ref i) (?f\<lparr>be_drv := u\<rparr>) = (Inr (), g)" "sound h g"
      using destroy_ok [OF assms u(2)] by blast
    have "parking_lifecycle h d b = (Inr (), g)"
      using False c(1) t(1) bf u(1) af g(1) by (simp add: parking_lifecycle_def deferT_def)
    then show ?thesis using g(2) by blast
  qed
qed

lemma billing_contract_ok: assumes "harness_ok h" shows "succeeds h (billing_contract h)"
  unfolding succeeds_def
proof (intro allI impI)
  fix b assume b: "sound h b"
  show "\<exists>r c. billing_contract h b = (r, c) \<and> sound h c \<and> (r = Inr () \<or> (\<exists>w. r = Inl (Skip w)))"
    using assms b soundD(1) [OF b]
    by (cases "pv_billing (hn_provider h)") (simp_all add: billing_contract_def harness_ok_def Let_def not_less)
qed

lemma parking_contract_ok: assumes "harness_ok h" shows "succeeds h (parking_contract h)"
  unfolding succeeds_def
proof (intro allI impI)
  fix b assume b: "sound h b"
  show "\<exists>r c. parking_contract h b = (r, c) \<and> sound h c \<and> (r = Inr () \<or> (\<exists>w. r = Inl (Skip w)))"
    using assms b soundD(1) [OF b]
    by (cases "pv_parking (hn_provider h)") (simp_all add: parking_contract_def harness_ok_def Let_def not_less)
qed

lemma static_ok:
  assumes "harness_ok h"
  shows "succeeds h (descriptor_declares_kind h)" "succeeds h (get_missing_is_not_found h d)"
    "succeeds h (invalid_spec_is_invalid h d)"
proof -
  show "succeeds h (descriptor_declares_kind h)"
    using harness_okD(2) [OF assms] by (simp add: succeeds_def descriptor_declares_kind_def)
  show "succeeds h (get_missing_is_not_found h d)"
  proof (rule succeedsI)
    fix b assume b: "sound h b"
    obtain e where "rv_get d (the_ref (''does-not-exist-'' @ hn_uid h (be_drawn b))) (be_drv b) = (Inl e, be_drv b)"
        "classify e = ErrNotFound"
      using got_missing [OF soundD(1) [OF b] no_such_id [OF soundD(1) [OF b]]] by blast
    then show "\<exists>c. get_missing_is_not_found h d b = (Inr (), c) \<and> sound h c"
      using sound_drawn [OF b] by (simp add: get_missing_is_not_found_def the_ref_def is_class_def)
  qed
  show "succeeds h (invalid_spec_is_invalid h d)"
  proof (cases "hn_invalid_spec h = BNil")
    case True
    then show ?thesis by (simp add: succeeds_def invalid_spec_is_invalid_def)
  next
    case False
    let ?ds = "\<lparr>ds_name = ''x'', ds_spec = hn_invalid_spec h, ds_labels = []\<rparr>"
    have "rejected (ds_spec ?ds)" using harness_okD(4) [OF assms] False by simp
    then obtain e where "rv_plan d ''res-conf-invalid'' ?ds = Inl e" "classify e = ErrInvalid" "effect e = EffectNone"
      using planned_invalid by blast
    then show ?thesis using False by (simp add: succeeds_def invalid_spec_is_invalid_def is_class_def)
  qed
qed

lemma catalog_succeeds: "harness_ok h \<Longrightarrow> (n, m) \<in> set (catalog h d) \<Longrightarrow> succeeds h m"
  by (auto simp: catalog_def static_ok lifecycle_ok delete_of_deleted_ok op_label_dedup_ok get_before_list_ok
      ownership_applied_ok discovery_stability_ok owned_scope_only_owned_ok billing_contract_ok parking_contract_ok
      parking_lifecycle_ok pagination_ok split: if_splits)

text \<open>The whole suite, from any state in which no resource carries an operation id the suite draws.\<close>

lemma suite_ok:
  assumes "harness_ok h" and "inv s" and "\<And>i x k. stages s i = Some x \<Longrightarrow> sg_op x \<noteq> op_name h k"
  shows "suite_passes h s"
proof -
  have "sound h \<lparr>be_drv = s, be_n = 0, be_drawn = 0, be_errors = [], be_cleanup = []\<rparr>"
    using assms(2,3) by (auto simp: sound_def)
  then obtain vs c where "run_catalog h d (catalog h d)
      \<lparr>be_drv = s, be_n = 0, be_drawn = 0, be_errors = [], be_cleanup = []\<rparr> = (vs, c)" "list_all (\<lambda>(_, v). v \<noteq> Failed) vs"
    using catalog_ok [OF assms(1) catalog_succeeds [OF assms(1)], of "catalog h d" "\<lambda>n m. n"] by blast
  then show ?thesis using harness_okD(1) [OF assms(1)] by (simp add: suite_passes_def run_suite_def)
qed

end

end
