(* ===== verification/Fake_Conformance.thy ===== *)
theory Fake_Conformance
  imports Conformance_Laws Fake_Volumes
begin

text \<open>
  The in-tree fake provider honours the contract behind the conformance suite: both of its drivers,
  the machines with their delays and the volumes, move the resources of the reference model, so
  the suite passes on them for every setting of the fake whose delays the step bound covers.
\<close>

section \<open>The provider under test\<close>

definition machine_driver :: "(string \<Rightarrow> int option) \<Rightarrow> (int \<Rightarrow> string) \<Rightarrow> fake resource_driver" where
  "machine_driver pd show_d = \<lparr>rv_plan = fake_plan pd show_d, rv_apply = fake_apply pd,
     rv_observe = fake_observe_op, rv_get = fake_get, rv_discover = fake_discover\<rparr>"

definition volume_driver :: "fake resource_driver" where
  "volume_driver = \<lparr>rv_plan = vol_plan, rv_apply = vol_apply, rv_observe = vol_observe_op,
     rv_get = vol_get, rv_discover = vol_discover\<rparr>"

definition fake_kit :: "(string \<Rightarrow> int option) \<Rightarrow> (int \<Rightarrow> string) \<Rightarrow> fake provider_kit" where
  "fake_kit pd show_d = \<lparr>pv_kinds = [compute_kind, volume_kind],
     pv_driver = (\<lambda>kind. if kind = compute_kind then Some (machine_driver pd show_d)
        else if kind = volume_kind then Some volume_driver else None),
     pv_billing = Some (\<lambda>f. fake_billing (fk_opt f)), pv_parking = Some (\<lambda>f. fake_parking (fk_opt f))\<rparr>"

lemma driver_simps [simp]:
  "rv_plan (machine_driver pd show_d) = fake_plan pd show_d" "rv_apply (machine_driver pd show_d) = fake_apply pd"
  "rv_observe (machine_driver pd show_d) = fake_observe_op" "rv_get (machine_driver pd show_d) = fake_get"
  "rv_discover (machine_driver pd show_d) = fake_discover"
  "rv_plan volume_driver = vol_plan" "rv_apply volume_driver = vol_apply" "rv_observe volume_driver = vol_observe_op"
  "rv_get volume_driver = vol_get" "rv_discover volume_driver = vol_discover"
  by (simp_all add: machine_driver_def volume_driver_def)

section \<open>A list of objects as a map of stages\<close>

definition view_of :: "('o \<Rightarrow> string) \<Rightarrow> ('o \<Rightarrow> stage option) \<Rightarrow> 'o list \<Rightarrow> string \<Rightarrow> stage option" where
  "view_of key stg xs i = (case tget key i xs of None \<Rightarrow> None | Some x \<Rightarrow> stg x)"

lemma view_of_Some:
  "view_of key stg xs i = Some z \<Longrightarrow> \<exists>x. tget key i xs = Some x \<and> x \<in> set xs \<and> key x = i \<and> stg x = Some z"
  by (auto simp: view_of_def dest: tget_SomeD split: option.splits)

lemma view_of_mem: "distinct (map key xs) \<Longrightarrow> x \<in> set xs \<Longrightarrow> view_of key stg xs (key x) = stg x"
  by (simp add: view_of_def tget_of_mem)

lemma view_of_tupd:
  assumes "keeps_key key g"
  shows "view_of key stg (tupd key i g xs) =
    (view_of key stg xs)(i := case tget key i xs of None \<Rightarrow> None | Some x \<Rightarrow> stg (g x))"
  using assms by (auto simp: view_of_def tget_tupd fun_eq_iff split: option.splits)

lemma view_of_append:
  assumes "key x \<notin> key ` set xs"
  shows "view_of key stg (xs @ [x]) = (view_of key stg xs)(key x := stg x)"
proof
  have n: "tget key (key x) xs = None" using assms by (simp add: tget_None_iff)
  fix i show "view_of key stg (xs @ [x]) i = ((view_of key stg xs)(key x := stg x)) i"
    by (cases "i = key x") (simp_all add: view_of_def tget_append n split: option.split)
qed

text \<open>The search for the object of an operation, in the reference model.\<close>

lemma find_by_op:
  assumes "distinct (map key xs)" and "\<And>x. p x \<longleftrightarrow> (\<exists>z. stg x = Some z \<and> sg_op z = oid)"
  shows "find p xs = None \<longleftrightarrow> (\<forall>i z. view_of key stg xs i = Some z \<longrightarrow> sg_op z \<noteq> oid)"
    and "find p xs = Some x \<Longrightarrow> \<exists>z. view_of key stg xs (key x) = Some z \<and> sg_op z = oid"
proof -
  have *: "(\<exists>x \<in> set xs. p x) \<longleftrightarrow> (\<exists>i z. view_of key stg xs i = Some z \<and> sg_op z = oid)"
    using view_of_mem [OF assms(1)] assms(2) by (metis view_of_Some)
  then show "find p xs = None \<longleftrightarrow> (\<forall>i z. view_of key stg xs i = Some z \<longrightarrow> sg_op z \<noteq> oid)"
    by (auto simp: find_None_iff)
  show "\<exists>z. view_of key stg xs (key x) = Some z \<and> sg_op z = oid" if "find p xs = Some x"
  proof -
    have x: "x \<in> set xs" "p x" using that by (auto simp: find_Some_iff)
    then obtain z where z: "stg x = Some z" "sg_op z = oid" using assms(2) by blast
    have "view_of key stg xs (key x) = Some z" using view_of_mem [OF assms(1) x(1)] z(1) by simp
    then show ?thesis using z(2) by blast
  qed
qed

text \<open>Ids are made of digits, after a prefix.\<close>

lemma digit_not_d: "CHR ''d'' \<notin> set (digits n)"
  using digits_all [of n] by (auto simp: list_all_iff is_digit_def)

lemma digits_inj [simp]: "digits m = digits n \<longleftrightarrow> m = n"
  by (metis option.inject parse_nat_digits)

lemma object_id_inj [simp]: "object_id m = object_id n \<longleftrightarrow> m = n"
  by (simp add: object_id_def)

lemma object_id_plain: "object_id k \<noteq> []" "object_id k \<noteq> ''does-not-exist-'' @ u"
  using digit_not_d [of "100000 + k"] by (auto simp: object_id_def)

lemma identity_lab:
  "lab (identity_labels owner rid oid) label_managed = ''true''" "lab (identity_labels owner rid oid) label_owner = owner"
  "lab (identity_labels owner rid oid) label_id = rid" "lab (identity_labels owner rid oid) label_op = oid"
  by (simp_all add: lab_def identity_labels_lookup)

section \<open>Machines\<close>

fun goal_of :: "object_state \<Rightarrow> observed_phase" where
  "goal_of ObCreating = PhaseRunning" | "goal_of ObRunning = PhaseRunning" | "goal_of ObStarting = PhaseRunning"
| "goal_of ObStopping = PhaseStopped" | "goal_of ObStopped = PhaseStopped"
| "goal_of ObDeleting = PhaseGone" | "goal_of ObGone = PhaseGone"

definition machine_stage :: "object \<Rightarrow> stage option" where
  "machine_stage x = (if fb_state x = ObGone then None else Some
     \<lparr>sg_op = lab (fb_labels x) label_op, sg_res = lab (fb_labels x) label_id, sg_goal = goal_of (fb_state x),
      sg_left = (if in_progress (fb_state x) then nat (max 1 (fb_steps_left x)) else 0), sg_lag = nat (fb_list_lag x)\<rparr>)"

definition machine_stages :: "fake \<Rightarrow> string \<Rightarrow> stage option" where
  "machine_stages f = view_of fb_id machine_stage (fk_objects f)"

definition identified :: "string \<Rightarrow> labels \<Rightarrow> bool" where
  "identified owner ls \<longleftrightarrow> lab ls label_managed = ''true'' \<and> lab ls label_owner = owner"

definition machine_inv :: "string \<Rightarrow> fake_options \<Rightarrow> fake \<Rightarrow> bool" where
  "machine_inv owner opt f \<longleftrightarrow> fk_owner f = owner \<and> fk_opt f = opt \<and> fk_faults f = [] \<and> fk_rate_limit_left f \<le> 0
     \<and> distinct (map fb_id (fk_objects f))
     \<and> (\<forall>x \<in> set (fk_objects f). (\<exists>k \<le> fk_seq f. fb_id x = object_id k)
          \<and> (fb_state x \<noteq> ObGone \<longrightarrow> identified owner (fb_labels x)))"

definition machine_usable :: "(string \<Rightarrow> int option) \<Rightarrow> (int \<Rightarrow> string) \<Rightarrow> json blob \<Rightarrow> bool" where
  "machine_usable pd show_d raw \<longleftrightarrow> (\<exists>spec. parse_spec pd raw = Inr spec \<and>
     (\<forall>nm ls. let p = \<lparr>cp_name = nm, cp_spec = spec, cp_labels = ls\<rparr> in
        decode_params pd (BVal (encode_params show_d p)) = Inr p))"

definition machine_rejected :: "(string \<Rightarrow> int option) \<Rightarrow> json blob \<Rightarrow> bool" where
  "machine_rejected pd raw \<longleftrightarrow> \<not> is_ok (parse_spec pd raw)"

lemma machine_invD:
  assumes "machine_inv owner opt f"
  shows "fk_owner f = owner" "fk_opt f = opt" "fk_faults f = []" "fk_rate_limit_left f \<le> 0"
    "distinct (map fb_id (fk_objects f))"
    "x \<in> set (fk_objects f) \<Longrightarrow> \<exists>k \<le> fk_seq f. fb_id x = object_id k"
    "x \<in> set (fk_objects f) \<Longrightarrow> fb_state x \<noteq> ObGone \<Longrightarrow> identified owner (fb_labels x)"
  using assms by (auto simp: machine_inv_def)

lemma calm_fake:
  assumes "machine_inv owner opt f"
  shows "rate_limited f = (None, f)" "fake_apply pd act f = apply_locked pd act f"
  using machine_invD [OF assms] by (simp_all add: rate_limited_def fake_apply_def)

lemma machine_found:
  assumes "machine_inv owner opt f" and "machine_stages f i = Some z"
  obtains x where "tget fb_id i (fk_objects f) = Some x" "x \<in> set (fk_objects f)" "fb_id x = i"
    "machine_stage x = Some z" "fb_state x \<noteq> ObGone" "object_get i f = Some x"
  using view_of_Some [of fb_id machine_stage "fk_objects f" i z] assms(2)
  by (auto simp: machine_stages_def machine_stage_def object_get_def split: if_splits)

lemma machine_absent: "machine_stages f i = None \<Longrightarrow> object_get i f = None"
  by (auto simp: machine_stages_def view_of_def object_get_def machine_stage_def split: option.splits if_splits)

lemma machine_set:
  assumes "machine_inv owner opt f" and "keeps_key fb_id g"
    and "\<And>x. x \<in> set (fk_objects f) \<Longrightarrow> fb_state x \<noteq> ObGone \<Longrightarrow> fb_labels (g x) = fb_labels x"
    and "tget fb_id i (fk_objects f) = Some x" and "fb_state x \<noteq> ObGone"
  shows "machine_inv owner opt (object_set i g f)"
    and "machine_stages (object_set i g f) = (machine_stages f)(i := machine_stage (g x))"
proof -
  show "machine_stages (object_set i g f) = (machine_stages f)(i := machine_stage (g x))"
    using view_of_tupd [OF assms(2), of machine_stage i] assms(4) by (simp add: machine_stages_def object_set_def)
  have x: "x \<in> set (fk_objects f)" "fb_id x = i" using tget_SomeD [OF assms(4)] by simp_all
  have only: "y = x" if "y \<in> set (fk_objects f)" "fb_id y = i" for y
    using that x machine_invD(5) [OF assms(1)] by (metis distinct_map inj_on_eq_iff)
  have objs: "fk_objects (object_set i g f) = map (\<lambda>r. if fb_id r = i then g r else r) (fk_objects f)"
    by (simp add: object_set_def tupd_def)
  have row: "(\<exists>k \<le> fk_seq f. fb_id y = object_id k) \<and> (fb_state y \<noteq> ObGone \<longrightarrow> identified owner (fb_labels y))"
    if "y \<in> set (fk_objects (object_set i g f))" for y
  proof -
    from that obtain r where r: "r \<in> set (fk_objects f)" "y = (if fb_id r = i then g r else r)"
      by (auto simp: objs)
    then have "fb_id y = fb_id r" using keeps_keyD [OF assms(2)] by simp
    moreover have "fb_state y \<noteq> ObGone \<longrightarrow> identified owner (fb_labels y)"
    proof (cases "fb_id r = i")
      case True
      then show ?thesis using r only assms(3,5) x(1) machine_invD(7) [OF assms(1)] by auto
    next
      case False
      then show ?thesis using r machine_invD(7) [OF assms(1)] by simp
    qed
    ultimately show ?thesis using machine_invD(6) [OF assms(1) r(1)] by simp
  qed
  have ids: "map fb_id (fk_objects (object_set i g f)) = map fb_id (fk_objects f)"
    using map_key_tupd [OF assms(2)] by (simp add: object_set_def)
  show "machine_inv owner opt (object_set i g f)"
    unfolding machine_inv_def ids using machine_invD [OF assms(1)] row by (simp add: object_set_def)
qed

text \<open>The laws of the contract, one by one.\<close>

lemma machine_planned:
  assumes "machine_usable pd show_d raw"
  obtains spec where "fake_plan pd show_d rid (conf_desired owner nm raw rid oid) =
      Inr [\<lparr>ac_action_id = [], ac_kind = ''create'', ac_resource_id = rid, ac_ref = None,
        ac_params = BVal (encode_params show_d \<lparr>cp_name = nm, cp_spec = spec, cp_labels = identity_labels owner rid oid\<rparr>),
        ac_destructive = False\<rparr>]"
    "decode_params pd (BVal (encode_params show_d \<lparr>cp_name = nm, cp_spec = spec, cp_labels = identity_labels owner rid oid\<rparr>))
      = Inr \<lparr>cp_name = nm, cp_spec = spec, cp_labels = identity_labels owner rid oid\<rparr>"
  using assms by (auto simp: machine_usable_def fake_plan_def conf_desired_def Let_def)

lemma with_op_stage: "with_op oid x \<longleftrightarrow> (\<exists>z. machine_stage x = Some z \<and> sg_op z = oid)"
  by (auto simp: with_op_def machine_stage_def)

lemma new_object_labels:
  "lab (fb_labels (new_object f \<lparr>cp_name = nm, cp_spec = spec, cp_labels = identity_labels owner rid oid\<rparr>)) k =
    (if k \<in> {label_managed, label_owner, label_id, label_op} then lab (identity_labels owner rid oid) k
     else lab (ma_labels spec) k)"
  by (simp add: new_object_def lab_def update_conv' identity_labels_def
      label_managed_def label_owner_def label_id_def label_op_def)

lemma machine_created:
  assumes "machine_usable pd show_d raw"
    and "fake_plan pd show_d rid (conf_desired owner nm raw rid oid) = Inr [act]"
    and "machine_inv owner opt f" and "\<forall>i x. machine_stages f i = Some x \<longrightarrow> sg_op x \<noteq> oid"
  shows "\<exists>i oref g. fake_apply pd (act\<lparr>ac_action_id := oid\<rparr>) f = (Inr oref, g) \<and> or_ref oref = Some (the_ref i)
    \<and> i \<noteq> [] \<and> machine_stages f i = None \<and> machine_inv owner opt g
    \<and> machine_stages g = (machine_stages f)(i \<mapsto> \<lparr>sg_op = oid, sg_res = rid, sg_goal = PhaseRunning,
         sg_left = nat (fo_create_steps opt), sg_lag = nat (fo_list_lag_steps opt)\<rparr>)"
proof -
  obtain spec where spec: "act = \<lparr>ac_action_id = [], ac_kind = ''create'', ac_resource_id = rid, ac_ref = None,
        ac_params = BVal (encode_params show_d \<lparr>cp_name = nm, cp_spec = spec, cp_labels = identity_labels owner rid oid\<rparr>),
        ac_destructive = False\<rparr>"
    "decode_params pd (BVal (encode_params show_d \<lparr>cp_name = nm, cp_spec = spec, cp_labels = identity_labels owner rid oid\<rparr>))
      = Inr \<lparr>cp_name = nm, cp_spec = spec, cp_labels = identity_labels owner rid oid\<rparr>"
    by (rule machine_planned [OF assms(1), of rid owner nm oid]) (use assms(2) in simp)
  let ?x = "new_object f \<lparr>cp_name = nm, cp_spec = spec, cp_labels = identity_labels owner rid oid\<rparr>"
  let ?g = "f\<lparr>fk_seq := fk_seq f + 1, fk_objects := fk_objects f @ [?x]\<rparr>"
  note inv = machine_invD [OF assms(3)]
  have none: "find (with_op oid) (fk_objects f) = None"
    using find_by_op(1) [of fb_id "fk_objects f" "with_op oid" machine_stage oid] inv(5) with_op_stage assms(4)
    by (simp add: machine_stages_def)
  have new: "fb_id ?x \<notin> fb_id ` set (fk_objects f)"
    using inv(6) by (fastforce simp: new_object_def)
  have run: "fake_apply pd (act\<lparr>ac_action_id := oid\<rparr>) f = (Inr (ref_of (act\<lparr>ac_action_id := oid\<rparr>) (fb_id ?x)), ?g)"
    using calm_fake(2) [OF assms(3)] spec none by (simp add: apply_locked_def apply_create_def Let_def)
  have st: "machine_stage ?x = Some \<lparr>sg_op = oid, sg_res = rid, sg_goal = PhaseRunning,
         sg_left = nat (fo_create_steps opt), sg_lag = nat (fo_list_lag_steps opt)\<rparr>"
    unfolding machine_stage_def new_object_labels
    by (simp add: identity_lab) (simp add: new_object_def inv(2) in_progress_def max_def)
  have view: "machine_stages ?g = (machine_stages f)(fb_id ?x := machine_stage ?x)"
    using view_of_append [OF new] by (simp add: machine_stages_def)
  have "machine_stages f (fb_id ?x) = None"
    using new by (simp add: machine_stages_def view_of_def tget_None_iff [THEN iffD2])
  moreover have "fb_id ?x \<noteq> []" by (simp add: new_object_def object_id_plain)
  moreover have "machine_inv owner opt ?g"
  proof -
    have "identified owner (fb_labels ?x)" unfolding identified_def new_object_labels by (simp add: identity_lab)
    moreover have "fb_id ?x = object_id (fk_seq f + 1)" by (simp add: new_object_def)
    moreover have "\<exists>k \<le> Suc (fk_seq f). fb_id x = object_id k" if "x \<in> set (fk_objects f)" for x
      using inv(6) [OF that] le_SucI by blast
    ultimately show ?thesis using inv new by (auto simp: machine_inv_def)
  qed
  ultimately show ?thesis using run view st by (auto simp: ref_of_def the_ref_def)
qed

lemma machine_replayed:
  assumes "machine_usable pd show_d raw"
    and "fake_plan pd show_d rid (conf_desired owner nm raw rid oid) = Inr [act]"
    and "machine_inv owner opt f" and "machine_stages f i = Some x" and "sg_op x = oid"
  shows "\<exists>j y oref. fake_apply pd (act\<lparr>ac_action_id := oid\<rparr>) f = (Inr oref, f) \<and> or_ref oref = Some (the_ref j)
    \<and> machine_stages f j = Some y \<and> sg_op y = oid"
proof -
  obtain spec where spec: "act = \<lparr>ac_action_id = [], ac_kind = ''create'', ac_resource_id = rid, ac_ref = None,
        ac_params = BVal (encode_params show_d \<lparr>cp_name = nm, cp_spec = spec, cp_labels = identity_labels owner rid oid\<rparr>),
        ac_destructive = False\<rparr>"
    "decode_params pd (BVal (encode_params show_d \<lparr>cp_name = nm, cp_spec = spec, cp_labels = identity_labels owner rid oid\<rparr>))
      = Inr \<lparr>cp_name = nm, cp_spec = spec, cp_labels = identity_labels owner rid oid\<rparr>"
    by (rule machine_planned [OF assms(1), of rid owner nm oid]) (use assms(2) in simp)
  note find = find_by_op [of fb_id "fk_objects f" "with_op oid" machine_stage oid,
      OF machine_invD(5) [OF assms(3)] with_op_stage, folded machine_stages_def]
  have "find (with_op oid) (fk_objects f) \<noteq> None" using find(1) assms(4,5) by blast
  then obtain y where y: "find (with_op oid) (fk_objects f) = Some y" by blast
  then have "fake_apply pd (act\<lparr>ac_action_id := oid\<rparr>) f = (Inr (ref_of (act\<lparr>ac_action_id := oid\<rparr>) (fb_id y)), f)"
    using calm_fake(2) [OF assms(3)] spec by (simp add: apply_locked_def apply_create_def)
  then show ?thesis using find(2) [OF y] by (auto simp: ref_of_def the_ref_def)
qed

lemma machine_got:
  assumes "machine_inv owner opt f" and "machine_stages f i = Some z"
  shows "\<exists>obs. fake_get (the_ref i) f = (Inr obs, f) \<and> (sg_left z = 0 \<longrightarrow> ob_phase obs = sg_goal z) \<and> ob_owned obs
    \<and> ob_extensions obs \<noteq> BNil \<and> ob_fleetplane_id obs = sg_res z \<and> ob_create_op_id obs = sg_op z
    \<and> (\<forall>k \<in> {label_managed, label_owner, label_id, label_op}.
         lab (ob_labels obs) k = lab (identity_labels owner (sg_res z) (sg_op z)) k)"
proof -
  obtain x where x: "x \<in> set (fk_objects f)" "machine_stage x = Some z" "fb_state x \<noteq> ObGone" "object_get i f = Some x"
    using machine_found [OF assms] by metis
  have own: "lab (fb_labels x) label_managed = ''true''" "lab (fb_labels x) label_owner = owner"
    using machine_invD(7) [OF assms(1) x(1,3)] by (simp_all add: identified_def)
  have "fake_get (the_ref i) f = (Inr (fake_observe f x), f)"
    using calm_fake(1) [OF assms(1)] x(4) by (simp add: fake_get_def)
  moreover have "sg_left z = 0 \<longrightarrow> observed_state (fb_state x) = sg_goal z"
    using x(2,3) by (cases "fb_state x") (auto simp: machine_stage_def in_progress_def)
  moreover have "sg_op z = lab (fb_labels x) label_op" "sg_res z = lab (fb_labels x) label_id"
    using x(2,3) by (auto simp: machine_stage_def)
  ultimately show ?thesis
    using own machine_invD(1) [OF assms(1)] by (auto simp: fake_observe_def fake_owned_def identity_lab)
qed

lemma machine_missing:
  assumes "machine_inv owner opt f" and "machine_stages f i = None"
  shows "fake_get (the_ref i) f = (Inl fake_not_found, f)"
    and "or_ref oref = Some (the_ref i) \<Longrightarrow> fake_observe_op oref f = (Inl fake_not_found, f)"
    and "classify fake_not_found = ErrNotFound"
  using machine_absent [OF assms(2)] calm_fake(1) [OF assms(1)]
  by (simp_all add: fake_get_def fake_observe_op_def fake_not_found_def fake_err_def classify_def)

lemma machine_no_such:
  assumes "machine_inv owner opt f"
  shows "machine_stages f (''does-not-exist-'' @ u) = None"
proof (rule ccontr)
  assume "machine_stages f (''does-not-exist-'' @ u) \<noteq> None"
  then obtain z where "machine_stages f (''does-not-exist-'' @ u) = Some z" by blast
  then obtain x where "x \<in> set (fk_objects f)" "fb_id x = ''does-not-exist-'' @ u" using machine_found [OF assms] by metis
  then show False using machine_invD(6) [OF assms] object_id_plain(2) by metis
qed

lemma step_object_stage:
  assumes "machine_stage x = Some z"
  shows "machine_stage (step_object x) = advance z" and "fb_labels (step_object x) = fb_labels x"
    and "in_progress (fb_state (step_object x)) \<longleftrightarrow> \<not> sg_left z \<le> 1"
  using assms
  by (cases "fb_state x"; auto simp: machine_stage_def step_object_def Let_def in_progress_def advance_def)+

lemma keeps_step [simp]: "keeps_key fb_id step_object" "keeps_key fb_id (to_state via final n)"
  by (auto simp: keeps_key_def step_object_def to_state_def Let_def split: object_state.split)

lemma machine_observed:
  assumes "machine_inv owner opt f" and "or_ref oref = Some (the_ref i)" and "machine_stages f i = Some z"
  shows "\<exists>st g. fake_observe_op oref f = (Inr st, g) \<and> machine_inv owner opt g
    \<and> machine_stages g = (machine_stages f)(i := advance z)
    \<and> st_state st = (if sg_left z \<le> 1 then PsSucceeded else PsRunning)"
proof -
  obtain x where x: "tget fb_id i (fk_objects f) = Some x" "machine_stage x = Some z" "fb_state x \<noteq> ObGone"
      "object_get i f = Some x"
    using machine_found [OF assms(1,3)] by metis
  have keep: "fb_labels (step_object y) = fb_labels y" for y
    by (auto simp: step_object_def Let_def split: object_state.split)
  note set = machine_set [OF assms(1) keeps_step(1) keep x(1,3)]
  have "\<exists>st. fake_observe_op oref f = (Inr st, object_set i step_object f)
      \<and> st_state st = (if sg_left z \<le> 1 then PsSucceeded else PsRunning)"
    using calm_fake(1) [OF assms(1)] assms(2) x(4) step_object_stage(3) [OF x(2)]
    by (simp add: fake_observe_op_def Let_def)
  then show ?thesis using set step_object_stage(1) [OF x(2)] by auto
qed

lemma to_state_stage:
  assumes "machine_stage x = Some z" and "in_progress via" and "\<not> in_progress final" and "goal_of via = goal_of final"
    and "via \<noteq> ObGone"
  shows "machine_stage (to_state via final n x) = (if n \<le> 0 \<and> final = ObGone then None
    else Some (z\<lparr>sg_goal := goal_of final, sg_left := nat n\<rparr>))"
  using assms by (auto simp: machine_stage_def to_state_def in_progress_def split: if_splits)

lemma labels_to_state [simp]: "fb_labels (to_state via final n x) = fb_labels x"
  by (simp add: to_state_def)

lemma machine_deleted:
  assumes "machine_inv owner opt f"
  shows "\<exists>oref g. fake_apply pd (delete_action oid rid (the_ref i)) f = (Inr oref, g) \<and> or_ref oref = Some (the_ref i)
    \<and> machine_inv owner opt g \<and> machine_stages g = (case machine_stages f i of None \<Rightarrow> machine_stages f
        | Some x \<Rightarrow> (machine_stages f)(i := if nat (fo_delete_steps opt) = 0 then None
            else Some (x\<lparr>sg_goal := PhaseGone, sg_left := nat (fo_delete_steps opt)\<rparr>)))"
proof (cases "machine_stages f i")
  case None
  then show ?thesis
    using assms machine_absent [OF None] calm_fake(2) [OF assms]
    by (simp add: apply_locked_def apply_delete_def delete_action_def)
next
  case (Some z)
  obtain x where x: "tget fb_id i (fk_objects f) = Some x" "machine_stage x = Some z" "fb_state x \<noteq> ObGone"
      "object_get i f = Some x"
    using machine_found [OF assms Some] by metis
  let ?g = "to_state ObDeleting ObGone (fo_delete_steps opt)"
  note set = machine_set [OF assms keeps_step(2) labels_to_state x(1,3), of ObDeleting ObGone "fo_delete_steps opt"]
  have "fake_apply pd (delete_action oid rid (the_ref i)) f =
      (Inr \<lparr>or_action_id = oid, or_ref = Some (the_ref i), or_data = BNil\<rparr>, object_set i ?g f)"
    using x(4) calm_fake(2) [OF assms] machine_invD(2) [OF assms]
    by (simp add: apply_locked_def apply_delete_def delete_action_def)
  moreover have "machine_stage (?g x) = (if nat (fo_delete_steps opt) = 0 then None
      else Some (z\<lparr>sg_goal := PhaseGone, sg_left := nat (fo_delete_steps opt)\<rparr>))"
    by (subst to_state_stage [OF x(2)]) (auto simp: in_progress_def)
  ultimately show ?thesis using set Some by simp
qed

lemma settled_state:
  assumes "machine_stage x = Some z" and "sg_left z = 0"
  shows "fb_state x = ObRunning \<and> sg_goal z = PhaseRunning \<or> fb_state x = ObStopped \<and> sg_goal z = PhaseStopped"
  using assms by (cases "fb_state x") (auto simp: machine_stage_def in_progress_def)

lemma machine_powered:
  assumes "fo_park opt" and "machine_inv owner opt f" and "machine_stages f i = Some z" and "sg_left z = 0"
    and "(kind, goal, n) = (''stop'', PhaseStopped, nat (fo_stop_steps opt))
      \<or> (kind, goal, n) = (''start'', PhaseRunning, nat (fo_start_steps opt))"
  shows "\<exists>oref g. fake_apply pd (power_action kind oid (the_ref i)) f = (Inr oref, g) \<and> or_ref oref = Some (the_ref i)
    \<and> machine_inv owner opt g \<and> machine_stages g = (if sg_goal z = goal then machine_stages f
         else (machine_stages f)(i \<mapsto> z\<lparr>sg_goal := goal, sg_left := n\<rparr>))"
proof -
  obtain x where x: "tget fb_id i (fk_objects f) = Some x" "machine_stage x = Some z" "fb_state x \<noteq> ObGone"
      "object_get i f = Some x"
    using machine_found [OF assms(2,3)] by metis
  note st = settled_state [OF x(2) assms(4)]
  let ?act = "power_action kind oid (the_ref i)" and ?oref = "\<lparr>or_action_id = oid, or_ref = Some (the_ref i), or_data = BNil\<rparr>"
  have calm: "fake_apply pd ?act f = apply_power ?act f"
    using calm_fake(2) [OF assms(2)] assms(5) by (auto simp: apply_locked_def power_action_def)
  show ?thesis
  proof (cases "sg_goal z = goal")
    case True
    then have "apply_power ?act f = (Inr ?oref, f)"
      using st x(4) assms(1,5) machine_invD(2) [OF assms(2)] by (auto simp: apply_power_def power_action_def)
    then show ?thesis using calm True assms(2) by simp
  next
    case False
    define g where "g = (if kind = ''stop'' then to_state ObStopping ObStopped (fo_stop_steps opt)
      else to_state ObStarting ObRunning (fo_start_steps opt))"
    have "apply_power ?act f = (Inr ?oref, object_set i g f)"
      using False st x(4) assms(1,5) machine_invD(2) [OF assms(2)] by (auto simp: apply_power_def power_action_def g_def)
    moreover have "keeps_key fb_id g" "\<And>y. fb_labels (g y) = fb_labels y" by (simp_all add: g_def)
    moreover have "machine_stage (g x) = Some (z\<lparr>sg_goal := goal, sg_left := n\<rparr>)"
      using assms(5) to_state_stage [OF x(2), of ObStopping ObStopped] to_state_stage [OF x(2), of ObStarting ObRunning]
      by (auto simp: g_def in_progress_def)
    ultimately show ?thesis using calm False machine_set [OF assms(2) _ _ x(1,3), of g] by auto
  qed
qed

lemma pages_all: "0 < psize \<Longrightarrow> length xs \<le> n \<Longrightarrow> pages psize n xs = xs"
proof (induction n arbitrary: xs)
  case (Suc n)
  have "length (drop psize xs) \<le> n" if "xs \<noteq> []" using Suc.prems that by (cases xs) auto
  then show ?case using Suc.IH [of "drop psize xs"] Suc.prems(1) by (cases "xs = []") auto
qed simp

definition lagged :: "object \<Rightarrow> object" where
  "lagged x = (if fb_list_lag x > 0 then x\<lparr>fb_list_lag := fb_list_lag x - 1\<rparr> else x)"

lemma lagged_simps [simp]:
  "fb_id (lagged x) = fb_id x" "fb_state (lagged x) = fb_state x" "fb_labels (lagged x) = fb_labels x"
  "machine_stage (lagged x) = map_option lag_down (machine_stage x)"
  by (simp_all add: lagged_def machine_stage_def lag_down_def nat_diff_distrib)

lemma machine_discovered:
  assumes "machine_inv owner opt f"
  shows "\<exists>os g. fake_discover ScopeOwned [] f = (Inr os, g) \<and> machine_inv owner opt g
    \<and> machine_stages g = (\<lambda>i. map_option lag_down (machine_stages f i)) \<and> distinct (observed_ids os)
    \<and> set (observed_ids os) = {i. \<exists>x. machine_stages g i = Some x \<and> sg_lag x = 0} \<and> list_all ob_owned os"
proof -
  let ?g = "f\<lparr>fk_objects := map lagged (fk_objects f)\<rparr>"
  let ?vis = "\<lambda>x. \<not> (fb_state x = ObGone \<or> fb_list_lag x > 0) \<and> \<not> (ScopeOwned \<noteq> ScopeAll \<and> \<not> fake_owned ?g x)
    \<and> labels_match (fb_labels x) []"
  let ?os = "map (fake_observe ?g) (filter ?vis (fk_objects ?g))"
  note inv = machine_invD [OF assms]
  have run: "fake_discover ScopeOwned [] f = (Inr ?os, ?g)"
    using calm_fake(1) [OF assms]
    by (simp add: fake_discover_def Let_def pages_all lagged_def [abs_def] flip: fun_eq_iff)
  have own: "fake_owned ?g x" if "x \<in> set (fk_objects ?g)" "fb_state x \<noteq> ObGone" for x
    using that inv(1,7) by (auto simp: fake_owned_def identified_def)
  have ids: "observed_ids ?os = map fb_id (filter ?vis (fk_objects ?g))"
    by (simp add: observed_ids_def fake_observe_def)
  have g: "machine_inv owner opt ?g"
    using inv by (auto simp: machine_inv_def comp_def)
  have vis: "?vis x \<longleftrightarrow> (\<exists>z. machine_stage x = Some z \<and> sg_lag z = 0)" if "x \<in> set (fk_objects ?g)" for x
    using own [OF that] by (auto simp: machine_stage_def)
  have view: "machine_stages ?g = (\<lambda>i. map_option lag_down (machine_stages f i))"
  proof
    have "tget fb_id i (map lagged xs) = map_option lagged (tget fb_id i xs)" for i xs
      by (induction xs) auto
    then show "machine_stages ?g i = map_option lag_down (machine_stages f i)" for i
      by (simp add: machine_stages_def view_of_def split: option.split)
  qed
  have "set (observed_ids ?os) = {i. \<exists>x. machine_stages ?g i = Some x \<and> sg_lag x = 0}"
  proof (intro set_eqI iffI)
    fix i assume "i \<in> set (observed_ids ?os)"
    then obtain x where x: "x \<in> set (fk_objects ?g)" "?vis x" "fb_id x = i" unfolding ids by auto
    then obtain z where z: "machine_stage x = Some z" "sg_lag z = 0" using vis by blast
    have "machine_stages ?g i = Some z"
      using view_of_mem [OF machine_invD(5) [OF g] x(1), of machine_stage] x(3) z(1) by (simp add: machine_stages_def)
    then show "i \<in> {i. \<exists>x. machine_stages ?g i = Some x \<and> sg_lag x = 0}" using z(2) by blast
  next
    fix i assume "i \<in> {i. \<exists>x. machine_stages ?g i = Some x \<and> sg_lag x = 0}"
    then obtain z where z: "machine_stages ?g i = Some z" "sg_lag z = 0" by blast
    then obtain x where x: "x \<in> set (fk_objects ?g)" "fb_id x = i" "machine_stage x = Some z"
      using machine_found [OF g z(1)] by metis
    have "?vis x" using vis [OF x(1)] x(3) z(2) by blast
    then have "fb_id x \<in> fb_id ` set (filter ?vis (fk_objects ?g))" using x(1) by (intro imageI) simp
    then show "i \<in> set (observed_ids ?os)" unfolding ids x(2) set_map .
  qed
  moreover have "distinct (observed_ids ?os)"
    unfolding ids using machine_invD(5) [OF g] by (rule distinct_map_filter)
  moreover have "list_all ob_owned ?os" by (auto simp: list_all_iff fake_observe_def)
  ultimately show ?thesis using run g view by blast
qed

interpretation machines: conforming_driver "machine_driver pd show_d" owner "machine_inv owner opt" machine_stages
    "machine_usable pd show_d" "machine_rejected pd" "nat (fo_create_steps opt)" "nat (fo_delete_steps opt)"
    "nat (fo_stop_steps opt)" "nat (fo_start_steps opt)" "nat (fo_list_lag_steps opt)" "fo_park opt"
  for pd show_d owner opt
proof (unfold_locales, goal_cases)
  case (1 raw rid nm oid)
  then show ?case by (rule machine_planned [of pd show_d raw rid owner nm oid]) simp
next
  case (2 ds rid)
  then show ?case
    by (auto simp: machine_rejected_def fake_plan_def fake_err_def classify_def effect_def split: sum.splits)
next
  case (3 raw rid nm oid act s)
  then show ?case using machine_created by simp
next
  case (4 raw rid nm oid act s i x)
  then show ?case using machine_replayed by simp
next
  case (5 s i x)
  then show ?case using machine_got by simp
next
  case (6 s i)
  then show ?case using machine_missing(1,3) by simp
next
  case (7 s u)
  then show ?case by (rule machine_no_such)
next
  case (8 s oref i x)
  then show ?case using machine_observed by simp
next
  case (9 s oref i)
  then show ?case using machine_missing(2,3) by simp
next
  case (10 s oid rid i)
  then show ?case using machine_deleted by simp
next
  case (11 s i x kind goal n oid)
  then show ?case using machine_powered by simp
next
  case (12 s)
  then show ?case using machine_discovered by simp
qed

section \<open>Volumes\<close>

definition volume_stage :: "vol_object \<Rightarrow> stage option" where
  "volume_stage x = (if vb_gone x then None else Some
     \<lparr>sg_op = lab (vb_labels x) label_op, sg_res = lab (vb_labels x) label_id, sg_goal = PhaseRunning, sg_left = 0, sg_lag = 0\<rparr>)"

definition volume_stages :: "fake \<Rightarrow> string \<Rightarrow> stage option" where
  "volume_stages f = view_of vb_id volume_stage (fk_volumes f)"

definition volume_id :: "nat \<Rightarrow> string" where "volume_id k = ''vol-'' @ digits (9000 + k)"

definition volume_inv :: "string \<Rightarrow> fake_options \<Rightarrow> fake \<Rightarrow> bool" where
  "volume_inv owner opt f \<longleftrightarrow> fk_owner f = owner \<and> fk_opt f = opt \<and> distinct (map vb_id (fk_volumes f))
     \<and> (\<forall>x \<in> set (fk_volumes f). (\<exists>k \<le> fk_seq f. vb_id x = volume_id k) \<and> (\<not> vb_gone x \<longrightarrow> identified owner (vb_labels x)))"

lemma volume_id_simps [simp]:
  "volume_id j = volume_id k \<longleftrightarrow> j = k" "volume_id k \<noteq> []" "volume_id k \<noteq> CHR ''d'' # u"
  by (simp_all add: volume_id_def)

lemma volume_invD:
  assumes "volume_inv owner opt f"
  shows "fk_owner f = owner" "distinct (map vb_id (fk_volumes f))"
    "x \<in> set (fk_volumes f) \<Longrightarrow> \<exists>k \<le> fk_seq f. vb_id x = volume_id k"
    "x \<in> set (fk_volumes f) \<Longrightarrow> \<not> vb_gone x \<Longrightarrow> identified owner (vb_labels x)" "fk_opt f = opt"
  using assms by (auto simp: volume_inv_def)

lemma volume_found:
  assumes "volume_stages f i = Some z"
  obtains x where "tget vb_id i (fk_volumes f) = Some x" "x \<in> set (fk_volumes f)" "vb_id x = i"
    "volume_stage x = Some z" "\<not> vb_gone x" "vol_find i f = Some x"
  using view_of_Some [of vb_id volume_stage "fk_volumes f" i z] assms
  by (auto simp: volume_stages_def volume_stage_def vol_find_def split: if_splits)

lemma volume_absent: "volume_stages f i = None \<Longrightarrow> vol_find i f = None"
  by (auto simp: volume_stages_def view_of_def vol_find_def volume_stage_def split: option.splits if_splits)

lemma volume_stage_settled:
  "volume_stage x = Some z \<Longrightarrow> sg_goal z = PhaseRunning \<and> sg_left z = 0 \<and> sg_lag z = 0
    \<and> sg_op z = lab (vb_labels x) label_op \<and> sg_res z = lab (vb_labels x) label_id"
  by (auto simp: volume_stage_def split: if_splits)

lemma volume_settled: "volume_stages f i = Some z \<Longrightarrow> sg_goal z = PhaseRunning \<and> sg_left z = 0 \<and> sg_lag z = 0"
  by (metis volume_found volume_stage_settled)

lemma vol_with_op_stage: "vol_with_op oid x \<longleftrightarrow> (\<exists>z. volume_stage x = Some z \<and> sg_op z = oid)"
  by (auto simp: vol_with_op_def volume_stage_def)

lemma volume_planned:
  assumes "is_ok (volume_parse_spec raw)"
  obtains spec where "vol_plan rid (conf_desired owner nm raw rid oid) =
      Inr [\<lparr>ac_action_id = [], ac_kind = ''create'', ac_resource_id = rid, ac_ref = None,
        ac_params = BVal (encode_vol_params \<lparr>vp_name = nm, vp_spec = spec, vp_labels = identity_labels owner rid oid\<rparr>),
        ac_destructive = False\<rparr>]"
  using assms by (auto simp: vol_plan_def conf_desired_def is_ok_iff)

lemma volume_create_run:
  assumes "is_ok (volume_parse_spec raw)" and "vol_plan rid (conf_desired owner nm raw rid oid) = Inr [act]"
  shows "\<exists>spec. vol_apply (act\<lparr>ac_action_id := oid\<rparr>) f = (case find (vol_with_op oid) (fk_volumes f) of
      Some x \<Rightarrow> (Inr \<lparr>or_action_id = oid, or_ref = Some (the_ref (vb_id x)), or_data = BNil\<rparr>, f)
    | None \<Rightarrow> (Inr \<lparr>or_action_id = oid, or_ref = Some (the_ref (volume_id (fk_seq f + 1))), or_data = BNil\<rparr>,
        f\<lparr>fk_seq := fk_seq f + 1, fk_volumes := fk_volumes f @ [\<lparr>vb_id = volume_id (fk_seq f + 1), vb_name = nm,
          vb_gone = False, vb_spec = spec, vb_labels = identity_labels owner rid oid\<rparr>]\<rparr>))"
proof -
  obtain spec where "act = \<lparr>ac_action_id = [], ac_kind = ''create'', ac_resource_id = rid, ac_ref = None,
        ac_params = BVal (encode_vol_params \<lparr>vp_name = nm, vp_spec = spec, vp_labels = identity_labels owner rid oid\<rparr>),
        ac_destructive = False\<rparr>"
    by (rule volume_planned [OF assms(1), of rid owner nm oid]) (use assms(2) in simp)
  then show ?thesis
    by (auto simp: vol_apply_def vol_create_def vol_params_roundtrip ref_of_def the_ref_def volume_id_def Let_def
        split: option.split)
qed

lemma volume_created:
  assumes "is_ok (volume_parse_spec raw)" and "vol_plan rid (conf_desired owner nm raw rid oid) = Inr [act]"
    and "volume_inv owner opt f" and "\<forall>i x. volume_stages f i = Some x \<longrightarrow> sg_op x \<noteq> oid"
  shows "\<exists>i oref g. vol_apply (act\<lparr>ac_action_id := oid\<rparr>) f = (Inr oref, g) \<and> or_ref oref = Some (the_ref i)
    \<and> i \<noteq> [] \<and> volume_stages f i = None \<and> volume_inv owner opt g
    \<and> volume_stages g = (volume_stages f)(i \<mapsto> \<lparr>sg_op = oid, sg_res = rid, sg_goal = PhaseRunning, sg_left = 0, sg_lag = 0\<rparr>)"
proof -
  note inv = volume_invD [OF assms(3)]
  have none: "find (vol_with_op oid) (fk_volumes f) = None"
    using find_by_op(1) [of vb_id "fk_volumes f" "vol_with_op oid" volume_stage oid] inv(2) vol_with_op_stage assms(4)
    by (simp add: volume_stages_def)
  obtain spec where run: "vol_apply (act\<lparr>ac_action_id := oid\<rparr>) f =
      (Inr \<lparr>or_action_id = oid, or_ref = Some (the_ref (volume_id (fk_seq f + 1))), or_data = BNil\<rparr>,
        f\<lparr>fk_seq := fk_seq f + 1, fk_volumes := fk_volumes f @ [\<lparr>vb_id = volume_id (fk_seq f + 1), vb_name = nm,
          vb_gone = False, vb_spec = spec, vb_labels = identity_labels owner rid oid\<rparr>]\<rparr>)"
    using volume_create_run [OF assms(1,2), of f] none by auto
  let ?x = "\<lparr>vb_id = volume_id (fk_seq f + 1), vb_name = nm, vb_gone = False, vb_spec = spec,
    vb_labels = identity_labels owner rid oid\<rparr>"
  let ?g = "f\<lparr>fk_seq := fk_seq f + 1, fk_volumes := fk_volumes f @ [?x]\<rparr>"
  have new: "vb_id ?x \<notin> vb_id ` set (fk_volumes f)" using inv(3) by fastforce
  have view: "volume_stages ?g = (volume_stages f)(vb_id ?x := volume_stage ?x)"
    using view_of_append [OF new] by (simp add: volume_stages_def)
  have st: "volume_stage ?x = Some \<lparr>sg_op = oid, sg_res = rid, sg_goal = PhaseRunning, sg_left = 0, sg_lag = 0\<rparr>"
    by (simp add: volume_stage_def identity_lab)
  have absent: "volume_stages f (volume_id (fk_seq f + 1)) = None"
    using new by (simp add: volume_stages_def view_of_def tget_None_iff [THEN iffD2])
  have old: "\<exists>k \<le> Suc (fk_seq f). vb_id y = volume_id k" if "y \<in> set (fk_volumes f)" for y
    using inv(3) [OF that] le_SucI by blast
  have "volume_inv owner opt ?g"
    using inv(1,2,4,5) new old by (auto simp: volume_inv_def identified_def identity_lab)
  then show ?thesis using run view st absent by (auto intro!: exI [of _ "volume_id (fk_seq f + 1)"])
qed

lemma volume_replayed:
  assumes "is_ok (volume_parse_spec raw)" and "vol_plan rid (conf_desired owner nm raw rid oid) = Inr [act]"
    and "volume_inv owner opt f" and "volume_stages f i = Some x" and "sg_op x = oid"
  shows "\<exists>j y oref. vol_apply (act\<lparr>ac_action_id := oid\<rparr>) f = (Inr oref, f) \<and> or_ref oref = Some (the_ref j)
    \<and> volume_stages f j = Some y \<and> sg_op y = oid"
proof -
  note find = find_by_op [of vb_id "fk_volumes f" "vol_with_op oid" volume_stage oid,
      OF volume_invD(2) [OF assms(3)] vol_with_op_stage, folded volume_stages_def]
  have "find (vol_with_op oid) (fk_volumes f) \<noteq> None" using find(1) assms(4,5) by blast
  then obtain y where y: "find (vol_with_op oid) (fk_volumes f) = Some y" by blast
  show ?thesis using volume_create_run [OF assms(1,2), of f] find(2) [OF y] y by auto
qed

lemma volume_got:
  assumes "volume_inv owner opt f" and "volume_stages f i = Some z"
  shows "\<exists>obs. vol_get (the_ref i) f = (Inr obs, f) \<and> (sg_left z = 0 \<longrightarrow> ob_phase obs = sg_goal z) \<and> ob_owned obs
    \<and> ob_extensions obs \<noteq> BNil \<and> ob_fleetplane_id obs = sg_res z \<and> ob_create_op_id obs = sg_op z
    \<and> (\<forall>k \<in> {label_managed, label_owner, label_id, label_op}.
         lab (ob_labels obs) k = lab (identity_labels owner (sg_res z) (sg_op z)) k)"
proof -
  obtain x where x: "x \<in> set (fk_volumes f)" "volume_stage x = Some z" "\<not> vb_gone x" "vol_find i f = Some x"
    using volume_found [OF assms(2)] by metis
  have "lab (vb_labels x) label_managed = ''true''" "lab (vb_labels x) label_owner = owner"
    using volume_invD(4) [OF assms(1) x(1,3)] by (simp_all add: identified_def)
  then show ?thesis
    using x(3,4) volume_stage_settled [OF x(2)] volume_invD(1) [OF assms(1)]
    by (simp add: vol_get_def vol_observe_def vol_owned_def identity_lab)
qed

lemma volume_missing:
  assumes "volume_stages f i = None"
  shows "vol_get (the_ref i) f = (Inl fake_not_found, f)"
    and "or_ref oref = Some (the_ref i) \<Longrightarrow> vol_observe_op oref f = (Inl fake_not_found, f)"
  using volume_absent [OF assms] by (simp_all add: vol_get_def vol_observe_op_def)

lemma volume_no_such:
  assumes "volume_inv owner opt f"
  shows "volume_stages f (''does-not-exist-'' @ u) = None"
proof (rule ccontr)
  assume "volume_stages f (''does-not-exist-'' @ u) \<noteq> None"
  then obtain z where "volume_stages f (''does-not-exist-'' @ u) = Some z" by blast
  then obtain x where "x \<in> set (fk_volumes f)" "vb_id x = ''does-not-exist-'' @ u" using volume_found by metis
  then show False using volume_invD(3) [OF assms, of x] by (auto simp: volume_id_def)
qed

lemma volume_observed:
  assumes "or_ref oref = Some (the_ref i)" and "volume_stages f i = Some z"
  shows "\<exists>st. vol_observe_op oref f = (Inr st, f) \<and> volume_stages f = (volume_stages f)(i := advance z)
    \<and> st_state st = (if sg_left z \<le> 1 then PsSucceeded else PsRunning)"
proof -
  obtain x where x: "volume_stage x = Some z" "vol_find i f = Some x" using volume_found [OF assms(2)] by metis
  have "advance z = Some z" using volume_stage_settled [OF x(1)] by (simp add: advance_def)
  then show ?thesis
    using assms x volume_stage_settled [OF x(1)] by (auto simp: vol_observe_op_def fun_upd_idem)
qed

lemma volume_deleted:
  assumes "volume_inv owner opt f"
  shows "\<exists>oref g. vol_apply (delete_action oid rid (the_ref i)) f = (Inr oref, g) \<and> or_ref oref = Some (the_ref i)
    \<and> volume_inv owner opt g \<and> volume_stages g = (case volume_stages f i of None \<Rightarrow> volume_stages f
        | Some x \<Rightarrow> (volume_stages f)(i := None))"
proof -
  let ?v = "\<lambda>x. x\<lparr>vb_gone := True\<rparr>"
  let ?g = "f\<lparr>fk_volumes := tupd vb_id i ?v (fk_volumes f)\<rparr>"
  have keep: "keeps_key vb_id ?v" by (simp add: keeps_key_def)
  have run: "vol_apply (delete_action oid rid (the_ref i)) f =
      (Inr \<lparr>or_action_id = oid, or_ref = Some (the_ref i), or_data = BNil\<rparr>, ?g)"
    by (simp add: vol_apply_def vol_delete_def delete_action_def)
  have "(case tget vb_id i (fk_volumes f) of None \<Rightarrow> None | Some x \<Rightarrow> volume_stage (?v x)) = None"
    by (simp add: volume_stage_def split: option.split)
  then have "volume_stages ?g = (volume_stages f)(i := None)"
    using view_of_tupd [OF keep, of volume_stage i "fk_volumes f"] by (simp add: volume_stages_def)
  then have view: "volume_stages ?g = (case volume_stages f i of None \<Rightarrow> volume_stages f
      | Some x \<Rightarrow> (volume_stages f)(i := None))"
    by (simp add: fun_upd_idem split: option.split)
  have "volume_inv owner opt ?g"
    using volume_invD [OF assms] map_key_tupd [OF keep]
    by (auto simp: volume_inv_def tupd_def comp_def if_distrib cong: if_cong)
  then show ?thesis using run view by auto
qed

lemma volume_discovered:
  assumes "volume_inv owner opt f"
  shows "\<exists>os. vol_discover ScopeOwned [] f = (Inr os, f) \<and> distinct (observed_ids os)
    \<and> volume_stages f = (\<lambda>i. map_option lag_down (volume_stages f i))
    \<and> set (observed_ids os) = {i. \<exists>x. volume_stages f i = Some x \<and> sg_lag x = 0} \<and> list_all ob_owned os"
proof -
  let ?vis = "\<lambda>x. \<not> vb_gone x \<and> (ScopeOwned = ScopeAll \<or> vol_owned f x) \<and> labels_match (vb_labels x) []"
  let ?os = "map (vol_observe f) (filter ?vis (fk_volumes f))"
  note inv = volume_invD [OF assms]
  have ids: "observed_ids ?os = map vb_id (filter ?vis (fk_volumes f))"
    by (simp add: observed_ids_def vol_observe_def)
  have vis: "?vis x \<longleftrightarrow> (\<exists>z. volume_stage x = Some z)" if "x \<in> set (fk_volumes f)" for x
    using inv(1) inv(4) [OF that] by (auto simp: volume_stage_def vol_owned_def identified_def)
  have "set (observed_ids ?os) = {i. \<exists>x. volume_stages f i = Some x \<and> sg_lag x = 0}"
  proof (intro set_eqI iffI)
    fix i assume "i \<in> set (observed_ids ?os)"
    then obtain x where x: "x \<in> set (fk_volumes f)" "?vis x" "vb_id x = i" unfolding ids by auto
    then obtain z where z: "volume_stage x = Some z" using vis by blast
    have "volume_stages f i = Some z"
      using view_of_mem [OF inv(2) x(1), of volume_stage] x(3) z by (simp add: volume_stages_def)
    then show "i \<in> {i. \<exists>x. volume_stages f i = Some x \<and> sg_lag x = 0}" using volume_settled by blast
  next
    fix i assume "i \<in> {i. \<exists>x. volume_stages f i = Some x \<and> sg_lag x = 0}"
    then obtain x z where x: "x \<in> set (fk_volumes f)" "vb_id x = i" "volume_stage x = Some z"
      by (blast elim: volume_found)
    have "?vis x" using vis [OF x(1)] x(3) by blast
    then have "vb_id x \<in> vb_id ` set (filter ?vis (fk_volumes f))" using x(1) by (intro imageI) simp
    then show "i \<in> set (observed_ids ?os)" unfolding ids x(2) set_map .
  qed
  moreover have "distinct (observed_ids ?os)" unfolding ids using inv(2) by (rule distinct_map_filter)
  moreover have "map_option lag_down (volume_stages f i) = volume_stages f i" for i
    using volume_settled [of f i] by (cases "volume_stages f i") (simp_all add: lag_down_def)
  moreover have "vol_discover ScopeOwned [] f = (Inr ?os, f)" by (simp add: vol_discover_def)
  moreover have "list_all ob_owned ?os" by (auto simp: list_all_iff vol_observe_def)
  ultimately show ?thesis by auto
qed

interpretation volume_set: conforming_driver volume_driver owner "volume_inv owner opt" volume_stages
    "\<lambda>raw. is_ok (volume_parse_spec raw)" "\<lambda>raw. \<not> is_ok (volume_parse_spec raw)" 0 0 0 0 0 False
  for owner opt
proof (unfold_locales, goal_cases)
  case (1 raw rid nm oid)
  then show ?case by (rule volume_planned [of raw rid owner nm oid]) simp
next
  case (2 ds rid)
  then show ?case by (auto simp: vol_plan_def fake_err_def classify_def effect_def split: sum.splits)
next
  case (3 raw rid nm oid act s)
  then show ?case using volume_created by simp
next
  case (4 raw rid nm oid act s i x)
  then show ?case using volume_replayed by simp
next
  case (5 s i x)
  then show ?case using volume_got by simp
next
  case (6 s i)
  then show ?case using volume_missing(1) machine_missing(3) by (simp add: fake_not_found_def fake_err_def classify_def)
next
  case (7 s u)
  then show ?case by (rule volume_no_such)
next
  case (8 s oref i x)
  then show ?case using volume_observed [OF 8(2,3)] by auto
next
  case (9 s oref i)
  then show ?case using volume_missing(2) by (simp add: fake_not_found_def fake_err_def classify_def)
next
  case (10 s oid rid i)
  then show ?case using volume_deleted by (simp cong: option.case_cong)
next
  case (12 s)
  then show ?case using volume_discovered [OF 12] 12 unfolding driver_simps by blast
qed simp_all

section \<open>The suite passes\<close>

text \<open>
  What the settings of the fake and of the harness have to fulfil: valid specs, an invalid spec that
  is one, billing settings that are not negative, and delays within the step bound.
\<close>

definition sane_options :: "fake_options \<Rightarrow> nat \<Rightarrow> bool" where
  "sane_options opt n \<longleftrightarrow> (\<forall>k \<in> {fo_create_steps opt, fo_delete_steps opt, fo_stop_steps opt, fo_start_steps opt,
       fo_list_lag_steps opt}. k \<le> int n)
     \<and> 0 \<le> fo_start_estimate opt \<and> map_of (fo_billing opt) undeclared_kind = None
     \<and> (\<forall>(_, b) \<in> set (fo_billing opt). 0 \<le> bp_minimum b \<and> 0 \<le> bp_increment b \<and> 0 \<le> bp_buffer b)"

definition sane_harness :: "(string \<Rightarrow> int option) \<Rightarrow> fake harness \<Rightarrow> bool" where
  "sane_harness pd h \<longleftrightarrow> hn_kind h \<in> {compute_kind, volume_kind}
     \<and> (\<forall>n \<ge> 1. is_ok (kinds_validate pd (hn_kind h) (hn_new_spec h n)))
     \<and> (hn_invalid_spec h = BNil \<or> \<not> is_ok (kinds_validate pd (hn_kind h) (hn_invalid_spec h)))
     \<and> hn_owner h \<noteq> [] \<and> inj (hn_uid h)"

lemma fake_capabilities:
  assumes "sane_options opt n"
  shows "0 \<le> bp_minimum (fake_billing opt k) \<and> 0 \<le> bp_increment (fake_billing opt k) \<and> 0 \<le> bp_buffer (fake_billing opt k)"
    and "fine_grained (fake_billing opt undeclared_kind)"
    and "0 \<le> pk_start_estimate (fake_parking opt k)" and "\<not> pk_supported (fake_parking opt undeclared_kind)"
    and "pk_supported (fake_parking opt k) \<Longrightarrow> fo_park opt \<and> k = compute_kind"
  using assms
  by (auto simp: fake_billing_def fake_parking_def sane_options_def zero_billing_def fine_grained_def zero_park_def
      undeclared_kind_def compute_kind_def split: option.splits if_splits dest: map_of_SomeD)

lemma kinds_split: "volume_kind \<noteq> compute_kind" by (simp add: volume_kind_def compute_kind_def)

lemma kinds_validate_ok [simp]:
  "is_ok (kinds_validate pd compute_kind raw) \<longleftrightarrow> is_ok (parse_spec pd raw)"
  "is_ok (kinds_validate pd volume_kind raw) \<longleftrightarrow> is_ok (volume_parse_spec raw)"
  by (auto simp: kinds_validate_def compute_kind_def volume_kind_def bindE_Inr_iff is_ok_iff)

text \<open>
  C16. The in-tree fake provider passes its conformance suite, for machines and for volumes: on a
  fresh instance with any delays, list lag, page size, billing and parking settings that the step
  bound covers, no subtest of the catalog fails, the bulk subtests included.
\<close>

theorem fake_passes_conformance:
  assumes "hn_provider h = fake_kit pd show_d" and "\<And>t. pd (show_d t) = Some t"
    and "sane_harness pd h" and "sane_options opt (max_steps h)"
  shows "suite_passes h (new_fake (hn_owner h) opt)"
proof (cases "hn_kind h = compute_kind")
  case True
  have usable: "machine_usable pd show_d (hn_new_spec h n)" if "1 \<le> n" for n
  proof -
    have "is_ok (parse_spec pd (hn_new_spec h n))" using assms(3) that True by (simp add: sane_harness_def)
    then show ?thesis using create_params_roundtrip [OF assms(2)] by (auto simp: machine_usable_def is_ok_iff)
  qed
  have "machines.harness_ok pd show_d (hn_owner h) opt h"
    unfolding machines.harness_ok_def
    using usable assms(1,3,4) True fake_capabilities [OF assms(4)]
    by (auto simp: fake_kit_def sane_harness_def sane_options_def machine_rejected_def machine_inv_def nat_le_iff)
  then show ?thesis
    by (rule machines.suite_ok) (simp_all add: machine_inv_def new_fake_def machine_stages_def view_of_def)
next
  case False
  then have k: "hn_kind h = volume_kind" using assms(3) by (simp add: sane_harness_def)
  have "volume_set.harness_ok (hn_owner h) opt h"
    unfolding volume_set.harness_ok_def
    using assms(1,3) k kinds_split fake_capabilities [OF assms(4)]
    by (auto simp: fake_kit_def sane_harness_def volume_inv_def)
  then show ?thesis
    by (rule volume_set.suite_ok) (simp_all add: volume_inv_def new_fake_def volume_stages_def view_of_def)
qed

text \<open>A fake with delays of every kind, pages of two, billing and parking, under the whole catalog.\<close>

definition ex_options :: fake_options where
  "ex_options = \<lparr>fo_create_steps = 3, fo_delete_steps = 2, fo_stop_steps = 1, fo_start_steps = 2, fo_list_lag_steps = 4,
     fo_page_size = 2, fo_park = True, fo_start_estimate = 30, fo_billing = [(''compute.machine'', \<lparr>bp_minimum = 60,
       bp_increment = 60, bp_buffer = 5\<rparr>)]\<rparr>"

definition ex_harness :: "fake harness" where
  "ex_harness = \<lparr>hn_provider = fake_kit parse_decimal show_int, hn_kind = compute_kind,
     hn_new_spec = (\<lambda>n. BVal (JObj [(''serverType'', JStr ''cx22''), (''image'', JStr ''name:ubuntu''),
       (''location'', JStr (show_int n))])),
     hn_invalid_spec = BVal (JObj [(''serverType'', JStr [])]), hn_owner = ''own_1'', hn_eventual = False,
     hn_expensive = True, hn_max_steps = 10, hn_uid = digits\<rparr>"

theorem fake_passes_conformance_witness: "suite_passes ex_harness (new_fake ''own_1'' ex_options)"
proof -
  have 1: "is_ok (kinds_validate parse_decimal (hn_kind ex_harness) (hn_new_spec ex_harness n))" for n
    by (simp add: ex_harness_def) (simp add: parse_spec_def decode_machine_def jfield_def machine_validate_def is_ok_def)
  have 2: "\<not> is_ok (kinds_validate parse_decimal (hn_kind ex_harness) (hn_invalid_spec ex_harness))"
    by (simp add: ex_harness_def) (simp add: parse_spec_def decode_machine_def jfield_def machine_validate_def is_ok_def)
  have 3: "sane_harness parse_decimal ex_harness"
    unfolding sane_harness_def using 1 2 by (simp add: ex_harness_def inj_def)
  have 4: "sane_options ex_options (max_steps ex_harness)"
    by (simp add: sane_options_def ex_options_def ex_harness_def max_steps_def undeclared_kind_def)
  have "suite_passes ex_harness (new_fake (hn_owner ex_harness) ex_options)"
    by (rule fake_passes_conformance [of ex_harness parse_decimal show_int, OF _ parse_decimal_show 3 4])
      (simp add: ex_harness_def)
  then show ?thesis by (simp add: ex_harness_def)
qed

end
