(* ===== verification/Spec2Isabelle.thy ===== *)
theory Spec2Isabelle
  imports Guarantees Cloud_Witnesses Command_Witnesses Cloud_Init_Witnesses Setup_Witnesses
    Fleet_Gauges Store_Open Fake_Conformance
begin

text \<open>
  Fleetplane: a control plane for fleets of rented machines, verified.

  \<^bold>\<open>The program.\<close>
  Fleetplane (Go) keeps machines of several clouds as rows of an SQLite database and lends them
  out. A client asks the HTTP API for an acquisition; the scheduler binds it to a machine that is
  there, starts a parked one, queues it, or has a machine created. Whatever touches a cloud is first
  journaled as an operation; the engine is the only part that calls the providers' mutations, and it
  drives an operation until the cloud confirms or denies it, through restarts and lost answers. The
  lease manager ends leases, the reconciler keeps pools at their size and reclaims idle machines in
  the last paid minutes, the discovery sweep compares the database with what the clouds list. All
  these parts share nothing but the database: each of their steps is one transaction, and a step of
  one part may come between any two steps of another.

  \<^bold>\<open>How the code is modelled.\<close>
  A transaction is a function from its arguments and the database to an error or the new database
  (\<open>err + db\<close>); an error rolls back. The database is a record with one list of rows per table, and a
  violated UNIQUE index, CHECK or foreign key is an error of the statement. Errors are the sentinel
  errors of the code and its typed provider errors, whose texts are kept where the code looks at
  them. Fresh identifiers (ULIDs), clocks, the answers of providers, the parser of JSON and YAML
  texts, \<open>time.ParseDuration\<close> and the texts of durations and times, SHA-256, the environment and
  files are arguments, so each theorem holds for all their values. \<open>int64\<close> values are integers with
  the wrap-around written out where a computation can reach it (\<open>i64\<close>), or with the reason why it
  cannot. Strings are byte strings of ASCII. A Go map is a list of pairs in the order of iteration, a
  JSON column a \<open>blob\<close>: empty, undecodable, or a decoded value. Loops over listings that a cloud
  pages have a bound on the number of pages; all theorems about them hold for every bound.

  \<^bold>\<open>Theories, from the bottom.\<close>
  Foundations: \<open>Prelude\<close> (results, transactions, \<open>int64\<close>, JSON, tables with a key, the collections of
  rewrite rules), \<open>Go_Text\<close> (strings, strconv, base64), \<open>URL_Text\<close> (net/url), \<open>Provider_SDK\<close>
  (pkg/sdk/provider: errors, classification, operations, policies), \<open>Phase\<close> (internal/phase),
  \<open>Capacity\<close> (internal/capacity: vectors, fitting, requests), \<open>Compute\<close> (pkg/kinds: machine and
  volume specs), \<open>Billing\<close> (internal/billing: paid time, boundaries, windows, useful time).

  Storage: \<open>Store_Types\<close> (the rows of internal/storage/types.go), \<open>Store\<close> (the methods of
  internal/storage/sqlite: compare-and-set of phases and states, leases, acquisitions, the operation
  journal, idempotency records, pools, classes, events, checkpoints), \<open>Store_Laws\<close> (what each leaves
  alone, and the compare-and-set contract as a locale with its four interpretations),
  \<open>Invariants\<close> (the core invariant of the tables and its preservation by every method),
  \<open>Store_Open\<close> (opening and migrating the database, \<open>Tx\<close> and \<open>View\<close>, error mapping, nullable columns:
  no failed opening leaves a pool open, a newer schema is refused, a transaction is all or nothing).

  Kernel: \<open>Drivers\<close> (a provider as a record of answers), \<open>Provision\<close> (journaling of creates, stops
  and starts), \<open>Lease_Manager\<close>, \<open>Kernel_Laws\<close> (leases and acquisitions correspond), \<open>Engine\<close>
  (internal/operations), \<open>Scheduler\<close>, \<open>Reconciler\<close> (pools, cost-aware and idle reclaim),
  \<open>Discovery\<close>, \<open>App\<close> and \<open>App_Admin\<close> (the commands of internal/app), \<open>Health\<close>.
  \<open>System\<close> is the step relation: one constructor per transaction of any goroutine, reachability, and
  the invariant by rule induction. \<open>Runs\<close> shows that every loop and command of the code is a run of
  that relation. \<open>Scenario\<close> and \<open>Witnesses\<close> hold concrete states, \<open>Safety\<close> and \<open>Guarantees\<close> the
  theorems about the kernel.

  Providers: \<open>Pacing\<close> (providers/pacing), \<open>Driver_Kit\<close> (calls on a cloud, errors, and the driver
  contract as a locale), \<open>DO_Tags\<close> and \<open>GCP_Labels\<close> (label codecs), \<open>Hetzner\<close>,
  \<open>Digital_Ocean\<close>, \<open>GCP\<close>, \<open>AWS\<close>, \<open>Docker\<close>, \<open>Fake_Provider\<close> and \<open>Fake_Volumes\<close> (one driver each,
  which interprets the contract), \<open>Clouds\<close> and \<open>Cloud_Witnesses\<close>. \<open>Conformance\<close> is the suite of
  pkg/sdk/conformance as a program over a driver, \<open>Conformance_Laws\<close> the contract under which it
  passes (a locale over a reference model of resources), \<open>Fake_Conformance\<close> its interpretations.
  \<open>Driver_Setup\<close> and \<open>Cloud_Setup\<close> are the settings, constructors, descriptors and plans of the six
  drivers and the registry that compiles them in; \<open>Setup_Laws\<close> has the contract of a factory as a locale
  with the six as interpretations, \<open>Setup_Guarantees\<close> and \<open>Setup_Witnesses\<close> what a boot gets from them.

  API: \<open>Wire\<close>, \<open>Wire_Decode\<close>, \<open>Wire_Laws\<close> (the types of pkg/apiclient, encoding, strict and lax
  decoding, round trips), \<open>Auth\<close> (tokens and permissions), \<open>Routes\<close> (the route table and the
  multiplexer), \<open>Handlers\<close> (each handler with its middleware, and the gate), \<open>API_Laws\<close>,
  \<open>Reply_Types\<close> (a type system of replies), \<open>API_Guarantees\<close>, \<open>API_Witnesses\<close>, \<open>Client\<close> (the Go
  client), \<open>Fleet_Gauges\<close> (internal/app/stats.go).

  Process and commands: \<open>Config\<close> (internal/config), \<open>Identity\<close> (ids, secret references, the
  identity of the plane), \<open>Boot\<close>, \<open>Boot_Laws\<close>, \<open>Boot_Witnesses\<close> (internal/boot, the provider
  manager), \<open>Commands\<close>, \<open>Command_Laws\<close>, \<open>Command_Witnesses\<close> (internal/cli over the client),
  \<open>Cloud_Init\<close>, \<open>Cloud_Init_Laws\<close>, \<open>Cloud_Init_Witnesses\<close> (internal/cli/cloudinit.go).

  \<^bold>\<open>What is shown.\<close>
  \<^item> Safety of the whole kernel, in every state that any interleaving of its parts, any answers of the
    clouds, crashes and boots can reach: a leased machine is live and not on its way out; bound
    acquisitions and active leases correspond; at most one operation is open on a machine; an
    exclusive lease is alone; phases and states only take legal transitions.
  \<^item> Refinement: the loops of the kernel, every HTTP request and every life of the process are runs of
    the transaction steps.
  \<^item> The journal: an operation is dispatched only after its row says so, ambiguous answers lead to
    verification, a create is sent again only on proof of its absence, and the drivers of the clouds
    find what an earlier try made. Parking gives up after eight attempts.
  \<^item> Functional behaviour of reservation, release, the ladder of satisfaction, reclaim, the reconcile
    cycle, the sweep and the resume after a restart, with their bounds.
  \<^item> The API: replies are well typed, writes need the permission of their route, retried creates make
    nothing, client and server agree on routes and documents.
  \<^item> The outside: a boot serves the classes and tokens of its configuration, cloud-init ships a
    configuration that boots and authenticates, a successful watch means a lease, applying a manifest
    again makes nothing, the gauges count the fleet, the fake provider passes the conformance suite.
  \<^item> The drivers as they are built: their clients get resolved secrets and no reference, and the kernel
    sees exactly the kinds an instance serves.
  \<^item> Codecs and arithmetic: round trips of wire types, tags, labels, tokens and secrets files; the
    closed form of the billing boundary; reservations fit the capacity.
  \<^item> Places where the code does otherwise than its comments or guides say, each as a theorem.

  \<^bold>\<open>Bounds.\<close>
  \<open>do_max_pages\<close>, \<open>gp_max_pages\<close> and \<open>aw_max_pages\<close> bound a paged listing; a listing of fewer pages is
  read to its end, and the theorems hold for every value. \<open>max_steps\<close> is the harness's own bound on
  the polls of an operation (two hundred by default); the suite passes for every fake whose delays are
  below it. \<open>scan_lines\<close>, \<open>walk_strings\<close> and the decoders recurse on the length or the size of their
  input; the boundary search of \<open>Billing\<close>, the ladder, the reconcile and the discovery loops run over
  finite lists of their snapshot; \<open>watch_loop\<close> runs over the polls that fit its timeout. No definition
  of the code is partial.

  \<^bold>\<open>Not modelled.\<close>
  \<^item> Goroutines, wake channels and tickers: the step relation lets every part act at any time, which
    includes all their schedules. Contexts and cancellation, locks and panics of handlers.
  \<^item> Logging, tracing hooks and the Prometheus counters of internal/metrics, which nothing reads.
  \<^item> Input and output: what SQLite, its driver and goose do with a file, a pragma and a migration,
    listeners and TLS, the flag parser and the tables of the command line, the embedded dashboard, install
    scripts and the clean-up script of the end-to-end tests.
  \<^item> The client libraries of the clouds (their constructors and calls are arguments); the waiting of the pacer (its decisions are modelled).
  \<^item> Texts beyond ASCII, the merging of duplicate nested keys by \<open>encoding/json\<close>, path cleaning of
    \<open>net/http\<close>, bodies of HEAD requests, and years beyond four digits in RFC 3339.
\<close>

end
